(* ===== verification/EG_Prelude.thy ===== *)
theory EG_Prelude
  imports Main "HOL-Library.Word" "HOL-Library.Multiset"
begin

text \<open>
  Shared ground of the development: the theorem collections the component proofs use, the
  types that name Go's values, and the part of Go's \<^verbatim>\<open>strings\<close> package the gateway calls.

  A Go string is a list of bytes (\<^typ>\<open>string\<close>). The case and white-space functions
  (\<open>ToLower\<close>, \<open>ToUpper\<close>, \<open>EqualFold\<close>, \<open>TrimSpace\<close>, \<open>Fields\<close>) act on ASCII bytes: the
  Unicode case and space tables of Go are not modelled, so the statements that use them speak
  about ASCII text. Times and durations are \<^typ>\<open>int\<close> in nanoseconds, as Go's
  \<^verbatim>\<open>time.Duration\<close> counts them.
\<close>

named_theorems go_string \<open>characterisations of the Go string functions\<close>
named_theorems inv_intros \<open>operations that keep a component's invariant\<close>
named_theorems frame \<open>what an operation leaves as it was\<close>

type_synonym go_time = int
type_synonym go_duration = int

abbreviation (input) nanosecond :: go_duration where "nanosecond \<equiv> 1"
abbreviation (input) millisecond :: go_duration where "millisecond \<equiv> 1000000"
abbreviation (input) second :: go_duration where "second \<equiv> 1000000000"
abbreviation (input) minute :: go_duration where "minute \<equiv> 60000000000"

section \<open>Go strings\<close>

fun HasPrefix :: "string \<Rightarrow> string \<Rightarrow> bool" where
  "HasPrefix s [] = True"
| "HasPrefix [] (p # ps) = False"
| "HasPrefix (c # s) (p # ps) = (c = p \<and> HasPrefix s ps)"

definition HasSuffix :: "string \<Rightarrow> string \<Rightarrow> bool" where
  "HasSuffix s p = HasPrefix (rev s) (rev p)"

definition TrimPrefix :: "string \<Rightarrow> string \<Rightarrow> string" where
  "TrimPrefix s p = (if HasPrefix s p then drop (length p) s else s)"

definition TrimSuffix :: "string \<Rightarrow> string \<Rightarrow> string" where
  "TrimSuffix s p = (if HasSuffix s p then take (length s - length p) s else s)"

definition isSpace :: "char \<Rightarrow> bool" where
  "isSpace c = (let n = of_char c :: nat in (9 \<le> n \<and> n \<le> 13) \<or> n = 32)"

definition trimBy :: "(char \<Rightarrow> bool) \<Rightarrow> string \<Rightarrow> string" where
  "trimBy p s = rev (dropWhile p (rev (dropWhile p s)))"

definition TrimSpace :: "string \<Rightarrow> string" where
  "TrimSpace s = trimBy isSpace s"

definition TrimByte :: "string \<Rightarrow> char \<Rightarrow> string" where
  "TrimByte s c = trimBy (\<lambda>x. x = c) s"

definition lowerByte :: "char \<Rightarrow> char" where
  "lowerByte c = (let n = of_char c :: nat in if 65 \<le> n \<and> n \<le> 90 then char_of (n + 32) else c)"

definition upperByte :: "char \<Rightarrow> char" where
  "upperByte c = (let n = of_char c :: nat in if 97 \<le> n \<and> n \<le> 122 then char_of (n - 32) else c)"

definition ToLower :: "string \<Rightarrow> string" where "ToLower s = map lowerByte s"
definition ToUpper :: "string \<Rightarrow> string" where "ToUpper s = map upperByte s"

definition EqualFold :: "string \<Rightarrow> string \<Rightarrow> bool" where
  "EqualFold s t = (ToLower s = ToLower t)"

text \<open>\<open>strings.Split\<close> with a one-byte separator: never empty, one field more than separators.\<close>

fun splitByte :: "char \<Rightarrow> string \<Rightarrow> string list" where
  "splitByte c [] = [ [] ]"
| "splitByte c (x # xs) =
     (if x = c then [] # splitByte c xs
      else (case splitByte c xs of [] \<Rightarrow> [ [x] ] | y # ys \<Rightarrow> (x # y) # ys))"

fun Join :: "string list \<Rightarrow> string \<Rightarrow> string" where
  "Join [] sep = []"
| "Join [x] sep = x"
| "Join (x # y # ys) sep = x @ sep @ Join (y # ys) sep"

fun Contains :: "string \<Rightarrow> string \<Rightarrow> bool" where
  "Contains [] p = (p = [])"
| "Contains (c # s) p = (HasPrefix (c # s) p \<or> Contains s p)"

text \<open>\<open>strings.Fields\<close>: the maximal runs of non-space bytes.\<close>

fun fieldsAcc :: "string \<Rightarrow> string \<Rightarrow> string list" where
  "fieldsAcc acc [] = (if acc = [] then [] else [rev acc])"
| "fieldsAcc acc (c # s) =
     (if isSpace c then (if acc = [] then fieldsAcc [] s else rev acc # fieldsAcc [] s)
      else fieldsAcc (c # acc) s)"

definition Fields :: "string \<Rightarrow> string list" where "Fields s = fieldsAcc [] s"

text \<open>\<open>strings.LastIndex\<close> and \<open>strings.IndexByte\<close> for one byte; \<^term>\<open>None\<close> is Go's \<open>-1\<close>.\<close>

fun IndexByte :: "string \<Rightarrow> char \<Rightarrow> nat option" where
  "IndexByte [] c = None"
| "IndexByte (x # s) c = (if x = c then Some 0 else map_option Suc (IndexByte s c))"

definition LastIndexByte :: "string \<Rightarrow> char \<Rightarrow> nat option" where
  "LastIndexByte s c =
     (case IndexByte (rev s) c of None \<Rightarrow> None | Some i \<Rightarrow> Some (length s - 1 - i))"

text \<open>Decimal text of an integer, as the verb \<^verbatim>\<open>%d\<close> prints it.\<close>

fun showNat :: "nat \<Rightarrow> string" where
  "showNat n = (if n < 10 then [char_of (48 + n)] else showNat (n div 10) @ [char_of (48 + n mod 10)])"

declare showNat.simps [simp del]

definition showInt :: "int \<Rightarrow> string" where
  "showInt i = (if i < 0 then CHR ''-'' # showNat (nat (- i)) else showNat (nat i))"

section \<open>Lemmas on Go strings\<close>

lemma HasPrefix_iff [go_string]: "HasPrefix s p \<longleftrightarrow> (\<exists>t. s = p @ t)"
  by (induction s p rule: HasPrefix.induct) auto

lemma HasPrefix_append [simp]: "HasPrefix (p @ t) p"
  by (auto simp: HasPrefix_iff)

lemma HasPrefix_length: "HasPrefix s p \<Longrightarrow> length p \<le> length s"
  by (auto simp: HasPrefix_iff)

lemma HasSuffix_iff [go_string]: "HasSuffix s p \<longleftrightarrow> (\<exists>t. s = t @ p)"
  unfolding HasSuffix_def HasPrefix_iff
  by (metis rev_append rev_rev_ident)

lemma HasSuffix_last: "HasSuffix s [c] \<longleftrightarrow> s \<noteq> [] \<and> last s = c"
  by (cases s rule: rev_cases) (auto simp: HasSuffix_iff)

lemma TrimPrefix_append [simp]: "TrimPrefix (p @ t) p = t"
  by (simp add: TrimPrefix_def)

lemma TrimSuffix_last: "TrimSuffix s [c] = (if s \<noteq> [] \<and> last s = c then butlast s else s)"
  by (simp add: TrimSuffix_def HasSuffix_last butlast_conv_take)

lemma splitByte_not_Nil [simp]: "splitByte c s \<noteq> []"
  by (cases s) (auto split: list.splits)

lemma splitByte_no_sep: "c \<notin> set s \<Longrightarrow> splitByte c s = [s]"
  by (induction s) auto

lemma splitByte_append: "c \<notin> set s \<Longrightarrow> splitByte c (s @ c # t) = s # splitByte c t"
  by (induction s) (auto split: list.splits)

lemma splitByte_Join:
  "xs \<noteq> [] \<Longrightarrow> (\<forall>x \<in> set xs. c \<notin> set x) \<Longrightarrow> splitByte c (Join xs [c]) = xs"
proof (induction xs "[c]" rule: Join.induct)
  case (3 x y ys)
  then show ?case by (simp add: splitByte_append)
qed (auto simp: splitByte_no_sep)

lemma Join_splitByte: "Join (splitByte c s) [c] = s"
proof (induction s)
  case (Cons x xs)
  then show ?case
    by (cases "splitByte c xs"; cases "tl (splitByte c xs)") auto
qed simp

lemma splitByte_fields_no_sep: "f \<in> set (splitByte c s) \<Longrightarrow> c \<notin> set f"
  by (induction s arbitrary: f) (auto split: list.splits if_splits)

lemma splitByte_append_sep: "splitByte c (s @ c # t) = splitByte c s @ splitByte c t"
  by (induction s) (auto split: list.splits)

lemma Join_append: "xs \<noteq> [] \<Longrightarrow> ys \<noteq> [] \<Longrightarrow> Join (xs @ ys) sep = Join xs sep @ sep @ Join ys sep"
proof (induction xs sep rule: Join.induct)
  case (2 x sep)
  then show ?case by (cases ys) auto
qed auto

lemma Contains_byte: "Contains s [c] \<longleftrightarrow> c \<in> set s"
  by (induction s) auto

lemma trimBy_id: "s = [] \<or> (\<not> p (hd s) \<and> \<not> p (last s)) \<Longrightarrow> trimBy p s = s"
  unfolding trimBy_def by (subst dropWhile_eq_self_iff [THEN iffD2]; (auto simp: hd_rev)?)+

lemma set_trimBy: "set (trimBy p s) \<subseteq> set s"
  unfolding trimBy_def by (metis set_dropWhileD set_rev subsetI)

lemma hd_trimBy: "trimBy p s \<noteq> [] \<Longrightarrow> \<not> p (hd (trimBy p s))"
proof -
  assume ne: "trimBy p s \<noteq> []"
  let ?d = "dropWhile p s"
  have "hd (trimBy p s) = hd ?d"
  proof -
    obtain t where t: "?d = trimBy p s @ t"
      unfolding trimBy_def
      by (metis rev_append rev_rev_ident takeWhile_dropWhile_id)
    show ?thesis using ne by (simp add: t)
  qed
  moreover have "?d \<noteq> []" using ne unfolding trimBy_def by force
  ultimately show ?thesis using hd_dropWhile by metis
qed

lemma last_trimBy: "trimBy p s \<noteq> [] \<Longrightarrow> \<not> p (last (trimBy p s))"
  by (simp add: trimBy_def last_rev hd_dropWhile)

lemma trimBy_idem [simp]: "trimBy p (trimBy p s) = trimBy p s"
  by (rule trimBy_id) (use hd_trimBy last_trimBy in blast)

lemma TrimSpace_idem [simp]: "TrimSpace (TrimSpace s) = TrimSpace s"
  by (simp add: TrimSpace_def)

lemma TrimSpace_Nil [simp]: "TrimSpace [] = []"
  by (simp add: TrimSpace_def trimBy_def)

lemma lowerByte_idem [simp]: "lowerByte (lowerByte c) = lowerByte c"
  by (simp add: lowerByte_def Let_def of_char_of)

lemma ToLower_idem [simp]: "ToLower (ToLower s) = ToLower s"
  by (simp add: ToLower_def)

lemma length_ToLower [simp]: "length (ToLower s) = length s"
  by (simp add: ToLower_def)

lemma EqualFold_refl [simp]: "EqualFold s s"
  by (simp add: EqualFold_def)

section \<open>Generic lemmas\<close>

lemma length_concat_replicate:
  "length (concat (map (\<lambda>x. replicate (f x) x) xs)) = sum_list (map f xs)"
  by (induction xs) auto

lemma count_concat_replicate:
  "count (mset (concat (map (\<lambda>x. replicate (f x) x) xs))) a = f a * count (mset xs) a"
  by (induction xs) (auto simp: algebra_simps)

lemma ex_split_Cons:
  "(\<exists>pre post. a # xs = pre @ x # post \<and> P pre post) \<longleftrightarrow>
     (a = x \<and> P [] xs) \<or> (\<exists>pre post. xs = pre @ x # post \<and> P (a # pre) post)"
  by (auto simp: Cons_eq_append_conv)

end
