(* ===== verification/EG_Model.thy ===== *)
theory EG_Model
  imports EG_Prelude
begin

text \<open>
  The records of \<^verbatim>\<open>internal/model\<close> that travel from the control plane to a gateway: a route with
  its joined policy, an upstream and its targets, a custom domain entry and the JWT settings of
  the project. A nullable column (\<^verbatim>\<open>*string\<close> in Go) is an \<open>option\<close>.
\<close>

record route =
  rt_ID :: string
  rt_ProjectID :: string
  rt_Name :: string
  rt_Path :: string
  rt_UpstreamID :: "string option"
  rt_UpstreamURL :: string
  rt_Methods :: "string list"
  rt_Protocol :: string
  rt_MatchType :: string
  rt_Enabled :: bool
  rt_PolicyID :: "string option"
  rt_AuthRequired :: bool
  rt_RateLimitRPM :: int
  rt_AllowedOrigins :: "string list"
  rt_AllowedRoles :: "string list"
  rt_AllowedScopes :: "string list"
  rt_IPAllowlist :: "string list"
  rt_IPBlocklist :: "string list"

record upstream =
  up_ID :: string
  up_ProjectID :: string
  up_Name :: string
  up_TargetURL :: string
  up_Protocol :: string
  up_HealthPath :: string
  up_Enabled :: bool
  up_LBStrategy :: string

record upstream_target =
  ut_ID :: string
  ut_UpstreamID :: string
  ut_TargetURL :: string
  ut_Weight :: int
  ut_Enabled :: bool

record custom_domain_sync =
  cds_Hostname :: string
  cds_Status :: string
  cds_RoutingStatus :: string

record project_jwt_config_sync =
  pjc_Enabled :: bool
  pjc_Algorithm :: string
  pjc_SecretARN :: string
  pjc_SecretVersionID :: string
  pjc_ConfigVersion :: int
  pjc_Issuer :: "string option"
  pjc_Audiences :: "string list"
  pjc_SubjectClaim :: string
  pjc_RoleClaim :: string
  pjc_ScopesClaim :: string
  pjc_ClockSkewSeconds :: int

text \<open>
  A plain HTTP route with no policy at all: the base on which the examples of the development
  switch on one feature at a time.
\<close>

definition plain_route :: "string \<Rightarrow> string \<Rightarrow> route" where
  "plain_route i p =
     \<lparr>rt_ID = i, rt_ProjectID = ''p1'', rt_Name = i, rt_Path = p, rt_UpstreamID = None,
      rt_UpstreamURL = [], rt_Methods = [], rt_Protocol = ''http'', rt_MatchType = ''prefix'',
      rt_Enabled = True, rt_PolicyID = None, rt_AuthRequired = False, rt_RateLimitRPM = 0,
      rt_AllowedOrigins = [], rt_AllowedRoles = [], rt_AllowedScopes = [],
      rt_IPAllowlist = [], rt_IPBlocklist = []\<rparr>"

lemma plain_route_simps [simp]:
  "rt_ID (plain_route i p) = i"
  "rt_Path (plain_route i p) = p"
  "rt_UpstreamID (plain_route i p) = None"
  "rt_UpstreamURL (plain_route i p) = []"
  "rt_Methods (plain_route i p) = []"
  "rt_Protocol (plain_route i p) = ''http''"
  "rt_MatchType (plain_route i p) = ''prefix''"
  "rt_Enabled (plain_route i p)"
  "\<not> rt_AuthRequired (plain_route i p)"
  "rt_RateLimitRPM (plain_route i p) = 0"
  "rt_AllowedOrigins (plain_route i p) = []"
  "rt_AllowedRoles (plain_route i p) = []"
  "rt_AllowedScopes (plain_route i p) = []"
  "rt_IPAllowlist (plain_route i p) = []"
  "rt_IPBlocklist (plain_route i p) = []"
  by (simp_all add: plain_route_def)

end
