(* ===== verification/Route_Match.thy ===== *)
theory Route_Match
  imports EG_Model
begin

text \<open>
  Route selection: the HTTP matcher of \<^verbatim>\<open>internal/gateway/router/matcher.go\<close>, the gRPC matcher
  \<^verbatim>\<open>matchRoute\<close> of \<^verbatim>\<open>internal/gateway/server/interceptors.go\<close> and \<^verbatim>\<open>ResolveGRPCBackend\<close> of
  \<^verbatim>\<open>internal/gateway/proxy/grpc_proxy.go\<close>. A returned pointer to a route is an option; the loops
  carry the best candidate and its score as the Go variables do.
\<close>

section \<open>The HTTP matcher\<close>

fun matchMethod_loop :: "string list \<Rightarrow> string \<Rightarrow> bool" where
  "matchMethod_loop [] reqMethod = False"
| "matchMethod_loop (m # ms) reqMethod =
     (if EqualFold m ''ANY'' \<or> EqualFold m ''*'' \<or> EqualFold m reqMethod then True
      else matchMethod_loop ms reqMethod)"

definition matchMethod :: "string list \<Rightarrow> string \<Rightarrow> bool" where
  "matchMethod methods reqMethod =
     (if length methods = 0 \<or> reqMethod = [] \<or> reqMethod = ''OPTIONS'' then True
      else matchMethod_loop methods reqMethod)"

definition splitPath :: "string \<Rightarrow> string list" where
  "splitPath p0 =
     (let p = TrimByte p0 (CHR ''/'')
      in if p = [] then [] else splitByte (CHR ''/'') p)"

fun matchSegments :: "string list \<Rightarrow> string list \<Rightarrow> bool" where
  "matchSegments (pSeg # ps) (rSeg # rs) =
     (if HasPrefix pSeg '':'' then
        (if rSeg = [] then False else matchSegments ps rs)
      else if pSeg \<noteq> rSeg then False
      else matchSegments ps rs)"
| "matchSegments _ _ = True"

definition matchParametric :: "string \<Rightarrow> string \<Rightarrow> bool" where
  "matchParametric pattern path =
     (let patternSegs = splitPath pattern; pathSegs = splitPath path
      in if length patternSegs \<noteq> length pathSegs then False
         else matchSegments patternSegs pathSegs)"

definition matchBoundaryPrefix :: "string \<Rightarrow> string \<Rightarrow> bool" where
  "matchBoundaryPrefix patternPath reqPath =
     (if \<not> HasPrefix reqPath patternPath then False
      else if HasSuffix patternPath ''/'' then True
      else if length reqPath = length patternPath then True
      else HasPrefix (drop (length patternPath) reqPath) ''/'')"

definition matchScore :: "route \<Rightarrow> string \<Rightarrow> int" where
  "matchScore rt path =
     (if rt_Path rt = path then 1000000 + int (length (rt_Path rt))
      else if Contains (rt_Path rt) '':'' \<and> matchParametric (rt_Path rt) path
        then 500000 + int (length (rt_Path rt))
      else if rt_MatchType rt \<noteq> ''exact'' \<and> matchBoundaryPrefix (rt_Path rt) path
        then int (length (rt_Path rt))
      else - 1)"

fun MatchHTTP_loop ::
  "string \<Rightarrow> string \<Rightarrow> route option \<Rightarrow> int \<Rightarrow> route list \<Rightarrow> route option" where
  "MatchHTTP_loop path meth best bestScore [] = best"
| "MatchHTTP_loop path meth best bestScore (rt # rts) =
     (if rt_Protocol rt \<noteq> ''http'' \<or> \<not> rt_Enabled rt then
        MatchHTTP_loop path meth best bestScore rts
      else if \<not> matchMethod (rt_Methods rt) meth then
        MatchHTTP_loop path meth best bestScore rts
      else
        (let score = matchScore rt path
         in if score > bestScore then MatchHTTP_loop path meth (Some rt) score rts
            else MatchHTTP_loop path meth best bestScore rts))"

definition MatchHTTP :: "string \<Rightarrow> string \<Rightarrow> route list \<Rightarrow> route option" where
  "MatchHTTP path meth routes = MatchHTTP_loop path meth None (- 1) routes"

section \<open>The gRPC matchers\<close>

text \<open>The service part of a full method: what precedes its last slash, unless that slash leads.\<close>

definition grpcService :: "string \<Rightarrow> string" where
  "grpcService fullMethod =
     (case LastIndexByte fullMethod (CHR ''/'') of
        None \<Rightarrow> fullMethod
      | Some i \<Rightarrow> if i > 0 then take i fullMethod else fullMethod)"

fun matchRoute_loop :: "string \<Rightarrow> route option \<Rightarrow> int \<Rightarrow> route list \<Rightarrow> route option" where
  "matchRoute_loop service best bestLen [] = best"
| "matchRoute_loop service best bestLen (rt # rts) =
     (if rt_Protocol rt = ''grpc'' \<and> rt_Enabled rt \<and> HasPrefix service (rt_Path rt)
         \<and> int (length (rt_Path rt)) > bestLen
      then matchRoute_loop service (Some rt) (int (length (rt_Path rt))) rts
      else matchRoute_loop service best bestLen rts)"

definition matchRoute :: "string \<Rightarrow> route list \<Rightarrow> route option" where
  "matchRoute fullMethod routes = matchRoute_loop (grpcService fullMethod) None (- 1) routes"

text \<open>
  \<^verbatim>\<open>ResolveGRPCBackend\<close> ranges over a Go map, in an order the runtime chooses: the entries come
  as a list in that order.
\<close>

fun resolveBackend_loop :: "string \<Rightarrow> string \<Rightarrow> int \<Rightarrow> (string \<times> string) list \<Rightarrow> string" where
  "resolveBackend_loop service best bestLen [] = best"
| "resolveBackend_loop service best bestLen ((pfx, addr) # es) =
     (if HasPrefix service pfx \<and> int (length pfx) > bestLen
      then resolveBackend_loop service addr (int (length pfx)) es
      else resolveBackend_loop service best bestLen es)"

definition ResolveGRPCBackend :: "string \<Rightarrow> (string \<times> string) list \<Rightarrow> string \<times> bool" where
  "ResolveGRPCBackend fullMethod upstreamByPrefix =
     (let best = resolveBackend_loop (grpcService fullMethod) [] (- 1) upstreamByPrefix
      in (best, best \<noteq> []))"

section \<open>Specification notions\<close>

text \<open>A route the loop considers at all, and the kinds of match behind the score bands.\<close>

definition considered :: "string \<Rightarrow> route \<Rightarrow> bool" where
  "considered meth rt \<longleftrightarrow> rt_Protocol rt = ''http'' \<and> rt_Enabled rt \<and> matchMethod (rt_Methods rt) meth"

definition parametricHit :: "route \<Rightarrow> string \<Rightarrow> bool" where
  "parametricHit rt path \<longleftrightarrow> Contains (rt_Path rt) '':'' \<and> matchParametric (rt_Path rt) path"

definition prefixHit :: "route \<Rightarrow> string \<Rightarrow> bool" where
  "prefixHit rt path \<longleftrightarrow> rt_MatchType rt \<noteq> ''exact'' \<and> matchBoundaryPrefix (rt_Path rt) path"

definition grpcCandidate :: "string \<Rightarrow> route \<Rightarrow> bool" where
  "grpcCandidate service rt \<longleftrightarrow>
     rt_Protocol rt = ''grpc'' \<and> rt_Enabled rt \<and> HasPrefix service (rt_Path rt)"

section \<open>A scan that keeps the first maximum\<close>

text \<open>
  Both matchers are the same loop: keep the first element whose score beats the best so far.
  Its result is characterised once.
\<close>

fun firstMax :: "('a \<Rightarrow> int) \<Rightarrow> 'a option \<Rightarrow> int \<Rightarrow> 'a list \<Rightarrow> 'a option" where
  "firstMax f best b [] = best"
| "firstMax f best b (x # xs) =
     (if f x > b then firstMax f (Some x) (f x) xs else firstMax f best b xs)"

lemma firstMax_le: "(\<forall>x \<in> set xs. f x \<le> b) \<Longrightarrow> firstMax f best b xs = best"
  by (induction xs) auto

lemma firstMax_None: "firstMax f None b xs = None \<longleftrightarrow> (\<forall>x \<in> set xs. f x \<le> b)"
proof -
  have some: "firstMax f (Some y) c ys \<noteq> None" for y c ys
    by (induction ys arbitrary: y c) auto
  show ?thesis by (induction xs arbitrary: b) (auto simp: some)
qed

lemma firstMax_Some:
  "firstMax f best b xs = Some x \<longleftrightarrow>
     (best = Some x \<and> (\<forall>y \<in> set xs. f y \<le> b)) \<or>
     (\<exists>pre post. xs = pre @ x # post \<and> f x > b \<and> (\<forall>y \<in> set pre. f y < f x) \<and>
                 (\<forall>y \<in> set post. f y \<le> f x))"
proof (induction xs arbitrary: best b)
  case Nil
  then show ?case by auto
next
  case (Cons a xs)
  have beats: "b < f x \<and> (\<forall>y \<in> set (a # pre). f y < f x) \<and> Q \<longleftrightarrow>
      (if f a > b then f a else b) < f x \<and> (\<forall>y \<in> set pre. f y < f x) \<and> Q" for pre Q
    by auto
  show ?case
    unfolding firstMax.simps ex_split_Cons beats
    by (cases "f a > b") (simp_all add: Cons.IH, auto)
qed

lemma MatchHTTP_loop_firstMax:
  "b \<ge> - 1 \<Longrightarrow> MatchHTTP_loop path meth best b rts =
     firstMax (\<lambda>rt. if considered meth rt then matchScore rt path else - 1) best b rts"
  by (induction rts arbitrary: best b) (auto simp: considered_def Let_def)

lemma matchRoute_loop_firstMax:
  "b \<ge> - 1 \<Longrightarrow> matchRoute_loop service best b rts =
     firstMax (\<lambda>rt. if grpcCandidate service rt then int (length (rt_Path rt)) else - 1) best b rts"
  by (induction rts arbitrary: best b) (auto simp: grpcCandidate_def)

lemma matchScore_ge: "matchScore rt path \<ge> - 1"
  by (simp add: matchScore_def)

lemma matchScore_nonneg:
  "matchScore rt path \<ge> 0 \<longleftrightarrow> rt_Path rt = path \<or> parametricHit rt path \<or> prefixHit rt path"
  by (auto simp: matchScore_def parametricHit_def prefixHit_def)

lemma MatchHTTP_SomeE:
  assumes "MatchHTTP path meth routes = Some rt"
  obtains "considered meth rt" "matchScore rt path \<ge> 0" "rt \<in> set routes"
    "\<And>r. r \<in> set routes \<Longrightarrow> considered meth r \<Longrightarrow> matchScore r path \<le> matchScore rt path"
proof -
  let ?f = "\<lambda>rt. if considered meth rt then matchScore rt path else - 1"
  from assms have "firstMax ?f None (- 1) routes = Some rt"
    by (simp add: MatchHTTP_def MatchHTTP_loop_firstMax)
  then obtain pre post where r: "routes = pre @ rt # post" "?f rt > - 1"
      "\<forall>y \<in> set pre. ?f y < ?f rt" "\<forall>y \<in> set post. ?f y \<le> ?f rt"
    unfolding firstMax_Some by auto
  then have c: "considered meth rt" by (auto split: if_splits)
  show thesis
  proof (rule that [OF c])
    show "matchScore rt path \<ge> 0" using r(2) c by auto
    show "rt \<in> set routes" using r(1) by simp
    fix r assume "r \<in> set routes" "considered meth r"
    then show "matchScore r path \<le> matchScore rt path"
      using r c by (fastforce split: if_splits)
  qed
qed

section \<open>Segments\<close>

lemma matchSegments_iff:
  "length ps = length rs \<Longrightarrow>
   matchSegments ps rs \<longleftrightarrow>
     (\<forall>i < length ps. if HasPrefix (ps ! i) '':'' then rs ! i \<noteq> [] else ps ! i = rs ! i)"
  by (induction ps rs rule: list_induct2) (auto simp: nth_Cons' less_Suc_eq_0_disj All_less_Suc2)

section \<open>Boundaries\<close>

lemma splitByte_prefix_iff:
  "(\<exists>rest. splitByte c q = splitByte c p @ rest) \<longleftrightarrow> q = p \<or> (\<exists>t. q = p @ c # t)"
proof
  assume "\<exists>rest. splitByte c q = splitByte c p @ rest"
  then obtain rest where r: "splitByte c q = splitByte c p @ rest" ..
  have "q = Join (splitByte c p @ rest) [c]" by (metis r Join_splitByte)
  then show "q = p \<or> (\<exists>t. q = p @ c # t)"
    by (cases "rest = []") (simp_all add: Join_splitByte Join_append)
next
  assume "q = p \<or> (\<exists>t. q = p @ c # t)"
  then show "\<exists>rest. splitByte c q = splitByte c p @ rest"
    by (auto simp: splitByte_append_sep)
qed

lemma matchBoundaryPrefix_iff:
  "matchBoundaryPrefix p q \<longleftrightarrow>
     (\<exists>t. q = p @ t \<and> (HasSuffix p ''/'' \<or> t = [] \<or> HasPrefix t ''/''))"
  by (auto simp: matchBoundaryPrefix_def HasPrefix_iff)

section \<open>Map order\<close>

text \<open>Two prefixes of one string with the same length are the same prefix.\<close>

lemma HasPrefix_same_length: "HasPrefix s p \<Longrightarrow> HasPrefix s q \<Longrightarrow> length p = length q \<Longrightarrow> p = q"
  by (auto simp: HasPrefix_iff)

definition longestEntry :: "string \<Rightarrow> (string \<times> string) list \<Rightarrow> (string \<times> string) option" where
  "longestEntry service es =
     firstMax (\<lambda>e. if HasPrefix service (fst e) then int (length (fst e)) else - 1) None (- 1) es"

lemma resolveBackend_loop_firstMax:
  "b \<ge> - 1 \<Longrightarrow> resolveBackend_loop service (case best of None \<Rightarrow> [] | Some e \<Rightarrow> snd e) b es =
     (case firstMax (\<lambda>e. if HasPrefix service (fst e) then int (length (fst e)) else - 1) best b es of
        None \<Rightarrow> [] | Some e \<Rightarrow> snd e)"
proof (induction es arbitrary: best b)
  case (Cons e es)
  have "resolveBackend_loop service (snd e) (int (length (fst e))) es =
     (case firstMax (\<lambda>e. if HasPrefix service (fst e) then int (length (fst e)) else - 1)
             (Some e) (int (length (fst e))) es of None \<Rightarrow> [] | Some e \<Rightarrow> snd e)"
    using Cons.IH [of "int (length (fst e))" "Some e"] by simp
  then show ?case using Cons.IH [OF Cons.prems] Cons.prems by (cases e) auto
qed simp

lemma resolveBackend_longestEntry:
  "resolveBackend_loop service [] (- 1) es =
     (case longestEntry service es of None \<Rightarrow> [] | Some e \<Rightarrow> snd e)"
  using resolveBackend_loop_firstMax [of "- 1" service None es] by (simp add: longestEntry_def)

lemma longestEntry_Some:
  assumes "distinct (map fst es)"
  shows "longestEntry service es = Some e \<longleftrightarrow>
    e \<in> set es \<and> HasPrefix service (fst e) \<and>
    (\<forall>e' \<in> set es. HasPrefix service (fst e') \<longrightarrow> length (fst e') \<le> length (fst e))"
    (is "_ \<longleftrightarrow> ?rhs")
proof
  let ?f = "\<lambda>e. if HasPrefix service (fst e) then int (length (fst e)) else - 1"
  assume "longestEntry service es = Some e"
  then obtain pre post where "es = pre @ e # post" "?f e > - 1"
      "\<forall>y \<in> set pre. ?f y < ?f e" "\<forall>y \<in> set post. ?f y \<le> ?f e"
    unfolding longestEntry_def firstMax_Some by auto
  then show ?rhs by (fastforce split: if_splits)
next
  let ?f = "\<lambda>e. if HasPrefix service (fst e) then int (length (fst e)) else - 1"
  assume r: ?rhs
  then obtain pre post where es: "es = pre @ e # post" by (meson split_list)
  have "?f y < ?f e" if y: "y \<in> set pre" for y
  proof (cases "HasPrefix service (fst y)")
    case True
    have "fst e \<notin> fst ` set pre" using assms by (simp add: es)
    then have "fst y \<noteq> fst e" using y by (metis image_eqI)
    moreover have "length (fst y) \<le> length (fst e)" using r y True by (simp add: es)
    ultimately have "length (fst y) < length (fst e)"
      using True r HasPrefix_same_length by (metis le_neq_implies_less)
    then show ?thesis using r True by simp
  qed (use r in simp)
  moreover have "?f y \<le> ?f e" if "y \<in> set post" for y using r that by (simp add: es)
  moreover have "?f e > - 1" using r by simp
  ultimately show "longestEntry service es = Some e"
    unfolding longestEntry_def firstMax_Some using es by blast
qed

section \<open>Properties\<close>

text \<open>
  C4. \<^verbatim>\<open>MatchHTTP\<close> returns a route exactly when an enabled HTTP route that serves the method matches
  the path, and it is then the first route in table order among those with the highest score: every
  considered route before it scores strictly less, every one after it no more.
\<close>

theorem MatchHTTP_first_best:
  "MatchHTTP path meth routes = Some rt \<longleftrightarrow>
     (\<exists>pre post. routes = pre @ rt # post \<and> considered meth rt \<and> matchScore rt path \<ge> 0 \<and>
        (\<forall>r \<in> set pre. considered meth r \<longrightarrow> matchScore r path < matchScore rt path) \<and>
        (\<forall>r \<in> set post. considered meth r \<longrightarrow> matchScore r path \<le> matchScore rt path))"
  (is "_ \<longleftrightarrow> ?rhs")
proof -
  let ?f = "\<lambda>rt. if considered meth rt then matchScore rt path else - 1"
  have "MatchHTTP path meth routes = Some rt \<longleftrightarrow>
    (\<exists>pre post. routes = pre @ rt # post \<and> ?f rt > - 1 \<and> (\<forall>y \<in> set pre. ?f y < ?f rt) \<and>
                 (\<forall>y \<in> set post. ?f y \<le> ?f rt))"
    by (simp only: MatchHTTP_def MatchHTTP_loop_firstMax [OF order_refl] firstMax_Some) simp
  also have "\<dots> \<longleftrightarrow> ?rhs"
    by (intro ex_cong1) (use matchScore_ge in \<open>auto split: if_splits\<close>)
  finally show ?thesis .
qed

text \<open>Three routes that all match \<^verbatim>\<open>/users/7\<close>: the parametric one beats both prefixes.\<close>

definition example_routes :: "route list" where
  "example_routes = [plain_route ''r1'' ''/'', plain_route ''r2'' ''/users/:id'', plain_route ''r3'' ''/users'']"

lemma example_match: "MatchHTTP ''/users/7'' ''GET'' example_routes = Some (plain_route ''r2'' ''/users/:id'')"
  by (simp add: example_routes_def MatchHTTP_def matchMethod_def matchScore_def matchParametric_def
      matchBoundaryPrefix_def splitPath_def TrimByte_def trimBy_def HasSuffix_def)

theorem MatchHTTP_first_best_witness:
  "\<exists>pre post. example_routes = pre @ plain_route ''r2'' ''/users/:id'' # post \<and>
     considered ''GET'' (plain_route ''r2'' ''/users/:id'') \<and>
     matchScore (plain_route ''r2'' ''/users/:id'') ''/users/7'' \<ge> 0 \<and>
     (\<forall>r \<in> set pre. considered ''GET'' r \<longrightarrow>
        matchScore r ''/users/7'' < matchScore (plain_route ''r2'' ''/users/:id'') ''/users/7'') \<and>
     (\<forall>r \<in> set post. considered ''GET'' r \<longrightarrow>
        matchScore r ''/users/7'' \<le> matchScore (plain_route ''r2'' ''/users/:id'') ''/users/7'')"
  using example_match unfolding MatchHTTP_first_best .

text \<open>
  When every route path is shorter than 500000 bytes, the score bands mean what they should:
  an exact match beats every parametric one, a parametric match every prefix match, and within
  the parametric and the prefix band the longest route path wins.
\<close>

theorem MatchHTTP_precedence:
  assumes "MatchHTTP path meth routes = Some rt"
    and "\<forall>r \<in> set routes. length (rt_Path r) < 500000"
  shows "if \<exists>r \<in> set routes. considered meth r \<and> rt_Path r = path then rt_Path rt = path
    else if \<exists>r \<in> set routes. considered meth r \<and> parametricHit r path then
      parametricHit rt path \<and>
      (\<forall>r \<in> set routes. considered meth r \<and> parametricHit r path \<longrightarrow>
         length (rt_Path r) \<le> length (rt_Path rt))
    else prefixHit rt path \<and>
      (\<forall>r \<in> set routes. considered meth r \<and> prefixHit r path \<longrightarrow>
         length (rt_Path r) \<le> length (rt_Path rt))"
proof -
  obtain c: "considered meth rt" "matchScore rt path \<ge> 0" "rt \<in> set routes"
    and best: "\<And>r. r \<in> set routes \<Longrightarrow> considered meth r \<Longrightarrow> matchScore r path \<le> matchScore rt path"
    using MatchHTTP_SomeE [OF assms(1)] by metis
  note score = matchScore_def parametricHit_def [symmetric] prefixHit_def [symmetric]
  have short: "length (rt_Path rt) < 500000" using assms(2) c(3) by blast
  have exact: "rt_Path rt = path" if "r \<in> set routes" "considered meth r" "rt_Path r = path" for r
    using best [OF that(1,2)] that(3) short by (simp add: score split: if_splits)
  have par: "parametricHit rt path \<and> length (rt_Path r) \<le> length (rt_Path rt)"
    if "r \<in> set routes" "considered meth r" "parametricHit r path" "rt_Path rt \<noteq> path" for r
    using best [OF that(1,2)] that(3,4) short by (simp add: score split: if_splits)
  have pre: "length (rt_Path r) \<le> length (rt_Path rt)"
    if "r \<in> set routes" "considered meth r" "prefixHit r path" "rt_Path rt \<noteq> path"
      "\<not> parametricHit rt path" for r
    using best [OF that(1,2)] that(3,4,5) by (simp add: score split: if_splits)
  have hit: "prefixHit rt path" if "rt_Path rt \<noteq> path" "\<not> parametricHit rt path"
    using c(2) that matchScore_nonneg by blast
  show ?thesis using exact par pre hit c by (smt (verit))
qed

theorem MatchHTTP_precedence_witness:
  "parametricHit (plain_route ''r2'' ''/users/:id'') ''/users/7''"
  using MatchHTTP_precedence [OF example_match]
  by (simp add: example_routes_def considered_def matchMethod_def parametricHit_def matchParametric_def
      splitPath_def TrimByte_def trimBy_def)

text \<open>
  Prefix matching respects segment boundaries: a pattern that does not end in a slash matches
  exactly the paths whose slash-separated segments start with the pattern's segments, and a pattern
  \<^verbatim>\<open>p/\<close> exactly those with at least one more (possibly empty) segment after those of \<^verbatim>\<open>p\<close>.
  So \<^verbatim>\<open>/api\<close> matches \<^verbatim>\<open>/api/x\<close> and never \<^verbatim>\<open>/apiary\<close>.
\<close>

theorem matchBoundaryPrefix_segments:
  "(if HasSuffix pattern ''/''
    then matchBoundaryPrefix pattern path \<longleftrightarrow>
      (\<exists>rest. rest \<noteq> [] \<and>
         splitByte (CHR ''/'') path = splitByte (CHR ''/'') (butlast pattern) @ rest)
    else matchBoundaryPrefix pattern path \<longleftrightarrow>
      (\<exists>rest. splitByte (CHR ''/'') path = splitByte (CHR ''/'') pattern @ rest))"
proof (cases "HasSuffix pattern ''/''")
  case True
  then obtain p where p: "pattern = p @ ''/''" by (auto simp: HasSuffix_iff)
  have "matchBoundaryPrefix pattern path \<longleftrightarrow> (\<exists>t. path = p @ CHR ''/'' # t)"
    using True by (simp add: matchBoundaryPrefix_iff p)
  also have "\<dots> \<longleftrightarrow> (\<exists>rest. rest \<noteq> [] \<and> splitByte (CHR ''/'') path = splitByte (CHR ''/'') p @ rest)"
    (is "?l \<longleftrightarrow> ?r")
  proof
    assume ?l then show ?r by (auto simp: splitByte_append_sep)
  next
    assume ?r
    moreover from this have "path \<noteq> p" by auto
    ultimately show ?l using splitByte_prefix_iff by blast
  qed
  finally show ?thesis using True by (simp add: p)
next
  case False
  then show ?thesis
    unfolding splitByte_prefix_iff by (auto simp: matchBoundaryPrefix_iff HasPrefix_iff)
qed

text \<open>
  A parametric pattern matches a path exactly when both have the same number of segments
  (leading and trailing slashes apart) and, position by position, a segment that starts with a
  colon faces a non-empty segment and any other segment faces itself.
\<close>

theorem matchParametric_pointwise:
  "matchParametric pattern path \<longleftrightarrow>
     list_all2 (\<lambda>p r. if HasPrefix p '':'' then r \<noteq> [] else p = r) (splitPath pattern) (splitPath path)"
  by (auto simp: matchParametric_def matchSegments_iff list_all2_conv_all_nth Let_def)

text \<open>
  The gRPC matcher picks the first enabled gRPC route with the longest path that is a string
  prefix of the service name, and none only when no such route exists.
\<close>

theorem matchRoute_longest_prefix:
  "(matchRoute fullMethod routes = None \<longleftrightarrow>
      (\<forall>r \<in> set routes. \<not> grpcCandidate (grpcService fullMethod) r)) \<and>
   (matchRoute fullMethod routes = Some rt \<longleftrightarrow>
      (\<exists>pre post. routes = pre @ rt # post \<and> grpcCandidate (grpcService fullMethod) rt \<and>
       (\<forall>r \<in> set pre. grpcCandidate (grpcService fullMethod) r \<longrightarrow>
          length (rt_Path r) < length (rt_Path rt)) \<and>
       (\<forall>r \<in> set post. grpcCandidate (grpcService fullMethod) r \<longrightarrow>
          length (rt_Path r) \<le> length (rt_Path rt))))"
  (is "?none \<and> (?some \<longleftrightarrow> ?rhs)")
proof
  let ?f = "\<lambda>r. if grpcCandidate (grpcService fullMethod) r then int (length (rt_Path r)) else - 1"
  show ?none
    by (auto simp: matchRoute_def matchRoute_loop_firstMax firstMax_None split: if_splits)
  have "?some \<longleftrightarrow> (\<exists>pre post. routes = pre @ rt # post \<and> ?f rt > - 1 \<and>
      (\<forall>y \<in> set pre. ?f y < ?f rt) \<and> (\<forall>y \<in> set post. ?f y \<le> ?f rt))"
    by (simp only: matchRoute_def matchRoute_loop_firstMax [OF order_refl] firstMax_Some) simp
  also have "\<dots> \<longleftrightarrow> ?rhs"
    by (intro ex_cong1) (auto split: if_splits)
  finally show "?some \<longleftrightarrow> ?rhs" .
qed

theorem matchRoute_longest_prefix_witness:
  "\<exists>pre post. [plain_route ''r1'' ''/a''\<lparr>rt_Protocol := ''grpc''\<rparr>,
        plain_route ''r2'' ''/a.B''\<lparr>rt_Protocol := ''grpc''\<rparr>] =
      pre @ plain_route ''r2'' ''/a.B''\<lparr>rt_Protocol := ''grpc''\<rparr> # post"
proof -
  have "matchRoute ''/a.B/C'' [plain_route ''r1'' ''/a''\<lparr>rt_Protocol := ''grpc''\<rparr>,
        plain_route ''r2'' ''/a.B''\<lparr>rt_Protocol := ''grpc''\<rparr>] =
      Some (plain_route ''r2'' ''/a.B''\<lparr>rt_Protocol := ''grpc''\<rparr>)"
    by (simp add: matchRoute_def grpcService_def LastIndexByte_def)
  then show ?thesis using matchRoute_longest_prefix by blast
qed

text \<open>
  \<^verbatim>\<open>ResolveGRPCBackend\<close> does not depend on the order in which Go ranges over the map: two
  enumerations of the same entries, whose keys are distinct, resolve a method alike.
\<close>

theorem ResolveGRPCBackend_order_independent:
  assumes "distinct (map fst es)" "mset es = mset es'"
  shows "ResolveGRPCBackend fullMethod es = ResolveGRPCBackend fullMethod es'"
proof -
  have d: "distinct (map fst es')"
    using assms by (metis mset_map mset_eq_imp_distinct_iff)
  have s: "set es = set es'" using assms(2) mset_eq_setD by blast
  have "longestEntry service es = longestEntry service es'" for service
    using longestEntry_Some [OF assms(1), of service] longestEntry_Some [OF d, of service] s
    by (metis not_Some_eq)
  then show ?thesis by (simp add: ResolveGRPCBackend_def resolveBackend_longestEntry)
qed

theorem ResolveGRPCBackend_order_independent_witness:
  "ResolveGRPCBackend ''a.B/C'' [(''a'', ''x''), (''a.B'', ''y'')] = (''y'', True) \<and>
   ResolveGRPCBackend ''a.B/C'' [(''a.B'', ''y''), (''a'', ''x'')] = (''y'', True)"
  using ResolveGRPCBackend_order_independent
    [of "[(''a'', ''x''), (''a.B'', ''y'')]" "[(''a.B'', ''y''), (''a'', ''x'')]" "''a.B/C''"]
  by (simp add: ResolveGRPCBackend_def grpcService_def LastIndexByte_def)

end
