(* ===== verification/Go_Net.thy ===== *)
theory Go_Net
  imports EG_Prelude
begin

text \<open>
  The part of Go's \<^verbatim>\<open>net\<close> package the gateway calls: \<^verbatim>\<open>ParseIP\<close>, \<^verbatim>\<open>ParseCIDR\<close>, \<^verbatim>\<open>IPNet.Contains\<close>
  and \<^verbatim>\<open>SplitHostPort\<close>. An address is 4 or 16 bytes long, as a \<^verbatim>\<open>net.IP\<close> is. Failed parses are
  \<^const>\<open>None\<close>; the error texts are not kept. An address with a zone (a percent sign) is refused by
  both parsers, so a percent sign fails at once.
\<close>

unbundle bit_operations_syntax

section \<open>Addresses\<close>

datatype ipaddr = IP4 "32 word" | IP16 "128 word"

text \<open>An IPv4 address in its 16-byte form: ten zero bytes, two \<open>0xff\<close> bytes, the address.\<close>

definition v4InV6 :: "32 word \<Rightarrow> 128 word" where
  "v4InV6 w = push_bit 32 0xFFFF OR ucast w"

fun To4 :: "ipaddr \<Rightarrow> 32 word option" where
  "To4 (IP4 w) = Some w"
| "To4 (IP16 w) = (if drop_bit 32 w = 0xFFFF then Some (ucast w) else None)"

text \<open>
  The form whose text \<^verbatim>\<open>IP.String\<close> prints: the 4-byte form when there is one. Two addresses print
  alike exactly when these forms are equal, so it serves as the map key that the text is in Go.
\<close>

definition canonicalIP :: "ipaddr \<Rightarrow> ipaddr" where
  "canonicalIP ip = (case To4 ip of Some v4 \<Rightarrow> IP4 v4 | None \<Rightarrow> ip)"

section \<open>Parsing\<close>

definition digitVal :: "char \<Rightarrow> nat option" where
  "digitVal c = (let n = of_char c :: nat in if 48 \<le> n \<and> n \<le> 57 then Some (n - 48) else None)"

definition hexVal :: "char \<Rightarrow> nat option" where
  "hexVal c =
     (let n = of_char c :: nat
      in if 48 \<le> n \<and> n \<le> 57 then Some (n - 48)
         else if 97 \<le> n \<and> n \<le> 102 then Some (n - 87)
         else if 65 \<le> n \<and> n \<le> 70 then Some (n - 55)
         else None)"

text \<open>
  The loop over a dotted quad: the value and the number of digits of the current field, and the
  fields before it. A leading zero, an empty field, a value over 255 and a fifth field all fail.
\<close>

fun parseIPv4Fields :: "nat \<Rightarrow> nat \<Rightarrow> nat list \<Rightarrow> string \<Rightarrow> nat list option" where
  "parseIPv4Fields val digLen fields [] = (if length fields < 3 then None else Some (fields @ [val]))"
| "parseIPv4Fields val digLen fields (c # s) =
     (case digitVal c of
        Some d \<Rightarrow>
          if digLen = 1 \<and> val = 0 then None
          else if val * 10 + d > 255 then None
          else parseIPv4Fields (val * 10 + d) (digLen + 1) fields s
      | None \<Rightarrow>
          if c = CHR ''.'' then
            (if digLen = 0 \<or> s = [] then None
             else if length fields = 3 then None
             else parseIPv4Fields 0 0 (fields @ [val]) s)
          else None)"

definition numOf :: "nat \<Rightarrow> nat list \<Rightarrow> nat" where
  "numOf base ds = foldl (\<lambda>a d. a * base + d) 0 ds"

definition hexDigits :: "string \<Rightarrow> nat list" where
  "hexDigits s = map (\<lambda>c. the (hexVal c)) (takeWhile (\<lambda>c. hexVal c \<noteq> None) s)"

text \<open>
  The loop over the 16-bit groups of an IPv6 address: the groups read so far, the position of the
  ellipsis, and the text left. It stops after eight groups.
\<close>

function parseIPv6Groups ::
  "nat list \<Rightarrow> nat option \<Rightarrow> string \<Rightarrow> (nat list \<times> nat option \<times> string) option" where
  "parseIPv6Groups gs ell s =
     (if length gs \<ge> 8 then Some (gs, ell, s)
      else
        (let ds = hexDigits s; s1 = drop (length ds) s
         in if length ds > 4 \<or> ds = [] then None
            else if HasPrefix s1 ''.'' then
              (if ell = None \<and> length gs \<noteq> 6 then None
               else if length gs > 6 then None
               else case parseIPv4Fields 0 0 [] s of
                      Some [a, b, c, d] \<Rightarrow> Some (gs @ [a * 256 + b, c * 256 + d], ell, [])
                    | _ \<Rightarrow> None)
            else
              (let gs' = gs @ [numOf 16 ds]
               in case s1 of
                    [] \<Rightarrow> Some (gs', ell, [])
                  | c # s2 \<Rightarrow>
                      if c \<noteq> CHR '':'' then None
                      else (case s2 of
                              [] \<Rightarrow> None
                            | c2 # s3 \<Rightarrow>
                                if c2 = CHR '':'' then
                                  (if ell \<noteq> None then None
                                   else if s3 = [] then Some (gs', Some (length gs'), [])
                                   else parseIPv6Groups gs' (Some (length gs')) s3)
                                else parseIPv6Groups gs' ell s2))))"
  by pat_completeness auto
termination
  by (relation "measure (\<lambda>(gs, _, _). 8 - length gs)") auto

declare parseIPv6Groups.simps [simp del]

definition groupsWord :: "nat list \<Rightarrow> 128 word" where
  "groupsWord gs = of_nat (numOf 65536 gs)"

definition parseIPv6 :: "string \<Rightarrow> ipaddr option" where
  "parseIPv6 s0 =
     (let lead = HasPrefix s0 ''::''; s = (if lead then drop 2 s0 else s0)
      in if lead \<and> s = [] then Some (IP16 0)
         else case parseIPv6Groups [] (if lead then Some 0 else None) s of
                None \<Rightarrow> None
              | Some (gs, ell, rest) \<Rightarrow>
                  if rest \<noteq> [] then None
                  else if length gs < 8 then
                    (case ell of
                       None \<Rightarrow> None
                     | Some e \<Rightarrow>
                         Some (IP16 (groupsWord (take e gs @ replicate (8 - length gs) 0 @ drop e gs))))
                  else if ell \<noteq> None then None
                  else Some (IP16 (groupsWord gs)))"

definition parseIPv4 :: "string \<Rightarrow> ipaddr option" where
  "parseIPv4 s =
     (case parseIPv4Fields 0 0 [] s of
        Some fs \<Rightarrow> Some (IP4 (of_nat (numOf 256 fs)))
      | None \<Rightarrow> None)"

fun parseDispatch :: "string \<Rightarrow> string \<Rightarrow> ipaddr option" where
  "parseDispatch whole [] = None"
| "parseDispatch whole (c # s) =
     (if c = CHR ''.'' then parseIPv4 whole
      else if c = CHR '':'' then parseIPv6 whole
      else parseDispatch whole s)"

definition ParseAddr :: "string \<Rightarrow> ipaddr option" where
  "ParseAddr s = (if CHR ''%'' \<in> set s then None else parseDispatch s s)"

text \<open>\<^verbatim>\<open>net.ParseIP\<close> returns the 16-byte form.\<close>

definition ParseIP :: "string \<Rightarrow> ipaddr option" where
  "ParseIP s =
     (case ParseAddr s of
        None \<Rightarrow> None
      | Some (IP4 w) \<Rightarrow> Some (IP16 (v4InV6 w))
      | Some (IP16 w) \<Rightarrow> Some (IP16 w))"

section \<open>Networks\<close>

record ipnet =
  net_IP :: ipaddr
  net_Ones :: nat

text \<open>
  The mask of a network has \<^const>\<open>net_Ones\<close> leading ones and the length of the address it came
  with; that address is stored masked. \<^verbatim>\<open>dtoi\<close> gives up at \<open>0xFFFFFF\<close>, far over any valid length.
\<close>

definition cutByte :: "string \<Rightarrow> char \<Rightarrow> (string \<times> string) option" where
  "cutByte s c = (case IndexByte s c of None \<Rightarrow> None | Some i \<Rightarrow> Some (take i s, drop (Suc i) s))"

definition dtoi :: "string \<Rightarrow> nat option" where
  "dtoi s =
     (if s = [] \<or> \<not> list_all (\<lambda>c. digitVal c \<noteq> None) s then None
      else (let n = numOf 10 (map (\<lambda>c. the (digitVal c)) s) in if n \<ge> 0xFFFFFF then None else Some n))"

definition keepHigh :: "nat \<Rightarrow> nat \<Rightarrow> 'a::len word \<Rightarrow> 'a word" where
  "keepHigh len n w = push_bit (len - n) (drop_bit (len - n) w)"

definition ParseCIDR :: "string \<Rightarrow> ipnet option" where
  "ParseCIDR s =
     (case cutByte s (CHR ''/'') of
        None \<Rightarrow> None
      | Some (addr, len) \<Rightarrow>
          (case ParseAddr addr of
             None \<Rightarrow> None
           | Some ip \<Rightarrow>
               (case dtoi len of
                  None \<Rightarrow> None
                | Some n \<Rightarrow>
                    (case ip of
                       IP4 w \<Rightarrow> if n > 32 then None
                                else Some \<lparr>net_IP = IP4 (keepHigh 32 n w), net_Ones = n\<rparr>
                     | IP16 w \<Rightarrow> if n > 128 then None
                                else Some \<lparr>net_IP = IP16 (keepHigh 128 n w), net_Ones = n\<rparr>))))"

text \<open>
  \<^verbatim>\<open>Contains\<close> compares in the shorter form when both have one: a 16-byte network whose number is an
  IPv4 address in disguise is matched with the last four bytes of its mask.
\<close>

definition Contains_net :: "ipnet \<Rightarrow> ipaddr \<Rightarrow> bool" where
  "Contains_net n ip =
     (case To4 (net_IP n) of
        Some nn \<Rightarrow>
          (let ones = (case net_IP n of IP4 _ \<Rightarrow> net_Ones n | IP16 _ \<Rightarrow> net_Ones n - 96)
           in case To4 ip of
                Some v \<Rightarrow> keepHigh 32 ones nn = keepHigh 32 ones v
              | None \<Rightarrow> False)
      | None \<Rightarrow>
          (case net_IP n of
             IP4 _ \<Rightarrow> False
           | IP16 nn \<Rightarrow>
               (case To4 ip of
                  Some _ \<Rightarrow> False
                | None \<Rightarrow> (case ip of IP4 _ \<Rightarrow> False
                          | IP16 w \<Rightarrow> keepHigh 128 (net_Ones n) nn = keepHigh 128 (net_Ones n) w))))"

section \<open>Host and port\<close>

definition SplitHostPort :: "string \<Rightarrow> (string \<times> string) option" where
  "SplitHostPort hostport =
     (case LastIndexByte hostport (CHR '':'') of
        None \<Rightarrow> None
      | Some i \<Rightarrow>
          if HasPrefix hostport ''['' then
            (case IndexByte hostport (CHR '']'') of
               None \<Rightarrow> None
             | Some e \<Rightarrow>
                 if e + 1 \<noteq> i then None
                 else if CHR ''['' \<in> set (drop 1 hostport) then None
                 else if CHR '']'' \<in> set (drop (e + 1) hostport) then None
                 else Some (take (e - 1) (drop 1 hostport), drop (i + 1) hostport))
          else
            (let host = take i hostport
             in if CHR '':'' \<in> set host then None
                else if CHR ''['' \<in> set hostport then None
                else if CHR '']'' \<in> set hostport then None
                else Some (host, drop (i + 1) hostport)))"

section \<open>Lemmas\<close>

lemma To4_v4InV6 [simp]: "To4 (IP16 (v4InV6 w)) = Some w"
proof -
  have "drop_bit 32 (v4InV6 w) = (0xFFFF :: 128 word)"
    unfolding v4InV6_def
    by (rule bit_word_eqI) (auto simp: bit_simps dest: bit_imp_le_length)
  moreover have "ucast (v4InV6 w) = w"
  proof (rule bit_word_eqI)
    fix n assume "n < LENGTH(32)"
    moreover from this have "\<not> bit (push_bit 32 0xFFFF :: 128 word) n" by (simp only: bit_push_bit_iff) simp
    ultimately show "bit (ucast (v4InV6 w) :: 32 word) n = bit w n"
      unfolding v4InV6_def by (simp only: bit_ucast_iff bit_or_iff) simp
  qed
  ultimately show ?thesis by simp
qed

lemma canonicalIP_cases:
  obtains v where "canonicalIP ip = IP4 v" "To4 ip = Some v"
  | w where "canonicalIP ip = IP16 w" "ip = IP16 w" "To4 ip = None"
proof (cases "To4 ip")
  case None
  then show thesis using that(2) by (cases ip) (auto simp: canonicalIP_def)
next
  case (Some v)
  then show thesis using that(1) by (simp add: canonicalIP_def)
qed

lemma To4_canonicalIP [simp]: "To4 (canonicalIP ip) = To4 ip"
  by (cases ip) (auto simp: canonicalIP_def)

lemma Contains_net_canonicalIP [simp]: "Contains_net n (canonicalIP ip) = Contains_net n ip"
  by (rule canonicalIP_cases [of ip]) (auto simp: Contains_net_def split: ipaddr.split)

lemma canonicalIP_idem [simp]: "canonicalIP (canonicalIP ip) = canonicalIP ip"
  by (cases ip) (auto simp: canonicalIP_def)

lemma IndexByte_append: "c \<notin> set s \<Longrightarrow> IndexByte (s @ c # t) c = Some (length s)"
  by (induction s) auto

lemma IndexByte_None: "IndexByte s c = None \<longleftrightarrow> c \<notin> set s"
  by (induction s) auto

lemma LastIndexByte_append: "c \<notin> set t \<Longrightarrow> LastIndexByte (s @ c # t) c = Some (length s)"
  using IndexByte_append [of c "rev t" "rev s"] by (simp add: LastIndexByte_def)

lemma LastIndexByte_None: "LastIndexByte s c = None \<longleftrightarrow> c \<notin> set s"
  using IndexByte_None [of "rev s" c] by (cases "IndexByte (rev s) c") (auto simp: LastIndexByte_def)

text \<open>A plain host and a port come apart again.\<close>

lemma SplitHostPort_plain:
  assumes "set host \<inter> {CHR '':'', CHR ''['', CHR '']''} = {}"
    and "set port \<inter> {CHR '':'', CHR ''['', CHR '']''} = {}"
  shows "SplitHostPort (host @ '':'' @ port) = Some (host, port)"
proof -
  have "\<not> HasPrefix (host @ '':'' @ port) ''[''"
    using assms(1) by (cases host) auto
  then show ?thesis
    using assms LastIndexByte_append [of "CHR '':''" port host]
    by (auto simp: SplitHostPort_def Let_def)
qed

lemma SplitHostPort_no_colon: "CHR '':'' \<notin> set s \<Longrightarrow> SplitHostPort s = None"
  by (simp add: SplitHostPort_def LastIndexByte_None [THEN iffD2])

end
