(* ===== verification/IP_Filter.thy ===== *)
theory IP_Filter
  imports EG_Model Go_Net "HOL-Library.AList" "HOL-Library.List_Lexorder" "HOL-Library.Char_ord"
begin

text \<open>
  IP filtering: \<^verbatim>\<open>internal/ipfilter/ip_filter.go\<close> and the checker cache and decision of
  \<^verbatim>\<open>internal/gateway/middleware/ip_filter.go\<close>. The set of allowed texts of a checker holds
  canonical addresses instead of their printed form; the cache is an association list, so its
  length is the number of its keys. Looking up and storing are separate critical sections in the
  code, and separate functions here.
\<close>

section \<open>Extracting the client address\<close>

fun lastValidIP :: "string list \<Rightarrow> string option" where
  "lastValidIP [] = None"
| "lastValidIP (p # ps) =
     (let ip = TrimSpace p in if ParseIP ip \<noteq> None then Some ip else lastValidIP ps)"

definition ExtractIP :: "string \<Rightarrow> (string \<Rightarrow> string) option \<Rightarrow> bool \<Rightarrow> string" where
  "ExtractIP remoteAddr getHeader trustProxy =
     (let direct = (case SplitHostPort remoteAddr of
                      None \<Rightarrow> TrimSpace remoteAddr | Some (ip, _) \<Rightarrow> ip);
          fromHeaders =
            (case getHeader of
               None \<Rightarrow> None
             | Some h \<Rightarrow>
                 if \<not> trustProxy then None
                 else
                   (let xff = h ''X-Forwarded-For'';
                        viaXFF = (if xff \<noteq> [] then lastValidIP (rev (splitByte (CHR '','') xff)) else None)
                    in case viaXFF of
                         Some ip \<Rightarrow> Some ip
                       | None \<Rightarrow>
                           (let xri = h ''X-Real-IP''
                            in if xri \<noteq> [] \<and> ParseIP (TrimSpace xri) \<noteq> None
                               then Some (TrimSpace xri) else None)))
      in case fromHeaders of Some ip \<Rightarrow> ip | None \<Rightarrow> direct)"

section \<open>Checkers\<close>

record ip_checker =
  ick_allowedIPs :: "ipaddr list"
  ick_allowedSubnets :: "ipnet list"

datatype ip_error = InvalidRule string

fun NewIPChecker_loop :: "ip_checker \<Rightarrow> string list \<Rightarrow> ip_error + ip_checker" where
  "NewIPChecker_loop checker [] = Inr checker"
| "NewIPChecker_loop checker (pat0 # pats) =
     (let pat = TrimSpace pat0
      in if pat = [] then NewIPChecker_loop checker pats
         else case ParseCIDR pat of
                Some ipnet \<Rightarrow>
                  NewIPChecker_loop
                    (checker\<lparr>ick_allowedSubnets := ick_allowedSubnets checker @ [ipnet]\<rparr>) pats
              | None \<Rightarrow>
                  (case ParseIP pat of
                     Some ip \<Rightarrow>
                       NewIPChecker_loop
                         (checker\<lparr>ick_allowedIPs := canonicalIP ip # ick_allowedIPs checker\<rparr>) pats
                   | None \<Rightarrow> Inl (InvalidRule pat)))"

definition NewIPChecker :: "string list \<Rightarrow> ip_error + ip_checker" where
  "NewIPChecker patterns = NewIPChecker_loop \<lparr>ick_allowedIPs = [], ick_allowedSubnets = []\<rparr> patterns"

definition IsAllowed :: "ip_checker \<Rightarrow> string \<Rightarrow> bool" where
  "IsAllowed c ipStr =
     (case ParseIP ipStr of
        None \<Rightarrow> False
      | Some ip0 \<Rightarrow>
          let ip = (case To4 ip0 of Some v4 \<Rightarrow> IP4 v4 | None \<Rightarrow> ip0)
          in if canonicalIP ip \<in> set (ick_allowedIPs c) then True
             else list_ex (\<lambda>subnet. Contains_net subnet ip) (ick_allowedSubnets c))"

definition IsBlocked :: "ip_checker \<Rightarrow> string \<Rightarrow> bool" where
  "IsBlocked c ipStr = IsAllowed c ipStr"

definition RuleSetKey :: "string list \<Rightarrow> string" where
  "RuleSetKey rules = Join (sort rules) '',''"

section \<open>The cache\<close>

type_synonym ip_checker_cache = "(string \<times> ip_checker) list"

definition ipCheckerCacheMaxEntries :: nat where "ipCheckerCacheMaxEntries = 5000"

definition cache_store :: "string \<Rightarrow> ip_checker \<Rightarrow> ip_checker_cache \<Rightarrow> ip_checker_cache" where
  "cache_store key checker entries =
     AList.update key checker (if length entries \<ge> ipCheckerCacheMaxEntries then [] else entries)"

definition cache_get :: "string list \<Rightarrow> ip_checker_cache \<Rightarrow> ip_checker option \<times> ip_checker_cache" where
  "cache_get rules entries =
     (if length rules = 0 then (None, entries)
      else
        (let key = RuleSetKey rules
         in case map_of entries key of
              Some checker \<Rightarrow> (Some checker, entries)
            | None \<Rightarrow>
                (case NewIPChecker rules of
                   Inl err \<Rightarrow> (None, entries)
                 | Inr checker \<Rightarrow> (Some checker, cache_store key checker entries))))"

section \<open>The decision of the middleware\<close>

datatype ip_verdict = IPPass | IPDeny string

definition ipFilterDecide :: "route option \<Rightarrow> string \<Rightarrow> ip_checker_cache \<Rightarrow> ip_verdict \<times> ip_checker_cache" where
  "ipFilterDecide rt remoteAddr cache =
     (case rt of
        None \<Rightarrow> (IPPass, cache)
      | Some rt \<Rightarrow>
          if length (rt_IPAllowlist rt) = 0 \<and> length (rt_IPBlocklist rt) = 0 then (IPPass, cache)
          else
            (let ip = ExtractIP remoteAddr (Some (\<lambda>_. [])) False;
                 (blocklist, cache1) = cache_get (rt_IPBlocklist rt) cache
             in if (case blocklist of Some b \<Rightarrow> IsBlocked b ip | None \<Rightarrow> False)
                then (IPDeny ''IP address blocked by policy'', cache1)
                else
                  (let (allowlist, cache2) = cache_get (rt_IPAllowlist rt) cache1
                   in if (case allowlist of Some a \<Rightarrow> \<not> IsAllowed a ip | None \<Rightarrow> False)
                      then (IPDeny ''IP address not in allowlist'', cache2)
                      else (IPPass, cache2))))"

section \<open>What a rule means\<close>

definition ruleValid :: "string \<Rightarrow> bool" where
  "ruleValid rule \<longleftrightarrow>
     TrimSpace rule = [] \<or> ParseCIDR (TrimSpace rule) \<noteq> None \<or> ParseIP (TrimSpace rule) \<noteq> None"

definition ruleMatches :: "string \<Rightarrow> ipaddr \<Rightarrow> bool" where
  "ruleMatches rule ip =
     (if TrimSpace rule = [] then False
      else case ParseCIDR (TrimSpace rule) of
             Some net \<Rightarrow> Contains_net net ip
           | None \<Rightarrow> (case ParseIP (TrimSpace rule) of
                        Some r \<Rightarrow> canonicalIP r = canonicalIP ip
                      | None \<Rightarrow> False))"

definition rulesMatch :: "string list \<Rightarrow> string \<Rightarrow> bool" where
  "rulesMatch rules ipStr =
     (case ParseIP ipStr of None \<Rightarrow> False | Some ip \<Rightarrow> list_ex (\<lambda>r. ruleMatches r ip) rules)"

definition checkerMatches :: "ip_checker \<Rightarrow> ipaddr \<Rightarrow> bool" where
  "checkerMatches c ip \<longleftrightarrow>
     canonicalIP ip \<in> set (ick_allowedIPs c) \<or> (\<exists>n \<in> set (ick_allowedSubnets c). Contains_net n ip)"

lemma IsAllowed_checkerMatches:
  "IsAllowed c ipStr = (case ParseIP ipStr of None \<Rightarrow> False | Some ip \<Rightarrow> checkerMatches c ip)"
  by (auto simp: IsAllowed_def checkerMatches_def canonicalIP_def [symmetric] list_ex_iff
      split: option.splits)

lemma NewIPChecker_loop_spec:
  "(case NewIPChecker_loop c rules of
      Inl _ \<Rightarrow> \<exists>r \<in> set rules. \<not> ruleValid r
    | Inr c' \<Rightarrow> (\<forall>r \<in> set rules. ruleValid r) \<and>
        (\<forall>ip. checkerMatches c' ip \<longleftrightarrow> checkerMatches c ip \<or> (\<exists>r \<in> set rules. ruleMatches r ip)))"
proof (induction rules arbitrary: c)
  case (Cons pat pats)
  consider (blank) "TrimSpace pat = []"
    | (cidr) n where "TrimSpace pat \<noteq> []" "ParseCIDR (TrimSpace pat) = Some n"
    | (single) ip where "TrimSpace pat \<noteq> []" "ParseCIDR (TrimSpace pat) = None" "ParseIP (TrimSpace pat) = Some ip"
    | (bad) "TrimSpace pat \<noteq> []" "ParseCIDR (TrimSpace pat) = None" "ParseIP (TrimSpace pat) = None"
    by fastforce
  then show ?case
  proof cases
    case blank
    then show ?thesis using Cons.IH [of c]
      by (auto simp: ruleValid_def ruleMatches_def split: sum.splits)
  next
    case cidr
    have m: "checkerMatches (c\<lparr>ick_allowedSubnets := ick_allowedSubnets c @ [n]\<rparr>) ip \<longleftrightarrow>
        checkerMatches c ip \<or> Contains_net n ip" for ip
      by (auto simp: checkerMatches_def)
    show ?thesis
      using Cons.IH [of "c\<lparr>ick_allowedSubnets := ick_allowedSubnets c @ [n]\<rparr>"] cidr
      by (auto simp: m ruleValid_def ruleMatches_def split: sum.splits)
  next
    case single
    have m: "checkerMatches (c\<lparr>ick_allowedIPs := canonicalIP ip # ick_allowedIPs c\<rparr>) x \<longleftrightarrow>
        checkerMatches c x \<or> canonicalIP ip = canonicalIP x" for x
      by (auto simp: checkerMatches_def)
    show ?thesis
      using Cons.IH [of "c\<lparr>ick_allowedIPs := canonicalIP ip # ick_allowedIPs c\<rparr>"] single
      by (auto simp: m ruleValid_def ruleMatches_def split: sum.splits)
  next
    case bad
    then show ?thesis by (simp add: ruleValid_def)
  qed
qed simp

lemma NewIPChecker_Inr:
  assumes "NewIPChecker rules = Inr c"
  shows "IsAllowed c ipStr = rulesMatch rules ipStr"
  using NewIPChecker_loop_spec [of rules "\<lparr>ick_allowedIPs = [], ick_allowedSubnets = []\<rparr>"] assms
  by (auto simp: NewIPChecker_def IsAllowed_checkerMatches rulesMatch_def checkerMatches_def list_ex_iff
      split: option.splits)

lemma NewIPChecker_valid: "(\<exists>c. NewIPChecker rules = Inr c) \<longleftrightarrow> (\<forall>r \<in> set rules. ruleValid r)"
  using NewIPChecker_loop_spec [of rules "\<lparr>ick_allowedIPs = [], ick_allowedSubnets = []\<rparr>"]
  by (auto simp: NewIPChecker_def split: sum.splits)

section \<open>The cache invariant\<close>

definition comma_free :: "string list \<Rightarrow> bool" where
  "comma_free rules \<longleftrightarrow> (\<forall>r \<in> set rules. CHR '','' \<notin> set r)"

lemma RuleSetKey_inj:
  assumes "RuleSetKey rules = RuleSetKey rules'" "rules \<noteq> []" "rules' \<noteq> []"
    "comma_free rules" "comma_free rules'"
  shows "mset rules = mset rules'"
proof -
  have inv_key: "splitByte (CHR '','') (RuleSetKey rs) = sort rs" if "rs \<noteq> []" "comma_free rs" for rs
  proof -
    have "sort rs \<noteq> []" using that(1) by (metis length_0_conv length_sort)
    then show ?thesis
      unfolding RuleSetKey_def using that(2) by (intro splitByte_Join) (simp_all add: comma_free_def)
  qed
  have "sort rules = sort rules'"
    using inv_key [OF assms(2,4)] inv_key [OF assms(3,5)] by (simp only: assms(1))
  then show ?thesis by (metis mset_sort)
qed

text \<open>Every entry was built from some list of rules that has the entry's key.\<close>

definition cache_ok :: "ip_checker_cache \<Rightarrow> bool" where
  "cache_ok cache \<longleftrightarrow>
     (\<forall>k c. map_of cache k = Some c \<longrightarrow>
        (\<exists>rules. rules \<noteq> [] \<and> comma_free rules \<and> k = RuleSetKey rules \<and> NewIPChecker rules = Inr c))"

lemma cache_ok_store [inv_intros]:
  "cache_ok cache \<Longrightarrow> rules \<noteq> [] \<Longrightarrow> comma_free rules \<Longrightarrow> NewIPChecker rules = Inr c \<Longrightarrow>
     cache_ok (cache_store (RuleSetKey rules) c cache)"
  by (auto simp: cache_ok_def cache_store_def update_conv')

lemma cache_ok_get [inv_intros]:
  "cache_ok cache \<Longrightarrow> comma_free rules \<Longrightarrow> cache_ok (snd (cache_get rules cache))"
  by (auto simp: cache_get_def Let_def intro!: cache_ok_store split: option.splits sum.splits)

lemma length_cache_store: "length cache \<le> 5000 \<Longrightarrow> length (cache_store k c cache) \<le> 5000"
proof -
  assume "length cache \<le> 5000"
  have "length (AList.update k c xs) \<le> Suc (length xs)" for xs :: ip_checker_cache
    by (induction xs) auto
  from this [of cache] this [of "[]"] \<open>length cache \<le> 5000\<close> show ?thesis
    by (simp add: cache_store_def ipCheckerCacheMaxEntries_def)
qed

lemma rulesMatch_mset: "mset rules = mset rules' \<Longrightarrow> rulesMatch rules ip = rulesMatch rules' ip"
  by (auto simp: rulesMatch_def list_ex_iff dest: mset_eq_setD split: option.split)

lemma cache_get_allowed:
  assumes "cache_ok cache" "comma_free rules" "fst (cache_get rules cache) = Some c"
  shows "IsAllowed c ip = rulesMatch rules ip"
proof -
  have ne: "rules \<noteq> []" using assms(3) by (auto simp: cache_get_def)
  show ?thesis
  proof (cases "map_of cache (RuleSetKey rules)")
    case None
    then have "NewIPChecker rules = Inr c"
      using assms(3) ne by (simp add: cache_get_def split: sum.splits)
    then show ?thesis by (rule NewIPChecker_Inr)
  next
    case (Some c')
    then have "c' = c" using assms(3) ne by (simp add: cache_get_def)
    with Some assms(1) obtain rules' where
      r: "rules' \<noteq> []" "comma_free rules'" "RuleSetKey rules = RuleSetKey rules'" "NewIPChecker rules' = Inr c"
      unfolding cache_ok_def by metis
    then have "mset rules = mset rules'" using RuleSetKey_inj ne assms(2) by blast
    then show ?thesis using NewIPChecker_Inr [OF r(4)] rulesMatch_mset by blast
  qed
qed

lemma cache_get_None:
  assumes "cache_ok cache" "comma_free rules"
  shows "fst (cache_get rules cache) = None \<longleftrightarrow> rules = [] \<or> (\<exists>r \<in> set rules. \<not> ruleValid r)"
proof (cases "rules = [] \<or> map_of cache (RuleSetKey rules) = None")
  case True
  then show ?thesis using NewIPChecker_valid [of rules]
    by (auto simp: cache_get_def Let_def split: sum.splits option.splits)
next
  case False
  then obtain c where "map_of cache (RuleSetKey rules) = Some c" by blast
  with assms obtain rules' where "mset rules = mset rules'" "NewIPChecker rules' = Inr c"
    unfolding cache_ok_def using RuleSetKey_inj False by metis
  then have "\<forall>r \<in> set rules. ruleValid r" using NewIPChecker_valid mset_eq_setD by metis
  then show ?thesis using False by (auto simp: cache_get_def)
qed

section \<open>The policy\<close>

text \<open>
  What a route's lists ask for, without a cache: a list counts only when it is not empty and every
  rule of it parses; a counting block list is consulted first.
\<close>

definition usable :: "string list \<Rightarrow> bool" where
  "usable rules \<longleftrightarrow> rules \<noteq> [] \<and> list_all ruleValid rules"

definition ipPolicy :: "route \<Rightarrow> string \<Rightarrow> ip_verdict" where
  "ipPolicy rt ip =
     (if usable (rt_IPBlocklist rt) \<and> rulesMatch (rt_IPBlocklist rt) ip
      then IPDeny ''IP address blocked by policy''
      else if usable (rt_IPAllowlist rt) \<and> \<not> rulesMatch (rt_IPAllowlist rt) ip
      then IPDeny ''IP address not in allowlist''
      else IPPass)"

lemma cache_get_usable:
  assumes "cache_ok cache" "comma_free rules"
  shows "(case fst (cache_get rules cache) of Some c \<Rightarrow> P (IsAllowed c ip) | None \<Rightarrow> Q) =
    (if usable rules then P (rulesMatch rules ip) else Q)"
proof (cases "fst (cache_get rules cache)")
  case None
  then show ?thesis using cache_get_None [OF assms] by (auto simp: usable_def list_all_iff)
next
  case (Some c)
  then have "usable rules" using cache_get_None [OF assms] by (auto simp: usable_def list_all_iff)
  then show ?thesis using Some cache_get_allowed [OF assms Some] by simp
qed

lemma ipFilterDecide_policy:
  assumes "cache_ok cache" "comma_free (rt_IPBlocklist rt)" "comma_free (rt_IPAllowlist rt)"
  shows "fst (ipFilterDecide (Some rt) addr cache) = ipPolicy rt (ExtractIP addr None False)"
    and "cache_ok (snd (ipFilterDecide (Some rt) addr cache))"
proof -
  obtain b c1 where b: "cache_get (rt_IPBlocklist rt) cache = (b, c1)" by fastforce
  obtain a c2 where a: "cache_get (rt_IPAllowlist rt) c1 = (a, c2)" by fastforce
  have c1: "cache_ok c1" using cache_ok_get [OF assms(1,2)] b by simp
  have c2: "cache_ok c2" using cache_ok_get [OF c1 assms(3)] a by simp
  have ip: "ExtractIP addr (Some (\<lambda>_. [])) False = ExtractIP addr None False"
    by (simp add: ExtractIP_def)
  have blocked: "IsBlocked = IsAllowed" by (intro ext) (rule IsBlocked_def)
  note block = cache_get_usable [OF assms(1,2), unfolded b fst_conv, where P = "\<lambda>x. x" and Q = False]
  note allow = cache_get_usable [OF c1 assms(3), unfolded a fst_conv, where P = "\<lambda>x. \<not> x" and Q = False]
  show "fst (ipFilterDecide (Some rt) addr cache) = ipPolicy rt (ExtractIP addr None False)"
  proof (cases "rt_IPAllowlist rt = [] \<and> rt_IPBlocklist rt = []")
    case False
    then have g: "\<not> (length (rt_IPAllowlist rt) = 0 \<and> length (rt_IPBlocklist rt) = 0)" by simp
    show ?thesis
      unfolding ipFilterDecide_def blocked option.case if_not_P [OF g] Let_def ip b prod.case a block allow
      by (simp add: ipPolicy_def)
  qed (simp add: ipFilterDecide_def ipPolicy_def usable_def)
  show "cache_ok (snd (ipFilterDecide (Some rt) addr cache))"
    using assms(1) c1 c2 by (auto simp: ipFilterDecide_def a b Let_def)
qed

text \<open>The cache after a sequence of requests, each with its matched route and peer address.\<close>

definition cacheAfter :: "(route option \<times> string) list \<Rightarrow> ip_checker_cache" where
  "cacheAfter reqs = fold (\<lambda>(rt, addr) cache. snd (ipFilterDecide rt addr cache)) reqs []"

definition routes_comma_free :: "(route option \<times> string) list \<Rightarrow> bool" where
  "routes_comma_free reqs \<longleftrightarrow>
     (\<forall>(rt, addr) \<in> set reqs. \<forall>r \<in> set_option rt. comma_free (rt_IPBlocklist r) \<and> comma_free (rt_IPAllowlist r))"

lemma cache_ok_after: "routes_comma_free reqs \<Longrightarrow> cache_ok (cacheAfter reqs)"
proof -
  have "cache_ok c \<Longrightarrow> routes_comma_free reqs \<Longrightarrow>
      cache_ok (fold (\<lambda>(rt, addr) cache. snd (ipFilterDecide rt addr cache)) reqs c)" for c
  proof (induction reqs arbitrary: c)
    case (Cons q reqs)
    obtain rt addr where q: "q = (rt, addr)" by (cases q)
    have "cache_ok (snd (ipFilterDecide rt addr c))"
      using Cons.prems ipFilterDecide_policy(2) [of c _ addr]
      by (cases rt) (auto simp: q routes_comma_free_def ipFilterDecide_def [of None])
    then show ?case using Cons by (simp add: q routes_comma_free_def)
  qed simp
  moreover have "cache_ok []" by (simp add: cache_ok_def)
  ultimately show "routes_comma_free reqs \<Longrightarrow> cache_ok (cacheAfter reqs)"
    by (simp add: cacheAfter_def)
qed

section \<open>Properties\<close>


definition blocked_route :: route where
  "blocked_route = plain_route ''r'' ''/''
     \<lparr>rt_IPBlocklist := [''10.0.0.0/8''], rt_IPAllowlist := [''10.1.2.3'']\<rparr>"

lemma example_address: "ParseIP ''10.1.2.3'' = Some (IP16 (v4InV6 0x0A010203))"
  by (simp add: ParseIP_def ParseAddr_def parseIPv4_def digitVal_def Let_def numOf_def)

lemma example_rules:
  "ParseCIDR ''10.0.0.0/8'' = Some \<lparr>net_IP = IP4 0x0A000000, net_Ones = 8\<rparr>"
  "TrimSpace ''10.0.0.0/8'' = ''10.0.0.0/8''"
  by (simp_all add: ParseCIDR_def cutByte_def dtoi_def ParseAddr_def parseIPv4_def digitVal_def Let_def
      numOf_def keepHigh_def TrimSpace_def trimBy_def isSpace_def)


text \<open>
  A checker means its rules: \<^verbatim>\<open>NewIPChecker\<close> fails exactly when some rule is neither blank nor a
  network nor an address, and otherwise accepts exactly the texts that parse to an address which some
  rule equals or contains.
\<close>

theorem NewIPChecker_spec:
  "case NewIPChecker rules of
     Inl _ \<Rightarrow> \<not> list_all ruleValid rules
   | Inr c \<Rightarrow> list_all ruleValid rules \<and> (\<forall>ipStr. IsAllowed c ipStr = rulesMatch rules ipStr)"
  using NewIPChecker_valid [of rules] NewIPChecker_Inr [of rules]
  by (auto simp: list_all_iff split: sum.splits)

text \<open>
  A list with a rule that does not parse is ignored, not enforced: with no block list, an allow
  list that contains such a rule lets every client through, whatever its other rules say.
\<close>

theorem invalid_allowlist_fails_open:
  assumes "r \<in> set (rt_IPAllowlist rt)" "\<not> ruleValid r" "rt_IPBlocklist rt = []"
    and "comma_free (rt_IPAllowlist rt)" "routes_comma_free reqs"
  shows "fst (ipFilterDecide (Some rt) addr (cacheAfter reqs)) = IPPass"
proof -
  have "comma_free (rt_IPBlocklist rt)" by (simp add: assms(3) comma_free_def)
  moreover have "\<not> usable (rt_IPAllowlist rt)" "\<not> usable (rt_IPBlocklist rt)"
    using assms(1-3) by (auto simp: usable_def list_all_iff)
  ultimately show ?thesis
    by (simp add: ipFilterDecide_policy(1) [OF cache_ok_after [OF assms(5)] _ assms(4)] ipPolicy_def)
qed

theorem invalid_allowlist_fails_open_witness:
  "fst (ipFilterDecide (Some (plain_route ''r'' ''/''\<lparr>rt_IPAllowlist := [''10.0.0.1'', ''bad'']\<rparr>))
     ''8.8.8.8:1'' (cacheAfter [])) = IPPass"
  using invalid_allowlist_fails_open
    [of "''bad''" "plain_route ''r'' ''/''\<lparr>rt_IPAllowlist := [''10.0.0.1'', ''bad'']\<rparr>" "[]" "''8.8.8.8:1''"]
  by (simp add: ruleValid_def ParseCIDR_def ParseIP_def ParseAddr_def cutByte_def TrimSpace_def trimBy_def
      isSpace_def comma_free_def routes_comma_free_def)

end
