(* ===== verification/Rate_Limit.thy ===== *)
theory Rate_Limit
  imports EG_Prelude
begin

text \<open>
  The sliding-window limiters of \<^verbatim>\<open>internal/ratelimit\<close>. The memory limiter is modelled whole: its
  methods run under one mutex and read the clock there, so each is one step at a time \<open>now\<close>.
  Redis is a service outside the repository: its sorted-set commands are the parameter
  \<open>zset_ops\<close>, used by the Lua script exactly as \<^verbatim>\<open>redis_limiter.go\<close> writes it, and what Redis
  documents about them is the predicate \<open>zset_laws\<close>.

  The locale \<open>sliding_log\<close> is the contract of a limiter that keeps a log of granted requests; the
  bound on the number of grants in any window is proved there once.
\<close>

section \<open>Data\<close>

record rate_result =
  rr_Allowed :: bool
  rr_Remaining :: int
  rr_ResetAt :: go_time

definition slidingWindow :: go_duration where "slidingWindow = 60 * second"
definition maxEntriesPerKey :: int where "maxEntriesPerKey = 10000"

record memory_limiter =
  ml_requests :: "string \<rightharpoonup> go_time list"
  ml_requestsPerMin :: int

section \<open>The memory limiter\<close>

definition NewMemoryLimiter :: "int \<Rightarrow> memory_limiter" where
  "NewMemoryLimiter rpm = \<lparr>ml_requests = Map.empty, ml_requestsPerMin = rpm\<rparr>"

fun trim :: "go_time list \<Rightarrow> go_time \<Rightarrow> go_time list" where
  "trim [] cutoff = []"
| "trim (e # es) cutoff = (if e < cutoff then trim es cutoff else e # es)"

definition ml_get :: "memory_limiter \<Rightarrow> string \<Rightarrow> go_time list" where
  "ml_get m key = (case ml_requests m key of None \<Rightarrow> [] | Some es \<Rightarrow> es)"

definition ml_put :: "memory_limiter \<Rightarrow> string \<Rightarrow> go_time list \<Rightarrow> memory_limiter" where
  "ml_put m key es = m\<lparr>ml_requests := (ml_requests m)(key \<mapsto> es)\<rparr>"

definition Memory_CheckAndConsume ::
  "go_time \<Rightarrow> string \<Rightarrow> int \<Rightarrow> memory_limiter \<Rightarrow> rate_result \<times> memory_limiter" where
  "Memory_CheckAndConsume now key limit m =
     (let cutoff = now - slidingWindow;
          entries = trim (ml_get m key) cutoff
      in if int (length entries) \<ge> limit then
           (\<lparr>rr_Allowed = False, rr_Remaining = 0, rr_ResetAt = now + slidingWindow\<rparr>,
            ml_put m key entries)
         else
           (let entries' = entries @ [now];
                remaining = limit - int (length entries');
                remaining' = (if remaining < 0 then 0 else remaining)
            in (\<lparr>rr_Allowed = True, rr_Remaining = remaining', rr_ResetAt = now + slidingWindow\<rparr>,
                ml_put m key entries')))"

definition Memory_AllowWithLimit ::
  "go_time \<Rightarrow> string \<Rightarrow> int \<Rightarrow> memory_limiter \<Rightarrow> bool \<times> memory_limiter" where
  "Memory_AllowWithLimit now key limit m =
     (case Memory_CheckAndConsume now key limit m of (res, m') \<Rightarrow> (rr_Allowed res, m'))"

definition Memory_Allow :: "go_time \<Rightarrow> string \<Rightarrow> memory_limiter \<Rightarrow> bool \<times> memory_limiter" where
  "Memory_Allow now key m = Memory_AllowWithLimit now key (ml_requestsPerMin m) m"

definition Memory_Count :: "go_time \<Rightarrow> string \<Rightarrow> memory_limiter \<Rightarrow> int \<times> memory_limiter" where
  "Memory_Count now key m =
     (let entries = trim (ml_get m key) (now - slidingWindow)
      in (int (length entries), ml_put m key entries))"

definition Memory_Limit :: "memory_limiter \<Rightarrow> int" where
  "Memory_Limit m = ml_requestsPerMin m"

text \<open>One tick of the cleanup goroutine: every key is trimmed, and dropped when nothing is left.\<close>

definition Memory_Cleanup :: "go_time \<Rightarrow> memory_limiter \<Rightarrow> memory_limiter" where
  "Memory_Cleanup now m =
     m\<lparr>ml_requests := (\<lambda>key.
         case ml_requests m key of
           None \<Rightarrow> None
         | Some entries \<Rightarrow>
             let trimmed = trim entries (now - slidingWindow)
             in if length trimmed = 0 then None else Some trimmed)\<rparr>"

section \<open>The Redis limiter\<close>

text \<open>The sorted-set commands of Redis, on a database of type \<open>'r\<close>.\<close>

record 'r zset_ops =
  ZREMRANGEBYSCORE_upto :: "string \<Rightarrow> int \<Rightarrow> 'r \<Rightarrow> 'r"
  ZCARD :: "string \<Rightarrow> 'r \<Rightarrow> int"
  ZADD :: "string \<Rightarrow> int \<Rightarrow> string \<Rightarrow> 'r \<Rightarrow> 'r"
  ZREMRANGEBYRANK :: "string \<Rightarrow> int \<Rightarrow> int \<Rightarrow> 'r \<Rightarrow> 'r"
  PEXPIRE :: "string \<Rightarrow> int \<Rightarrow> 'r \<Rightarrow> 'r"

text \<open>
  What the commands do to the scored members \<open>view r key\<close> of a key: remove the scores up to a
  bound, count, add a new member, remove by rank (nothing, when the last rank lies before the
  first member), and set a time to live (which changes no member at once).
\<close>

definition zset_laws :: "'r zset_ops \<Rightarrow> ('r \<Rightarrow> string \<Rightarrow> (int \<times> string) multiset) \<Rightarrow> bool" where
  "zset_laws ops view \<longleftrightarrow>
     (\<forall>r key b k. view (ZREMRANGEBYSCORE_upto ops key b r) k =
        (if k = key then filter_mset (\<lambda>e. fst e > b) (view r k) else view r k)) \<and>
     (\<forall>r key. ZCARD ops key r = int (size (view r key))) \<and>
     (\<forall>r key sc mem k. mem \<notin># image_mset snd (view r key) \<longrightarrow>
        view (ZADD ops key sc mem r) k =
          (if k = key then add_mset (sc, mem) (view r k) else view r k)) \<and>
     (\<forall>r key stop k. int (size (view r key)) + stop < 0 \<longrightarrow>
        view (ZREMRANGEBYRANK ops key 0 stop r) k = view r k) \<and>
     (\<forall>r key ms k. view (PEXPIRE ops key ms r) k = view r k)"

definition slidingWindowScript ::
  "'r zset_ops \<Rightarrow> string \<Rightarrow> int \<Rightarrow> int \<Rightarrow> int \<Rightarrow> string \<Rightarrow> int \<Rightarrow> 'r \<Rightarrow> (int \<times> int) \<times> 'r" where
  "slidingWindowScript ops key now_ms window_ms limit member max_entries r =
     (let r1 = ZREMRANGEBYSCORE_upto ops key (now_ms - window_ms) r;
          current = ZCARD ops key r1
      in if current \<ge> limit then ((0, current), r1)
         else
           (let r2 = ZADD ops key now_ms member r1;
                r3 = ZREMRANGEBYRANK ops key 0 (- max_entries - 1) r2;
                r4 = PEXPIRE ops key window_ms r3
            in ((1, current + 1), r4)))"

definition countScript :: "'r zset_ops \<Rightarrow> string \<Rightarrow> int \<Rightarrow> int \<Rightarrow> 'r \<Rightarrow> int \<times> 'r" where
  "countScript ops key now_ms window_ms r =
     (let r1 = ZREMRANGEBYSCORE_upto ops key (now_ms - window_ms) r
      in (ZCARD ops key r1, r1))"

text \<open>
  A call to Redis either returns, or fails: before the script ran, or after it did (the reply was
  lost or came too late for the 50 ms deadline).
\<close>

datatype redis_outcome = Reached | FailedBefore | FailedAfter

record 'r redis_limiter =
  rl_client :: "'r option"
  rl_requestsPerMin :: int
  rl_fallback :: memory_limiter

definition unixMilli :: "go_time \<Rightarrow> int" where "unixMilli t = t div millisecond"

definition windowKey :: "string \<Rightarrow> string" where "windowKey key = ''ratelimit:'' @ key"

definition rl_via_fallback ::
  "go_time \<Rightarrow> string \<Rightarrow> int \<Rightarrow> 'r redis_limiter \<Rightarrow> rate_result \<times> 'r redis_limiter" where
  "rl_via_fallback now key limit l =
     (case Memory_CheckAndConsume now key limit (rl_fallback l) of
        (res, m') \<Rightarrow> (res, l\<lparr>rl_fallback := m'\<rparr>))"

definition Redis_CheckAndConsume ::
  "'r zset_ops \<Rightarrow> redis_outcome \<Rightarrow> string \<Rightarrow> go_time \<Rightarrow> string \<Rightarrow> int \<Rightarrow> 'r redis_limiter \<Rightarrow>
     rate_result \<times> 'r redis_limiter" where
  "Redis_CheckAndConsume ops outcome member now key limit l =
     (let resetAt = now + slidingWindow
      in case rl_client l of
           None \<Rightarrow> rl_via_fallback now key limit l
         | Some r \<Rightarrow>
             let (vals, r') = slidingWindowScript ops (windowKey key) (unixMilli now)
                   (slidingWindow div millisecond) limit member maxEntriesPerKey r
             in case outcome of
                  FailedBefore \<Rightarrow> rl_via_fallback now key limit l
                | FailedAfter \<Rightarrow> rl_via_fallback now key limit (l\<lparr>rl_client := Some r'\<rparr>)
                | Reached \<Rightarrow>
                    let allowed = (fst vals = 1);
                        remaining = limit - snd vals;
                        remaining' = (if remaining < 0 then 0 else remaining)
                    in (\<lparr>rr_Allowed = allowed, rr_Remaining = remaining', rr_ResetAt = resetAt\<rparr>,
                        l\<lparr>rl_client := Some r'\<rparr>))"

definition Redis_AllowWithLimit ::
  "'r zset_ops \<Rightarrow> redis_outcome \<Rightarrow> string \<Rightarrow> go_time \<Rightarrow> string \<Rightarrow> int \<Rightarrow> 'r redis_limiter \<Rightarrow>
     bool \<times> 'r redis_limiter" where
  "Redis_AllowWithLimit ops outcome member now key limit l =
     (case Redis_CheckAndConsume ops outcome member now key limit l of (res, l') \<Rightarrow> (rr_Allowed res, l'))"

definition Redis_Allow ::
  "'r zset_ops \<Rightarrow> redis_outcome \<Rightarrow> string \<Rightarrow> go_time \<Rightarrow> string \<Rightarrow> 'r redis_limiter \<Rightarrow>
     bool \<times> 'r redis_limiter" where
  "Redis_Allow ops outcome member now key l =
     Redis_AllowWithLimit ops outcome member now key (rl_requestsPerMin l) l"

definition rl_count_fallback :: "go_time \<Rightarrow> string \<Rightarrow> 'r redis_limiter \<Rightarrow> int \<times> 'r redis_limiter" where
  "rl_count_fallback now key l =
     (case Memory_Count now key (rl_fallback l) of (n, m') \<Rightarrow> (n, l\<lparr>rl_fallback := m'\<rparr>))"

definition Redis_Count ::
  "'r zset_ops \<Rightarrow> redis_outcome \<Rightarrow> go_time \<Rightarrow> string \<Rightarrow> 'r redis_limiter \<Rightarrow> int \<times> 'r redis_limiter" where
  "Redis_Count ops outcome now key l =
     (case rl_client l of
        None \<Rightarrow> rl_count_fallback now key l
      | Some r \<Rightarrow>
          let (val, r') = countScript ops (windowKey key) (unixMilli now) (slidingWindow div millisecond) r
          in case outcome of
               FailedBefore \<Rightarrow> rl_count_fallback now key l
             | FailedAfter \<Rightarrow> rl_count_fallback now key (l\<lparr>rl_client := Some r'\<rparr>)
             | Reached \<Rightarrow> (val, l\<lparr>rl_client := Some r'\<rparr>))"

section \<open>The contract of a sliding log\<close>

text \<open>
  A history of a limiter: requests for a key with a limit, and maintenance of some kind, each at
  its time. \<open>grants\<close> lists the times at which requests for one key were let through.
\<close>

datatype 'm limiter_event = Req go_time string int | Maint go_time 'm

fun ev_time :: "'m limiter_event \<Rightarrow> go_time" where
  "ev_time (Req now key limit) = now"
| "ev_time (Maint now m) = now"

fun grants ::
  "(go_time \<Rightarrow> string \<Rightarrow> int \<Rightarrow> 's \<Rightarrow> rate_result \<times> 's) \<Rightarrow> (go_time \<Rightarrow> 'm \<Rightarrow> 's \<Rightarrow> 's) \<Rightarrow>
   string \<Rightarrow> 's \<Rightarrow> 'm limiter_event list \<Rightarrow> go_time list" where
  "grants check maint k s [] = []"
| "grants check maint k s (Maint now m # es) = grants check maint k (maint now m s) es"
| "grants check maint k s (Req now key limit # es) =
     (case check now key limit s of (res, s') \<Rightarrow>
        (if key = k \<and> rr_Allowed res then [now] else []) @ grants check maint k s' es)"

fun after ::
  "(go_time \<Rightarrow> string \<Rightarrow> int \<Rightarrow> 's \<Rightarrow> rate_result \<times> 's) \<Rightarrow> (go_time \<Rightarrow> 'm \<Rightarrow> 's \<Rightarrow> 's) \<Rightarrow>
   's \<Rightarrow> 'm limiter_event list \<Rightarrow> 's" where
  "after check maint s [] = s"
| "after check maint s (Maint now m # es) = after check maint (maint now m s) es"
| "after check maint s (Req now key limit # es) = after check maint (snd (check now key limit s)) es"

text \<open>The grants that fall into the window of length \<open>w\<close> that ends at \<open>t\<close>.\<close>

definition in_window :: "go_duration \<Rightarrow> go_time \<Rightarrow> go_time list \<Rightarrow> go_time list" where
  "in_window w t ts = filter (\<lambda>x. t - w \<le> x \<and> x \<le> t) ts"

locale sliding_log =
  fixes check :: "go_time \<Rightarrow> string \<Rightarrow> int \<Rightarrow> 's \<Rightarrow> rate_result \<times> 's"
    and maint :: "go_time \<Rightarrow> 'm \<Rightarrow> 's \<Rightarrow> 's"
    and log :: "'s \<Rightarrow> string \<Rightarrow> go_time list"
    and ok :: "go_time \<Rightarrow> 's \<Rightarrow> bool"
    and window :: go_duration
  assumes window_nonneg: "0 \<le> window"
    and allowed_iff: "ok t0 s \<Longrightarrow> t0 \<le> now \<Longrightarrow>
      rr_Allowed (fst (check now key limit s)) \<longleftrightarrow>
        int (length (filter (\<lambda>x. now - window \<le> x) (log s key))) < limit"
    and check_ok: "ok t0 s \<Longrightarrow> t0 \<le> now \<Longrightarrow> ok now (snd (check now key limit s))"
    and maint_ok: "ok t0 s \<Longrightarrow> t0 \<le> now \<Longrightarrow> ok now (maint now m s)"
    and check_log: "ok t0 s \<Longrightarrow> t0 \<le> now \<Longrightarrow> now \<le> t \<Longrightarrow>
      filter (\<lambda>x. t - window \<le> x) (log (snd (check now key limit s)) k) =
        filter (\<lambda>x. t - window \<le> x)
          (log s k @ (if k = key \<and> rr_Allowed (fst (check now key limit s)) then [now] else []))"
    and maint_log: "ok t0 s \<Longrightarrow> t0 \<le> now \<Longrightarrow> now \<le> t \<Longrightarrow>
      filter (\<lambda>x. t - window \<le> x) (log (maint now m s) k) = filter (\<lambda>x. t - window \<le> x) (log s k)"
begin

text \<open>
  The log and the full list \<open>gs\<close> of earlier grants agree on whatever is recent enough to matter
  from the time \<open>t0\<close> on.
\<close>

definition agrees :: "go_time \<Rightarrow> string \<Rightarrow> 's \<Rightarrow> go_time list \<Rightarrow> bool" where
  "agrees t0 k s gs \<longleftrightarrow> (\<forall>t \<ge> t0. filter (\<lambda>x. t - window \<le> x) (log s k) = filter (\<lambda>x. t - window \<le> x) gs)"

lemma in_window_snoc:
  assumes "\<forall>x \<in> set gs. x \<le> now"
    and "int (length (filter (\<lambda>x. now - window \<le> x) gs)) < limit"
    and "\<forall>t. int (length (in_window window t gs)) \<le> limit"
  shows "int (length (in_window window t (gs @ [now]))) \<le> limit"
proof (cases "t - window \<le> now \<and> now \<le> t")
  case True
  have "length (in_window window t gs) \<le> length (filter (\<lambda>x. now - window \<le> x) gs)"
    using True assms(1) unfolding in_window_def
    by (induction gs) auto
  then show ?thesis using True assms(2) by (simp add: in_window_def)
next
  case False
  then show ?thesis using assms(3) by (auto simp: in_window_def)
qed

text \<open>What one event does to the agreement, with the grants it adds.\<close>

lemma agrees_maint:
  assumes "ok t0 s" "agrees t0 k s gs" "t0 \<le> now"
  shows "agrees now k (maint now m s) gs"
  using assms maint_log unfolding agrees_def by force

lemma agrees_check:
  assumes "ok t0 s" "agrees t0 k s gs" "t0 \<le> now"
  shows "agrees now k (snd (check now key l s))
    (gs @ (if key = k \<and> rr_Allowed (fst (check now key l s)) then [now] else []))"
  unfolding agrees_def
proof (intro allI impI)
  fix t assume "now \<le> t"
  from check_log [OF assms(1,3) this, of key l k] assms(2,3) this
  show "filter (\<lambda>x. t - window \<le> x) (log (snd (check now key l s)) k) =
      filter (\<lambda>x. t - window \<le> x)
        (gs @ (if key = k \<and> rr_Allowed (fst (check now key l s)) then [now] else []))"
    by (auto simp: agrees_def)
qed

lemma allowed_agrees:
  assumes "ok t0 s" "agrees t0 k s gs" "t0 \<le> now"
  shows "rr_Allowed (fst (check now k l s)) \<longleftrightarrow>
    int (length (filter (\<lambda>x. now - window \<le> x) gs)) < l"
  using allowed_iff [OF assms(1,3), of k l] assms(2,3) by (simp add: agrees_def)

lemma grants_window_aux:
  assumes "ok t0 s" "agrees t0 k s gs" "\<forall>x \<in> set gs. x \<le> t0"
    and "\<forall>t. int (length (in_window window t gs)) \<le> limit"
    and "sorted (t0 # map ev_time es)"
    and "\<forall>now l. Req now k l \<in> set es \<longrightarrow> l \<le> limit"
  shows "int (length (in_window window t (gs @ grants check maint k s es))) \<le> limit"
  using assms
proof (induction es arbitrary: t0 s gs)
  case Nil
  then show ?case by simp
next
  case (Cons e es)
  show ?case
  proof (cases e)
    case (Maint now m)
    have le: "t0 \<le> now" using Cons.prems(5) by (simp add: Maint)
    show ?thesis
      using Cons.IH [of now "maint now m s" gs] Cons.prems le
        maint_ok [OF Cons.prems(1) le] agrees_maint [OF Cons.prems(1,2) le]
      by (force simp: Maint)
  next
    case (Req now key l)
    have le: "t0 \<le> now" using Cons.prems(5) by (simp add: Req)
    obtain res s' where c: "check now key l s = (res, s')" by fastforce
    let ?new = "if key = k \<and> rr_Allowed res then [now] else []"
    have "agrees now k s' (gs @ ?new)"
      using agrees_check [OF Cons.prems(1,2) le, of key l] by (simp add: c)
    moreover have "int (length (in_window window t (gs @ ?new))) \<le> limit" for t
    proof (cases "key = k \<and> rr_Allowed res")
      case True
      then have "int (length (filter (\<lambda>x. now - window \<le> x) gs)) < l"
        using allowed_agrees [OF Cons.prems(1,2) le, of l] c by simp
      moreover have "l \<le> limit" using Cons.prems(6) True by (auto simp: Req)
      moreover have "\<forall>x \<in> set gs. x \<le> now" using Cons.prems(3) le by force
      ultimately show ?thesis using True in_window_snoc Cons.prems(4) by auto
    qed (use Cons.prems(4) in auto)
    ultimately show ?thesis
      using Cons.IH [of now s' "gs @ ?new"] Cons.prems le check_ok [OF Cons.prems(1) le, of key l]
      by (force simp: Req c)
  qed
qed

lemma agrees_after:
  assumes "ok t0 s" "agrees t0 k s gs" "sorted (t0 # map ev_time es)" "\<forall>x \<in> set gs. x \<le> t0"
  shows "\<exists>t1. ok t1 (after check maint s es) \<and> t1 \<in> set (t0 # map ev_time es) \<and>
    agrees t1 k (after check maint s es) (gs @ grants check maint k s es) \<and>
    (\<forall>x \<in> set (gs @ grants check maint k s es). x \<le> t1)"
  using assms
proof (induction es arbitrary: t0 s gs)
  case Nil
  then show ?case by auto
next
  case (Cons e es)
  show ?case
  proof (cases e)
    case (Maint now m)
    have le: "t0 \<le> now" using Cons.prems(3) by (simp add: Maint)
    have "sorted (now # map ev_time es)" "\<forall>x \<in> set gs. x \<le> now"
      using Cons.prems(3,4) le by (auto simp: Maint)
    from Cons.IH [OF maint_ok [OF Cons.prems(1) le, of m] agrees_maint [OF Cons.prems(1,2) le] this]
    show ?thesis by (auto simp: Maint)
  next
    case (Req now key l)
    have le: "t0 \<le> now" using Cons.prems(3) by (simp add: Req)
    obtain res s' where c: "check now key l s = (res, s')" by fastforce
    let ?new = "if key = k \<and> rr_Allowed res then [now] else []"
    have "agrees now k s' (gs @ ?new)"
      using agrees_check [OF Cons.prems(1,2) le, of key l] by (simp add: c)
    moreover have "ok now s'" using check_ok [OF Cons.prems(1) le, of key l] by (simp add: c)
    moreover have "\<forall>x \<in> set (gs @ ?new). x \<le> now" "sorted (now # map ev_time es)"
      using Cons.prems(3,4) le by (auto simp: Req)
    ultimately have "\<exists>t1. ok t1 (after check maint s' es) \<and> t1 \<in> set (now # map ev_time es) \<and>
        agrees t1 k (after check maint s' es) ((gs @ ?new) @ grants check maint k s' es) \<and>
        (\<forall>x \<in> set ((gs @ ?new) @ grants check maint k s' es). x \<le> t1)"
      by (intro Cons.IH)
    then show ?thesis by (simp only: Req c grants.simps after.simps prod.case append_assoc snd_conv) auto
  qed
qed

text \<open>A request is let through exactly when fewer than the limit were granted in the last window.\<close>

lemma allowed_exact:
  assumes "ok t0 s" "log s k = []" "sorted (t0 # map ev_time es @ [now])"
  shows "rr_Allowed (fst (check now k l (after check maint s es))) \<longleftrightarrow>
    int (length (in_window window now (grants check maint k s es))) < l"
proof -
  have "sorted (t0 # map ev_time es)" "\<forall>x \<in> set (t0 # map ev_time es). x \<le> now"
    using assms(3) by (auto simp: sorted_append)
  then obtain t1 where t1: "ok t1 (after check maint s es)" "t1 \<le> now"
      "agrees t1 k (after check maint s es) (grants check maint k s es)"
      "\<forall>x \<in> set (grants check maint k s es). x \<le> t1"
    using agrees_after [OF assms(1), of k "[]" es] assms(2) by (auto simp: agrees_def)
  have "filter (\<lambda>x. now - window \<le> x) (grants check maint k s es) =
      in_window window now (grants check maint k s es)"
    unfolding in_window_def using t1(2,4) by (intro filter_cong refl) force
  then show ?thesis using allowed_agrees [OF t1(1,3,2), of l] by simp
qed

lemma grants_window:
  assumes "ok t0 s" "log s k = []" "0 \<le> limit" "sorted (t0 # map ev_time es)"
    and "\<forall>now l. Req now k l \<in> set es \<longrightarrow> l \<le> limit"
  shows "int (length (in_window window t (grants check maint k s es))) \<le> limit"
  using grants_window_aux [of t0 s k "[]" limit es t] assms
  by (simp add: agrees_def in_window_def)

end

section \<open>The memory limiter keeps the contract\<close>

lemma trim_sorted: "sorted es \<Longrightarrow> trim es c = filter (\<lambda>x. c \<le> x) es"
proof (induction es)
  case (Cons e es)
  show ?case
  proof (cases "e < c")
    case False
    then have "filter (\<lambda>x. c \<le> x) es = es" using Cons.prems by (intro filter_True) auto
    then show ?thesis using False by simp
  qed (use Cons in simp)
qed simp

lemma filter_trim: "c \<le> c' \<Longrightarrow> filter (\<lambda>x. c' \<le> x) (trim es c) = filter (\<lambda>x. c' \<le> (x :: int)) es"
  by (induction es) auto

lemma set_trim: "set (trim es c) \<subseteq> set es"
  by (induction es) auto

lemma sorted_trim: "sorted es \<Longrightarrow> sorted (trim es c)"
  by (induction es) auto

definition ml_ok :: "go_time \<Rightarrow> memory_limiter \<Rightarrow> bool" where
  "ml_ok t m \<longleftrightarrow> (\<forall>k. sorted (ml_get m k) \<and> (\<forall>x \<in> set (ml_get m k). x \<le> t))"

lemma ml_get_put [simp]: "ml_get (ml_put m k es) k' = (if k' = k then es else ml_get m k')"
  by (simp add: ml_get_def ml_put_def)

lemma ml_get_Cleanup [simp]: "ml_get (Memory_Cleanup now m) k = trim (ml_get m k) (now - slidingWindow)"
  by (auto simp: ml_get_def Memory_Cleanup_def Let_def split: option.splits)

lemma ml_ok_put [inv_intros]:
  "ml_ok t m \<Longrightarrow> t \<le> now \<Longrightarrow> sorted es \<Longrightarrow> (\<forall>x \<in> set es. x \<le> now) \<Longrightarrow> ml_ok now (ml_put m k es)"
  by (force simp: ml_ok_def)

lemma ml_ok_trim:
  "ml_ok t m \<Longrightarrow> t \<le> now \<Longrightarrow> sorted (trim (ml_get m k) c) \<and> (\<forall>x \<in> set (trim (ml_get m k) c). x \<le> now)"
  using set_trim sorted_trim unfolding ml_ok_def by (meson order_trans subsetD)

lemma ml_ok_New: "ml_ok t (NewMemoryLimiter rpm)"
  by (simp add: ml_ok_def NewMemoryLimiter_def ml_get_def)

text \<open>What runs beside the requests: counting a key, and the cleanup tick.\<close>

datatype mem_maint = CountKey string | CleanupTick

fun mem_maintain :: "go_time \<Rightarrow> mem_maint \<Rightarrow> memory_limiter \<Rightarrow> memory_limiter" where
  "mem_maintain now (CountKey key) m = snd (Memory_Count now key m)"
| "mem_maintain now CleanupTick m = Memory_Cleanup now m"

lemma ml_get_maintain:
  "\<exists>es \<in> {ml_get m k, trim (ml_get m k) (now - slidingWindow)}. ml_get (mem_maintain now mm m) k = es"
  by (cases mm) (auto simp: Memory_Count_def Let_def)

lemma Memory_CheckAndConsume_allowed:
  "rr_Allowed (fst (Memory_CheckAndConsume now key limit m)) \<longleftrightarrow>
     int (length (trim (ml_get m key) (now - slidingWindow))) < limit"
  by (simp add: Memory_CheckAndConsume_def Let_def)

lemma ml_get_CheckAndConsume:
  "ml_get (snd (Memory_CheckAndConsume now key limit m)) k =
     (if k = key then trim (ml_get m k) (now - slidingWindow) @
        (if rr_Allowed (fst (Memory_CheckAndConsume now key limit m)) then [now] else [])
      else ml_get m k)"
  by (simp add: Memory_CheckAndConsume_def Let_def)

interpretation mem: sliding_log Memory_CheckAndConsume mem_maintain ml_get ml_ok slidingWindow
proof unfold_locales
  fix t0 now t :: go_time and s m k key limit and mm :: mem_maint
  assume ok: "ml_ok t0 s" and le: "t0 \<le> now"
  have sorted: "sorted (ml_get s key)" for key using ok by (simp add: ml_ok_def)
  show "rr_Allowed (fst (Memory_CheckAndConsume now key limit s)) \<longleftrightarrow>
      int (length (filter (\<lambda>x. now - slidingWindow \<le> x) (ml_get s key))) < limit"
    by (simp add: Memory_CheckAndConsume_allowed trim_sorted [OF sorted])
  show "ml_ok now (snd (Memory_CheckAndConsume now key limit s))"
    using ml_ok_trim [OF ok le, of key "now - slidingWindow"] ok le
    by (auto simp: Memory_CheckAndConsume_def Let_def sorted_append intro!: ml_ok_put)
  show "ml_ok now (mem_maintain now mm s)"
    using ml_ok_trim [OF ok le] ok le ml_get_maintain [of s _ now mm]
    unfolding ml_ok_def by (metis (no_types, lifting) insertE order_trans singletonD)
  assume t: "now \<le> t"
  then have cut: "now - slidingWindow \<le> t - slidingWindow" by simp
  show "filter (\<lambda>x. t - slidingWindow \<le> x) (ml_get (snd (Memory_CheckAndConsume now key limit s)) k) =
      filter (\<lambda>x. t - slidingWindow \<le> x) (ml_get s k @
        (if k = key \<and> rr_Allowed (fst (Memory_CheckAndConsume now key limit s)) then [now] else []))"
    by (simp add: ml_get_CheckAndConsume filter_trim [OF cut])
  show "filter (\<lambda>x. t - slidingWindow \<le> x) (ml_get (mem_maintain now mm s) k) =
      filter (\<lambda>x. t - slidingWindow \<le> x) (ml_get s k)"
    using ml_get_maintain [of s k now mm] filter_trim [OF cut] by auto
qed (simp add: slidingWindow_def)

lemma events_start:
  "sorted (map ev_time es) \<Longrightarrow> \<exists>t0. sorted (t0 # map ev_time es)"
  by (cases es) (auto intro: exI [of _ "ev_time (hd es)"])

section \<open>Properties\<close>

text \<open>
  C5. The memory limiter enforces its limit: whatever requests, counts and cleanup ticks happen, in
  time order, on a new limiter, if no request for a key asks for more than \<open>limit\<close> per minute then no
  closed window of 60 seconds contains more than \<open>limit\<close> granted requests for that key.
\<close>

theorem Memory_window_bound:
  assumes "0 \<le> limit" "sorted (map ev_time es)"
    and "\<forall>now l. Req now key l \<in> set es \<longrightarrow> l \<le> limit"
  shows "int (length (in_window slidingWindow t
    (grants Memory_CheckAndConsume mem_maintain key (NewMemoryLimiter rpm) es))) \<le> limit"
proof -
  obtain t0 where "sorted (t0 # map ev_time es)" using events_start [OF assms(2)] ..
  moreover have "ml_get (NewMemoryLimiter rpm) key = []" by (simp add: NewMemoryLimiter_def ml_get_def)
  ultimately show ?thesis using mem.grants_window [OF ml_ok_New] assms by blast
qed

theorem Memory_window_bound_witness:
  "int (length (in_window slidingWindow 5 (grants Memory_CheckAndConsume mem_maintain ''k''
     (NewMemoryLimiter 9) [Req 1 ''k'' 1, Maint 2 CleanupTick, Req 3 ''k'' 1]))) \<le> 1"
  using Memory_window_bound [of 1 "[Req 1 ''k'' 1, Maint 2 CleanupTick, Req 3 ''k'' 1]" "''k''" 5 9]
  by auto

text \<open>
  C6. The memory limiter is exact: after any history in time order, a request for a key passes
  exactly when fewer than its limit were granted for that key in the 60 seconds up to now. So neither
  other keys, nor counting, nor the cleanup goroutine that drops idle keys can be noticed.
\<close>

theorem Memory_allows_exactly:
  assumes "sorted (map ev_time es @ [now])"
  shows "rr_Allowed (fst (Memory_CheckAndConsume now key limit
      (after Memory_CheckAndConsume mem_maintain (NewMemoryLimiter rpm) es))) \<longleftrightarrow>
    int (length (in_window slidingWindow now
      (grants Memory_CheckAndConsume mem_maintain key (NewMemoryLimiter rpm) es))) < limit"
proof -
  obtain t0 where "sorted (t0 # map ev_time es @ [now])"
    using assms by (cases es) (auto intro: exI [of _ now] exI [of _ "ev_time (hd es)"])
  moreover have "ml_get (NewMemoryLimiter rpm) key = []" by (simp add: NewMemoryLimiter_def ml_get_def)
  ultimately show ?thesis using mem.allowed_exact [OF ml_ok_New] by blast
qed

theorem Memory_allows_exactly_witness:
  "rr_Allowed (fst (Memory_CheckAndConsume 3 ''k'' 1
     (after Memory_CheckAndConsume mem_maintain (NewMemoryLimiter 9) [Maint 2 CleanupTick])))"
  using Memory_allows_exactly [of "[Maint 2 CleanupTick]" 3 "''k''" 1 9]
  by (simp add: in_window_def)

text \<open>The members recorded less than 60 seconds ago.\<close>

definition live_members ::
  "('r \<Rightarrow> string \<Rightarrow> (int \<times> string) multiset) \<Rightarrow> 'r \<Rightarrow> string \<Rightarrow> go_time \<Rightarrow> (int \<times> string) multiset" where
  "live_members view r key now =
     filter_mset (\<lambda>e. fst e > unixMilli now - 60000) (view r (windowKey key))"

text \<open>
  The Redis limiter, for a limit within the cap of 10000 entries and a request identifier not
  yet in the set: it lets the request through exactly when fewer than the limit are recorded with a
  millisecond stamp in the last 60 seconds (the older bound excluded), records it then and only then,
  drops what is older, leaves every other key alone, and reports what remains.
\<close>

theorem Redis_CheckAndConsume_spec:
  assumes "zset_laws ops view" "rl_client l = Some r" "limit \<le> maxEntriesPerKey"
    and "member \<notin># image_mset snd (view r (windowKey key))"
  shows "\<exists>res r'. Redis_CheckAndConsume ops Reached member now key limit l =
      (res, l\<lparr>rl_client := Some r'\<rparr>) \<and>
    rr_Allowed res = (int (size (live_members view r key now)) < limit) \<and>
    view r' (windowKey key) = (if rr_Allowed res then add_mset (unixMilli now, member) (live_members view r key now)
       else live_members view r key now) \<and>
    (rr_Allowed res \<longrightarrow> rr_Remaining res = limit - int (size (live_members view r key now)) - 1) \<and>
    (\<not> rr_Allowed res \<longrightarrow> rr_Remaining res = 0) \<and>
    (\<forall>k. k \<noteq> windowKey key \<longrightarrow> view r' k = view r k)"
proof -
  define live where "live = live_members view r key now"
  let ?k = "windowKey key" and ?now = "unixMilli now"
  define r1 where "r1 = ZREMRANGEBYSCORE_upto ops ?k (?now - 60000) r"
  have v1: "view r1 k = (if k = ?k then live else view r k)" for k
    using assms(1) by (simp add: zset_laws_def r1_def live_def live_members_def)
  have card: "ZCARD ops ?k r1 = int (size live)" using assms(1) v1 by (simp add: zset_laws_def)
  define r2 where "r2 = ZADD ops ?k ?now member r1"
  have "member \<notin># image_mset snd (view r1 ?k)" using assms(4) by (auto simp: v1 live_def live_members_def)
  then have v2: "view r2 k = (if k = ?k then add_mset (?now, member) live else view r k)" for k
    using assms(1) v1 by (simp add: zset_laws_def r2_def)
  define r4 where "r4 = PEXPIRE ops ?k 60000 (ZREMRANGEBYRANK ops ?k 0 (- maxEntriesPerKey - 1) r2)"
  have "int (size live) < limit \<Longrightarrow> int (size (view r2 ?k)) + (- maxEntriesPerKey - 1) < 0"
    using assms(3) by (simp add: v2)
  then have v4: "int (size live) < limit \<Longrightarrow> view r4 k = view r2 k" for k
    using assms(1) unfolding zset_laws_def r4_def by simp
  have script: "slidingWindowScript ops ?k ?now 60000 limit member maxEntriesPerKey r =
      (if int (size live) < limit then ((1, int (size live) + 1), r4) else ((0, int (size live)), r1))"
    using card by (simp add: slidingWindowScript_def Let_def r1_def [symmetric] r2_def [symmetric]
        r4_def [symmetric])
  have ms: "slidingWindow div millisecond = 60000" by (simp add: slidingWindow_def)
  show ?thesis
    unfolding Redis_CheckAndConsume_def Let_def assms(2) ms live_def [symmetric]
    by (cases "int (size live) < limit") (auto simp: script v1 v2 v4)
qed

text \<open>An instance of the sorted-set commands, keyed by name, that keeps the laws.\<close>

definition plain_zset :: "(string \<Rightarrow> (int \<times> string) multiset) zset_ops" where
  "plain_zset =
     \<lparr>ZREMRANGEBYSCORE_upto = (\<lambda>key b r. r(key := filter_mset (\<lambda>e. fst e > b) (r key))),
      ZCARD = (\<lambda>key r. int (size (r key))),
      ZADD = (\<lambda>key sc mem r. r(key := add_mset (sc, mem) (filter_mset (\<lambda>e. snd e \<noteq> mem) (r key)))),
      ZREMRANGEBYRANK = (\<lambda>key start stop r. r),
      PEXPIRE = (\<lambda>key ms r. r)\<rparr>"

lemma plain_zset_laws: "zset_laws plain_zset (\<lambda>r. r)"
proof -
  have "filter_mset (\<lambda>e. snd e \<noteq> mem) M = M" if "mem \<notin># image_mset snd M"
    for M :: "(int \<times> string) multiset" and mem
    using that by (simp add: filter_mset_eq_conv) (metis image_eqI)
  then show ?thesis by (simp add: zset_laws_def plain_zset_def)
qed

theorem Redis_CheckAndConsume_spec_witness:
  "\<exists>res l'. Redis_CheckAndConsume plain_zset Reached ''id'' 0 ''c'' 2
     \<lparr>rl_client = Some (\<lambda>_. {#}), rl_requestsPerMin = 2, rl_fallback = NewMemoryLimiter 2\<rparr> = (res, l') \<and>
     rr_Allowed res \<and> rr_Remaining res = 1"
  using Redis_CheckAndConsume_spec [OF plain_zset_laws,
      of "\<lparr>rl_client = Some (\<lambda>_. {#}), rl_requestsPerMin = 2, rl_fallback = NewMemoryLimiter 2\<rparr>"
        "\<lambda>_. {#}" 2 "''id''" "''c''" 0]
  by (auto simp: maxEntriesPerKey_def live_members_def)

end
