(* ===== verification/Load_Balancer.thy ===== *)
theory Load_Balancer
  imports EG_Prelude
begin

text \<open>
  The load balancing strategies of \<^verbatim>\<open>internal/gateway/loadbalancer\<close>. A strategy object is a value
  threaded through its methods; each method runs under the object's mutex (or on one atomic
  counter), so it is one step. The round-robin counter is a 64-bit word and wraps; the in-flight
  numbers of the least-connections strategy are mathematical integers, since an \<^verbatim>\<open>int64\<close> cannot
  overflow by counting open requests.

  The locale \<open>lb_strategy\<close> is the interface \<^verbatim>\<open>Strategy\<close> with what its client, the dynamic proxy,
  relies on; it is interpreted on round robin, on least connections and on the dynamic dispatch.
\<close>

section \<open>Data\<close>

record target =
  tg_ID :: string
  tg_URL :: string
  tg_Weight :: int

datatype lb_error = ErrNoHealthyTargets

record round_robin =
  rr_counter :: "64 word"

record least_conn =
  lc_inFlight :: "string \<rightharpoonup> int"

datatype strategy = RR round_robin | LC least_conn

section \<open>Round robin\<close>

definition NewRoundRobin :: round_robin where
  "NewRoundRobin = \<lparr>rr_counter = 0\<rparr>"

definition clampWeight :: "int \<Rightarrow> int" where
  "clampWeight w0 =
     (let w = (if w0 < 1 then 1 else w0) in if w > 100 then 100 else w)"

definition allEqualWeights :: "target list \<Rightarrow> bool" where
  "allEqualWeights pool = list_all (\<lambda>t. tg_Weight t = tg_Weight (hd pool)) pool"

definition expandByWeight :: "target list \<Rightarrow> target list" where
  "expandByWeight pool =
     (if allEqualWeights pool then pool
      else concat (map (\<lambda>t. replicate (nat (clampWeight (tg_Weight t))) t) pool))"

definition RoundRobin_Pick :: "round_robin \<Rightarrow> target list \<Rightarrow> (lb_error + target) \<times> round_robin" where
  "RoundRobin_Pick r pool =
     (if length pool = 0 then (Inl ErrNoHealthyTargets, r)
      else if length pool = 1 then (Inr (pool ! 0), r)
      else
        (let expanded = expandByWeight pool;
             c = rr_counter r + 1;
             idx = c mod of_nat (length expanded)
         in (Inr (expanded ! unat idx), r\<lparr>rr_counter := c\<rparr>)))"

definition RoundRobin_Release :: "round_robin \<Rightarrow> target \<Rightarrow> round_robin" where
  "RoundRobin_Release r t = r"

section \<open>Least connections\<close>

definition NewLeastConn :: least_conn where
  "NewLeastConn = \<lparr>lc_inFlight = Map.empty\<rparr>"

definition lc_get :: "least_conn \<Rightarrow> string \<Rightarrow> int" where
  "lc_get l i = (case lc_inFlight l i of None \<Rightarrow> 0 | Some c \<Rightarrow> c)"

fun lc_best :: "least_conn \<Rightarrow> target \<Rightarrow> int \<Rightarrow> target list \<Rightarrow> target" where
  "lc_best l best bestCount [] = best"
| "lc_best l best bestCount (t # ts) =
     (let c = lc_get l (tg_ID t)
      in if c < bestCount then lc_best l t c ts else lc_best l best bestCount ts)"

definition LeastConn_Pick :: "least_conn \<Rightarrow> target list \<Rightarrow> (lb_error + target) \<times> least_conn" where
  "LeastConn_Pick l pool =
     (case pool of
        [] \<Rightarrow> (Inl ErrNoHealthyTargets, l)
      | t # ts \<Rightarrow>
          let best = lc_best l t (lc_get l (tg_ID t)) ts
          in (Inr best,
              l\<lparr>lc_inFlight := (lc_inFlight l)(tg_ID best \<mapsto> lc_get l (tg_ID best) + 1)\<rparr>))"

definition LeastConn_Release :: "least_conn \<Rightarrow> target \<Rightarrow> least_conn" where
  "LeastConn_Release l t =
     (case lc_inFlight l (tg_ID t) of
        None \<Rightarrow> l
      | Some c \<Rightarrow>
          if c \<le> 1 then l\<lparr>lc_inFlight := (lc_inFlight l)(tg_ID t := None)\<rparr>
          else l\<lparr>lc_inFlight := (lc_inFlight l)(tg_ID t \<mapsto> c - 1)\<rparr>)"

definition LeastConn_InFlight :: "least_conn \<Rightarrow> string \<rightharpoonup> int" where
  "LeastConn_InFlight l = lc_inFlight l"

section \<open>The interface\<close>

definition NewStrategy :: "string \<Rightarrow> strategy" where
  "NewStrategy name = (if name = ''least_conn'' then LC NewLeastConn else RR NewRoundRobin)"

fun Strategy_Name :: "strategy \<Rightarrow> string" where
  "Strategy_Name (RR r) = ''round_robin''"
| "Strategy_Name (LC l) = ''least_conn''"

fun Strategy_Pick :: "strategy \<Rightarrow> target list \<Rightarrow> (lb_error + target) \<times> strategy" where
  "Strategy_Pick (RR r) pool = (case RoundRobin_Pick r pool of (res, r') \<Rightarrow> (res, RR r'))"
| "Strategy_Pick (LC l) pool = (case LeastConn_Pick l pool of (res, l') \<Rightarrow> (res, LC l'))"

fun Strategy_Release :: "strategy \<Rightarrow> target \<Rightarrow> strategy" where
  "Strategy_Release (RR r) t = RR (RoundRobin_Release r t)"
| "Strategy_Release (LC l) t = LC (LeastConn_Release l t)"

text \<open>
  A pool small enough for its expansion to be addressed by a 64-bit counter: any slice a machine
  can hold.
\<close>

definition pool_fits :: "target list \<Rightarrow> bool" where
  "pool_fits pool \<longleftrightarrow> length pool < 2 ^ 57"

locale lb_strategy =
  fixes pick :: "'s \<Rightarrow> target list \<Rightarrow> (lb_error + target) \<times> 's"
    and release :: "'s \<Rightarrow> target \<Rightarrow> 's"
    and strategyName :: "'s \<Rightarrow> string"
  assumes pick_empty: "pick s [] = (Inl ErrNoHealthyTargets, s)"
    and pick_some: "pool \<noteq> [] \<Longrightarrow> pool_fits pool \<Longrightarrow> \<exists>t s'. t \<in> set pool \<and> pick s pool = (Inr t, s')"
    and name_pick: "strategyName (snd (pick s pool)) = strategyName s"
    and name_release: "strategyName (release s t) = strategyName s"
begin

lemma pool_fits_filter: "pool_fits pool \<Longrightarrow> pool_fits (filter h pool)"
  by (simp add: pool_fits_def) (meson length_filter_le le_less_trans)

text \<open>What the proxy needs of a strategy: it fails exactly when nothing is eligible.\<close>

lemma pick_eligible:
  assumes "pool_fits pool"
  shows "(case fst (pick s (filter h pool)) of
            Inl e \<Rightarrow> (\<forall>t \<in> set pool. \<not> h t) \<and> snd (pick s (filter h pool)) = s
          | Inr t \<Rightarrow> t \<in> set pool \<and> h t)"
proof (cases "filter h pool = []")
  case True
  then show ?thesis by (simp add: pick_empty filter_empty_conv)
next
  case False
  obtain t s' where "t \<in> set (filter h pool)" "pick s (filter h pool) = (Inr t, s')"
    using pick_some [OF False pool_fits_filter [OF assms]] by blast
  then show ?thesis by simp
qed

end

section \<open>Lemmas on round robin\<close>

lemma clampWeight_bounds: "1 \<le> clampWeight w" "nat (clampWeight w) \<le> 100"
  unfolding clampWeight_def Let_def by auto

lemma sum_list_map_le: "(\<And>x. x \<in> set xs \<Longrightarrow> f x \<le> (k::nat)) \<Longrightarrow> sum_list (map f xs) \<le> k * length xs"
  by (induction xs) (auto intro: add_mono)

lemma length_expandByWeight_le: "length (expandByWeight pool) \<le> 100 * length pool"
  using clampWeight_bounds(2)
  by (auto simp: expandByWeight_def length_concat_replicate intro!: sum_list_map_le)

lemma set_expandByWeight: "set (expandByWeight pool) = set pool"
proof (cases "allEqualWeights pool")
  case False
  have "set (replicate (nat (clampWeight (tg_Weight t))) t) = {t}" for t :: target
    using clampWeight_bounds(1) [of "tg_Weight t"] by (simp add: set_replicate_conv_if)
  then show ?thesis using False by (simp add: expandByWeight_def)
qed (simp add: expandByWeight_def)

lemma expandByWeight_Nil_iff [simp]: "expandByWeight pool = [] \<longleftrightarrow> pool = []"
  by (metis set_empty set_expandByWeight)

lemma expandByWeight_fits: "pool_fits pool \<Longrightarrow> length (expandByWeight pool) < 2 ^ 64"
  using length_expandByWeight_le [of pool] by (simp add: pool_fits_def)

lemma unat_mod_length:
  "n < 2 ^ 64 \<Longrightarrow> unat ((c :: 64 word) mod of_nat n) = unat c mod n"
  by (simp add: unat_mod unat_of_nat)

lemma RoundRobin_Pick_many:
  assumes "pool_fits pool" "2 \<le> length pool"
  shows "RoundRobin_Pick r pool =
    (Inr (expandByWeight pool ! (unat (rr_counter r + 1) mod length (expandByWeight pool))),
     r\<lparr>rr_counter := rr_counter r + 1\<rparr>)"
proof -
  have "unat ((rr_counter r + 1) mod of_nat (length (expandByWeight pool))) =
      unat (rr_counter r + 1) mod length (expandByWeight pool)"
    by (rule unat_mod_length [OF expandByWeight_fits [OF assms(1)]])
  then show ?thesis using assms(2) by (auto simp: RoundRobin_Pick_def Let_def)
qed

lemma RoundRobin_Pick_mem:
  assumes "pool \<noteq> []" "pool_fits pool"
  shows "\<exists>t r'. t \<in> set pool \<and> RoundRobin_Pick r pool = (Inr t, r')"
proof (cases "2 \<le> length pool")
  case True
  have "expandByWeight pool ! (unat (rr_counter r + 1) mod length (expandByWeight pool)) \<in> set pool"
    using assms(1) by (metis expandByWeight_Nil_iff length_greater_0_conv mod_less_divisor nth_mem
        set_expandByWeight)
  then show ?thesis using RoundRobin_Pick_many [OF assms(2) True] by blast
next
  case False
  then obtain t where "pool = [t]" using assms(1)
    by (cases pool; cases "tl pool") auto
  then show ?thesis by (simp add: RoundRobin_Pick_def)
qed

interpretation rrs: lb_strategy RoundRobin_Pick RoundRobin_Release "\<lambda>_. ''round_robin''"
  by unfold_locales (simp add: RoundRobin_Pick_def, erule (1) RoundRobin_Pick_mem, (rule refl)+)

text \<open>\<open>k\<close> picks in a row on one pool, in order.\<close>

fun RoundRobin_run :: "round_robin \<Rightarrow> target list \<Rightarrow> nat \<Rightarrow> target list \<times> round_robin" where
  "RoundRobin_run r pool 0 = ([], r)"
| "RoundRobin_run r pool (Suc k) =
     (case RoundRobin_Pick r pool of
        (Inl e, r') \<Rightarrow> ([], r')
      | (Inr t, r') \<Rightarrow> (case RoundRobin_run r' pool k of (ts, r'') \<Rightarrow> (t # ts, r'')))"

lemma unat_Suc_add: "unat c + Suc k < 2 ^ 64 \<Longrightarrow> unat ((c :: 64 word) + 1) = Suc (unat c)"
  by (subst unat_add_lem [THEN iffD1]) auto

lemma RoundRobin_run_nth:
  assumes "pool_fits pool" "2 \<le> length pool" "unat (rr_counter r) + k < 2 ^ 64"
  shows "fst (RoundRobin_run r pool k) =
    map (\<lambda>i. expandByWeight pool ! ((Suc (unat (rr_counter r)) + i) mod length (expandByWeight pool))) [0..<k]"
  using assms(3)
proof (induction k arbitrary: r)
  case (Suc k)
  have u: "unat (rr_counter r + 1) = Suc (unat (rr_counter r))"
    using unat_Suc_add Suc.prems by blast
  have ih: "fst (RoundRobin_run (r\<lparr>rr_counter := rr_counter r + 1\<rparr>) pool k) =
    map (\<lambda>i. expandByWeight pool ! ((Suc (Suc (unat (rr_counter r))) + i) mod length (expandByWeight pool))) [0..<k]"
    using Suc.IH [of "r\<lparr>rr_counter := rr_counter r + 1\<rparr>"] Suc.prems by (simp add: u)
  have shift: "map g [0..<Suc k] = g 0 # map (\<lambda>i. g (Suc i)) [0..<k]" for g :: "nat \<Rightarrow> target"
    by (simp only: map_upt_Suc)
  show ?case
    using ih
    by (cases "RoundRobin_run (r\<lparr>rr_counter := rr_counter r + 1\<rparr>) pool k")
      (simp add: RoundRobin_Pick_many [OF assms(1,2)] u shift del: upt_Suc)
qed simp

lemma map_mod_rotate: "map (\<lambda>i. xs ! ((a + i) mod length xs)) [0..<length xs] = rotate a xs"
  by (rule nth_equalityI) (auto simp: nth_rotate)

lemma RoundRobin_run_round:
  assumes "pool_fits pool" "2 \<le> length pool"
    "unat (rr_counter r) + length (expandByWeight pool) < 2 ^ 64"
  shows "mset (fst (RoundRobin_run r pool (length (expandByWeight pool)))) = mset (expandByWeight pool)"
proof -
  let ?e = "expandByWeight pool"
  have "mset (rotate k xs) = mset xs" for k and xs :: "target list"
  proof (induction k)
    case (Suc k)
    then show ?case by (cases "rotate k xs") auto
  qed simp
  moreover have "fst (RoundRobin_run r pool (length ?e)) = rotate (Suc (unat (rr_counter r))) ?e"
    unfolding RoundRobin_run_nth [OF assms] by (rule map_mod_rotate)
  ultimately show ?thesis by (simp only:)
qed

section \<open>Lemmas on least connections\<close>

lemma lc_best_spec:
  assumes "bestCount = lc_get l (tg_ID best)"
  shows "lc_best l best bestCount ts \<in> set (best # ts) \<and>
    (\<forall>t \<in> set (best # ts). lc_get l (tg_ID (lc_best l best bestCount ts)) \<le> lc_get l (tg_ID t))"
  using assms
proof (induction ts arbitrary: best bestCount)
  case (Cons t ts)
  show ?case
    using Cons.IH [OF refl, of t] Cons.IH [OF refl, of best] Cons.prems
    by (cases "lc_get l (tg_ID t) < bestCount") (auto simp: Let_def)
qed simp

lemma LeastConn_Pick_spec:
  assumes "pool \<noteq> []"
  obtains t where "t \<in> set pool" "\<forall>t' \<in> set pool. lc_get l (tg_ID t) \<le> lc_get l (tg_ID t')"
    "LeastConn_Pick l pool =
       (Inr t, l\<lparr>lc_inFlight := (lc_inFlight l)(tg_ID t \<mapsto> lc_get l (tg_ID t) + 1)\<rparr>)"
proof -
  obtain p ps where pool: "pool = p # ps" using assms by (cases pool) auto
  show thesis
    by (rule that [of "lc_best l p (lc_get l (tg_ID p)) ps"])
      (use lc_best_spec [OF refl, of l p ps] in \<open>simp_all add: pool LeastConn_Pick_def Let_def\<close>)
qed

interpretation lcs: lb_strategy LeastConn_Pick LeastConn_Release "\<lambda>_. ''least_conn''"
proof unfold_locales
  fix s pool assume "(pool :: target list) \<noteq> []"
  then show "\<exists>t s'. t \<in> set pool \<and> LeastConn_Pick s pool = (Inr t, s')"
    by (metis LeastConn_Pick_spec)
qed (simp_all add: LeastConn_Pick_def)

interpretation strat: lb_strategy Strategy_Pick Strategy_Release Strategy_Name
proof unfold_locales
  fix s :: strategy and pool :: "target list" and t :: target
  show "Strategy_Pick s [] = (Inl ErrNoHealthyTargets, s)"
    by (cases s) (simp_all add: rrs.pick_empty lcs.pick_empty)
  show "Strategy_Name (snd (Strategy_Pick s pool)) = Strategy_Name s"
    by (cases s) (simp_all split: prod.splits)
  show "Strategy_Name (Strategy_Release s t) = Strategy_Name s"
    by (cases s) simp_all
  assume p: "pool \<noteq> []" "pool_fits pool"
  show "\<exists>t s'. t \<in> set pool \<and> Strategy_Pick s pool = (Inr t, s')"
  proof (cases s)
    case (RR r)
    then show ?thesis using rrs.pick_some [OF p, of r] by auto
  next
    case (LC l)
    then show ?thesis using lcs.pick_some [OF p, of l] by auto
  qed
qed

text \<open>
  The life of a least-connections object: requests take a target from some pool of eligible
  targets and give it back later, in any order. The second component is the multiset of the
  identifiers of the requests in flight.
\<close>

inductive lc_reach :: "least_conn \<Rightarrow> string multiset \<Rightarrow> bool" where
  lc_start: "lc_reach NewLeastConn {#}"
| lc_take: "lc_reach l out \<Longrightarrow> LeastConn_Pick l pool = (Inr t, l') \<Longrightarrow>
    lc_reach l' (add_mset (tg_ID t) out)"
| lc_give: "lc_reach l out \<Longrightarrow> tg_ID t \<in># out \<Longrightarrow> lc_reach (LeastConn_Release l t) (out - {#tg_ID t#})"

definition lc_tracks :: "least_conn \<Rightarrow> string multiset \<Rightarrow> bool" where
  "lc_tracks l out \<longleftrightarrow>
     (\<forall>i. lc_inFlight l i = (if i \<in># out then Some (int (count out i)) else None))"

lemma lc_tracks_get: "lc_tracks l out \<Longrightarrow> lc_get l i = int (count out i)"
  by (auto simp: lc_tracks_def lc_get_def not_in_iff)

lemma lc_tracks_pick [inv_intros]:
  assumes "lc_tracks l out" "LeastConn_Pick l pool = (Inr t, l')"
  shows "lc_tracks l' (add_mset (tg_ID t) out)"
proof -
  have "pool \<noteq> []" using assms(2) by (auto simp: lcs.pick_empty)
  then obtain "l' = l\<lparr>lc_inFlight := (lc_inFlight l)(tg_ID t \<mapsto> lc_get l (tg_ID t) + 1)\<rparr>"
    using assms(2) by (metis LeastConn_Pick_spec Pair_inject sum.inject(2))
  then show ?thesis using assms(1)
    by (auto simp: lc_tracks_get [OF assms(1)]) (auto simp: lc_tracks_def)
qed

lemma lc_tracks_release [inv_intros]:
  assumes "lc_tracks l out" "tg_ID t \<in># out"
  shows "lc_tracks (LeastConn_Release l t) (out - {#tg_ID t#})"
proof -
  have c: "lc_inFlight l (tg_ID t) = Some (int (count out (tg_ID t)))" "count out (tg_ID t) > 0"
    using assms by (auto simp: lc_tracks_def)
  show ?thesis
  proof (cases "count out (tg_ID t) = 1")
    case True
    then have "tg_ID t \<notin># out - {#tg_ID t#}" by (simp add: not_in_iff)
    then show ?thesis using assms c True
      by (auto simp: LeastConn_Release_def lc_tracks_def in_diff_count)
  next
    case False
    then have "1 < count out (tg_ID t)" using c(2) by linarith
    then show ?thesis using assms c False
      by (auto simp: LeastConn_Release_def lc_tracks_def in_diff_count)
  qed
qed

lemma lc_reach_tracks: "lc_reach l out \<Longrightarrow> lc_tracks l out"
proof (induction rule: lc_reach.induct)
  case lc_start
  then show ?case by (simp add: lc_tracks_def NewLeastConn_def)
qed (auto intro: inv_intros)

section \<open>Properties\<close>

text \<open>
  C10. Weighted round robin is fair: on a pool of at least two distinct targets, as long as the
  64-bit counter does not wrap, any run of as many picks as the expanded pool has slots serves
  each target exactly as often as it has slots, that is once each when all weights are equal and
  otherwise as often as its weight, clamped to 1..100, says.
\<close>

theorem RoundRobin_fair:
  assumes "pool_fits pool" "2 \<le> length pool" "distinct pool" "t \<in> set pool"
    and "unat (rr_counter r) + length (expandByWeight pool) < 2 ^ 64"
  shows "count (mset (fst (RoundRobin_run r pool (length (expandByWeight pool))))) t =
    (if allEqualWeights pool then 1 else nat (clampWeight (tg_Weight t)))"
proof -
  have "count (mset pool) t = 1" using assms(3,4) by (simp add: distinct_count_atmost_1)
  then show ?thesis
    unfolding RoundRobin_run_round [OF assms(1,2,5)]
    by (simp add: expandByWeight_def count_concat_replicate)
qed

definition example_pool :: "target list" where
  "example_pool = [\<lparr>tg_ID = ''a'', tg_URL = ''http://a'', tg_Weight = 3\<rparr>,
                   \<lparr>tg_ID = ''b'', tg_URL = ''http://b'', tg_Weight = 0\<rparr>]"

theorem RoundRobin_fair_witness:
  "count (mset (fst (RoundRobin_run NewRoundRobin example_pool (length (expandByWeight example_pool)))))
     \<lparr>tg_ID = ''a'', tg_URL = ''http://a'', tg_Weight = 3\<rparr> = 3"
proof -
  have "length (expandByWeight example_pool) = 4" "\<not> allEqualWeights example_pool"
    by (simp_all add: example_pool_def expandByWeight_def allEqualWeights_def clampWeight_def)
  then show ?thesis
    using RoundRobin_fair [of example_pool "hd example_pool" NewRoundRobin]
    by (simp add: example_pool_def pool_fits_def NewRoundRobin_def clampWeight_def)
qed

text \<open>
  Least connections counts the open requests exactly: after any sequence of picks and releases
  in which a request releases the target it was given, the stored number of every target is the
  number of its requests in flight, and nothing is stored for an idle target.
\<close>

theorem LeastConn_tracks_in_flight:
  assumes "lc_reach l out"
  shows "LeastConn_InFlight l i = (if i \<in># out then Some (int (count out i)) else None)"
  using lc_reach_tracks [OF assms] by (simp add: LeastConn_InFlight_def lc_tracks_def)

theorem LeastConn_tracks_in_flight_witness:
  "LeastConn_InFlight (snd (LeastConn_Pick NewLeastConn example_pool)) ''a'' = Some 1"
proof -
  have "lc_reach (snd (LeastConn_Pick NewLeastConn example_pool)) (add_mset ''a'' {#})"
    using lc_take [OF lc_start, of example_pool "hd example_pool"]
    by (simp add: LeastConn_Pick_def example_pool_def NewLeastConn_def lc_get_def Let_def)
  from LeastConn_tracks_in_flight [OF this] show ?thesis by simp
qed

text \<open>
  A reachable least-connections object always serves a non-empty pool and gives a request to a
  target that has no more requests in flight than any other target of the pool.
\<close>

theorem LeastConn_picks_least_loaded:
  assumes "lc_reach l out" "pool \<noteq> []"
  shows "\<exists>t l'. LeastConn_Pick l pool = (Inr t, l') \<and> t \<in> set pool \<and>
    (\<forall>t' \<in> set pool. count out (tg_ID t) \<le> count out (tg_ID t'))"
proof -
  obtain t where "t \<in> set pool" "\<forall>t' \<in> set pool. lc_get l (tg_ID t) \<le> lc_get l (tg_ID t')"
    "\<exists>l'. LeastConn_Pick l pool = (Inr t, l')"
    using LeastConn_Pick_spec [OF assms(2)] by metis
  then show ?thesis using lc_tracks_get [OF lc_reach_tracks [OF assms(1)]] by auto
qed

theorem LeastConn_picks_least_loaded_witness:
  "\<exists>t l'. LeastConn_Pick NewLeastConn example_pool = (Inr t, l') \<and> t \<in> set example_pool"
  using LeastConn_picks_least_loaded [OF lc_start, of example_pool] by (auto simp: example_pool_def)

end
