(* ===== verification/Health_Checker.thy ===== *)
theory Health_Checker
  imports EG_Prelude "HOL-Library.AList"
begin

text \<open>
  The health checker of \<^verbatim>\<open>internal/gateway/health/checker.go\<close>. Its three Go maps are association
  lists, so that the loops which range over them visit the keys in the order of the list; what
  matters is stated about \<^const>\<open>map_of\<close>, which hides that order. The HTTP client is the
  parameter \<open>get\<close>, the clock the parameter \<open>now\<close>. Every method is one step under the mutex; a probe
  round applies its results in some order, and the order is shown not to matter.
\<close>

section \<open>Data\<close>

record status =
  st_Healthy :: bool
  st_LastCheck :: go_time
  st_LastErr :: string
  st_ConsecutiveFails :: int
  st_ProjectID :: string

record target_health_config =
  thc_HealthPath :: string
  thc_ProjectID :: string

record checker =
  ck_statuses :: "(string \<times> status) list"
  ck_healthPaths :: "(string \<times> string) list"
  ck_projectIDs :: "(string \<times> string) list"
  ck_gauge :: "((string \<times> string) \<times> int) list"

text \<open>What a probe request can come to: not built, not answered, or a response.\<close>

datatype probe_reply = BuildError string | DoError string | Response int string

section \<open>Operations\<close>

definition New_checker :: checker where
  "New_checker = \<lparr>ck_statuses = [], ck_healthPaths = [], ck_projectIDs = [], ck_gauge = []\<rparr>"

definition Register :: "string \<Rightarrow> string \<Rightarrow> string \<Rightarrow> checker \<Rightarrow> checker" where
  "Register baseURL healthPath0 projectID c =
     (let healthPath = (if healthPath0 = [] then ''/health'' else healthPath0);
          c1 = c\<lparr>ck_projectIDs := AList.update baseURL projectID (ck_projectIDs c),
                 ck_healthPaths := AList.update baseURL healthPath (ck_healthPaths c)\<rparr>
      in case map_of (ck_statuses c) baseURL of
           Some _ \<Rightarrow> c1
         | None \<Rightarrow> c1\<lparr>ck_statuses := AList.update baseURL
             \<lparr>st_Healthy = True, st_LastCheck = 0, st_LastErr = [], st_ConsecutiveFails = 0,
              st_ProjectID = projectID\<rparr> (ck_statuses c)\<rparr>)"

definition RegisterAll :: "(string \<times> string) list \<Rightarrow> checker \<Rightarrow> checker" where
  "RegisterAll targets c = fold (\<lambda>(url, path). Register url path []) targets c"

definition Unregister :: "string \<Rightarrow> checker \<Rightarrow> checker" where
  "Unregister baseURL c =
     (case map_of (ck_statuses c) baseURL of
        None \<Rightarrow> c
      | Some _ \<Rightarrow> c\<lparr>ck_statuses := AList.delete baseURL (ck_statuses c),
                    ck_healthPaths := AList.delete baseURL (ck_healthPaths c),
                    ck_projectIDs := AList.delete baseURL (ck_projectIDs c)\<rparr>)"

definition SyncTargets :: "(string \<times> target_health_config) list \<Rightarrow> checker \<Rightarrow> checker" where
  "SyncTargets desired c =
     (let want = map fst desired;
          toRemove = filter (\<lambda>existing. existing \<notin> set want) (map fst (ck_statuses c));
          c1 = fold (\<lambda>(url, cfg). Register url (thc_HealthPath cfg) (thc_ProjectID cfg)) desired c
      in fold Unregister toRemove c1)"

definition IsHealthy :: "checker \<Rightarrow> string \<Rightarrow> bool" where
  "IsHealthy c baseURL =
     (case map_of (ck_statuses c) baseURL of None \<Rightarrow> True | Some s \<Rightarrow> st_Healthy s)"

definition Statuses :: "checker \<Rightarrow> (string \<times> status) list" where
  "Statuses c = ck_statuses c"

definition probe :: "(string \<Rightarrow> probe_reply) \<Rightarrow> checker \<Rightarrow> string \<Rightarrow> bool \<times> string" where
  "probe get c baseURL =
     (let healthPath =
            (case map_of (ck_healthPaths c) baseURL of
               None \<Rightarrow> ''/health'' | Some p \<Rightarrow> if p = [] then ''/health'' else p)
      in case get (baseURL @ healthPath) of
           BuildError e \<Rightarrow> (False, ''build request: '' @ e)
         | DoError e \<Rightarrow> (False, e)
         | Response code statusLine \<Rightarrow>
             if code \<ge> 200 \<and> code < 300 then (True, []) else (False, ''HTTP '' @ statusLine))"

definition setStatus :: "go_time \<Rightarrow> string \<Rightarrow> bool \<Rightarrow> string \<Rightarrow> checker \<Rightarrow> checker" where
  "setStatus now baseURL healthy errMsg c =
     (case map_of (ck_statuses c) baseURL of
        None \<Rightarrow> c
      | Some prev \<Rightarrow>
          let projectID = (case map_of (ck_projectIDs c) baseURL of None \<Rightarrow> [] | Some p \<Rightarrow> p);
              s = prev\<lparr>st_ConsecutiveFails := (if healthy then 0 else st_ConsecutiveFails prev + 1),
                       st_Healthy := healthy, st_LastCheck := now,
                       st_LastErr := (if healthy then [] else errMsg)\<rparr>
          in c\<lparr>ck_statuses := AList.update baseURL s (ck_statuses c),
               ck_gauge := AList.update (projectID, baseURL) (if healthy then 1 else 0) (ck_gauge c)\<rparr>)"

text \<open>
  One round of probes: the goroutines finish in the order \<open>urls\<close>, each storing its result at its
  own time.
\<close>

definition probeOne :: "(string \<Rightarrow> probe_reply) \<Rightarrow> (string \<Rightarrow> go_time) \<Rightarrow> string \<Rightarrow> checker \<Rightarrow> checker" where
  "probeOne get now url c =
     (case probe get c url of (healthy, errMsg) \<Rightarrow> setStatus (now url) url healthy errMsg c)"

definition probeAll ::
  "(string \<Rightarrow> probe_reply) \<Rightarrow> (string \<Rightarrow> go_time) \<Rightarrow> string list \<Rightarrow> checker \<Rightarrow> checker" where
  "probeAll get now urls c = fold (probeOne get now) urls c"

section \<open>Invariant\<close>

text \<open>The three maps always have the same keys, and no registered path is empty.\<close>

definition checker_inv :: "checker \<Rightarrow> bool" where
  "checker_inv c \<longleftrightarrow>
     dom (map_of (ck_healthPaths c)) = dom (map_of (ck_statuses c)) \<and>
     dom (map_of (ck_projectIDs c)) = dom (map_of (ck_statuses c)) \<and>
     (\<forall>p \<in> ran (map_of (ck_healthPaths c)). p \<noteq> [])"

lemma checker_inv_New: "checker_inv New_checker"
  by (simp add: checker_inv_def New_checker_def)

lemma ran_map_of_update: "ran (map_of (AList.update k v xs)) \<subseteq> insert v (ran (map_of xs))"
  by (auto simp: update_conv' ran_def split: if_splits)

lemma ran_map_of_delete: "ran (map_of (AList.delete k xs)) \<subseteq> ran (map_of xs)"
  by (auto simp: delete_conv' ran_def split: if_splits)

lemma checker_inv_Register [inv_intros]: "checker_inv c \<Longrightarrow> checker_inv (Register u p i c)"
  using ran_map_of_update [of u "if p = [] then ''/health'' else p" "ck_healthPaths c"]
  by (auto simp: checker_inv_def Register_def Let_def update_conv' split: option.splits if_splits)

lemma checker_inv_Unregister [inv_intros]: "checker_inv c \<Longrightarrow> checker_inv (Unregister u c)"
  using ran_map_of_delete [of u "ck_healthPaths c"]
  by (auto simp: checker_inv_def Unregister_def delete_conv' split: option.splits)

lemma checker_inv_setStatus [inv_intros]: "checker_inv c \<Longrightarrow> checker_inv (setStatus t u h e c)"
  by (auto simp: checker_inv_def setStatus_def update_conv' Let_def split: option.splits)

lemma checker_inv_fold [inv_intros]:
  "(\<And>x c. checker_inv c \<Longrightarrow> checker_inv (f x c)) \<Longrightarrow> checker_inv c \<Longrightarrow> checker_inv (fold f xs c)"
  by (induction xs arbitrary: c) auto

lemma checker_inv_SyncTargets [inv_intros]: "checker_inv c \<Longrightarrow> checker_inv (SyncTargets d c)"
  unfolding SyncTargets_def Let_def
  by (auto intro!: inv_intros split: prod.splits)

lemma checker_inv_probeAll [inv_intros]: "checker_inv c \<Longrightarrow> checker_inv (probeAll g now us c)"
  unfolding probeAll_def probeOne_def
  by (auto intro!: inv_intros split: prod.splits)

section \<open>Registration and removal\<close>

definition freshStatus :: "string \<Rightarrow> status" where
  "freshStatus i = \<lparr>st_Healthy = True, st_LastCheck = 0, st_LastErr = [], st_ConsecutiveFails = 0,
     st_ProjectID = i\<rparr>"

lemma statuses_Register:
  "map_of (ck_statuses (Register u p i c)) =
     (case map_of (ck_statuses c) u of
        Some s \<Rightarrow> map_of (ck_statuses c)
      | None \<Rightarrow> (map_of (ck_statuses c))(u \<mapsto> freshStatus i))"
  by (auto simp: Register_def Let_def update_conv' freshStatus_def split: option.splits)

lemma statuses_Unregister:
  "map_of (ck_statuses (Unregister u c)) = (map_of (ck_statuses c))(u := None)"
  by (auto simp: Unregister_def delete_conv' split: option.splits)

lemma statuses_fold_Unregister:
  "map_of (ck_statuses (fold Unregister us c)) v =
     (if v \<in> set us then None else map_of (ck_statuses c) v)"
  by (induction us arbitrary: c) (auto simp: statuses_Unregister)

lemma statuses_fold_Register:
  assumes "distinct (map fst d)"
  shows "map_of (ck_statuses (fold (\<lambda>(url, cfg). Register url (thc_HealthPath cfg) (thc_ProjectID cfg)) d c)) v =
     (case map_of (ck_statuses c) v of
        Some s \<Rightarrow> Some s
      | None \<Rightarrow> map_option (\<lambda>cfg. freshStatus (thc_ProjectID cfg)) (map_of d v))"
  using assms
proof (induction d arbitrary: c)
  case (Cons e d)
  obtain u cfg where e: "e = (u, cfg)" by (cases e)
  have "map_of d u = None" using Cons.prems by (simp add: e map_of_eq_None_iff)
  then show ?case using Cons.prems
    by (auto simp: e Cons.IH statuses_Register split: option.splits)
qed (auto split: option.splits)

lemma map_of_SyncTargets:
  assumes "distinct (map fst desired)"
  shows "map_of (ck_statuses (SyncTargets desired c)) u =
    (case map_of desired u of
       None \<Rightarrow> None
     | Some cfg \<Rightarrow> Some (case map_of (ck_statuses c) u of
         Some s \<Rightarrow> s | None \<Rightarrow> freshStatus (thc_ProjectID cfg)))"
proof -
  have "u \<in> set (filter (\<lambda>e. e \<notin> set (map fst desired)) (map fst (ck_statuses c))) \<longleftrightarrow>
      map_of (ck_statuses c) u \<noteq> None \<and> map_of desired u = None"
    by (simp add: map_of_eq_None_iff image_iff)
  then show ?thesis
    unfolding SyncTargets_def Let_def statuses_fold_Unregister statuses_fold_Register [OF assms]
    by (auto split: option.splits)
qed

section \<open>Probe rounds\<close>

definition probeResult :: "(string \<Rightarrow> probe_reply) \<Rightarrow> checker \<Rightarrow> go_time \<Rightarrow> string \<Rightarrow> status \<Rightarrow> status" where
  "probeResult get c now url prev =
     (case probe get c url of (healthy, errMsg) \<Rightarrow>
        prev\<lparr>st_ConsecutiveFails := (if healthy then 0 else st_ConsecutiveFails prev + 1),
             st_Healthy := healthy, st_LastCheck := now,
             st_LastErr := (if healthy then [] else errMsg)\<rparr>)"

lemma probe_setStatus [frame]: "probe get (setStatus t u h e c) v = probe get c v"
  by (auto simp: probe_def setStatus_def Let_def split: option.splits)

lemma probe_probeOne [frame]: "probe get (probeOne get now u c) v = probe get c v"
  by (simp add: probeOne_def probe_setStatus split: prod.splits)

lemma probeResult_probeOne [frame]: "probeResult get (probeOne get now u c) = probeResult get c"
  by (intro ext) (simp add: probeResult_def frame)

lemma statuses_probeOne:
  "map_of (ck_statuses (probeOne get now u c)) v =
     (if v = u then map_option (probeResult get c (now u) u) (map_of (ck_statuses c) u)
      else map_of (ck_statuses c) v)"
  by (auto simp: probeOne_def setStatus_def probeResult_def update_conv' Let_def
      split: prod.splits option.splits)

lemma statuses_probeAll:
  assumes "distinct urls"
  shows "map_of (ck_statuses (probeAll get now urls c)) v =
    (if v \<in> set urls then map_option (probeResult get c (now v) v) (map_of (ck_statuses c) v)
     else map_of (ck_statuses c) v)"
  using assms unfolding probeAll_def
  by (induction urls arbitrary: c) (auto simp: statuses_probeOne frame)

section \<open>Properties\<close>

text \<open>
  Reconciling with the desired targets: afterwards exactly the desired URLs are watched; one
  that was watched before keeps its whole status (its failures are not forgotten by a reload), a new
  one starts healthy; and a URL that is no longer desired counts as healthy again.
\<close>

theorem SyncTargets_reconciles:
  assumes "distinct (map fst desired)"
  shows "dom (map_of (Statuses (SyncTargets desired c))) = set (map fst desired) \<and>
    (case map_of desired u of
       None \<Rightarrow> IsHealthy (SyncTargets desired c) u
     | Some cfg \<Rightarrow> map_of (Statuses (SyncTargets desired c)) u =
         Some (case map_of (Statuses c) u of Some s \<Rightarrow> s | None \<Rightarrow> freshStatus (thc_ProjectID cfg)))"
proof
  have "map_of (Statuses (SyncTargets desired c)) v \<noteq> None \<longleftrightarrow> v \<in> set (map fst desired)" for v
    by (simp add: Statuses_def map_of_SyncTargets [OF assms] map_of_eq_None_iff split: option.splits)
      (metis map_of_eq_None_iff option.distinct(1))
  then show "dom (map_of (Statuses (SyncTargets desired c))) = set (map fst desired)" by blast
qed (auto simp: Statuses_def IsHealthy_def map_of_SyncTargets [OF assms] split: option.splits)

theorem SyncTargets_reconciles_witness:
  "map_of (Statuses (SyncTargets [(''u'', \<lparr>thc_HealthPath = [], thc_ProjectID = ''p''\<rparr>)] New_checker)) ''u'' =
     Some (freshStatus ''p'')"
  using SyncTargets_reconciles
    [of "[(''u'', \<lparr>thc_HealthPath = [], thc_ProjectID = ''p''\<rparr>)]" New_checker "''u''"]
  by (simp add: Statuses_def New_checker_def)

text \<open>
  A probe round gives the same health states whatever order the goroutines finish in: each
  probed upstream that is still watched is healthy exactly when its probe got a status in 200..299,
  its failure count is reset or incremented accordingly, and no other upstream changes.
\<close>

theorem probeAll_order_independent:
  assumes "distinct urls" "mset urls = mset urls'"
  shows "map_of (Statuses (probeAll get now urls c)) = map_of (Statuses (probeAll get now urls' c)) \<and>
    map_of (Statuses (probeAll get now urls c)) u =
      (if u \<in> set urls then map_option (probeResult get c (now u) u) (map_of (Statuses c) u)
       else map_of (Statuses c) u)"
proof -
  have "distinct urls'" "set urls = set urls'"
    using assms mset_eq_imp_distinct_iff mset_eq_setD by metis+
  then show ?thesis
    using assms(1) by (auto simp: Statuses_def statuses_probeAll fun_eq_iff)
qed

theorem probeAll_order_independent_witness:
  "map_of (Statuses (probeAll (\<lambda>_. Response 503 ''503'') (\<lambda>_. 7) [''u'', ''v''] (Register ''u'' [] ''p'' New_checker))) ''u'' =
     Some \<lparr>st_Healthy = False, st_LastCheck = 7, st_LastErr = ''HTTP 503'', st_ConsecutiveFails = 1,
           st_ProjectID = ''p''\<rparr>"
  using probeAll_order_independent [of "[''u'', ''v'']" "[''v'', ''u'']" "\<lambda>_. Response 503 ''503''" "\<lambda>_. 7"
      "Register ''u'' [] ''p'' New_checker" "''u''", THEN conjunct2]
  by (simp add: Statuses_def Register_def New_checker_def probeResult_def probe_def)

end
