(* ===== verification/Project_Auth.thy ===== *)
theory Project_Auth
  imports EG_Model
begin

text \<open>
  Credentials of a request: the project JWT verifier and its manager
  (\<^verbatim>\<open>internal/auth/project_jwt_verifier.go\<close>, \<^verbatim>\<open>internal/gateway/runtime/project_jwt_manager.go\<close>) and
  the API key store (\<^verbatim>\<open>internal/auth/api_key.go\<close>).

  The JWT library is a parameter: \<open>parse\<close> takes the clock, the token, the key function and the
  options the code passes, and \<open>jwt_sound\<close> states what the library documents about a token it
  returns. The secrets service, Redis, the key table, SHA-256 and the JSON coding of a cached record
  are parameters too.
\<close>

section \<open>Identities\<close>

record identity =
  id_ClientID :: string
  id_Role :: string
  id_Scopes :: "string list"

datatype auth_error =
    ErrProjectJWTNotConfigured
  | JWTEmpty
  | JWTInvalid
  | ParseError string
  | IssuerMismatch
  | AudienceMismatch
  | ClaimMissing string
  | ScopeNotString string
  | ScopeFormat string
  | SecretTooShort
  | UnsupportedAlgorithm string
  | NoSecretARN
  | NoSecretVersion
  | NoSecretReader
  | SecretLoad string
  | Wrapped string auth_error

section \<open>The token library\<close>

text \<open>The values a decoded claim can have, as far as the code tells them apart.\<close>

datatype claim_value = CString string | CStrings "string list" | CList "claim_value list" | COther

type_synonym claims = "string \<rightharpoonup> claim_value"

record jwt_method =
  jm_Alg :: string
  jm_IsHMAC :: bool

record jwt_options =
  jo_ValidMethods :: "string list"
  jo_Leeway :: go_duration
  jo_ExpirationRequired :: bool

record jwt_token =
  jt_Valid :: bool
  jt_Claims :: claims

type_synonym keyfunc = "jwt_method \<Rightarrow> string + string"
type_synonym jwt_parse = "go_time \<Rightarrow> string \<Rightarrow> keyfunc \<Rightarrow> jwt_options \<Rightarrow> string + jwt_token"

text \<open>What a token text says, for the statement of soundness: its method, claims, expiry, and
  whether its signature verifies under a key.\<close>

record jwt_facts =
  jf_method :: "string \<Rightarrow> jwt_method option"
  jf_claims :: "string \<Rightarrow> claims option"
  jf_exp :: "string \<Rightarrow> go_time option"
  jf_signed :: "string \<Rightarrow> string \<Rightarrow> bool"

definition jwt_sound :: "jwt_parse \<Rightarrow> jwt_facts \<Rightarrow> bool" where
  "jwt_sound parse facts \<longleftrightarrow>
     (\<forall>now s kf opts t. parse now s kf opts = Inr t \<and> jt_Valid t \<longrightarrow>
        jf_claims facts s = Some (jt_Claims t) \<and>
        (\<exists>m key. jf_method facts s = Some m \<and> jm_Alg m \<in> set (jo_ValidMethods opts) \<and>
           kf m = Inr key \<and> jf_signed facts s key) \<and>
        (jo_ExpirationRequired opts \<longrightarrow> (\<exists>e. jf_exp facts s = Some e \<and> now - jo_Leeway opts < e)))"

section \<open>The verifier\<close>

record verifier_config =
  vc_Algorithm :: string
  vc_Issuer :: "string option"
  vc_Audiences :: "string list"
  vc_SubjectClaim :: string
  vc_RoleClaim :: string
  vc_ScopesClaim :: string
  vc_ClockSkew :: go_duration

record verifier =
  ve_secret :: string
  ve_config :: verifier_config

definition NewProjectJWTVerifier :: "string \<Rightarrow> verifier_config \<Rightarrow> auth_error + verifier" where
  "NewProjectJWTVerifier secret cfg =
     (if length secret < 32 then Inl SecretTooShort
      else if vc_Algorithm cfg \<noteq> ''HS256'' then Inl (UnsupportedAlgorithm (vc_Algorithm cfg))
      else
        (let cfg1 = (if vc_SubjectClaim cfg = [] then cfg\<lparr>vc_SubjectClaim := ''sub''\<rparr> else cfg);
             cfg2 = (if vc_RoleClaim cfg1 = [] then cfg1\<lparr>vc_RoleClaim := ''role''\<rparr> else cfg1);
             cfg3 = (if vc_ScopesClaim cfg2 = [] then cfg2\<lparr>vc_ScopesClaim := ''scope''\<rparr> else cfg2)
         in Inr \<lparr>ve_secret = secret, ve_config = cfg3\<rparr>))"

definition Reconfigure :: "verifier \<Rightarrow> verifier_config \<Rightarrow> auth_error + verifier" where
  "Reconfigure v cfg = NewProjectJWTVerifier (ve_secret v) cfg"

fun uniqueStrings_loop :: "string list \<Rightarrow> string list \<Rightarrow> string list" where
  "uniqueStrings_loop result [] = result"
| "uniqueStrings_loop result (v # vs) =
     (let value = TrimSpace v
      in if value = [] then uniqueStrings_loop result vs
         else if value \<in> set result then uniqueStrings_loop result vs
         else uniqueStrings_loop (result @ [value]) vs)"

definition uniqueStrings :: "string list \<Rightarrow> string list" where
  "uniqueStrings values = uniqueStrings_loop [] values"

fun claimStrings :: "claim_value list \<Rightarrow> string list option" where
  "claimStrings [] = Some []"
| "claimStrings (CString s # vs) = map_option (\<lambda>ss. s # ss) (claimStrings vs)"
| "claimStrings (_ # vs) = None"

definition scopesClaim :: "claims \<Rightarrow> string \<Rightarrow> auth_error + string list" where
  "scopesClaim claims name =
     (case claims name of
        None \<Rightarrow> Inr []
      | Some (CString s) \<Rightarrow> Inr (uniqueStrings (Fields s))
      | Some (CStrings ss) \<Rightarrow> Inr (uniqueStrings ss)
      | Some (CList vs) \<Rightarrow>
          (case claimStrings vs of
             None \<Rightarrow> Inl (ScopeNotString name) | Some ss \<Rightarrow> Inr (uniqueStrings ss))
      | Some COther \<Rightarrow> Inl (ScopeFormat name))"

fun onlyStrings :: "claim_value list \<Rightarrow> string list" where
  "onlyStrings [] = []"
| "onlyStrings (CString s # vs) = s # onlyStrings vs"
| "onlyStrings (_ # vs) = onlyStrings vs"

definition stringListClaim :: "claim_value option \<Rightarrow> string list" where
  "stringListClaim value =
     (case value of
        Some (CString s) \<Rightarrow> if s = [] then [] else [s]
      | Some (CStrings ss) \<Rightarrow> ss
      | Some (CList vs) \<Rightarrow> onlyStrings vs
      | _ \<Rightarrow> [])"

definition optionalStringClaim :: "claims \<Rightarrow> string \<Rightarrow> string" where
  "optionalStringClaim claims name =
     (case claims name of Some (CString s) \<Rightarrow> TrimSpace s | _ \<Rightarrow> [])"

definition requiredStringClaim :: "claims \<Rightarrow> string \<Rightarrow> auth_error + string" where
  "requiredStringClaim claims name =
     (let value = optionalStringClaim claims name
      in if value = [] then Inl (ClaimMissing name) else Inr value)"

definition validateIssuer :: "verifier \<Rightarrow> claims \<Rightarrow> bool" where
  "validateIssuer v claims =
     (case vc_Issuer (ve_config v) of
        None \<Rightarrow> True
      | Some iss \<Rightarrow> (case claims ''iss'' of Some (CString actual) \<Rightarrow> actual = iss | _ \<Rightarrow> False))"

definition validateAudience :: "verifier \<Rightarrow> claims \<Rightarrow> bool" where
  "validateAudience v claims =
     (if length (vc_Audiences (ve_config v)) = 0 then True
      else
        (let actual = stringListClaim (claims ''aud'')
         in list_ex (\<lambda>expected. list_ex (\<lambda>candidate. candidate = expected) actual)
              (vc_Audiences (ve_config v))))"

definition verifierKeyfunc :: "verifier \<Rightarrow> keyfunc" where
  "verifierKeyfunc v m =
     (if jm_Alg m \<noteq> vc_Algorithm (ve_config v) then Inl ''unexpected JWT algorithm''
      else if \<not> jm_IsHMAC m then Inl ''JWT signing method is not HMAC''
      else Inr (ve_secret v))"

definition Verifier_Validate ::
  "jwt_parse \<Rightarrow> go_time \<Rightarrow> verifier option \<Rightarrow> string \<Rightarrow> auth_error + identity" where
  "Verifier_Validate parse now vo tokenString0 =
     (case vo of
        None \<Rightarrow> Inl ErrProjectJWTNotConfigured
      | Some v \<Rightarrow>
          let tokenString = TrimSpace tokenString0
          in if tokenString = [] then Inl JWTEmpty
             else
               (case parse now tokenString (verifierKeyfunc v)
                       \<lparr>jo_ValidMethods = [vc_Algorithm (ve_config v)],
                        jo_Leeway = vc_ClockSkew (ve_config v), jo_ExpirationRequired = True\<rparr> of
                  Inl e \<Rightarrow> Inl (Wrapped ''validate JWT'' (ParseError e))
                | Inr token \<Rightarrow>
                    if \<not> jt_Valid token then Inl JWTInvalid
                    else
                      (let claims = jt_Claims token
                       in if \<not> validateIssuer v claims then Inl IssuerMismatch
                          else if \<not> validateAudience v claims then Inl AudienceMismatch
                          else
                            (case requiredStringClaim claims (vc_SubjectClaim (ve_config v)) of
                               Inl e \<Rightarrow> Inl e
                             | Inr clientID \<Rightarrow>
                                 let role = optionalStringClaim claims (vc_RoleClaim (ve_config v))
                                 in (case scopesClaim claims (vc_ScopesClaim (ve_config v)) of
                                       Inl e \<Rightarrow> Inl e
                                     | Inr scopes \<Rightarrow>
                                         Inr \<lparr>id_ClientID = clientID, id_Role = role,
                                              id_Scopes = scopes\<rparr>)))))"

section \<open>The manager\<close>

record jwt_state =
  js_enabled :: bool
  js_configVersion :: int
  js_secretARN :: string
  js_secretVersionID :: string
  js_verifier :: "verifier option"

type_synonym secret_reader = "string \<Rightarrow> string \<Rightarrow> string + string"

record apply_result =
  ap_error :: "auth_error option"
  ap_state :: "jwt_state option"
  ap_calls :: "(string \<times> string) list"

definition projectJWTVerifierConfig :: "project_jwt_config_sync \<Rightarrow> verifier_config" where
  "projectJWTVerifierConfig cfg =
     \<lparr>vc_Algorithm = pjc_Algorithm cfg, vc_Issuer = pjc_Issuer cfg, vc_Audiences = pjc_Audiences cfg,
      vc_SubjectClaim = pjc_SubjectClaim cfg, vc_RoleClaim = pjc_RoleClaim cfg,
      vc_ScopesClaim = pjc_ScopesClaim cfg, vc_ClockSkew = pjc_ClockSkewSeconds cfg * second\<rparr>"

definition activeState :: "project_jwt_config_sync \<Rightarrow> verifier \<Rightarrow> jwt_state" where
  "activeState cfg v =
     \<lparr>js_enabled = True, js_configVersion = pjc_ConfigVersion cfg, js_secretARN = pjc_SecretARN cfg,
      js_secretVersionID = pjc_SecretVersionID cfg, js_verifier = Some v\<rparr>"

definition sameSecret :: "project_jwt_config_sync \<Rightarrow> jwt_state \<Rightarrow> bool" where
  "sameSecret cfg st \<longleftrightarrow>
     js_enabled st \<and> js_secretARN st = pjc_SecretARN cfg \<and> js_secretVersionID st = pjc_SecretVersionID cfg"

text \<open>The active state and its verifier, when they already hold the configured secret.\<close>

definition reusable :: "project_jwt_config_sync \<Rightarrow> jwt_state option \<Rightarrow> (jwt_state \<times> verifier) option" where
  "reusable cfg current =
     (case current of
        None \<Rightarrow> None
      | Some st \<Rightarrow> if sameSecret cfg st then map_option (\<lambda>v. (st, v)) (js_verifier st) else None)"

text \<open>
  \<open>Apply\<close> returns its error, the state it leaves, and the secrets it asked for, in order.
\<close>

definition Apply ::
  "secret_reader option \<Rightarrow> project_jwt_config_sync option \<Rightarrow> jwt_state option \<Rightarrow> apply_result" where
  "Apply secrets cfgo current =
     (let failed = (\<lambda>e calls. \<lparr>ap_error = Some e, ap_state = current, ap_calls = calls\<rparr>);
          stored = (\<lambda>st calls. \<lparr>ap_error = None, ap_state = Some st, ap_calls = calls\<rparr>);
          disabled = (\<lambda>version. \<lparr>js_enabled = False, js_configVersion = version, js_secretARN = [],
                                 js_secretVersionID = [], js_verifier = None\<rparr>)
      in case cfgo of
           None \<Rightarrow> stored (disabled 0) []
         | Some cfg \<Rightarrow>
             if \<not> pjc_Enabled cfg then stored (disabled (pjc_ConfigVersion cfg)) []
             else if pjc_SecretARN cfg = [] then failed NoSecretARN []
             else if pjc_SecretVersionID cfg = [] then failed NoSecretVersion []
             else
               (case reusable cfg current of
                  Some (st, v) \<Rightarrow>
                    if js_configVersion st = pjc_ConfigVersion cfg
                    then \<lparr>ap_error = None, ap_state = current, ap_calls = []\<rparr>
                    else
                      (case Reconfigure v (projectJWTVerifierConfig cfg) of
                         Inl e \<Rightarrow> failed (Wrapped ''reconfigure project JWT verifier'' e) []
                       | Inr v' \<Rightarrow> stored (activeState cfg v') [])
                | None \<Rightarrow>
                    (case secrets of
                       None \<Rightarrow> failed NoSecretReader []
                     | Some getSecret \<Rightarrow>
                         let call = (pjc_SecretARN cfg, pjc_SecretVersionID cfg)
                         in (case getSecret (fst call) (snd call) of
                               Inl e \<Rightarrow> failed (Wrapped ''load project JWT verification secret'' (SecretLoad e)) [call]
                             | Inr secret \<Rightarrow>
                                 (case NewProjectJWTVerifier secret (projectJWTVerifierConfig cfg) of
                                    Inl e \<Rightarrow> failed (Wrapped ''build project JWT verifier'' e) [call]
                                  | Inr v \<Rightarrow> stored (activeState cfg v) [call])))))"

definition Manager_ValidateIdentity ::
  "jwt_parse \<Rightarrow> go_time \<Rightarrow> jwt_state option \<Rightarrow> string \<Rightarrow> auth_error + identity" where
  "Manager_ValidateIdentity parse now state token =
     (case state of
        None \<Rightarrow> Inl ErrProjectJWTNotConfigured
      | Some st \<Rightarrow>
          if \<not> js_enabled st \<or> js_verifier st = None then Inl ErrProjectJWTNotConfigured
          else Verifier_Validate parse now (js_verifier st) token)"

section \<open>The API key store\<close>

record api_key_record =
  ak_ClientID :: string
  ak_RevokedAt :: "go_time option"
  ak_Roles :: "string list"
  ak_Scopes :: "string list"

record key_snapshot =
  kd_KeyHash :: string
  kd_Roles :: "string list"
  kd_Scopes :: "string list"

text \<open>
  The store's surroundings: the Redis commands, the key table (an error and no row are both
  \<^const>\<open>None\<close>), the hash, the coding of a cached record and the key prefix of the environment.
\<close>

record 'r key_env =
  ke_Get :: "string \<Rightarrow> 'r \<Rightarrow> string option"
  ke_Set :: "string \<Rightarrow> string \<Rightarrow> go_duration \<Rightarrow> 'r \<Rightarrow> 'r"
  ke_sha256hex :: "string \<Rightarrow> string"
  ke_marshal :: "api_key_record \<Rightarrow> string"
  ke_unmarshal :: "string \<Rightarrow> api_key_record option"
  ke_prefix :: string

record 'r key_store =
  ks_redis :: "'r option"
  ks_db :: "(string \<Rightarrow> api_key_record option) option"
  ks_local :: "string \<rightharpoonup> api_key_record"

definition cacheTTL :: go_duration where "cacheTTL = 10 * minute"

definition PrefixedKey :: "'r key_env \<Rightarrow> string \<Rightarrow> string" where
  "PrefixedKey env key = (if ke_prefix env \<noteq> [] then ke_prefix env @ key else key)"

definition hashKey :: "'r key_env \<Rightarrow> string \<Rightarrow> string" where
  "hashKey env key = ke_sha256hex env (TrimSpace key)"

definition UpdateLocalKeys :: "string \<Rightarrow> key_snapshot list \<Rightarrow> 'r key_store \<Rightarrow> 'r key_store" where
  "UpdateLocalKeys clientID keys s =
     s\<lparr>ks_local := foldl (\<lambda>m k. m(kd_KeyHash k \<mapsto>
         \<lparr>ak_ClientID = clientID, ak_RevokedAt = None, ak_Roles = kd_Roles k, ak_Scopes = kd_Scopes k\<rparr>))
       Map.empty keys\<rparr>"

definition cacheKeyFor :: "'r key_env \<Rightarrow> string \<Rightarrow> string" where
  "cacheKeyFor env keyHash = PrefixedKey env (''apikey:'' @ keyHash)"

definition lookupRedis :: "'r key_env \<Rightarrow> 'r key_store \<Rightarrow> string \<Rightarrow> api_key_record option" where
  "lookupRedis env s keyHash =
     (case ks_redis s of
        None \<Rightarrow> None
      | Some r \<Rightarrow>
          (case ke_Get env (cacheKeyFor env keyHash) r of
             None \<Rightarrow> None | Some data \<Rightarrow> ke_unmarshal env data))"

definition KeyStore_Validate ::
  "'r key_env \<Rightarrow> go_time \<Rightarrow> 'r key_store \<Rightarrow> string \<Rightarrow> api_key_record option \<times> 'r key_store" where
  "KeyStore_Validate env now s key0 =
     (let key = TrimSpace key0
      in if key = [] then (None, s)
         else
           (let keyHash = hashKey env key
            in case ks_local s keyHash of
                 Some rec \<Rightarrow>
                   (case ak_RevokedAt rec of
                      Some t \<Rightarrow> if t < now then (None, s) else (Some rec, s)
                    | None \<Rightarrow> (Some rec, s))
               | None \<Rightarrow>
                   (case lookupRedis env s keyHash of
                      Some rec \<Rightarrow> (Some rec, s)
                    | None \<Rightarrow>
                        (case ks_db s of
                           None \<Rightarrow> (None, s)
                         | Some findByHash \<Rightarrow>
                             (case findByHash keyHash of
                                None \<Rightarrow> (None, s)
                              | Some record \<Rightarrow>
                                  if ak_RevokedAt record \<noteq> None then (None, s)
                                  else
                                    (Some record,
                                     case ks_redis s of
                                       None \<Rightarrow> s
                                     | Some r \<Rightarrow>
                                         s\<lparr>ks_redis := Some (ke_Set env (cacheKeyFor env keyHash)
                                             (ke_marshal env record) cacheTTL r)\<rparr>))))))"

section \<open>Lemmas\<close>

lemma uniqueStrings_loop_spec:
  assumes "distinct result" "\<forall>x \<in> set result. x \<noteq> [] \<and> TrimSpace x = x"
  shows "distinct (uniqueStrings_loop result vs)"
    and "set (uniqueStrings_loop result vs) = set result \<union> (TrimSpace ` set vs - {[]})"
  using assms by (induction vs arbitrary: result) (auto simp: Let_def)

lemma distinct_uniqueStrings: "distinct (uniqueStrings vs)"
  by (simp add: uniqueStrings_def uniqueStrings_loop_spec(1))

lemma set_uniqueStrings: "set (uniqueStrings vs) = TrimSpace ` set vs - {[]}"
  by (simp add: uniqueStrings_def uniqueStrings_loop_spec(2))

lemma scopesClaim_distinct: "scopesClaim cl name = Inr scopes \<Longrightarrow> distinct scopes \<and> [] \<notin> set scopes"
  by (auto simp: scopesClaim_def distinct_uniqueStrings set_uniqueStrings
      split: option.splits claim_value.splits)

lemma NewProjectJWTVerifier_Inr:
  assumes "NewProjectJWTVerifier secret cfg = Inr v"
  shows "ve_secret v = secret" "vc_Algorithm (ve_config v) = ''HS256''" "length secret \<ge> 32"
    "vc_Issuer (ve_config v) = vc_Issuer cfg" "vc_Audiences (ve_config v) = vc_Audiences cfg"
    "vc_ClockSkew (ve_config v) = vc_ClockSkew cfg"
    "vc_SubjectClaim (ve_config v) = (if vc_SubjectClaim cfg = [] then ''sub'' else vc_SubjectClaim cfg)"
  using assms by (auto simp: NewProjectJWTVerifier_def Let_def split: if_splits)

lemma Verifier_Validate_Inr:
  assumes "Verifier_Validate parse now (Some v) s = Inr idn"
  obtains t where
    "parse now (TrimSpace s) (verifierKeyfunc v)
       \<lparr>jo_ValidMethods = [vc_Algorithm (ve_config v)], jo_Leeway = vc_ClockSkew (ve_config v),
        jo_ExpirationRequired = True\<rparr> = Inr t" "jt_Valid t"
    "validateIssuer v (jt_Claims t)" "validateAudience v (jt_Claims t)"
    "id_ClientID idn = optionalStringClaim (jt_Claims t) (vc_SubjectClaim (ve_config v))"
    "id_ClientID idn \<noteq> []"
    "id_Role idn = optionalStringClaim (jt_Claims t) (vc_RoleClaim (ve_config v))"
    "scopesClaim (jt_Claims t) (vc_ScopesClaim (ve_config v)) = Inr (id_Scopes idn)"
  using assms that
  by (auto simp: Verifier_Validate_def Let_def requiredStringClaim_def
      split: if_splits sum.splits)

text \<open>What the options and the key function of a verifier leave to the library.\<close>

lemma Verifier_Validate_sound:
  assumes "jwt_sound parse facts" "vc_Algorithm (ve_config v) = ''HS256''"
    and "Verifier_Validate parse now (Some v) s = Inr idn"
  shows "\<exists>m cl e. jf_method facts (TrimSpace s) = Some m \<and> jm_Alg m = ''HS256'' \<and> jm_IsHMAC m \<and>
    jf_signed facts (TrimSpace s) (ve_secret v) \<and>
    jf_exp facts (TrimSpace s) = Some e \<and> now - vc_ClockSkew (ve_config v) < e \<and>
    jf_claims facts (TrimSpace s) = Some cl \<and> validateIssuer v cl \<and> validateAudience v cl \<and>
    id_ClientID idn = optionalStringClaim cl (vc_SubjectClaim (ve_config v)) \<and> id_ClientID idn \<noteq> [] \<and>
    distinct (id_Scopes idn)"
  using assms(3)
proof (rule Verifier_Validate_Inr)
  fix t
  let ?opts = "\<lparr>jo_ValidMethods = [vc_Algorithm (ve_config v)],
    jo_Leeway = vc_ClockSkew (ve_config v), jo_ExpirationRequired = True\<rparr>"
  assume p: "parse now (TrimSpace s) (verifierKeyfunc v) ?opts = Inr t" "jt_Valid t"
    and rest: "validateIssuer v (jt_Claims t)" "validateAudience v (jt_Claims t)"
      "id_ClientID idn = optionalStringClaim (jt_Claims t) (vc_SubjectClaim (ve_config v))"
      "id_ClientID idn \<noteq> []"
    and sc: "scopesClaim (jt_Claims t) (vc_ScopesClaim (ve_config v)) = Inr (id_Scopes idn)"
  from p assms(1) obtain m key e where m: "jf_method facts (TrimSpace s) = Some m"
      "verifierKeyfunc v m = Inr key" "jf_signed facts (TrimSpace s) key"
      "jf_exp facts (TrimSpace s) = Some e" "now - vc_ClockSkew (ve_config v) < e"
      "jf_claims facts (TrimSpace s) = Some (jt_Claims t)"
    unfolding jwt_sound_def by (metis jwt_options.select_convs(2,3))
  then have "jm_Alg m = ''HS256''" "jm_IsHMAC m" "key = ve_secret v"
    using assms(2) by (auto simp: verifierKeyfunc_def split: if_splits)
  then show ?thesis using m rest scopesClaim_distinct [OF sc] by blast
qed

text \<open>
  The invariant of the manager: an enabled state has a verifier, whose secret is the one the
  secrets service holds under the state's identifier and version.
\<close>

definition jwt_state_ok :: "secret_reader \<Rightarrow> jwt_state option \<Rightarrow> bool" where
  "jwt_state_ok getSecret sto \<longleftrightarrow>
     (\<forall>st. sto = Some st \<and> js_enabled st \<longrightarrow>
        (\<exists>v. js_verifier st = Some v \<and> vc_Algorithm (ve_config v) = ''HS256'' \<and>
             getSecret (js_secretARN st) (js_secretVersionID st) = Inr (ve_secret v) \<and>
             32 \<le> length (ve_secret v)))"

lemma reusable_Some:
  "reusable cfg current = Some (st, v) \<longleftrightarrow> current = Some st \<and> sameSecret cfg st \<and> js_verifier st = Some v"
  by (auto simp: reusable_def split: option.splits)

lemma reusable_None:
  "reusable cfg current = None \<longleftrightarrow> (\<forall>st. current = Some st \<and> sameSecret cfg st \<longrightarrow> js_verifier st = None)"
  by (auto simp: reusable_def split: option.splits)

text \<open>The ways an enabled configuration with a secret can go.\<close>

lemma Apply_cases:
  assumes "pjc_Enabled cfg" "pjc_SecretARN cfg \<noteq> []" "pjc_SecretVersionID cfg \<noteq> []"
    and "r = Apply secrets (Some cfg) current"
  obtains (same) st v where "reusable cfg current = Some (st, v)" "js_configVersion st = pjc_ConfigVersion cfg"
      "ap_error r = None" "ap_state r = current" "ap_calls r = []"
  | (reconfigured) st v v' where "reusable cfg current = Some (st, v)"
      "Reconfigure v (projectJWTVerifierConfig cfg) = Inr v'"
      "ap_error r = None" "ap_state r = Some (activeState cfg v')" "ap_calls r = []"
  | (loaded) getSecret secret v where "reusable cfg current = None" "secrets = Some getSecret"
      "getSecret (pjc_SecretARN cfg) (pjc_SecretVersionID cfg) = Inr secret"
      "NewProjectJWTVerifier secret (projectJWTVerifierConfig cfg) = Inr v"
      "ap_error r = None" "ap_state r = Some (activeState cfg v)"
      "ap_calls r = [(pjc_SecretARN cfg, pjc_SecretVersionID cfg)]"
  | (failed) "ap_error r \<noteq> None" "ap_state r = current"
      "ap_calls r = [] \<or> reusable cfg current = None \<and> ap_calls r = [(pjc_SecretARN cfg, pjc_SecretVersionID cfg)]"
proof (cases "reusable cfg current")
  case None
  then show thesis using assms that(3,4)
    by (auto simp: Apply_def Let_def split: option.splits sum.splits)
next
  case (Some sv)
  obtain st v where sv: "sv = (st, v)" by (cases sv)
  show thesis using assms that(1,2,4) Some sv
    by (cases "js_configVersion st = pjc_ConfigVersion cfg")
      (auto simp: Apply_def Let_def split: sum.splits)
qed

text \<open>The other configurations are refused or disable verification, and ask for no secret.\<close>

lemma Apply_other:
  assumes "cfgo = None \<or> cfgo = Some cfg \<and> (\<not> pjc_Enabled cfg \<or> pjc_SecretARN cfg = [] \<or> pjc_SecretVersionID cfg = [])"
  shows "ap_calls (Apply secrets cfgo current) = [] \<and>
    (ap_error (Apply secrets cfgo current) = None \<and>
       (\<exists>st. ap_state (Apply secrets cfgo current) = Some st \<and> \<not> js_enabled st) \<and>
       (\<forall>c. cfgo = Some c \<longrightarrow> \<not> pjc_Enabled c) \<or>
     ap_error (Apply secrets cfgo current) \<noteq> None \<and> ap_state (Apply secrets cfgo current) = current)"
  using assms
  by (elim disjE conjE; cases "pjc_Enabled cfg"; cases "pjc_SecretARN cfg = []") (simp_all add: Apply_def Let_def)

lemma Apply_failed:
  assumes "ap_error (Apply secrets cfgo current) \<noteq> None"
  shows "ap_state (Apply secrets cfgo current) = current"
proof (cases "\<exists>cfg. cfgo = Some cfg \<and> pjc_Enabled cfg \<and> pjc_SecretARN cfg \<noteq> [] \<and> pjc_SecretVersionID cfg \<noteq> []")
  case True
  then obtain cfg where c: "cfgo = Some cfg" "pjc_Enabled cfg" "pjc_SecretARN cfg \<noteq> []" "pjc_SecretVersionID cfg \<noteq> []"
    by blast
  obtain r where r: "r = Apply secrets (Some cfg) current" by blast
  have "ap_error r \<noteq> None \<longrightarrow> ap_state r = current" using c(2-4) r by (cases rule: Apply_cases) auto
  then show ?thesis using assms by (simp add: c(1) r)
next
  case False
  then have "\<exists>cfg. cfgo = None \<or> cfgo = Some cfg \<and> (\<not> pjc_Enabled cfg \<or> pjc_SecretARN cfg = [] \<or> pjc_SecretVersionID cfg = [])"
    by (cases cfgo) auto
  then show ?thesis using assms Apply_other [of cfgo _ secrets current] by auto
qed

lemma jwt_state_ok_Apply [inv_intros]:
  assumes "jwt_state_ok getSecret current"
  shows "jwt_state_ok getSecret (ap_state (Apply (Some getSecret) cfgo current))"
proof (cases "\<exists>cfg. cfgo = Some cfg \<and> pjc_Enabled cfg \<and> pjc_SecretARN cfg \<noteq> [] \<and> pjc_SecretVersionID cfg \<noteq> []")
  case True
  then obtain cfg where c: "cfgo = Some cfg" "pjc_Enabled cfg" "pjc_SecretARN cfg \<noteq> []" "pjc_SecretVersionID cfg \<noteq> []"
    by blast
  define r where "r = Apply (Some getSecret) (Some cfg) current"
  from c(2-4) r_def have "jwt_state_ok getSecret (ap_state r)"
  proof (cases rule: Apply_cases)
    case (reconfigured st v v')
    from this(1) assms have "getSecret (pjc_SecretARN cfg) (pjc_SecretVersionID cfg) = Inr (ve_secret v)"
      unfolding reusable_Some by (auto simp: jwt_state_ok_def sameSecret_def)
    then show ?thesis
      using reconfigured NewProjectJWTVerifier_Inr(1-3) [of "ve_secret v" _ v']
      by (simp add: jwt_state_ok_def activeState_def Reconfigure_def)
  next
    case (loaded gs secret v)
    then show ?thesis
      using NewProjectJWTVerifier_Inr(1-3) [OF loaded(4)]
      by (simp add: jwt_state_ok_def activeState_def)
  qed (use assms in simp_all)
  then show ?thesis by (simp add: r_def c(1))
next
  case False
  then have "\<exists>cfg. cfgo = None \<or> cfgo = Some cfg \<and> (\<not> pjc_Enabled cfg \<or> pjc_SecretARN cfg = [] \<or> pjc_SecretVersionID cfg = [])"
    by (cases cfgo) auto
  then show ?thesis
    using assms Apply_other [of cfgo _ "Some getSecret" current] by (auto simp: jwt_state_ok_def)
qed

text \<open>The manager after a sequence of configurations, from the start of the gateway.\<close>

definition managerAfter :: "secret_reader \<Rightarrow> project_jwt_config_sync option list \<Rightarrow> jwt_state option" where
  "managerAfter getSecret cfgs = fold (\<lambda>c st. ap_state (Apply (Some getSecret) c st)) cfgs None"

lemma jwt_state_ok_after: "jwt_state_ok getSecret (managerAfter getSecret cfgs)"
proof -
  have "jwt_state_ok getSecret st \<Longrightarrow>
      jwt_state_ok getSecret (fold (\<lambda>c st. ap_state (Apply (Some getSecret) c st)) cfgs st)" for st
    by (induction cfgs arbitrary: st) (auto intro: inv_intros)
  from this [of None] show ?thesis unfolding managerAfter_def by (simp add: jwt_state_ok_def)
qed

section \<open>Properties\<close>

text \<open>
  C7. After any sequence of configuration reloads, the manager accepts only a token that is signed
  with HMAC SHA-256 under the secret stored for the active configuration (one of at least 32 bytes),
  has an expiry that the clock, less the configured skew, has not reached, and names a subject. With
  no enabled configuration it accepts nothing.
\<close>

theorem Manager_accepts_only_signed:
  assumes "jwt_sound parse facts"
    and "Manager_ValidateIdentity parse now (managerAfter getSecret cfgs) s = Inr idn"
  shows "\<exists>st v m e. managerAfter getSecret cfgs = Some st \<and> js_enabled st \<and> js_verifier st = Some v \<and>
    getSecret (js_secretARN st) (js_secretVersionID st) = Inr (ve_secret v) \<and> 32 \<le> length (ve_secret v) \<and>
    jf_method facts (TrimSpace s) = Some m \<and> jm_Alg m = ''HS256'' \<and> jm_IsHMAC m \<and>
    jf_signed facts (TrimSpace s) (ve_secret v) \<and>
    jf_exp facts (TrimSpace s) = Some e \<and> now - vc_ClockSkew (ve_config v) < e \<and> id_ClientID idn \<noteq> []"
proof -
  from assms(2) obtain st v where st: "managerAfter getSecret cfgs = Some st" "js_enabled st"
      "js_verifier st = Some v" "Verifier_Validate parse now (Some v) s = Inr idn"
    by (auto simp: Manager_ValidateIdentity_def split: option.splits if_splits)
  moreover from this have "vc_Algorithm (ve_config v) = ''HS256''" "32 \<le> length (ve_secret v)"
      "getSecret (js_secretARN st) (js_secretVersionID st) = Inr (ve_secret v)"
    using jwt_state_ok_after [of getSecret cfgs] by (auto simp: jwt_state_ok_def)
  ultimately show ?thesis using Verifier_Validate_sound [OF assms(1)] by metis
qed

text \<open>A token library that knows one token, and a configuration that accepts it.\<close>

definition example_secret :: string where "example_secret = replicate 32 (CHR ''k'')"

definition example_facts :: jwt_facts where
  "example_facts =
     \<lparr>jf_method = (\<lambda>s. Some \<lparr>jm_Alg = ''HS256'', jm_IsHMAC = True\<rparr>),
      jf_claims = (\<lambda>s. Some [''sub'' \<mapsto> CString ''alice'', ''scope'' \<mapsto> CString ''a b a'']),
      jf_exp = (\<lambda>s. Some 100), jf_signed = (\<lambda>s k. k = example_secret)\<rparr>"

definition example_parse :: jwt_parse where
  "example_parse now s kf opts =
     (case kf \<lparr>jm_Alg = ''HS256'', jm_IsHMAC = True\<rparr> of
        Inl e \<Rightarrow> Inl e
      | Inr k \<Rightarrow>
          if k = example_secret \<and> ''HS256'' \<in> set (jo_ValidMethods opts) \<and> now - jo_Leeway opts < 100
          then Inr \<lparr>jt_Valid = True,
                    jt_Claims = [''sub'' \<mapsto> CString ''alice'', ''scope'' \<mapsto> CString ''a b a'']\<rparr>
          else Inl ''signature'')"

definition example_config :: project_jwt_config_sync where
  "example_config =
     \<lparr>pjc_Enabled = True, pjc_Algorithm = ''HS256'', pjc_SecretARN = ''arn'', pjc_SecretVersionID = ''v1'',
      pjc_ConfigVersion = 1, pjc_Issuer = None, pjc_Audiences = [], pjc_SubjectClaim = [],
      pjc_RoleClaim = [], pjc_ScopesClaim = [], pjc_ClockSkewSeconds = 0\<rparr>"

lemma example_sound: "jwt_sound example_parse example_facts"
  by (auto simp: jwt_sound_def example_parse_def example_facts_def split: sum.splits if_splits)

lemma example_manager:
  "managerAfter (\<lambda>arn ver. Inr example_secret) [Some example_config] =
     Some (activeState example_config
       \<lparr>ve_secret = example_secret,
        ve_config = \<lparr>vc_Algorithm = ''HS256'', vc_Issuer = None, vc_Audiences = [],
          vc_SubjectClaim = ''sub'', vc_RoleClaim = ''role'', vc_ScopesClaim = ''scope'', vc_ClockSkew = 0\<rparr>\<rparr>)"
  by (simp add: managerAfter_def Apply_def example_config_def NewProjectJWTVerifier_def
      projectJWTVerifierConfig_def example_secret_def reusable_def Let_def)

lemma example_accepted:
  "Manager_ValidateIdentity example_parse 50 (managerAfter (\<lambda>arn ver. Inr example_secret) [Some example_config]) ''tok'' =
     Inr \<lparr>id_ClientID = ''alice'', id_Role = [], id_Scopes = [''a'', ''b'']\<rparr>"
  unfolding example_manager
  by (simp add: Manager_ValidateIdentity_def activeState_def Verifier_Validate_def example_parse_def
      verifierKeyfunc_def validateIssuer_def validateAudience_def requiredStringClaim_def
      optionalStringClaim_def scopesClaim_def uniqueStrings_def Fields_def isSpace_def TrimSpace_def
      trimBy_def Let_def)

theorem Manager_accepts_only_signed_witness:
  "\<exists>m. jf_method example_facts (TrimSpace ''tok'') = Some m \<and> jm_Alg m = ''HS256''"
  using Manager_accepts_only_signed [OF example_sound example_accepted] by blast

text \<open>
  Applying a configuration is all or nothing and frugal: a failure leaves the active state as it
  was; a success leaves either a disabled state or one for the new configuration's version and secret;
  the secrets service is asked at most once, for the configured secret, and not at all when the active
  state already has a verifier for it.
\<close>

theorem Apply_all_or_nothing:
  "(ap_error (Apply secrets cfgo current) \<noteq> None \<longrightarrow> ap_state (Apply secrets cfgo current) = current) \<and>
   (\<forall>cfg. ap_error (Apply secrets cfgo current) = None \<and> cfgo = Some cfg \<and> pjc_Enabled cfg \<longrightarrow>
      (\<exists>st. ap_state (Apply secrets cfgo current) = Some st \<and> js_configVersion st = pjc_ConfigVersion cfg \<and>
            sameSecret cfg st \<and> js_verifier st \<noteq> None)) \<and>
   (\<forall>cfg. cfgo = Some cfg \<longrightarrow>
      ap_calls (Apply secrets cfgo current) \<in> {[], [(pjc_SecretARN cfg, pjc_SecretVersionID cfg)]}) \<and>
   (\<forall>cfg st. cfgo = Some cfg \<and> current = Some st \<and> sameSecret cfg st \<and> js_verifier st \<noteq> None \<longrightarrow>
      ap_calls (Apply secrets cfgo current) = [])"
proof (cases "\<exists>cfg. cfgo = Some cfg \<and> pjc_Enabled cfg \<and> pjc_SecretARN cfg \<noteq> [] \<and> pjc_SecretVersionID cfg \<noteq> []")
  case True
  then obtain cfg where c: "cfgo = Some cfg" "pjc_Enabled cfg" "pjc_SecretARN cfg \<noteq> []" "pjc_SecretVersionID cfg \<noteq> []"
    by blast
  obtain r where r: "r = Apply secrets (Some cfg) current" by blast
  show ?thesis unfolding c(1) r [symmetric] using c(2-4) r
    by (cases rule: Apply_cases)
      (auto simp: reusable_Some reusable_None activeState_def sameSecret_def)
next
  case False
  then have "\<exists>cfg. cfgo = None \<or> cfgo = Some cfg \<and> (\<not> pjc_Enabled cfg \<or> pjc_SecretARN cfg = [] \<or> pjc_SecretVersionID cfg = [])"
    by (cases cfgo) auto
  then show ?thesis using Apply_other [of cfgo _ secrets current] by auto
qed

theorem Apply_all_or_nothing_witness:
  "ap_state (Apply None (Some example_config) None) = None"
  using Apply_all_or_nothing [of None "Some example_config" None]
  by (simp add: Apply_def example_config_def reusable_def)

text \<open>
  The API key store accepts a key only with a record that stands for its hash: one of the last
  snapshot, not yet revoked by the clock; or, when the snapshot has none, one cached in Redis; or,
  when neither has one, a row of the key table that is not revoked. Nothing else changes but the Redis
  cache, and that only when the table answered.
\<close>

theorem KeyStore_Validate_sources:
  assumes "KeyStore_Validate env now s key = (Some rec, s')"
  shows "TrimSpace key \<noteq> [] \<and> ks_local s' = ks_local s \<and> ks_db s' = ks_db s \<and>
    (ks_local s (hashKey env key) = Some rec \<and> (\<forall>t. ak_RevokedAt rec = Some t \<longrightarrow> now \<le> t) \<and> s' = s \<or>
     ks_local s (hashKey env key) = None \<and> lookupRedis env s (hashKey env key) = Some rec \<and> s' = s \<or>
     ks_local s (hashKey env key) = None \<and> lookupRedis env s (hashKey env key) = None \<and>
       ak_RevokedAt rec = None \<and> (\<exists>f. ks_db s = Some f \<and> f (hashKey env key) = Some rec))"
proof -
  have h: "hashKey env (TrimSpace key) = hashKey env key" by (simp add: hashKey_def)
  show ?thesis using assms
    by (auto simp: KeyStore_Validate_def Let_def h split: if_splits option.splits)
qed

definition map_env :: "(string \<rightharpoonup> string) key_env" where
  "map_env = \<lparr>ke_Get = (\<lambda>k r. r k), ke_Set = (\<lambda>k v ttl r. r(k \<mapsto> v)), ke_sha256hex = (\<lambda>x. x),
     ke_marshal = ak_ClientID,
     ke_unmarshal = (\<lambda>d. Some \<lparr>ak_ClientID = d, ak_RevokedAt = None, ak_Roles = [], ak_Scopes = []\<rparr>),
     ke_prefix = ''t:''\<rparr>"

definition table_store :: "(string \<rightharpoonup> string) key_store" where
  "table_store = \<lparr>ks_redis = Some Map.empty,
     ks_db = Some (\<lambda>h. Some \<lparr>ak_ClientID = ''c'', ak_RevokedAt = None, ak_Roles = [], ak_Scopes = []\<rparr>),
     ks_local = Map.empty\<rparr>"

theorem KeyStore_Validate_sources_witness:
  "TrimSpace ''key'' \<noteq> [] \<and>
   ks_local (snd (KeyStore_Validate map_env 0 table_store ''key'')) = ks_local table_store"
proof -
  have "\<exists>s'. KeyStore_Validate map_env 0 table_store ''key'' =
      (Some \<lparr>ak_ClientID = ''c'', ak_RevokedAt = None, ak_Roles = [], ak_Scopes = []\<rparr>, s')"
    by (simp add: KeyStore_Validate_def table_store_def map_env_def lookupRedis_def TrimSpace_def
        trimBy_def isSpace_def Let_def)
  then show ?thesis using KeyStore_Validate_sources [of map_env 0 table_store "''key''"] by auto
qed

end
