(* ===== verification/Runtime_Loader.thy ===== *)
theory Runtime_Loader
  imports Load_Balancer Health_Checker Project_Auth Go_Net
begin

text \<open>
  The gateway's configuration loader (\<^verbatim>\<open>internal/gateway/runtime/loader.go\<close> and \<^verbatim>\<open>config.go\<close>): what a
  reload builds from the control plane's answer, and the lookup of custom domains.

  Strategy objects are shared: a pool of an old snapshot and a pool of a new one may point to the
  same object, and a request that started under the old snapshot releases its target there. They
  live in a heap, and pools and the loader's table hold references. The pools and the domain map
  are association lists, in the order the code would range over them. The loader and the key store
  are wired to the same Redis client (\<^verbatim>\<open>internal/gateway/app/app.go\<close>), which the key store holds here.
\<close>

section \<open>Data\<close>

record domain_context =
  dc_Hostname :: string
  dc_Status :: string
  dc_RoutingStatus :: string

type_synonym strategy_ref = nat

record upstream_pool =
  pl_ProjectID :: string
  pl_Targets :: "target list"
  pl_Strategy :: strategy_ref
  pl_HealthPath :: string

record snapshot =
  sn_Routes :: "route list"
  sn_UpstreamPools :: "(string \<times> upstream_pool) list"
  sn_CustomDomains :: "custom_domain_sync list"
  sn_DomainMap :: "(string \<times> domain_context) list"

record tenant_api_key =
  tk_KeyHash :: string
  tk_Roles :: "string list"
  tk_Scopes :: "string list"

record tenant_snapshot =
  ts_ProjectID :: string
  ts_Routes :: "route list"
  ts_Upstreams :: "upstream list"
  ts_Targets :: "string \<Rightarrow> upstream_target list"
  ts_APIKeys :: "tenant_api_key list"
  ts_CustomDomains :: "custom_domain_sync list"
  ts_JWTAuth :: "project_jwt_config_sync option"

record 'r loader =
  ld_snapshot :: snapshot
  ld_strategies :: "string \<rightharpoonup> strategy_ref"
  ld_heap :: "strategy list"
  ld_jwt :: "jwt_state option"
  ld_health :: "checker option"
  ld_keyStore :: "'r key_store option"
  ld_projectID :: string

text \<open>
  The surroundings of a reload: the key store's, and the JWT manager, which may be absent and whose
  secret reader may be absent.
\<close>

record 'r loader_env =
  le_keys :: "'r key_env"
  le_applier :: "secret_reader option option"

datatype reload_error = FetchFailed string | ApplyFailed auth_error

section \<open>Hosts\<close>

definition NormalizeHost :: "string \<Rightarrow> string" where
  "NormalizeHost host0 =
     (let host1 = TrimSpace host0;
          host2 = ToLower host1;
          host3 = TrimSuffix host2 ''.'';
          host4 = (case SplitHostPort host3 of Some (h, _) \<Rightarrow> h | None \<Rightarrow> host3)
      in TrimSuffix host4 ''.'')"

definition LookupDomain :: "snapshot \<Rightarrow> string \<Rightarrow> domain_context option" where
  "LookupDomain s host =
     (if length (sn_DomainMap s) = 0 then None
      else map_of (sn_DomainMap s) (NormalizeHost host))"

section \<open>Building a snapshot\<close>

definition normalizeLBStrategy :: "string \<Rightarrow> string" where
  "normalizeLBStrategy s = (if s = ''least_conn'' then ''least_conn'' else ''round_robin'')"

definition strategyFor :: "string \<Rightarrow> string \<Rightarrow> 'r loader \<Rightarrow> strategy_ref \<times> 'r loader" where
  "strategyFor upstreamID lbStrategy l =
     (let fresh = (length (ld_heap l),
            l\<lparr>ld_heap := ld_heap l @ [NewStrategy lbStrategy],
              ld_strategies := (ld_strategies l)(upstreamID \<mapsto> length (ld_heap l))\<rparr>)
      in case ld_strategies l upstreamID of
           None \<Rightarrow> fresh
         | Some existing \<Rightarrow>
             if Strategy_Name (ld_heap l ! existing) = normalizeLBStrategy lbStrategy
             then (existing, l) else fresh)"

definition poolTargets :: "upstream \<Rightarrow> upstream_target list \<Rightarrow> target list" where
  "poolTargets u rawTargets =
     (let targets = map (\<lambda>t. \<lparr>tg_ID = ut_ID t, tg_URL = ut_TargetURL t, tg_Weight = ut_Weight t\<rparr>)
                      (filter ut_Enabled rawTargets)
      in if length targets = 0 \<and> up_TargetURL u \<noteq> []
         then [\<lparr>tg_ID = up_ID u, tg_URL = up_TargetURL u, tg_Weight = 1\<rparr>]
         else targets)"

fun buildPools_loop ::
  "(string \<Rightarrow> upstream_target list) \<Rightarrow> upstream list \<Rightarrow> (string \<times> upstream_pool) list \<Rightarrow> 'r loader \<Rightarrow>
     (string \<times> upstream_pool) list \<times> 'r loader" where
  "buildPools_loop targets [] pools l = (pools, l)"
| "buildPools_loop targets (u # us) pools l =
     (let (strategy, l') = strategyFor (up_ID u) (up_LBStrategy u) l
      in buildPools_loop targets us
           (AList.update (up_ID u)
             \<lparr>pl_ProjectID = up_ProjectID u, pl_Targets = poolTargets u (targets (up_ID u)),
              pl_Strategy = strategy, pl_HealthPath = up_HealthPath u\<rparr> pools) l')"

definition buildPoolsFromSnapshot ::
  "tenant_snapshot \<Rightarrow> 'r loader \<Rightarrow> (string \<times> upstream_pool) list \<times> 'r loader" where
  "buildPoolsFromSnapshot snap l = buildPools_loop (ts_Targets snap) (ts_Upstreams snap) [] l"

fun buildDomainMap_loop ::
  "custom_domain_sync list \<Rightarrow> (string \<times> domain_context) list \<Rightarrow> (string \<times> domain_context) list" where
  "buildDomainMap_loop [] m = m"
| "buildDomainMap_loop (cd # cds) m =
     (let norm = NormalizeHost (cds_Hostname cd)
      in if norm = [] then buildDomainMap_loop cds m
         else if cds_Status cd \<noteq> ''active'' \<or> cds_RoutingStatus cd \<noteq> ''ready''
         then buildDomainMap_loop cds m
         else buildDomainMap_loop cds
                (AList.update norm
                  \<lparr>dc_Hostname = cds_Hostname cd, dc_Status = cds_Status cd,
                   dc_RoutingStatus = cds_RoutingStatus cd\<rparr> m))"

definition buildDomainMap :: "tenant_snapshot \<Rightarrow> (string \<times> domain_context) list" where
  "buildDomainMap snap = buildDomainMap_loop (ts_CustomDomains snap) []"

definition healthTargets :: "(string \<times> upstream_pool) list \<Rightarrow> (string \<times> target_health_config) list" where
  "healthTargets pools =
     fold (\<lambda>(uid, pool) m.
         fold (\<lambda>t m. AList.update (tg_URL t)
                 \<lparr>thc_HealthPath = pl_HealthPath pool, thc_ProjectID = pl_ProjectID pool\<rparr> m)
           (pl_Targets pool) m)
       pools []"

definition syncHealthTargets :: "(string \<times> upstream_pool) list \<Rightarrow> 'r loader \<Rightarrow> 'r loader" where
  "syncHealthTargets pools l =
     (case ld_health l of
        None \<Rightarrow> l
      | Some hc \<Rightarrow> l\<lparr>ld_health := Some (SyncTargets (healthTargets pools) hc)\<rparr>)"

section \<open>API keys\<close>

definition warmRedis :: "'r key_env \<Rightarrow> string \<Rightarrow> tenant_api_key list \<Rightarrow> 'r \<Rightarrow> 'r" where
  "warmRedis env projectID keys r =
     fold (\<lambda>k r. ke_Set env (cacheKeyFor env (tk_KeyHash k))
              (ke_marshal env \<lparr>ak_ClientID = projectID, ak_RevokedAt = None, ak_Roles = tk_Roles k,
                               ak_Scopes = tk_Scopes k\<rparr>) cacheTTL r)
       keys r"

definition WarmAPIKeyCache :: "'r key_env \<Rightarrow> tenant_api_key list \<Rightarrow> 'r loader \<Rightarrow> 'r loader" where
  "WarmAPIKeyCache env keys l =
     (let dtos = map (\<lambda>k. \<lparr>kd_KeyHash = tk_KeyHash k, kd_Roles = tk_Roles k, kd_Scopes = tk_Scopes k\<rparr>) keys
      in case ld_keyStore l of
           None \<Rightarrow> l
         | Some ks \<Rightarrow>
             let ks1 = UpdateLocalKeys (ld_projectID l) dtos ks
             in l\<lparr>ld_keyStore := Some
                  (case ks_redis ks1 of
                     None \<Rightarrow> ks1
                   | Some r \<Rightarrow> ks1\<lparr>ks_redis := Some (warmRedis env (ld_projectID l) keys r)\<rparr>)\<rparr>)"

section \<open>Reloading\<close>

definition reload ::
  "'r loader_env \<Rightarrow> string + tenant_snapshot \<Rightarrow> 'r loader \<Rightarrow> reload_error option \<times> 'r loader" where
  "reload env fetched l =
     (case fetched of
        Inl e \<Rightarrow> (Some (FetchFailed e), l)
      | Inr snap \<Rightarrow>
          (case (case le_applier env of
                   None \<Rightarrow> (None, l)
                 | Some secrets \<Rightarrow>
                     (let r = Apply secrets (ts_JWTAuth snap) (ld_jwt l)
                      in (ap_error r, l\<lparr>ld_jwt := ap_state r\<rparr>))) of
             (Some e, l1) \<Rightarrow> (Some (ApplyFailed e), l1)
           | (None, l1) \<Rightarrow>
               let (pools, l2) = buildPoolsFromSnapshot snap l1;
                   domainMap = buildDomainMap snap;
                   l3 = l2\<lparr>ld_snapshot :=
                          \<lparr>sn_Routes = ts_Routes snap, sn_UpstreamPools = pools,
                           sn_CustomDomains = ts_CustomDomains snap, sn_DomainMap = domainMap\<rparr>\<rparr>;
                   l4 = syncHealthTargets pools l3
               in (None, WarmAPIKeyCache (le_keys env) (ts_APIKeys snap) l4)))"

definition Current :: "'r loader \<Rightarrow> snapshot" where
  "Current l = ld_snapshot l"

section \<open>Lemmas on strategies\<close>

text \<open>Every reference the loader's table holds points into the heap.\<close>

definition refs_ok :: "'r loader \<Rightarrow> bool" where
  "refs_ok l \<longleftrightarrow> (\<forall>u i. ld_strategies l u = Some i \<longrightarrow> i < length (ld_heap l))"

text \<open>\<open>l'\<close> has all strategy objects of \<open>l\<close>, unchanged, and perhaps new ones behind them.\<close>

definition heap_extends :: "'r loader \<Rightarrow> 'r loader \<Rightarrow> bool" where
  "heap_extends l l' \<longleftrightarrow> (\<exists>new. ld_heap l' = ld_heap l @ new)"

lemma heap_extends_refl [simp]: "heap_extends l l"
  by (simp add: heap_extends_def)

lemma heap_extends_trans: "heap_extends l1 l2 \<Longrightarrow> heap_extends l2 l3 \<Longrightarrow> heap_extends l1 l3"
  by (auto simp: heap_extends_def)

lemma Strategy_Name_New: "Strategy_Name (NewStrategy s) = normalizeLBStrategy s"
  by (simp add: NewStrategy_def normalizeLBStrategy_def)

lemma strategyFor_cases:
  assumes "strategyFor u lb l = (i, l')"
  obtains (keep) "ld_strategies l u = Some i" "Strategy_Name (ld_heap l ! i) = normalizeLBStrategy lb" "l' = l"
  | (fresh) "i = length (ld_heap l)" "l' = l\<lparr>ld_heap := ld_heap l @ [NewStrategy lb],
        ld_strategies := (ld_strategies l)(u \<mapsto> length (ld_heap l))\<rparr>"
      "\<forall>j. ld_strategies l u = Some j \<longrightarrow> Strategy_Name (ld_heap l ! j) \<noteq> normalizeLBStrategy lb"
proof (cases "\<exists>j. ld_strategies l u = Some j \<and> Strategy_Name (ld_heap l ! j) = normalizeLBStrategy lb")
  case True
  then obtain j where j: "ld_strategies l u = Some j" "Strategy_Name (ld_heap l ! j) = normalizeLBStrategy lb"
    by blast
  then have "(i, l') = (j, l)" using assms by (simp add: strategyFor_def)
  then show thesis using j by (intro keep) simp_all
next
  case False
  then have "strategyFor u lb l = (length (ld_heap l), l\<lparr>ld_heap := ld_heap l @ [NewStrategy lb],
        ld_strategies := (ld_strategies l)(u \<mapsto> length (ld_heap l))\<rparr>)"
    by (cases "ld_strategies l u") (simp_all add: strategyFor_def)
  then show thesis using assms False by (intro fresh) simp_all
qed

lemma strategyFor_spec:
  assumes "refs_ok l" "strategyFor u lb l = (i, l')"
  shows "refs_ok l'" "heap_extends l l'" "i < length (ld_heap l')"
    "Strategy_Name (ld_heap l' ! i) = normalizeLBStrategy lb" "ld_strategies l' u = Some i"
    "\<And>v. v \<noteq> u \<Longrightarrow> ld_strategies l' v = ld_strategies l v"
    "\<And>j. ld_strategies l u = Some j \<Longrightarrow> Strategy_Name (ld_heap l ! j) = normalizeLBStrategy lb \<Longrightarrow> i = j"
proof -
  have "refs_ok l' \<and> heap_extends l l' \<and> i < length (ld_heap l') \<and>
      Strategy_Name (ld_heap l' ! i) = normalizeLBStrategy lb \<and> ld_strategies l' u = Some i \<and>
      (\<forall>v. v \<noteq> u \<longrightarrow> ld_strategies l' v = ld_strategies l v) \<and>
      (\<forall>j. ld_strategies l u = Some j \<longrightarrow> Strategy_Name (ld_heap l ! j) = normalizeLBStrategy lb \<longrightarrow> i = j)"
    using assms(2)
  proof (cases rule: strategyFor_cases)
    case keep
    then show ?thesis using assms(1) by (auto simp: refs_ok_def)
  next
    case fresh
    then show ?thesis using assms(1)
      by (auto simp: refs_ok_def heap_extends_def Strategy_Name_New less_SucI)
  qed
  then show "refs_ok l'" "heap_extends l l'" "i < length (ld_heap l')"
    "Strategy_Name (ld_heap l' ! i) = normalizeLBStrategy lb" "ld_strategies l' u = Some i"
    "\<And>v. v \<noteq> u \<Longrightarrow> ld_strategies l' v = ld_strategies l v"
    "\<And>j. ld_strategies l u = Some j \<Longrightarrow> Strategy_Name (ld_heap l ! j) = normalizeLBStrategy lb \<Longrightarrow> i = j"
    by blast+
qed

lemma strategyFor_frame [frame]:
  "ld_jwt (snd (strategyFor u lb l)) = ld_jwt l"
  "ld_health (snd (strategyFor u lb l)) = ld_health l"
  "ld_keyStore (snd (strategyFor u lb l)) = ld_keyStore l"
  "ld_projectID (snd (strategyFor u lb l)) = ld_projectID l"
  by (auto simp: strategyFor_def Let_def split: option.splits)

lemma buildPools_step:
  "buildPools_loop ts (u # us) pools l =
     buildPools_loop ts us
       (AList.update (up_ID u)
         \<lparr>pl_ProjectID = up_ProjectID u, pl_Targets = poolTargets u (ts (up_ID u)),
          pl_Strategy = fst (strategyFor (up_ID u) (up_LBStrategy u) l), pl_HealthPath = up_HealthPath u\<rparr> pools)
       (snd (strategyFor (up_ID u) (up_LBStrategy u) l))"
  by (simp add: Let_def split: prod.splits)

declare buildPools_loop.simps(2) [simp del]

lemma buildPools_frame [frame]:
  "ld_jwt (snd (buildPools_loop ts us pools l)) = ld_jwt l"
  "ld_health (snd (buildPools_loop ts us pools l)) = ld_health l"
  "ld_keyStore (snd (buildPools_loop ts us pools l)) = ld_keyStore l"
  "ld_projectID (snd (buildPools_loop ts us pools l)) = ld_projectID l"
  by (induction us arbitrary: pools l) (simp_all add: buildPools_step frame)

text \<open>
  What the loop leaves of the loader: old strategy objects stay where they are, and an upstream
  whose kind of strategy did not change keeps its object.
\<close>

lemma buildPools_heap:
  assumes "refs_ok l"
  shows "refs_ok (snd (buildPools_loop ts us pools l)) \<and> heap_extends l (snd (buildPools_loop ts us pools l))"
  using assms
proof (induction us arbitrary: pools l)
  case (Cons u us)
  obtain i l' where s: "strategyFor (up_ID u) (up_LBStrategy u) l = (i, l')" by fastforce
  note sp = strategyFor_spec [OF Cons.prems s]
  show ?case using Cons.IH [OF sp(1)] heap_extends_trans [OF sp(2)] by (simp add: buildPools_step s)
qed simp

lemma heap_extends_nth: "heap_extends l l' \<Longrightarrow> i < length (ld_heap l) \<Longrightarrow> ld_heap l' ! i = ld_heap l ! i"
  by (auto simp: heap_extends_def nth_append)

lemma heap_extends_length: "heap_extends l l' \<Longrightarrow> i < length (ld_heap l) \<Longrightarrow> i < length (ld_heap l')"
  by (auto simp: heap_extends_def)

lemma buildPools_other:
  assumes "refs_ok l" "uid \<notin> up_ID ` set us"
  shows "ld_strategies (snd (buildPools_loop ts us pools l)) uid = ld_strategies l uid \<and>
    map_of (fst (buildPools_loop ts us pools l)) uid = map_of pools uid"
  using assms
proof (induction us arbitrary: pools l)
  case (Cons u us)
  obtain i l' where s: "strategyFor (up_ID u) (up_LBStrategy u) l = (i, l')" by fastforce
  note sp = strategyFor_spec [OF Cons.prems(1) s]
  show ?case using Cons.IH [OF sp(1)] Cons.prems(2) sp(6) by (simp add: buildPools_step s update_conv')
qed simp

lemma buildPools_pool:
  assumes "refs_ok l" "distinct (map up_ID us)" "u \<in> set us"
  shows "\<exists>i. map_of (fst (buildPools_loop ts us pools l)) (up_ID u) =
      Some \<lparr>pl_ProjectID = up_ProjectID u, pl_Targets = poolTargets u (ts (up_ID u)), pl_Strategy = i,
            pl_HealthPath = up_HealthPath u\<rparr> \<and>
    i < length (ld_heap (snd (buildPools_loop ts us pools l))) \<and>
    Strategy_Name (ld_heap (snd (buildPools_loop ts us pools l)) ! i) = normalizeLBStrategy (up_LBStrategy u) \<and>
    ld_strategies (snd (buildPools_loop ts us pools l)) (up_ID u) = Some i \<and>
    (\<forall>j. ld_strategies l (up_ID u) = Some j \<and>
        Strategy_Name (ld_heap l ! j) = normalizeLBStrategy (up_LBStrategy u) \<longrightarrow> i = j)"
  using assms
proof (induction us arbitrary: pools l)
  case (Cons w us)
  obtain i l' where s: "strategyFor (up_ID w) (up_LBStrategy w) l = (i, l')" by fastforce
  note sp = strategyFor_spec [OF Cons.prems(1) s]
  let ?p = "AList.update (up_ID w) \<lparr>pl_ProjectID = up_ProjectID w, pl_Targets = poolTargets w (ts (up_ID w)),
    pl_Strategy = i, pl_HealthPath = up_HealthPath w\<rparr> pools"
  show ?case
  proof (cases "u = w")
    case True
    have "up_ID w \<notin> up_ID ` set us" using Cons.prems(2) by simp
    note o = buildPools_other [OF sp(1) this, of ts ?p]
    have h: "heap_extends l' (snd (buildPools_loop ts us ?p l'))" using buildPools_heap [OF sp(1)] by blast
    show ?thesis
      using o sp(3,4,5,7) heap_extends_nth [OF h sp(3)] heap_extends_length [OF h sp(3)]
      by (auto simp: True buildPools_step s update_conv')
  next
    case False
    then have "u \<in> set us" "distinct (map up_ID us)" using Cons.prems(2,3) by simp_all
    moreover from this(1) have "up_ID u \<in> up_ID ` set us" by (rule imageI)
    moreover have "up_ID w \<notin> up_ID ` set us" using Cons.prems(2) by simp
    ultimately have u: "u \<in> set us" "up_ID u \<noteq> up_ID w" "distinct (map up_ID us)" by metis+
    have "ld_strategies l' (up_ID u) = ld_strategies l (up_ID u)" using sp(6) u(2) by blast
    moreover have "ld_strategies l (up_ID u) = Some j \<Longrightarrow> ld_heap l' ! j = ld_heap l ! j" for j
      using heap_extends_nth [OF sp(2)] Cons.prems(1) by (simp add: refs_ok_def)
    ultimately show ?thesis using Cons.IH [OF sp(1) u(3,1), of ?p] by (simp add: buildPools_step s) metis
  qed
qed simp

section \<open>Lemmas on domains\<close>

definition routable :: "custom_domain_sync \<Rightarrow> bool" where
  "routable cd \<longleftrightarrow> cds_Status cd = ''active'' \<and> cds_RoutingStatus cd = ''ready'' \<and>
     NormalizeHost (cds_Hostname cd) \<noteq> []"

definition contextOf :: "custom_domain_sync \<Rightarrow> domain_context" where
  "contextOf cd = \<lparr>dc_Hostname = cds_Hostname cd, dc_Status = cds_Status cd,
     dc_RoutingStatus = cds_RoutingStatus cd\<rparr>"

lemma buildDomainMap_loop_lookup:
  "map_of (buildDomainMap_loop cds m) h =
     (case find (\<lambda>cd. routable cd \<and> NormalizeHost (cds_Hostname cd) = h) (rev cds) of
        Some cd \<Rightarrow> Some (contextOf cd) | None \<Rightarrow> map_of m h)"
proof (induction cds arbitrary: m)
  case (Cons cd cds)
  have find_append: "find P (xs @ ys) = (case find P xs of Some x \<Rightarrow> Some x | None \<Rightarrow> find P ys)"
    for P and xs ys :: "custom_domain_sync list"
    by (induction xs) auto
  show ?case
    by (auto simp: Let_def Cons.IH find_append routable_def contextOf_def update_conv' split: option.splits)
qed simp

lemma find_rev_Some:
  "find P (rev xs) = Some x \<Longrightarrow> x \<in> set xs \<and> P x"
  using find_Some_iff [of P "rev xs" x] by (metis nth_mem set_rev)

section \<open>Lemmas on a reload\<close>

text \<open>The loader between applying the JWT configuration and building the pools.\<close>

definition jwtApplied :: "'r loader_env \<Rightarrow> tenant_snapshot \<Rightarrow> 'r loader \<Rightarrow> 'r loader" where
  "jwtApplied env snap l =
     (case le_applier env of
        None \<Rightarrow> l | Some secrets \<Rightarrow> l\<lparr>ld_jwt := ap_state (Apply secrets (ts_JWTAuth snap) (ld_jwt l))\<rparr>)"

lemma jwtApplied_frame [frame]:
  "ld_heap (jwtApplied env snap l) = ld_heap l" "ld_strategies (jwtApplied env snap l) = ld_strategies l"
  "ld_keyStore (jwtApplied env snap l) = ld_keyStore l" "ld_projectID (jwtApplied env snap l) = ld_projectID l"
  by (simp_all add: jwtApplied_def split: option.split)

lemma refs_ok_jwtApplied [simp]: "refs_ok (jwtApplied env snap l) = refs_ok l"
  by (simp add: refs_ok_def frame)

lemma reload_None:
  assumes "reload env (Inr snap) l = (None, l')"
  shows "l' = (let (pools, l2) = buildPoolsFromSnapshot snap (jwtApplied env snap l)
    in WarmAPIKeyCache (le_keys env) (ts_APIKeys snap)
      (syncHealthTargets pools
        (l2\<lparr>ld_snapshot := \<lparr>sn_Routes = ts_Routes snap, sn_UpstreamPools = pools,
          sn_CustomDomains = ts_CustomDomains snap, sn_DomainMap = buildDomainMap snap\<rparr>\<rparr>)))"
  using assms
  by (cases "le_applier env")
    (auto simp: reload_def jwtApplied_def Let_def split: prod.splits option.splits)

lemma syncHealthTargets_frame [frame]:
  "ld_snapshot (syncHealthTargets p l) = ld_snapshot l" "ld_heap (syncHealthTargets p l) = ld_heap l"
  "ld_strategies (syncHealthTargets p l) = ld_strategies l"
  "ld_keyStore (syncHealthTargets p l) = ld_keyStore l" "ld_projectID (syncHealthTargets p l) = ld_projectID l"
  by (simp_all add: syncHealthTargets_def split: option.split)

lemma WarmAPIKeyCache_frame [frame]:
  "ld_snapshot (WarmAPIKeyCache env ks l) = ld_snapshot l" "ld_heap (WarmAPIKeyCache env ks l) = ld_heap l"
  "ld_strategies (WarmAPIKeyCache env ks l) = ld_strategies l"
  "ld_projectID (WarmAPIKeyCache env ks l) = ld_projectID l"
  by (simp_all add: WarmAPIKeyCache_def Let_def split: option.split)

lemma reload_parts:
  assumes "reload env (Inr snap) l = (None, l')"
  defines "built \<equiv> buildPools_loop (ts_Targets snap) (ts_Upstreams snap) [] (jwtApplied env snap l)"
  shows "Current l' = \<lparr>sn_Routes = ts_Routes snap, sn_UpstreamPools = fst built,
      sn_CustomDomains = ts_CustomDomains snap, sn_DomainMap = buildDomainMap snap\<rparr>"
    and "ld_heap l' = ld_heap (snd built)" "ld_strategies l' = ld_strategies (snd built)"
    and "ld_projectID l' = ld_projectID l"
  using reload_None [OF assms(1)]
  by (simp_all add: built_def Current_def buildPoolsFromSnapshot_def Let_def frame split: prod.splits)
    (metis frame snd_conv)

lemma reload_keyStore:
  assumes "reload env (Inr snap) l = (None, l')"
  shows "ld_keyStore l' = ld_keyStore (WarmAPIKeyCache (le_keys env) (ts_APIKeys snap) l)"
proof -
  obtain pools l2 where b: "buildPoolsFromSnapshot snap (jwtApplied env snap l) = (pools, l2)" by fastforce
  have "ld_keyStore l2 = ld_keyStore l" "ld_projectID l2 = ld_projectID l"
    using b by (metis buildPoolsFromSnapshot_def frame snd_conv)+
  then show ?thesis using reload_None [OF assms]
    by (simp add: b WarmAPIKeyCache_def Let_def frame split: option.split)
qed

section \<open>Lemmas on keys\<close>

text \<open>What the store relies on of Redis and of the coding of cached records.\<close>

definition kv_laws :: "'r key_env \<Rightarrow> bool" where
  "kv_laws env \<longleftrightarrow>
     (\<forall>k v t r. ke_Get env k (ke_Set env k v t r) = Some v) \<and>
     (\<forall>k k' v t r. k \<noteq> k' \<longrightarrow> ke_Get env k (ke_Set env k' v t r) = ke_Get env k r) \<and>
     (\<forall>rec. \<exists>rec'. ke_unmarshal env (ke_marshal env rec) = Some rec' \<and> ak_ClientID rec' = ak_ClientID rec)"

definition cachedFor :: "'r key_env \<Rightarrow> string \<Rightarrow> string \<Rightarrow> 'r \<Rightarrow> bool" where
  "cachedFor env clientID h r \<longleftrightarrow>
     (\<exists>d rec. ke_Get env (cacheKeyFor env h) r = Some d \<and> ke_unmarshal env d = Some rec \<and> ak_ClientID rec = clientID)"

lemma cacheKeyFor_inj [simp]: "cacheKeyFor env h = cacheKeyFor env h' \<longleftrightarrow> h = h'"
  by (simp add: cacheKeyFor_def PrefixedKey_def)

lemma cachedFor_warm:
  assumes "kv_laws env" "h \<in> tk_KeyHash ` set keys \<or> cachedFor env p h r"
  shows "cachedFor env p h (warmRedis env p keys r)"
  using assms(2) unfolding warmRedis_def
proof (induction keys arbitrary: r)
  case (Cons k keys)
  let ?set = "ke_Set env (cacheKeyFor env (tk_KeyHash k)) (ke_marshal env \<lparr>ak_ClientID = p, ak_RevokedAt = None,
      ak_Roles = tk_Roles k, ak_Scopes = tk_Scopes k\<rparr>) cacheTTL r"
  have same: "cachedFor env p (tk_KeyHash k) ?set"
    using assms(1) unfolding kv_laws_def cachedFor_def by (metis api_key_record.select_convs(1))
  have other: "h \<noteq> tk_KeyHash k \<Longrightarrow> cachedFor env p h r \<Longrightarrow> cachedFor env p h ?set"
    using assms(1) unfolding kv_laws_def cachedFor_def by (metis cacheKeyFor_inj)
  show ?case using Cons same other by (cases "h = tk_KeyHash k") auto
qed simp

lemma UpdateLocalKeys_None:
  assumes "h \<notin> kd_KeyHash ` set keys"
  shows "ks_local (UpdateLocalKeys c keys s) h = None"
proof -
  have "foldl (\<lambda>m k. m(kd_KeyHash k \<mapsto> f k)) m0 keys h = m0 h" for f :: "key_snapshot \<Rightarrow> api_key_record" and m0
    using assms by (induction keys arbitrary: m0) auto
  then show ?thesis by (simp add: UpdateLocalKeys_def)
qed

lemma UpdateLocalKeys_redis [simp]: "ks_redis (UpdateLocalKeys c keys s) = ks_redis s"
  by (simp add: UpdateLocalKeys_def)

lemma WarmAPIKeyCache_store:
  assumes "ld_keyStore l = Some ks" "ks_redis ks = Some r"
  shows "\<exists>ks'. ld_keyStore (WarmAPIKeyCache env keys l) = Some ks' \<and>
    ks_redis ks' = Some (warmRedis env (ld_projectID l) keys r) \<and>
    (\<forall>h. h \<notin> tk_KeyHash ` set keys \<longrightarrow> ks_local ks' h = None)"
  using assms by (auto simp: WarmAPIKeyCache_def Let_def UpdateLocalKeys_None image_image)

section \<open>Properties\<close>

text \<open>A loader at start-up, with a health checker and a key store on an empty Redis.\<close>

definition start_loader :: "(string \<rightharpoonup> string) loader" where
  "start_loader =
     \<lparr>ld_snapshot = \<lparr>sn_Routes = [], sn_UpstreamPools = [], sn_CustomDomains = [], sn_DomainMap = []\<rparr>,
      ld_strategies = Map.empty, ld_heap = [], ld_jwt = None, ld_health = Some New_checker,
      ld_keyStore = Some \<lparr>ks_redis = Some Map.empty, ks_db = None, ks_local = Map.empty\<rparr>,
      ld_projectID = ''p1''\<rparr>"

definition start_env :: "(string \<rightharpoonup> string) loader_env" where
  "start_env = \<lparr>le_keys = map_env, le_applier = Some None\<rparr>"

definition one_upstream :: tenant_snapshot where
  "one_upstream =
     \<lparr>ts_ProjectID = ''p1'', ts_Routes = [plain_route ''r'' ''/''],
      ts_Upstreams = [\<lparr>up_ID = ''u1'', up_ProjectID = ''p1'', up_Name = ''n'', up_TargetURL = ''http://a'',
        up_Protocol = ''http'', up_HealthPath = ''/hz'', up_Enabled = True, up_LBStrategy = ''least_conn''\<rparr>],
      ts_Targets = (\<lambda>_. []),
      ts_APIKeys = [\<lparr>tk_KeyHash = ''k1'', tk_Roles = [], tk_Scopes = []\<rparr>],
      ts_CustomDomains = [\<lparr>cds_Hostname = ''Api.Acme.com'', cds_Status = ''active'', cds_RoutingStatus = ''ready''\<rparr>],
      ts_JWTAuth = None\<rparr>"

lemma refs_ok_start [simp]: "refs_ok start_loader"
  by (simp add: refs_ok_def start_loader_def)

lemma reload_start: "\<exists>l'. reload start_env (Inr one_upstream) start_loader = (None, l')"
  by (simp add: reload_def start_env_def one_upstream_def Apply_def Let_def split: prod.split)

text \<open>
  C9. A reload that fails, because the snapshot could not be fetched or its JWT configuration could
  not be applied, changes nothing at all: the gateway keeps its routes, pools, strategies, verifier,
  health states and keys.
\<close>

theorem reload_failure_changes_nothing:
  assumes "reload env fetched l = (Some e, l')"
  shows "l' = l"
proof -
  have "l\<lparr>ld_jwt := ap_state (Apply secrets c (ld_jwt l))\<rparr> = l"
    if "ap_error (Apply secrets c (ld_jwt l)) \<noteq> None" for secrets c
    using Apply_failed [OF that] by simp
  then show ?thesis using assms
    by (auto simp: reload_def Let_def split: sum.splits option.splits prod.splits)
qed

theorem reload_failure_changes_nothing_witness:
  "snd (reload start_env (Inl ''timeout'') start_loader) = start_loader"
  using reload_failure_changes_nothing [of start_env "Inl ''timeout''" start_loader "FetchFailed ''timeout''"]
  by (simp add: reload_def)

text \<open>
  A successful reload installs what the control plane sent: the routes as they are, and for
  every upstream (identifiers distinct) a pool with its enabled targets, or with the upstream's own URL
  when none is enabled, balanced by an object of the configured kind.
\<close>

theorem reload_installs_pools:
  assumes "reload env (Inr snap) l = (None, l')" "refs_ok l"
    and "distinct (map up_ID (ts_Upstreams snap))" "u \<in> set (ts_Upstreams snap)"
  shows "sn_Routes (Current l') = ts_Routes snap \<and> refs_ok l' \<and>
    (\<exists>pool. map_of (sn_UpstreamPools (Current l')) (up_ID u) = Some pool \<and>
      pl_Targets pool = poolTargets u (ts_Targets snap (up_ID u)) \<and>
      pl_Strategy pool < length (ld_heap l') \<and>
      Strategy_Name (ld_heap l' ! pl_Strategy pool) = normalizeLBStrategy (up_LBStrategy u))"
proof -
  have r: "refs_ok (jwtApplied env snap l)" using assms(2) by simp
  note parts = reload_parts [OF assms(1)]
  have "refs_ok l'" using buildPools_heap [OF r] parts(2,3) by (simp add: refs_ok_def)
  then show ?thesis
    using buildPools_pool [OF r assms(3,4), of "ts_Targets snap" "[]"] parts(1,2) by force
qed

theorem reload_installs_pools_witness:
  "\<exists>l' pool. reload start_env (Inr one_upstream) start_loader = (None, l') \<and>
     map_of (sn_UpstreamPools (Current l')) ''u1'' = Some pool \<and>
     pl_Targets pool = [\<lparr>tg_ID = ''u1'', tg_URL = ''http://a'', tg_Weight = 1\<rparr>]"
proof -
  obtain l' where l': "reload start_env (Inr one_upstream) start_loader = (None, l')" using reload_start ..
  show ?thesis
    using reload_installs_pools [OF l' refs_ok_start, of "hd (ts_Upstreams one_upstream)"] l'
    by (auto simp: one_upstream_def poolTargets_def)
qed

text \<open>
  A reload does not forget what the load balancers know: every strategy object, with its
  counters, survives unchanged where it was, so that requests in flight release into the object they
  picked from; and an upstream whose kind of strategy stays the same keeps its object.
\<close>

theorem reload_keeps_strategies:
  assumes "reload env fetched l = (err, l')" "refs_ok l"
  shows "take (length (ld_heap l)) (ld_heap l') = ld_heap l \<and>
    (\<forall>snap u j. fetched = Inr snap \<and> err = None \<and> distinct (map up_ID (ts_Upstreams snap)) \<and>
       u \<in> set (ts_Upstreams snap) \<and> ld_strategies l (up_ID u) = Some j \<and>
       Strategy_Name (ld_heap l ! j) = normalizeLBStrategy (up_LBStrategy u) \<longrightarrow>
       (\<exists>pool. map_of (sn_UpstreamPools (Current l')) (up_ID u) = Some pool \<and> pl_Strategy pool = j))"
proof (cases "\<exists>snap. fetched = Inr snap \<and> err = None")
  case True
  then obtain snap where f: "fetched = Inr snap" "err = None" by blast
  have r: "refs_ok (jwtApplied env snap l)" using assms(2) by simp
  note parts = reload_parts [OF assms(1) [unfolded f]]
  have "take (length (ld_heap l)) (ld_heap l') = ld_heap l"
    using buildPools_heap [OF r, of "ts_Targets snap" "ts_Upstreams snap" "[]"] parts(2)
    by (auto simp: heap_extends_def frame)
  moreover have "\<exists>pool. map_of (sn_UpstreamPools (Current l')) (up_ID u) = Some pool \<and> pl_Strategy pool = j"
    if "distinct (map up_ID (ts_Upstreams snap))" "u \<in> set (ts_Upstreams snap)"
      "ld_strategies l (up_ID u) = Some j" "Strategy_Name (ld_heap l ! j) = normalizeLBStrategy (up_LBStrategy u)"
    for u j
    using buildPools_pool [OF r that(1,2), of "ts_Targets snap" "[]"] that(3,4) parts(1) by (force simp: frame)
  ultimately show ?thesis using f by auto
next
  case False
  have "ld_heap l' = ld_heap l" using assms(1) False
    by (auto simp: reload_def Let_def split: sum.splits option.splits prod.splits)
  then show ?thesis using False by auto
qed

theorem reload_keeps_strategies_witness:
  "\<exists>l1 l2. reload start_env (Inr one_upstream) start_loader = (None, l1) \<and>
     reload start_env (Inl ''down'') l1 = (Some (FetchFailed ''down''), l2) \<and>
     take (length (ld_heap l1)) (ld_heap l2) = ld_heap l1"
proof -
  obtain l1 where l1: "reload start_env (Inr one_upstream) start_loader = (None, l1)" using reload_start ..
  have "refs_ok (jwtApplied start_env one_upstream start_loader)" by simp
  then have ok: "refs_ok l1"
    using buildPools_heap reload_parts(2,3) [OF l1] unfolding refs_ok_def by metis
  have "reload start_env (Inl ''down'') l1 = (Some (FetchFailed ''down''), l1)" by (simp add: reload_def)
  with reload_keeps_strategies [OF this ok] l1 show ?thesis by blast
qed

text \<open>
  After a reload a host resolves to a custom domain exactly when some domain of the snapshot is
  active, ready for routing and has the same normalized host name; what it resolves to is such a
  domain.
\<close>

theorem LookupDomain_after_reload:
  assumes "reload env (Inr snap) l = (None, l')"
  shows "(\<forall>ctx. LookupDomain (Current l') host = Some ctx \<longrightarrow>
      (\<exists>cd \<in> set (ts_CustomDomains snap). routable cd \<and> ctx = contextOf cd \<and>
         NormalizeHost (cds_Hostname cd) = NormalizeHost host)) \<and>
    (LookupDomain (Current l') host = None \<longleftrightarrow>
      \<not> (\<exists>cd \<in> set (ts_CustomDomains snap). routable cd \<and>
           NormalizeHost (cds_Hostname cd) = NormalizeHost host))"
proof -
  let ?P = "\<lambda>cd. routable cd \<and> NormalizeHost (cds_Hostname cd) = NormalizeHost host"
  have "LookupDomain (Current l') host = map_of (buildDomainMap snap) (NormalizeHost host)"
    using reload_parts(1) [OF assms] by (simp add: LookupDomain_def)
  then have lookup: "LookupDomain (Current l') host =
      map_option contextOf (find ?P (rev (ts_CustomDomains snap)))"
    unfolding buildDomainMap_def buildDomainMap_loop_lookup by (simp split: option.split)
  have none: "find ?P (rev (ts_CustomDomains snap)) = None \<longleftrightarrow> \<not> (\<exists>cd \<in> set (ts_CustomDomains snap). ?P cd)"
    by (auto simp: find_None_iff)
  have "\<exists>cd \<in> set (ts_CustomDomains snap). routable cd \<and> ctx = contextOf cd \<and>
      NormalizeHost (cds_Hostname cd) = NormalizeHost host"
    if "LookupDomain (Current l') host = Some ctx" for ctx
  proof -
    from that obtain cd where "find ?P (rev (ts_CustomDomains snap)) = Some cd" "ctx = contextOf cd"
      unfolding lookup by (auto simp: map_option_eq_Some)
    from find_rev_Some [OF this(1)] this(2) show ?thesis by blast
  qed
  then show ?thesis unfolding lookup map_option_is_None none by blast
qed

theorem LookupDomain_after_reload_witness:
  "\<exists>l'. reload start_env (Inr one_upstream) start_loader = (None, l') \<and>
     LookupDomain (Current l') ''API.acme.com.:443'' \<noteq> None"
proof -
  obtain l' where l': "reload start_env (Inr one_upstream) start_loader = (None, l')" using reload_start ..
  have "NormalizeHost ''API.acme.com.:443'' = ''api.acme.com''" "NormalizeHost ''Api.Acme.com'' = ''api.acme.com''"
    by code_simp+
  then have "\<exists>cd \<in> set (ts_CustomDomains one_upstream). routable cd \<and>
      NormalizeHost (cds_Hostname cd) = NormalizeHost ''API.acme.com.:443''"
    by (simp add: one_upstream_def routable_def)
  then show ?thesis using LookupDomain_after_reload [OF l', of "''API.acme.com.:443''"] l' by blast
qed

text \<open>
  Removing a key from the snapshot does not revoke it at once: if one reload warmed the key's
  hash and the next one no longer lists it, the gateway still accepts the key as the project's, from
  the entry that the first reload left in Redis.
\<close>

theorem removed_key_still_accepted:
  assumes "kv_laws (le_keys env)"
    and "ld_keyStore l = Some ks" "ks_redis ks = Some r"
    and "reload env (Inr snap1) l = (None, l1)" "reload env (Inr snap2) l1 = (None, l2)"
    and "TrimSpace key \<noteq> []" "hashKey (le_keys env) key \<in> tk_KeyHash ` set (ts_APIKeys snap1)"
    and "hashKey (le_keys env) key \<notin> tk_KeyHash ` set (ts_APIKeys snap2)"
  shows "\<exists>ks2 rec. ld_keyStore l2 = Some ks2 \<and>
    fst (KeyStore_Validate (le_keys env) now ks2 key) = Some rec \<and> ak_ClientID rec = ld_projectID l"
proof -
  let ?e = "le_keys env" and ?h = "hashKey (le_keys env) key" and ?p = "ld_projectID l"
  obtain ks1 where ks1: "ld_keyStore l1 = Some ks1"
      "ks_redis ks1 = Some (warmRedis ?e ?p (ts_APIKeys snap1) r)"
    using WarmAPIKeyCache_store [OF assms(2,3), of ?e "ts_APIKeys snap1"] reload_keyStore [OF assms(4)] by auto
  have p1: "ld_projectID l1 = ?p" using reload_parts(4) [OF assms(4)] .
  obtain ks2 where ks2: "ld_keyStore l2 = Some ks2" "ks_local ks2 ?h = None"
      "ks_redis ks2 = Some (warmRedis ?e ?p (ts_APIKeys snap2) (warmRedis ?e ?p (ts_APIKeys snap1) r))"
    using WarmAPIKeyCache_store [OF ks1, of ?e "ts_APIKeys snap2"] reload_keyStore [OF assms(5)] p1 assms(8)
    by auto
  have "cachedFor ?e ?p ?h (warmRedis ?e ?p (ts_APIKeys snap2) (warmRedis ?e ?p (ts_APIKeys snap1) r))"
    using cachedFor_warm [OF assms(1)] assms(7) by blast
  then obtain rec where "lookupRedis ?e ks2 ?h = Some rec" "ak_ClientID rec = ?p"
    by (auto simp: lookupRedis_def ks2(3) cachedFor_def)
  moreover have "hashKey ?e (TrimSpace key) = ?h" by (simp add: hashKey_def)
  ultimately show ?thesis using ks2 assms(6) by (simp add: KeyStore_Validate_def Let_def)
qed

theorem removed_key_still_accepted_witness:
  "\<exists>l1 l2 ks2 rec. reload start_env (Inr one_upstream) start_loader = (None, l1) \<and>
     reload start_env (Inr (one_upstream\<lparr>ts_APIKeys := []\<rparr>)) l1 = (None, l2) \<and>
     ld_keyStore l2 = Some ks2 \<and> fst (KeyStore_Validate map_env 0 ks2 ''k1'') = Some rec"
proof -
  obtain l1 where l1: "reload start_env (Inr one_upstream) start_loader = (None, l1)" using reload_start ..
  have "\<exists>l2. reload start_env (Inr (one_upstream\<lparr>ts_APIKeys := []\<rparr>)) l1 = (None, l2)"
    by (simp add: reload_def start_env_def one_upstream_def Apply_def Let_def split: prod.split)
  then obtain l2 where l2: "reload start_env (Inr (one_upstream\<lparr>ts_APIKeys := []\<rparr>)) l1 = (None, l2)" ..
  have laws: "kv_laws (le_keys start_env)" by (simp add: kv_laws_def start_env_def map_env_def)
  have ks: "ld_keyStore start_loader = Some \<lparr>ks_redis = Some Map.empty, ks_db = None, ks_local = Map.empty\<rparr>"
    by (simp add: start_loader_def)
  have h: "TrimSpace ''k1'' \<noteq> []" "hashKey (le_keys start_env) ''k1'' = ''k1''"
    by (simp_all add: start_env_def map_env_def hashKey_def TrimSpace_def trimBy_def isSpace_def)
  have "\<exists>ks2 rec. ld_keyStore l2 = Some ks2 \<and> fst (KeyStore_Validate (le_keys start_env) 0 ks2 ''k1'') = Some rec \<and>
      ak_ClientID rec = ld_projectID start_loader"
    by (rule removed_key_still_accepted [OF laws ks _ l1 l2 h(1)]) (simp_all add: h(2) one_upstream_def)
  then show ?thesis using l1 l2 by (auto simp: start_env_def)
qed

end
