(* ===== verification/Gateway_Pipeline.thy ===== *)
theory Gateway_Pipeline
  imports Route_Match IP_Filter Rate_Limit Runtime_Loader
begin

text \<open>
  The request path of a gateway: the middleware chain of \<^verbatim>\<open>internal/gateway/router.go\<close> (route
  matching, IP filter, CORS, authentication, rate limit), the dynamic proxy with its load balancing,
  the director that rewrites the forwarded request, the \<^verbatim>\<open>/reload\<close> endpoint, and the gRPC interceptor.

  A middleware looks at the request and either answers or passes a request on, so each is a
  decision that halts or continues; \<open>Chain\<close> nests them in the order of the code. The answer to a
  request is a reply of the gateway or the request it forwards, with the chosen target. Header maps
  are functions from a header's name to its first value (empty when absent). Metrics, logging and the
  panic recovery pass every request through unchanged and are left out, as is the clean-up of odd
  paths by Go's \<^verbatim>\<open>ServeMux\<close>.
\<close>

section \<open>Requests, replies, state\<close>

type_synonym header = "string \<Rightarrow> string"

record request =
  rq_Method :: string
  rq_Path :: string
  rq_Host :: string
  rq_Header :: header
  rq_RemoteAddr :: string
  cx_Route :: "route option"
  cx_ClientID :: "string option"
  cx_Role :: "string option"
  cx_Scopes :: "string list option"
  cx_CustomDomain :: "domain_context option"

record url =
  u_Scheme :: string
  u_Host :: string
  u_Path :: string

record outbound =
  ob_Scheme :: string
  ob_URLHost :: string
  ob_Path :: string
  ob_Host :: string
  ob_Method :: string
  ob_Header :: header

datatype reply = Reply int string | Forward target outbound

record ('r, 'l) gateway =
  gw_loader :: "'r loader"
  gw_ipCache :: ip_checker_cache
  gw_limiter :: 'l
  gw_proxies :: "string \<rightharpoonup> url"

text \<open>
  What a request finds around it: the clock, the JWT library (absent when no validator is installed),
  the loader's environment, the limiter's interface, the URL parser behind \<^verbatim>\<open>proxy.New\<close>, and settings.
\<close>

record ('r, 'l) gw_env =
  ge_now :: go_time
  ge_parse :: "jwt_parse option"
  ge_loader :: "'r loader_env"
  ge_check :: "string \<Rightarrow> int \<Rightarrow> 'l \<Rightarrow> rate_result \<times> 'l"
  ge_limit :: int
  ge_newProxy :: "string \<Rightarrow> url option"
  ge_syncToken :: string
  ge_jwtSecret :: string
  ge_trustProxy :: bool

datatype decision = Halt reply header | Continue request header

type_synonym ('r, 'l) middleware =
  "request \<Rightarrow> header \<Rightarrow> ('r, 'l) gateway \<Rightarrow> decision \<times> ('r, 'l) gateway"
type_synonym ('r, 'l) handler =
  "request \<Rightarrow> header \<Rightarrow> ('r, 'l) gateway \<Rightarrow> (reply \<times> header) \<times> ('r, 'l) gateway"

abbreviation json :: "header \<Rightarrow> header" where
  "json w \<equiv> w(''Content-Type'' := ''application/json'')"

definition runMiddleware :: "('r, 'l) middleware \<Rightarrow> ('r, 'l) handler \<Rightarrow> ('r, 'l) handler" where
  "runMiddleware mw next rq w g =
     (case mw rq w g of
        (Halt r w', g') \<Rightarrow> ((r, w'), g')
      | (Continue rq' w', g') \<Rightarrow> next rq' w' g')"

definition Chain :: "('r, 'l) handler \<Rightarrow> ('r, 'l) middleware list \<Rightarrow> ('r, 'l) handler" where
  "Chain h mws = foldr runMiddleware mws h"

section \<open>Route matching\<close>

definition isPreflight :: "request \<Rightarrow> bool" where
  "isPreflight r =
     (if rq_Method r \<noteq> ''OPTIONS'' then False
      else TrimSpace (rq_Header r ''Origin'') \<noteq> [] \<and>
           TrimSpace (rq_Header r ''Access-Control-Request-Method'') \<noteq> [])"

definition methodToMatch :: "request \<Rightarrow> string" where
  "methodToMatch r =
     (if isPreflight r then
        (let acrm = ToUpper (TrimSpace (rq_Header r ''Access-Control-Request-Method''))
         in if acrm \<noteq> [] then acrm else rq_Method r)
      else rq_Method r)"

definition RouteMatcher :: "('r, 'l) middleware" where
  "RouteMatcher r w g =
     (let snap = Current (gw_loader g);
          host = (if rq_Host r = [] then rq_Header r ''Host'' else rq_Host r);
          req = (case LookupDomain snap host of
                   Some ctx \<Rightarrow> r\<lparr>cx_CustomDomain := Some ctx\<rparr> | None \<Rightarrow> r)
      in case MatchHTTP (rq_Path req) (methodToMatch req) (sn_Routes snap) of
           None \<Rightarrow> (Halt (Reply 404 ''route not found'') (json w), g)
         | Some rt \<Rightarrow> (Continue (req\<lparr>cx_Route := Some rt\<rparr>) w, g))"

section \<open>IP filter\<close>

definition IPFilterMiddleware :: "('r, 'l) middleware" where
  "IPFilterMiddleware r w g =
     (case ipFilterDecide (cx_Route r) (rq_RemoteAddr r) (gw_ipCache g) of
        (IPDeny msg, cache) \<Rightarrow> (Halt (Reply 403 msg) (json w), g\<lparr>gw_ipCache := cache\<rparr>)
      | (IPPass, cache) \<Rightarrow> (Continue r w, g\<lparr>gw_ipCache := cache\<rparr>))"

section \<open>CORS\<close>

text \<open>The scan for the origin stops at the first wildcard or match, whichever comes first.\<close>

fun originScan :: "string \<Rightarrow> string list \<Rightarrow> bool \<times> bool" where
  "originScan origin [] = (False, False)"
| "originScan origin (x # xs) =
     (if x = ''*'' then (True, False)
      else if x = origin then (False, True)
      else originScan origin xs)"

definition corsMethods :: "route \<Rightarrow> string" where
  "corsMethods rt =
     (if length (rt_Methods rt) > 0 \<and> \<not> list_ex (\<lambda>m. EqualFold m ''ANY'') (rt_Methods rt)
      then Join (rt_Methods rt) '', ''
      else ''GET, POST, PUT, DELETE, PATCH, OPTIONS, HEAD'')"

definition CORS :: "('r, 'l) middleware" where
  "CORS r w g =
     (case cx_Route r of
        None \<Rightarrow> (Continue r w, g)
      | Some rt \<Rightarrow>
          if length (rt_AllowedOrigins rt) = 0 then (Continue r w, g)
          else
            (let w1 = w(''Vary'' := ''Origin'');
                 origin = rq_Header r ''Origin''
             in if origin = [] then (Continue r w1, g)
                else
                  (let (wildcardAllowed, originAllowed) = originScan origin (rt_AllowedOrigins rt)
                   in if \<not> wildcardAllowed \<and> \<not> originAllowed
                      then (Halt (Reply 403 ''CORS origin not allowed'') (json w1), g)
                      else
                        (let w2 = (if wildcardAllowed then w1(''Access-Control-Allow-Origin'' := ''*'')
                                   else w1(''Access-Control-Allow-Origin'' := origin,
                                           ''Access-Control-Allow-Credentials'' := ''true''))
                         in if rq_Method r = ''OPTIONS'' then
                              (let reqHeaders = rq_Header r ''Access-Control-Request-Headers'';
                                   allowedHeaders = (if reqHeaders \<noteq> [] then reqHeaders
                                                     else ''Content-Type, Authorization, X-API-Key'')
                               in (Halt (Reply 204 [])
                                    (w2(''Access-Control-Allow-Methods'' := corsMethods rt,
                                        ''Access-Control-Allow-Headers'' := allowedHeaders,
                                        ''Access-Control-Max-Age'' := ''7200'')), g))
                            else (Continue r w2, g)))))"

section \<open>Authentication\<close>

definition isPublicPath :: "string \<Rightarrow> bool" where
  "isPublicPath path = (path = ''/health'' \<or> path = ''/ready'')"

definition helperContains :: "string list \<Rightarrow> string \<Rightarrow> bool" where
  "helperContains xs target = list_ex (\<lambda>v. v = target) xs"

definition HasAllScopes :: "string list \<Rightarrow> string list \<Rightarrow> bool" where
  "HasAllScopes clientScopes required = list_all (\<lambda>s. s \<in> set clientScopes) required"

text \<open>The JWT validator and the key store of the gateway's state.\<close>

definition validateJWT ::
  "('r, 'l) gw_env \<Rightarrow> ('r, 'l) gateway \<Rightarrow> (string \<Rightarrow> auth_error + identity) option" where
  "validateJWT env g =
     map_option (\<lambda>parse. Manager_ValidateIdentity parse (ge_now env) (ld_jwt (gw_loader g))) (ge_parse env)"

definition validateKey ::
  "('r, 'l) gw_env \<Rightarrow> string \<Rightarrow> ('r, 'l) gateway \<Rightarrow> api_key_record option \<times> ('r, 'l) gateway" where
  "validateKey env key g =
     (case ld_keyStore (gw_loader g) of
        None \<Rightarrow> (None, g)
      | Some ks \<Rightarrow>
          (case KeyStore_Validate (le_keys (ge_loader env)) (ge_now env) ks key of
             (rec, ks') \<Rightarrow> (rec, g\<lparr>gw_loader := (gw_loader g)\<lparr>ld_keyStore := Some ks'\<rparr>\<rparr>)))"

definition authenticate ::
  "('r, 'l) gw_env \<Rightarrow> request \<Rightarrow> ('r, 'l) gateway \<Rightarrow> (string + identity) \<times> ('r, 'l) gateway" where
  "authenticate env r g =
     (let bearer = rq_Header r ''Authorization''; key = TrimSpace (rq_Header r ''X-API-Key'')
      in if HasPrefix bearer ''Bearer '' then
           (case validateJWT env g of
              None \<Rightarrow> (Inl ''JWT authentication is not configured'', g)
            | Some validate \<Rightarrow>
                let tokenStr = TrimSpace (TrimPrefix bearer ''Bearer '')
                in if tokenStr = [] then (Inl ''invalid token'', g)
                   else (case validate tokenStr of
                           Inl e \<Rightarrow> (Inl ''invalid token'', g) | Inr idn \<Rightarrow> (Inr idn, g)))
         else if key \<noteq> [] \<and> ld_keyStore (gw_loader g) \<noteq> None then
           (case validateKey env key g of
              (None, g') \<Rightarrow> (Inl ''invalid api key'', g')
            | (Some rec, g') \<Rightarrow>
                (Inr \<lparr>id_ClientID = ak_ClientID rec, id_Role = ''client'', id_Scopes = ak_Scopes rec\<rparr>, g'))
         else (Inl ''authentication required'', g))"

definition AuthMiddleware :: "('r, 'l) gw_env \<Rightarrow> ('r, 'l) middleware" where
  "AuthMiddleware env r w g =
     (if isPublicPath (rq_Path r) \<or> isPreflight r then (Continue r w, g)
      else if (case cx_Route r of Some rt \<Rightarrow> \<not> rt_AuthRequired rt | None \<Rightarrow> False) then (Continue r w, g)
      else
        (case authenticate env r g of
           (Inl msg, g') \<Rightarrow> (Halt (Reply 401 msg) (json w), g')
         | (Inr idn, g') \<Rightarrow>
             if (case cx_Route r of
                   Some rt \<Rightarrow> length (rt_AllowedRoles rt) > 0 \<and> \<not> helperContains (rt_AllowedRoles rt) (id_Role idn)
                 | None \<Rightarrow> False)
             then (Halt (Reply 403 ''forbidden: role not permitted'') (json w), g')
             else if (case cx_Route r of
                   Some rt \<Rightarrow> length (rt_AllowedScopes rt) > 0 \<and> \<not> HasAllScopes (id_Scopes idn) (rt_AllowedScopes rt)
                 | None \<Rightarrow> False)
             then (Halt (Reply 403 ''forbidden: insufficient scopes'') (json w), g')
             else (Continue (r\<lparr>cx_ClientID := Some (id_ClientID idn), cx_Role := Some (id_Role idn),
                               cx_Scopes := Some (id_Scopes idn)\<rparr>) w, g')))"

section \<open>Rate limit\<close>

definition extractIP :: "request \<Rightarrow> string" where
  "extractIP r = (case SplitHostPort (rq_RemoteAddr r) of None \<Rightarrow> rq_RemoteAddr r | Some (ip, _) \<Rightarrow> ip)"

definition rateKey :: "request \<Rightarrow> string" where
  "rateKey r =
     (let clientID = (case cx_ClientID r of Some c \<Rightarrow> c | None \<Rightarrow> []);
          who = (if clientID = [] then extractIP r else clientID)
      in who @ '':'' @ rq_Path r)"

definition rateLimitFor :: "('r, 'l) gw_env \<Rightarrow> request \<Rightarrow> int" where
  "rateLimitFor env r = (case cx_Route r of Some rt \<Rightarrow> rt_RateLimitRPM rt | None \<Rightarrow> ge_limit env)"

definition RateLimitMiddleware :: "('r, 'l) gw_env \<Rightarrow> ('r, 'l) middleware" where
  "RateLimitMiddleware env r w g =
     (let limit = rateLimitFor env r
      in if limit \<le> 0 then (Continue r w, g)
         else
           (let (result, lim') = ge_check env (rateKey r) limit (gw_limiter g);
                g' = g\<lparr>gw_limiter := lim'\<rparr>;
                w' = w(''X-RateLimit-Limit'' := showInt limit,
                       ''X-RateLimit-Remaining'' := showInt (rr_Remaining result),
                       ''X-RateLimit-Reset'' := showInt (rr_ResetAt result div second))
            in if \<not> rr_Allowed result then (Halt (Reply 429 ''rate limit exceeded'') (json (w'(''Retry-After'' := ''60''))), g')
               else (Continue r w', g')))"

section \<open>The dynamic proxy\<close>

definition isHealthyOpt :: "checker option \<Rightarrow> string \<Rightarrow> bool" where
  "isHealthyOpt hc u = (case hc of None \<Rightarrow> True | Some c \<Rightarrow> IsHealthy c u)"

definition filterHealthy :: "checker option \<Rightarrow> target list \<Rightarrow> target list" where
  "filterHealthy hc targets =
     (case hc of None \<Rightarrow> targets | Some c \<Rightarrow> filter (\<lambda>t. IsHealthy c (tg_URL t)) targets)"

text \<open>
  The chosen target, with the strategy object to give it back to (none for the legacy single
  target).
\<close>

definition resolveTarget ::
  "route \<Rightarrow> 'r loader \<Rightarrow> (lb_error + target \<times> strategy_ref option) \<times> 'r loader" where
  "resolveTarget rt l =
     (let snap = Current l;
          legacy =
            (if rt_UpstreamURL rt = [] then (Inl ErrNoHealthyTargets, l)
             else if \<not> isHealthyOpt (ld_health l) (rt_UpstreamURL rt) then (Inl ErrNoHealthyTargets, l)
             else (Inr (\<lparr>tg_ID = rt_UpstreamURL rt, tg_URL = rt_UpstreamURL rt, tg_Weight = 0\<rparr>, None), l))
      in case rt_UpstreamID rt of
           None \<Rightarrow> legacy
         | Some uid \<Rightarrow>
             (case map_of (sn_UpstreamPools snap) uid of
                None \<Rightarrow> legacy
              | Some pool \<Rightarrow>
                  if length (pl_Targets pool) = 0 then legacy
                  else
                    (let healthy = filterHealthy (ld_health l) (pl_Targets pool)
                     in if length healthy = 0 then (Inl ErrNoHealthyTargets, l)
                        else
                          (case Strategy_Pick (ld_heap l ! pl_Strategy pool) healthy of
                             (Inl e, s') \<Rightarrow> (Inl e, l\<lparr>ld_heap := (ld_heap l)[pl_Strategy pool := s']\<rparr>)
                           | (Inr t, s') \<Rightarrow>
                               (Inr (t, Some (pl_Strategy pool)),
                                l\<lparr>ld_heap := (ld_heap l)[pl_Strategy pool := s']\<rparr>)))))"

definition releaseTarget :: "target \<Rightarrow> strategy_ref option \<Rightarrow> 'r loader \<Rightarrow> 'r loader" where
  "releaseTarget t ref l =
     (case ref of
        None \<Rightarrow> l
      | Some i \<Rightarrow> l\<lparr>ld_heap := (ld_heap l)[i := Strategy_Release (ld_heap l ! i) t]\<rparr>)"

definition getProxy :: "('r, 'l) gw_env \<Rightarrow> string \<Rightarrow> ('r, 'l) gateway \<Rightarrow> url option \<times> ('r, 'l) gateway" where
  "getProxy env target g =
     (case gw_proxies g target of
        Some p \<Rightarrow> (Some p, g)
      | None \<Rightarrow>
          (case ge_newProxy env target of
             None \<Rightarrow> (None, g)
           | Some p \<Rightarrow> (Some p, g\<lparr>gw_proxies := (gw_proxies g)(target \<mapsto> p)\<rparr>)))"

text \<open>Joining the target's path and the request's path with exactly one slash.\<close>

definition singleJoiningSlash :: "string \<Rightarrow> string \<Rightarrow> string" where
  "singleJoiningSlash a b =
     (let aslash = HasSuffix a ''/''; bslash = HasPrefix b ''/''
      in if aslash \<and> bslash then a @ drop 1 b
         else if \<not> aslash \<and> \<not> bslash then a @ ''/'' @ b
         else a @ b)"

definition director :: "url \<Rightarrow> request \<Rightarrow> outbound" where
  "director target req =
     (let h0 = rq_Header req;
          h1 = h0(''X-Forwarded-Host'' := rq_Host req, ''X-Gateway'' := ''elitegate/1.0'');
          h2 = (case cx_ClientID req of
                  Some c \<Rightarrow> if c \<noteq> [] then h1(''X-Client-ID'' := c) else h1 | None \<Rightarrow> h1);
          h3 = (case cx_Role req of
                  Some ro \<Rightarrow> if ro \<noteq> [] then h2(''X-Client-Role'' := ro) else h2 | None \<Rightarrow> h2);
          h4 = (case cx_Scopes req of
                  Some sc \<Rightarrow> if length sc > 0 then h3(''X-Client-Scopes'' := Join sc '','') else h3 | None \<Rightarrow> h3);
          h5 = h4(''X-API-Key'' := [])
      in \<lparr>ob_Scheme = u_Scheme target, ob_URLHost = u_Host target,
          ob_Path = singleJoiningSlash (u_Path target) (rq_Path req), ob_Host = u_Host target,
          ob_Method = rq_Method req, ob_Header = h5\<rparr>)"

definition DynamicProxy_ServeHTTP :: "('r, 'l) gw_env \<Rightarrow> ('r, 'l) handler" where
  "DynamicProxy_ServeHTTP env r w g =
     (case cx_Route r of
        None \<Rightarrow> ((Reply 404 ''route not found'', w), g)
      | Some rt \<Rightarrow>
          (case resolveTarget rt (gw_loader g) of
             (Inl e, l') \<Rightarrow> ((Reply 503 ''no healthy backend in pool'', w), g\<lparr>gw_loader := l'\<rparr>)
           | (Inr (target, ref), l') \<Rightarrow>
               (case getProxy env (tg_URL target) (g\<lparr>gw_loader := l'\<rparr>) of
                  (None, g') \<Rightarrow>
                    ((Reply 502 ''bad upstream'', w),
                     g'\<lparr>gw_loader := releaseTarget target ref (gw_loader g')\<rparr>)
                | (Some p, g') \<Rightarrow>
                    ((Forward target (director p r), w),
                     g'\<lparr>gw_loader := releaseTarget target ref (gw_loader g')\<rparr>))))"

section \<open>The router\<close>

definition customerHandler :: "('r, 'l) gw_env \<Rightarrow> ('r, 'l) handler" where
  "customerHandler env =
     Chain (DynamicProxy_ServeHTTP env)
       [RouteMatcher, IPFilterMiddleware, CORS, AuthMiddleware env, RateLimitMiddleware env]"

definition reloadHandler ::
  "('r, 'l) gw_env \<Rightarrow> string + tenant_snapshot \<Rightarrow> request \<Rightarrow> ('r, 'l) gateway \<Rightarrow> reply \<times> ('r, 'l) gateway" where
  "reloadHandler env fetched r g =
     (if rq_Method r \<noteq> ''POST'' then (Reply 405 ''method not allowed'', g)
      else
        (let expectedToken = (if ge_syncToken env = [] then ge_jwtSecret env else ge_syncToken env);
             internal = rq_Header r ''X-Internal-Token'';
             authHeader = rq_Header r ''Authorization'';
             clientToken = (if internal = [] then
                              (if HasPrefix authHeader ''Bearer '' then TrimPrefix authHeader ''Bearer '' else [])
                            else internal)
         in if clientToken = [] \<or> clientToken \<noteq> expectedToken then (Reply 401 ''unauthorized'', g)
            else
              (case reload (ge_loader env) fetched (gw_loader g) of
                 (Some e, l') \<Rightarrow> (Reply 500 ''reload failed'', g\<lparr>gw_loader := l'\<rparr>)
               | (None, l') \<Rightarrow> (Reply 200 ''routes cache refreshed'', g\<lparr>gw_loader := l'\<rparr>))))"

text \<open>The fixed endpoints of the router; \<open>metrics\<close> is the text of the metrics handler.\<close>

definition gatewayRouter ::
  "('r, 'l) gw_env \<Rightarrow> string + tenant_snapshot \<Rightarrow> string \<Rightarrow> request \<Rightarrow> ('r, 'l) gateway \<Rightarrow>
     reply \<times> ('r, 'l) gateway" where
  "gatewayRouter env fetched metrics r g =
     (if rq_Path r = ''/health'' \<or> rq_Path r = ''/healthz'' then (Reply 200 ''ok'', g)
      else if rq_Path r = ''/reload'' then reloadHandler env fetched r g
      else if rq_Path r = ''/ready'' then (Reply 200 ''ready'', g)
      else if rq_Path r = ''/metrics'' then (Reply 200 metrics, g)
      else (case customerHandler env r (\<lambda>_. []) g of ((reply, w), g') \<Rightarrow> (reply, g')))"

section \<open>The gRPC interceptor\<close>

record grpc_call =
  gc_FullMethod :: string
  gc_Peer :: "string option"
  gc_Metadata :: "(string \<Rightarrow> string list) option"

datatype grpc_code = Unauthenticated | PermissionDenied | NotFound | ResourceExhausted

definition getClientIP :: "bool \<Rightarrow> grpc_call \<Rightarrow> string" where
  "getClientIP trustProxy c =
     (let remoteAddr = (case gc_Peer c of Some a \<Rightarrow> a | None \<Rightarrow> []);
          getHeader = (\<lambda>key. case gc_Metadata c of
                               None \<Rightarrow> [] | Some md \<Rightarrow> (case md key of [] \<Rightarrow> [] | v # _ \<Rightarrow> v))
      in ExtractIP remoteAddr (Some getHeader) trustProxy)"

definition resolveAuth ::
  "('r, 'l) gw_env \<Rightarrow> grpc_call \<Rightarrow> ('r, 'l) gateway \<Rightarrow> ((grpc_code \<times> string) + identity) \<times> ('r, 'l) gateway" where
  "resolveAuth env c g =
     (case gc_Metadata c of
        None \<Rightarrow> (Inl (Unauthenticated, ''authentication required''), g)
      | Some md \<Rightarrow>
          let authVals = md ''authorization''; apiKeyVals = md ''x-api-key''
          in if authVals \<noteq> [] \<and> HasPrefix (hd authVals) ''Bearer '' then
               (case validateJWT env g of
                  None \<Rightarrow> (Inl (Unauthenticated, ''JWT authentication is not configured''), g)
                | Some validate \<Rightarrow>
                    let token = TrimSpace (TrimPrefix (hd authVals) ''Bearer '')
                    in if token = [] then (Inl (Unauthenticated, ''invalid token''), g)
                       else (case validate token of
                               Inl e \<Rightarrow> (Inl (Unauthenticated, ''invalid token''), g)
                             | Inr idn \<Rightarrow> (Inr idn, g)))
             else if apiKeyVals \<noteq> [] \<and> ld_keyStore (gw_loader g) \<noteq> None then
               (case validateKey env (hd apiKeyVals) g of
                  (None, g') \<Rightarrow> (Inl (Unauthenticated, ''invalid api key''), g')
                | (Some rec, g') \<Rightarrow>
                    (Inr \<lparr>id_ClientID = ak_ClientID rec, id_Role = ''client'', id_Scopes = ak_Scopes rec\<rparr>, g'))
             else (Inl (Unauthenticated, ''authentication required''), g))"

text \<open>A call that passes goes on with its route and the identity that later handlers read.\<close>

definition grpcValidate ::
  "('r, 'l) gw_env \<Rightarrow> grpc_call \<Rightarrow> ('r, 'l) gateway \<Rightarrow>
     ((grpc_code \<times> string) + (route \<times> identity)) \<times> ('r, 'l) gateway" where
  "grpcValidate env c g =
     (let clientIP = getClientIP (ge_trustProxy env) c
      in case matchRoute (gc_FullMethod c) (sn_Routes (Current (gw_loader g))) of
           None \<Rightarrow> (Inl (NotFound, ''route not found''), g)
         | Some rt \<Rightarrow>
             (case (if rt_AuthRequired rt then resolveAuth env c g
                    else (Inr \<lparr>id_ClientID = [], id_Role = ''anonymous'', id_Scopes = []\<rparr>, g)) of
                (Inl e, g') \<Rightarrow> (Inl e, g')
              | (Inr idn, g') \<Rightarrow>
                  if rt_AuthRequired rt \<and> length (rt_AllowedRoles rt) > 0 \<and>
                     \<not> helperContains (rt_AllowedRoles rt) (id_Role idn)
                  then (Inl (PermissionDenied, ''role not permitted''), g')
                  else if rt_AuthRequired rt \<and> length (rt_AllowedScopes rt) > 0 \<and>
                     \<not> HasAllScopes (id_Scopes idn) (rt_AllowedScopes rt)
                  then (Inl (PermissionDenied, ''insufficient scopes''), g')
                  else if rt_RateLimitRPM rt > 0 then
                    (let keyID = (if id_ClientID idn = [] then clientIP else id_ClientID idn);
                         (result, lim') = ge_check env (keyID @ '':'' @ gc_FullMethod c) (rt_RateLimitRPM rt)
                                            (gw_limiter g')
                     in if \<not> rr_Allowed result
                        then (Inl (ResourceExhausted, ''rate limit exceeded''), g'\<lparr>gw_limiter := lim'\<rparr>)
                        else (Inr (rt, idn), g'\<lparr>gw_limiter := lim'\<rparr>))
                  else (Inr (rt, idn), g')))"

section \<open>Metadata of proxied gRPC streams\<close>

definition grpcInternalHeaders :: "string list" where
  "grpcInternalHeaders = [''grpc-status'', ''grpc-message'', ''grpc-status-details-bin'', ''grpc-encoding'',
     ''grpc-accept-encoding'', ''content-type'']"

definition stripTransportKeys :: "(string \<times> string list) list \<Rightarrow> (string \<times> string list) list" where
  "stripTransportKeys md =
     filter (\<lambda>(k, vs). \<not> (k \<noteq> [] \<and> hd k = CHR '':'') \<and> k \<notin> set grpcInternalHeaders) md"

text \<open>What is sent on: nothing when no header is left.\<close>

definition forwardHeaders :: "(string + (string \<times> string list) list) \<Rightarrow> string + (string \<times> string list) list option" where
  "forwardHeaders hdr =
     (case hdr of
        Inl e \<Rightarrow> Inl (''reading upstream headers: '' @ e)
      | Inr md \<Rightarrow> (let out = stripTransportKeys md in Inr (if length out = 0 then None else Some out)))"

definition forwardTrailers :: "(string \<times> string list) list \<Rightarrow> (string \<times> string list) list option" where
  "forwardTrailers trailer =
     (let out = stripTransportKeys trailer in if length out = 0 then None else Some out)"

section \<open>Lemmas on the middleware\<close>

lemma RouteMatcher_Continue:
  assumes "RouteMatcher r w g = (Continue r' w', g')"
  shows "g' = g \<and> w' = w \<and> (\<exists>rt. cx_Route r' = Some rt \<and>
      MatchHTTP (rq_Path r) (methodToMatch r) (sn_Routes (Current (gw_loader g))) = Some rt \<and>
      (\<exists>d. r' = r\<lparr>cx_CustomDomain := d, cx_Route := Some rt\<rparr>))"
proof -
  define d where "d = (case LookupDomain (Current (gw_loader g)) (if rq_Host r = [] then rq_Header r ''Host'' else rq_Host r) of
      Some ctx \<Rightarrow> Some ctx | None \<Rightarrow> cx_CustomDomain r)"
  have m: "methodToMatch (r\<lparr>cx_CustomDomain := d\<rparr>) = methodToMatch r"
    by (simp add: methodToMatch_def isPreflight_def Let_def)
  have req: "(case LookupDomain (Current (gw_loader g)) (if rq_Host r = [] then rq_Header r ''Host'' else rq_Host r) of
      Some ctx \<Rightarrow> r\<lparr>cx_CustomDomain := Some ctx\<rparr> | None \<Rightarrow> r) = r\<lparr>cx_CustomDomain := d\<rparr>"
    by (simp add: d_def split: option.split)
  from assms show ?thesis
    unfolding RouteMatcher_def Let_def req m
    by (auto split: option.splits)
qed

lemma IPFilter_Continue:
  assumes "IPFilterMiddleware r w g = (Continue r' w', g')"
  shows "r' = r \<and> w' = w \<and> fst (ipFilterDecide (cx_Route r) (rq_RemoteAddr r) (gw_ipCache g)) = IPPass \<and>
    g' = g\<lparr>gw_ipCache := snd (ipFilterDecide (cx_Route r) (rq_RemoteAddr r) (gw_ipCache g))\<rparr>"
  using assms by (auto simp: IPFilterMiddleware_def split: prod.splits ip_verdict.splits)

definition originOK :: "route \<Rightarrow> string \<Rightarrow> bool" where
  "originOK rt origin \<longleftrightarrow> rt_AllowedOrigins rt = [] \<or> origin = [] \<or>
     ''*'' \<in> set (rt_AllowedOrigins rt) \<or> origin \<in> set (rt_AllowedOrigins rt)"

lemma originScan_iff:
  "(fst (originScan origin xs) \<or> snd (originScan origin xs)) \<longleftrightarrow> ''*'' \<in> set xs \<or> origin \<in> set xs"
  by (induction xs) auto

lemma CORS_Continue:
  assumes "CORS r w g = (Continue r' w', g')"
  shows "r' = r \<and> g' = g \<and> (\<forall>rt. cx_Route r = Some rt \<longrightarrow> originOK rt (rq_Header r ''Origin''))"
proof (cases "cx_Route r")
  case None
  then show ?thesis using assms by (simp add: CORS_def)
next
  case (Some rt)
  show ?thesis using assms originScan_iff [of "rq_Header r ''Origin''" "rt_AllowedOrigins rt"]
    by (auto simp: CORS_def Some Let_def originOK_def split: if_splits prod.splits)
qed

text \<open>What it takes to be let through as a given identity.\<close>

definition permitted :: "route \<Rightarrow> identity \<Rightarrow> bool" where
  "permitted rt idn \<longleftrightarrow>
     (rt_AllowedRoles rt = [] \<or> id_Role idn \<in> set (rt_AllowedRoles rt)) \<and>
     set (rt_AllowedScopes rt) \<subseteq> set (id_Scopes idn)"

lemma helperContains_iff [simp]: "helperContains xs x \<longleftrightarrow> x \<in> set xs"
  by (auto simp: helperContains_def list_ex_iff)

lemma HasAllScopes_iff [simp]: "HasAllScopes have req \<longleftrightarrow> set req \<subseteq> set have"
  by (auto simp: HasAllScopes_def list_all_iff)

lemma Auth_Continue:
  assumes "AuthMiddleware env r w g = (Continue r' w', g')" "cx_Route r = Some rt"
  shows "w' = w \<and>
    (r' = r \<and> g' = g \<and> (isPublicPath (rq_Path r) \<or> isPreflight r \<or> \<not> rt_AuthRequired rt) \<or>
     (\<exists>idn. authenticate env r g = (Inr idn, g') \<and> permitted rt idn \<and>
        r' = r\<lparr>cx_ClientID := Some (id_ClientID idn), cx_Role := Some (id_Role idn), cx_Scopes := Some (id_Scopes idn)\<rparr>))"
  using assms by (auto simp: AuthMiddleware_def permitted_def split: if_splits prod.splits sum.splits)

lemma RateLimit_Continue:
  assumes "RateLimitMiddleware env r w g = (Continue r' w', g')"
  shows "r' = r \<and> (rateLimitFor env r \<le> 0 \<and> g' = g \<or>
    rr_Allowed (fst (ge_check env (rateKey r) (rateLimitFor env r) (gw_limiter g))) \<and>
    g' = g\<lparr>gw_limiter := snd (ge_check env (rateKey r) (rateLimitFor env r) (gw_limiter g))\<rparr>)"
  using assms by (auto simp: RateLimitMiddleware_def Let_def split: if_splits prod.splits)

text \<open>Only the proxy forwards: a chain forwards exactly when every middleware continues.\<close>

definition halts_with_reply :: "('r, 'l) middleware \<Rightarrow> bool" where
  "halts_with_reply mw \<longleftrightarrow> (\<forall>r w g rep w' g'. mw r w g = (Halt rep w', g') \<longrightarrow> (\<exists>n m. rep = Reply n m))"

lemma Halt_Reply:
  "halts_with_reply RouteMatcher" "halts_with_reply IPFilterMiddleware" "halts_with_reply CORS"
  "halts_with_reply (AuthMiddleware env)" "halts_with_reply (RateLimitMiddleware env)"
  by (auto simp: halts_with_reply_def RouteMatcher_def IPFilterMiddleware_def CORS_def AuthMiddleware_def
      RateLimitMiddleware_def Let_def split: if_splits prod.splits sum.splits option.splits ip_verdict.splits)

lemma runMiddleware_Forward:
  assumes "runMiddleware mw next r w g = ((Forward t ob, w'), g')" "halts_with_reply mw"
  obtains r1 w1 g1 where "mw r w g = (Continue r1 w1, g1)" "next r1 w1 g1 = ((Forward t ob, w'), g')"
proof -
  obtain d g1 where d: "mw r w g = (d, g1)" by fastforce
  show thesis
  proof (cases d)
    case (Halt rep w1)
    then have "\<exists>n m. rep = Reply n m" using assms(2) d unfolding halts_with_reply_def by blast
    then show thesis using assms(1) by (auto simp: runMiddleware_def d Halt)
  next
    case (Continue r1 w1)
    then show thesis using that d assms(1) by (simp add: runMiddleware_def)
  qed
qed

lemma Chain_simps [simp]: "Chain h [] = h" "Chain h (m # ms) = runMiddleware m (Chain h ms)"
  by (simp_all add: Chain_def)

section \<open>Lemmas on the proxy\<close>

lemma filterHealthy_filter: "filterHealthy hc ts = filter (\<lambda>t. isHealthyOpt hc (tg_URL t)) ts"
  by (simp add: filterHealthy_def isHealthyOpt_def split: option.split)

definition pools_fit :: "snapshot \<Rightarrow> bool" where
  "pools_fit snap \<longleftrightarrow> list_all (\<lambda>(uid, pool). pool_fits (pl_Targets pool)) (sn_UpstreamPools snap)"

text \<open>The pool a route is served from, when it has one with targets.\<close>

definition routePool :: "route \<Rightarrow> snapshot \<Rightarrow> upstream_pool option" where
  "routePool rt snap =
     (case rt_UpstreamID rt of
        None \<Rightarrow> None
      | Some uid \<Rightarrow>
          (case map_of (sn_UpstreamPools snap) uid of
             None \<Rightarrow> None | Some pool \<Rightarrow> if pl_Targets pool = [] then None else Some pool))"

lemma routePool_fits: "pools_fit snap \<Longrightarrow> routePool rt snap = Some pool \<Longrightarrow> pool_fits (pl_Targets pool)"
  by (auto simp: routePool_def pools_fit_def list_all_iff split: option.splits if_splits dest!: map_of_SomeD)

lemma resolveTarget_routePool:
  "resolveTarget rt l =
     (case routePool rt (Current l) of
        None \<Rightarrow>
          if rt_UpstreamURL rt = [] \<or> \<not> isHealthyOpt (ld_health l) (rt_UpstreamURL rt)
          then (Inl ErrNoHealthyTargets, l)
          else (Inr (\<lparr>tg_ID = rt_UpstreamURL rt, tg_URL = rt_UpstreamURL rt, tg_Weight = 0\<rparr>, None), l)
      | Some pool \<Rightarrow>
          let s = ld_heap l ! pl_Strategy pool;
              healthy = filter (\<lambda>t. isHealthyOpt (ld_health l) (tg_URL t)) (pl_Targets pool)
          in if healthy = [] then (Inl ErrNoHealthyTargets, l)
             else (map_sum id (\<lambda>t. (t, Some (pl_Strategy pool))) (fst (Strategy_Pick s healthy)),
                   l\<lparr>ld_heap := (ld_heap l)[pl_Strategy pool := snd (Strategy_Pick s healthy)]\<rparr>))"
  by (auto simp: resolveTarget_def routePool_def filterHealthy_filter Let_def
      split: option.split prod.split sum.split)

lemma resolveTarget_frame [frame]:
  "ld_snapshot (snd (resolveTarget rt l)) = ld_snapshot l"
  "ld_health (snd (resolveTarget rt l)) = ld_health l"
  "length (ld_heap (snd (resolveTarget rt l))) = length (ld_heap l)"
  by (simp_all add: resolveTarget_routePool Let_def split: option.split)

text \<open>A request's own target is given back: the counts are what they were.\<close>

lemma pick_release_tracks:
  assumes "lc_tracks lc out" "LeastConn_Pick lc pool = (Inr t, lc')"
  shows "lc_tracks (LeastConn_Release lc' t) out"
  using lc_tracks_release [OF lc_tracks_pick [OF assms], of t] by simp

definition heap_tracks :: "strategy list \<Rightarrow> (nat \<Rightarrow> string multiset) \<Rightarrow> bool" where
  "heap_tracks heap out \<longleftrightarrow> (\<forall>i < length heap. \<forall>lc. heap ! i = LC lc \<longrightarrow> lc_tracks lc (out i))"

lemma Strategy_pick_release:
  assumes "Strategy_Pick s pool = (Inr t, s')" "\<And>lc. s = LC lc \<Longrightarrow> lc_tracks lc out"
    "Strategy_Release s' t = LC lc'"
  shows "lc_tracks lc' out"
  using assms pick_release_tracks by (cases s) (auto split: prod.splits)

lemma heap_tracks_resolve_release:
  assumes "heap_tracks (ld_heap l) out" "resolveTarget rt l = (Inr (t, ref), l')"
  shows "heap_tracks (ld_heap (releaseTarget t ref l')) out"
proof (cases "routePool rt (Current l)")
  case None
  then show ?thesis using assms
    by (auto simp: resolveTarget_routePool releaseTarget_def split: if_splits)
next
  case (Some pool)
  let ?h = "filter (\<lambda>t. isHealthyOpt (ld_health l) (tg_URL t)) (pl_Targets pool)"
  let ?i = "pl_Strategy pool"
  obtain s' where p: "Strategy_Pick (ld_heap l ! ?i) ?h = (Inr t, s')" "ref = Some ?i"
      "l' = l\<lparr>ld_heap := (ld_heap l)[?i := s']\<rparr>"
    using assms(2) by (cases "Strategy_Pick (ld_heap l ! ?i) ?h"; cases "fst (Strategy_Pick (ld_heap l ! ?i) ?h)")
      (auto simp: resolveTarget_routePool Some Let_def split: if_splits)
  show ?thesis
  proof (cases "?i < length (ld_heap l)")
    case True
    have "lc_tracks lc' (out ?i)" if "Strategy_Release s' t = LC lc'" for lc'
      using Strategy_pick_release [OF p(1) _ that] assms(1) True by (auto simp: heap_tracks_def)
    then show ?thesis using assms(1) True
      by (auto simp: heap_tracks_def releaseTarget_def p(2,3) nth_list_update)
  next
    case False
    then show ?thesis using assms(1)
      by (simp add: heap_tracks_def releaseTarget_def p(2,3) list_update_beyond)
  qed
qed

lemma getProxy_frame [frame]: "gw_loader (snd (getProxy env u g)) = gw_loader g"
  by (simp add: getProxy_def split: option.split)

section \<open>Lemmas on authentication\<close>

lemma validateKey_frame [frame]:
  "fst (validateKey env key (g\<lparr>gw_ipCache := c\<rparr>)) = fst (validateKey env key g)"
  "gw_limiter (snd (validateKey env key g)) = gw_limiter g"
  "Current (gw_loader (snd (validateKey env key g))) = Current (gw_loader g)"
  "ld_health (gw_loader (snd (validateKey env key g))) = ld_health (gw_loader g)"
  by (auto simp: validateKey_def Current_def split: option.splits prod.splits)

lemma authenticate_frame [frame]:
  "fst (authenticate env r (g\<lparr>gw_ipCache := c\<rparr>)) = fst (authenticate env r g)"
  "gw_limiter (snd (authenticate env r g)) = gw_limiter g"
  "Current (gw_loader (snd (authenticate env r g))) = Current (gw_loader g)"
  "ld_health (gw_loader (snd (authenticate env r g))) = ld_health (gw_loader g)"
proof -
  have k: "fst (validateKey env key (g\<lparr>gw_ipCache := c\<rparr>)) = fst (validateKey env key g)" for key
    by (rule frame)
  have j: "validateJWT env (g\<lparr>gw_ipCache := c\<rparr>) = validateJWT env g" by (simp add: validateJWT_def)
  obtain rec gk where v: "validateKey env (TrimSpace (rq_Header r ''X-API-Key'')) g = (rec, gk)" by fastforce
  then have gk: "gw_limiter gk = gw_limiter g" "Current (gw_loader gk) = Current (gw_loader g)"
      "ld_health (gw_loader gk) = ld_health (gw_loader g)"
    using validateKey_frame(2-4) [where env = env and key = "TrimSpace (rq_Header r ''X-API-Key'')" and g = g]
    by simp_all
  obtain gk' where v': "validateKey env (TrimSpace (rq_Header r ''X-API-Key'')) (g\<lparr>gw_ipCache := c\<rparr>) = (rec, gk')"
    using k [of "TrimSpace (rq_Header r ''X-API-Key'')"] v by (metis fst_conv surj_pair)
  show "fst (authenticate env r (g\<lparr>gw_ipCache := c\<rparr>)) = fst (authenticate env r g)"
    by (auto simp: authenticate_def Let_def j v v' split: option.split sum.split)
  show "gw_limiter (snd (authenticate env r g)) = gw_limiter g"
    "Current (gw_loader (snd (authenticate env r g))) = Current (gw_loader g)"
    "ld_health (gw_loader (snd (authenticate env r g))) = ld_health (gw_loader g)"
    using gk by (auto simp: authenticate_def Let_def v split: option.split sum.split)
qed

lemma resolveAuth_limiter [frame]: "gw_limiter (snd (resolveAuth env c g)) = gw_limiter g"
proof (cases "gc_Metadata c")
  case (Some md)
  obtain rec gk where v: "validateKey env (hd (md ''x-api-key'')) g = (rec, gk)" by fastforce
  then have "gw_limiter gk = gw_limiter g"
    using validateKey_frame(2) [where env = env and key = "hd (md ''x-api-key'')" and g = g] by simp
  then show ?thesis
    by (auto simp: resolveAuth_def Some Let_def v split: option.split sum.split)
qed (simp add: resolveAuth_def)

section \<open>The whole chain\<close>

lemma customerHandler_Forward:
  assumes "customerHandler env r w g = ((Forward t ob, w'), g')"
  obtains r1 w1 w2 r4 g4 w4 g5 w5 where
    "RouteMatcher r w g = (Continue r1 w1, g)"
    "IPFilterMiddleware r1 w1 g = (Continue r1 w1, g\<lparr>gw_ipCache := snd (ipFilterDecide (cx_Route r1) (rq_RemoteAddr r1) (gw_ipCache g))\<rparr>)"
    "CORS r1 w1 (g\<lparr>gw_ipCache := snd (ipFilterDecide (cx_Route r1) (rq_RemoteAddr r1) (gw_ipCache g))\<rparr>) =
       (Continue r1 w2, g\<lparr>gw_ipCache := snd (ipFilterDecide (cx_Route r1) (rq_RemoteAddr r1) (gw_ipCache g))\<rparr>)"
    "AuthMiddleware env r1 w2 (g\<lparr>gw_ipCache := snd (ipFilterDecide (cx_Route r1) (rq_RemoteAddr r1) (gw_ipCache g))\<rparr>) =
       (Continue r4 w4, g4)"
    "RateLimitMiddleware env r4 w4 g4 = (Continue r4 w5, g5)"
    "DynamicProxy_ServeHTTP env r4 w5 g5 = ((Forward t ob, w'), g')"
proof -
  from assms have c: "runMiddleware RouteMatcher (runMiddleware IPFilterMiddleware (runMiddleware CORS
      (runMiddleware (AuthMiddleware env) (runMiddleware (RateLimitMiddleware env) (DynamicProxy_ServeHTTP env)))))
      r w g = ((Forward t ob, w'), g')" by (simp add: customerHandler_def)
  obtain r1 w1 g1 where 1: "RouteMatcher r w g = (Continue r1 w1, g1)" and c1: "runMiddleware IPFilterMiddleware (runMiddleware CORS
      (runMiddleware (AuthMiddleware env) (runMiddleware (RateLimitMiddleware env) (DynamicProxy_ServeHTTP env))))
      r1 w1 g1 = ((Forward t ob, w'), g')"
    by (rule runMiddleware_Forward [OF c Halt_Reply(1)])
  obtain r2 w2 g2 where 2: "IPFilterMiddleware r1 w1 g1 = (Continue r2 w2, g2)" and c2: "runMiddleware CORS
      (runMiddleware (AuthMiddleware env) (runMiddleware (RateLimitMiddleware env) (DynamicProxy_ServeHTTP env)))
      r2 w2 g2 = ((Forward t ob, w'), g')"
    by (rule runMiddleware_Forward [OF c1 Halt_Reply(2)])
  obtain r3 w3 g3 where 3: "CORS r2 w2 g2 = (Continue r3 w3, g3)" and c3: "runMiddleware (AuthMiddleware env)
      (runMiddleware (RateLimitMiddleware env) (DynamicProxy_ServeHTTP env)) r3 w3 g3 = ((Forward t ob, w'), g')"
    by (rule runMiddleware_Forward [OF c2 Halt_Reply(3)])
  obtain r4 w4 g4 where 4: "AuthMiddleware env r3 w3 g3 = (Continue r4 w4, g4)" and c4:
      "runMiddleware (RateLimitMiddleware env) (DynamicProxy_ServeHTTP env) r4 w4 g4 = ((Forward t ob, w'), g')"
    by (rule runMiddleware_Forward [OF c3 Halt_Reply(4)])
  obtain r5 w5 g5 where 5: "RateLimitMiddleware env r4 w4 g4 = (Continue r5 w5, g5)"
      "DynamicProxy_ServeHTTP env r5 w5 g5 = ((Forward t ob, w'), g')"
    by (rule runMiddleware_Forward [OF c4 Halt_Reply(5)])
  have "g1 = g" using RouteMatcher_Continue [OF 1] by blast
  moreover have "r2 = r1" "w2 = w1" "g2 = g1\<lparr>gw_ipCache := snd (ipFilterDecide (cx_Route r1) (rq_RemoteAddr r1) (gw_ipCache g1))\<rparr>"
    using IPFilter_Continue [OF 2] by auto
  moreover have "r3 = r2" "g3 = g2" using CORS_Continue [OF 3] by auto
  moreover have "r5 = r4" using RateLimit_Continue [OF 5(1)] by blast
  ultimately show thesis using that 1 2 3 4 5 by simp
qed

lemma DynamicProxy_Forward:
  assumes "DynamicProxy_ServeHTTP env r w g = ((Forward t ob, w'), g')" "cx_Route r = Some rt"
  obtains ref l' p where "resolveTarget rt (gw_loader g) = (Inr (t, ref), l')" "ob = director p r"
  using assms by (auto simp: DynamicProxy_ServeHTTP_def split: prod.splits sum.splits option.splits)

definition served_from :: "route \<Rightarrow> snapshot \<Rightarrow> target \<Rightarrow> bool" where
  "served_from rt snap t \<longleftrightarrow>
     (case routePool rt snap of
        Some pool \<Rightarrow> t \<in> set (pl_Targets pool)
      | None \<Rightarrow> tg_URL t = rt_UpstreamURL rt \<and> rt_UpstreamURL rt \<noteq> [])"

lemma resolveTarget_Inr:
  assumes "resolveTarget rt l = (Inr (t, ref), l')" "pools_fit (Current l)"
  shows "served_from rt (Current l) t \<and> isHealthyOpt (ld_health l) (tg_URL t)"
proof (cases "routePool rt (Current l)")
  case None
  then show ?thesis using assms(1) by (auto simp: resolveTarget_routePool served_from_def split: if_splits)
next
  case (Some pool)
  let ?f = "\<lambda>t. isHealthyOpt (ld_health l) (tg_URL t)"
  have "fst (Strategy_Pick (ld_heap l ! pl_Strategy pool) (filter ?f (pl_Targets pool))) = Inr t"
    using assms(1) by (cases "fst (Strategy_Pick (ld_heap l ! pl_Strategy pool) (filter ?f (pl_Targets pool)))")
      (auto simp: resolveTarget_routePool Some Let_def split: if_splits)
  then show ?thesis
    using strat.pick_eligible [OF routePool_fits [OF assms(2) Some], of ?f "ld_heap l ! pl_Strategy pool"]
    by (simp add: served_from_def Some)
qed

lemma resolveTarget_Inl:
  assumes "pools_fit (Current l)"
  shows "(\<exists>e. fst (resolveTarget rt l) = Inl e) \<longleftrightarrow>
    \<not> (\<exists>t. served_from rt (Current l) t \<and> isHealthyOpt (ld_health l) (tg_URL t))"
proof (cases "routePool rt (Current l)")
  case None
  have "\<exists>t :: target. tg_URL t = u" for u by (rule exI [of _ "\<lparr>tg_ID = [], tg_URL = u, tg_Weight = 0\<rparr>"]) simp
  then show ?thesis by (auto simp: resolveTarget_routePool served_from_def None)
next
  case (Some pool)
  let ?f = "\<lambda>t. isHealthyOpt (ld_health l) (tg_URL t)"
  let ?p = "Strategy_Pick (ld_heap l ! pl_Strategy pool) (filter ?f (pl_Targets pool))"
  show ?thesis
  proof (cases "fst ?p")
    case (Inl e)
    then show ?thesis
      using strat.pick_eligible [OF routePool_fits [OF assms Some], of ?f "ld_heap l ! pl_Strategy pool"]
      by (simp add: resolveTarget_routePool served_from_def Some Let_def)
  next
    case (Inr t)
    then have "t \<in> set (pl_Targets pool) \<and> ?f t"
      using strat.pick_eligible [OF routePool_fits [OF assms Some], of ?f "ld_heap l ! pl_Strategy pool"] by simp
    then show ?thesis using Inr
      by (auto simp: resolveTarget_routePool served_from_def Some Let_def filter_empty_conv)
  qed
qed

lemma resolveTarget_Inl_state:
  assumes "resolveTarget rt l = (Inl e, l')" "pools_fit (Current l)"
  shows "l' = l"
proof (cases "routePool rt (Current l)")
  case None
  then show ?thesis using assms(1) by (simp add: resolveTarget_routePool split: if_splits)
next
  case (Some pool)
  let ?h = "filter (\<lambda>t. isHealthyOpt (ld_health l) (tg_URL t)) (pl_Targets pool)"
  have "?h = []"
  proof (rule ccontr)
    assume "?h \<noteq> []"
    moreover have "pool_fits ?h" by (rule strat.pool_fits_filter [OF routePool_fits [OF assms(2) Some]])
    ultimately obtain t s' where "Strategy_Pick (ld_heap l ! pl_Strategy pool) ?h = (Inr t, s')"
      using strat.pick_some by blast
    then show False using assms(1) \<open>?h \<noteq> []\<close> by (simp add: resolveTarget_routePool Some Let_def)
  qed
  then show ?thesis using assms(1) by (simp add: resolveTarget_routePool Some Let_def)
qed

section \<open>Properties\<close>

text \<open>
  C1. Nothing reaches a backend unchecked. When the customer handler forwards a request, the route
  is the matcher's choice for its path and method (the requested method, for a preflight); the peer
  address passes the route's IP policy; the origin is allowed; unless the route needs no
  authentication or the request is a preflight (or asks for a public path), its credentials were
  accepted for an identity that has the route's roles and scopes; a limited route granted it under its
  client's key; and the target is a healthy one of the route's pool.
\<close>

theorem forwarded_requests_were_checked:
  assumes "customerHandler env r w g = ((Forward t ob, w'), g')"
    and "cache_ok (gw_ipCache g)" "pools_fit (Current (gw_loader g))"
    and "\<forall>rt \<in> set (sn_Routes (Current (gw_loader g))).
           comma_free (rt_IPBlocklist rt) \<and> comma_free (rt_IPAllowlist rt)"
  shows "\<exists>rt who. MatchHTTP (rq_Path r) (methodToMatch r) (sn_Routes (Current (gw_loader g))) = Some rt \<and>
    ipPolicy rt (ExtractIP (rq_RemoteAddr r) None False) = IPPass \<and>
    originOK rt (rq_Header r ''Origin'') \<and>
    (isPublicPath (rq_Path r) \<or> isPreflight r \<or> \<not> rt_AuthRequired rt \<or>
     (\<exists>idn. fst (authenticate env r g) = Inr idn \<and> permitted rt idn \<and>
        (id_ClientID idn \<noteq> [] \<longrightarrow> who = id_ClientID idn))) \<and>
    (rt_RateLimitRPM rt \<le> 0 \<or>
     rr_Allowed (fst (ge_check env (who @ '':'' @ rq_Path r) (rt_RateLimitRPM rt) (gw_limiter g)))) \<and>
    served_from rt (Current (gw_loader g)) t \<and> isHealthyOpt (ld_health (gw_loader g)) (tg_URL t)"
proof -
  let ?g = "\<lambda>r1. g\<lparr>gw_ipCache := snd (ipFilterDecide (cx_Route r1) (rq_RemoteAddr r1) (gw_ipCache g))\<rparr>"
  obtain r1 w1 w2 r4 g4 w4 g5 w5 where
    1: "RouteMatcher r w g = (Continue r1 w1, g)" and 2: "IPFilterMiddleware r1 w1 g = (Continue r1 w1, ?g r1)" and
    3: "CORS r1 w1 (?g r1) = (Continue r1 w2, ?g r1)" and
    4: "AuthMiddleware env r1 w2 (?g r1) = (Continue r4 w4, g4)" and
    5: "RateLimitMiddleware env r4 w4 g4 = (Continue r4 w5, g5)" and
    6: "DynamicProxy_ServeHTTP env r4 w5 g5 = ((Forward t ob, w'), g')"
    by (rule customerHandler_Forward [OF assms(1)])
  obtain rt d where rt: "cx_Route r1 = Some rt"
      "MatchHTTP (rq_Path r) (methodToMatch r) (sn_Routes (Current (gw_loader g))) = Some rt"
      "r1 = r\<lparr>cx_CustomDomain := d, cx_Route := Some rt\<rparr>"
    using RouteMatcher_Continue [OF 1] by blast
  have "rt \<in> set (sn_Routes (Current (gw_loader g)))" by (rule MatchHTTP_SomeE [OF rt(2)])
  then have cf: "comma_free (rt_IPBlocklist rt)" "comma_free (rt_IPAllowlist rt)" using assms(4) by blast+
  have ip: "ipPolicy rt (ExtractIP (rq_RemoteAddr r) None False) = IPPass"
    using IPFilter_Continue [OF 2] ipFilterDecide_policy(1) [OF assms(2) cf] rt by simp
  have cors: "originOK rt (rq_Header r ''Origin'')" using CORS_Continue [OF 3] rt by simp
  have pre: "isPreflight r1 = isPreflight r" "authenticate env r1 x = authenticate env r x" for x
    by (simp_all add: rt(3) isPreflight_def authenticate_def)
  have auth: "r4 = r1 \<and> g4 = ?g r1 \<and> (isPublicPath (rq_Path r) \<or> isPreflight r \<or> \<not> rt_AuthRequired rt) \<or>
     (\<exists>idn. authenticate env r (?g r1) = (Inr idn, g4) \<and> permitted rt idn \<and>
        r4 = r1\<lparr>cx_ClientID := Some (id_ClientID idn), cx_Role := Some (id_Role idn), cx_Scopes := Some (id_Scopes idn)\<rparr>)"
    using Auth_Continue [OF 4 rt(1)] pre rt(3) by auto
  have g4: "gw_limiter g4 = gw_limiter g" "Current (gw_loader g4) = Current (gw_loader g)"
      "ld_health (gw_loader g4) = ld_health (gw_loader g)" "cx_Route r4 = Some rt" "rq_Path r4 = rq_Path r"
    using auth authenticate_frame(2-4) [where env = env and r = r and g = "?g r1"] rt by auto
  have g5: "gw_loader g5 = gw_loader g4" using RateLimit_Continue [OF 5] by auto
  define who where "who = (let c = (case cx_ClientID r4 of Some c \<Rightarrow> c | None \<Rightarrow> []) in if c = [] then extractIP r4 else c)"
  have key: "rateKey r4 = who @ '':'' @ rq_Path r" by (simp add: rateKey_def who_def g4 Let_def)
  have rate: "rt_RateLimitRPM rt \<le> 0 \<or>
      rr_Allowed (fst (ge_check env (who @ '':'' @ rq_Path r) (rt_RateLimitRPM rt) (gw_limiter g)))"
    using RateLimit_Continue [OF 5] by (auto simp: rateLimitFor_def g4 key)
  have id: "isPublicPath (rq_Path r) \<or> isPreflight r \<or> \<not> rt_AuthRequired rt \<or>
     (\<exists>idn. fst (authenticate env r g) = Inr idn \<and> permitted rt idn \<and> (id_ClientID idn \<noteq> [] \<longrightarrow> who = id_ClientID idn))"
    using auth
  proof (elim disjE exE conjE)
    fix idn assume a: "authenticate env r (?g r1) = (Inr idn, g4)" "permitted rt idn"
      "r4 = r1\<lparr>cx_ClientID := Some (id_ClientID idn), cx_Role := Some (id_Role idn), cx_Scopes := Some (id_Scopes idn)\<rparr>"
    have "fst (authenticate env r g) = Inr idn" using a(1) authenticate_frame(1) by (metis fst_conv)
    moreover have "id_ClientID idn \<noteq> [] \<longrightarrow> who = id_ClientID idn" by (simp add: who_def a(3) Let_def)
    ultimately show ?thesis using a(2) by blast
  qed blast+
  have "served_from rt (Current (gw_loader g)) t \<and> isHealthyOpt (ld_health (gw_loader g)) (tg_URL t)"
    using DynamicProxy_Forward [OF 6 g4(4)] resolveTarget_Inr [of rt "gw_loader g5" t] assms(3)
    by (metis g4(2,3) g5)
  then show ?thesis using rt(2) ip cors id rate by blast
qed

definition example_gateway :: "(string \<rightharpoonup> string, memory_limiter) gateway" where
  "example_gateway =
     \<lparr>gw_loader = start_loader\<lparr>ld_snapshot :=
        \<lparr>sn_Routes = [plain_route ''r'' ''/''\<lparr>rt_UpstreamURL := ''http://a'', rt_RateLimitRPM := 5\<rparr>],
         sn_UpstreamPools = [], sn_CustomDomains = [], sn_DomainMap = []\<rparr>\<rparr>,
      gw_ipCache = [], gw_limiter = NewMemoryLimiter 60, gw_proxies = Map.empty\<rparr>"

definition example_env :: "(string \<rightharpoonup> string, memory_limiter) gw_env" where
  "example_env =
     \<lparr>ge_now = 7, ge_parse = None, ge_loader = start_env, ge_check = Memory_CheckAndConsume 7, ge_limit = 60,
      ge_newProxy = (\<lambda>u. Some \<lparr>u_Scheme = ''http'', u_Host = ''a'', u_Path = []\<rparr>),
      ge_syncToken = ''tok'', ge_jwtSecret = ''jwt'', ge_trustProxy = False\<rparr>"

definition example_request :: request where
  "example_request =
     \<lparr>rq_Method = ''GET'', rq_Path = ''/x'', rq_Host = ''h'', rq_Header = (\<lambda>_. []), rq_RemoteAddr = ''1.2.3.4:5'',
      cx_Route = None, cx_ClientID = None, cx_Role = None, cx_Scopes = None, cx_CustomDomain = None\<rparr>"

definition example_target :: target where
  "example_target = \<lparr>tg_ID = ''http://a'', tg_URL = ''http://a'', tg_Weight = 0\<rparr>"

lemma example_forwarded:
  "\<exists>ob w' g'. customerHandler example_env example_request (\<lambda>_. []) example_gateway =
     ((Forward example_target ob, w'), g')"
  by (simp add: customerHandler_def runMiddleware_def RouteMatcher_def IPFilterMiddleware_def ipFilterDecide_def
      CORS_def AuthMiddleware_def RateLimitMiddleware_def DynamicProxy_ServeHTTP_def resolveTarget_def
      example_gateway_def example_env_def example_request_def example_target_def start_loader_def
      LookupDomain_def Current_def MatchHTTP_def matchMethod_def matchScore_def matchBoundaryPrefix_def HasSuffix_def
      methodToMatch_def isPreflight_def isPublicPath_def rateLimitFor_def Memory_CheckAndConsume_def ml_get_def
      NewMemoryLimiter_def isHealthyOpt_def IsHealthy_def New_checker_def getProxy_def Let_def)

theorem forwarded_requests_were_checked_witness:
  "\<exists>rt. MatchHTTP ''/x'' ''GET'' (sn_Routes (Current (gw_loader example_gateway))) = Some rt \<and>
     served_from rt (Current (gw_loader example_gateway)) example_target"
proof -
  obtain ob w' g' where f: "customerHandler example_env example_request (\<lambda>_. []) example_gateway =
      ((Forward example_target ob, w'), g')" using example_forwarded by blast
  have "cache_ok (gw_ipCache example_gateway)" "pools_fit (Current (gw_loader example_gateway))"
    "\<forall>rt \<in> set (sn_Routes (Current (gw_loader example_gateway))).
       comma_free (rt_IPBlocklist rt) \<and> comma_free (rt_IPAllowlist rt)"
    by (simp_all add: example_gateway_def cache_ok_def pools_fit_def Current_def comma_free_def)
  from forwarded_requests_were_checked [OF f this]
  show ?thesis by (auto simp: example_request_def methodToMatch_def isPreflight_def)
qed

text \<open>
  The proxy finds a target exactly when there is a healthy one to find: among the targets of the
  route's pool, or the route's own URL when it has no pool with targets; and what it finds is such a
  target.
\<close>

theorem resolveTarget_complete:
  assumes "pools_fit (Current l)"
  shows "case fst (resolveTarget rt l) of
      Inl e \<Rightarrow> \<not> (\<exists>t. served_from rt (Current l) t \<and> isHealthyOpt (ld_health l) (tg_URL t))
    | Inr (t, ref) \<Rightarrow> served_from rt (Current l) t \<and> isHealthyOpt (ld_health l) (tg_URL t)"
  using resolveTarget_Inl [OF assms, of rt] resolveTarget_Inr [OF _ assms, of rt]
  by (cases "resolveTarget rt l") (auto split: sum.split)

theorem resolveTarget_complete_witness:
  "\<exists>t ref. fst (resolveTarget (plain_route ''r'' ''/''\<lparr>rt_UpstreamURL := ''http://a''\<rparr>) start_loader) = Inr (t, ref) \<and>
     tg_URL t = ''http://a''"
proof -
  have "pools_fit (Current start_loader)" by (simp add: pools_fit_def Current_def start_loader_def)
  from resolveTarget_complete [OF this, of "plain_route ''r'' ''/''\<lparr>rt_UpstreamURL := ''http://a''\<rparr>"]
  show ?thesis
    by (auto simp: resolveTarget_def served_from_def routePool_def isHealthyOpt_def IsHealthy_def start_loader_def
        New_checker_def Current_def)
qed



text \<open>
  The identity headers an upstream sees: each of them is the authenticated value when the
  gateway has a non-empty one, and otherwise whatever the client itself sent under that name. The API
  key is never passed on, and the forwarded host is the one the client asked for.
\<close>

theorem director_identity_headers:
  "ob_Header (director target r) ''X-Client-ID'' =
     (case cx_ClientID r of Some (c # cs) \<Rightarrow> c # cs | _ \<Rightarrow> rq_Header r ''X-Client-ID'') \<and>
   ob_Header (director target r) ''X-Client-Role'' =
     (case cx_Role r of Some (c # cs) \<Rightarrow> c # cs | _ \<Rightarrow> rq_Header r ''X-Client-Role'') \<and>
   ob_Header (director target r) ''X-Client-Scopes'' =
     (case cx_Scopes r of Some (c # cs) \<Rightarrow> Join (c # cs) '','' | _ \<Rightarrow> rq_Header r ''X-Client-Scopes'') \<and>
   ob_Header (director target r) ''X-API-Key'' = [] \<and>
   ob_Header (director target r) ''X-Forwarded-Host'' = rq_Host r \<and>
   ob_Host (director target r) = u_Host target"
  by (simp add: director_def Let_def split: option.split list.split)

text \<open>
  C12. A gRPC call that passes the interceptor matched an enabled route; if the route requires
  authentication, its metadata authenticated an identity that has the route's roles and scopes,
  otherwise it goes on as anonymous; and a limited route granted it, under the client's identifier or
  else its address.
\<close>

theorem grpc_calls_were_checked:
  assumes "grpcValidate env c g = (Inr (rt, idn), g')"
  shows "matchRoute (gc_FullMethod c) (sn_Routes (Current (gw_loader g))) = Some rt \<and>
    (if rt_AuthRequired rt then fst (resolveAuth env c g) = Inr idn \<and> permitted rt idn
     else idn = \<lparr>id_ClientID = [], id_Role = ''anonymous'', id_Scopes = []\<rparr>) \<and>
    (rt_RateLimitRPM rt \<le> 0 \<or>
     rr_Allowed (fst (ge_check env
        ((if id_ClientID idn = [] then getClientIP (ge_trustProxy env) c else id_ClientID idn) @ '':'' @ gc_FullMethod c)
        (rt_RateLimitRPM rt) (gw_limiter g))))"
  using assms resolveAuth_limiter [of env c g]
  by (auto simp: grpcValidate_def permitted_def Let_def split: option.splits prod.splits sum.splits if_splits)

theorem grpc_calls_were_checked_witness:
  "matchRoute ''/a.B/C'' [plain_route ''g'' ''/a''\<lparr>rt_Protocol := ''grpc''\<rparr>] =
     Some (plain_route ''g'' ''/a''\<lparr>rt_Protocol := ''grpc''\<rparr>)"
proof -
  let ?rt = "plain_route ''g'' ''/a''\<lparr>rt_Protocol := ''grpc''\<rparr>"
  let ?g = "example_gateway\<lparr>gw_loader := start_loader\<lparr>ld_snapshot :=
     \<lparr>sn_Routes = [?rt], sn_UpstreamPools = [], sn_CustomDomains = [], sn_DomainMap = []\<rparr>\<rparr>\<rparr>"
  have "grpcValidate example_env \<lparr>gc_FullMethod = ''/a.B/C'', gc_Peer = None, gc_Metadata = None\<rparr> ?g =
      (Inr (?rt, \<lparr>id_ClientID = [], id_Role = ''anonymous'', id_Scopes = []\<rparr>), ?g)"
    by (simp add: grpcValidate_def Current_def matchRoute_def grpcService_def LastIndexByte_def)
  from grpc_calls_were_checked [OF this] show ?thesis by (simp add: Current_def)
qed

text \<open>
  Only an authorized caller can trigger a reload: unless the request is a POST that presents the
  configured token, which is the sync token or else the JWT secret and is never accepted empty, the
  endpoint leaves the gateway as it was. With such a request it does what a reload does.
\<close>

theorem reloadHandler_needs_token:
  "(rq_Method r = ''POST'' \<and>
     (\<exists>token. token \<noteq> [] \<and> token = (if ge_syncToken env = [] then ge_jwtSecret env else ge_syncToken env) \<and>
        (rq_Header r ''X-Internal-Token'' = token \<or>
         rq_Header r ''X-Internal-Token'' = [] \<and> rq_Header r ''Authorization'' = ''Bearer '' @ token)) \<and>
     gw_loader (snd (reloadHandler env fetched r g)) = snd (reload (ge_loader env) fetched (gw_loader g))) \<or>
   snd (reloadHandler env fetched r g) = g"
proof -
  have b: "HasPrefix s ''Bearer '' \<Longrightarrow> s = ''Bearer '' @ TrimPrefix s ''Bearer ''" for s
    by (auto simp: HasPrefix_iff TrimPrefix_def)
  show ?thesis
    using b [of "rq_Header r ''Authorization''"]
    by (auto simp: reloadHandler_def Let_def split: prod.splits option.splits if_splits)
qed

end
