(* ===== verification/Leased_Rows.thy ===== *)
theory Leased_Rows
  imports EG_Model "HOL-Library.Option_ord" "HOL-Library.Product_Lexorder"
begin

text \<open>
  The PostgreSQL statements of the control plane, and the lease protocol that the custom-domain
  and the gateway repositories share (\<^verbatim>\<open>internal/storage\<close>).

  A table is the list of its rows. One statement is one atomic step: it either fails as a whole
  (\<open>de_fault\<close> gives the driver's error for the statement, named by the text the repository wraps
  it in) or reads and writes the rows its \<^verbatim>\<open>WHERE\<close> clause selects. \<open>de_now\<close> is the
  database's \<^verbatim>\<open>NOW()\<close>, \<open>de_clock\<close> the process's \<^verbatim>\<open>time.Now()\<close>: the two clocks are never
  assumed equal. \<open>de_skip\<close> are the keys of the rows other transactions hold locked at that
  moment, which \<^verbatim>\<open>FOR UPDATE SKIP LOCKED\<close> passes over, and \<open>de_uuid\<close> is the value
  \<^verbatim>\<open>uuid.New()\<close> returns. A UUID is its text form.

  The locale \<open>leased_update\<close> is the contract of an update that a worker makes under its lease
  token, \<open>job_queue\<close> the contract of claiming the next job; both repositories interpret them.
\<close>

type_synonym uuid = string

record db_env =
  de_now :: go_time
  de_clock :: go_time
  de_uuid :: uuid
  de_skip :: "string list"
  de_fault :: "string \<Rightarrow> string option"

datatype repo_error =
    ErrCustomDomainNotFound | ErrHostnameConflict | ErrStaleLease | ErrInvalidStateTransition
  | ErrDomainNotEligible | ErrDomainNotEligibleForRetry | ErrDomainAlreadyDeprovisioned
  | ErrProjectGatewayIngressNotReady | ErrGatewayNotFound | ErrStaleGatewayIngressLease
  | ErrInvalidDockerHostPort string
  | ErrInvalidPriorityRange
  | ErrNoPriorityAvailable
  | SqlError string string

definition quiet :: "go_time \<Rightarrow> uuid \<Rightarrow> db_env" where
  "quiet t u = \<lparr>de_now = t, de_clock = t, de_uuid = u, de_skip = [], de_fault = (\<lambda>_. None)\<rparr>"

lemma quiet_simps [simp]:
  "de_now (quiet t u) = t" "de_clock (quiet t u) = t" "de_uuid (quiet t u) = u"
  "de_skip (quiet t u) = []" "de_fault (quiet t u) s = None"
  by (simp_all add: quiet_def)

section \<open>Statements\<close>

definition sql_update :: "('r \<Rightarrow> bool) \<Rightarrow> ('r \<Rightarrow> 'r) \<Rightarrow> 'r list \<Rightarrow> 'r list" where
  "sql_update P f t = map (\<lambda>r. if P r then f r else r) t"

text \<open>
  \<^verbatim>\<open>ExecContext\<close> followed by \<^verbatim>\<open>RowsAffected\<close>: the second call can fail after the update has
  been made.
\<close>

definition exec_update ::
  "db_env \<Rightarrow> string \<Rightarrow> string \<Rightarrow> ('r \<Rightarrow> bool) \<Rightarrow> ('r \<Rightarrow> 'r) \<Rightarrow> 'r list \<Rightarrow> (repo_error + nat) \<times> 'r list" where
  "exec_update env stmt rows P f t =
     (case de_fault env stmt of
        Some e \<Rightarrow> (Inl (SqlError stmt e), t)
      | None \<Rightarrow>
          (case de_fault env rows of
             Some e \<Rightarrow> (Inl (SqlError rows e), sql_update P f t)
           | None \<Rightarrow> (Inr (length (filter P t)), sql_update P f t)))"

text \<open>\<^verbatim>\<open>UPDATE ... RETURNING\<close> read with \<^verbatim>\<open>QueryRowContext\<close>: the first row, if any.\<close>

definition update_returning ::
  "db_env \<Rightarrow> string \<Rightarrow> ('r \<Rightarrow> bool) \<Rightarrow> ('r \<Rightarrow> 'r) \<Rightarrow> 'r list \<Rightarrow> (repo_error + 'r option) \<times> 'r list" where
  "update_returning env stmt P f t =
     (case de_fault env stmt of
        Some e \<Rightarrow> (Inl (SqlError stmt e), t)
      | None \<Rightarrow> (Inr (map_option f (find P t)), sql_update P f t))"

definition select_row :: "db_env \<Rightarrow> string \<Rightarrow> ('r \<Rightarrow> bool) \<Rightarrow> 'r list \<Rightarrow> repo_error + 'r option" where
  "select_row env stmt P t =
     (case de_fault env stmt of Some e \<Rightarrow> Inl (SqlError stmt e) | None \<Rightarrow> Inr (find P t))"

text \<open>A write that returned an error and changed nothing.\<close>

definition rejected :: "('t \<Rightarrow> repo_error option \<times> 't) \<Rightarrow> 't \<Rightarrow> bool" where
  "rejected write t \<longleftrightarrow> snd (write t) = t \<and> fst (write t) \<noteq> None"

section \<open>The queue of jobs\<close>

text \<open>
  The common table expression \<^verbatim>\<open>next_job\<close>: among the rows that are due, not leased (or whose
  lease has expired) and not locked by another transaction, the first in the order
  \<^verbatim>\<open>next_retry_at ASC NULLS FIRST, created_at ASC\<close>. On equal keys the table's order decides.
\<close>

definition job_due ::
  "('r \<Rightarrow> string) \<Rightarrow> ('r \<Rightarrow> bool) \<Rightarrow> ('r \<Rightarrow> go_time option) \<Rightarrow> ('r \<Rightarrow> go_time option) \<Rightarrow> db_env \<Rightarrow> go_time \<Rightarrow> 'r \<Rightarrow> bool" where
  "job_due ident queued retryAt lockedAt env lockExpiry r \<longleftrightarrow>
     queued r
     \<and> (case retryAt r of None \<Rightarrow> True | Some t \<Rightarrow> t \<le> de_now env)
     \<and> (case lockedAt r of None \<Rightarrow> True | Some t \<Rightarrow> t \<le> lockExpiry)
     \<and> ident r \<notin> set (de_skip env)"

definition first_by :: "('r \<Rightarrow> 'k::linorder) \<Rightarrow> ('r \<Rightarrow> bool) \<Rightarrow> 'r list \<Rightarrow> 'r option" where
  "first_by key P t = (case sort_key key (filter P t) of [] \<Rightarrow> None | r # _ \<Rightarrow> Some r)"

lemma first_by_None [simp]: "first_by key P t = None \<longleftrightarrow> (\<forall>r \<in> set t. \<not> P r)"
proof -
  have "first_by key P t = None \<longleftrightarrow> sort_key key (filter P t) = []"
    by (simp add: first_by_def split: list.split)
  also have "\<dots> \<longleftrightarrow> set (filter P t) = {}" by (metis set_empty set_sort)
  finally show ?thesis by auto
qed

lemma first_by_Some:
  assumes "first_by key P t = Some r"
  shows "r \<in> set t" "P r" "r' \<in> set t \<Longrightarrow> P r' \<Longrightarrow> key r \<le> key r'"
proof -
  obtain rs where s: "sort_key key (filter P t) = r # rs"
    using assms by (auto simp: first_by_def split: list.splits)
  have set_s: "set (r # rs) = set (filter P t)" by (metis s set_sort)
  then show "r \<in> set t" "P r" by auto
  have "sorted (map key (r # rs))" by (metis s sorted_sort_key)
  then show "key r \<le> key r'" if "r' \<in> set t" "P r'"
    using that set_s by auto
qed

section \<open>Lemmas on statements\<close>

lemma sql_update_length [simp]: "length (sql_update P f t) = length t"
  by (simp add: sql_update_def)

lemma sql_update_none: "(\<And>r. r \<in> set t \<Longrightarrow> \<not> P r) \<Longrightarrow> sql_update P f t = t"
  unfolding sql_update_def by (rule map_idI) auto

lemma in_sql_update:
  "r' \<in> set (sql_update P f t) \<longleftrightarrow> (\<exists>r \<in> set t. r' = (if P r then f r else r))"
  by (auto simp: sql_update_def)

lemma find_sql_update:
  "(\<And>x. P (f x) = P x) \<Longrightarrow> List.find P (sql_update Q f xs) = map_option (\<lambda>x. if Q x then f x else x) (List.find P xs)"
  unfolding sql_update_def by (induction xs) auto

lemma sql_update_column: "(\<And>r. c (f r) = c r) \<Longrightarrow> map c (sql_update P f t) = map c t"
  by (simp add: sql_update_def)

lemma filter_Nil_iff: "filter P t = [] \<longleftrightarrow> (\<forall>r \<in> set t. \<not> P r)"
  by (simp add: filter_empty_conv)

lemma find_None_iff_all: "find P t = None \<longleftrightarrow> (\<forall>r \<in> set t. \<not> P r)"
  by (auto simp: find_None_iff)

lemma find_SomeD: "find P t = Some r \<Longrightarrow> r \<in> set t \<and> P r"
  by (auto simp: find_Some_iff)

text \<open>With unique keys, at most one row carries the key a statement names.\<close>

lemma unique_row:
  "distinct (map ident t) \<Longrightarrow> r \<in> set t \<Longrightarrow> r' \<in> set t \<Longrightarrow> ident r = ident r' \<Longrightarrow> r = r'"
  by (auto simp: distinct_map inj_on_def)

lemma sql_update_one:
  assumes ids: "distinct (map ident t)" and k: "k < length t"
  shows "sql_update (\<lambda>r. ident r = ident (t ! k)) f t = t[k := f (t ! k)]"
proof (rule nth_equalityI)
  fix j assume j: "j < length (sql_update (\<lambda>r. ident r = ident (t ! k)) f t)"
  then have "ident (t ! j) = ident (t ! k) \<longleftrightarrow> j = k"
    using nth_eq_iff_index_eq [OF ids, of j k] k by simp
  then show "sql_update (\<lambda>r. ident r = ident (t ! k)) f t ! j = t[k := f (t ! k)] ! j"
    using j k by (auto simp: sql_update_def nth_list_update)
qed simp

lemma sql_update_hit:
  assumes "distinct (map ident t)" "k < length t" "P (t ! k)" "\<And>r. P r \<Longrightarrow> ident r = ident (t ! k)"
  shows "sql_update P f t = t[k := f (t ! k)]"
proof -
  have "sql_update P f t = sql_update (\<lambda>r. ident r = ident (t ! k)) f t"
    unfolding sql_update_def
  proof (rule map_cong)
    fix r assume "r \<in> set t"
    then have "P r \<longleftrightarrow> ident r = ident (t ! k)"
      using assms(3,4) unique_row [OF assms(1)] assms(2) by (metis nth_mem)
    then show "(if P r then f r else r) = (if ident r = ident (t ! k) then f r else r)" by simp
  qed simp
  then show ?thesis using sql_update_one [OF assms(1,2)] by simp
qed

lemma update_same_ident:
  "k < length t \<Longrightarrow> ident r = ident (t ! k) \<Longrightarrow> map ident (t[k := r]) = map ident t"
  by (metis list_update_id map_update nth_map length_map)

lemma update_lowers_sum:
  fixes rank :: "'r \<Rightarrow> nat"
  assumes "k < length t" "rank r' < rank (t ! k)"
  shows "sum_list (map rank (t[k := r'])) < sum_list (map rank t)"
proof -
  have "rank (t ! k) \<le> sum_list (map rank t)"
    using assms(1) by (intro member_le_sum_list) auto
  then show ?thesis using assms by (simp add: map_update sum_list_update)
qed

text \<open>
  A column that is unique among the live rows (a partial unique index) stays unique under an
  update that neither changes the column nor revives a deleted row.
\<close>

definition unique_live :: "('r \<Rightarrow> bool) \<Rightarrow> ('r \<Rightarrow> 'k option) \<Rightarrow> 'r list \<Rightarrow> bool" where
  "unique_live live col t \<longleftrightarrow>
     sorted_wrt (\<lambda>r r'. \<not> (live r \<and> live r' \<and> col r \<noteq> None \<and> col r = col r')) t"

lemma sorted_wrt_conj: "sorted_wrt P t \<Longrightarrow> sorted_wrt Q t \<Longrightarrow> sorted_wrt (\<lambda>x y. P x y \<and> Q x y) t"
  by (induction t) auto

lemma distinct_idents: "distinct (map ident t) \<longleftrightarrow> sorted_wrt (\<lambda>r r'. ident r \<noteq> ident r') t"
  by (induction t) auto

lemma unique_live_update:
  assumes "unique_live live col t"
    and keep: "\<And>r. P r \<Longrightarrow> live (f r) \<Longrightarrow> live r \<and> col (f r) = col r"
  shows "unique_live live col (sql_update P f t)"
  using assms(1) keep unfolding unique_live_def sql_update_def sorted_wrt_map
  by (elim sorted_wrt_mono_rel [rotated]) auto

text \<open>Giving one row a value that no live row has keeps the column unique.\<close>

lemma unique_live_assign:
  assumes u: "unique_live live col t" and ids: "distinct (map ident t)"
    and one: "\<And>r. P r \<Longrightarrow> ident r = i" and col: "\<And>r. col (f r) = Some v"
    and free: "\<And>r. r \<in> set t \<Longrightarrow> live r \<Longrightarrow> \<not> P r \<Longrightarrow> col r \<noteq> Some v"
  shows "unique_live live col (sql_update P f t)"
proof -
  let ?R = "\<lambda>r r'. \<not> (live r \<and> live r' \<and> col r \<noteq> None \<and> col r = col r') \<and> ident r \<noteq> ident r'"
  have "sorted_wrt ?R t"
    using u ids by (auto simp: unique_live_def distinct_idents intro: sorted_wrt_conj)
  then show ?thesis
    unfolding unique_live_def sql_update_def sorted_wrt_map
    using one col free by (elim sorted_wrt_mono_rel [rotated]) (metis option.distinct(1))
qed

lemma unique_live_append:
  assumes "unique_live live col t"
    and new: "\<And>r' v. r' \<in> set t \<Longrightarrow> live r' \<Longrightarrow> live r \<Longrightarrow> col r = Some v \<Longrightarrow> col r' \<noteq> Some v"
  shows "unique_live live col (t @ [r])"
  using assms(1) unfolding unique_live_def sorted_wrt_append by auto (metis new)

lemma unique_liveD:
  assumes "unique_live live col t" "distinct (map ident t)"
    and "r \<in> set t" "r' \<in> set t" "live r" "live r'" "col r = Some v" "col r' = Some v"
  shows "r = r'"
proof -
  obtain k k' where "k < length t" "t ! k = r" "k' < length t" "t ! k' = r'"
    using assms(3,4) by (auto simp: in_set_conv_nth)
  moreover from this have "k = k'"
    using assms(1,5-8) unfolding unique_live_def sorted_wrt_iff_nth_less
    by (metis (no_types, lifting) linorder_neqE_nat option.distinct(1))
  ultimately show ?thesis by simp
qed

section \<open>An update under a lease\<close>

locale leased_update =
  fixes ident :: "'r \<Rightarrow> string" and lease :: "'r \<Rightarrow> uuid option"
    and guard :: "'r \<Rightarrow> bool" and assign :: "'r \<Rightarrow> 'r"
    and i :: string and token :: uuid
  assumes guard_holds_lease: "guard r \<Longrightarrow> ident r = i \<and> lease r = Some token"
    and assign_ident: "ident (assign r) = ident r"
    and assign_releases: "lease (assign r) = None"
begin

lemma no_lease_no_effect:
  assumes "\<And>r. r \<in> set t \<Longrightarrow> ident r = i \<Longrightarrow> lease r \<noteq> Some token"
  shows "sql_update guard assign t = t" "filter guard t = []"
proof -
  have "\<not> guard r" if "r \<in> set t" for r
    using assms that guard_holds_lease by blast
  then show "sql_update guard assign t = t" "filter guard t = []"
    by (simp_all add: sql_update_none filter_Nil_iff)
qed

lemma keeps_idents: "map ident (sql_update guard assign t) = map ident t"
  by (rule sql_update_column) (simp add: assign_ident)

lemma other_rows_untouched:
  assumes "k < length t" "ident (t ! k) \<noteq> i"
  shows "sql_update guard assign t ! k = t ! k"
  using assms guard_holds_lease by (auto simp: sql_update_def)

lemma gives_no_lease:
  assumes "r' \<in> set (sql_update guard assign t)" "lease r' = Some u"
  shows "r' \<in> set t"
  using assms assign_releases by (auto simp: in_sql_update split: if_splits)

lemma token_is_used_up:
  assumes t: "distinct (map ident t)" and r: "r \<in> set t" "guard r"
    and r': "r' \<in> set (sql_update guard assign t)" "ident r' = i"
  shows "lease r' = None"
proof -
  obtain r0 where r0: "r0 \<in> set t" "r' = (if guard r0 then assign r0 else r0)"
    using r'(1) by (auto simp: in_sql_update)
  have "ident r0 = ident r"
    using r0 r'(2) r(2) guard_holds_lease assign_ident by (auto split: if_splits)
  then have "r0 = r" using unique_row [OF t r0(1) r(1)] by blast
  then show ?thesis using r0 r(2) assign_releases by simp
qed

end

section \<open>Claiming a job\<close>

locale job_queue =
  fixes ident :: "'r \<Rightarrow> string" and lease :: "'r \<Rightarrow> uuid option"
    and queued :: "'r \<Rightarrow> bool" and retryAt :: "'r \<Rightarrow> go_time option"
    and lockedAt :: "'r \<Rightarrow> go_time option" and createdAt :: "'r \<Rightarrow> go_time"
    and claim_set :: "db_env \<Rightarrow> string \<Rightarrow> uuid \<Rightarrow> 'r \<Rightarrow> 'r"
  assumes claim_ident: "ident (claim_set env w u r) = ident r"
    and claim_lease: "lease (claim_set env w u r) = Some u"
    and claim_locked: "lockedAt (claim_set env w u r) = Some (de_now env)"
begin

abbreviation due :: "db_env \<Rightarrow> go_time \<Rightarrow> 'r \<Rightarrow> bool" where
  "due \<equiv> job_due ident queued retryAt lockedAt"

abbreviation next_job :: "db_env \<Rightarrow> go_time \<Rightarrow> 'r list \<Rightarrow> 'r option" where
  "next_job env expiry t \<equiv> first_by (\<lambda>r. (retryAt r, createdAt r)) (due env expiry) t"

abbreviation claimed :: "db_env \<Rightarrow> string \<Rightarrow> uuid \<Rightarrow> 'r \<Rightarrow> 'r list \<Rightarrow> 'r list" where
  "claimed env w u r t \<equiv> sql_update (\<lambda>r'. ident r' = ident r) (claim_set env w u) t"

lemma earliest_due_first:
  assumes "next_job env expiry t = Some r"
  shows "r \<in> set t" "due env expiry r"
    and "r' \<in> set t \<Longrightarrow> due env expiry r' \<Longrightarrow> (retryAt r, createdAt r) \<le> (retryAt r', createdAt r')"
  using first_by_Some [OF assms] by blast+

lemma claim_keeps_idents: "map ident (claimed env w u r t) = map ident t"
  by (rule sql_update_column) (simp add: claim_ident)

lemma claimed_rows_hold_token:
  assumes "r' \<in> set (claimed env w u r t)" "ident r' = ident r"
  shows "lease r' = Some u \<and> lockedAt r' = Some (de_now env)"
proof -
  obtain r0 where "r0 \<in> set t" and r0: "r' = (if ident r0 = ident r then claim_set env w u r0 else r0)"
    using assms(1) by (auto simp: in_sql_update)
  have "ident r0 = ident r" using assms(2) r0 by (auto simp: claim_ident split: if_splits)
  with r0 show ?thesis by (simp add: claim_lease claim_locked)
qed

lemma not_claimed_again:
  assumes row: "r' \<in> set t" "lockedAt r' = Some l" and later: "expiry < l"
    and pick: "next_job env expiry t = Some r" and ids: "distinct (map ident t)"
  shows "ident r \<noteq> ident r'"
proof
  assume "ident r = ident r'"
  then have "r = r'" using unique_row [OF ids] earliest_due_first(1) [OF pick] row(1) by blast
  with earliest_due_first(2) [OF pick] row(2) later show False by (simp add: job_due_def)
qed

end

section \<open>Runs of a repository\<close>

text \<open>
  A step of a repository is labelled with the token it hands out, if it is a successful claim.
  A run lists the tokens handed out on the way.
\<close>

inductive lease_run :: "(uuid option \<Rightarrow> 'r list \<Rightarrow> 'r list \<Rightarrow> bool) \<Rightarrow> uuid list \<Rightarrow> 'r list \<Rightarrow> 'r list \<Rightarrow> bool"
  for step where
  run_refl: "lease_run step [] t t"
| run_step: "lease_run step us t t' \<Longrightarrow> step l t' t'' \<Longrightarrow> lease_run step (us @ (case l of None \<Rightarrow> [] | Some u \<Rightarrow> [u])) t t''"

lemma run_quiet: "lease_run step us t t' \<Longrightarrow> step None t' t'' \<Longrightarrow> lease_run step us t t''"
  using run_step [where step = step and l = None] by fastforce

lemma run_claim: "lease_run step us t t' \<Longrightarrow> step (Some u) t' t'' \<Longrightarrow> lease_run step (us @ [u]) t t''"
  using run_step [where step = step and l = "Some u"] by fastforce

locale lease_history =
  fixes ident :: "'r \<Rightarrow> string" and lease :: "'r \<Rightarrow> uuid option"
    and step :: "uuid option \<Rightarrow> 'r list \<Rightarrow> 'r list \<Rightarrow> bool"
  assumes leases_come_from_claims:
    "step l t t' \<Longrightarrow> r' \<in> set t' \<Longrightarrow> lease r' = Some u \<Longrightarrow>
       l = Some u \<or> (\<exists>r \<in> set t. ident r = ident r' \<and> lease r = Some u)"
begin

lemma lost_lease_stays_lost:
  assumes "lease_run step us t t'" "u \<notin> set us"
    and "\<And>r. r \<in> set t \<Longrightarrow> ident r = i \<Longrightarrow> lease r \<noteq> Some u"
    and "r' \<in> set t'" "ident r' = i"
  shows "lease r' \<noteq> Some u"
  using assms
proof (induction arbitrary: r' rule: lease_run.induct)
  case (run_step us t t' l t'')
  show ?case
  proof
    assume "lease r' = Some u"
    moreover have "l \<noteq> Some u" using run_step.prems(1) by auto
    ultimately obtain r where "r \<in> set t'" "ident r = i" "lease r = Some u"
      using leases_come_from_claims [OF run_step.hyps(2) run_step.prems(3)] run_step.prems(4) by blast
    then show False using run_step by auto
  qed
qed blast

end

end
