(* ===== verification/Tenancy_Store.thy ===== *)
theory Tenancy_Store
  imports Leased_Rows
begin

text \<open>
  Projects and their members: the repositories \<^verbatim>\<open>internal/storage/project_repo.go\<close> and
  \<^verbatim>\<open>internal/storage/tenant.go\<close>, and the services over them (\<^verbatim>\<open>internal/admin/service/membership_service.go\<close>,
  \<^verbatim>\<open>project_service.go\<close>, \<^verbatim>\<open>platform_service.go\<close>).

  As for the other repositories, a statement is one atomic step on its tables and the database may
  fail at any statement. The operations on members are not transactions: they first read and
  then write, which is kept apart here so that two of them can be interleaved.
\<close>

section \<open>The tables\<close>

datatype member_role = RoleViewer | RoleEditor | RoleOwner

record project_row =
  prj_ID :: uuid
  prj_Name :: string
  prj_Slug :: string
  prj_Description :: string
  prj_OwnerID :: uuid
  prj_IsActive :: bool
  prj_Plan :: string
  prj_Origins :: "string list"
  prj_CreatedAt :: go_time
  prj_UpdatedAt :: go_time
  prj_DeletedAt :: "go_time option"

record member_row =
  mb_ProjectID :: uuid
  mb_UserID :: uuid
  mb_Role :: member_role
  mb_InvitedBy :: "uuid option"
  mb_JoinedAt :: go_time

record admin_user =
  au_ID :: uuid
  au_Username :: string
  au_Email :: string
  au_IsActive :: bool
  au_IsSuperAdmin :: bool
  au_DeletedAt :: "go_time option"
  au_PasswordHash :: "string option"
  au_GoogleID :: "string option"
  au_AvatarURL :: "string option"
  au_AuthProvider :: string
  au_EmailVerified :: bool
  au_FailedLoginAttempts :: int
  au_LockedUntil :: "go_time option"
  au_LastLoginAt :: "go_time option"

record refresh_token =
  rft_ID :: uuid
  rft_AdminUserID :: uuid
  rft_TokenHash :: string
  rft_ExpiresAt :: go_time
  rft_RevokedAt :: "go_time option"

text \<open>The tokens mailed to a user, for a new password and for the verification of an address, have the same shape.\<close>

record mailed_token =
  mt_ID :: uuid
  mt_AdminUserID :: uuid
  mt_TokenHash :: string
  mt_ExpiresAt :: go_time
  mt_UsedAt :: "go_time option"

text \<open>Of API keys, routes and upstreams only what the deletion of a project changes.\<close>

record child_row =
  ch_ID :: uuid
  ch_ProjectID :: uuid
  ch_Revoked :: bool
  ch_UpdatedAt :: go_time
  ch_DeletedAt :: "go_time option"

record tenancy =
  td_projects :: "project_row list"
  td_members :: "member_row list"
  td_users :: "admin_user list"
  td_keys :: "child_row list"
  td_routes :: "child_row list"
  td_upstreams :: "child_row list"
  td_refresh :: "refresh_token list"
  td_resets :: "mailed_token list"
  td_verifications :: "mailed_token list"

abbreviation prj_live :: "project_row \<Rightarrow> bool" where "prj_live p \<equiv> prj_DeletedAt p = None"

datatype tenancy_error =
    ErrNotFound | ErrForbidden | ErrAlreadyMember | ErrLastOwner | ErrIsProjectOwner
  | ErrProjectNotFound | ErrSlugConflict | ErrTooManyOrigins | ErrInvalidMemberRole | ErrNoRows
  | ErrInvalidPasswordResetToken | ErrInvalidEmailVerificationToken | UniqueViolation string
  | TenancySql string string

type_synonym 'a tenancy_query = "tenancy \<Rightarrow> tenancy_error + 'a"
type_synonym tenancy_op = "tenancy \<Rightarrow> tenancy_error option \<times> tenancy"

text \<open>A statement that may fail before it does anything.\<close>

definition tx_try :: "db_env \<Rightarrow> string \<Rightarrow> tenancy_op \<Rightarrow> tenancy_op" where
  "tx_try env stmt op db =
     (case de_fault env stmt of
        Some e \<Rightarrow> (Some (TenancySql stmt e), db)
      | None \<Rightarrow> op db)"

definition tx_read :: "db_env \<Rightarrow> string \<Rightarrow> 'a tenancy_query \<Rightarrow> 'a tenancy_query" where
  "tx_read env stmt q db =
     (case de_fault env stmt of
        Some e \<Rightarrow> Inl (TenancySql stmt e)
      | None \<Rightarrow> q db)"

text \<open>The statements of a transaction, up to the first error, which rolls all of them back.\<close>

fun tx_all :: "tenancy_op list \<Rightarrow> tenancy_op" where
  "tx_all [] db = (None, db)"
| "tx_all (op # ops) db = (case op db of (Some e, db') \<Rightarrow> (Some e, db') | (None, db') \<Rightarrow> tx_all ops db')"

definition in_tx :: "tenancy_op list \<Rightarrow> tenancy_op" where
  "in_tx ops db = (case tx_all ops db of (Some e, _) \<Rightarrow> (Some e, db) | (None, db') \<Rightarrow> (None, db'))"

definition tx_ok :: "(tenancy \<Rightarrow> tenancy) \<Rightarrow> tenancy_op" where
  "tx_ok f db = (None, f db)"

section \<open>Projects\<close>

definition slugByte :: "char \<Rightarrow> bool" where
  "slugByte c = (let n = of_char c :: nat in (97 \<le> n \<and> n \<le> 122) \<or> (48 \<le> n \<and> n \<le> 57))"

text \<open>The check on the column: three to 64 letters, digits and hyphens, no hyphen at the ends.\<close>

definition slugFormat :: "string \<Rightarrow> bool" where
  "slugFormat s \<longleftrightarrow>
     3 \<le> length s \<and> length s \<le> 64 \<and> slugByte (hd s) \<and> slugByte (last s)
     \<and> list_all (\<lambda>c. slugByte c \<or> c = CHR ''-'') s"

definition new_project :: "db_env \<Rightarrow> string \<Rightarrow> string \<Rightarrow> string \<Rightarrow> uuid \<Rightarrow> string \<Rightarrow> project_row" where
  "new_project env name slug description ownerID plan =
     \<lparr>prj_ID = de_uuid env, prj_Name = name, prj_Slug = slug, prj_Description = description,
      prj_OwnerID = ownerID, prj_IsActive = True, prj_Plan = plan, prj_Origins = [],
      prj_CreatedAt = de_now env, prj_UpdatedAt = de_now env, prj_DeletedAt = None\<rparr>"

definition Project_insert ::
  "db_env \<Rightarrow> string \<Rightarrow> string \<Rightarrow> string \<Rightarrow> uuid \<Rightarrow> string \<Rightarrow> tenancy_op" where
  "Project_insert env name slug description ownerID plan db =
     (if list_ex (\<lambda>p. prj_Slug p = slug \<and> prj_live p) (td_projects db) \<or> de_uuid env \<in> set (map prj_ID (td_projects db))
      then (Some ErrSlugConflict, db)
      else if \<not> slugFormat slug \<or> ownerID \<notin> set (map au_ID (td_users db))
      then (Some (TenancySql ''insert project'' ''constraint violation''), db)
      else (None, db\<lparr>td_projects := td_projects db @ [new_project env name slug description ownerID plan]\<rparr>))"

definition Project_Create ::
  "db_env \<Rightarrow> string \<Rightarrow> string \<Rightarrow> string \<Rightarrow> uuid \<Rightarrow> string \<Rightarrow> tenancy_op" where
  "Project_Create env name slug description ownerID plan =
     in_tx
       [tx_try env ''begin transaction'' (tx_ok (\<lambda>db. db)),
        tx_try env ''insert project'' (Project_insert env name slug description ownerID plan),
        tx_try env ''assign owner membership'' (tx_ok (\<lambda>db. db\<lparr>td_members := td_members db @
          [\<lparr>mb_ProjectID = de_uuid env, mb_UserID = ownerID, mb_Role = RoleOwner, mb_InvitedBy = None,
            mb_JoinedAt = de_now env\<rparr>]\<rparr>)),
        tx_try env ''commit transaction'' (tx_ok (\<lambda>db. db))]"

text \<open>An update of one live project; the error of \<^verbatim>\<open>RowsAffected\<close> is dropped.\<close>

definition project_exec ::
  "db_env \<Rightarrow> string \<Rightarrow> tenancy_error \<Rightarrow> uuid \<Rightarrow> (project_row \<Rightarrow> project_row) \<Rightarrow> tenancy_op" where
  "project_exec env stmt missing i f =
     tx_try env stmt (\<lambda>db.
       let P = (\<lambda>p. prj_ID p = i \<and> prj_live p);
           db' = db\<lparr>td_projects := sql_update P f (td_projects db)\<rparr>
       in if filter P (td_projects db) = [] \<or> de_fault env ''rows affected'' \<noteq> None then (Some missing, db') else (None, db'))"

definition Project_Update :: "db_env \<Rightarrow> uuid \<Rightarrow> string \<Rightarrow> string \<Rightarrow> string \<Rightarrow> tenancy_op" where
  "Project_Update env i name description plan =
     tx_try env ''update project'' (\<lambda>db.
       let P = (\<lambda>p. prj_ID p = i \<and> prj_live p)
       in if filter P (td_projects db) = [] then (Some ErrProjectNotFound, db)
          else (None, db\<lparr>td_projects := sql_update P
                 (\<lambda>p. p\<lparr>prj_Name := name, prj_Description := description, prj_Plan := plan, prj_UpdatedAt := de_now env\<rparr>)
                 (td_projects db)\<rparr>))"

definition close_children :: "db_env \<Rightarrow> uuid \<Rightarrow> bool \<Rightarrow> child_row list \<Rightarrow> child_row list" where
  "close_children env i revoke =
     sql_update (\<lambda>c. ch_ProjectID c = i \<and> ch_DeletedAt c = None)
       (\<lambda>c. c\<lparr>ch_DeletedAt := Some (de_now env), ch_UpdatedAt := de_now env,
              ch_Revoked := (if revoke then True else ch_Revoked c)\<rparr>)"

definition Project_Delete :: "db_env \<Rightarrow> uuid \<Rightarrow> tenancy_op" where
  "Project_Delete env i =
     in_tx
       [tx_try env ''begin transaction'' (tx_ok (\<lambda>db. db)),
        tx_try env ''soft-delete api_keys'' (tx_ok (\<lambda>db. db\<lparr>td_keys := close_children env i True (td_keys db)\<rparr>)),
        tx_try env ''soft-delete routes'' (tx_ok (\<lambda>db. db\<lparr>td_routes := close_children env i False (td_routes db)\<rparr>)),
        tx_try env ''soft-delete upstreams'' (tx_ok (\<lambda>db. db\<lparr>td_upstreams := close_children env i False (td_upstreams db)\<rparr>)),
        project_exec env ''soft-delete project'' ErrProjectNotFound i (\<lambda>p. p\<lparr>prj_DeletedAt := Some (de_now env)\<rparr>),
        tx_try env ''commit transaction'' (tx_ok (\<lambda>db. db))]"

definition Suspend :: "db_env \<Rightarrow> uuid \<Rightarrow> tenancy_op" where
  "Suspend env i = project_exec env ''suspend project'' ErrProjectNotFound i
     (\<lambda>p. p\<lparr>prj_IsActive := False, prj_UpdatedAt := de_now env\<rparr>)"

definition Reactivate :: "db_env \<Rightarrow> uuid \<Rightarrow> tenancy_op" where
  "Reactivate env i = project_exec env ''reactivate project'' ErrProjectNotFound i
     (\<lambda>p. p\<lparr>prj_IsActive := True, prj_UpdatedAt := de_now env\<rparr>)"

definition UpdateDashboardOrigins :: "db_env \<Rightarrow> uuid \<Rightarrow> string list \<Rightarrow> tenancy_op" where
  "UpdateDashboardOrigins env i origins db =
     (if length origins > 10 then (Some ErrTooManyOrigins, db)
      else project_exec env ''update dashboard origins'' ErrNoRows i
             (\<lambda>p. p\<lparr>prj_Origins := origins, prj_UpdatedAt := de_now env\<rparr>) db)"

definition IsActive :: "db_env \<Rightarrow> uuid \<Rightarrow> bool tenancy_query" where
  "IsActive env i =
     tx_read env ''IsActive project'' (\<lambda>db.
       case List.find (\<lambda>p. prj_ID p = i \<and> prj_live p) (td_projects db) of
         None \<Rightarrow> Inl ErrProjectNotFound
       | Some p \<Rightarrow> Inr (prj_IsActive p))"

definition IsSuperAdmin :: "db_env \<Rightarrow> uuid \<Rightarrow> bool tenancy_query" where
  "IsSuperAdmin env userID =
     tx_read env ''IsSuperAdmin query'' (\<lambda>db.
       case List.find (\<lambda>u. au_ID u = userID) (td_users db) of
         None \<Rightarrow> Inr False
       | Some u \<Rightarrow> Inr (au_IsSuperAdmin u))"

section \<open>Members\<close>

definition member_of :: "uuid \<Rightarrow> uuid \<Rightarrow> member_row \<Rightarrow> bool" where
  "member_of projectID userID m \<longleftrightarrow> mb_ProjectID m = projectID \<and> mb_UserID m = userID"

definition ValidateMembership :: "db_env \<Rightarrow> uuid \<Rightarrow> uuid \<Rightarrow> member_role tenancy_query" where
  "ValidateMembership env projectID userID =
     tx_read env ''ValidateMembership'' (\<lambda>db.
       case List.find (\<lambda>m. member_of projectID userID m
                      \<and> list_ex (\<lambda>p. prj_ID p = projectID \<and> prj_live p) (td_projects db)
                      \<and> list_ex (\<lambda>u. au_ID u = userID \<and> au_DeletedAt u = None \<and> au_IsActive u) (td_users db))
              (td_members db) of
         None \<Rightarrow> Inl ErrForbidden
       | Some m \<Rightarrow> Inr (mb_Role m))"

definition AddMember :: "db_env \<Rightarrow> uuid \<Rightarrow> uuid \<Rightarrow> member_role \<Rightarrow> uuid \<Rightarrow> tenancy_op" where
  "AddMember env projectID userID role inviterID =
     tx_try env ''check membership'' (\<lambda>db.
       if list_ex (member_of projectID userID) (td_members db) then (Some ErrAlreadyMember, db)
       else tx_try env ''insert project member'' (\<lambda>db.
         if list_ex (member_of projectID userID) (td_members db)
            \<or> projectID \<notin> set (map prj_ID (td_projects db)) \<or> userID \<notin> set (map au_ID (td_users db))
            \<or> inviterID \<notin> set (map au_ID (td_users db))
         then (Some (TenancySql ''insert project member'' ''constraint violation''), db)
         else (None, db\<lparr>td_members := td_members db @
                [\<lparr>mb_ProjectID = projectID, mb_UserID = userID, mb_Role = role, mb_InvitedBy = Some inviterID,
                  mb_JoinedAt = de_now env\<rparr>]\<rparr>)) db)"

definition ownerCount :: "uuid \<Rightarrow> tenancy \<Rightarrow> nat" where
  "ownerCount projectID db = length (filter (\<lambda>m. mb_ProjectID m = projectID \<and> mb_Role m = RoleOwner) (td_members db))"

definition currentRole :: "db_env \<Rightarrow> uuid \<Rightarrow> uuid \<Rightarrow> member_role tenancy_query" where
  "currentRole env projectID memberID =
     tx_read env ''get member role'' (\<lambda>db.
       case List.find (member_of projectID memberID) (td_members db) of
         None \<Rightarrow> Inl ErrNotFound
       | Some m \<Rightarrow> Inr (mb_Role m))"

text \<open>The read half of a change: \<open>Inl\<close> is the answer if it ends there.\<close>

definition lastOwnerCheck :: "db_env \<Rightarrow> uuid \<Rightarrow> bool \<Rightarrow> unit tenancy_query" where
  "lastOwnerCheck env projectID leaves =
     (\<lambda>db. if leaves
           then tx_read env ''count project owners'' (\<lambda>db. if ownerCount projectID db \<le> 1 then Inl ErrLastOwner else Inr ()) db
           else Inr ())"

definition UpdateRole_read :: "db_env \<Rightarrow> uuid \<Rightarrow> uuid \<Rightarrow> member_role \<Rightarrow> tenancy \<Rightarrow> tenancy_error option + unit" where
  "UpdateRole_read env projectID memberID role db =
     (case currentRole env projectID memberID db of
        Inl e \<Rightarrow> Inl (Some e)
      | Inr current \<Rightarrow>
          if current = role then Inl None
          else (case lastOwnerCheck env projectID (current = RoleOwner \<and> role \<noteq> RoleOwner) db of
                  Inl e \<Rightarrow> Inl (Some e)
                | Inr _ \<Rightarrow> Inr ()))"

definition UpdateRole_write :: "db_env \<Rightarrow> uuid \<Rightarrow> uuid \<Rightarrow> member_role \<Rightarrow> tenancy_op" where
  "UpdateRole_write env projectID memberID role =
     tx_try env ''update member role'' (\<lambda>db.
       let db' = db\<lparr>td_members := sql_update (member_of projectID memberID) (\<lambda>m. m\<lparr>mb_Role := role\<rparr>) (td_members db)\<rparr>
       in if filter (member_of projectID memberID) (td_members db) = [] \<or> de_fault env ''rows affected'' \<noteq> None
          then (Some ErrNotFound, db') else (None, db'))"

definition UpdateRole :: "db_env \<Rightarrow> uuid \<Rightarrow> uuid \<Rightarrow> member_role \<Rightarrow> tenancy_op" where
  "UpdateRole env projectID memberID role db =
     (case UpdateRole_read env projectID memberID role db of
        Inl answer \<Rightarrow> (answer, db)
      | Inr _ \<Rightarrow> UpdateRole_write env projectID memberID role db)"

definition RemoveMember_read :: "db_env \<Rightarrow> uuid \<Rightarrow> uuid \<Rightarrow> tenancy \<Rightarrow> tenancy_error option + unit" where
  "RemoveMember_read env projectID memberID db =
     (case tx_read env ''get project owner'' (\<lambda>db. case List.find (\<lambda>p. prj_ID p = projectID) (td_projects db) of
             None \<Rightarrow> Inl ErrNotFound | Some p \<Rightarrow> Inr (prj_OwnerID p)) db of
        Inl e \<Rightarrow> Inl (Some e)
      | Inr ownerID \<Rightarrow>
          if ownerID = memberID then Inl (Some ErrIsProjectOwner)
          else
            (case currentRole env projectID memberID db of
               Inl e \<Rightarrow> Inl (Some e)
             | Inr current \<Rightarrow>
                 (case lastOwnerCheck env projectID (current = RoleOwner) db of
                    Inl e \<Rightarrow> Inl (Some e)
                  | Inr _ \<Rightarrow> Inr ())))"

definition RemoveMember_write :: "db_env \<Rightarrow> uuid \<Rightarrow> uuid \<Rightarrow> tenancy_op" where
  "RemoveMember_write env projectID memberID =
     tx_try env ''delete member'' (\<lambda>db.
       let db' = db\<lparr>td_members := filter (\<lambda>m. \<not> member_of projectID memberID m) (td_members db)\<rparr>
       in if filter (member_of projectID memberID) (td_members db) = [] \<or> de_fault env ''rows affected'' \<noteq> None
          then (Some ErrNotFound, db') else (None, db'))"

definition RemoveMember :: "db_env \<Rightarrow> uuid \<Rightarrow> uuid \<Rightarrow> tenancy_op" where
  "RemoveMember env projectID memberID db =
     (case RemoveMember_read env projectID memberID db of
        Inl answer \<Rightarrow> (answer, db)
      | Inr _ \<Rightarrow> RemoveMember_write env projectID memberID db)"

definition FindUserByEmail :: "db_env \<Rightarrow> string \<Rightarrow> admin_user tenancy_query" where
  "FindUserByEmail env email =
     tx_read env ''FindUserByEmail'' (\<lambda>db.
       case List.find (\<lambda>u. EqualFold (au_Email u) email \<and> au_IsActive u \<and> au_DeletedAt u = None) (td_users db) of
         None \<Rightarrow> Inl ErrNoRows
       | Some u \<Rightarrow> Inr u)"

section \<open>The services\<close>

definition member_role_of :: "string \<Rightarrow> member_role option" where
  "member_role_of s =
     (if s = ''owner'' then Some RoleOwner else if s = ''editor'' then Some RoleEditor
      else if s = ''viewer'' then Some RoleViewer else None)"

definition MembershipService_AddMember :: "db_env \<Rightarrow> uuid \<Rightarrow> string \<Rightarrow> string \<Rightarrow> uuid \<Rightarrow> tenancy_op" where
  "MembershipService_AddMember env projectID email role inviterID db =
     (case member_role_of role of
        None \<Rightarrow> (Some ErrInvalidMemberRole, db)
      | Some r \<Rightarrow>
          (case FindUserByEmail env email db of
             Inl e \<Rightarrow> (Some e, db)
           | Inr target \<Rightarrow> AddMember env projectID (au_ID target) r inviterID db))"

definition MembershipService_ChangeRole :: "db_env \<Rightarrow> uuid \<Rightarrow> uuid \<Rightarrow> string \<Rightarrow> tenancy_op" where
  "MembershipService_ChangeRole env projectID targetUserID newRole db =
     (case member_role_of newRole of
        None \<Rightarrow> (Some ErrInvalidMemberRole, db)
      | Some r \<Rightarrow> UpdateRole env projectID targetUserID r db)"

definition MembershipService_RemoveMember :: "db_env \<Rightarrow> uuid \<Rightarrow> uuid \<Rightarrow> tenancy_op" where
  "MembershipService_RemoveMember env projectID targetUserID = RemoveMember env projectID targetUserID"

definition CreateProject :: "db_env \<Rightarrow> string \<Rightarrow> string \<Rightarrow> string \<Rightarrow> uuid \<Rightarrow> string \<Rightarrow> tenancy_op" where
  "CreateProject env name slug description ownerID plan =
     Project_Create env name (ToLower slug) description ownerID (if plan = [] then ''free'' else plan)"

section \<open>Every project has an owner\<close>

inductive tenancy_step :: "tenancy \<Rightarrow> tenancy \<Rightarrow> bool" where
  "tenancy_step db (snd (CreateProject env name slug description ownerID plan db))"
| "tenancy_step db (snd (Project_Update env i name description plan db))"
| "tenancy_step db (snd (Project_Delete env i db))"
| "tenancy_step db (snd (Suspend env i db))"
| "tenancy_step db (snd (Reactivate env i db))"
| "tenancy_step db (snd (UpdateDashboardOrigins env i origins db))"
| "tenancy_step db (snd (MembershipService_AddMember env projectID email role inviterID db))"
| "tenancy_step db (snd (MembershipService_ChangeRole env projectID targetUserID newRole db))"
| "tenancy_step db (snd (MembershipService_RemoveMember env projectID targetUserID db))"

definition member_key :: "member_row \<Rightarrow> uuid \<times> uuid" where
  "member_key m = (mb_ProjectID m, mb_UserID m)"

definition has_owner :: "uuid \<Rightarrow> member_row list \<Rightarrow> bool" where
  "has_owner p ms \<longleftrightarrow> (\<exists>m \<in> set ms. mb_ProjectID m = p \<and> mb_Role m = RoleOwner)"

text \<open>
  Keys are unique, members belong to known projects, and a project has an owner and its creator
  among its members.
\<close>

definition members_ok :: "(uuid \<times> uuid) list \<Rightarrow> member_row list \<Rightarrow> bool" where
  "members_ok ps ms \<longleftrightarrow>
     distinct (map member_key ms) \<and> mb_ProjectID ` set ms \<subseteq> fst ` set ps
     \<and> (\<forall>(p, creator) \<in> set ps. has_owner p ms \<and> (p, creator) \<in> member_key ` set ms)"

definition project_keys :: "tenancy \<Rightarrow> (uuid \<times> uuid) list" where
  "project_keys db = map (\<lambda>p. (prj_ID p, prj_OwnerID p)) (td_projects db)"

definition tenancy_ok :: "tenancy \<Rightarrow> bool" where
  "tenancy_ok db \<longleftrightarrow> distinct (map prj_ID (td_projects db)) \<and> members_ok (project_keys db) (td_members db)"

lemma ownerCount_pos: "1 \<le> ownerCount p db \<longleftrightarrow> has_owner p (td_members db)"
proof -
  have "1 \<le> ownerCount p db \<longleftrightarrow> filter (\<lambda>m. mb_ProjectID m = p \<and> mb_Role m = RoleOwner) (td_members db) \<noteq> []"
    by (simp add: ownerCount_def Suc_le_eq)
  then show ?thesis by (auto simp: has_owner_def filter_empty_conv)
qed

lemma another_owner:
  assumes "distinct (map member_key (td_members db))" "1 < ownerCount p db"
  shows "\<exists>m \<in> set (td_members db). mb_ProjectID m = p \<and> mb_Role m = RoleOwner \<and> mb_UserID m \<noteq> u"
proof (rule ccontr)
  let ?ms = "filter (\<lambda>m. mb_ProjectID m = p \<and> mb_Role m = RoleOwner) (td_members db)"
  assume "\<not> ?thesis"
  then have "set (map member_key ?ms) \<subseteq> {(p, u)}" by (auto simp: member_key_def)
  moreover have "distinct (map member_key ?ms)" by (rule distinct_map_filter [OF assms(1)])
  ultimately have "length (map member_key ?ms) \<le> 1"
    using card_mono [of "{(p, u)}" "set (map member_key ?ms)"] distinct_card [of "map member_key ?ms"] by simp
  then show False using assms(2) by (simp add: ownerCount_def)
qed

lemma tx_try_snd: "snd (tx_try env s op db) \<in> {db, snd (op db)}"
  by (simp add: tx_try_def split: option.split)

lemma in_tx_snd: "snd (in_tx ops db) = db \<or> (\<exists>db'. tx_all ops db = (None, db') \<and> snd (in_tx ops db) = db')"
  by (cases "tx_all ops db"; cases "fst (tx_all ops db)") (auto simp: in_tx_def)

lemma tx_try_None: "tx_try env s op db = (None, db') \<Longrightarrow> op db = (None, db')"
  by (simp add: tx_try_def split: option.splits)

lemma tx_all_Cons_None:
  "tx_all (op # ops) db = (None, db') \<longleftrightarrow> (\<exists>db1. op db = (None, db1) \<and> tx_all ops db1 = (None, db'))"
  by (simp split: prod.split option.split)

lemma project_exec_tables:
  assumes "\<And>p. prj_ID (f p) = prj_ID p \<and> prj_OwnerID (f p) = prj_OwnerID p"
  shows "map prj_ID (td_projects (snd (project_exec env s e i f db))) = map prj_ID (td_projects db)
    \<and> project_keys (snd (project_exec env s e i f db)) = project_keys db
    \<and> td_members (snd (project_exec env s e i f db)) = td_members db"
  using assms by (simp add: project_exec_def tx_try_def Let_def project_keys_def sql_update_def split: option.split)

lemma tenancy_ok_same:
  "tenancy_ok db \<Longrightarrow> map prj_ID (td_projects db') = map prj_ID (td_projects db) \<Longrightarrow> project_keys db' = project_keys db
     \<Longrightarrow> td_members db' = td_members db \<Longrightarrow> tenancy_ok db'"
  by (simp add: tenancy_ok_def)

lemma project_exec_ok:
  assumes "tenancy_ok db" "\<And>p. prj_ID (f p) = prj_ID p \<and> prj_OwnerID (f p) = prj_OwnerID p"
  shows "tenancy_ok (snd (project_exec env s e i f db))"
  using tenancy_ok_same [OF assms(1)] project_exec_tables [of f env s e i db] assms(2) by simp

lemma Project_Update_ok:
  assumes "tenancy_ok db"
  shows "tenancy_ok (snd (Project_Update env i name description plan db))"
proof -
  let ?db = "snd (Project_Update env i name description plan db)"
  have "map prj_ID (td_projects ?db) = map prj_ID (td_projects db)" and "project_keys ?db = project_keys db"
    and "td_members ?db = td_members db"
    by (simp_all add: Project_Update_def tx_try_def Let_def project_keys_def sql_update_def split: option.split)
  then show ?thesis by (rule tenancy_ok_same [OF assms])
qed

lemma Project_Delete_ok:
  assumes "tenancy_ok db"
  shows "tenancy_ok (snd (Project_Delete env i db))"
proof -
  have "tenancy_ok db'" if run: "Project_Delete env i db = (None, db')" for db'
  proof -
    let ?f = "\<lambda>p. p\<lparr>prj_DeletedAt := Some (de_now env)\<rparr>"
    let ?db1 = "db\<lparr>td_keys := close_children env i True (td_keys db), td_routes := close_children env i False (td_routes db),
      td_upstreams := close_children env i False (td_upstreams db)\<rparr>"
    have pe: "project_exec env ''soft-delete project'' ErrProjectNotFound i ?f ?db1 = (None, db')"
      using run unfolding Project_Delete_def in_tx_def
      by (auto simp: tx_all_Cons_None tx_ok_def split: prod.splits option.splits dest!: tx_try_None)
    have "tenancy_ok ?db1" using assms by (simp add: tenancy_ok_def project_keys_def)
    from project_exec_ok [OF this, of ?f env "''soft-delete project''" ErrProjectNotFound i] pe show ?thesis by simp
  qed
  moreover have "snd (Project_Delete env i db) = db \<or> (\<exists>db'. Project_Delete env i db = (None, db') \<and> snd (Project_Delete env i db) = db')"
    unfolding Project_Delete_def in_tx_def by (auto split: prod.splits option.splits)
  ultimately show ?thesis using assms by auto
qed

lemma new_member_ok:
  assumes "members_ok ps ms" "(p, u) \<notin> member_key ` set ms" "mb_ProjectID m = p" "mb_UserID m = u" "p \<in> fst ` set ps"
  shows "members_ok ps (ms @ [m])"
  using assms unfolding members_ok_def has_owner_def by (auto simp: member_key_def)

lemma AddMember_ok:
  assumes "tenancy_ok db"
  shows "tenancy_ok (snd (AddMember env p u r inviter db))"
proof -
  have "members_ok (project_keys db) (td_members db @ [m])"
    if "\<not> list_ex (member_of p u) (td_members db)" "p \<in> set (map prj_ID (td_projects db))"
      "mb_ProjectID m = p" "mb_UserID m = u" for m
    using assms that
    by (intro new_member_ok [where p = p and u = u])
       (auto simp: tenancy_ok_def list_ex_iff member_of_def member_key_def project_keys_def image_iff)
  then show ?thesis
    using assms unfolding AddMember_def
    by (auto simp: tx_try_def tenancy_ok_def project_keys_def split: option.split)
qed

lemma Project_Create_ok:
  assumes "tenancy_ok db"
  shows "tenancy_ok (snd (Project_Create env name slug description ownerID plan db))"
proof -
  let ?m = "\<lparr>mb_ProjectID = de_uuid env, mb_UserID = ownerID, mb_Role = RoleOwner, mb_InvitedBy = None, mb_JoinedAt = de_now env\<rparr>"
  let ?p = "new_project env name slug description ownerID plan"
  have "tenancy_ok db'" if run: "Project_Create env name slug description ownerID plan db = (None, db')" for db'
  proof -
    obtain db1 where ins: "Project_insert env name slug description ownerID plan db = (None, db1)"
      and db': "db' = db1\<lparr>td_members := td_members db1 @ [?m]\<rparr>"
      using run unfolding Project_Create_def in_tx_def
      by (auto simp: tx_all_Cons_None tx_ok_def split: prod.splits option.splits dest!: tx_try_None)
    have db1: "db1 = db\<lparr>td_projects := td_projects db @ [?p]\<rparr>" and new: "de_uuid env \<notin> set (map prj_ID (td_projects db))"
      using ins by (auto simp: Project_insert_def split: if_splits)
    have "de_uuid env \<notin> mb_ProjectID ` set (td_members db)"
      using assms new by (auto simp: tenancy_ok_def members_ok_def project_keys_def)
    then show ?thesis
      using assms new unfolding db' db1 tenancy_ok_def members_ok_def has_owner_def project_keys_def
      by (auto simp: member_key_def new_project_def image_iff)
  qed
  moreover have "snd (Project_Create env name slug description ownerID plan db) = db
      \<or> (\<exists>db'. Project_Create env name slug description ownerID plan db = (None, db'))"
    unfolding Project_Create_def in_tx_def by (auto split: prod.splits option.splits)
  ultimately show ?thesis using assms by auto
qed

lemma members_ok_change:
  assumes "members_ok ps ms" "distinct (map member_key ms')" "mb_ProjectID ` set ms' \<subseteq> mb_ProjectID ` set ms"
    and own: "\<And>q. has_owner q ms \<Longrightarrow> has_owner q ms'" and keep: "\<And>k. k \<in> set ps \<Longrightarrow> k \<in> member_key ` set ms \<Longrightarrow> k \<in> member_key ` set ms'"
  shows "members_ok ps ms'"
  unfolding members_ok_def
proof (intro conjI ballI)
  fix k assume k: "k \<in> set ps"
  then show "case k of (p, creator) \<Rightarrow> has_owner p ms' \<and> (p, creator) \<in> member_key ` set ms'"
    using assms(1) own keep [OF k] unfolding members_ok_def by auto
qed (use assms(1-3) in \<open>auto simp: members_ok_def\<close>)

lemma update_role_ok:
  assumes ok: "members_ok ps ms" and other: "r \<noteq> RoleOwner \<Longrightarrow>
      (\<exists>m \<in> set ms. mb_ProjectID m = p \<and> mb_Role m = RoleOwner \<and> mb_UserID m \<noteq> u)
      \<or> \<not> list_ex (\<lambda>m. member_of p u m \<and> mb_Role m = RoleOwner) ms"
  shows "members_ok ps (sql_update (member_of p u) (\<lambda>m. m\<lparr>mb_Role := r\<rparr>) ms)"
proof -
  let ?f = "\<lambda>m. if member_of p u m then m\<lparr>mb_Role := r\<rparr> else m"
  have key: "member_key (?f m) = member_key m" "mb_ProjectID (?f m) = mb_ProjectID m" for m
    by (simp_all add: member_key_def)
  have "has_owner q (map ?f ms)" if own: "has_owner q ms" for q
  proof -
    from own obtain o1 where o1: "o1 \<in> set ms" "mb_ProjectID o1 = q" "mb_Role o1 = RoleOwner"
      by (auto simp: has_owner_def)
    have "\<exists>m \<in> set ms. mb_ProjectID m = q \<and> mb_Role m = RoleOwner \<and> (member_of p u m \<longrightarrow> r = RoleOwner)"
    proof (cases "member_of p u o1 \<and> r \<noteq> RoleOwner")
      case True
      with other o1 show ?thesis by (auto simp: member_of_def list_ex_iff)
    qed (use o1 in auto)
    then obtain m where "m \<in> set ms" "mb_ProjectID (?f m) = q" "mb_Role (?f m) = RoleOwner" by auto
    then show ?thesis unfolding has_owner_def by (intro bexI [where x = "?f m"]) auto
  qed
  moreover have "map member_key (map ?f ms) = map member_key ms" "mb_ProjectID ` set (map ?f ms) = mb_ProjectID ` set ms"
    by (simp_all only: map_map o_def key set_map image_image)
  moreover from arg_cong [OF this(1), of set] have "member_key ` set (map ?f ms) = member_key ` set ms"
    by (simp only: set_map)
  moreover have "distinct (map member_key ms)" using ok by (simp add: members_ok_def)
  ultimately show ?thesis unfolding sql_update_def by (intro members_ok_change [OF ok]) (simp_all only: subset_refl)
qed

lemma lastOwnerCheck_Inr:
  "lastOwnerCheck env p leaves db = Inr x \<Longrightarrow> leaves \<Longrightarrow> 1 < ownerCount p db"
  by (auto simp: lastOwnerCheck_def tx_read_def split: option.splits if_splits)

lemma currentRole_Inr:
  assumes "distinct (map member_key (td_members db))" "currentRole env p u db = Inr r" "m \<in> set (td_members db)" "member_of p u m"
  shows "mb_Role m = r"
proof -
  from assms(2) obtain m' where m': "m' \<in> set (td_members db)" "member_of p u m'" "mb_Role m' = r"
    by (auto simp: currentRole_def tx_read_def find_Some_iff split: option.splits dest: nth_mem)
  then have "member_key m = member_key m'" using assms(4) by (simp add: member_of_def member_key_def)
  then have "m = m'" using assms(1,3) m'(1) by (auto simp: distinct_map dest: inj_onD)
  then show ?thesis using m'(3) by simp
qed

text \<open>What the two reads establish: the change leaves the project another owner, or takes none.\<close>

lemma keeps_an_owner:
  assumes "tenancy_ok db" "currentRole env p u db = Inr r" "lastOwnerCheck env p (r = RoleOwner) db = Inr x"
  shows "(\<exists>m \<in> set (td_members db). mb_ProjectID m = p \<and> mb_Role m = RoleOwner \<and> mb_UserID m \<noteq> u)
    \<or> \<not> list_ex (\<lambda>m. member_of p u m \<and> mb_Role m = RoleOwner) (td_members db)"
proof -
  have dist: "distinct (map member_key (td_members db))" using assms(1) by (simp add: tenancy_ok_def members_ok_def)
  show ?thesis
  proof (cases "r = RoleOwner")
    case True
    then show ?thesis using another_owner [OF dist lastOwnerCheck_Inr [OF assms(3)]] by simp
  next
    case False
    then show ?thesis using currentRole_Inr [OF dist assms(2)] by (auto simp: list_ex_iff)
  qed
qed

lemma UpdateRole_ok:
  assumes ok: "tenancy_ok db"
  shows "tenancy_ok (snd (UpdateRole env p u r db))"
proof (cases "UpdateRole_read env p u r db")
  case (Inl a)
  then show ?thesis using ok by (simp add: UpdateRole_def)
next
  case (Inr x)
  then obtain current y where read: "currentRole env p u db = Inr current" 
    and check: "lastOwnerCheck env p (current = RoleOwner \<and> r \<noteq> RoleOwner) db = Inr y"
    by (auto simp: UpdateRole_read_def split: sum.splits if_splits)
  have "members_ok (project_keys db) (sql_update (member_of p u) (\<lambda>m. m\<lparr>mb_Role := r\<rparr>) (td_members db))"
    using ok check by (intro update_role_ok keeps_an_owner [OF ok read, of y]) (simp_all add: tenancy_ok_def)
  then show ?thesis
    using ok Inr
    by (simp add: UpdateRole_def UpdateRole_write_def tx_try_def Let_def tenancy_ok_def project_keys_def split: option.split)
qed

lemma remove_member_ok:
  assumes ok: "members_ok ps ms" and creator: "(p, u) \<notin> set ps" and other: 
      "(\<exists>m \<in> set ms. mb_ProjectID m = p \<and> mb_Role m = RoleOwner \<and> mb_UserID m \<noteq> u)
      \<or> \<not> list_ex (\<lambda>m. member_of p u m \<and> mb_Role m = RoleOwner) ms"
  shows "members_ok ps (filter (\<lambda>m. \<not> member_of p u m) ms)"
proof -
  let ?ms = "filter (\<lambda>m. \<not> member_of p u m) ms"
  have "has_owner q ?ms" if "has_owner q ms" for q
    using that other by (cases "q = p") (auto simp: has_owner_def member_of_def list_ex_iff)
  moreover have "k \<in> member_key ` set ?ms" if "k \<in> set ps" "k \<in> member_key ` set ms" for k
    using that creator by (auto simp: member_key_def member_of_def image_iff)
  moreover have "distinct (map member_key ?ms)" using ok by (simp add: members_ok_def distinct_map_filter)
  ultimately show ?thesis by (intro members_ok_change [OF ok]) auto
qed

lemma RemoveMember_ok:
  assumes ok: "tenancy_ok db"
  shows "tenancy_ok (snd (RemoveMember env p u db))"
proof (cases "RemoveMember_read env p u db")
  case (Inl a)
  then show ?thesis using ok by (simp add: RemoveMember_def)
next
  case (Inr x)
  then obtain pr current y where find: "List.find (\<lambda>q. prj_ID q = p) (td_projects db) = Some pr" "prj_OwnerID pr \<noteq> u"
    and read: "currentRole env p u db = Inr current" and check: "lastOwnerCheck env p (current = RoleOwner) db = Inr y"
    by (auto simp: RemoveMember_read_def tx_read_def split: sum.splits if_splits option.splits)
  have pr: "pr \<in> set (td_projects db)" "prj_ID pr = p" using find(1) by (auto simp: find_Some_iff)
  have "(p, u) \<notin> set (project_keys db)"
  proof
    assume "(p, u) \<in> set (project_keys db)"
    then obtain q where "q \<in> set (td_projects db)" "prj_ID q = p" "prj_OwnerID q = u" by (auto simp: project_keys_def)
    moreover from this pr ok have "q = pr" by (auto simp: tenancy_ok_def distinct_map dest: inj_onD)
    ultimately show False using find(2) by simp
  qed
  then have "members_ok (project_keys db) (filter (\<lambda>m. \<not> member_of p u m) (td_members db))"
    using ok by (intro remove_member_ok keeps_an_owner [OF ok read check]) (simp_all add: tenancy_ok_def)
  then show ?thesis
    using ok Inr
    by (simp add: RemoveMember_def RemoveMember_write_def tx_try_def Let_def tenancy_ok_def project_keys_def split: option.split)
qed

lemmas tenancy_preserved =
  Project_Create_ok Project_Update_ok Project_Delete_ok AddMember_ok UpdateRole_ok RemoveMember_ok project_exec_ok

lemma tenancy_step_ok: "tenancy_step db db' \<Longrightarrow> tenancy_ok db \<Longrightarrow> tenancy_ok db'"
  by (induction rule: tenancy_step.induct)
     (simp_all add: tenancy_preserved CreateProject_def Suspend_def Reactivate_def UpdateDashboardOrigins_def
        MembershipService_AddMember_def MembershipService_ChangeRole_def MembershipService_RemoveMember_def
        split: option.split sum.split)


definition demo_user :: "uuid \<Rightarrow> admin_user" where
  "demo_user i = \<lparr>au_ID = i, au_Username = i, au_Email = i @ ''@example.org'', au_IsActive = True, au_IsSuperAdmin = False,
     au_DeletedAt = None, au_PasswordHash = None, au_GoogleID = None, au_AvatarURL = None, au_AuthProvider = ''google'',
     au_EmailVerified = True, au_FailedLoginAttempts = 0, au_LockedUntil = None, au_LastLoginAt = None\<rparr>"

definition demo_users :: tenancy where
  "demo_users = \<lparr>td_projects = [], td_members = [], td_users = [demo_user ''ann'', demo_user ''bob''], td_keys = [], td_routes = [],
     td_upstreams = [], td_refresh = [], td_resets = [], td_verifications = []\<rparr>"

definition demo_db_env :: db_env where
  "demo_db_env = \<lparr>de_now = 0, de_clock = 0, de_uuid = ''shop'', de_skip = [], de_fault = (\<lambda>_. None)\<rparr>"

definition demo_shop :: tenancy where
  "demo_shop = snd (MembershipService_AddMember demo_db_env ''shop'' ''bob@example.org'' ''owner'' ''ann''
     (snd (CreateProject demo_db_env ''Shop'' ''SHOP'' [] ''ann'' [] demo_users)))"

lemma demo_shop_reached: "tenancy_step\<^sup>*\<^sup>* demo_users demo_shop"
proof -
  have "tenancy_step demo_users (snd (CreateProject demo_db_env ''Shop'' ''SHOP'' [] ''ann'' [] demo_users))"
    by (rule tenancy_step.intros)
  then show ?thesis
    unfolding demo_shop_def by (rule converse_rtranclp_into_rtranclp) (intro r_into_rtranclp tenancy_step.intros)
qed

lemma demo_shop_eval:
  "demo_shop = demo_users\<lparr>td_projects := [new_project demo_db_env ''Shop'' ''shop'' [] ''ann'' ''free''],
     td_members := [\<lparr>mb_ProjectID = ''shop'', mb_UserID = ''ann'', mb_Role = RoleOwner, mb_InvitedBy = None, mb_JoinedAt = 0\<rparr>,
       \<lparr>mb_ProjectID = ''shop'', mb_UserID = ''bob'', mb_Role = RoleOwner, mb_InvitedBy = Some ''ann'', mb_JoinedAt = 0\<rparr>]\<rparr>"
  by code_simp


text \<open>Two demotions that overlap.\<close>

lemma two_owners:
  assumes "u1 \<noteq> u2" "\<And>u. u \<in> {u1, u2} \<Longrightarrow> \<exists>m \<in> set (td_members db). member_of p u m \<and> mb_Role m = RoleOwner"
  shows "1 < ownerCount p db"
proof -
  let ?ms = "filter (\<lambda>m. mb_ProjectID m = p \<and> mb_Role m = RoleOwner) (td_members db)"
  have "{u1, u2} \<subseteq> set (map mb_UserID ?ms)"
    using assms(2) [of u1] assms(2) [of u2] by (auto simp: member_of_def)
  then have "card {u1, u2} \<le> length (map mb_UserID ?ms)"
    by (meson card_length card_mono finite_set order_trans)
  then show ?thesis using assms(1) by (simp add: ownerCount_def)
qed

lemma demotion_read:
  assumes "\<And>s. de_fault env s = None" "distinct (map member_key (td_members db))" "1 < ownerCount p db"
    "\<exists>m \<in> set (td_members db). member_of p u m \<and> mb_Role m = RoleOwner" "r \<noteq> RoleOwner"
  shows "UpdateRole_read env p u r db = Inr ()"
proof -
  obtain m where m: "m \<in> set (td_members db)" "member_of p u m" "mb_Role m = RoleOwner" using assms(4) by blast
  have "currentRole env p u db = Inr RoleOwner"
  proof (cases "currentRole env p u db")
    case (Inl e)
    then show ?thesis using assms(1) m
      by (auto simp: currentRole_def tx_read_def find_None_iff split: option.splits)
  next
    case (Inr r')
    then show ?thesis using currentRole_Inr [OF assms(2) Inr m(1,2)] m(3) by simp
  qed
  then show ?thesis using assms by (simp add: UpdateRole_read_def lastOwnerCheck_def tx_read_def)
qed

text \<open>
  A demotion reads the number of owners and writes the role in two statements. When the only
  two owners are demoted at once, both checks pass and the project is left without an owner.
\<close>

theorem concurrent_demotions_leave_no_owner:
  assumes faultless: "\<And>s. de_fault env s = None" and dist: "distinct (map member_key (td_members db))" and "u1 \<noteq> u2"
    and owners: "mb_UserID ` set (filter (\<lambda>m. mb_ProjectID m = p \<and> mb_Role m = RoleOwner) (td_members db)) = {u1, u2}"
    and roles: "r1 \<noteq> RoleOwner" "r2 \<noteq> RoleOwner"
  shows "UpdateRole_read env p u1 r1 db = Inr () \<and> UpdateRole_read env p u2 r2 db = Inr ()
    \<and> ownerCount p (snd (UpdateRole_write env p u2 r2 (snd (UpdateRole_write env p u1 r1 db)))) = 0"
proof (intro conjI)
  have own: "\<exists>m \<in> set (td_members db). member_of p u m \<and> mb_Role m = RoleOwner" if "u \<in> {u1, u2}" for u
    using that unfolding owners [symmetric] by (auto simp: member_of_def)
  have two: "1 < ownerCount p db" using two_owners [OF assms(3) own] .
  show "UpdateRole_read env p u1 r1 db = Inr ()" "UpdateRole_read env p u2 r2 db = Inr ()"
    using demotion_read [OF faultless dist two own] roles by simp_all
  have "mb_UserID m \<in> {u1, u2}" if "m \<in> set (td_members db)" "mb_ProjectID m = p" "mb_Role m = RoleOwner" for m
    unfolding owners [symmetric] using that by auto
  then show "ownerCount p (snd (UpdateRole_write env p u2 r2 (snd (UpdateRole_write env p u1 r1 db)))) = 0"
    using faultless roles
    by (auto simp: ownerCount_def filter_empty_conv UpdateRole_write_def tx_try_def Let_def sql_update_def member_of_def)
qed

theorem concurrent_demotions_leave_no_owner_witness:
  "UpdateRole_read demo_db_env ''shop'' ''ann'' RoleViewer demo_shop = Inr ()
   \<and> ownerCount ''shop'' (snd (UpdateRole_write demo_db_env ''shop'' ''bob'' RoleViewer
        (snd (UpdateRole_write demo_db_env ''shop'' ''ann'' RoleViewer demo_shop)))) = 0"
proof -
  have "mb_UserID ` set (filter (\<lambda>m. mb_ProjectID m = ''shop'' \<and> mb_Role m = RoleOwner) (td_members demo_shop)) = {''ann'', ''bob''}"
    by (simp add: demo_shop_eval)
  from concurrent_demotions_leave_no_owner [OF _ _ _ this, of demo_db_env RoleViewer RoleViewer] show ?thesis
    by (simp add: demo_shop_eval demo_db_env_def member_key_def)
qed

end
