(* ===== verification/Account_Store.thy ===== *)
theory Account_Store
  imports Tenancy_Store
begin

text \<open>
  The accounts of the control plane: the statements of \<^verbatim>\<open>internal/storage/admin_auth_repo.go\<close> on the users, their
  refresh tokens and the tokens mailed to them, the rules for passwords (\<^verbatim>\<open>internal/admin/password/validate.go\<close>),
  and the limiter of failed logins (\<^verbatim>\<open>internal/admin/middleware/rate_limit.go\<close>).

  Identifiers made by the database are an argument \<open>ids\<close>, indexed by the table. A transaction in which a
  statement failed is aborted: PostgreSQL refuses every further statement until it is rolled back.
\<close>

section \<open>Users\<close>

definition find_user :: "db_env \<Rightarrow> string \<Rightarrow> (admin_user \<Rightarrow> bool) \<Rightarrow> admin_user tenancy_query" where
  "find_user env stmt P =
     tx_read env stmt (\<lambda>db. case List.find P (td_users db) of None \<Rightarrow> Inl ErrNoRows | Some u \<Rightarrow> Inr u)"

definition FindAdminUserByUsername :: "db_env \<Rightarrow> string \<Rightarrow> admin_user tenancy_query" where
  "FindAdminUserByUsername env username = find_user env ''find user by username'' (\<lambda>u. au_Username u = username)"

definition FindAdminUserByID :: "db_env \<Rightarrow> uuid \<Rightarrow> admin_user tenancy_query" where
  "FindAdminUserByID env i = find_user env ''find user by id'' (\<lambda>u. au_ID u = i)"

definition FindAdminUserByGoogleID :: "db_env \<Rightarrow> string \<Rightarrow> admin_user tenancy_query" where
  "FindAdminUserByGoogleID env g = find_user env ''find user by google id'' (\<lambda>u. au_GoogleID u = Some g)"

text \<open>The column \<^verbatim>\<open>email\<close> is compared without regard to letter case.\<close>

definition FindAdminUserByEmail :: "db_env \<Rightarrow> string \<Rightarrow> admin_user tenancy_query" where
  "FindAdminUserByEmail env email = find_user env ''find user by email'' (\<lambda>u. EqualFold (au_Email u) email)"

definition users_update :: "(admin_user \<Rightarrow> bool) \<Rightarrow> (admin_user \<Rightarrow> admin_user) \<Rightarrow> tenancy \<Rightarrow> tenancy" where
  "users_update P f db = db\<lparr>td_users := sql_update P f (td_users db)\<rparr>"

definition UpdateAdminLoginSuccess :: "db_env \<Rightarrow> uuid \<Rightarrow> tenancy_op" where
  "UpdateAdminLoginSuccess env i =
     tx_try env ''update login success'' (tx_ok (users_update (\<lambda>u. au_ID u = i)
       (\<lambda>u. u\<lparr>au_FailedLoginAttempts := 0, au_LockedUntil := None, au_LastLoginAt := Some (de_now env)\<rparr>)))"

text \<open>The counter is a 32-bit column.\<close>

definition IncrementAdminLoginFailure :: "db_env \<Rightarrow> string \<Rightarrow> tenancy_op" where
  "IncrementAdminLoginFailure env username =
     tx_try env ''increment login failure'' (\<lambda>db.
       if list_ex (\<lambda>u. au_Username u = username \<and> au_FailedLoginAttempts u \<ge> 2147483647) (td_users db)
       then (Some (TenancySql ''increment login failure'' ''integer out of range''), db)
       else (None, users_update (\<lambda>u. au_Username u = username)
               (\<lambda>u. u\<lparr>au_FailedLoginAttempts := au_FailedLoginAttempts u + 1\<rparr>) db))"

definition LockAdminUser :: "db_env \<Rightarrow> string \<Rightarrow> go_time \<Rightarrow> tenancy_op" where
  "LockAdminUser env username until =
     tx_try env ''lock user'' (tx_ok (users_update (\<lambda>u. au_Username u = username) (\<lambda>u. u\<lparr>au_LockedUntil := Some until\<rparr>)))"

definition AdminUserCount :: "db_env \<Rightarrow> nat tenancy_query" where
  "AdminUserCount env = tx_read env ''count users'' (\<lambda>db. Inr (length (td_users db)))"

text \<open>The check on the address: one \<^verbatim>\<open>@\<close>, something before it, and a dot inside what follows.\<close>

definition emailFormat :: "string \<Rightarrow> bool" where
  "emailFormat s = (case splitByte (CHR ''@'') s of [l, d] \<Rightarrow> l \<noteq> [] \<and> d \<noteq> [] \<and> CHR ''.'' \<in> set (butlast (tl d)) | _ \<Rightarrow> False)"

text \<open>The constraints of the table, in the order in which the database looks at them.\<close>

definition user_violation :: "admin_user \<Rightarrow> tenancy \<Rightarrow> tenancy_error option" where
  "user_violation u db =
     (if \<not> emailFormat (au_Email u) \<or> au_AuthProvider u = ''password'' \<and> au_PasswordHash u = None
      then Some (TenancySql ''insert admin_user'' ''check constraint'')
      else if list_ex (\<lambda>v. au_ID v = au_ID u) (td_users db) then Some (UniqueViolation ''admin_users_pkey'')
      else if list_ex (\<lambda>v. au_Username v = au_Username u) (td_users db) then Some (UniqueViolation ''admin_users_username_key'')
      else if list_ex (\<lambda>v. EqualFold (au_Email v) (au_Email u)) (td_users db) then Some (UniqueViolation ''admin_users_email_unique'')
      else if au_GoogleID u \<noteq> None \<and> list_ex (\<lambda>v. au_GoogleID v = au_GoogleID u) (td_users db)
      then Some (UniqueViolation ''idx_admin_users_google_id'')
      else None)"

definition insert_user :: "admin_user \<Rightarrow> tenancy_op" where
  "insert_user u db =
     (case user_violation u db of
        Some e \<Rightarrow> (Some e, db)
      | None \<Rightarrow> (None, db\<lparr>td_users := td_users db @ [u]\<rparr>))"

definition new_user :: "uuid \<Rightarrow> string \<Rightarrow> string \<Rightarrow> string option \<Rightarrow> string \<Rightarrow> bool \<Rightarrow> bool \<Rightarrow> admin_user" where
  "new_user i username email passwordHash provider isSuperAdmin verified =
     \<lparr>au_ID = i, au_Username = username, au_Email = email, au_IsActive = True, au_IsSuperAdmin = isSuperAdmin,
      au_DeletedAt = None, au_PasswordHash = passwordHash, au_GoogleID = None, au_AvatarURL = None, au_AuthProvider = provider,
      au_EmailVerified = verified, au_FailedLoginAttempts = 0, au_LockedUntil = None, au_LastLoginAt = None\<rparr>"

text \<open>An insert with \<^verbatim>\<open>ON CONFLICT DO NOTHING\<close> on one index returns no row when a row is in the way there.\<close>

definition insert_user_unless :: "(admin_user \<Rightarrow> bool) \<Rightarrow> admin_user \<Rightarrow> tenancy_op" where
  "insert_user_unless conflict u db =
     (if emailFormat (au_Email u) \<and> list_ex conflict (td_users db) then (Some ErrNoRows, db) else insert_user u db)"

definition CreateAdminUser :: "db_env \<Rightarrow> (string \<Rightarrow> uuid) \<Rightarrow> string \<Rightarrow> string \<Rightarrow> bool \<Rightarrow> tenancy_op" where
  "CreateAdminUser env ids username passwordHash isSuperAdmin =
     tx_try env ''create admin user'' (insert_user_unless (\<lambda>v. au_Username v = username)
       (new_user (ids ''admin_users'') username (username @ ''@elitegate.local'') (Some passwordHash) ''password'' isSuperAdmin True))"

definition LinkGoogleAccount :: "db_env \<Rightarrow> uuid \<Rightarrow> string \<Rightarrow> string \<Rightarrow> tenancy_op" where
  "LinkGoogleAccount env i googleID avatarURL =
     tx_try env ''link google account'' (\<lambda>db.
       if list_ex (\<lambda>u. au_ID u = i) (td_users db) \<and> list_ex (\<lambda>u. au_ID u \<noteq> i \<and> au_GoogleID u = Some googleID) (td_users db)
       then (Some (UniqueViolation ''idx_admin_users_google_id''), db)
       else (None, users_update (\<lambda>u. au_ID u = i)
               (\<lambda>u. u\<lparr>au_GoogleID := Some googleID, au_AvatarURL := (if avatarURL \<noteq> [] then Some avatarURL else au_AvatarURL u),
                      au_EmailVerified := True\<rparr>) db))"

section \<open>Refresh tokens\<close>

definition refresh_update :: "(refresh_token \<Rightarrow> bool) \<Rightarrow> go_time \<Rightarrow> tenancy \<Rightarrow> tenancy" where
  "refresh_update P now db =
     db\<lparr>td_refresh := sql_update (\<lambda>t. P t \<and> rft_RevokedAt t = None) (\<lambda>t. t\<lparr>rft_RevokedAt := Some now\<rparr>) (td_refresh db)\<rparr>"

definition insert_refresh :: "(string \<Rightarrow> uuid) \<Rightarrow> uuid \<Rightarrow> string \<Rightarrow> go_time \<Rightarrow> tenancy_op" where
  "insert_refresh ids userID tokenHash expiresAt db =
     (if list_ex (\<lambda>t. rft_TokenHash t = tokenHash \<or> rft_ID t = ids ''refresh_tokens'') (td_refresh db)
      then (Some (UniqueViolation ''refresh_tokens_token_hash_key''), db)
      else if \<not> list_ex (\<lambda>u. au_ID u = userID) (td_users db)
      then (Some (TenancySql ''create refresh token'' ''foreign key constraint''), db)
      else (None, db\<lparr>td_refresh := td_refresh db @
              [\<lparr>rft_ID = ids ''refresh_tokens'', rft_AdminUserID = userID, rft_TokenHash = tokenHash, rft_ExpiresAt = expiresAt,
                rft_RevokedAt = None\<rparr>]\<rparr>))"

definition CreateRefreshToken :: "db_env \<Rightarrow> (string \<Rightarrow> uuid) \<Rightarrow> uuid \<Rightarrow> string \<Rightarrow> go_time \<Rightarrow> tenancy_op" where
  "CreateRefreshToken env ids userID tokenHash expiresAt =
     tx_try env ''create refresh token'' (insert_refresh ids userID tokenHash expiresAt)"

definition FindRefreshToken :: "db_env \<Rightarrow> string \<Rightarrow> refresh_token tenancy_query" where
  "FindRefreshToken env tokenHash =
     tx_read env ''find refresh token'' (\<lambda>db.
       case List.find (\<lambda>t. rft_TokenHash t = tokenHash) (td_refresh db) of None \<Rightarrow> Inl ErrNoRows | Some t \<Rightarrow> Inr t)"

definition RevokeRefreshToken :: "db_env \<Rightarrow> string \<Rightarrow> tenancy_op" where
  "RevokeRefreshToken env tokenHash =
     tx_try env ''revoke refresh token'' (tx_ok (refresh_update (\<lambda>t. rft_TokenHash t = tokenHash) (de_now env)))"

definition tx_begin :: "db_env \<Rightarrow> tenancy_op" where
  "tx_begin env = tx_try env ''begin transaction'' (tx_ok (\<lambda>db. db))"

definition tx_commit :: "db_env \<Rightarrow> tenancy_op" where
  "tx_commit env = tx_try env ''commit transaction'' (tx_ok (\<lambda>db. db))"

text \<open>An update that checks how many rows it touched.\<close>

definition tx_affects :: "db_env \<Rightarrow> string \<Rightarrow> tenancy_error \<Rightarrow> (tenancy \<Rightarrow> bool) \<Rightarrow> (tenancy \<Rightarrow> tenancy) \<Rightarrow> tenancy_op" where
  "tx_affects env stmt missing enough f =
     tx_try env stmt (\<lambda>db.
       case de_fault env ''rows affected'' of
         Some e \<Rightarrow> (Some (TenancySql ''rows affected'' e), f db)
       | None \<Rightarrow> if enough db then (None, f db) else (Some missing, f db))"

definition RotateRefreshToken ::
  "db_env \<Rightarrow> (string \<Rightarrow> uuid) \<Rightarrow> string \<Rightarrow> string \<Rightarrow> uuid \<Rightarrow> go_time \<Rightarrow> tenancy_op" where
  "RotateRefreshToken env ids oldHash newHash userID newExpiresAt =
     in_tx
       [tx_begin env,
        tx_affects env ''revoke old token'' ErrNoRows
          (\<lambda>db. length (filter (\<lambda>t. rft_TokenHash t = oldHash \<and> rft_RevokedAt t = None) (td_refresh db)) = 1)
          (refresh_update (\<lambda>t. rft_TokenHash t = oldHash) (de_now env)),
        tx_try env ''insert new token'' (insert_refresh ids userID newHash newExpiresAt),
        tx_commit env]"

definition PruneExpiredTokens :: "db_env \<Rightarrow> tenancy_op" where
  "PruneExpiredTokens env =
     tx_try env ''prune tokens'' (tx_ok (\<lambda>db. db\<lparr>td_refresh :=
       filter (\<lambda>t. \<not> (rft_ExpiresAt t < de_now env
                      \<or> (case rft_RevokedAt t of None \<Rightarrow> False | Some r \<Rightarrow> r < de_now env - 7 * 24 * 3600 * 1000000000))) (td_refresh db)\<rparr>))"

section \<open>Mailed tokens\<close>

text \<open>A token is usable before it expires, once.\<close>

definition mt_usable :: "db_env \<Rightarrow> mailed_token \<Rightarrow> bool" where
  "mt_usable env t \<longleftrightarrow> mt_UsedAt t = None \<and> mt_ExpiresAt t > de_now env"

definition use_tokens :: "(mailed_token \<Rightarrow> bool) \<Rightarrow> go_time \<Rightarrow> mailed_token list \<Rightarrow> mailed_token list" where
  "use_tokens P now = sql_update P (\<lambda>t. t\<lparr>mt_UsedAt := Some now\<rparr>)"

definition token_violation :: "uuid \<Rightarrow> uuid \<Rightarrow> string \<Rightarrow> tenancy \<Rightarrow> mailed_token list \<Rightarrow> tenancy_error option" where
  "token_violation i userID tokenHash db ts =
     (if list_ex (\<lambda>t. mt_TokenHash t = tokenHash \<or> mt_ID t = i) ts then Some (UniqueViolation ''tokens_token_hash_key'')
      else if \<not> list_ex (\<lambda>u. au_ID u = userID) (td_users db) then Some (TenancySql ''insert token'' ''foreign key constraint'')
      else None)"

definition new_token :: "uuid \<Rightarrow> uuid \<Rightarrow> string \<Rightarrow> go_time \<Rightarrow> mailed_token" where
  "new_token i userID tokenHash expiresAt =
     \<lparr>mt_ID = i, mt_AdminUserID = userID, mt_TokenHash = tokenHash, mt_ExpiresAt = expiresAt, mt_UsedAt = None\<rparr>"

definition lock_user_row :: "db_env \<Rightarrow> uuid \<Rightarrow> tenancy_op" where
  "lock_user_row env userID =
     tx_try env ''lock user row'' (\<lambda>db. if list_ex (\<lambda>u. au_ID u = userID) (td_users db) then (None, db) else (Some ErrNoRows, db))"

definition insert_reset :: "uuid \<Rightarrow> uuid \<Rightarrow> string \<Rightarrow> go_time \<Rightarrow> tenancy_op" where
  "insert_reset i userID tokenHash expiresAt db =
     (case token_violation i userID tokenHash db (td_resets db) of
        Some e \<Rightarrow> (Some e, db)
      | None \<Rightarrow>
          if list_ex (\<lambda>t. mt_AdminUserID t = userID \<and> mt_UsedAt t = None) (td_resets db)
          then (Some (UniqueViolation ''uq_password_reset_tokens_active_user''), db)
          else (None, db\<lparr>td_resets := td_resets db @ [new_token i userID tokenHash expiresAt]\<rparr>))"

definition insert_verification :: "uuid \<Rightarrow> uuid \<Rightarrow> string \<Rightarrow> go_time \<Rightarrow> tenancy_op" where
  "insert_verification i userID tokenHash expiresAt db =
     (case token_violation i userID tokenHash db (td_verifications db) of
        Some e \<Rightarrow> (Some e, db)
      | None \<Rightarrow> (None, db\<lparr>td_verifications := td_verifications db @ [new_token i userID tokenHash expiresAt]\<rparr>))"

definition ReplacePasswordResetTokenTx :: "db_env \<Rightarrow> (string \<Rightarrow> uuid) \<Rightarrow> uuid \<Rightarrow> string \<Rightarrow> go_time \<Rightarrow> tenancy_op" where
  "ReplacePasswordResetTokenTx env ids userID tokenHash expiresAt =
     in_tx
       [tx_begin env, lock_user_row env userID,
        tx_try env ''invalidate previous tokens'' (tx_ok (\<lambda>db. db\<lparr>td_resets :=
          use_tokens (\<lambda>t. mt_AdminUserID t = userID \<and> mt_UsedAt t = None) (de_now env) (td_resets db)\<rparr>)),
        tx_try env ''insert token'' (insert_reset (ids ''password_reset_tokens'') userID tokenHash expiresAt),
        tx_commit env]"

definition ReplaceEmailVerificationTokenTx :: "db_env \<Rightarrow> (string \<Rightarrow> uuid) \<Rightarrow> uuid \<Rightarrow> string \<Rightarrow> go_time \<Rightarrow> tenancy_op" where
  "ReplaceEmailVerificationTokenTx env ids userID tokenHash expiresAt =
     in_tx
       [tx_begin env, lock_user_row env userID,
        tx_try env ''invalidate previous tokens'' (tx_ok (\<lambda>db. db\<lparr>td_verifications :=
          use_tokens (\<lambda>t. mt_AdminUserID t = userID \<and> mt_UsedAt t = None) (de_now env) (td_verifications db)\<rparr>)),
        tx_try env ''insert token'' (insert_verification (ids ''email_verification_tokens'') userID tokenHash expiresAt),
        tx_commit env]"

definition InvalidatePasswordResetTokenByID :: "db_env \<Rightarrow> uuid \<Rightarrow> tenancy_op" where
  "InvalidatePasswordResetTokenByID env i =
     tx_try env ''invalidate reset token'' (tx_ok (\<lambda>db. db\<lparr>td_resets :=
       use_tokens (\<lambda>t. mt_ID t = i \<and> mt_UsedAt t = None) (de_now env) (td_resets db)\<rparr>))"

definition InvalidateEmailVerificationTokenByID :: "db_env \<Rightarrow> uuid \<Rightarrow> tenancy_op" where
  "InvalidateEmailVerificationTokenByID env i =
     tx_try env ''invalidate verification token'' (tx_ok (\<lambda>db. db\<lparr>td_verifications :=
       use_tokens (\<lambda>t. mt_ID t = i \<and> mt_UsedAt t = None) (de_now env) (td_verifications db)\<rparr>))"

definition FindValidPasswordResetToken :: "db_env \<Rightarrow> string \<Rightarrow> mailed_token tenancy_query" where
  "FindValidPasswordResetToken env tokenHash =
     tx_read env ''find reset token'' (\<lambda>db.
       case List.find (\<lambda>t. mt_TokenHash t = tokenHash \<and> mt_usable env t) (td_resets db) of
         None \<Rightarrow> Inl ErrInvalidPasswordResetToken | Some t \<Rightarrow> Inr t)"

definition FindValidEmailVerificationToken :: "db_env \<Rightarrow> string \<Rightarrow> mailed_token tenancy_query" where
  "FindValidEmailVerificationToken env tokenHash =
     tx_read env ''find verification token'' (\<lambda>db.
       case List.find (\<lambda>t. mt_TokenHash t = tokenHash \<and> mt_usable env t) (td_verifications db) of
         None \<Rightarrow> Inl ErrInvalidEmailVerificationToken | Some t \<Rightarrow> Inr t)"

definition VerifyEmailTx :: "db_env \<Rightarrow> string \<Rightarrow> tenancy_op" where
  "VerifyEmailTx env tokenHash db =
     (let P = (\<lambda>t. mt_TokenHash t = tokenHash \<and> mt_usable env t);
          token = List.find P (td_verifications db);
          userID = (case token of None \<Rightarrow> [] | Some t \<Rightarrow> mt_AdminUserID t)
      in in_tx
           [tx_begin env,
            tx_try env ''claim token'' (\<lambda>db. if token = None then (Some ErrInvalidEmailVerificationToken, db)
              else (None, db\<lparr>td_verifications := use_tokens P (de_now env) (td_verifications db)\<rparr>)),
            tx_affects env ''update user'' (TenancySql ''update user'' ''user not found for email verification'')
              (\<lambda>db. list_ex (\<lambda>u. au_ID u = userID) (td_users db))
              (users_update (\<lambda>u. au_ID u = userID) (\<lambda>u. u\<lparr>au_EmailVerified := True\<rparr>)),
            tx_try env ''invalidate remaining tokens'' (tx_ok (\<lambda>db. db\<lparr>td_verifications :=
              use_tokens (\<lambda>t. mt_AdminUserID t = userID \<and> mt_UsedAt t = None) (de_now env) (td_verifications db)\<rparr>)),
            tx_commit env] db)"

definition ResetPasswordTx :: "db_env \<Rightarrow> uuid \<Rightarrow> uuid \<Rightarrow> string \<Rightarrow> tenancy_op" where
  "ResetPasswordTx env resetTokenID userID newPasswordHash =
     (let P = (\<lambda>t. mt_ID t = resetTokenID \<and> mt_AdminUserID t = userID \<and> mt_usable env t)
      in in_tx
           [tx_begin env,
            tx_affects env ''claim reset token'' ErrInvalidPasswordResetToken
              (\<lambda>db. list_ex P (td_resets db)) (\<lambda>db. db\<lparr>td_resets := use_tokens P (de_now env) (td_resets db)\<rparr>),
            tx_affects env ''update user password'' (TenancySql ''update user password'' ''user not found for password reset'')
              (\<lambda>db. list_ex (\<lambda>u. au_ID u = userID) (td_users db))
              (users_update (\<lambda>u. au_ID u = userID)
                 (\<lambda>u. u\<lparr>au_PasswordHash := Some newPasswordHash, au_FailedLoginAttempts := 0, au_LockedUntil := None\<rparr>)),
            tx_try env ''revoke refresh tokens'' (tx_ok (refresh_update (\<lambda>t. rft_AdminUserID t = userID) (de_now env))),
            tx_commit env])"

definition DeleteExpiredPasswordResetTokens :: "db_env \<Rightarrow> tenancy_op" where
  "DeleteExpiredPasswordResetTokens env =
     tx_try env ''delete reset tokens'' (tx_ok (\<lambda>db. db\<lparr>td_resets :=
       filter (\<lambda>t. \<not> (mt_ExpiresAt t < de_now env \<or> mt_UsedAt t \<noteq> None)) (td_resets db)\<rparr>))"

section \<open>Signing up\<close>

definition signup_row :: "db_env \<Rightarrow> uuid \<Rightarrow> string \<Rightarrow> string \<Rightarrow> uuid \<Rightarrow> string \<Rightarrow> project_row" where
  "signup_row env i name slug ownerID plan = (new_project env name slug [] ownerID plan)\<lparr>prj_ID := i\<rparr>"

definition insert_project :: "db_env \<Rightarrow> uuid \<Rightarrow> string \<Rightarrow> string \<Rightarrow> uuid \<Rightarrow> string \<Rightarrow> tenancy_op" where
  "insert_project env i name slug ownerID plan db =
     (if \<not> slugFormat slug then (Some (TenancySql ''insert project'' ''check constraint''), db)
      else if i \<in> set (map prj_ID (td_projects db)) \<or> list_ex (\<lambda>p. prj_Slug p = slug \<and> prj_live p) (td_projects db)
      then (Some (UniqueViolation ''projects_slug_active_unique''), db)
      else (None, db\<lparr>td_projects := td_projects db @ [signup_row env i name slug ownerID plan]\<rparr>))"

text \<open>
  When the slug is taken the code sends the insert again with another slug, on the same transaction, which the
  failed insert has aborted.
\<close>

definition signup_project :: "db_env \<Rightarrow> uuid \<Rightarrow> string \<Rightarrow> string \<Rightarrow> uuid \<Rightarrow> string \<Rightarrow> tenancy_op" where
  "signup_project env i name slug ownerID plan db =
     (case tx_try env ''insert project'' (insert_project env i name slug ownerID plan) db of
        (Some (UniqueViolation _), db') \<Rightarrow>
          (Some (TenancySql ''insert project (retry)'' ''current transaction is aborted, commands ignored until end of transaction block''), db')
      | r \<Rightarrow> r)"

definition signup_member :: "db_env \<Rightarrow> uuid \<Rightarrow> uuid \<Rightarrow> tenancy_op" where
  "signup_member env projectID userID =
     tx_try env ''insert project_member'' (tx_ok (\<lambda>db. db\<lparr>td_members := td_members db @
       [\<lparr>mb_ProjectID = projectID, mb_UserID = userID, mb_Role = RoleOwner, mb_InvitedBy = None, mb_JoinedAt = de_now env\<rparr>]\<rparr>))"

definition SignupTx ::
  "db_env \<Rightarrow> (string \<Rightarrow> uuid) \<Rightarrow> string \<Rightarrow> string \<Rightarrow> string \<Rightarrow> string \<Rightarrow> string \<Rightarrow> string \<Rightarrow> string \<Rightarrow> go_time \<Rightarrow> tenancy_op" where
  "SignupTx env ids username email passwordHash companyName slug plan tokenHash expiresAt =
     in_tx
       [tx_begin env,
        tx_try env ''insert admin_user'' (insert_user (new_user (ids ''admin_users'') username email (Some passwordHash) ''password'' False False)),
        signup_project env (ids ''projects'') companyName slug (ids ''admin_users'') plan,
        signup_member env (ids ''projects'') (ids ''admin_users''),
        tx_try env ''insert verification token'' (insert_verification (ids ''email_verification_tokens'') (ids ''admin_users'') tokenHash expiresAt),
        tx_commit env]"

definition usernameFromEmail :: "string \<Rightarrow> string" where
  "usernameFromEmail email = hd (splitByte (CHR ''@'') (ToLower email))"

definition google_user :: "uuid \<Rightarrow> string \<Rightarrow> string \<Rightarrow> string \<Rightarrow> admin_user" where
  "google_user i email googleID avatarURL =
     (new_user i (usernameFromEmail email) email None ''google'' False True)
       \<lparr>au_GoogleID := Some googleID, au_AvatarURL := (if avatarURL = [] then None else Some avatarURL)\<rparr>"

definition GoogleSignupTx ::
  "db_env \<Rightarrow> (string \<Rightarrow> uuid) \<Rightarrow> string \<Rightarrow> string \<Rightarrow> string \<Rightarrow> string \<Rightarrow> string \<Rightarrow> tenancy_op" where
  "GoogleSignupTx env ids email googleID avatarURL companyName slug =
     in_tx
       [tx_begin env,
        tx_try env ''insert admin_user'' (insert_user_unless (\<lambda>v. EqualFold (au_Email v) email)
          (google_user (ids ''admin_users'') email googleID avatarURL)),
        signup_project env (ids ''projects'') companyName slug (ids ''admin_users'') ''free'',
        signup_member env (ids ''projects'') (ids ''admin_users''),
        tx_commit env]"

section \<open>Passwords and failed logins\<close>

definition WeakPasswords :: "string list" where
  "WeakPasswords = [''admin123'', ''password123'', ''123456789012'', ''qwerty123456'', ''admin123456'', ''letmein123456'', ''welcome123456'']"

datatype password_error = TooShort | TooLong | TooCommon | NoUppercase | NoLowercase | NoDigit | NoSpecial

definition between :: "nat \<Rightarrow> nat \<Rightarrow> char \<Rightarrow> bool" where
  "between lo hi c = (let n = of_char c in lo \<le> n \<and> n \<le> hi)"

definition upperCaseByte :: "char \<Rightarrow> bool" where "upperCaseByte c = between 65 90 c"
definition lowerCaseByte :: "char \<Rightarrow> bool" where "lowerCaseByte c = between 97 122 c"
definition digitByte :: "char \<Rightarrow> bool" where "digitByte c = between 48 57 c"
definition specialByte :: "char \<Rightarrow> bool" where
  "specialByte c = (between 33 47 c \<or> between 58 64 c \<or> between 91 96 c \<or> between 123 126 c)"

definition Password_Validate :: "string \<Rightarrow> password_error option" where
  "Password_Validate password =
     (if length password < 8 then Some TooShort
      else if length password > 72 then Some TooLong
      else if list_ex (EqualFold password) WeakPasswords then Some TooCommon
      else if \<not> list_ex upperCaseByte password then Some NoUppercase
      else if \<not> list_ex lowerCaseByte password then Some NoLowercase
      else if \<not> list_ex digitByte password then Some NoDigit
      else if \<not> list_ex specialByte password then Some NoSpecial
      else None)"

record login_limiter =
  ll_failures :: "string \<Rightarrow> go_time list"
  ll_limit :: int
  ll_window :: go_duration

definition ll_compact :: "go_time \<Rightarrow> string \<Rightarrow> login_limiter \<Rightarrow> login_limiter" where
  "ll_compact now ip l =
     l\<lparr>ll_failures := (ll_failures l)(ip := filter (\<lambda>t. t > now - ll_window l) (ll_failures l ip))\<rparr>"

definition TooManyFailures :: "go_time \<Rightarrow> string \<Rightarrow> login_limiter \<Rightarrow> bool \<times> login_limiter" where
  "TooManyFailures now ip l = (let l' = ll_compact now ip l in (int (length (ll_failures l' ip)) \<ge> ll_limit l, l'))"

definition RecordFailure :: "go_time \<Rightarrow> string \<Rightarrow> login_limiter \<Rightarrow> login_limiter" where
  "RecordFailure now ip l =
     (let l' = ll_compact now ip l in l'\<lparr>ll_failures := (ll_failures l')(ip := ll_failures l' ip @ [now])\<rparr>)"

definition Limiter_Reset :: "string \<Rightarrow> login_limiter \<Rightarrow> login_limiter" where
  "Limiter_Reset ip l = l\<lparr>ll_failures := (ll_failures l)(ip := [])\<rparr>"

section \<open>What a transaction keeps\<close>

lemma tx_try_inv: "(Q db \<Longrightarrow> Q (snd (op db))) \<Longrightarrow> Q db \<Longrightarrow> Q (snd (tx_try env s op db))"
  by (simp add: tx_try_def split: option.split)

lemma tx_affects_inv: "(Q db \<Longrightarrow> Q (f db)) \<Longrightarrow> Q db \<Longrightarrow> Q (snd (tx_affects env s e enough f db))"
  unfolding tx_affects_def by (rule tx_try_inv) (auto split: option.split)

lemma in_tx_inv:
  assumes "\<And>op db. op \<in> set ops \<Longrightarrow> Q db \<Longrightarrow> Q (snd (op db))" "Q db"
  shows "Q (snd (in_tx ops db))"
proof -
  have "Q (snd (tx_all ops db))"
    using assms
  proof (induction ops arbitrary: db)
    case (Cons op ops)
    obtain e db1 where op: "op db = (e, db1)" by (cases "op db")
    then have "Q db1" using Cons.prems(1) [of op db] Cons.prems(2) by simp
    then show ?case using Cons.IH [of db1] Cons.prems(1) op by (auto split: option.split)
  qed simp
  then show ?thesis using assms(2) by (auto simp: in_tx_def split: prod.splits option.splits)
qed

text \<open>A committed transaction ran all its statements, each without an error.\<close>

lemma in_tx_None: "in_tx ops db = (None, db') \<longleftrightarrow> tx_all ops db = (None, db')"
  by (auto simp: in_tx_def split: prod.split option.split)

lemma in_tx_Some: "in_tx ops db = (Some e, db') \<Longrightarrow> db' = db"
  by (auto simp: in_tx_def split: prod.splits option.splits)

lemma in_tx_inv_list:
  "list_all (\<lambda>op. \<forall>db. Q db \<longrightarrow> Q (snd (op db))) ops \<Longrightarrow> Q db \<Longrightarrow> Q (snd (in_tx ops db))"
  by (rule in_tx_inv) (auto simp: list_all_iff)

lemma snd_tx_begin [simp]: "snd (tx_begin env db) = db" "snd (tx_commit env db) = db"
  by (simp_all add: tx_begin_def tx_commit_def tx_try_def tx_ok_def split: option.split)

lemma tx_begin_None [simp]: "tx_begin env db = (None, db') \<longleftrightarrow> de_fault env ''begin transaction'' = None \<and> db' = db"
  by (auto simp: tx_begin_def tx_try_def tx_ok_def split: option.split)

lemma tx_commit_None [simp]: "tx_commit env db = (None, db') \<longleftrightarrow> de_fault env ''commit transaction'' = None \<and> db' = db"
  by (auto simp: tx_commit_def tx_try_def tx_ok_def split: option.split)

lemma tx_affects_None:
  "tx_affects env s e enough f db = (None, db') \<longleftrightarrow> de_fault env s = None \<and> de_fault env ''rows affected'' = None \<and> enough db \<and> db' = f db"
  by (auto simp: tx_affects_def tx_try_def split: option.split)

lemma tx_try_None_iff: "tx_try env s op db = (None, db') \<longleftrightarrow> de_fault env s = None \<and> op db = (None, db')"
  by (auto simp: tx_try_def split: option.split)

lemma tx_ok_None [simp]: "tx_ok f db = (None, db') \<longleftrightarrow> db' = f db"
  by (auto simp: tx_ok_def)

lemma snd_tx_ok [simp]: "snd (tx_ok f db) = f db"
  by (simp add: tx_ok_def)

lemmas committed = in_tx_None tx_all_Cons_None tx_affects_None tx_try_None_iff

section \<open>Refresh tokens stay revoked\<close>

text \<open>No token with this hash can be used any more.\<close>

definition dead :: "string \<Rightarrow> tenancy \<Rightarrow> bool" where
  "dead h db \<longleftrightarrow> (\<forall>t \<in> set (td_refresh db). rft_TokenHash t = h \<longrightarrow> rft_RevokedAt t \<noteq> None)"

lemma dead_same: "td_refresh db' = td_refresh db \<Longrightarrow> dead h db' = dead h db"
  by (simp add: dead_def)

lemma dead_refresh_update: "dead h db \<Longrightarrow> dead h (refresh_update P now db)"
  by (auto simp: dead_def refresh_update_def sql_update_def)

lemma dead_after_revoke: "(\<And>t. rft_TokenHash t = h \<Longrightarrow> P t) \<Longrightarrow> dead h (refresh_update P now db)"
  by (auto simp: dead_def refresh_update_def sql_update_def)

lemma dead_insert_refresh: "tokenHash \<noteq> h \<Longrightarrow> dead h db \<Longrightarrow> dead h (snd (insert_refresh ids userID tokenHash exp db))"
  by (auto simp: insert_refresh_def dead_def)

lemma users_update_refresh [simp]: "td_refresh (users_update P f db) = td_refresh db"
  by (simp add: users_update_def)

lemma insert_user_refresh [simp]: "td_refresh (snd (insert_user u db)) = td_refresh db"
  by (simp add: insert_user_def split: option.split)

lemma insert_user_unless_refresh [simp]: "td_refresh (snd (insert_user_unless c u db)) = td_refresh db"
  by (simp add: insert_user_unless_def)

lemma insert_project_refresh [simp]: "td_refresh (snd (insert_project env i n s u pl db)) = td_refresh db"
  by (simp add: insert_project_def)

lemma insert_token_refresh [simp]:
  "td_refresh (snd (insert_reset i u h e db)) = td_refresh db" "td_refresh (snd (insert_verification i u h e db)) = td_refresh db"
  by (simp_all add: insert_reset_def insert_verification_def split: option.split)

lemma tx_try_refresh: "td_refresh (snd (op db)) = td_refresh db \<Longrightarrow> td_refresh (snd (tx_try env s op db)) = td_refresh db"
  by (simp add: tx_try_def split: option.split)

lemma signup_project_refresh [simp]: "td_refresh (snd (signup_project env i n s u pl db)) = td_refresh db"
proof -
  have "td_refresh (snd (tx_try env ''insert project'' (insert_project env i n s u pl) db)) = td_refresh db"
    by (rule tx_try_refresh) simp
  then show ?thesis
    unfolding signup_project_def by (auto split: prod.split option.split tenancy_error.split)
qed

text \<open>The operations that leave the refresh tokens alone.\<close>

lemma keeps_refresh:
  "td_refresh (snd (UpdateAdminLoginSuccess env i db)) = td_refresh db"
  "td_refresh (snd (IncrementAdminLoginFailure env n db)) = td_refresh db"
  "td_refresh (snd (LockAdminUser env n t db)) = td_refresh db"
  "td_refresh (snd (CreateAdminUser env ids n pw b db)) = td_refresh db"
  "td_refresh (snd (LinkGoogleAccount env i g a db)) = td_refresh db"
  "td_refresh (snd (InvalidatePasswordResetTokenByID env i db)) = td_refresh db"
  "td_refresh (snd (InvalidateEmailVerificationTokenByID env i db)) = td_refresh db"
  "td_refresh (snd (DeleteExpiredPasswordResetTokens env db)) = td_refresh db"
  by (auto simp: UpdateAdminLoginSuccess_def IncrementAdminLoginFailure_def LockAdminUser_def CreateAdminUser_def LinkGoogleAccount_def
      InvalidatePasswordResetTokenByID_def InvalidateEmailVerificationTokenByID_def DeleteExpiredPasswordResetTokens_def intro!: tx_try_refresh)

lemma in_tx_refresh:
  assumes "\<And>op db. op \<in> set ops \<Longrightarrow> td_refresh (snd (op db)) = td_refresh db"
  shows "td_refresh (snd (in_tx ops db)) = td_refresh db"
  using in_tx_inv [of ops "\<lambda>db'. td_refresh db' = td_refresh db" db] assms by simp

lemma tx_affects_refresh: "td_refresh (f db) = td_refresh db \<Longrightarrow> td_refresh (snd (tx_affects env s e enough f db)) = td_refresh db"
  unfolding tx_affects_def by (rule tx_try_refresh) (simp split: option.split)

lemma keeps_refresh_tx:
  "td_refresh (snd (ReplacePasswordResetTokenTx env ids u h e db)) = td_refresh db"
  "td_refresh (snd (ReplaceEmailVerificationTokenTx env ids u h e db)) = td_refresh db"
  "td_refresh (snd (VerifyEmailTx env h db)) = td_refresh db"
  "td_refresh (snd (SignupTx env ids n em pw c s pl h e db)) = td_refresh db"
  "td_refresh (snd (GoogleSignupTx env ids em g a c s db)) = td_refresh db"
  unfolding ReplacePasswordResetTokenTx_def ReplaceEmailVerificationTokenTx_def VerifyEmailTx_def SignupTx_def GoogleSignupTx_def Let_def
  by (auto intro!: in_tx_refresh tx_try_refresh tx_affects_refresh
      simp: tx_begin_def tx_commit_def lock_user_row_def signup_member_def)

lemma dead_RevokeRefreshToken: "dead h db \<Longrightarrow> dead h (snd (RevokeRefreshToken env h' db))"
  unfolding RevokeRefreshToken_def by (rule tx_try_inv) (simp_all add: dead_refresh_update)

lemma dead_PruneExpiredTokens: "dead h db \<Longrightarrow> dead h (snd (PruneExpiredTokens env db))"
  unfolding PruneExpiredTokens_def by (rule tx_try_inv) (simp_all add: dead_def)

lemma dead_CreateRefreshToken:
  "tokenHash \<noteq> h \<Longrightarrow> dead h db \<Longrightarrow> dead h (snd (CreateRefreshToken env ids u tokenHash e db))"
  unfolding CreateRefreshToken_def by (rule tx_try_inv) (simp_all add: dead_insert_refresh)

lemma dead_RotateRefreshToken:
  assumes "newHash \<noteq> h" "dead h db"
  shows "dead h (snd (RotateRefreshToken env ids old newHash u e db))"
  unfolding RotateRefreshToken_def
  by (rule in_tx_inv_list [where Q = "dead h", OF _ assms(2)], unfold list.pred_inject, intro conjI allI impI tx_try_inv [where Q = "dead h"] tx_affects_inv [where Q = "dead h"] TrueI)
     (simp_all add: assms(1) dead_insert_refresh dead_refresh_update)

lemma dead_ResetPasswordTx:
  assumes "dead h db"
  shows "dead h (snd (ResetPasswordTx env i u pw db))"
  unfolding ResetPasswordTx_def Let_def
  by (rule in_tx_inv_list [where Q = "dead h", OF _ assms], unfold list.pred_inject, intro conjI allI impI tx_try_inv [where Q = "dead h"] tx_affects_inv [where Q = "dead h"] TrueI)
     (simp_all add: dead_refresh_update dead_same [OF users_update_refresh] dead_def [of h "_\<lparr>td_resets := _\<rparr>"], simp_all add: dead_def)

lemmas dead_repo_ops =
  dead_RevokeRefreshToken dead_PruneExpiredTokens dead_CreateRefreshToken dead_RotateRefreshToken dead_ResetPasswordTx

text \<open>A rotation consumes the old token.\<close>

lemma rotated_token_is_dead:
  assumes "RotateRefreshToken env ids old newHash u e db = (None, db')" "newHash \<noteq> old"
  shows "dead old db'"
proof -
  let ?db1 = "refresh_update (\<lambda>t. rft_TokenHash t = old) (de_now env) db"
  have "insert_refresh ids u newHash e ?db1 = (None, db')"
    using assms(1) unfolding RotateRefreshToken_def by (auto simp: committed simp del: tx_all.simps(2))
  moreover have "dead old ?db1" by (rule dead_after_revoke)
  ultimately show ?thesis using dead_insert_refresh [OF assms(2), of ?db1 ids u e] by simp
qed

end
