(* ===== verification/Container_Manager.thy ===== *)
theory Container_Manager
  imports EG_Prelude
begin

text \<open>
  The Docker runtime of dedicated gateways (\<^verbatim>\<open>internal/container/docker.go\<close>): creating and starting
  a gateway container, waiting for its health check, and removing it again.

  The Docker SDK is a parameter. A call may depend on all calls made before it, so an operation
  threads their history. What the \<^verbatim>\<open>select\<close> of \<^verbatim>\<open>waitUntilHealthy\<close> delivers is a list of the messages
  and errors in the order they are received; when it is used up, the deadline of the wait has
  passed. Logging is left out.
\<close>

section \<open>The Docker SDK\<close>

datatype docker_call =
    ContainerCreate string
  | ContainerStart string
  | ContainerInspect string
  | ContainerRemove string
  | ContainerLogs string
  | ContainerList string
  | ContainerStop string
  | Events string

record container_config =
  cc_Image :: string
  cc_Env :: "string list"
  cc_Labels :: "(string \<times> string) list"

text \<open>
  Of an inspected container: its name, whether it runs, its exit code, the status of its health
  check if it has one, the host ports bound to the gateway port if there is an entry for it, and its
  addresses on the default bridge and, if it is connected, on the shared network.
\<close>

record container_info =
  ci_Name :: string
  ci_Running :: bool
  ci_ExitCode :: int
  ci_Health :: "string option"
  ci_Bindings :: "string list option"
  ci_BridgeIP :: string
  ci_NetworkIP :: "string option"

text \<open>
  A receive of \<^verbatim>\<open>waitUntilHealthy\<close>: a message with its action; the end of the context, by the deadline or
  by a cancellation with the given error; an error of the stream; or the end of the stream (no error,
  or \<^verbatim>\<open>context.Canceled\<close>), with the error the context has then.
\<close>

datatype wait_event =
    WeMessage string
  | WeDeadline
  | WeCancelled string
  | WeStreamError string
  | WeStreamEnd "string option"

record docker_sdk =
  dk_Create :: "docker_call list \<Rightarrow> string \<Rightarrow> container_config \<Rightarrow> string + string"
  dk_Start :: "docker_call list \<Rightarrow> string \<Rightarrow> string option"
  dk_Inspect :: "docker_call list \<Rightarrow> string \<Rightarrow> string + container_info"
  dk_Remove :: "docker_call list \<Rightarrow> string \<Rightarrow> string option"
  dk_Logs :: "docker_call list \<Rightarrow> string \<Rightarrow> string option"
  dk_List :: "docker_call list \<Rightarrow> string \<Rightarrow> string + (string \<times> string list) list"
  dk_Stop :: "docker_call list \<Rightarrow> string \<Rightarrow> string option"
  dk_Events :: "docker_call list \<Rightarrow> string \<Rightarrow> wait_event list"

text \<open>
  The manager. \<open>dm_hmacHex\<close> is HMAC-SHA256 in hexadecimal; \<open>dm_inContainer\<close> is whether
  \<^verbatim>\<open>/.dockerenv\<close> exists.
\<close>

record container_manager =
  dm_client :: docker_sdk
  dm_adminAPIURL :: string
  dm_redisAddr :: string
  dm_redisPassword :: string
  dm_jwtSecret :: string
  dm_imageName :: string
  dm_publicHost :: string
  dm_networkName :: string
  dm_hmacHex :: "string \<Rightarrow> string \<Rightarrow> string"
  dm_inContainer :: bool

type_synonym 'a docker_op = "docker_call list \<Rightarrow> (string + 'a) \<times> docker_call list"

section \<open>Names\<close>

definition byteIn :: "char \<Rightarrow> char \<Rightarrow> char \<Rightarrow> bool" where
  "byteIn lo hi c \<longleftrightarrow> of_char lo \<le> (of_char c :: nat) \<and> (of_char c :: nat) \<le> of_char hi"

definition gatewayIDChar :: "char \<Rightarrow> bool" where
  "gatewayIDChar c \<longleftrightarrow>
     byteIn (CHR ''a'') (CHR ''z'') c \<or> byteIn (CHR ''A'') (CHR ''Z'') c \<or> byteIn (CHR ''0'') (CHR ''9'') c
     \<or> c \<in> {CHR ''_'', CHR ''.'', CHR ''-''}"

definition gatewayIDPattern :: "string \<Rightarrow> bool" where
  "gatewayIDPattern s \<longleftrightarrow> s \<noteq> [] \<and> list_all gatewayIDChar s"

definition containerName :: "string \<Rightarrow> string" where
  "containerName gatewayID = ''elitegate-gateway-'' @ gatewayID"

text \<open>The verb \<^verbatim>\<open>%q\<close> of \<^verbatim>\<open>fmt\<close>, on bytes.\<close>

definition hexNibble :: "nat \<Rightarrow> char" where
  "hexNibble n = ''0123456789abcdef'' ! (n mod 16)"

definition quoteByte :: "char \<Rightarrow> string" where
  "quoteByte c =
     (if c = CHR 0x22 \<or> c = CHR 0x5C then [CHR 0x5C, c]
      else if byteIn (CHR '' '') (CHR ''~'') c then [c]
      else case map_of [(CHR 0x07, CHR ''a''), (CHR 0x08, CHR ''b''), (CHR 0x0C, CHR ''f''), (CHR 0x0A, CHR ''n''),
                        (CHR 0x0D, CHR ''r''), (CHR 0x09, CHR ''t''), (CHR 0x0B, CHR ''v'')] c of
             Some e \<Rightarrow> [CHR 0x5C, e]
           | None \<Rightarrow> [CHR 0x5C, CHR ''x'', hexNibble (of_char c div 16), hexNibble (of_char c)])"

definition quoted :: "string \<Rightarrow> string" where
  "quoted s = [CHR 0x22] @ concat (map quoteByte s) @ [CHR 0x22]"

definition patternText :: string where
  "patternText = ''^[a-zA-Z0-9_.'' @ [CHR 0x5C] @ ''-]+$''"

definition invalidGatewayID :: "string \<Rightarrow> string" where
  "invalidGatewayID gatewayID = ''invalid gatewayID '' @ quoted gatewayID @ '': must match '' @ patternText"

definition DeriveTenantJWTSecret :: "(string \<Rightarrow> string \<Rightarrow> string) \<Rightarrow> string \<Rightarrow> string \<Rightarrow> string" where
  "DeriveTenantJWTSecret hmacHex masterSecret projectID =
     hmacHex masterSecret (''tenant_jwt_secret:v1:'' @ projectID)"

section \<open>Creating a container\<close>

definition gateway_config :: "container_manager \<Rightarrow> string \<Rightarrow> string \<Rightarrow> string \<Rightarrow> container_config" where
  "gateway_config m gatewayID projectID plan =
     (let derivedJWTSecret = DeriveTenantJWTSecret (dm_hmacHex m) (dm_jwtSecret m) projectID
      in \<lparr>cc_Image = dm_imageName m,
          cc_Env =
            [''GATEWAY_PORT=8080'',
             ''ADMIN_API_URL='' @ dm_adminAPIURL m,
             ''REDIS_ADDR='' @ dm_redisAddr m,
             ''REDIS_PASSWORD='' @ dm_redisPassword m,
             ''REDIS_PREFIX=tenant:'' @ projectID @ '':'',
             ''JWT_SECRET='' @ derivedJWTSecret,
             ''GATEWAY_SYNC_TOKEN='' @ derivedJWTSecret,
             ''PROJECT_ID='' @ projectID,
             ''APP_ENV=production'',
             ''ROUTE_RELOAD_INTERVAL=10s''],
          cc_Labels =
            [(''elitegate.gateway.id'', gatewayID), (''elitegate.project.id'', projectID),
             (''elitegate.plan'', plan)]\<rparr>)"

definition inspectEndpoint :: "container_manager \<Rightarrow> string \<Rightarrow> (string \<times> string \<times> string \<times> string) docker_op" where
  "inspectEndpoint m containerID h =
     (case dk_Inspect (dm_client m) h containerID of
        Inl e \<Rightarrow> Inl (''inspect container: '' @ e)
      | Inr info \<Rightarrow>
          (case ci_Bindings info of
             None \<Rightarrow> Inl ''no port binding found for 8080/tcp''
           | Some [] \<Rightarrow> Inl ''no port binding found for 8080/tcp''
           | Some (hostPort # _) \<Rightarrow>
               (let containerIP =
                      (case ci_NetworkIP info of
                         Some ip \<Rightarrow> if ip \<noteq> [] then ip else ci_BridgeIP info
                       | None \<Rightarrow> ci_BridgeIP info)
                in if containerIP = []
                   then Inl (''container has no IP address on network '' @ quoted (dm_networkName m))
                   else if dm_inContainer m
                   then Inr (TrimPrefix (ci_Name info) ''/'', ''8080'', dm_publicHost m, hostPort)
                   else Inr (''localhost'', hostPort, dm_publicHost m, hostPort))),
      h @ [ContainerInspect containerID])"

section \<open>Waiting for health\<close>

definition ActionHealthStatusHealthy :: string where "ActionHealthStatusHealthy = ''health_status: healthy''"
definition ActionHealthStatusUnhealthy :: string where "ActionHealthStatusUnhealthy = ''health_status: unhealthy''"

fun waitEvents :: "container_manager \<Rightarrow> string \<Rightarrow> wait_event list \<Rightarrow> unit docker_op" where
  "waitEvents m containerID [] h = (Inl ''container did not become healthy within 30s'', h)"
| "waitEvents m containerID (WeDeadline # _) h = (Inl ''container did not become healthy within 30s'', h)"
| "waitEvents m containerID (WeCancelled e # _) h = (Inl e, h)"
| "waitEvents m containerID (WeStreamError e # _) h =
     ((case dk_Inspect (dm_client m) h containerID of
         Inr fallback \<Rightarrow> if ci_Health fallback = Some ''healthy'' then Inr () else Inl (''docker events error: '' @ e)
       | Inl _ \<Rightarrow> Inl (''docker events error: '' @ e)),
      h @ [ContainerInspect containerID])"
| "waitEvents m containerID (WeStreamEnd e # _) h = ((case e of None \<Rightarrow> Inr () | Some e \<Rightarrow> Inl e), h)"
| "waitEvents m containerID (WeMessage a # evs) h =
     (if a = ActionHealthStatusHealthy then (Inr (), h)
      else if a = ActionHealthStatusUnhealthy then (Inl ''container healthcheck reported unhealthy via docker events'', h)
      else if a \<in> {''die'', ''destroy''} then (Inl ''container exited or was destroyed'', h)
      else waitEvents m containerID evs h)"

definition waitUntilHealthy :: "container_manager \<Rightarrow> string \<Rightarrow> unit docker_op" where
  "waitUntilHealthy m containerID h =
     (let msgs = dk_Events (dm_client m) h containerID;
          h1 = h @ [Events containerID];
          h2 = h1 @ [ContainerInspect containerID]
      in case dk_Inspect (dm_client m) h1 containerID of
           Inl e \<Rightarrow> (Inl (''inspect container: '' @ e), h2)
         | Inr inspect \<Rightarrow>
             if \<not> ci_Running inspect
             then (Inl (''container exited unexpectedly with code '' @ showInt (ci_ExitCode inspect)), h2)
             else (case ci_Health inspect of
                     None \<Rightarrow> (Inr (), h2)
                   | Some st \<Rightarrow>
                       if st = ''healthy'' then (Inr (), h2)
                       else if st = ''unhealthy'' then (Inl ''container healthcheck reported unhealthy'', h2)
                       else waitEvents m containerID msgs h2))"

definition lastLogs :: "container_manager \<Rightarrow> string \<Rightarrow> docker_call list \<Rightarrow> string \<times> docker_call list" where
  "lastLogs m containerID h =
     ((case dk_Logs (dm_client m) h containerID of
         None \<Rightarrow> ''(could not retrieve logs)''
       | Some b \<Rightarrow> b),
      h @ [ContainerLogs containerID])"

section \<open>The operations\<close>

definition Container_Provision ::
  "container_manager \<Rightarrow> string \<Rightarrow> string \<Rightarrow> string \<Rightarrow> (string \<times> string \<times> string \<times> string) docker_op" where
  "Container_Provision m gatewayID projectID plan h =
     (if \<not> gatewayIDPattern gatewayID then (Inl (invalidGatewayID gatewayID), h)
      else
        (let name = containerName gatewayID;
             h1 = h @ [ContainerCreate name]
         in case dk_Create (dm_client m) h name (gateway_config m gatewayID projectID plan) of
              Inl e \<Rightarrow> (Inl (''create container '' @ quoted name @ '': '' @ e), h1)
            | Inr i \<Rightarrow>
                (let h2 = h1 @ [ContainerStart i]
                 in case dk_Start (dm_client m) h1 i of
                      Some e \<Rightarrow> (Inl (''start container '' @ quoted name @ '': '' @ e), h2 @ [ContainerRemove i])
                    | None \<Rightarrow>
                        (case waitUntilHealthy m i h2 of
                           (Inl e, h3) \<Rightarrow>
                             (let (logs, h4) = lastLogs m i h3
                              in (Inl (''container '' @ quoted name @ '' did not become healthy: '' @ e
                                       @ [CHR 0x0A] @ ''last logs:'' @ [CHR 0x0A] @ logs),
                                  h4 @ [ContainerRemove i]))
                         | (Inr _, h3) \<Rightarrow>
                             (case inspectEndpoint m i h3 of
                                (Inl e, h4) \<Rightarrow> (Inl (''read container endpoint: '' @ e), h4 @ [ContainerRemove i])
                              | (Inr endpoint, h4) \<Rightarrow> (Inr endpoint, h4))))))"

definition Container_Decommission :: "container_manager \<Rightarrow> string \<Rightarrow> docker_call list \<Rightarrow> string option \<times> docker_call list" where
  "Container_Decommission m gatewayID h =
     (if \<not> gatewayIDPattern gatewayID then (Some (invalidGatewayID gatewayID), h)
      else
        (let name = containerName gatewayID;
             h1 = h @ [ContainerList name]
         in case dk_List (dm_client m) h name of
              Inl e \<Rightarrow> (Some (''list containers: '' @ e), h1)
            | Inr [] \<Rightarrow> (None, h1)
            | Inr ((i, _) # _) \<Rightarrow>
                (let h2 = h1 @ [ContainerStop i]
                 in (dk_Remove (dm_client m) h2 i, h2 @ [ContainerRemove i]))))"

section \<open>Lemmas\<close>

definition touches :: "docker_call \<Rightarrow> string \<Rightarrow> bool" where
  "touches c i \<longleftrightarrow> c = ContainerStop i \<or> c = ContainerRemove i"

lemma waitEvents_calls:
  "waitEvents m i evs h = (res, h') \<Longrightarrow> \<exists>n. h' = h @ replicate n (ContainerInspect i)"
proof (induction m i evs h rule: waitEvents.induct)
  case (4 m i e evs h)
  then show ?case by (auto intro: exI [of _ 1])
qed (auto split: if_splits option.splits)

lemma waitUntilHealthy_calls:
  assumes "waitUntilHealthy m i h = (res, h')"
  shows "\<exists>n. h' = (h @ [Events i, ContainerInspect i]) @ replicate n (ContainerInspect i)"
proof (cases "h' = h @ [Events i, ContainerInspect i]")
  case True
  then show ?thesis by (intro exI [of _ 0]) simp
next
  case False
  then have "waitEvents m i (dk_Events (dm_client m) h i) (h @ [Events i, ContainerInspect i]) = (res, h')"
    using assms unfolding waitUntilHealthy_def Let_def by (auto split: sum.splits if_splits option.splits)
  then show ?thesis by (rule waitEvents_calls)
qed

lemma inspectEndpoint_calls: "snd (inspectEndpoint m i h) = h @ [ContainerInspect i]"
  by (simp add: inspectEndpoint_def)

section \<open>Properties\<close>

text \<open>
  A gateway container that does not come up is removed. When provisioning fails after the
  container was created, the last call made is the one that removes this container; when it succeeds,
  the container was reported healthy and nothing is removed. No other container is ever
  stopped or removed.
\<close>

theorem failed_container_is_removed:
  assumes "Container_Provision m g p plan h = (res, h')"
  shows "\<exists>calls. h' = h @ calls
    \<and> (\<forall>c \<in> set calls. \<forall>j. touches c j \<longrightarrow>
         dk_Create (dm_client m) h (containerName g) (gateway_config m g p plan) = Inr j)
    \<and> (case res of
         Inl e \<Rightarrow> \<forall>i. gatewayIDPattern g \<and> dk_Create (dm_client m) h (containerName g) (gateway_config m g p plan) = Inr i
                    \<longrightarrow> calls \<noteq> [] \<and> last calls = ContainerRemove i
       | Inr endpoint \<Rightarrow> (\<forall>c \<in> set calls. \<forall>j. \<not> touches c j)
           \<and> (\<exists>i h2 h3. dk_Create (dm_client m) h (containerName g) (gateway_config m g p plan) = Inr i
                \<and> waitUntilHealthy m i h2 = (Inr (), h3) \<and> inspectEndpoint m i h3 = (Inr endpoint, h')))"
proof -
  let ?create = "dk_Create (dm_client m) h (containerName g) (gateway_config m g p plan)"
  consider (refused) "\<not> gatewayIDPattern g \<or> (\<exists>e. ?create = Inl e)"
    | (created) i where "gatewayIDPattern g" "?create = Inr i" by (cases ?create) auto
  then show ?thesis
  proof cases
    case refused
    then have "h' \<in> {h, h @ [ContainerCreate (containerName g)]}" "\<exists>e. res = Inl e"
      using assms by (auto simp: Container_Provision_def Let_def split: if_splits)
    then show ?thesis using refused by (auto simp: touches_def)
  next
    case (created i)
    let ?h2 = "h @ [ContainerCreate (containerName g), ContainerStart i]"
    obtain w h3 where w: "waitUntilHealthy m i ?h2 = (w, h3)" by fastforce
    obtain n where h3: "h3 = (?h2 @ [Events i, ContainerInspect i]) @ replicate n (ContainerInspect i)"
      using waitUntilHealthy_calls [OF w] by blast
    obtain ep h4 where ep: "inspectEndpoint m i h3 = (ep, h4)" by fastforce
    have h4: "h4 = h3 @ [ContainerInspect i]" using inspectEndpoint_calls [of m i h3] ep by simp
    note run = assms [unfolded Container_Provision_def Let_def]
    show ?thesis
    proof (cases "dk_Start (dm_client m) (h @ [ContainerCreate (containerName g)]) i")
      case (Some e)
      then show ?thesis using run created by (auto simp: touches_def)
    next
      case started: None
      show ?thesis
      proof (cases w)
        case (Inl e)
        then show ?thesis using run created started w h3 by (auto simp: touches_def lastLogs_def)
      next
        case (Inr u)
        show ?thesis
        proof (cases ep)
          case (Inl e)
          then show ?thesis using run created started w Inr ep h3 h4 by (auto simp: touches_def)
        next
          case endpoint: (Inr e)
          have "res = Inr e" "h' = h4" using run created started w Inr ep endpoint by auto
          then show ?thesis using created w Inr ep endpoint h3 h4 by (auto simp: touches_def)
        qed
      qed
    qed
  qed
qed

lemma Contains_iff: "Contains s sub \<longleftrightarrow> (\<exists>a b. s = a @ sub @ b)"
proof (induction s)
  case (Cons c s)
  have "(\<exists>a b. c # s = a @ sub @ b) \<longleftrightarrow> (\<exists>b. c # s = sub @ b) \<or> (\<exists>a b. s = a @ sub @ b)"
    by (metis append_Cons append_Nil append_eq_Cons_conv)
  then show ?case using Cons by (simp add: HasPrefix_iff)
qed (auto simp: HasPrefix_iff)

lemma containerName_within:
  assumes "Contains (''/'' @ containerName g') (containerName g)" "length g' = length g"
  shows "g' = g"
proof -
  obtain a b where ab: "''/'' @ containerName g' = a @ containerName g @ b"
    using assms(1) by (auto simp: Contains_iff)
  have "length (''/'' @ containerName g') = length (a @ containerName g @ b)" by (rule arg_cong [OF ab])
  then have len: "length a + length b = 1" using assms(2) by (simp add: containerName_def)
  then consider "a = []" | c where "a = [c]" "b = []"
    by (cases a) (auto simp: length_Suc_conv)
  then show ?thesis using ab by cases (auto simp: containerName_def)
qed

text \<open>
  Removing a gateway removes its own container. Docker's \<^verbatim>\<open>name\<close> filter is a partial match: it
  returns every container with a name that contains the text asked for. If the containers it
  returns are gateways with ids of the same length as this one, which is how the control plane makes
  ids, then what is stopped and removed is the container of this gateway and no other; and if there
  is none, the call succeeds without touching anything.
\<close>

theorem decommission_removes_only_its_container:
  assumes list: "dk_List (dm_client m) h (containerName g) = Inr cs"
    and filter: "\<forall>(i, names) \<in> set cs. \<exists>n \<in> set names. Contains n (containerName g)"
    and ids: "\<forall>(i, names) \<in> set cs. \<forall>n \<in> set names. \<exists>g'. n = ''/'' @ containerName g' \<and> length g' = length g"
    and run: "Container_Decommission m g h = (err, h')"
  shows "\<exists>calls. h' = h @ calls
    \<and> (\<forall>c \<in> set calls. \<forall>i. touches c i \<longrightarrow> (\<exists>names. (i, names) \<in> set cs \<and> ''/'' @ containerName g \<in> set names))
    \<and> (gatewayIDPattern g \<and> cs = [] \<longrightarrow> err = None)
    \<and> (gatewayIDPattern g \<and> cs \<noteq> [] \<longrightarrow> (\<exists>i. ContainerRemove i \<in> set calls))"
proof (cases "gatewayIDPattern g")
  case False
  then show ?thesis using run by (auto simp: Container_Decommission_def)
next
  case valid: True
  show ?thesis
  proof (cases cs)
    case Nil
    then show ?thesis using valid run list by (auto simp: Container_Decommission_def touches_def)
  next
    case (Cons c rest)
    obtain i names where c: "c = (i, names)" by fastforce
    obtain n where n: "n \<in> set names" "Contains n (containerName g)" using filter Cons c by auto
    moreover obtain g' where "n = ''/'' @ containerName g'" "length g' = length g" using ids Cons c n(1) by auto
    ultimately have "''/'' @ containerName g \<in> set names" using containerName_within by blast
    moreover have "h' = h @ [ContainerList (containerName g), ContainerStop i, ContainerRemove i]"
      using valid run list Cons c by (simp add: Container_Decommission_def Let_def)
    ultimately show ?thesis using valid Cons c by (auto simp: touches_def)
  qed
qed

text \<open>A Docker host with two gateways, where a new container reports itself unhealthy.\<close>

definition demo_containers :: "(string \<times> string list) list" where
  "demo_containers = [(''c1'', [''/elitegate-gateway-gw_aaaa0001'']), (''c2'', [''/elitegate-gateway-gw_aaaa0002''])]"

definition demo_docker :: docker_sdk where
  "demo_docker =
     \<lparr>dk_Create = (\<lambda>_ _ _. Inr ''c9''), dk_Start = (\<lambda>_ _. None),
      dk_Inspect = (\<lambda>_ _. Inr \<lparr>ci_Name = ''/elitegate-gateway-gw_a'', ci_Running = True, ci_ExitCode = 0,
        ci_Health = Some ''starting'', ci_Bindings = Some [''31000''], ci_BridgeIP = ''172.17.0.2'', ci_NetworkIP = None\<rparr>),
      dk_Remove = (\<lambda>_ _. None), dk_Logs = (\<lambda>_ _. Some ''boom''),
      dk_List = (\<lambda>_ name. Inr (filter (\<lambda>(_, names). list_ex (\<lambda>n. Contains n name) names) demo_containers)),
      dk_Stop = (\<lambda>_ _. None),
      dk_Events = (\<lambda>_ _. [WeMessage ''health_status: running'', WeMessage ''health_status: unhealthy''])\<rparr>"

definition demo_manager :: container_manager where
  "demo_manager =
     \<lparr>dm_client = demo_docker, dm_adminAPIURL = ''http://admin'', dm_redisAddr = ''redis:6379'', dm_redisPassword = [],
      dm_jwtSecret = ''secret'', dm_imageName = ''elitegate-gateway:latest'', dm_publicHost = ''localhost'',
      dm_networkName = ''elitegate_net'', dm_hmacHex = (\<lambda>k msg. k @ msg), dm_inContainer = True\<rparr>"

theorem failed_container_is_removed_witness:
  "let (res, h') = Container_Provision demo_manager ''gw_a'' ''p1'' ''dedicated'' []
   in (\<exists>e. res = Inl e) \<and> last h' = ContainerRemove ''c9''"
proof -
  obtain res h' where run: "Container_Provision demo_manager ''gw_a'' ''p1'' ''dedicated'' [] = (res, h')" by fastforce
  have "isl (fst (Container_Provision demo_manager ''gw_a'' ''p1'' ''dedicated'' []))" by code_simp
  then obtain e where res: "res = Inl e" using run by (cases res) auto
  have "gatewayIDPattern ''gw_a''" by code_simp
  moreover have "dk_Create (dm_client demo_manager) [] (containerName ''gw_a'') (gateway_config demo_manager ''gw_a'' ''p1'' ''dedicated'') = Inr ''c9''"
    by (simp add: demo_manager_def demo_docker_def)
  ultimately have "last h' = ContainerRemove ''c9''"
    using failed_container_is_removed [OF run] res by auto
  then show ?thesis using run res by simp
qed

theorem decommission_removes_only_its_container_witness:
  "Container_Decommission demo_manager ''gw_aaaa0002'' [] =
     (None, [ContainerList ''elitegate-gateway-gw_aaaa0002'', ContainerStop ''c2'', ContainerRemove ''c2''])
   \<and> (\<exists>names. (''c2'', names) \<in> set demo_containers \<and> ''/'' @ containerName ''gw_aaaa0002'' \<in> set names)"
proof -
  let ?g = "''gw_aaaa0002''" and ?cs = "[(''c2'', [''/elitegate-gateway-gw_aaaa0002''])]"
  have run: "Container_Decommission demo_manager ?g [] =
     (None, [ContainerList ''elitegate-gateway-gw_aaaa0002'', ContainerStop ''c2'', ContainerRemove ''c2''])" by code_simp
  have list: "dk_List (dm_client demo_manager) [] (containerName ?g) = Inr ?cs" by code_simp
  have filter: "\<forall>(i, names) \<in> set ?cs. \<exists>n \<in> set names. Contains n (containerName ?g)" by code_simp
  have ids: "\<forall>(i, names) \<in> set ?cs. \<forall>n \<in> set names. \<exists>g'. n = ''/'' @ containerName g' \<and> length g' = length ?g"
    by (auto simp: containerName_def)
  have "touches (ContainerRemove ''c2'') ''c2''" by (simp add: touches_def)
  then have "\<exists>names. (''c2'', names) \<in> set ?cs \<and> ''/'' @ containerName ?g \<in> set names"
    using decommission_removes_only_its_container [OF list filter ids run] by auto
  then show ?thesis using run by (auto simp: demo_containers_def)
qed

end
