(* ===== verification/Admin_Access.thy ===== *)
theory Admin_Access
  imports IP_Filter Project_Auth Tenancy_Store Container_Manager
begin

text \<open>
  Who may do what in the control plane: the access tokens of \<^verbatim>\<open>internal/auth/tokens.go\<close>, the guards of
  \<^verbatim>\<open>internal/admin/middleware\<close>, the table of routes of \<^verbatim>\<open>internal/admin/router.go\<close>, and the handlers that
  change projects and members (\<^verbatim>\<open>project_handler.go\<close>, \<^verbatim>\<open>membership_handler.go\<close>, \<^verbatim>\<open>platform_handler.go\<close>).

  A guard returns the status it aborts with, or the context for the next one. The token library, the
  parsers of identifiers (in Go and in the database) and of URLs are parameters; so is the decoded body of
  a request, which is \<open>None\<close> when it is no JSON or a field that is required is missing.
\<close>

section \<open>Access tokens\<close>

record admin_claims =
  ac_Subject :: string
  ac_Username :: string
  ac_Role :: string
  ac_Issuer :: string
  ac_IssuedAt :: "go_time option"
  ac_ExpiresAt :: "go_time option"

datatype admin_error = AdminSecretTooShort | ErrTokenExpired | ErrInvalidToken

datatype admin_parse_error = TokenExpired | TokenRejected

record admin_token =
  adt_Valid :: bool
  adt_Claims :: admin_claims

type_synonym admin_parse = "go_time \<Rightarrow> string \<Rightarrow> keyfunc \<Rightarrow> admin_parse_error + admin_token"
type_synonym admin_sign = "jwt_method \<Rightarrow> string \<Rightarrow> admin_claims \<Rightarrow> string"

definition SigningMethodHS256 :: jwt_method where
  "SigningMethodHS256 = \<lparr>jm_Alg = ''HS256'', jm_IsHMAC = True\<rparr>"

record admin_token_manager =
  tm_secret :: string
  tm_issuer :: string

definition NewAdminTokenManager :: "string \<Rightarrow> string \<Rightarrow> admin_error + admin_token_manager" where
  "NewAdminTokenManager secret issuer =
     (if length secret < 32 then Inl AdminSecretTooShort
      else Inr \<lparr>tm_secret = secret, tm_issuer = (if issuer = [] then ''elitegate-admin'' else issuer)\<rparr>)"

text \<open>A date in a token has whole seconds.\<close>

definition NewNumericDate :: "go_time \<Rightarrow> go_time" where
  "NewNumericDate t = t - t mod 1000000000"

definition AccessTokenTTL :: go_duration where
  "AccessTokenTTL = 15 * 60 * 1000000000"

definition adminClaims :: "admin_token_manager \<Rightarrow> go_time \<Rightarrow> string \<Rightarrow> string \<Rightarrow> admin_claims" where
  "adminClaims m now userID username =
     \<lparr>ac_Subject = userID, ac_Username = username, ac_Role = ''admin'', ac_Issuer = tm_issuer m,
      ac_IssuedAt = Some (NewNumericDate now), ac_ExpiresAt = Some (NewNumericDate (now + AccessTokenTTL))\<rparr>"

definition CreateAdminAccessToken :: "admin_sign \<Rightarrow> admin_token_manager \<Rightarrow> go_time \<Rightarrow> string \<Rightarrow> string \<Rightarrow> string" where
  "CreateAdminAccessToken sign m now userID username = sign SigningMethodHS256 (tm_secret m) (adminClaims m now userID username)"

definition adminKeyfunc :: "admin_token_manager \<Rightarrow> keyfunc" where
  "adminKeyfunc m t =
     (if t \<noteq> SigningMethodHS256 then Inl (''unexpected signing method: '' @ jm_Alg t) else Inr (tm_secret m))"

definition ValidateAdminAccessToken ::
  "admin_parse \<Rightarrow> go_time \<Rightarrow> admin_token_manager \<Rightarrow> string \<Rightarrow> admin_error + admin_claims" where
  "ValidateAdminAccessToken parse now m raw =
     (case parse now raw (adminKeyfunc m) of
        Inl TokenExpired \<Rightarrow> Inl ErrTokenExpired
      | Inl TokenRejected \<Rightarrow> Inl ErrInvalidToken
      | Inr token \<Rightarrow>
          if \<not> adt_Valid token \<or> ac_Role (adt_Claims token) \<noteq> ''admin'' \<or> ac_Subject (adt_Claims token) = []
          then Inl ErrInvalidToken else Inr (adt_Claims token))"

text \<open>
  What the token library documents: a token it returns as valid is signed under the key that the key
  function gives for its method, and has not expired; and a token just signed parses until it expires.
\<close>

definition admin_jwt_sound :: "admin_parse \<Rightarrow> (string \<Rightarrow> jwt_method \<Rightarrow> string \<Rightarrow> admin_claims \<Rightarrow> bool) \<Rightarrow> bool" where
  "admin_jwt_sound parse verifies \<longleftrightarrow>
     (\<forall>now s kf t. parse now s kf = Inr t \<and> adt_Valid t \<longrightarrow>
        (\<exists>m key. kf m = Inr key \<and> verifies s m key (adt_Claims t))
        \<and> (\<forall>e. ac_ExpiresAt (adt_Claims t) = Some e \<longrightarrow> now < e))"

definition admin_jwt_complete :: "admin_parse \<Rightarrow> admin_sign \<Rightarrow> string \<Rightarrow> admin_claims \<Rightarrow> bool" where
  "admin_jwt_complete parse sign key claims \<longleftrightarrow>
     (\<forall>now kf. kf SigningMethodHS256 = Inr key \<longrightarrow>
        parse now (sign SigningMethodHS256 key claims) kf =
          (if (\<exists>e. ac_ExpiresAt claims = Some e \<and> e \<le> now) then Inl TokenExpired
           else Inr \<lparr>adt_Valid = True, adt_Claims = claims\<rparr>))"

section \<open>Guards\<close>

record url_parts =
  url_Scheme :: string
  url_Hostname :: string
  url_Path :: string
  url_RawQuery :: string
  url_Fragment :: string

record admin_env =
  ae_db :: db_env
  ae_now :: go_time
  ae_tokens :: admin_token_manager
  ae_parse :: admin_parse
  ae_uuid :: "string \<Rightarrow> uuid option"
  ae_pguuid :: "string \<Rightarrow> uuid option"
  ae_url :: "string \<Rightarrow> url_parts option"
  ae_allowlist :: "ip_checker option"
  ae_trustProxy :: bool

record tenant_context =
  tc_ProjectID :: uuid
  tc_UserID :: uuid
  tc_UserRole :: member_role

record admin_context =
  cx_RemoteAddr :: string
  cx_Header :: "string \<Rightarrow> string"
  cx_projectId :: string
  cx_userID :: "string option"
  cx_tenant :: "tenant_context option"

type_synonym guard_fn = "tenancy \<Rightarrow> admin_context \<Rightarrow> nat + admin_context"

definition AdminIPAllowlist :: "admin_env \<Rightarrow> guard_fn" where
  "AdminIPAllowlist ae db c =
     (case ae_allowlist ae of
        None \<Rightarrow> Inr c
      | Some checker \<Rightarrow>
          if \<not> IsAllowed checker (ExtractIP (cx_RemoteAddr c) (Some (cx_Header c)) (ae_trustProxy ae)) then Inl 403 else Inr c)"

definition AdminAuth :: "admin_env \<Rightarrow> guard_fn" where
  "AdminAuth ae db c =
     (let header = cx_Header c ''Authorization''
      in if header = [] \<or> \<not> HasPrefix header ''Bearer '' then Inl 401
         else
           (case ValidateAdminAccessToken (ae_parse ae) (ae_now ae) (ae_tokens ae) (TrimSpace (TrimPrefix header ''Bearer '')) of
              Inl _ \<Rightarrow> Inl 401
            | Inr claims \<Rightarrow>
                if ac_Role claims \<noteq> ''admin'' then Inl 403
                else Inr (c\<lparr>cx_userID := Some (ac_Subject claims)\<rparr>)))"

definition ProjectScope :: "admin_env \<Rightarrow> guard_fn" where
  "ProjectScope ae db c =
     (if cx_projectId c = [] then Inl 400
      else
        (case ae_uuid ae (cx_projectId c) of
           None \<Rightarrow> Inl 400
         | Some projectID \<Rightarrow>
        (case cx_userID c of
           None \<Rightarrow> Inl 401
         | Some str \<Rightarrow>
        (case ae_uuid ae str of
           None \<Rightarrow> Inl 401
         | Some userID \<Rightarrow>
        (case ValidateMembership (ae_db ae) projectID userID db of
           Inl e \<Rightarrow> Inl (if e = ErrForbidden then 403 else 500)
         | Inr role \<Rightarrow>
        (case IsActive (ae_db ae) projectID db of
           Inl e \<Rightarrow> Inl (if e = ErrProjectNotFound then 404 else 500)
         | Inr active \<Rightarrow>
             if \<not> active then Inl 403
             else Inr (c\<lparr>cx_tenant := Some \<lparr>tc_ProjectID = projectID, tc_UserID = userID, tc_UserRole = role\<rparr>\<rparr>)))))))"

fun roleWeight :: "member_role \<Rightarrow> nat" where
  "roleWeight RoleViewer = 0"
| "roleWeight RoleEditor = 1"
| "roleWeight RoleOwner = 2"

definition RBAC :: "member_role \<Rightarrow> guard_fn" where
  "RBAC minRole db c =
     (case cx_tenant c of
        None \<Rightarrow> Inl 403
      | Some tc \<Rightarrow> if roleWeight (tc_UserRole tc) < roleWeight minRole then Inl 403 else Inr c)"

text \<open>The subject of the token goes to the database as text; what is no identifier is an error there.\<close>

definition SuperAdminOnly :: "admin_env \<Rightarrow> guard_fn" where
  "SuperAdminOnly ae db c =
     (case cx_userID c of
        None \<Rightarrow> Inl 401
      | Some userID \<Rightarrow>
          (case ae_pguuid ae userID of
             None \<Rightarrow> Inl 500
           | Some i \<Rightarrow>
               (case IsSuperAdmin (ae_db ae) i db of
                  Inl _ \<Rightarrow> Inl 500
                | Inr ok \<Rightarrow> if \<not> ok then Inl 403 else Inr c)))"

definition RequireGatewayToken :: "(string \<Rightarrow> string \<Rightarrow> string) \<Rightarrow> string \<Rightarrow> string \<Rightarrow> string \<Rightarrow> nat option" where
  "RequireGatewayToken hmacHex masterSecret projectID got =
     (if projectID = [] then Some 400
      else if got = [] then Some 401
      else if got \<noteq> DeriveTenantJWTSecret hmacHex masterSecret projectID then Some 401
      else None)"

fun chain :: "guard_fn list \<Rightarrow> guard_fn" where
  "chain [] db c = Inr c"
| "chain (g # gs) db c = (case g db c of Inl status \<Rightarrow> Inl status | Inr c' \<Rightarrow> chain gs db c')"

section \<open>Routes\<close>

datatype guard = Authenticated | Scoped member_role | SuperAdmin

definition admin_routes :: "(string \<times> string \<times> guard) list" where
  "admin_routes = [
    (''POST'', ''/admin/v1/projects'', Authenticated),
    (''GET'', ''/admin/v1/projects'', Authenticated),
    (''PUT'', ''/admin/v1/projects/:projectId'', Authenticated),
    (''DELETE'', ''/admin/v1/projects/:projectId'', Authenticated),
    (''POST'', ''/admin/v1/reload'', SuperAdmin),
    (''GET'', ''/admin/v1/gateways'', Authenticated),
    (''GET'', ''/admin/v1/me'', Authenticated),
    (''GET'', ''/admin/v1/platform/projects'', SuperAdmin),
    (''DELETE'', ''/admin/v1/platform/projects/:projectId'', SuperAdmin),
    (''GET'', ''/admin/v1/platform/health'', SuperAdmin),
    (''GET'', ''/admin/v1/platform/metrics'', SuperAdmin),
    (''GET'', ''/admin/v1/platform/metrics/system'', SuperAdmin),
    (''GET'', ''/admin/v1/platform/metrics/system/range'', SuperAdmin),
    (''PATCH'', ''/admin/v1/platform/projects/:projectId/suspend'', SuperAdmin),
    (''PATCH'', ''/admin/v1/platform/projects/:projectId/reactivate'', SuperAdmin),
    (''POST'', ''/admin/v1/platform/gateways/:gatewayId/restart'', SuperAdmin),
    (''POST'', ''/admin/v1/platform/gateways/:gatewayId/force-decommission'', SuperAdmin),
    (''GET'', ''/admin/v1/projects/:projectId/summary'', Scoped RoleViewer),
    (''PUT'', ''/admin/v1/projects/:projectId/dashboard-origins'', Scoped RoleOwner),
    (''GET'', ''/admin/v1/projects/:projectId/routes'', Scoped RoleViewer),
    (''POST'', ''/admin/v1/projects/:projectId/routes'', Scoped RoleEditor),
    (''PUT'', ''/admin/v1/projects/:projectId/routes/:id'', Scoped RoleEditor),
    (''PATCH'', ''/admin/v1/projects/:projectId/routes/:id/disable'', Scoped RoleEditor),
    (''PATCH'', ''/admin/v1/projects/:projectId/routes/:id/enable'', Scoped RoleEditor),
    (''DELETE'', ''/admin/v1/projects/:projectId/routes/:id'', Scoped RoleEditor),
    (''POST'', ''/admin/v1/projects/:projectId/routes/:id/policy'', Scoped RoleEditor),
    (''DELETE'', ''/admin/v1/projects/:projectId/routes/:id/policy'', Scoped RoleEditor),
    (''GET'', ''/admin/v1/projects/:projectId/upstreams'', Scoped RoleViewer),
    (''POST'', ''/admin/v1/projects/:projectId/upstreams'', Scoped RoleEditor),
    (''GET'', ''/admin/v1/projects/:projectId/upstreams/:id/health'', Scoped RoleViewer),
    (''PUT'', ''/admin/v1/projects/:projectId/upstreams/:id'', Scoped RoleEditor),
    (''PATCH'', ''/admin/v1/projects/:projectId/upstreams/:id/disable'', Scoped RoleEditor),
    (''DELETE'', ''/admin/v1/projects/:projectId/upstreams/:id'', Scoped RoleEditor),
    (''GET'', ''/admin/v1/projects/:projectId/upstreams/:id/targets'', Scoped RoleViewer),
    (''POST'', ''/admin/v1/projects/:projectId/upstreams/:id/targets'', Scoped RoleEditor),
    (''DELETE'', ''/admin/v1/projects/:projectId/upstreams/:id/targets/:targetId'', Scoped RoleEditor),
    (''GET'', ''/admin/v1/projects/:projectId/policies'', Scoped RoleViewer),
    (''POST'', ''/admin/v1/projects/:projectId/policies'', Scoped RoleEditor),
    (''PUT'', ''/admin/v1/projects/:projectId/policies/:id'', Scoped RoleEditor),
    (''DELETE'', ''/admin/v1/projects/:projectId/policies/:id'', Scoped RoleOwner),
    (''GET'', ''/admin/v1/projects/:projectId/members'', Scoped RoleViewer),
    (''GET'', ''/admin/v1/projects/:projectId/members/lookup'', Scoped RoleOwner),
    (''POST'', ''/admin/v1/projects/:projectId/members'', Scoped RoleOwner),
    (''PUT'', ''/admin/v1/projects/:projectId/members/:adminUserId'', Scoped RoleOwner),
    (''DELETE'', ''/admin/v1/projects/:projectId/members/:adminUserId'', Scoped RoleOwner),
    (''GET'', ''/admin/v1/projects/:projectId/keys'', Scoped RoleViewer),
    (''POST'', ''/admin/v1/projects/:projectId/keys'', Scoped RoleEditor),
    (''POST'', ''/admin/v1/projects/:projectId/keys/:id/rotate'', Scoped RoleEditor),
    (''DELETE'', ''/admin/v1/projects/:projectId/keys/:id'', Scoped RoleEditor),
    (''GET'', ''/admin/v1/projects/:projectId/security/jwt'', Scoped RoleOwner),
    (''PUT'', ''/admin/v1/projects/:projectId/security/jwt'', Scoped RoleOwner),
    (''DELETE'', ''/admin/v1/projects/:projectId/security/jwt'', Scoped RoleOwner),
    (''GET'', ''/admin/v1/projects/:projectId/custom-domains'', Scoped RoleViewer),
    (''GET'', ''/admin/v1/projects/:projectId/custom-domains/:domainId'', Scoped RoleViewer),
    (''POST'', ''/admin/v1/projects/:projectId/custom-domains'', Scoped RoleOwner),
    (''POST'', ''/admin/v1/projects/:projectId/custom-domains/:domainId/verify'', Scoped RoleOwner),
    (''DELETE'', ''/admin/v1/projects/:projectId/custom-domains/:domainId'', Scoped RoleOwner),
    (''POST'', ''/admin/v1/projects/:projectId/custom-domains/:domainId/check-routing'', Scoped RoleOwner),
    (''POST'', ''/admin/v1/projects/:projectId/custom-domains/:domainId/activate'', Scoped RoleOwner),
    (''GET'', ''/admin/v1/projects/:projectId/custom-domains/:domainId/provisioning-status'', Scoped RoleViewer),
    (''POST'', ''/admin/v1/projects/:projectId/custom-domains/:domainId/retry-provisioning'', Scoped RoleOwner),
    (''POST'', ''/admin/v1/projects/:projectId/custom-domains/:domainId/retry-deprovisioning'', Scoped RoleOwner),
    (''GET'', ''/admin/v1/projects/:projectId/audit-logs'', Scoped RoleViewer),
    (''GET'', ''/admin/v1/projects/:projectId/gateways'', Scoped RoleViewer),
    (''POST'', ''/admin/v1/projects/:projectId/gateways'', Scoped RoleEditor),
    (''DELETE'', ''/admin/v1/projects/:projectId/gateways/:gatewayId'', Scoped RoleEditor),
    (''GET'', ''/admin/v1/projects/:projectId/metrics/query'', Scoped RoleViewer),
    (''GET'', ''/admin/v1/projects/:projectId/metrics/query-range'', Scoped RoleViewer),
    (''GET'', ''/admin/v1/projects/:projectId/metrics/summary'', Scoped RoleViewer),
    (''GET'', ''/admin/v1/projects/:projectId/metrics/system'', Scoped RoleViewer),
    (''GET'', ''/admin/v1/projects/:projectId/metrics/system/range'', Scoped RoleViewer),
    (''POST'', ''/admin/v1/projects/:projectId/reload'', Scoped RoleEditor),
    (''POST'', ''/admin/v1/admins'', SuperAdmin)]"

definition guards_of :: "admin_env \<Rightarrow> guard \<Rightarrow> guard_fn list" where
  "guards_of ae g =
     [AdminIPAllowlist ae, AdminAuth ae] @
     (case g of
        Authenticated \<Rightarrow> []
      | Scoped role \<Rightarrow> [ProjectScope ae, RBAC role]
      | SuperAdmin \<Rightarrow> [SuperAdminOnly ae])"

text \<open>The calls that change projects and members.\<close>

record project_request =
  prq_Name :: string
  prq_Slug :: string
  prq_Description :: string
  prq_Plan :: string

datatype admin_call =
    CreateProjectCall "project_request option"
  | UpdateProjectCall string "project_request option"
  | DeleteProjectCall string
  | DashboardOriginsCall string "string list option"
  | AddMemberCall string "(string \<times> string) option"
  | ChangeRoleCall string string "string option"
  | RemoveMemberCall string string
  | DeleteTenantCall string
  | SuspendTenantCall string
  | ReactivateTenantCall string

fun route_of :: "admin_call \<Rightarrow> string \<times> string" where
  "route_of (CreateProjectCall _) = (''POST'', ''/admin/v1/projects'')"
| "route_of (UpdateProjectCall _ _) = (''PUT'', ''/admin/v1/projects/:projectId'')"
| "route_of (DeleteProjectCall _) = (''DELETE'', ''/admin/v1/projects/:projectId'')"
| "route_of (DashboardOriginsCall _ _) = (''PUT'', ''/admin/v1/projects/:projectId/dashboard-origins'')"
| "route_of (AddMemberCall _ _) = (''POST'', ''/admin/v1/projects/:projectId/members'')"
| "route_of (ChangeRoleCall _ _ _) = (''PUT'', ''/admin/v1/projects/:projectId/members/:adminUserId'')"
| "route_of (RemoveMemberCall _ _) = (''DELETE'', ''/admin/v1/projects/:projectId/members/:adminUserId'')"
| "route_of (DeleteTenantCall _) = (''DELETE'', ''/admin/v1/platform/projects/:projectId'')"
| "route_of (SuspendTenantCall _) = (''PATCH'', ''/admin/v1/platform/projects/:projectId/suspend'')"
| "route_of (ReactivateTenantCall _) = (''PATCH'', ''/admin/v1/platform/projects/:projectId/reactivate'')"

fun project_param :: "admin_call \<Rightarrow> string" where
  "project_param (CreateProjectCall _) = []"
| "project_param (UpdateProjectCall p _) = p"
| "project_param (DeleteProjectCall p) = p"
| "project_param (DashboardOriginsCall p _) = p"
| "project_param (AddMemberCall p _) = p"
| "project_param (ChangeRoleCall p _ _) = p"
| "project_param (RemoveMemberCall p _) = p"
| "project_param (DeleteTenantCall p) = p"
| "project_param (SuspendTenantCall p) = p"
| "project_param (ReactivateTenantCall p) = p"

definition guard_for :: "admin_call \<Rightarrow> guard option" where
  "guard_for call = map_option (\<lambda>(_, _, g). g) (List.find (\<lambda>(m, p, _). (m, p) = route_of call) admin_routes)"

section \<open>Handlers\<close>

text \<open>An identifier that is passed to the database as it came.\<close>

definition with_pguuid :: "admin_env \<Rightarrow> string \<Rightarrow> (uuid \<Rightarrow> tenancy_op) \<Rightarrow> tenancy_op" where
  "with_pguuid ae raw op db =
     (case ae_pguuid ae raw of
        None \<Rightarrow> (Some (TenancySql raw ''invalid input syntax for type uuid''), db)
      | Some i \<Rightarrow> op i db)"

definition respond :: "(tenancy_error \<Rightarrow> nat) \<Rightarrow> nat \<Rightarrow> tenancy_error option \<times> tenancy \<Rightarrow> nat \<times> tenancy" where
  "respond status ok r = (case r of (Some e, db) \<Rightarrow> (status e, db) | (None, db) \<Rightarrow> (ok, db))"

definition ProjectHandler_Create :: "admin_env \<Rightarrow> admin_context \<Rightarrow> project_request option \<Rightarrow> tenancy \<Rightarrow> nat \<times> tenancy" where
  "ProjectHandler_Create ae c body db =
     (case body of
        None \<Rightarrow> (400, db)
      | Some req \<Rightarrow>
          (case cx_userID c of
             None \<Rightarrow> (401, db)
           | Some userID \<Rightarrow>
               respond (\<lambda>e. if e = ErrSlugConflict then 409 else 500) 201
                 (with_pguuid ae userID (\<lambda>i. CreateProject (ae_db ae) (prq_Name req) (prq_Slug req) (prq_Description req) i (prq_Plan req)) db)))"

definition ProjectHandler_Update :: "admin_env \<Rightarrow> string \<Rightarrow> project_request option \<Rightarrow> tenancy \<Rightarrow> nat \<times> tenancy" where
  "ProjectHandler_Update ae projectId body db =
     (case body of
        None \<Rightarrow> (400, db)
      | Some req \<Rightarrow>
          respond (\<lambda>e. if e = ErrProjectNotFound then 404 else 500) 200
            (with_pguuid ae projectId (\<lambda>i. Project_Update (ae_db ae) i (prq_Name req) (prq_Description req) (prq_Plan req)) db))"

definition ProjectHandler_Delete :: "admin_env \<Rightarrow> string \<Rightarrow> tenancy \<Rightarrow> nat \<times> tenancy" where
  "ProjectHandler_Delete ae projectId db =
     respond (\<lambda>e. if e = ErrProjectNotFound then 404 else 500) 200
       (with_pguuid ae projectId (Project_Delete (ae_db ae)) db)"

definition validateOrigin :: "(string \<Rightarrow> url_parts option) \<Rightarrow> string \<Rightarrow> bool" where
  "validateOrigin parse raw =
     (case parse raw of
        None \<Rightarrow> False
      | Some u \<Rightarrow>
          (let isLocalhost = (url_Hostname u = ''localhost'' \<or> HasSuffix (url_Hostname u) ''.localhost'')
           in (url_Scheme u = ''https'' \<or> url_Scheme u = ''http'' \<and> isLocalhost)
              \<and> url_Path u = [] \<and> url_RawQuery u = [] \<and> url_Fragment u = []
              \<and> \<not> Contains raw ''*''))"

definition ProjectHandler_UpdateDashboardOrigins ::
  "admin_env \<Rightarrow> string \<Rightarrow> string list option \<Rightarrow> tenancy \<Rightarrow> nat \<times> tenancy" where
  "ProjectHandler_UpdateDashboardOrigins ae projectId body db =
     (case body of
        None \<Rightarrow> (400, db)
      | Some origins \<Rightarrow>
          if \<not> list_all (validateOrigin (ae_url ae)) origins then (400, db)
          else if length origins > 10 then (400, db)
          else respond (\<lambda>e. if e = ErrTooManyOrigins then 400 else 500) 200
                 (with_pguuid ae projectId (\<lambda>i. UpdateDashboardOrigins (ae_db ae) i origins) db))"

definition uuidNil :: uuid where
  "uuidNil = ''00000000-0000-0000-0000-000000000000''"

definition MembershipHandler_AddMember ::
  "admin_env \<Rightarrow> admin_context \<Rightarrow> string \<Rightarrow> (string \<times> string) option \<Rightarrow> tenancy \<Rightarrow> nat \<times> tenancy" where
  "MembershipHandler_AddMember ae c projectId body db =
     (case ae_uuid ae projectId of
        None \<Rightarrow> (400, db)
      | Some projectID \<Rightarrow>
          (case body of
             None \<Rightarrow> (400, db)
           | Some (email, role) \<Rightarrow>
               (let inviterID = (case cx_userID c of None \<Rightarrow> uuidNil | Some s \<Rightarrow> (case ae_uuid ae s of None \<Rightarrow> uuidNil | Some i \<Rightarrow> i))
                in respond (\<lambda>e. if e = ErrInvalidMemberRole then 400 else if e = ErrNoRows then 404
                                else if e = ErrAlreadyMember then 409 else 500) 201
                     (MembershipService_AddMember (ae_db ae) projectID email role inviterID db))))"

definition MembershipHandler_ChangeRole ::
  "admin_env \<Rightarrow> string \<Rightarrow> string \<Rightarrow> string option \<Rightarrow> tenancy \<Rightarrow> nat \<times> tenancy" where
  "MembershipHandler_ChangeRole ae projectId adminUserId body db =
     (case ae_uuid ae projectId of
        None \<Rightarrow> (400, db)
      | Some projectID \<Rightarrow>
          (case ae_uuid ae adminUserId of
             None \<Rightarrow> (400, db)
           | Some targetUserID \<Rightarrow>
               (case body of
                  None \<Rightarrow> (400, db)
                | Some role \<Rightarrow>
                    respond (\<lambda>e. if e = ErrInvalidMemberRole then 400 else if e = ErrLastOwner then 409
                                 else if e = ErrNotFound then 404 else 500) 200
                      (MembershipService_ChangeRole (ae_db ae) projectID targetUserID role db))))"

definition MembershipHandler_RemoveMember :: "admin_env \<Rightarrow> string \<Rightarrow> string \<Rightarrow> tenancy \<Rightarrow> nat \<times> tenancy" where
  "MembershipHandler_RemoveMember ae projectId adminUserId db =
     (case ae_uuid ae projectId of
        None \<Rightarrow> (400, db)
      | Some projectID \<Rightarrow>
          (case ae_uuid ae adminUserId of
             None \<Rightarrow> (400, db)
           | Some targetUserID \<Rightarrow>
               respond (\<lambda>e. if e = ErrLastOwner \<or> e = ErrIsProjectOwner then 409 else if e = ErrNotFound then 404 else 500) 200
                 (MembershipService_RemoveMember (ae_db ae) projectID targetUserID db)))"

definition platform_op :: "admin_env \<Rightarrow> string \<Rightarrow> (uuid \<Rightarrow> tenancy_op) \<Rightarrow> tenancy \<Rightarrow> nat \<times> tenancy" where
  "platform_op ae projectId op db =
     (if projectId = [] then (400, db)
      else respond (\<lambda>e. if e = ErrProjectNotFound then 404 else 500) 200 (with_pguuid ae projectId op db))"

definition DeleteTenant :: "admin_env \<Rightarrow> string \<Rightarrow> tenancy \<Rightarrow> nat \<times> tenancy" where
  "DeleteTenant ae projectId = platform_op ae projectId (Project_Delete (ae_db ae))"

definition SuspendTenant :: "admin_env \<Rightarrow> string \<Rightarrow> tenancy \<Rightarrow> nat \<times> tenancy" where
  "SuspendTenant ae projectId = platform_op ae projectId (Suspend (ae_db ae))"

definition ReactivateTenant :: "admin_env \<Rightarrow> string \<Rightarrow> tenancy \<Rightarrow> nat \<times> tenancy" where
  "ReactivateTenant ae projectId = platform_op ae projectId (Reactivate (ae_db ae))"

fun admin_handle :: "admin_env \<Rightarrow> admin_context \<Rightarrow> admin_call \<Rightarrow> tenancy \<Rightarrow> nat \<times> tenancy" where
  "admin_handle ae c (CreateProjectCall body) db = ProjectHandler_Create ae c body db"
| "admin_handle ae c (UpdateProjectCall p body) db = ProjectHandler_Update ae p body db"
| "admin_handle ae c (DeleteProjectCall p) db = ProjectHandler_Delete ae p db"
| "admin_handle ae c (DashboardOriginsCall p body) db = ProjectHandler_UpdateDashboardOrigins ae p body db"
| "admin_handle ae c (AddMemberCall p body) db = MembershipHandler_AddMember ae c p body db"
| "admin_handle ae c (ChangeRoleCall p u body) db = MembershipHandler_ChangeRole ae p u body db"
| "admin_handle ae c (RemoveMemberCall p u) db = MembershipHandler_RemoveMember ae p u db"
| "admin_handle ae c (DeleteTenantCall p) db = DeleteTenant ae p db"
| "admin_handle ae c (SuspendTenantCall p) db = SuspendTenant ae p db"
| "admin_handle ae c (ReactivateTenantCall p) db = ReactivateTenant ae p db"

text \<open>A request: the guards of its route, then its handler. The result is the status and the tables after it.\<close>

definition admin_serve :: "admin_env \<Rightarrow> string \<Rightarrow> (string \<Rightarrow> string) \<Rightarrow> admin_call \<Rightarrow> tenancy \<Rightarrow> nat \<times> tenancy" where
  "admin_serve ae remoteAddr headers call db =
     (case guard_for call of
        None \<Rightarrow> (404, db)
      | Some g \<Rightarrow>
          (case chain (guards_of ae g) db
                  \<lparr>cx_RemoteAddr = remoteAddr, cx_Header = headers, cx_projectId = project_param call, cx_userID = None, cx_tenant = None\<rparr> of
             Inl status \<Rightarrow> (status, db)
           | Inr c \<Rightarrow> admin_handle ae c call db))"

lemma guard_for_create: "guard_for (CreateProjectCall body) = Some Authenticated"
  by (simp add: guard_for_def admin_routes_def)

section \<open>Tokens come back\<close>

text \<open>
  A token that was made for an administrator validates with the same claims until 15 minutes have passed, up to
  the second its expiry is rounded to, and is reported as expired from then on. A subject must be given.
\<close>

theorem admin_token_roundtrip:
  assumes "admin_jwt_complete parse sign (tm_secret m) (adminClaims m now userID username)" "userID \<noteq> []"
  shows "ValidateAdminAccessToken parse later m (CreateAdminAccessToken sign m now userID username) =
    (if later < NewNumericDate (now + AccessTokenTTL) then Inr (adminClaims m now userID username) else Inl ErrTokenExpired)"
proof -
  have "adminKeyfunc m SigningMethodHS256 = Inr (tm_secret m)" by (simp add: adminKeyfunc_def)
  then have "parse later (CreateAdminAccessToken sign m now userID username) (adminKeyfunc m) =
      (if (\<exists>e. ac_ExpiresAt (adminClaims m now userID username) = Some e \<and> e \<le> later) then Inl TokenExpired
       else Inr \<lparr>adt_Valid = True, adt_Claims = adminClaims m now userID username\<rparr>)"
    using assms(1) by (simp add: admin_jwt_complete_def CreateAdminAccessToken_def)
  then show ?thesis
    using assms(2) by (auto simp: ValidateAdminAccessToken_def adminClaims_def not_less)
qed

section \<open>What the guards establish\<close>

definition authenticated ::
  "admin_env \<Rightarrow> (string \<Rightarrow> jwt_method \<Rightarrow> string \<Rightarrow> admin_claims \<Rightarrow> bool) \<Rightarrow> (string \<Rightarrow> string) \<Rightarrow> string \<Rightarrow> bool" where
  "authenticated ae verifies headers subject \<longleftrightarrow>
     (\<exists>raw claims. headers ''Authorization'' = ''Bearer '' @ raw
        \<and> verifies (TrimSpace raw) SigningMethodHS256 (tm_secret (ae_tokens ae)) claims
        \<and> ac_Subject claims = subject \<and> subject \<noteq> [] \<and> ac_Role claims = ''admin''
        \<and> (\<forall>e. ac_ExpiresAt claims = Some e \<longrightarrow> ae_now ae < e))"

definition holds_role :: "tenancy \<Rightarrow> member_role \<Rightarrow> uuid \<Rightarrow> uuid \<Rightarrow> bool" where
  "holds_role db role p u \<longleftrightarrow>
     list_ex (\<lambda>m. member_of p u m \<and> roleWeight role \<le> roleWeight (mb_Role m)) (td_members db)
     \<and> list_ex (\<lambda>q. prj_ID q = p \<and> prj_live q \<and> prj_IsActive q) (td_projects db)
     \<and> list_ex (\<lambda>a. au_ID a = u \<and> au_DeletedAt a = None \<and> au_IsActive a) (td_users db)"

definition entitled :: "admin_env \<Rightarrow> tenancy \<Rightarrow> guard \<Rightarrow> string \<Rightarrow> uuid \<Rightarrow> bool" where
  "entitled ae db g subject p \<longleftrightarrow>
     (case g of
        Authenticated \<Rightarrow> True
      | Scoped role \<Rightarrow> (\<exists>u. ae_uuid ae subject = Some u \<and> holds_role db role p u)
      | SuperAdmin \<Rightarrow> list_ex (\<lambda>a. ae_pguuid ae subject = Some (au_ID a) \<and> au_IsSuperAdmin a) (td_users db))"

lemma find_Some_mem: "List.find P xs = Some x \<Longrightarrow> x \<in> set xs \<and> P x"
  by (auto simp: find_Some_iff)

lemma AdminIPAllowlist_Inr: "AdminIPAllowlist ae db c = Inr c' \<Longrightarrow> c' = c"
  by (simp add: AdminIPAllowlist_def split: option.splits if_splits)

lemma adminKeyfunc_Inr: "adminKeyfunc m t = Inr key \<longleftrightarrow> t = SigningMethodHS256 \<and> key = tm_secret m"
  by (auto simp: adminKeyfunc_def)

lemma ValidateAdminAccessToken_Inr:
  assumes "admin_jwt_sound parse verifies" "ValidateAdminAccessToken parse now m raw = Inr claims"
  shows "verifies raw SigningMethodHS256 (tm_secret m) claims \<and> ac_Role claims = ''admin'' \<and> ac_Subject claims \<noteq> []
    \<and> (\<forall>e. ac_ExpiresAt claims = Some e \<longrightarrow> now < e)"
proof -
  obtain t where t: "parse now raw (adminKeyfunc m) = Inr t" "adt_Valid t" "adt_Claims t = claims"
    and ok: "ac_Role claims = ''admin''" "ac_Subject claims \<noteq> []"
    using assms(2) by (auto simp: ValidateAdminAccessToken_def split: sum.splits admin_parse_error.splits if_splits)
  obtain m' key where "adminKeyfunc m m' = Inr key" "verifies raw m' key claims" "\<forall>e. ac_ExpiresAt claims = Some e \<longrightarrow> now < e"
    using assms(1) t unfolding admin_jwt_sound_def by blast
  then show ?thesis using ok by (simp add: adminKeyfunc_Inr)
qed

lemma AdminAuth_Inr:
  assumes "admin_jwt_sound (ae_parse ae) verifies" "AdminAuth ae db c = Inr c'"
  shows "\<exists>subject. authenticated ae verifies (cx_Header c) subject \<and> c' = c\<lparr>cx_userID := Some subject\<rparr>"
proof -
  let ?h = "cx_Header c ''Authorization''"
  obtain claims where h: "HasPrefix ?h ''Bearer ''" and c': "c' = c\<lparr>cx_userID := Some (ac_Subject claims)\<rparr>"
    and v: "ValidateAdminAccessToken (ae_parse ae) (ae_now ae) (ae_tokens ae) (TrimSpace (TrimPrefix ?h ''Bearer '')) = Inr claims"
    using assms(2) by (auto simp: AdminAuth_def Let_def split: if_splits sum.splits)
  from h obtain raw where raw: "?h = ''Bearer '' @ raw" by (auto simp: HasPrefix_iff)
  then have "TrimPrefix ?h ''Bearer '' = raw" using h by (simp add: TrimPrefix_def)
  with ValidateAdminAccessToken_Inr [OF assms(1) v] raw c' show ?thesis
    unfolding authenticated_def by blast
qed

lemma ProjectScope_Inr:
  assumes "ProjectScope ae db c = Inr c'"
  shows "\<exists>p s u role. ae_uuid ae (cx_projectId c) = Some p \<and> cx_userID c = Some s \<and> ae_uuid ae s = Some u
    \<and> ValidateMembership (ae_db ae) p u db = Inr role \<and> IsActive (ae_db ae) p db = Inr True
    \<and> c' = c\<lparr>cx_tenant := Some \<lparr>tc_ProjectID = p, tc_UserID = u, tc_UserRole = role\<rparr>\<rparr>"
  using assms by (auto simp: ProjectScope_def split: if_splits option.splits sum.splits)

lemma membership_holds_role:
  assumes "ValidateMembership env p u db = Inr role" "IsActive env' p db = Inr True" "roleWeight minRole \<le> roleWeight role"
  shows "holds_role db minRole p u"
proof -
  obtain m where "m \<in> set (td_members db)" "member_of p u m" "mb_Role m = role"
    "list_ex (\<lambda>a. au_ID a = u \<and> au_DeletedAt a = None \<and> au_IsActive a) (td_users db)"
    using assms(1) by (auto simp: ValidateMembership_def tx_read_def split: option.splits dest: find_Some_mem)
  moreover have "list_ex (\<lambda>q. prj_ID q = p \<and> prj_live q \<and> prj_IsActive q) (td_projects db)"
    using assms(2) by (auto simp: IsActive_def tx_read_def list_ex_iff split: option.splits dest: find_Some_mem)
  ultimately show ?thesis using assms(3) by (auto simp: holds_role_def list_ex_iff)
qed

lemma SuperAdminOnly_Inr:
  assumes "SuperAdminOnly ae db c = Inr c'"
  shows "c' = c \<and> (\<exists>s. cx_userID c = Some s \<and> list_ex (\<lambda>a. ae_pguuid ae s = Some (au_ID a) \<and> au_IsSuperAdmin a) (td_users db))"
  using assms
  by (auto simp: SuperAdminOnly_def IsSuperAdmin_def tx_read_def list_ex_iff split: option.splits sum.splits if_splits dest!: find_Some_mem)

lemma guards_admit:
  assumes "admin_jwt_sound (ae_parse ae) verifies" "chain (guards_of ae g) db c = Inr c'" "cx_tenant c = None"
  shows "\<exists>subject. authenticated ae verifies (cx_Header c) subject \<and> cx_userID c' = Some subject
    \<and> (case g of Scoped role \<Rightarrow> \<exists>p. ae_uuid ae (cx_projectId c) = Some p \<and> entitled ae db g subject p | _ \<Rightarrow> \<forall>p. entitled ae db g subject p)"
proof -
  obtain c2 where auth: "AdminAuth ae db c = Inr c2"
    and rest: "chain (case g of Authenticated \<Rightarrow> [] | Scoped role \<Rightarrow> [ProjectScope ae, RBAC role] | SuperAdmin \<Rightarrow> [SuperAdminOnly ae]) db c2 = Inr c'"
    using assms(2) by (auto simp: guards_of_def split: sum.splits dest: AdminIPAllowlist_Inr)
  obtain subject where s: "authenticated ae verifies (cx_Header c) subject" and c2: "c2 = c\<lparr>cx_userID := Some subject\<rparr>"
    using AdminAuth_Inr [OF assms(1) auth] by blast
  show ?thesis
  proof (cases g)
    case Authenticated
    then show ?thesis using rest s c2 by (auto simp: entitled_def)
  next
    case (Scoped role)
    then obtain c3 where c3: "ProjectScope ae db c2 = Inr c3" "RBAC role db c3 = Inr c'"
      using rest by (auto split: sum.splits)
    from ProjectScope_Inr [OF c3(1)] obtain p u r where ps: "ae_uuid ae (cx_projectId c) = Some p" "ae_uuid ae subject = Some u"
      "ValidateMembership (ae_db ae) p u db = Inr r" "IsActive (ae_db ae) p db = Inr True"
      "c3 = c2\<lparr>cx_tenant := Some \<lparr>tc_ProjectID = p, tc_UserID = u, tc_UserRole = r\<rparr>\<rparr>"
      by (auto simp: c2)
    have "roleWeight role \<le> roleWeight r" "c' = c3"
      using c3(2) by (auto simp: RBAC_def ps(5) split: if_splits)
    then show ?thesis
      using s ps membership_holds_role [OF ps(3,4)] by (auto simp: Scoped entitled_def c2)
  next
    case SuperAdmin
    then show ?thesis using rest s SuperAdminOnly_Inr [of ae db c2 c'] by (auto simp: entitled_def c2 split: sum.splits)
  qed
qed

definition tenant_is :: "admin_context \<Rightarrow> uuid \<Rightarrow> bool" where
  "tenant_is c p \<longleftrightarrow> (\<exists>tc. cx_tenant c = Some tc \<and> tc_ProjectID tc = p)"

lemma scoped_admits:
  assumes "admin_jwt_sound (ae_parse ae) verifies" "chain (guards_of ae (Scoped role)) db c = Inr c'" "cx_tenant c = None"
  shows "\<exists>subject p. authenticated ae verifies (cx_Header c) subject \<and> ae_uuid ae (cx_projectId c) = Some p
    \<and> entitled ae db (Scoped role) subject p \<and> tenant_is c' p"
proof -
  obtain subject p where s: "authenticated ae verifies (cx_Header c) subject" "ae_uuid ae (cx_projectId c) = Some p"
    "entitled ae db (Scoped role) subject p"
    using guards_admit [OF assms] by auto
  obtain c2 c3 where c: "AdminAuth ae db c = Inr c2" "ProjectScope ae db c2 = Inr c3" "RBAC role db c3 = Inr c'"
    using assms(2) by (auto simp: guards_of_def split: sum.splits dest: AdminIPAllowlist_Inr)
  have "c' = c3" using c(3) by (auto simp: RBAC_def split: option.splits if_splits)
  moreover have "cx_projectId c2 = cx_projectId c" using AdminAuth_Inr [OF assms(1) c(1)] by auto
  ultimately have "tenant_is c' p"
    using s(2) ProjectScope_Inr [OF c(2)] by (auto simp: tenant_is_def)
  with s show ?thesis by blast
qed

section \<open>A request changes one project\<close>

definition child_rows :: "uuid \<Rightarrow> child_row list \<Rightarrow> child_row list" where
  "child_rows p = filter (\<lambda>c. ch_ProjectID c = p)"

text \<open>The rows that belong to a project.\<close>

definition rows_of ::
  "uuid \<Rightarrow> tenancy \<Rightarrow> project_row list \<times> member_row list \<times> child_row list \<times> child_row list \<times> child_row list" where
  "rows_of p db =
     (filter (\<lambda>q. prj_ID q = p) (td_projects db), filter (\<lambda>m. mb_ProjectID m = p) (td_members db),
      child_rows p (td_keys db), child_rows p (td_routes db), child_rows p (td_upstreams db))"

lemma filter_sql_update:
  "(\<And>x. P x \<Longrightarrow> \<not> Q x \<and> \<not> Q (f x)) \<Longrightarrow> filter Q (sql_update P f xs) = filter Q xs"
  unfolding sql_update_def by (induction xs) auto

lemma tx_try_keeps: "F (snd (op db)) = F db \<Longrightarrow> F (snd (tx_try env s op db)) = F db"
  by (simp add: tx_try_def split: option.split)

lemma in_tx_keeps:
  assumes "\<And>op db. op \<in> set ops \<Longrightarrow> F (snd (op db)) = F db"
  shows "F (snd (in_tx ops db)) = F db"
proof -
  have "F (snd (tx_all ops db)) = F db"
    using assms
  proof (induction ops arbitrary: db)
    case (Cons op ops)
    obtain e db1 where op: "op db = (e, db1)" by (cases "op db")
    then have "F db1 = F db" using Cons.prems [of op db] by simp
    then show ?case using Cons.IH [of db1] Cons.prems op by (auto split: option.split)
  qed simp
  then show ?thesis by (auto simp: in_tx_def split: prod.splits option.splits)
qed

lemma close_children_other: "p \<noteq> i \<Longrightarrow> child_rows p (close_children env i b cs) = child_rows p cs"
  unfolding child_rows_def close_children_def by (rule filter_sql_update) auto

lemma project_exec_other:
  assumes "p \<noteq> i" "\<And>q. prj_ID (f q) = prj_ID q"
  shows "rows_of p (snd (project_exec env s e i f db)) = rows_of p db"
proof -
  have "filter (\<lambda>q. prj_ID q = p) (sql_update (\<lambda>q. prj_ID q = i \<and> prj_live q) f xs) = filter (\<lambda>q. prj_ID q = p) xs" for xs
    using assms by (intro filter_sql_update) auto
  then show ?thesis unfolding project_exec_def by (intro tx_try_keeps) (simp add: rows_of_def Let_def)
qed

lemma Project_Update_other: "p \<noteq> i \<Longrightarrow> rows_of p (snd (Project_Update env i n d pl db)) = rows_of p db"
  unfolding Project_Update_def
  by (intro tx_try_keeps) (auto simp: rows_of_def Let_def intro!: filter_sql_update)

lemma Project_Delete_other:
  assumes "p \<noteq> i"
  shows "rows_of p (snd (Project_Delete env i db)) = rows_of p db"
  unfolding Project_Delete_def
proof (rule in_tx_keeps)
  fix op db
  assume "op \<in> set [tx_try env ''begin transaction'' (tx_ok (\<lambda>db. db)),
        tx_try env ''soft-delete api_keys'' (tx_ok (\<lambda>db. db\<lparr>td_keys := close_children env i True (td_keys db)\<rparr>)),
        tx_try env ''soft-delete routes'' (tx_ok (\<lambda>db. db\<lparr>td_routes := close_children env i False (td_routes db)\<rparr>)),
        tx_try env ''soft-delete upstreams'' (tx_ok (\<lambda>db. db\<lparr>td_upstreams := close_children env i False (td_upstreams db)\<rparr>)),
        project_exec env ''soft-delete project'' ErrProjectNotFound i (\<lambda>p. p\<lparr>prj_DeletedAt := Some (de_now env)\<rparr>),
        tx_try env ''commit transaction'' (tx_ok (\<lambda>db. db))]"
  then show "rows_of p (snd (op db)) = rows_of p db"
    using assms project_exec_other [OF assms, of "\<lambda>p. p\<lparr>prj_DeletedAt := Some (de_now env)\<rparr>"]
    by (auto intro!: tx_try_keeps simp: tx_ok_def rows_of_def close_children_other)
qed

lemma Project_Create_other:
  assumes "p \<noteq> de_uuid env"
  shows "rows_of p (snd (Project_Create env n s d u pl db)) = rows_of p db"
  unfolding Project_Create_def
  by (rule in_tx_keeps)
     (use assms in \<open>auto intro!: tx_try_keeps simp: tx_ok_def rows_of_def Project_insert_def new_project_def\<close>)

lemma AddMember_other: "p \<noteq> i \<Longrightarrow> rows_of p (snd (AddMember env i u r inviter db)) = rows_of p db"
  unfolding AddMember_def by (auto intro!: tx_try_keeps simp: rows_of_def)

lemma UpdateRole_other: "p \<noteq> i \<Longrightarrow> rows_of p (snd (UpdateRole env i u r db)) = rows_of p db"
  unfolding UpdateRole_def UpdateRole_write_def
  by (auto intro!: tx_try_keeps filter_sql_update simp: rows_of_def Let_def member_of_def split: sum.split)

lemma RemoveMember_other:
  assumes "p \<noteq> i"
  shows "rows_of p (snd (RemoveMember env i u db)) = rows_of p db"
proof -
  have "filter (\<lambda>m. mb_ProjectID m = p) (filter (\<lambda>m. \<not> member_of i u m) ms) = filter (\<lambda>m. mb_ProjectID m = p) ms" for ms
    unfolding filter_filter by (rule filter_cong) (use assms in \<open>auto simp: member_of_def\<close>)
  then show ?thesis
    unfolding RemoveMember_def RemoveMember_write_def
    by (auto intro!: tx_try_keeps simp: rows_of_def Let_def split: sum.split)
qed

lemmas other_rows =
  project_exec_other Project_Update_other Project_Delete_other Project_Create_other AddMember_other UpdateRole_other RemoveMember_other

lemma snd_respond [simp]: "snd (respond status ok r) = snd r"
  by (simp add: respond_def split: prod.split option.split)

lemma snd_with_pguuid:
  "snd (with_pguuid ae raw op db) \<noteq> db \<Longrightarrow> \<exists>i. ae_pguuid ae raw = Some i \<and> snd (with_pguuid ae raw op db) = snd (op i db)"
  by (simp add: with_pguuid_def split: option.splits)

text \<open>The project a call names, read by the program or by the database; a created project is named by neither.\<close>

definition targets :: "admin_env \<Rightarrow> admin_call \<Rightarrow> uuid \<Rightarrow> bool" where
  "targets ae call q \<longleftrightarrow>
     (case call of
        CreateProjectCall _ \<Rightarrow> q = de_uuid (ae_db ae)
      | _ \<Rightarrow> ae_uuid ae (project_param call) = Some q \<or> ae_pguuid ae (project_param call) = Some q)"

definition only_touches :: "uuid \<Rightarrow> tenancy \<Rightarrow> tenancy \<Rightarrow> bool" where
  "only_touches q db db' \<longleftrightarrow> (\<forall>p. p \<noteq> q \<longrightarrow> rows_of p db' = rows_of p db)"

lemma only_touches_ops:
  "only_touches i db (snd (Project_Update env i n d pl db))"
  "only_touches i db (snd (Project_Delete env i db))"
  "only_touches i db (snd (Suspend env i db))"
  "only_touches i db (snd (Reactivate env i db))"
  "only_touches i db (snd (UpdateDashboardOrigins env i origins db))"
  "only_touches (de_uuid env) db (snd (CreateProject env n s d u pl db))"
  "only_touches i db (snd (MembershipService_AddMember env i email role inviter db))"
  "only_touches i db (snd (MembershipService_ChangeRole env i u role db))"
  "only_touches i db (snd (MembershipService_RemoveMember env i u db))"
  by (simp_all add: only_touches_def other_rows Suspend_def Reactivate_def UpdateDashboardOrigins_def CreateProject_def
      MembershipService_AddMember_def MembershipService_ChangeRole_def MembershipService_RemoveMember_def
      split: option.split sum.split)

lemma with_pguuid_touches:
  assumes "snd (with_pguuid ae raw op db) \<noteq> db" "\<And>i. only_touches i db (snd (op i db))"
  shows "\<exists>q. ae_pguuid ae raw = Some q \<and> only_touches q db (snd (with_pguuid ae raw op db))"
  using snd_with_pguuid [OF assms(1)] assms(2) by auto

lemma with_pguuid_fixed:
  assumes "\<And>i. only_touches q db (snd (op i db))"
  shows "only_touches q db (snd (with_pguuid ae raw op db))"
  using assms by (auto simp: with_pguuid_def only_touches_def split: option.split)

lemmas project_handlers =
  ProjectHandler_Create_def ProjectHandler_Update_def ProjectHandler_Delete_def ProjectHandler_UpdateDashboardOrigins_def
  DeleteTenant_def SuspendTenant_def ReactivateTenant_def platform_op_def

lemmas membership_handlers =
  MembershipHandler_AddMember_def MembershipHandler_ChangeRole_def MembershipHandler_RemoveMember_def

lemma admin_handle_touches:
  assumes "snd (admin_handle ae c call db) \<noteq> db"
  shows "\<exists>q. targets ae call q \<and> only_touches q db (snd (admin_handle ae c call db))"
proof (cases call)
  case (CreateProjectCall body)
  have "only_touches (de_uuid (ae_db ae)) db (snd (ProjectHandler_Create ae c body db))"
    by (auto simp: ProjectHandler_Create_def only_touches_ops only_touches_def [of _ db db] intro!: with_pguuid_fixed split: option.split)
  then show ?thesis using CreateProjectCall by (simp add: targets_def)
next
  case (AddMemberCall p body)
  then show ?thesis using assms
    by (auto simp: targets_def membership_handlers Let_def only_touches_ops split: option.splits)
next
  case (ChangeRoleCall p u body)
  then show ?thesis using assms by (auto simp: targets_def membership_handlers only_touches_ops split: option.splits)
next
  case (RemoveMemberCall p u)
  then show ?thesis using assms by (auto simp: targets_def membership_handlers only_touches_ops split: option.splits)
qed (use assms in \<open>force simp: targets_def project_handlers only_touches_ops dest: with_pguuid_touches split: option.splits if_splits\<close>)+

text \<open>
  C36. Whatever a request changes in the projects, their members and what belongs to them, it came with an
  unexpired access token signed under the secret of the control plane; it changed rows of one project only, the one
  it names (or creates); and its sender had the rights of the route: an owner of the project for its members
  and origins, a super-administrator for the routes of the platform. (Routes that only ask for a token are
  those that create, update and delete a project.)
\<close>

theorem admin_changes_are_authorized:
  assumes sound: "admin_jwt_sound (ae_parse ae) verifies"
    and agree: "\<And>s i j. ae_uuid ae s = Some i \<Longrightarrow> ae_pguuid ae s = Some j \<Longrightarrow> i = j"
    and changed: "snd (admin_serve ae addr headers call db) \<noteq> db"
  shows "\<exists>subject q g. guard_for call = Some g \<and> authenticated ae verifies headers subject \<and> targets ae call q
    \<and> entitled ae db g subject q \<and> only_touches q db (snd (admin_serve ae addr headers call db))"
proof -
  let ?c = "\<lparr>cx_RemoteAddr = addr, cx_Header = headers, cx_projectId = project_param call, cx_userID = None, cx_tenant = None\<rparr>"
  obtain g c where g: "guard_for call = Some g" and c: "chain (guards_of ae g) db ?c = Inr c"
    and serve: "admin_serve ae addr headers call db = admin_handle ae c call db"
    using changed by (auto simp: admin_serve_def split: option.splits sum.splits)
  obtain q where q: "targets ae call q" "only_touches q db (snd (admin_handle ae c call db))"
    using admin_handle_touches changed unfolding serve by blast
  obtain subject where s: "authenticated ae verifies headers subject"
    and ent: "case g of Scoped role \<Rightarrow> \<exists>p. ae_uuid ae (project_param call) = Some p \<and> entitled ae db g subject p | _ \<Rightarrow> \<forall>p. entitled ae db g subject p"
    using guards_admit [OF sound c] unfolding admin_context.select_convs by blast
  have "entitled ae db g subject q"
  proof (cases g)
    case (Scoped role)
    with ent obtain p where p: "ae_uuid ae (project_param call) = Some p" "entitled ae db g subject p" by auto
    have "p = q"
      using q(1) agree [OF p(1)] p(1) g Scoped by (cases call) (auto simp: targets_def guard_for_create)
    then show ?thesis using p(2) by simp
  qed (use ent in auto)
  then show ?thesis using g s q unfolding serve by blast
qed

lemma no_live_row_left:
  "\<not> list_ex (\<lambda>q. prj_ID q = i \<and> prj_live q)
      (sql_update (\<lambda>q. prj_ID q = i \<and> prj_live q) (\<lambda>q. q\<lparr>prj_DeletedAt := Some t\<rparr>) ps)"
  by (induction ps) (simp_all add: sql_update_def)

lemma Project_Delete_runs:
  assumes "\<And>s. de_fault env s = None" "filter (\<lambda>q. prj_ID q = i \<and> prj_live q) (td_projects db) \<noteq> []"
  shows "fst (Project_Delete env i db) = None \<and> td_projects (snd (Project_Delete env i db)) =
      sql_update (\<lambda>q. prj_ID q = i \<and> prj_live q) (\<lambda>q. q\<lparr>prj_DeletedAt := Some (de_now env)\<rparr>) (td_projects db)"
  using assms(2) by (simp add: assms(1) Project_Delete_def in_tx_def tx_try_def tx_ok_def project_exec_def Let_def)

text \<open>
  Nothing but a token is asked of who deletes a project. Any administrator with a valid access token
  can delete any live project by its id, member of it or not: the request is answered with 200 and the
  project is closed.
\<close>

theorem any_admin_deletes_any_project:
  assumes faultless: "\<And>s. de_fault (ae_db ae) s = None" and open_net: "ae_allowlist ae = None"
    and header: "headers ''Authorization'' = ''Bearer '' @ raw"
    and token: "ValidateAdminAccessToken (ae_parse ae) (ae_now ae) (ae_tokens ae) (TrimSpace raw) = Inr claims"
    and p: "ae_pguuid ae projectId = Some p" "list_ex (\<lambda>q. prj_ID q = p \<and> prj_live q) (td_projects db)"
  shows "fst (admin_serve ae addr headers (DeleteProjectCall projectId) db) = 200
    \<and> \<not> list_ex (\<lambda>q. prj_ID q = p \<and> prj_live q) (td_projects (snd (admin_serve ae addr headers (DeleteProjectCall projectId) db)))"
proof -
  have g: "guard_for (DeleteProjectCall projectId) = Some Authenticated" by (simp add: guard_for_def admin_routes_def)
  have "ac_Role claims = ''admin''"
    using token by (auto simp: ValidateAdminAccessToken_def split: sum.splits admin_parse_error.splits if_splits)
  then have auth: "AdminAuth ae db c = Inr (c\<lparr>cx_userID := Some (ac_Subject claims)\<rparr>)" if "cx_Header c = headers" for c
    using that header token by (simp add: AdminAuth_def TrimPrefix_def HasPrefix_iff)
  have serve: "admin_serve ae addr headers (DeleteProjectCall projectId) db = ProjectHandler_Delete ae projectId db"
    by (simp add: admin_serve_def g guards_of_def AdminIPAllowlist_def open_net auth)
  have "filter (\<lambda>q. prj_ID q = p \<and> prj_live q) (td_projects db) \<noteq> []"
    using p(2) by (auto simp: filter_empty_conv list_ex_iff)
  note run = Project_Delete_runs [OF faultless this]
  have del: "fst (Project_Delete (ae_db ae) p db) = None" by (rule conjunct1 [OF run])
  moreover have "\<not> list_ex (\<lambda>q. prj_ID q = p \<and> prj_live q) (td_projects (snd (Project_Delete (ae_db ae) p db)))"
    unfolding conjunct2 [OF run] by (rule no_live_row_left)
  moreover have "ProjectHandler_Delete ae projectId db = (200, snd (Project_Delete (ae_db ae) p db))"
    using del unfolding ProjectHandler_Delete_def with_pguuid_def p(1) respond_def by (auto split: prod.split)
  ultimately show ?thesis by (simp add: serve)
qed

section \<open>Gateways and their project\<close>

text \<open>
  The token that is put into the container of a gateway opens the snapshot of its own project and of
  no other. (HMAC-SHA256 in hexadecimal is not empty, and collisions under one key are ruled out by hypothesis.)
\<close>

theorem gateway_token_opens_its_project_only:
  assumes hmac: "\<And>key a b. dm_hmacHex m key a = dm_hmacHex m key b \<Longrightarrow> a = b" "\<And>key a. dm_hmacHex m key a \<noteq> []"
    and tok: "''GATEWAY_SYNC_TOKEN='' @ tok \<in> set (cc_Env (gateway_config m gatewayID projectID plan))"
    and "q \<noteq> []"
  shows "RequireGatewayToken (dm_hmacHex m) (dm_jwtSecret m) q tok = None \<longleftrightarrow> q = projectID"
proof -
  have "tok = DeriveTenantJWTSecret (dm_hmacHex m) (dm_jwtSecret m) projectID"
    using tok by (simp add: gateway_config_def Let_def)
  then show ?thesis
    using hmac \<open>q \<noteq> []\<close> by (auto simp: RequireGatewayToken_def DeriveTenantJWTSecret_def)
qed

section \<open>Examples\<close>

definition demo_tokens :: admin_token_manager where
  "demo_tokens = \<lparr>tm_secret = ''0123456789abcdef0123456789abcdef'', tm_issuer = ''elitegate-admin''\<rparr>"

definition ann_claims :: admin_claims where
  "ann_claims = adminClaims demo_tokens 0 ''ann'' ''ann''"

text \<open>A token library that knows one token: the key and the subject of the claims.\<close>

definition demo_sign :: admin_sign where
  "demo_sign m key claims = key @ CHR ''.'' # ac_Subject claims"

definition demo_parse :: admin_parse where
  "demo_parse now s kf =
     (case kf SigningMethodHS256 of
        Inl _ \<Rightarrow> Inl TokenRejected
      | Inr key \<Rightarrow>
          if s \<noteq> demo_sign SigningMethodHS256 key ann_claims then Inl TokenRejected
          else if the (ac_ExpiresAt ann_claims) \<le> now then Inl TokenExpired
          else Inr \<lparr>adt_Valid = True, adt_Claims = ann_claims\<rparr>)"

definition demo_verifies :: "string \<Rightarrow> jwt_method \<Rightarrow> string \<Rightarrow> admin_claims \<Rightarrow> bool" where
  "demo_verifies s m key claims \<longleftrightarrow> s = demo_sign m key claims"

lemma demo_complete: "admin_jwt_complete demo_parse demo_sign (tm_secret demo_tokens) ann_claims"
  by (auto simp: admin_jwt_complete_def demo_parse_def ann_claims_def adminClaims_def)

lemma demo_sound: "admin_jwt_sound demo_parse demo_verifies"
  unfolding admin_jwt_sound_def demo_parse_def demo_verifies_def
  by (auto simp: not_le ann_claims_def adminClaims_def split: sum.splits if_splits)

theorem admin_token_roundtrip_witness:
  "ValidateAdminAccessToken demo_parse 899999999999 demo_tokens (CreateAdminAccessToken demo_sign demo_tokens 0 ''ann'' ''ann'') = Inr ann_claims
   \<and> ValidateAdminAccessToken demo_parse 900000000000 demo_tokens (CreateAdminAccessToken demo_sign demo_tokens 0 ''ann'' ''ann'') = Inl ErrTokenExpired"
  using admin_token_roundtrip [OF demo_complete [unfolded ann_claims_def]]
  by (simp add: NewNumericDate_def AccessTokenTTL_def ann_claims_def)

definition demo_admin_env :: admin_env where
  "demo_admin_env =
     \<lparr>ae_db = demo_db_env, ae_now = 0, ae_tokens = demo_tokens, ae_parse = demo_parse, ae_uuid = Some, ae_pguuid = Some,
      ae_url = (\<lambda>_. None), ae_allowlist = None, ae_trustProxy = False\<rparr>"

definition ann_headers :: "string \<Rightarrow> string" where
  "ann_headers name =
     (if name = ''Authorization'' then ''Bearer '' @ CreateAdminAccessToken demo_sign demo_tokens 0 ''ann'' ''ann'' else [])"

theorem admin_changes_are_authorized_witness:
  "\<exists>subject q g. guard_for (ChangeRoleCall ''shop'' ''bob'' (Some ''viewer'')) = Some g
     \<and> authenticated demo_admin_env demo_verifies ann_headers subject
     \<and> targets demo_admin_env (ChangeRoleCall ''shop'' ''bob'' (Some ''viewer'')) q
     \<and> entitled demo_admin_env demo_shop g subject q
     \<and> only_touches q demo_shop (snd (admin_serve demo_admin_env ''10.0.0.1:5'' ann_headers (ChangeRoleCall ''shop'' ''bob'' (Some ''viewer'')) demo_shop))"
proof -
  let ?call = "ChangeRoleCall ''shop'' ''bob'' (Some ''viewer'')"
  have "map mb_Role (td_members (snd (admin_serve demo_admin_env ''10.0.0.1:5'' ann_headers ?call demo_shop))) = [RoleOwner, RoleViewer]"
    by code_simp
  moreover have "map mb_Role (td_members demo_shop) = [RoleOwner, RoleOwner]" by code_simp
  ultimately have "snd (admin_serve demo_admin_env ''10.0.0.1:5'' ann_headers ?call demo_shop) \<noteq> demo_shop" by auto
  from admin_changes_are_authorized [OF _ _ this, of demo_verifies] show ?thesis
    by (simp add: demo_admin_env_def demo_sound)
qed

definition bobs_shop :: tenancy where
  "bobs_shop = snd (CreateProject demo_db_env ''Shop'' ''shop'' [] ''bob'' [] demo_users)"

theorem any_admin_deletes_any_project_witness:
  "fst (admin_serve demo_admin_env ''10.0.0.1:5'' ann_headers (DeleteProjectCall ''shop'') bobs_shop) = 200
   \<and> \<not> list_ex (member_of ''shop'' ''ann'') (td_members bobs_shop)
   \<and> \<not> list_ex (\<lambda>q. prj_ID q = ''shop'' \<and> prj_live q)
        (td_projects (snd (admin_serve demo_admin_env ''10.0.0.1:5'' ann_headers (DeleteProjectCall ''shop'') bobs_shop)))"
proof -
  have "list_ex (\<lambda>q. prj_ID q = ''shop'' \<and> prj_live q) (td_projects bobs_shop)" by code_simp
  moreover have "ValidateAdminAccessToken (ae_parse demo_admin_env) (ae_now demo_admin_env) (ae_tokens demo_admin_env)
      (TrimSpace (CreateAdminAccessToken demo_sign demo_tokens 0 ''ann'' ''ann'')) = Inr ann_claims"
    by code_simp
  moreover have "\<not> list_ex (member_of ''shop'' ''ann'') (td_members bobs_shop)" by code_simp
  ultimately show ?thesis
    using any_admin_deletes_any_project [of demo_admin_env ann_headers "CreateAdminAccessToken demo_sign demo_tokens 0 ''ann'' ''ann''" ann_claims "''shop''" "''shop''" bobs_shop "''10.0.0.1:5''"]
    by (simp add: demo_admin_env_def demo_db_env_def ann_headers_def)
qed

definition keyed_manager :: container_manager where
  "keyed_manager = demo_manager\<lparr>dm_hmacHex := (\<lambda>k msg. CHR ''h'' # k @ msg)\<rparr>"

theorem gateway_token_opens_its_project_only_witness:
  "RequireGatewayToken (dm_hmacHex keyed_manager) (dm_jwtSecret keyed_manager) ''p1'' ''hsecrettenant_jwt_secret:v1:p1'' = None
   \<and> RequireGatewayToken (dm_hmacHex keyed_manager) (dm_jwtSecret keyed_manager) ''p2'' ''hsecrettenant_jwt_secret:v1:p1'' \<noteq> None"
proof -
  have "''GATEWAY_SYNC_TOKEN='' @ ''hsecrettenant_jwt_secret:v1:p1'' \<in> set (cc_Env (gateway_config keyed_manager ''gw_a'' ''p1'' ''dedicated''))"
    by (simp add: gateway_config_def Let_def DeriveTenantJWTSecret_def keyed_manager_def demo_manager_def)
  from gateway_token_opens_its_project_only [OF _ _ this, of "''p1''"] gateway_token_opens_its_project_only [OF _ _ this, of "''p2''"]
  show ?thesis by (simp add: keyed_manager_def)
qed

end
