(* ===== verification/Account_Handlers.thy ===== *)
theory Account_Handlers
  imports Account_Store Admin_Access
begin

text \<open>
  Signing in and out of the control plane: the handlers of \<^verbatim>\<open>internal/admin/handler/auth_handler.go\<close>,
  \<^verbatim>\<open>google_auth_handler.go\<close> and \<^verbatim>\<open>cookies.go\<close> over the account store.

  A handler maps a world (tables, failed logins, mails sent) to an answer and a new world. The body of a
  request is the decoded one, or \<open>None\<close>. Random bytes, hashes, the mail server and Google are
  parameters. A handler reads its clock once.
\<close>

section \<open>The world of a handler\<close>

datatype cookie = KeepCookie | ClearCookie | SetCookie string

record answer =
  as_Status :: nat
  as_Text :: string
  as_Access :: "string option"
  as_Cookie :: cookie

datatype mail = VerificationMail string string | ResetMail string string

record account_world =
  aw_db :: tenancy
  aw_limiter :: login_limiter
  aw_mails :: "mail list"

record google_identity =
  gi_Subject :: string
  gi_Email :: string
  gi_Name :: string
  gi_Picture :: string

record account_env =
  ac_db :: db_env
  ac_ids :: "string \<Rightarrow> uuid"
  ac_tokens :: admin_token_manager
  ac_sign :: admin_sign
  ac_rand :: "string option"
  ac_sha :: "string \<Rightarrow> string"
  ac_bcrypt :: "string \<Rightarrow> string option"
  ac_matches :: "string \<Rightarrow> string \<Rightarrow> bool"
  ac_mailer :: "(mail \<Rightarrow> string option) option"
  ac_verifyLink :: "string \<Rightarrow> string option"
  ac_resetLink :: "string \<Rightarrow> string option"
  ac_validState :: "string \<Rightarrow> string option"
  ac_exchange :: "string \<Rightarrow> string \<Rightarrow> google_identity option"

definition respond_with :: "nat \<Rightarrow> string \<Rightarrow> answer" where
  "respond_with status msg = \<lparr>as_Status = status, as_Text = msg, as_Access = None, as_Cookie = KeepCookie\<rparr>"

definition internal :: answer where
  "internal = respond_with 500 ''internal server error''"

definition with_db :: "account_world \<Rightarrow> tenancy \<Rightarrow> account_world" where
  "with_db w db = w\<lparr>aw_db := db\<rparr>"

definition ClientIP :: "string \<Rightarrow> string" where
  "ClientIP remoteAddr =
     (case SplitHostPort remoteAddr of
        Some (host, _) \<Rightarrow> if host \<noteq> [] then host else TrimSpace remoteAddr
      | None \<Rightarrow> TrimSpace remoteAddr)"

section \<open>Sessions\<close>

definition RefreshTokenTTL :: go_duration where
  "RefreshTokenTTL = 7 * 24 * 3600 * 1000000000"

definition accessToken :: "account_env \<Rightarrow> uuid \<Rightarrow> string \<Rightarrow> string" where
  "accessToken ae userID username = CreateAdminAccessToken (ac_sign ae) (ac_tokens ae) (de_clock (ac_db ae)) userID username"

text \<open>The access token and the cookie of a new session; \<open>None\<close> when a token could not be made or stored.\<close>

definition issueTokensForUser ::
  "account_env \<Rightarrow> uuid \<Rightarrow> string \<Rightarrow> account_world \<Rightarrow> (string \<times> string) option \<times> account_world" where
  "issueTokensForUser ae userID username w =
     (case ac_rand ae of
        None \<Rightarrow> (None, w)
      | Some refresh \<Rightarrow>
          (case CreateRefreshToken (ac_db ae) (ac_ids ae) userID (ac_sha ae refresh) (de_clock (ac_db ae) + RefreshTokenTTL) (aw_db w) of
             (Some _, db) \<Rightarrow> (None, with_db w db)
           | (None, db) \<Rightarrow> (Some (accessToken ae userID username, refresh), with_db w db)))"

definition lockoutDuration :: go_duration where
  "lockoutDuration = 15 * 60 * 1000000000"

definition findLoginUser :: "account_env \<Rightarrow> string \<Rightarrow> admin_user tenancy_query" where
  "findLoginUser ae identifier db =
     (if Contains identifier ''@''
      then (case FindAdminUserByEmail (ac_db ae) (ToLower identifier) db of
              Inl e \<Rightarrow> if e = ErrNoRows then FindAdminUserByUsername (ac_db ae) identifier db else Inl e
            | Inr u \<Rightarrow> Inr u)
      else FindAdminUserByUsername (ac_db ae) identifier db)"

definition failed_password :: "account_env \<Rightarrow> string \<Rightarrow> admin_user \<Rightarrow> account_world \<Rightarrow> account_world" where
  "failed_password ae ip user w =
     (let now = de_clock (ac_db ae);
          db1 = snd (IncrementAdminLoginFailure (ac_db ae) (au_Username user) (aw_db w));
          db2 = (if au_FailedLoginAttempts user + 1 \<ge> 5
                 then snd (LockAdminUser (ac_db ae) (au_Username user) (now + lockoutDuration) db1) else db1)
      in w\<lparr>aw_db := db2, aw_limiter := RecordFailure now ip (aw_limiter w)\<rparr>)"

definition start_session :: "account_env \<Rightarrow> string \<Rightarrow> admin_user \<Rightarrow> account_world \<Rightarrow> answer \<times> account_world" where
  "start_session ae ip user w =
     (case UpdateAdminLoginSuccess (ac_db ae) (au_ID user) (aw_db w) of
        (Some _, db) \<Rightarrow> (internal, with_db w db)
      | (None, db) \<Rightarrow>
          (case issueTokensForUser ae (au_ID user) (au_Username user) (with_db w db) of
             (None, w') \<Rightarrow> (internal, w')
           | (Some (access, refresh), w') \<Rightarrow>
               ((respond_with 200 [])\<lparr>as_Access := Some access, as_Cookie := SetCookie refresh\<rparr>, w')))"

definition Login :: "account_env \<Rightarrow> string \<Rightarrow> (string \<times> string) option \<Rightarrow> account_world \<Rightarrow> answer \<times> account_world" where
  "Login ae remoteAddr body w =
     (let ip = ClientIP remoteAddr; now = de_clock (ac_db ae);
          (tooMany, l) = TooManyFailures now ip (aw_limiter w);
          w1 = w\<lparr>aw_limiter := l\<rparr>;
          failed = w1\<lparr>aw_limiter := RecordFailure now ip l\<rparr>;
          bad = respond_with 401 ''invalid username or password''
      in if tooMany then (respond_with 429 ''too many login attempts'', w1)
         else
           (case body of
              None \<Rightarrow> (respond_with 400 ''invalid request'', w1)
            | Some (username, password) \<Rightarrow>
                (case findLoginUser ae (TrimSpace username) (aw_db w1) of
                   Inl e \<Rightarrow> if e = ErrNoRows then (bad, failed) else (internal, w1)
                 | Inr user \<Rightarrow>
                     if (case au_LockedUntil user of Some t \<Rightarrow> t > now | None \<Rightarrow> False) then (respond_with 423 ''admin account locked'', w1)
                     else
                       (case au_PasswordHash user of
                          None \<Rightarrow> (bad, failed)
                        | Some hash \<Rightarrow>
                            if \<not> ac_matches ae hash password then (bad, failed_password ae ip user w1)
                            else if \<not> au_EmailVerified user
                            then (respond_with 403 ''Please verify your email before signing in.'', w1)
                            else start_session ae ip user (w1\<lparr>aw_limiter := Limiter_Reset ip l\<rparr>)))))"

definition Refresh :: "account_env \<Rightarrow> string option \<Rightarrow> account_world \<Rightarrow> answer \<times> account_world" where
  "Refresh ae cookie w =
     (case cookie of
        None \<Rightarrow> (respond_with 401 ''missing refresh token'', w)
      | Some rawToken \<Rightarrow>
          if rawToken = [] then (respond_with 401 ''missing refresh token'', w)
          else
            (case FindRefreshToken (ac_db ae) (ac_sha ae rawToken) (aw_db w) of
               Inl e \<Rightarrow> (if e = ErrNoRows then respond_with 401 ''invalid refresh token'' else internal, w)
             | Inr token \<Rightarrow>
                 if rft_RevokedAt token \<noteq> None
                 then ((respond_with 401 ''invalid refresh token'')\<lparr>as_Cookie := ClearCookie\<rparr>, w)
                 else if de_clock (ac_db ae) > rft_ExpiresAt token
                 then ((respond_with 401 ''refresh token expired'')\<lparr>as_Cookie := ClearCookie\<rparr>, w)
                 else
                   (case ac_rand ae of
                      None \<Rightarrow> (internal, w)
                    | Some newRaw \<Rightarrow>
                        (case RotateRefreshToken (ac_db ae) (ac_ids ae) (ac_sha ae rawToken) (ac_sha ae newRaw) (rft_AdminUserID token)
                                (de_clock (ac_db ae) + RefreshTokenTTL) (aw_db w) of
                           (Some _, db) \<Rightarrow> (internal, with_db w db)
                         | (None, db) \<Rightarrow>
                             (case FindAdminUserByID (ac_db ae) (rft_AdminUserID token) db of
                                Inl _ \<Rightarrow> (internal, with_db w db)
                              | Inr user \<Rightarrow>
                                  ((respond_with 200 [])\<lparr>as_Access := Some (accessToken ae (rft_AdminUserID token) (au_Username user)),
                                     as_Cookie := SetCookie newRaw\<rparr>, with_db w db))))))"

definition Logout :: "account_env \<Rightarrow> string option \<Rightarrow> account_world \<Rightarrow> answer \<times> account_world" where
  "Logout ae cookie w =
     ((respond_with 200 ''ok'')\<lparr>as_Cookie := ClearCookie\<rparr>,
      case cookie of
        None \<Rightarrow> w
      | Some rawToken \<Rightarrow> if rawToken = [] then w else with_db w (snd (RevokeRefreshToken (ac_db ae) (ac_sha ae rawToken) (aw_db w))))"

section \<open>New accounts\<close>

definition Register_read :: "account_env \<Rightarrow> bool \<Rightarrow> (string \<times> string) option \<Rightarrow> tenancy \<Rightarrow> answer + string \<times> string" where
  "Register_read ae isAuthenticated body db =
     (case body of
        None \<Rightarrow> Inl (respond_with 400 ''invalid request'')
      | Some (username, password) \<Rightarrow>
          (case (if isAuthenticated then Inr 0 else AdminUserCount (ac_db ae) db) of
             Inl _ \<Rightarrow> Inl internal
           | Inr n \<Rightarrow>
               if n > 0 then Inl (respond_with 403 ''registration is locked after bootstrap admin is created'')
               else if Password_Validate password \<noteq> None then Inl (respond_with 400 ''weak password'')
               else (case ac_bcrypt ae password of None \<Rightarrow> Inl internal | Some hash \<Rightarrow> Inr (username, hash))))"

definition Register_write :: "account_env \<Rightarrow> bool \<Rightarrow> string \<Rightarrow> string \<Rightarrow> account_world \<Rightarrow> answer \<times> account_world" where
  "Register_write ae isAuthenticated username hash w =
     (case CreateAdminUser (ac_db ae) (ac_ids ae) username hash (\<not> isAuthenticated) (aw_db w) of
        (Some e, db) \<Rightarrow> (if e = ErrNoRows then respond_with 409 ''username already taken'' else internal, with_db w db)
      | (None, db) \<Rightarrow> (respond_with 201 (ac_ids ae ''admin_users''), with_db w db))"

text \<open>The count of the users and the insert are two statements.\<close>

definition AuthHandler_Register :: "account_env \<Rightarrow> bool \<Rightarrow> (string \<times> string) option \<Rightarrow> account_world \<Rightarrow> answer \<times> account_world" where
  "AuthHandler_Register ae isAuthenticated body w =
     (case Register_read ae isAuthenticated body (aw_db w) of
        Inl a \<Rightarrow> (a, w)
      | Inr (username, hash) \<Rightarrow> Register_write ae isAuthenticated username hash w)"

fun slugBytes :: "bool \<Rightarrow> string \<Rightarrow> string" where
  "slugBytes prevHyphen [] = []"
| "slugBytes prevHyphen (c # cs) =
     (if lowerCaseByte c \<or> digitByte c then c # slugBytes False cs
      else if \<not> prevHyphen then CHR ''-'' # slugBytes True cs
      else slugBytes prevHyphen cs)"

definition trimHyphens :: "string \<Rightarrow> string" where
  "trimHyphens s = rev (dropWhile (\<lambda>c. c = CHR ''-'') (rev (dropWhile (\<lambda>c. c = CHR ''-'') s)))"

definition toSlug :: "string \<Rightarrow> string" where
  "toSlug name =
     (let result = trimHyphens (slugBytes False (ToLower (TrimSpace name)))
      in if result = [] then ''project'' else result)"

record signup_request =
  su_Username :: string
  su_Email :: string
  su_Password :: string
  su_Company :: string
  su_Plan :: string

definition EmailVerificationTokenTTL :: go_duration where
  "EmailVerificationTokenTTL = 30 * 60 * 1000000000"

definition send :: "account_env \<Rightarrow> mail \<Rightarrow> account_world \<Rightarrow> bool \<times> account_world" where
  "send ae m w =
     (case ac_mailer ae of
        None \<Rightarrow> (True, w)
      | Some smtp \<Rightarrow> (case smtp m of None \<Rightarrow> (True, w\<lparr>aw_mails := aw_mails w @ [m]\<rparr>) | Some _ \<Rightarrow> (False, w)))"

definition invalidateFailedVerificationToken :: "account_env \<Rightarrow> uuid \<Rightarrow> account_world \<Rightarrow> account_world" where
  "invalidateFailedVerificationToken ae i w =
     (if i = [] then w else with_db w (snd (InvalidateEmailVerificationTokenByID (ac_db ae) i (aw_db w))))"

definition invalidateFailedToken :: "account_env \<Rightarrow> uuid \<Rightarrow> account_world \<Rightarrow> account_world" where
  "invalidateFailedToken ae i w =
     (if i = [] then w else with_db w (snd (InvalidatePasswordResetTokenByID (ac_db ae) i (aw_db w))))"

definition signup_error :: "tenancy_error \<Rightarrow> answer" where
  "signup_error e =
     (case e of
        UniqueViolation constraint \<Rightarrow>
          if constraint = ''admin_users_email_unique'' then respond_with 409 ''email already registered''
          else if constraint \<in> {''idx_admin_users_username'', ''admin_users_username_key''} then respond_with 409 ''username already taken''
          else respond_with 409 ''account details already registered''
      | _ \<Rightarrow> internal)"

definition Signup :: "account_env \<Rightarrow> signup_request option \<Rightarrow> account_world \<Rightarrow> answer \<times> account_world" where
  "Signup ae body w =
     (case body of
        None \<Rightarrow> (respond_with 400 ''invalid request'', w)
      | Some req \<Rightarrow>
          let email = ToLower (TrimSpace (su_Email req)) in
          if Password_Validate (su_Password req) \<noteq> None then (respond_with 400 ''weak password'', w)
          else
            (case ac_bcrypt ae (su_Password req) of
               None \<Rightarrow> (internal, w)
             | Some hash \<Rightarrow>
            (case ac_rand ae of
               None \<Rightarrow> (internal, w)
             | Some rawToken \<Rightarrow>
            (case SignupTx (ac_db ae) (ac_ids ae) (su_Username req) email hash (su_Company req) (toSlug (su_Company req))
                    (if su_Plan req = [] then ''free'' else su_Plan req) (ac_sha ae rawToken)
                    (de_clock (ac_db ae) + EmailVerificationTokenTTL) (aw_db w) of
               (Some e, db) \<Rightarrow> (signup_error e, with_db w db)
             | (None, db) \<Rightarrow>
            (case ac_verifyLink ae rawToken of
               None \<Rightarrow> (internal, with_db w db)
             | Some link \<Rightarrow>
            (case send ae (VerificationMail email link) (with_db w db) of
               (False, w') \<Rightarrow>
                 (respond_with 503 ''account created, but verification email could not be sent'',
                  invalidateFailedVerificationToken ae (ac_ids ae ''email_verification_tokens'') w')
             | (True, w') \<Rightarrow> (respond_with 201 ''Account created. Please check your email to verify your account.'', w')))))))"

section \<open>Passwords and addresses\<close>

definition genericForgotResponse :: string where
  "genericForgotResponse = ''If an account exists for that email address, password reset instructions have been sent.''"

definition genericResendVerificationResponse :: string where
  "genericResendVerificationResponse = ''If an unverified account exists for that email, a verification link has been sent.''"

definition resettable :: "admin_user \<Rightarrow> bool" where
  "resettable u \<longleftrightarrow>
     (case au_PasswordHash u of None \<Rightarrow> False | Some h \<Rightarrow> TrimSpace h \<noteq> []) \<and> \<not> HasSuffix (ToLower (au_Email u)) ''@elitegate.local''"

definition ForgotPassword_effect :: "account_env \<Rightarrow> string \<Rightarrow> account_world \<Rightarrow> account_world" where
  "ForgotPassword_effect ae email w =
     (case FindAdminUserByEmail (ac_db ae) email (aw_db w) of
        Inl _ \<Rightarrow> w
      | Inr user \<Rightarrow>
          if \<not> resettable user \<or> ac_mailer ae = None then w
          else
            (case ac_rand ae of
               None \<Rightarrow> w
             | Some rawToken \<Rightarrow>
            (case ReplacePasswordResetTokenTx (ac_db ae) (ac_ids ae) (au_ID user) (ac_sha ae rawToken)
                    (de_clock (ac_db ae) + 15 * 60 * 1000000000) (aw_db w) of
               (Some _, db) \<Rightarrow> with_db w db
             | (None, db) \<Rightarrow>
                 (let tokenID = ac_ids ae ''password_reset_tokens''
                  in case ac_resetLink ae rawToken of
                       None \<Rightarrow> invalidateFailedToken ae tokenID (with_db w db)
                     | Some link \<Rightarrow>
                         (case send ae (ResetMail (au_Email user) link) (with_db w db) of
                            (False, w') \<Rightarrow> invalidateFailedToken ae tokenID w'
                          | (True, w') \<Rightarrow> w')))))"

definition ForgotPassword :: "account_env \<Rightarrow> string option \<Rightarrow> account_world \<Rightarrow> answer \<times> account_world" where
  "ForgotPassword ae body w =
     (case body of
        None \<Rightarrow> (respond_with 400 ''invalid email format'', w)
      | Some email \<Rightarrow> (respond_with 200 genericForgotResponse, ForgotPassword_effect ae (ToLower (TrimSpace email)) w))"

definition ResetPassword :: "account_env \<Rightarrow> (string \<times> string) option \<Rightarrow> account_world \<Rightarrow> answer \<times> account_world" where
  "ResetPassword ae body w =
     (let badLink = respond_with 400 ''invalid or expired password reset link'' in
      case body of
        None \<Rightarrow> (respond_with 400 ''invalid request format'', w)
      | Some (token, newPassword) \<Rightarrow>
          (let rawToken = TrimSpace token in
           if rawToken = [] \<or> length rawToken > 1024 then (badLink, w)
           else if Password_Validate newPassword \<noteq> None then (respond_with 400 ''weak password'', w)
           else
             (case FindValidPasswordResetToken (ac_db ae) (ac_sha ae rawToken) (aw_db w) of
                Inl e \<Rightarrow> (if e = ErrInvalidPasswordResetToken then badLink else internal, w)
              | Inr resetToken \<Rightarrow>
             (case FindAdminUserByID (ac_db ae) (mt_AdminUserID resetToken) (aw_db w) of
                Inl _ \<Rightarrow> (internal, w)
              | Inr user \<Rightarrow>
                  if (case au_PasswordHash user of None \<Rightarrow> False | Some h \<Rightarrow> TrimSpace h \<noteq> [] \<and> ac_matches ae h newPassword)
                  then (respond_with 400 ''new password must be different from current password'', w)
                  else
                    (case ac_bcrypt ae newPassword of
                       None \<Rightarrow> (internal, w)
                     | Some hash \<Rightarrow>
                         (case ResetPasswordTx (ac_db ae) (mt_ID resetToken) (mt_AdminUserID resetToken) hash (aw_db w) of
                            (Some e, db) \<Rightarrow> (if e = ErrInvalidPasswordResetToken then badLink else internal, with_db w db)
                          | (None, db) \<Rightarrow>
                              ((respond_with 200 ''Password reset successfully. Sign in using your new password.'')\<lparr>as_Cookie := ClearCookie\<rparr>,
                               with_db w db)))))))"

definition VerifyEmail :: "account_env \<Rightarrow> string option \<Rightarrow> account_world \<Rightarrow> answer \<times> account_world" where
  "VerifyEmail ae body w =
     (case body of
        None \<Rightarrow> (respond_with 400 ''invalid request format'', w)
      | Some token \<Rightarrow>
          (let rawToken = TrimSpace token; bad = respond_with 400 ''invalid or expired verification token'' in
           if rawToken = [] \<or> length rawToken > 1024 then (bad, w)
           else
             (case VerifyEmailTx (ac_db ae) (ac_sha ae rawToken) (aw_db w) of
                (Some _, db) \<Rightarrow> (bad, with_db w db)
              | (None, db) \<Rightarrow> (respond_with 200 ''Email verified successfully.'', with_db w db))))"

definition ResendVerification_effect :: "account_env \<Rightarrow> string \<Rightarrow> account_world \<Rightarrow> account_world" where
  "ResendVerification_effect ae email w =
     (case FindAdminUserByEmail (ac_db ae) email (aw_db w) of
        Inl _ \<Rightarrow> w
      | Inr user \<Rightarrow>
          if au_EmailVerified user then w
          else
            (case ac_rand ae of
               None \<Rightarrow> w
             | Some rawToken \<Rightarrow>
            (case ReplaceEmailVerificationTokenTx (ac_db ae) (ac_ids ae) (au_ID user) (ac_sha ae rawToken)
                    (de_clock (ac_db ae) + EmailVerificationTokenTTL) (aw_db w) of
               (Some _, db) \<Rightarrow> with_db w db
             | (None, db) \<Rightarrow>
                 (let tokenID = ac_ids ae ''email_verification_tokens''
                  in case ac_verifyLink ae rawToken of
                       None \<Rightarrow> invalidateFailedVerificationToken ae tokenID (with_db w db)
                     | Some link \<Rightarrow>
                         (case send ae (VerificationMail (au_Email user) link) (with_db w db) of
                            (False, w') \<Rightarrow> invalidateFailedVerificationToken ae tokenID w'
                          | (True, w') \<Rightarrow> w')))))"

definition ResendVerification :: "account_env \<Rightarrow> string option \<Rightarrow> account_world \<Rightarrow> answer \<times> account_world" where
  "ResendVerification ae body w =
     (case body of
        None \<Rightarrow> (respond_with 400 ''invalid request format'', w)
      | Some raw \<Rightarrow>
          (let email = ToLower (TrimSpace raw)
           in if email = [] then (respond_with 400 ''invalid email address'', w)
              else (respond_with 200 genericResendVerificationResponse, ResendVerification_effect ae email w)))"

section \<open>Google\<close>

text \<open>The user as the handler goes on with it: its id and name.\<close>

definition resolveGoogleUser :: "account_env \<Rightarrow> google_identity \<Rightarrow> tenancy \<Rightarrow> (uuid \<times> string) option \<times> tenancy" where
  "resolveGoogleUser ae gid db =
     (case FindAdminUserByGoogleID (ac_db ae) (gi_Subject gid) db of
        Inr u \<Rightarrow> (Some (au_ID u, au_Username u), db)
      | Inl e \<Rightarrow>
          if e \<noteq> ErrNoRows then (None, db)
          else
            (case FindAdminUserByEmail (ac_db ae) (gi_Email gid) db of
               Inr u \<Rightarrow>
                 (case LinkGoogleAccount (ac_db ae) (au_ID u) (gi_Subject gid) (gi_Picture gid) db of
                    (Some _, db') \<Rightarrow> (None, db')
                  | (None, db') \<Rightarrow> (Some (au_ID u, au_Username u), db'))
             | Inl e \<Rightarrow>
                 if e \<noteq> ErrNoRows then (None, db)
                 else
                   (let companyName = (if gi_Name gid = [] then gi_Email gid else gi_Name gid)
                    in case GoogleSignupTx (ac_db ae) (ac_ids ae) (gi_Email gid) (gi_Subject gid) (gi_Picture gid) companyName (toSlug companyName) db of
                         (Some _, db') \<Rightarrow> (None, db')
                       | (None, db') \<Rightarrow> (Some (ac_ids ae ''admin_users'', usernameFromEmail (gi_Email gid)), db'))))"

text \<open>
  The callback: \<open>ac_validState\<close> is the check of the signed state, which gives the code verifier, and
  \<open>ac_exchange\<close> asks Google for the identity. Status 302 is a redirect; the text is where to.
\<close>

definition GoogleCallback :: "account_env \<Rightarrow> string \<Rightarrow> string \<Rightarrow> string option \<Rightarrow> account_world \<Rightarrow> answer \<times> account_world" where
  "GoogleCallback ae code state cookieState w =
     (let failed = (respond_with 302 ''/login?oauth_error'', w) in
      if code = [] \<or> state = [] then failed
      else if cookieState \<noteq> Some state then failed
      else
        (case ac_validState ae state of
           None \<Rightarrow> failed
         | Some codeVerifier \<Rightarrow>
        (case ac_exchange ae code codeVerifier of
           None \<Rightarrow> failed
         | Some gid \<Rightarrow>
        (case resolveGoogleUser ae gid (aw_db w) of
           (None, db) \<Rightarrow> (respond_with 302 ''/login?oauth_error'', with_db w db)
         | (Some (userID, username), db) \<Rightarrow>
        (case UpdateAdminLoginSuccess (ac_db ae) userID db of
           (Some _, db') \<Rightarrow> (internal, with_db w db')
         | (None, db') \<Rightarrow>
             (case issueTokensForUser ae userID username (with_db w db') of
                (None, w') \<Rightarrow> (internal, w')
              | (Some (_, refresh), w') \<Rightarrow>
                  ((respond_with 302 ''/oauth/callback?oauth=success'')\<lparr>as_Cookie := SetCookie refresh\<rparr>, w')))))))"

section \<open>The public routes\<close>

datatype account_call =
    LoginCall string "(string \<times> string) option"
  | RefreshCall "string option"
  | LogoutCall "string option"
  | RegisterCall bool "(string \<times> string) option"
  | SignupCall "signup_request option"
  | ForgotPasswordCall "string option"
  | ResetPasswordCall "(string \<times> string) option"
  | VerifyEmailCall "string option"
  | ResendVerificationCall "string option"
  | GoogleCallbackCall string string "string option"

fun account_serve :: "account_env \<Rightarrow> account_call \<Rightarrow> account_world \<Rightarrow> answer \<times> account_world" where
  "account_serve ae (LoginCall addr body) w = Login ae addr body w"
| "account_serve ae (RefreshCall cookie) w = Refresh ae cookie w"
| "account_serve ae (LogoutCall cookie) w = Logout ae cookie w"
| "account_serve ae (RegisterCall isAuthenticated body) w = AuthHandler_Register ae isAuthenticated body w"
| "account_serve ae (SignupCall body) w = Signup ae body w"
| "account_serve ae (ForgotPasswordCall body) w = ForgotPassword ae body w"
| "account_serve ae (ResetPasswordCall body) w = ResetPassword ae body w"
| "account_serve ae (VerifyEmailCall body) w = VerifyEmail ae body w"
| "account_serve ae (ResendVerificationCall body) w = ResendVerification ae body w"
| "account_serve ae (GoogleCallbackCall code state cookie) w = GoogleCallback ae code state cookie w"

section \<open>A refresh token is good once\<close>

lemma with_db_simps [simp]: "aw_db (with_db w db) = db" "aw_limiter (with_db w db) = aw_limiter w"
  by (simp_all add: with_db_def)

lemma send_db [simp]: "aw_db (snd (send ae m w)) = aw_db w"
  by (simp add: send_def split: option.split)

lemma send_db' [simp]: "send ae m w = (b, w') \<Longrightarrow> aw_db w' = aw_db w"
  using send_db [of ae m w] by simp

lemma invalidate_refresh [simp]:
  "td_refresh (aw_db (invalidateFailedVerificationToken ae i w)) = td_refresh (aw_db w)"
  "td_refresh (aw_db (invalidateFailedToken ae i w)) = td_refresh (aw_db w)"
  by (simp_all add: invalidateFailedVerificationToken_def invalidateFailedToken_def keeps_refresh)

lemma failed_password_refresh [simp]: "td_refresh (aw_db (failed_password ae ip u w)) = td_refresh (aw_db w)"
  by (simp add: failed_password_def Let_def keeps_refresh)

text \<open>The handlers that start no session.\<close>

lemma Register_refresh: "td_refresh (aw_db (snd (AuthHandler_Register ae b body w))) = td_refresh (aw_db w)"
proof -
  have "td_refresh db' = td_refresh db" if "CreateAdminUser env ids n pw a db = (r, db')" for env ids n pw a db r db'
    using keeps_refresh(4) [of env ids n pw a db] that by simp
  note keeps = this
  show ?thesis by (auto simp: AuthHandler_Register_def Register_write_def split: sum.split prod.split option.split dest!: keeps)
qed

lemma Signup_refresh: "td_refresh (aw_db (snd (Signup ae body w))) = td_refresh (aw_db w)"
proof -
  have "td_refresh db' = td_refresh db" if "SignupTx env ids n em pw c s pl h e db = (r, db')" for env ids n em pw c s pl h e db r db'
    using keeps_refresh_tx(4) [of env ids n em pw c s pl h e db] that by simp
  note keeps = this
  show ?thesis by (auto simp: Signup_def Let_def split: prod.split option.split bool.split dest!: keeps)
qed

lemma ForgotPassword_refresh: "td_refresh (aw_db (snd (ForgotPassword ae body w))) = td_refresh (aw_db w)"
proof -
  have "td_refresh db' = td_refresh db" if "ReplacePasswordResetTokenTx env ids u h e db = (r, db')" for env ids u h e db r db'
    using keeps_refresh_tx(1) [of env ids u h e db] that by simp
  note keeps = this
  show ?thesis
    by (auto simp: ForgotPassword_def ForgotPassword_effect_def Let_def split: prod.split option.split bool.split sum.split dest!: keeps)
qed

lemma VerifyEmail_refresh: "td_refresh (aw_db (snd (VerifyEmail ae body w))) = td_refresh (aw_db w)"
proof -
  have "td_refresh db' = td_refresh db" if "VerifyEmailTx env h db = (r, db')" for env h db r db'
    using keeps_refresh_tx(3) [of env h db] that by simp
  note keeps = this
  show ?thesis by (auto simp: VerifyEmail_def Let_def split: prod.split option.split dest!: keeps)
qed

lemma ResendVerification_refresh: "td_refresh (aw_db (snd (ResendVerification ae body w))) = td_refresh (aw_db w)"
proof -
  have "td_refresh db' = td_refresh db" if "ReplaceEmailVerificationTokenTx env ids u h e db = (r, db')" for env ids u h e db r db'
    using keeps_refresh_tx(2) [of env ids u h e db] that by simp
  note keeps = this
  show ?thesis
    by (auto simp: ResendVerification_def ResendVerification_effect_def Let_def split: prod.split option.split bool.split sum.split dest!: keeps)
qed

lemmas sessionless = Register_refresh Signup_refresh ForgotPassword_refresh VerifyEmail_refresh ResendVerification_refresh

lemma issueTokensForUser_dead:
  assumes "dead h (aw_db w)" "\<And>r. ac_rand ae = Some r \<Longrightarrow> ac_sha ae r \<noteq> h"
  shows "dead h (aw_db (snd (issueTokensForUser ae u n w)))"
proof (cases "ac_rand ae")
  case (Some r)
  then have "ac_sha ae r \<noteq> h" by (rule assms(2))
  from dead_CreateRefreshToken [OF this assms(1), of "ac_db ae" "ac_ids ae" u "de_clock (ac_db ae) + RefreshTokenTTL"] Some
  show ?thesis by (auto simp: issueTokensForUser_def split: prod.splits option.splits)
qed (simp add: issueTokensForUser_def assms(1))

lemma start_session_dead:
  assumes "dead h (aw_db w)" "\<And>r. ac_rand ae = Some r \<Longrightarrow> ac_sha ae r \<noteq> h"
  shows "dead h (aw_db (snd (start_session ae ip u w)))"
proof (cases "UpdateAdminLoginSuccess (ac_db ae) (au_ID u) (aw_db w)")
  case (Pair e db)
  then have "dead h db"
    using assms(1) dead_same [OF keeps_refresh(1), of h "ac_db ae" "au_ID u" "aw_db w"] by simp
  then have "dead h (aw_db (snd (issueTokensForUser ae (au_ID u) (au_Username u) (with_db w db))))"
    using assms(2) by (intro issueTokensForUser_dead) auto
  with Pair \<open>dead h db\<close> show ?thesis by (auto simp: start_session_def split: prod.splits option.splits)
qed

lemma Login_dead:
  assumes "dead h (aw_db w)" "\<And>r. ac_rand ae = Some r \<Longrightarrow> ac_sha ae r \<noteq> h"
  shows "dead h (aw_db (snd (Login ae addr body w)))"
proof -
  have "dead h (aw_db (failed_password ae ip u v))" if "aw_db v = aw_db w" for ip u v
    using assms(1) that by (simp add: dead_def)
  moreover have "dead h (aw_db (snd (start_session ae ip u v)))" if "aw_db v = aw_db w" for ip u v
    using start_session_dead [of h v ae ip u] assms that by simp
  ultimately show ?thesis
    using assms(1) by (simp add: Login_def Let_def split: prod.split option.split sum.split)
qed

lemma Refresh_dead:
  assumes "dead h (aw_db w)" "\<And>r. ac_rand ae = Some r \<Longrightarrow> ac_sha ae r \<noteq> h"
  shows "dead h (aw_db (snd (Refresh ae cookie w)))"
proof -
  have "dead h db'" if "RotateRefreshToken (ac_db ae) (ac_ids ae) old (ac_sha ae r) u e (aw_db w) = (x, db')" "ac_rand ae = Some r"
    for old r u e x db'
    using dead_RotateRefreshToken [OF assms(2) [OF that(2)] assms(1), of "ac_db ae" "ac_ids ae" old u e] that(1) by simp
  then show ?thesis using assms(1) by (simp add: Refresh_def split: option.split sum.split prod.split)
qed

text \<open>The tables after a reset are those before it, or those after the transaction.\<close>

lemma ResetPassword_db:
  assumes "P (aw_db w)" "\<And>i u pw. P (snd (ResetPasswordTx (ac_db ae) i u pw (aw_db w)))"
  shows "P (aw_db (snd (ResetPassword ae body w)))"
proof -
  have result: "P (aw_db (snd (case r of (Some e, db) \<Rightarrow> (f e, with_db w db) | (None, db) \<Rightarrow> (a, with_db w db))))" if "P (snd r)" for r f a
    using that by (cases r; cases "fst r") auto
  show ?thesis
    unfolding ResetPassword_def Let_def by (auto simp: assms result split: option.split sum.split)
qed

lemma ResetPassword_dead: "dead h (aw_db w) \<Longrightarrow> dead h (aw_db (snd (ResetPassword ae body w)))"
  by (rule ResetPassword_db) (simp_all add: dead_ResetPasswordTx)

lemma resolveGoogleUser_refresh: "td_refresh (snd (resolveGoogleUser ae gid db)) = td_refresh db"
proof -
  have "td_refresh db' = td_refresh db" if "LinkGoogleAccount env i g a db = (r, db')" for env i g a r db'
    using keeps_refresh(5) [of env i g a db] that by simp
  moreover have "td_refresh db' = td_refresh db" if "GoogleSignupTx env ids em g a c s db = (r, db')" for env ids em g a c s r db'
    using keeps_refresh_tx(5) [of env ids em g a c s db] that by simp
  ultimately show ?thesis by (simp add: resolveGoogleUser_def Let_def split: sum.split prod.split option.split)
qed

lemma GoogleCallback_dead:
  assumes "dead h (aw_db w)" "\<And>r. ac_rand ae = Some r \<Longrightarrow> ac_sha ae r \<noteq> h"
  shows "dead h (aw_db (snd (GoogleCallback ae code state cookie w)))"
proof -
  have resolved: "dead h db" if "resolveGoogleUser ae gid (aw_db w) = (x, db)" for gid x db
    using resolveGoogleUser_refresh [of ae gid "aw_db w"] that assms(1) by (simp add: dead_def)
  have updated: "dead h db'" if "UpdateAdminLoginSuccess (ac_db ae) u db = (x, db')" "dead h db" for u db x db'
    using keeps_refresh(1) [of "ac_db ae" u db] that by (simp add: dead_def)
  have issued: "dead h (aw_db w')" if "issueTokensForUser ae u n (with_db w db) = (x, w')" "dead h db" for u n db x w'
    using issueTokensForUser_dead [of h "with_db w db" ae u n] assms(2) that by simp
  show ?thesis
    using assms(1) unfolding GoogleCallback_def Let_def
    by (auto split: option.split prod.split dest: resolved updated issued)
qed

text \<open>
  What can happen to the accounts: a request to a public route, the two cleanup jobs, and the changes to projects
  and members. Random values are new: the hash of none of them is \<open>h\<close>.
\<close>

definition fresh_for :: "string \<Rightarrow> account_env \<Rightarrow> bool" where
  "fresh_for h ae \<longleftrightarrow> (\<forall>r. ac_rand ae = Some r \<longrightarrow> ac_sha ae r \<noteq> h)"

inductive account_step :: "string \<Rightarrow> account_world \<Rightarrow> account_world \<Rightarrow> bool" for h where
  request: "fresh_for h ae \<Longrightarrow> account_step h w (snd (account_serve ae call w))"
| prune: "account_step h w (with_db w (snd (PruneExpiredTokens env (aw_db w))))"
| cleanup: "account_step h w (with_db w (snd (DeleteExpiredPasswordResetTokens env (aw_db w))))"
| tenancy: "tenancy_step (aw_db w) db \<Longrightarrow> account_step h w (with_db w db)"

lemma tenancy_step_refresh: "tenancy_step db db' \<Longrightarrow> td_refresh db' = td_refresh db"
proof (induction rule: tenancy_step.induct)
  case (1 db env name slug description ownerID plan)
  show ?case
    unfolding CreateProject_def Project_Create_def
    by (rule in_tx_refresh) (auto intro!: tx_try_refresh simp: Project_insert_def)
next
  case (3 db env i)
  show ?case
    unfolding Project_Delete_def by (rule in_tx_refresh) (auto intro!: tx_try_refresh simp: project_exec_def Let_def)
qed (auto intro!: tx_try_refresh simp: Project_Update_def Suspend_def Reactivate_def UpdateDashboardOrigins_def project_exec_def Let_def
      MembershipService_AddMember_def AddMember_def MembershipService_ChangeRole_def UpdateRole_def UpdateRole_write_def
      MembershipService_RemoveMember_def RemoveMember_def RemoveMember_write_def split: option.split sum.split)

lemma account_serve_dead:
  assumes "dead h (aw_db w)" "fresh_for h ae"
  shows "dead h (aw_db (snd (account_serve ae call w)))"
proof (cases call)
  case (LoginCall addr body)
  then show ?thesis using assms by (simp add: Login_dead fresh_for_def)
next
  case (RefreshCall cookie)
  then show ?thesis using assms by (simp add: Refresh_dead fresh_for_def)
next
  case (LogoutCall cookie)
  then show ?thesis using assms(1) by (auto simp: Logout_def dead_RevokeRefreshToken split: option.split)
next
  case (ResetPasswordCall body)
  then show ?thesis using assms(1) by (simp add: ResetPassword_dead)
next
  case (GoogleCallbackCall code state cookie)
  then show ?thesis using assms by (simp add: GoogleCallback_dead fresh_for_def)
qed (use assms(1) sessionless in \<open>simp_all add: dead_def\<close>)

lemma account_step_dead: "account_step h w w' \<Longrightarrow> dead h (aw_db w) \<Longrightarrow> dead h (aw_db w')"
proof (induction rule: account_step.induct)
  case (request ae w call)
  then show ?case by (intro account_serve_dead)
next
  case (tenancy w db)
  then show ?case using tenancy_step_refresh [OF tenancy(1)] by (simp add: dead_def)
qed (simp_all add: dead_PruneExpiredTokens dead_same [OF keeps_refresh(8)])

lemma dead_token_is_refused:
  assumes "dead (ac_sha ae raw) (aw_db w)"
  shows "as_Status (fst (Refresh ae (Some raw) w)) \<noteq> 200 \<and> snd (Refresh ae (Some raw) w) = w"
proof -
  have "rft_RevokedAt t \<noteq> None" if "FindRefreshToken (ac_db ae) (ac_sha ae raw) (aw_db w) = Inr t" for t
    using that assms by (auto simp: FindRefreshToken_def tx_read_def dead_def split: option.splits dest!: find_Some_mem)
  then show ?thesis by (auto simp: Refresh_def respond_with_def internal_def split: sum.split)
qed

lemma Refresh_success:
  assumes "Refresh ae (Some raw) w = (a, w')" "as_Status a = 200"
  shows "\<exists>t r db. FindRefreshToken (ac_db ae) (ac_sha ae raw) (aw_db w) = Inr t \<and> rft_RevokedAt t = None
    \<and> de_clock (ac_db ae) \<le> rft_ExpiresAt t \<and> ac_rand ae = Some r
    \<and> RotateRefreshToken (ac_db ae) (ac_ids ae) (ac_sha ae raw) (ac_sha ae r) (rft_AdminUserID t)
        (de_clock (ac_db ae) + RefreshTokenTTL) (aw_db w) = (None, db) \<and> w' = with_db w db"
  using assms
  by (auto simp: Refresh_def respond_with_def internal_def not_less split: if_splits sum.splits option.splits prod.splits)

text \<open>
  C38. A refresh token is good for one refresh. Once it was exchanged for a new pair of tokens, no sequence of requests,
  cleanups and changes to the projects makes it good again: whoever presents it later gets no token, and the attempt changes
  nothing.
\<close>

theorem refresh_token_single_use:
  assumes "Refresh ae (Some raw) w = (a, w1)" "as_Status a = 200" "fresh_for (ac_sha ae raw) ae"
    and steps: "(account_step (ac_sha ae raw))\<^sup>*\<^sup>* w1 w2" and "ac_sha ae' = ac_sha ae"
  shows "as_Status (fst (Refresh ae' (Some raw) w2)) \<noteq> 200 \<and> snd (Refresh ae' (Some raw) w2) = w2"
proof -
  obtain t :: refresh_token and r db where rot: "RotateRefreshToken (ac_db ae) (ac_ids ae) (ac_sha ae raw) (ac_sha ae r) (rft_AdminUserID t)
      (de_clock (ac_db ae) + RefreshTokenTTL) (aw_db w) = (None, db)" and r: "ac_rand ae = Some r" and w1: "w1 = with_db w db"
    using Refresh_success [OF assms(1,2)] by blast
  have "dead (ac_sha ae raw) (aw_db w1)"
    using rotated_token_is_dead [OF rot] assms(3) r w1 by (simp add: fresh_for_def)
  with steps have "dead (ac_sha ae raw) (aw_db w2)"
    by (induction rule: rtranclp_induct) (auto intro: account_step_dead)
  then show ?thesis using dead_token_is_refused [of ae' raw w2] assms(5) by simp
qed

definition demo_accounts :: account_env where
  "demo_accounts =
     \<lparr>ac_db = demo_db_env, ac_ids = (\<lambda>table. ''new '' @ table), ac_tokens = demo_tokens, ac_sign = demo_sign, ac_rand = Some ''r2'',
      ac_sha = (\<lambda>s. CHR ''#'' # s), ac_bcrypt = (\<lambda>p. Some (CHR ''$'' # p)), ac_matches = (\<lambda>h p. h = CHR ''$'' # p),
      ac_mailer = Some (\<lambda>_. None), ac_verifyLink = Some, ac_resetLink = Some, ac_validState = Some,
      ac_exchange = (\<lambda>code _. Some \<lparr>gi_Subject = ''g1'', gi_Email = code, gi_Name = [], gi_Picture = []\<rparr>)\<rparr>"

text \<open>Ann has a password, has verified her address and has one session.\<close>

definition ann_user :: admin_user where
  "ann_user = new_user ''ann'' ''ann'' ''ann@example.org'' (Some ''$Secret-1'') ''password'' False True"

definition ann_world :: account_world where
  "ann_world =
     \<lparr>aw_db = demo_users\<lparr>td_users := [ann_user],
        td_refresh := [\<lparr>rft_ID = ''t1'', rft_AdminUserID = ''ann'', rft_TokenHash = ''#r1'', rft_ExpiresAt = 5, rft_RevokedAt = None\<rparr>],
        td_resets := [new_token ''p1'' ''ann'' ''#mail'' 5]\<rparr>,
      aw_limiter = \<lparr>ll_failures = (\<lambda>_. []), ll_limit = 100, ll_window = 60000000000\<rparr>, aw_mails = []\<rparr>"

theorem refresh_token_single_use_witness:
  "as_Status (fst (Refresh demo_accounts (Some ''r1'') ann_world)) = 200
   \<and> as_Status (fst (Refresh demo_accounts (Some ''r1'') (snd (Logout demo_accounts (Some ''r2'') (snd (Refresh demo_accounts (Some ''r1'') ann_world)))))) \<noteq> 200"
proof -
  let ?w1 = "snd (Refresh demo_accounts (Some ''r1'') ann_world)"
  have ok: "as_Status (fst (Refresh demo_accounts (Some ''r1'') ann_world)) = 200" by code_simp
  have fresh: "fresh_for (ac_sha demo_accounts ''r1'') demo_accounts" by (simp add: fresh_for_def demo_accounts_def)
  have "account_step (ac_sha demo_accounts ''r1'') ?w1 (snd (Logout demo_accounts (Some ''r2'') ?w1))"
    using account_step.request [OF fresh, of ?w1 "LogoutCall (Some ''r2'')"] by simp
  then have "(account_step (ac_sha demo_accounts ''r1''))\<^sup>*\<^sup>* ?w1 (snd (Logout demo_accounts (Some ''r2'') ?w1))" by (rule r_into_rtranclp)
  from refresh_token_single_use [OF prod.collapse [symmetric] ok fresh this refl] ok show ?thesis by simp
qed

section \<open>A new password\<close>

lemma ResetPasswordTx_None:
  assumes "ResetPasswordTx env i u pw db = (None, db')"
  shows "list_ex (\<lambda>t. mt_ID t = i \<and> mt_AdminUserID t = u \<and> mt_usable env t) (td_resets db)
    \<and> list_ex (\<lambda>a. au_ID a = u) (td_users db)
    \<and> td_resets db' = use_tokens (\<lambda>t. mt_ID t = i \<and> mt_AdminUserID t = u \<and> mt_usable env t) (de_now env) (td_resets db)
    \<and> td_users db' = sql_update (\<lambda>a. au_ID a = u) (\<lambda>a. a\<lparr>au_PasswordHash := Some pw, au_FailedLoginAttempts := 0, au_LockedUntil := None\<rparr>) (td_users db)
    \<and> td_refresh db' = td_refresh (refresh_update (\<lambda>t. rft_AdminUserID t = u) (de_now env) db)"
  using assms unfolding ResetPasswordTx_def Let_def
  by (auto simp: committed users_update_def refresh_update_def simp del: tx_all.simps(2))

lemma ResetPassword_success:
  assumes "ResetPassword ae body w = (a, w')" "as_Status a = 200"
  shows "\<exists>raw pw t hash db. body = Some (raw, pw) \<and> Password_Validate pw = None \<and> ac_bcrypt ae pw = Some hash
    \<and> FindValidPasswordResetToken (ac_db ae) (ac_sha ae (TrimSpace raw)) (aw_db w) = Inr t
    \<and> ResetPasswordTx (ac_db ae) (mt_ID t) (mt_AdminUserID t) hash (aw_db w) = (None, db) \<and> w' = with_db w db"
  using assms
  by (auto simp: ResetPassword_def Let_def respond_with_def internal_def split: if_splits sum.splits option.splits prod.splits)

definition spent :: "string \<Rightarrow> tenancy \<Rightarrow> bool" where
  "spent h db \<longleftrightarrow> (\<forall>t \<in> set (td_resets db). mt_TokenHash t = h \<longrightarrow> mt_UsedAt t \<noteq> None)"

text \<open>
  C40. A password reset ends what was before it. When it is answered with 200, the token was one mailed to a user, unused and not
  expired (the hashes of tokens being unique); that user and no other has the new password from then on and is not
  locked out; none of this user's refresh tokens is good any more; and the token cannot be used a second time.
\<close>

theorem password_reset_ends_sessions:
  assumes reset: "ResetPassword ae (Some (raw, pw)) w = (a, w')" "as_Status a = 200"
    and unique: "distinct (map mt_TokenHash (td_resets (aw_db w)))"
  shows "\<exists>t hash. t \<in> set (td_resets (aw_db w)) \<and> mt_TokenHash t = ac_sha ae (TrimSpace raw) \<and> mt_usable (ac_db ae) t
    \<and> ac_bcrypt ae pw = Some hash
    \<and> (\<forall>u \<in> set (td_users (aw_db w')). au_ID u = mt_AdminUserID t \<longrightarrow> au_PasswordHash u = Some hash \<and> au_LockedUntil u = None)
    \<and> filter (\<lambda>u. au_ID u \<noteq> mt_AdminUserID t) (td_users (aw_db w')) = filter (\<lambda>u. au_ID u \<noteq> mt_AdminUserID t) (td_users (aw_db w))
    \<and> (\<forall>s \<in> set (td_refresh (aw_db w')). rft_AdminUserID s = mt_AdminUserID t \<longrightarrow> rft_RevokedAt s \<noteq> None)
    \<and> spent (ac_sha ae (TrimSpace raw)) (aw_db w')"
proof -
  obtain t hash db where pw: "ac_bcrypt ae pw = Some hash"
    and find: "FindValidPasswordResetToken (ac_db ae) (ac_sha ae (TrimSpace raw)) (aw_db w) = Inr t"
    and tx: "ResetPasswordTx (ac_db ae) (mt_ID t) (mt_AdminUserID t) hash (aw_db w) = (None, db)" and w': "w' = with_db w db"
    using ResetPassword_success [OF reset] by auto
  have t: "t \<in> set (td_resets (aw_db w))" "mt_TokenHash t = ac_sha ae (TrimSpace raw)" "mt_usable (ac_db ae) t"
    using find by (auto simp: FindValidPasswordResetToken_def tx_read_def split: option.splits dest: find_Some_mem)
  note after = ResetPasswordTx_None [OF tx]
  have "mt_UsedAt s \<noteq> None" if s: "s \<in> set (td_resets db)" "mt_TokenHash s = ac_sha ae (TrimSpace raw)" for s
  proof -
    from s(1) after obtain s0 where s0: "s0 \<in> set (td_resets (aw_db w))" "mt_TokenHash s0 = mt_TokenHash s"
      "s = (if mt_ID s0 = mt_ID t \<and> mt_AdminUserID s0 = mt_AdminUserID t \<and> mt_usable (ac_db ae) s0
            then s0\<lparr>mt_UsedAt := Some (de_now (ac_db ae))\<rparr> else s0)"
      by (auto simp: use_tokens_def sql_update_def)
    have "s0 = t" using unique s0(1,2) t(1,2) s(2) unfolding distinct_map inj_on_def by auto
    then show ?thesis using s0(3) t(3) by simp
  qed
  then have "spent (ac_sha ae (TrimSpace raw)) (aw_db w')" by (simp add: spent_def w')
  moreover have "filter (\<lambda>u. au_ID u \<noteq> mt_AdminUserID t) (td_users (aw_db w')) = filter (\<lambda>u. au_ID u \<noteq> mt_AdminUserID t) (td_users (aw_db w))"
    using after by (auto simp: w' intro!: filter_sql_update)
  moreover have "\<forall>u \<in> set (td_users (aw_db w')). au_ID u = mt_AdminUserID t \<longrightarrow> au_PasswordHash u = Some hash \<and> au_LockedUntil u = None"
    using after by (auto simp: w' sql_update_def)
  moreover have "\<forall>s \<in> set (td_refresh (aw_db w')). rft_AdminUserID s = mt_AdminUserID t \<longrightarrow> rft_RevokedAt s \<noteq> None"
    using after by (auto simp: w' refresh_update_def sql_update_def)
  ultimately show ?thesis using t pw by blast
qed

theorem password_reset_ends_sessions_witness:
  "as_Status (fst (ResetPassword demo_accounts (Some (''mail'', ''Fresh-pw-2'')) ann_world)) = 200
   \<and> spent ''#mail'' (aw_db (snd (ResetPassword demo_accounts (Some (''mail'', ''Fresh-pw-2'')) ann_world)))"
proof -
  have ok: "as_Status (fst (ResetPassword demo_accounts (Some (''mail'', ''Fresh-pw-2'')) ann_world)) = 200" by code_simp
  have "distinct (map mt_TokenHash (td_resets (aw_db ann_world)))" by code_simp
  from password_reset_ends_sessions [OF prod.collapse [symmetric] ok this]
  have "spent (ac_sha demo_accounts (TrimSpace ''mail'')) (aw_db (snd (ResetPassword demo_accounts (Some (''mail'', ''Fresh-pw-2'')) ann_world)))"
    by blast
  moreover have "ac_sha demo_accounts (TrimSpace ''mail'') = ''#mail''" by code_simp
  ultimately show ?thesis using ok by simp
qed

end
