(* ===== verification/Account_Security.thy ===== *)
theory Account_Security
  imports Account_Handlers
begin

text \<open>
  What protects an account: where sessions come from, how many passwords can be tried, and the two ways in
  which signing in with Google and signing up go wrong. All statements are about the handlers of
  \<^verbatim>\<open>internal/admin/handler/auth_handler.go\<close> and \<^verbatim>\<open>google_auth_handler.go\<close>.
\<close>

section \<open>Where sessions come from\<close>

text \<open>A session that is open after a request and was not before.\<close>

definition opened :: "tenancy \<Rightarrow> tenancy \<Rightarrow> refresh_token \<Rightarrow> bool" where
  "opened db db' t \<longleftrightarrow> t \<in> set (td_refresh db') \<and> t \<notin> set (td_refresh db) \<and> rft_RevokedAt t = None"

lemma not_opened_same: "td_refresh db' = td_refresh db \<Longrightarrow> \<not> opened db db' t"
  by (simp add: opened_def)

lemma not_opened_revoked: "td_refresh db' = td_refresh (refresh_update P now db) \<Longrightarrow> \<not> opened db db' t"
  by (auto simp: opened_def refresh_update_def sql_update_def split: if_splits)

lemma opened_insert_refresh:
  assumes "opened db (snd (insert_refresh ids u h e db1)) t" "\<And>t. \<not> opened db db1 t"
  shows "rft_AdminUserID t = u"
  using assms(1) assms(2) [of t] by (auto simp: opened_def insert_refresh_def split: if_splits)

lemma opened_CreateRefreshToken:
  assumes "opened db (snd (CreateRefreshToken env ids u h e db1)) t" "td_refresh db1 = td_refresh db"
  shows "rft_AdminUserID t = u"
proof (cases "de_fault env ''create refresh token''")
  case None
  then show ?thesis using assms(1) opened_insert_refresh [of db ids u h e db1 t] not_opened_same [OF assms(2)]
    by (auto simp: CreateRefreshToken_def tx_try_def)
next
  case (Some e)
  then show ?thesis using assms(1) not_opened_same [OF assms(2)] by (simp add: CreateRefreshToken_def tx_try_def)
qed

lemma opened_issueTokensForUser:
  assumes "opened db (aw_db (snd (issueTokensForUser ae u n w))) t" "td_refresh (aw_db w) = td_refresh db"
  shows "rft_AdminUserID t = u"
proof (cases "ac_rand ae")
  case None
  then show ?thesis using assms not_opened_same [OF assms(2)] by (simp add: issueTokensForUser_def)
next
  case (Some r)
  have "aw_db (snd (issueTokensForUser ae u n w)) =
      snd (CreateRefreshToken (ac_db ae) (ac_ids ae) u (ac_sha ae r) (de_clock (ac_db ae) + RefreshTokenTTL) (aw_db w))"
    using Some by (auto simp: issueTokensForUser_def split: prod.split option.split)
  then show ?thesis using opened_CreateRefreshToken [of db "ac_db ae" "ac_ids ae" u] assms by simp
qed

lemma opened_start_session:
  assumes "opened (aw_db w) (aw_db (snd (start_session ae ip u w))) t"
  shows "rft_AdminUserID t = au_ID u"
proof (cases "UpdateAdminLoginSuccess (ac_db ae) (au_ID u) (aw_db w)")
  case (Pair e db)
  have same: "td_refresh db = td_refresh (aw_db w)" using keeps_refresh(1) [of "ac_db ae" "au_ID u" "aw_db w"] Pair by simp
  show ?thesis
  proof (cases e)
    case None
    have "aw_db (snd (start_session ae ip u w)) = aw_db (snd (issueTokensForUser ae (au_ID u) (au_Username u) (with_db w db)))"
      using Pair None by (auto simp: start_session_def split: prod.split option.split)
    then show ?thesis using opened_issueTokensForUser [of "aw_db w" ae "au_ID u"] assms same by simp
  next
    case (Some x)
    then show ?thesis using assms Pair not_opened_same [OF same] by (simp add: start_session_def)
  qed
qed

definition locked :: "account_env \<Rightarrow> admin_user \<Rightarrow> bool" where
  "locked ae u = (case au_LockedUntil u of Some t \<Rightarrow> t > de_clock (ac_db ae) | None \<Rightarrow> False)"

lemma Login_session:
  assumes "td_refresh (aw_db (snd (Login ae addr body w))) \<noteq> td_refresh (aw_db w)"
  shows "\<exists>name pw user hash l. body = Some (name, pw) \<and> findLoginUser ae (TrimSpace name) (aw_db w) = Inr user \<and> \<not> locked ae user
    \<and> au_PasswordHash user = Some hash \<and> ac_matches ae hash pw \<and> au_EmailVerified user
    \<and> Login ae addr body w = start_session ae (ClientIP addr) user (w\<lparr>aw_limiter := l\<rparr>)"
proof -
  obtain tooMany l where l: "TooManyFailures (de_clock (ac_db ae)) (ClientIP addr) (aw_limiter w) = (tooMany, l)" by fastforce
  obtain name pw where body: "body = Some (name, pw)" "\<not> tooMany"
    using assms by (cases body) (auto simp: Login_def Let_def l split: if_splits)
  obtain user where user: "findLoginUser ae (TrimSpace name) (aw_db w) = Inr user" "\<not> locked ae user"
    using assms body by (auto simp: Login_def Let_def l locked_def split: sum.splits if_splits)
  obtain hash where hash: "au_PasswordHash user = Some hash" "ac_matches ae hash pw" "au_EmailVerified user"
    using assms body user by (auto simp: Login_def Let_def l locked_def split: option.splits if_splits)
  have "Login ae addr body w = start_session ae (ClientIP addr) user (w\<lparr>aw_limiter := Limiter_Reset (ClientIP addr) l\<rparr>)"
    using body user hash by (simp add: Login_def Let_def l locked_def [symmetric])
  then show ?thesis using body user hash by blast
qed

lemma findLoginUser_mem: "findLoginUser ae n db = Inr u \<Longrightarrow> u \<in> set (td_users db)"
  by (auto simp: findLoginUser_def FindAdminUserByEmail_def FindAdminUserByUsername_def find_user_def tx_read_def
      split: if_splits sum.splits option.splits dest: find_Some_mem)

lemma opened_Login:
  assumes "opened (aw_db w) (aw_db (snd (Login ae addr body w))) t"
  shows "\<exists>name pw user hash. body = Some (name, pw) \<and> user \<in> set (td_users (aw_db w)) \<and> au_ID user = rft_AdminUserID t
    \<and> \<not> locked ae user \<and> au_PasswordHash user = Some hash \<and> ac_matches ae hash pw \<and> au_EmailVerified user"
proof -
  have "td_refresh (aw_db (snd (Login ae addr body w))) \<noteq> td_refresh (aw_db w)"
    using assms not_opened_same by blast
  from Login_session [OF this] obtain name pw user hash l where *: "body = Some (name, pw)"
    "findLoginUser ae (TrimSpace name) (aw_db w) = Inr user" "\<not> locked ae user" "au_PasswordHash user = Some hash"
    "ac_matches ae hash pw" "au_EmailVerified user"
    "Login ae addr body w = start_session ae (ClientIP addr) user (w\<lparr>aw_limiter := l\<rparr>)" by blast
  moreover have "rft_AdminUserID t = au_ID user"
    using assms opened_start_session [of "w\<lparr>aw_limiter := l\<rparr>" ae "ClientIP addr" user t] *(7) by simp
  ultimately show ?thesis using findLoginUser_mem by metis
qed

lemma RotateRefreshToken_cases:
  "snd (RotateRefreshToken env ids old new u e db) = db
   \<or> snd (RotateRefreshToken env ids old new u e db)
       = snd (insert_refresh ids u new e (refresh_update (\<lambda>t. rft_TokenHash t = old) (de_now env) db))"
proof (cases "RotateRefreshToken env ids old new u e db")
  case (Pair r db')
  show ?thesis
  proof (cases r)
    case None
    then have "insert_refresh ids u new e (refresh_update (\<lambda>t. rft_TokenHash t = old) (de_now env) db) = (None, db')"
      using Pair unfolding RotateRefreshToken_def by (auto simp: committed simp del: tx_all.simps(2))
    then show ?thesis using Pair by simp
  next
    case (Some x)
    then show ?thesis using Pair in_tx_Some unfolding RotateRefreshToken_def by fastforce
  qed
qed

lemma opened_Rotate:
  "opened db (snd (RotateRefreshToken env ids old new u e db)) t \<Longrightarrow> rft_AdminUserID t = u"
  using RotateRefreshToken_cases [of env ids old new u e db] not_opened_same [of db db t]
    opened_insert_refresh [of db ids u new e "refresh_update (\<lambda>t. rft_TokenHash t = old) (de_now env) db" t] not_opened_revoked [OF refl]
  by (metis opened_def)

lemma Refresh_rotates:
  assumes "FindRefreshToken (ac_db ae) (ac_sha ae raw) (aw_db w) = Inr s" "ac_rand ae = Some r" "raw \<noteq> []"
    "rft_RevokedAt s = None" "\<not> rft_ExpiresAt s < de_clock (ac_db ae)"
  shows "aw_db (snd (Refresh ae (Some raw) w)) = snd (RotateRefreshToken (ac_db ae) (ac_ids ae) (ac_sha ae raw) (ac_sha ae r)
      (rft_AdminUserID s) (de_clock (ac_db ae) + RefreshTokenTTL) (aw_db w))"
  using assms by (simp add: Refresh_def split: prod.split option.split sum.split)

lemma opened_Refresh:
  assumes opened: "opened (aw_db w) (aw_db (snd (Refresh ae cookie w))) t"
  shows "\<exists>raw s. cookie = Some raw \<and> s \<in> set (td_refresh (aw_db w)) \<and> rft_TokenHash s = ac_sha ae raw \<and> rft_RevokedAt s = None
    \<and> de_clock (ac_db ae) \<le> rft_ExpiresAt s \<and> rft_AdminUserID s = rft_AdminUserID t"
proof -
  have change: "aw_db (snd (Refresh ae cookie w)) \<noteq> aw_db w" using opened not_opened_same [OF refl] by metis
  then obtain raw where raw: "cookie = Some raw" "raw \<noteq> []" by (auto simp: Refresh_def split: option.splits if_splits)
  obtain s where s: "FindRefreshToken (ac_db ae) (ac_sha ae raw) (aw_db w) = Inr s" "rft_RevokedAt s = None"
      "\<not> rft_ExpiresAt s < de_clock (ac_db ae)"
  proof (cases "FindRefreshToken (ac_db ae) (ac_sha ae raw) (aw_db w)")
    case (Inr s)
    with change raw that show ?thesis by (simp add: Refresh_def split: if_splits)
  qed (use change raw in \<open>simp add: Refresh_def\<close>)
  obtain r where r: "ac_rand ae = Some r" using change raw s by (cases "ac_rand ae") (simp_all add: Refresh_def)
  from opened have "rft_AdminUserID t = rft_AdminUserID s"
    unfolding raw(1) Refresh_rotates [OF s(1) r raw(2) s(2,3)] by (rule opened_Rotate)
  moreover have "s \<in> set (td_refresh (aw_db w))" "rft_TokenHash s = ac_sha ae raw"
    using s(1) by (auto simp: FindRefreshToken_def tx_read_def split: option.splits dest: find_Some_mem)
  ultimately show ?thesis using raw s by auto
qed

text \<open>The user a Google identity leads to carries the identity afterwards.\<close>

definition carries :: "google_identity \<Rightarrow> uuid \<Rightarrow> tenancy \<Rightarrow> bool" where
  "carries gid u db \<longleftrightarrow> (\<exists>a \<in> set (td_users db). au_ID a = u \<and> au_GoogleID a = Some (gi_Subject gid))"

lemma carries_update:
  assumes "carries gid u db" "\<And>a. au_ID (f a) = au_ID a \<and> au_GoogleID (f a) = au_GoogleID a"
  shows "carries gid u (users_update P f db)"
proof -
  obtain a where "a \<in> set (td_users db)" "au_ID a = u" "au_GoogleID a = Some (gi_Subject gid)"
    using assms(1) by (auto simp: carries_def)
  then show ?thesis
    unfolding carries_def by (intro bexI [where x = "if P a then f a else a"]) (auto simp: assms(2) users_update_def sql_update_def)
qed

lemma GoogleSignupTx_carries:
  assumes "GoogleSignupTx env ids (gi_Email gid) (gi_Subject gid) pic company slug db = (None, db')"
  shows "carries gid (ids ''admin_users'') db'"
proof -
  let ?u = "google_user (ids ''admin_users'') (gi_Email gid) (gi_Subject gid) pic"
  obtain db1 db2 where user: "insert_user_unless (\<lambda>v. EqualFold (au_Email v) (gi_Email gid)) ?u db = (None, db1)"
    and project: "signup_project env (ids ''projects'') company slug (ids ''admin_users'') ''free'' db1 = (None, db2)"
    and member: "signup_member env (ids ''projects'') (ids ''admin_users'') db2 = (None, db')"
    using assms unfolding GoogleSignupTx_def by (auto simp: committed simp del: tx_all.simps(2))
  have "?u \<in> set (td_users db1)"
    using user by (auto simp: insert_user_unless_def insert_user_def split: if_splits option.splits)
  moreover have "td_users db2 = td_users db1"
    using project by (auto simp: signup_project_def insert_project_def tx_try_def split: if_splits option.splits prod.splits tenancy_error.splits)
  moreover have "td_users db' = td_users db2"
    using member by (auto simp: signup_member_def committed)
  ultimately show ?thesis
    unfolding carries_def by (intro bexI [where x = ?u]) (simp_all add: google_user_def new_user_def)
qed

lemma find_user_Inr: "find_user env s P db = Inr u \<Longrightarrow> u \<in> set (td_users db) \<and> P u"
  by (auto simp: find_user_def tx_read_def split: option.splits dest: find_Some_mem)

lemma LinkGoogleAccount_carries:
  assumes "LinkGoogleAccount env i (gi_Subject gid) pic db = (None, db')" "a \<in> set (td_users db)" "au_ID a = i"
  shows "carries gid i db'"
proof -
  let ?f = "\<lambda>u. u\<lparr>au_GoogleID := Some (gi_Subject gid), au_AvatarURL := (if pic \<noteq> [] then Some pic else au_AvatarURL u), au_EmailVerified := True\<rparr>"
  have "db' = users_update (\<lambda>u. au_ID u = i) ?f db"
    using assms(1) by (auto simp: LinkGoogleAccount_def tx_try_None_iff split: if_splits)
  then have "?f a \<in> set (td_users db')" using assms(2,3) by (auto simp: users_update_def sql_update_def)
  then show ?thesis using assms(3) unfolding carries_def by (intro bexI [where x = "?f a"]) auto
qed

lemma resolveGoogleUser_carries:
  assumes "resolveGoogleUser ae gid db = (Some (u, n), db')"
  shows "carries gid u db'"
proof (cases "FindAdminUserByGoogleID (ac_db ae) (gi_Subject gid) db")
  case (Inr a)
  then show ?thesis using assms find_user_Inr
    by (fastforce simp: resolveGoogleUser_def carries_def FindAdminUserByGoogleID_def)
next
  case noID: (Inl e)
  then have e: "e = ErrNoRows" using assms by (auto simp: resolveGoogleUser_def split: if_splits)
  show ?thesis
  proof (cases "FindAdminUserByEmail (ac_db ae) (gi_Email gid) db")
    case (Inr a)
    then have "a \<in> set (td_users db)" using find_user_Inr by (fastforce simp: FindAdminUserByEmail_def)
    moreover have "LinkGoogleAccount (ac_db ae) (au_ID a) (gi_Subject gid) (gi_Picture gid) db = (None, db')" "u = au_ID a"
      using assms noID e Inr by (auto simp: resolveGoogleUser_def split: prod.splits option.splits)
    ultimately show ?thesis using LinkGoogleAccount_carries by blast
  next
    case (Inl e')
    then show ?thesis
      using assms noID e GoogleSignupTx_carries
      by (auto simp: resolveGoogleUser_def Let_def split: prod.splits option.splits if_splits)
  qed
qed

lemma opened_GoogleCallback:
  assumes opened: "opened (aw_db w) (aw_db (snd (GoogleCallback ae code state cookie w))) t"
  shows "\<exists>cv gid. cookie = Some state \<and> ac_validState ae state = Some cv \<and> ac_exchange ae code cv = Some gid
    \<and> carries gid (rft_AdminUserID t) (aw_db (snd (GoogleCallback ae code state cookie w)))"
proof -
  have change: "aw_db (snd (GoogleCallback ae code state cookie w)) \<noteq> aw_db w" using opened not_opened_same [OF refl] by metis
  then obtain cv where cv: "code \<noteq> []" "state \<noteq> []" "cookie = Some state" "ac_validState ae state = Some cv"
    by (auto simp: GoogleCallback_def Let_def split: if_splits option.splits)
  obtain gid where gid: "ac_exchange ae code cv = Some gid"
    using change cv by (cases "ac_exchange ae code cv") (simp_all add: GoogleCallback_def)
  obtain who db where resolved: "resolveGoogleUser ae gid (aw_db w) = (who, db)" by fastforce
  then have same: "td_refresh db = td_refresh (aw_db w)" using resolveGoogleUser_refresh [of ae gid "aw_db w"] by simp
  note run = cv gid resolved
  obtain u n where who: "who = Some (u, n)"
    using opened not_opened_same [OF same] run by (cases who) (auto simp: GoogleCallback_def)
  obtain e db' where upd: "UpdateAdminLoginSuccess (ac_db ae) u db = (e, db')" by fastforce
  then have same': "td_refresh db' = td_refresh (aw_db w)" using keeps_refresh(1) [of "ac_db ae" u db] same by simp
  have e: "e = None"
    using opened not_opened_same [OF same'] run who upd by (cases e) (auto simp: GoogleCallback_def)
  have final: "aw_db (snd (GoogleCallback ae code state cookie w)) = aw_db (snd (issueTokensForUser ae u n (with_db w db')))"
    using run who upd e by (auto simp: GoogleCallback_def split: prod.split option.split)
  have "rft_AdminUserID t = u"
    using opened opened_issueTokensForUser [of "aw_db w" ae u n "with_db w db'" t] same' unfolding final by simp
  moreover have "carries gid u db'"
  proof -
    have "db' = users_update (\<lambda>a. au_ID a = u)
        (\<lambda>a. a\<lparr>au_FailedLoginAttempts := 0, au_LockedUntil := None, au_LastLoginAt := Some (de_now (ac_db ae))\<rparr>) db"
      using upd e by (simp add: UpdateAdminLoginSuccess_def tx_try_None_iff)
    then show ?thesis using resolveGoogleUser_carries resolved who by (auto intro: carries_update)
  qed
  moreover have "td_users (aw_db (snd (issueTokensForUser ae u n v))) = td_users (aw_db v)" for v
    by (auto simp: issueTokensForUser_def CreateRefreshToken_def insert_refresh_def tx_try_def split: option.split prod.split)
  ultimately show ?thesis unfolding final using cv gid by (auto simp: carries_def)
qed

lemma ResetPasswordTx_opens_nothing: "\<not> opened db (snd (ResetPasswordTx env i u pw db)) t"
proof (cases "ResetPasswordTx env i u pw db")
  case (Pair e db')
  show ?thesis
  proof (cases e)
    case None
    with Pair have "td_refresh db' = td_refresh (refresh_update (\<lambda>t. rft_AdminUserID t = u) (de_now env) db)"
      using ResetPasswordTx_None [of env i u pw db db'] by simp
    then show ?thesis using Pair not_opened_revoked by simp
  next
    case (Some x)
    with Pair have "db' = db" unfolding ResetPasswordTx_def Let_def by (intro in_tx_Some) simp
    then show ?thesis using Pair by (simp add: opened_def)
  qed
qed

lemma ResetPassword_opens_nothing: "\<not> opened (aw_db w) (aw_db (snd (ResetPassword ae body w))) t"
  by (rule ResetPassword_db [where P = "\<lambda>db. \<not> opened (aw_db w) db t"]) (simp_all add: ResetPasswordTx_opens_nothing, simp add: opened_def)

text \<open>
  C37. Every session has a cause. If a request to one of the public routes opens a session for a user, it is a login with that
  user's password, the account not being locked and its address verified; or it presents an unexpired refresh token of that user
  that was not revoked; or it returns from Google with an identity that the user's account carries, in the browser in which the
  flow was started.
\<close>

theorem sessions_have_a_cause:
  assumes "opened (aw_db w) (aw_db (snd (account_serve ae call w))) t"
  shows "(\<exists>addr name pw user hash. call = LoginCall addr (Some (name, pw)) \<and> user \<in> set (td_users (aw_db w))
        \<and> au_ID user = rft_AdminUserID t \<and> \<not> locked ae user \<and> au_PasswordHash user = Some hash \<and> ac_matches ae hash pw \<and> au_EmailVerified user)
    \<or> (\<exists>raw s. call = RefreshCall (Some raw) \<and> s \<in> set (td_refresh (aw_db w)) \<and> rft_TokenHash s = ac_sha ae raw
        \<and> rft_RevokedAt s = None \<and> de_clock (ac_db ae) \<le> rft_ExpiresAt s \<and> rft_AdminUserID s = rft_AdminUserID t)
    \<or> (\<exists>code state cv gid. call = GoogleCallbackCall code state (Some state) \<and> ac_validState ae state = Some cv
        \<and> ac_exchange ae code cv = Some gid \<and> carries gid (rft_AdminUserID t) (aw_db (snd (account_serve ae call w))))"
proof (cases call)
  case (LoginCall addr body)
  then show ?thesis using opened_Login [of w ae addr body t] assms by fastforce
next
  case (RefreshCall cookie)
  then show ?thesis using opened_Refresh [of w ae cookie t] assms by fastforce
next
  case (GoogleCallbackCall code state cookie)
  then show ?thesis using opened_GoogleCallback [of w ae code state cookie t] assms by fastforce
next
  case (LogoutCall cookie)
  have "\<not> opened (aw_db w) (snd (RevokeRefreshToken env h (aw_db w))) t" for env h
    using not_opened_revoked [OF refl, of "aw_db w"] not_opened_same [OF refl, of "aw_db w"]
    by (simp add: RevokeRefreshToken_def tx_try_def split: option.split)
  then show ?thesis using LogoutCall assms not_opened_same [OF refl, of "aw_db w"] by (auto simp: Logout_def split: option.splits if_splits)
next
  case (ResetPasswordCall body)
  have "\<not> opened (aw_db w) (aw_db (snd (ResetPassword ae body w))) t"
    by (rule ResetPassword_opens_nothing)
  then show ?thesis using ResetPasswordCall assms by simp
qed (use assms not_opened_same [OF Register_refresh] not_opened_same [OF Signup_refresh] not_opened_same [OF ForgotPassword_refresh]
      not_opened_same [OF VerifyEmail_refresh] not_opened_same [OF ResendVerification_refresh] in simp_all)

theorem sessions_have_a_cause_witness:
  "\<exists>name pw user hash. (''ann'', ''Secret-1'') = (name, pw) \<and> user \<in> set (td_users (aw_db ann_world)) \<and> au_ID user = ''ann''
     \<and> \<not> locked demo_accounts user \<and> au_PasswordHash user = Some hash \<and> ac_matches demo_accounts hash pw \<and> au_EmailVerified user"
proof -
  let ?call = "LoginCall ''10.0.0.1:5'' (Some (''ann'', ''Secret-1''))"
  let ?t = "\<lparr>rft_ID = ''new refresh_tokens'', rft_AdminUserID = ''ann'', rft_TokenHash = ''#r2'', rft_ExpiresAt = RefreshTokenTTL, rft_RevokedAt = None\<rparr>"
  have "list_ex (\<lambda>t. t = ?t) (td_refresh (aw_db (snd (account_serve demo_accounts ?call ann_world))))" by code_simp
  moreover have "\<not> list_ex (\<lambda>t. t = ?t) (td_refresh (aw_db ann_world))" by code_simp
  ultimately have "opened (aw_db ann_world) (aw_db (snd (account_serve demo_accounts ?call ann_world))) ?t"
    by (simp add: opened_def list_ex_iff)
  from sessions_have_a_cause [OF this] show ?thesis by auto
qed

section \<open>Guessing a password\<close>

definition login_row :: "string \<Rightarrow> tenancy \<Rightarrow> admin_user option" where
  "login_row name db =
     (let byName = List.find (\<lambda>u. au_Username u = name) (td_users db)
      in if Contains name ''@''
         then (case List.find (\<lambda>u. EqualFold (au_Email u) (ToLower name)) (td_users db) of Some u \<Rightarrow> Some u | None \<Rightarrow> byName)
         else byName)"

definition faultless :: "account_env \<Rightarrow> bool" where
  "faultless ae \<longleftrightarrow> (\<forall>s. de_fault (ac_db ae) s = None)"

lemma findLoginUser_row:
  assumes "faultless ae"
  shows "findLoginUser ae n db = (case login_row n db of None \<Rightarrow> Inl ErrNoRows | Some u \<Rightarrow> Inr u)"
  using assms
  by (simp add: findLoginUser_def login_row_def FindAdminUserByEmail_def FindAdminUserByUsername_def find_user_def tx_read_def faultless_def Let_def
      split: option.split)

lemma login_row_update:
  assumes "\<And>u. au_Username (f u) = au_Username u \<and> au_Email (f u) = au_Email u"
  shows "login_row n (users_update Q f db) = map_option (\<lambda>u. if Q u then f u else u) (login_row n db)"
proof -
  have "List.find (\<lambda>u. au_Username u = m) (sql_update Q f us) = map_option (\<lambda>u. if Q u then f u else u) (List.find (\<lambda>u. au_Username u = m) us)"
    and "List.find (\<lambda>u. EqualFold (au_Email u) m) (sql_update Q f us) = map_option (\<lambda>u. if Q u then f u else u) (List.find (\<lambda>u. EqualFold (au_Email u) m) us)"
    for m us using assms by (simp_all add: find_sql_update)
  then show ?thesis by (simp add: login_row_def users_update_def Let_def split: option.split)
qed

text \<open>Whether a login gets as far as comparing the password, and how many of a row of logins do.\<close>

definition compares :: "account_env \<Rightarrow> string \<Rightarrow> string \<Rightarrow> account_world \<Rightarrow> bool" where
  "compares ae addr name w \<longleftrightarrow>
     \<not> fst (TooManyFailures (de_clock (ac_db ae)) (ClientIP addr) (aw_limiter w))
     \<and> (case findLoginUser ae (TrimSpace name) (aw_db w) of
          Inl _ \<Rightarrow> False
        | Inr u \<Rightarrow> \<not> locked ae u \<and> au_PasswordHash u \<noteq> None)"

fun guesses_tested :: "string \<Rightarrow> (account_env \<times> string \<times> string) list \<Rightarrow> account_world \<Rightarrow> nat" where
  "guesses_tested name [] w = 0"
| "guesses_tested name ((ae, addr, pw) # gs) w =
     (if compares ae addr name w then 1 else 0) + guesses_tested name gs (snd (Login ae addr (Some (name, pw)) w))"

lemma login_not_compared:
  assumes "faultless ae" "login_row (TrimSpace name) (aw_db w) = Some u" "\<not> compares ae addr name w"
  shows "aw_db (snd (Login ae addr (Some (name, pw)) w)) = aw_db w"
  using assms unfolding compares_def Login_def Let_def locked_def findLoginUser_row [OF assms(1)]
  by (auto split: prod.split option.split)

lemma login_compared_wrong:
  assumes "faultless ae" "login_row (TrimSpace name) (aw_db w) = Some u" "compares ae addr name w"
    "au_PasswordHash u = Some hash" "\<not> ac_matches ae hash pw"
  shows "aw_db (snd (Login ae addr (Some (name, pw)) w)) = aw_db (failed_password ae ip u w)"
  using assms(2-) unfolding compares_def Login_def Let_def locked_def findLoginUser_row [OF assms(1)]
  by (auto simp: failed_password_def Let_def split: prod.split option.split)

lemma login_row_mem: "login_row n db = Some u \<Longrightarrow> u \<in> set (td_users db)"
  by (auto simp: login_row_def Let_def split: if_splits option.splits dest: find_Some_mem)

lemma failed_password_names:
  "map au_Username (td_users (aw_db (failed_password ae ip u w))) = map au_Username (td_users (aw_db w))"
  by (auto simp: failed_password_def Let_def IncrementAdminLoginFailure_def LockAdminUser_def users_update_def sql_update_def tx_try_def tx_ok_def
      split: option.split)

lemma failed_password_row:
  assumes "faultless ae" "login_row n (aw_db w) = Some u" and names: "distinct (map au_Username (td_users (aw_db w)))"
  shows "\<exists>u'. login_row n (aw_db (failed_password ae ip u w)) = Some u' \<and> au_PasswordHash u' = au_PasswordHash u
    \<and> (if au_FailedLoginAttempts u + 1 \<ge> 5 then au_LockedUntil u' = Some (de_clock (ac_db ae) + lockoutDuration)
       else au_FailedLoginAttempts u' = au_FailedLoginAttempts u + 1 \<and> au_LockedUntil u' = au_LockedUntil u)"
proof -
  let ?un = "au_Username u"
  let ?inc = "\<lambda>a. a\<lparr>au_FailedLoginAttempts := au_FailedLoginAttempts a + 1\<rparr>"
  let ?lock = "\<lambda>a. a\<lparr>au_LockedUntil := Some (de_clock (ac_db ae) + lockoutDuration)\<rparr>"
  define db1 where "db1 = snd (IncrementAdminLoginFailure (ac_db ae) ?un (aw_db w))"
  have db1: "db1 = aw_db w \<or> db1 = users_update (\<lambda>a. au_Username a = ?un) ?inc (aw_db w)"
    using assms(1) by (simp add: db1_def IncrementAdminLoginFailure_def tx_try_def faultless_def)
  have rows: "login_row n (users_update (\<lambda>a. au_Username a = ?un) ?inc db) = map_option (\<lambda>a. if au_Username a = ?un then ?inc a else a) (login_row n db)"
    "login_row n (users_update (\<lambda>a. au_Username a = ?un) ?lock db) = map_option (\<lambda>a. if au_Username a = ?un then ?lock a else a) (login_row n db)" for db
    by (rule login_row_update; simp)+
  show ?thesis
  proof (cases "au_FailedLoginAttempts u + 1 \<ge> 5")
    case True
    then have "aw_db (failed_password ae ip u w) = users_update (\<lambda>a. au_Username a = ?un) ?lock db1"
      using assms(1) by (simp add: failed_password_def Let_def LockAdminUser_def tx_try_def faultless_def db1_def)
    moreover obtain u1 where "login_row n db1 = Some u1" "au_Username u1 = ?un" "au_PasswordHash u1 = au_PasswordHash u"
      using db1 assms(2) by (auto simp: rows)
    ultimately have "login_row n (aw_db (failed_password ae ip u w)) = Some (?lock u1)" "au_PasswordHash (?lock u1) = au_PasswordHash u"
      by (simp_all add: rows)
    then show ?thesis using True by (intro exI [where x = "?lock u1"]) simp
  next
    case False
    then have "aw_db (failed_password ae ip u w) = db1" by (simp add: failed_password_def Let_def db1_def)
    moreover have "db1 = users_update (\<lambda>a. au_Username a = ?un) ?inc (aw_db w)"
    proof -
      have "v = u" if "v \<in> set (td_users (aw_db w))" "au_Username v = ?un" for v
        using that names login_row_mem [OF assms(2)] unfolding distinct_map inj_on_def by auto
      then have "\<not> list_ex (\<lambda>v. au_Username v = ?un \<and> au_FailedLoginAttempts v \<ge> 2147483647) (td_users (aw_db w))"
        using False by (fastforce simp: list_ex_iff)
      then show ?thesis using assms(1) by (simp add: db1_def IncrementAdminLoginFailure_def tx_try_def faultless_def)
    qed
    ultimately show ?thesis using False assms(2) by (simp add: rows)
  qed
qed

definition guesses_left :: "go_time \<Rightarrow> admin_user \<Rightarrow> nat" where
  "guesses_left T u =
     (if (case au_LockedUntil u of Some t \<Rightarrow> t \<ge> T + lockoutDuration | None \<Rightarrow> False) then 0
      else nat (max 1 (5 - au_FailedLoginAttempts u)))"

definition wrong_guess :: "go_time \<Rightarrow> string \<Rightarrow> account_env \<times> string \<times> string \<Rightarrow> bool" where
  "wrong_guess T hash g =
     (case g of (ae, _, pw) \<Rightarrow>
        faultless ae \<and> T \<le> de_clock (ac_db ae) \<and> de_clock (ac_db ae) < T + lockoutDuration \<and> \<not> ac_matches ae hash pw)"

lemma guesses_tested_le:
  assumes "\<forall>g \<in> set gs. wrong_guess T hash g" "login_row (TrimSpace name) (aw_db w) = Some u" "au_PasswordHash u = Some hash"
    "distinct (map au_Username (td_users (aw_db w)))"
  shows "guesses_tested name gs w \<le> guesses_left T u"
  using assms
proof (induction gs arbitrary: w u)
  case (Cons g gs)
  obtain ae addr pw where g: "g = (ae, addr, pw)" by (cases g)
  have ae: "faultless ae" "T \<le> de_clock (ac_db ae)" "de_clock (ac_db ae) < T + lockoutDuration" "\<not> ac_matches ae hash pw"
    using Cons.prems(1) by (auto simp: g wrong_guess_def)
  let ?w = "snd (Login ae addr (Some (name, pw)) w)"
  show ?case
  proof (cases "compares ae addr name w")
    case False
    have "aw_db ?w = aw_db w" by (rule login_not_compared [OF ae(1) Cons.prems(2) False])
    then show ?thesis using Cons.IH [of ?w u] Cons.prems False by (simp add: g)
  next
    case True
    have db: "aw_db ?w = aw_db (failed_password ae [] u w)"
      by (rule login_compared_wrong [OF ae(1) Cons.prems(2) True Cons.prems(3) ae(4)])
    obtain u' where u': "login_row (TrimSpace name) (aw_db ?w) = Some u'" "au_PasswordHash u' = Some hash"
      "if au_FailedLoginAttempts u + 1 \<ge> 5 then au_LockedUntil u' = Some (de_clock (ac_db ae) + lockoutDuration)
       else au_FailedLoginAttempts u' = au_FailedLoginAttempts u + 1 \<and> au_LockedUntil u' = au_LockedUntil u"
      using failed_password_row [OF ae(1) Cons.prems(2,4), of "[]"] Cons.prems(3) unfolding db by auto
    have "\<not> locked ae u"
      using True Cons.prems(2) by (simp add: compares_def findLoginUser_row [OF ae(1)])
    then have "\<not> (case au_LockedUntil u of Some t \<Rightarrow> t \<ge> T + lockoutDuration | None \<Rightarrow> False)"
      using ae(3) by (auto simp: locked_def split: option.splits)
    then have "1 + guesses_left T u' \<le> guesses_left T u"
      using u'(3) ae(2) by (auto simp: guesses_left_def split: if_splits option.splits)
    moreover have "guesses_tested name gs ?w \<le> guesses_left T u'"
      using Cons.IH [of ?w u'] Cons.prems(1,4) u'(1,2) by (simp add: db failed_password_names)
    ultimately show ?thesis using True by (simp add: g)
  qed
qed simp



section \<open>An address that somebody else registered\<close>

text \<open>
  Whoever owns an address and signs in with Google takes over the account that was registered for this address, with the
  password it has: the account is marked as verified and unlocked, and its password stays. An account that a stranger
  registered for the address, which could not be used before because the address was not verified, can be used with the
  stranger's password afterwards.
\<close>

theorem google_login_keeps_the_password:
  assumes faultless: "faultless ae"
    and u: "FindAdminUserByEmail (ac_db ae) (gi_Email gid) (aw_db w) = Inr u"
    and new: "\<forall>a \<in> set (td_users (aw_db w)). au_GoogleID a \<noteq> Some (gi_Subject gid)"
    and flow: "code \<noteq> []" "state \<noteq> []" "ac_validState ae state = Some cv" "ac_exchange ae code cv = Some gid"
  shows "\<exists>u' \<in> set (td_users (aw_db (snd (GoogleCallback ae code state (Some state) w)))).
    au_ID u' = au_ID u \<and> au_Username u' = au_Username u \<and> au_PasswordHash u' = au_PasswordHash u \<and> au_EmailVerified u' \<and> au_LockedUntil u' = None"
proof -
  let ?link = "\<lambda>a. a\<lparr>au_GoogleID := Some (gi_Subject gid), au_AvatarURL := (if gi_Picture gid \<noteq> [] then Some (gi_Picture gid) else au_AvatarURL a),
    au_EmailVerified := True\<rparr>"
  let ?seen = "\<lambda>a. a\<lparr>au_FailedLoginAttempts := 0, au_LockedUntil := None, au_LastLoginAt := Some (de_now (ac_db ae))\<rparr>"
  let ?Q = "\<lambda>a. au_ID a = au_ID u"
  let ?db = "users_update ?Q ?link (aw_db w)"
  have mem: "u \<in> set (td_users (aw_db w))" using u find_user_Inr by (fastforce simp: FindAdminUserByEmail_def)
  have "FindAdminUserByGoogleID (ac_db ae) (gi_Subject gid) (aw_db w) = Inl ErrNoRows"
    using faultless new by (auto simp: FindAdminUserByGoogleID_def find_user_def tx_read_def faultless_def find_None_iff split: option.split
        dest!: find_Some_mem)
  moreover have "LinkGoogleAccount (ac_db ae) (au_ID u) (gi_Subject gid) (gi_Picture gid) (aw_db w) = (None, ?db)"
    using faultless new by (auto simp: LinkGoogleAccount_def tx_try_def faultless_def list_ex_iff)
  ultimately have resolved: "resolveGoogleUser ae gid (aw_db w) = (Some (au_ID u, au_Username u), ?db)"
    using u by (simp add: resolveGoogleUser_def)
  have seen: "UpdateAdminLoginSuccess (ac_db ae) (au_ID u) ?db = (None, users_update ?Q ?seen ?db)"
    using faultless by (simp add: UpdateAdminLoginSuccess_def tx_try_def faultless_def tx_ok_def)
  have users: "td_users (aw_db (snd (issueTokensForUser ae i n v))) = td_users (aw_db v)" for i n v
    by (auto simp: issueTokensForUser_def CreateRefreshToken_def insert_refresh_def tx_try_def split: option.split prod.split)
  have "td_users (aw_db (snd (GoogleCallback ae code state (Some state) w))) = td_users (users_update ?Q ?seen ?db)"
    using flow resolved seen users [of "au_ID u" "au_Username u" "with_db w (users_update ?Q ?seen ?db)"]
    by (auto simp: GoogleCallback_def split: prod.split option.split)
  moreover have "?seen (?link u) \<in> set (td_users (users_update ?Q ?seen ?db))"
    using mem by (auto simp: users_update_def sql_update_def image_iff intro!: bexI [where x = u])
  ultimately show ?thesis by (intro bexI [where x = "?seen (?link u)"]) simp_all
qed

text \<open>Mallory registers Bob's address; Bob signs in with Google; Mallory logs in.\<close>

definition mallory_signup :: account_world where
  "mallory_signup =
     snd (Signup demo_accounts (Some \<lparr>su_Username = ''mallory'', su_Email = ''Bob@example.org'', su_Password = ''Secret-1'', su_Company = ''Acme Inc'',
       su_Plan = []\<rparr>) (ann_world\<lparr>aw_db := demo_users\<lparr>td_users := []\<rparr>\<rparr>))"

definition bob_google :: account_world where
  "bob_google = snd (GoogleCallback demo_accounts ''bob@example.org'' ''s'' (Some ''s'') mallory_signup)"

theorem google_login_keeps_the_password_witness:
  "as_Status (fst (Login demo_accounts ''10.0.0.1:5'' (Some (''mallory'', ''Secret-1'')) mallory_signup)) = 403
   \<and> (\<exists>u' \<in> set (td_users (aw_db bob_google)). au_Username u' = ''mallory'' \<and> au_PasswordHash u' = Some ''$Secret-1'' \<and> au_EmailVerified u')
   \<and> as_Status (fst (Login (demo_accounts\<lparr>ac_rand := Some ''r3'', ac_ids := (\<lambda>_. ''t2'')\<rparr>) ''10.0.0.1:5'' (Some (''mallory'', ''Secret-1'')) bob_google)) = 200"
proof -
  let ?gid = "\<lparr>gi_Subject = ''g1'', gi_Email = ''bob@example.org'', gi_Name = [], gi_Picture = []\<rparr>"
  let ?u = "new_user ''new admin_users'' ''mallory'' ''bob@example.org'' (Some ''$Secret-1'') ''password'' False False"
  have "FindAdminUserByEmail (ac_db demo_accounts) ''bob@example.org'' (aw_db mallory_signup) = Inr ?u" by code_simp
  moreover have users: "td_users (aw_db mallory_signup) = [?u]" by code_simp
  ultimately have "\<exists>u' \<in> set (td_users (aw_db bob_google)). au_Username u' = ''mallory'' \<and> au_PasswordHash u' = Some ''$Secret-1'' \<and> au_EmailVerified u'"
    using google_login_keeps_the_password [of demo_accounts ?gid mallory_signup ?u "''bob@example.org''" "''s''" "''s''"]
    by (auto simp: bob_google_def faultless_def demo_accounts_def demo_db_env_def new_user_def)
  moreover have "as_Status (fst (Login demo_accounts ''10.0.0.1:5'' (Some (''mallory'', ''Secret-1'')) mallory_signup)) = 403" by code_simp
  moreover have "as_Status (fst (Login (demo_accounts\<lparr>ac_rand := Some ''r3'', ac_ids := (\<lambda>_. ''t2'')\<rparr>) ''10.0.0.1:5'' (Some (''mallory'', ''Secret-1'')) bob_google)) = 200"
    by code_simp
  ultimately show ?thesis by simp
qed

section \<open>A company name that is taken\<close>

lemma insert_user_projects: "insert_user u db = (None, db') \<Longrightarrow> td_projects db' = td_projects db"
  by (auto simp: insert_user_def split: option.splits)

text \<open>
  The second company with a name cannot sign up. When the slug made from the company name is that of a live project, the
  insert of the project fails, and the retry with a longer slug is sent on the transaction that this failure has aborted: the request is never
  answered with success, and the tables stay as they were.
\<close>

theorem taken_slug_blocks_signup:
  assumes "list_ex (\<lambda>p. prj_Slug p = toSlug (su_Company req) \<and> prj_live p) (td_projects (aw_db w))"
  shows "as_Status (fst (Signup ae (Some req) w)) \<noteq> 201 \<and> aw_db (snd (Signup ae (Some req) w)) = aw_db w"
proof -
  have fails: "\<exists>e. SignupTx env ids un em pw (su_Company req) (toSlug (su_Company req)) plan h ex (aw_db w) = (Some e, aw_db w)"
    for env ids un em pw plan h ex
  proof (cases "SignupTx env ids un em pw (su_Company req) (toSlug (su_Company req)) plan h ex (aw_db w)")
    case (Pair r db')
    show ?thesis
    proof (cases r)
      case None
      with Pair obtain db1 db2 where "insert_user (new_user (ids ''admin_users'') un em (Some pw) ''password'' False False) (aw_db w) = (None, db1)"
        "signup_project env (ids ''projects'') (su_Company req) (toSlug (su_Company req)) (ids ''admin_users'') plan db1 = (None, db2)"
        unfolding SignupTx_def by (auto simp: committed simp del: tx_all.simps(2))
      then show ?thesis
        using assms insert_user_projects
        by (auto simp: signup_project_def insert_project_def tx_try_def split: if_splits option.splits prod.splits tenancy_error.splits)
    next
      case (Some e)
      then show ?thesis using Pair in_tx_Some unfolding SignupTx_def by fastforce
    qed
  qed
  have bad: "as_Status (signup_error e) \<noteq> 201" for e
    by (auto simp: signup_error_def respond_with_def internal_def split: tenancy_error.splits if_splits)
  show ?thesis
  proof (cases "Password_Validate (su_Password req) = None \<and> ac_bcrypt ae (su_Password req) \<noteq> None \<and> ac_rand ae \<noteq> None")
    case True
    then obtain hash raw where ok: "Password_Validate (su_Password req) = None" "ac_bcrypt ae (su_Password req) = Some hash" "ac_rand ae = Some raw"
      by auto
    obtain e where "SignupTx (ac_db ae) (ac_ids ae) (su_Username req) (ToLower (TrimSpace (su_Email req))) hash (su_Company req) (toSlug (su_Company req))
        (if su_Plan req = [] then ''free'' else su_Plan req) (ac_sha ae raw) (de_clock (ac_db ae) + EmailVerificationTokenTTL) (aw_db w) = (Some e, aw_db w)"
      using fails by blast
    then show ?thesis using ok bad by (simp add: Signup_def Let_def)
  next
    case False
    then show ?thesis by (auto simp: Signup_def Let_def respond_with_def internal_def split: option.split)
  qed
qed

theorem taken_slug_blocks_signup_witness:
  "as_Status (fst (Signup (demo_accounts\<lparr>ac_ids := (\<lambda>t. ''other '' @ t)\<rparr>) (Some \<lparr>su_Username = ''carol'', su_Email = ''carol@example.org'', su_Password = ''Secret-1'',
     su_Company = ''ACME, Inc.'', su_Plan = []\<rparr>) mallory_signup)) \<noteq> 201"
proof -
  have "list_ex (\<lambda>p. prj_Slug p = toSlug (su_Company \<lparr>su_Username = ''carol'', su_Email = ''carol@example.org'', su_Password = ''Secret-1'',
     su_Company = ''ACME, Inc.'', su_Plan = []\<rparr>) \<and> prj_live p) (td_projects (aw_db mallory_signup))" by code_simp
  from taken_slug_blocks_signup [OF this] show ?thesis by blast
qed

end
