(* ===== verification/Gateway_Store.thy ===== *)
theory Gateway_Store
  imports Leased_Rows
begin

text \<open>
  The table of dedicated gateways and its repository (\<^verbatim>\<open>internal/storage/gateway_repo.go\<close>,
  \<^verbatim>\<open>gateway_ingress_repo.go\<close>, \<^verbatim>\<open>gateway_ingress_queue.go\<close>, \<^verbatim>\<open>gateway_ingress_state.go\<close>,
  \<^verbatim>\<open>gateway_deprovision_repo.go\<close>): registration, draining, the provisioning queue with its leases,
  the allocator of listener-rule priorities, and the queue of deletions.
  The columns with an enumerated domain are datatypes, one constructor per value the statements use.
\<close>

datatype gateway_plan = PlanShared | PlanDedicated

datatype gateway_status = GwProvisioning | GwActive | GwFailed | GwDecommissioned | GwDraining

datatype gateway_step =
    GsNotStarted | GsContainerReady | GsCreatingTargetGroup | GsRegisteringTarget
  | GsCreatingListenerRule | GsWaitingForTargetHealth | GsCompleted | GsFailed
  | GsDeprovisioning | GsDeprovisioned

record gateway_row =
  gw_ID :: uuid
  gw_ExternalID :: string
  gw_ProjectID :: uuid
  gw_EndpointIP :: string
  gw_Port :: string
  gw_Plan :: gateway_plan
  gw_Status :: gateway_status
  gw_CreatedAt :: go_time
  gw_UpdatedAt :: go_time
  gw_DeletedAt :: "go_time option"
  gw_DrainStartedAt :: "go_time option"
  gw_PublicHost :: "string option"
  gw_PublicPort :: "string option"
  gw_HostPort :: "int option"
  gw_PublicEndpoint :: "string option"
  gw_TargetGroupARN :: "string option"
  gw_ListenerRuleARN :: "string option"
  gw_ListenerRulePriority :: "int option"
  gw_ProvisioningStatus :: gateway_step
  gw_ProvisioningError :: "string option"
  gw_RetryCount :: int
  gw_NextRetryAt :: "go_time option"
  gw_LockedAt :: "go_time option"
  gw_LockedBy :: "string option"
  gw_LeaseToken :: "uuid option"
  gw_ProvisionedAt :: "go_time option"

type_synonym gateways = "gateway_row list"

abbreviation gw_live :: "gateway_row \<Rightarrow> bool" where "gw_live r \<equiv> gw_DeletedAt r = None"

section \<open>Registration and status\<close>

definition new_gateway :: "db_env \<Rightarrow> string \<Rightarrow> uuid \<Rightarrow> gateway_plan \<Rightarrow> gateway_row" where
  "new_gateway env externalID projectID plan =
     \<lparr>gw_ID = de_uuid env, gw_ExternalID = externalID, gw_ProjectID = projectID,
      gw_EndpointIP = ''0.0.0.0'', gw_Port = ''0'', gw_Plan = plan, gw_Status = GwProvisioning,
      gw_CreatedAt = de_now env, gw_UpdatedAt = de_now env, gw_DeletedAt = None,
      gw_DrainStartedAt = None, gw_PublicHost = None, gw_PublicPort = None, gw_HostPort = None,
      gw_PublicEndpoint = None, gw_TargetGroupARN = None, gw_ListenerRuleARN = None,
      gw_ListenerRulePriority = None, gw_ProvisioningStatus = GsNotStarted,
      gw_ProvisioningError = None, gw_RetryCount = 0, gw_NextRetryAt = None, gw_LockedAt = None,
      gw_LockedBy = None, gw_LeaseToken = None, gw_ProvisionedAt = None\<rparr>"

definition Provision :: "db_env \<Rightarrow> string \<Rightarrow> uuid \<Rightarrow> gateway_plan \<Rightarrow> gateways \<Rightarrow> repo_error option \<times> gateways" where
  "Provision env externalID projectID plan t =
     (case de_fault env ''Provision gateway'' of
        Some e \<Rightarrow> (Some (SqlError ''Provision gateway'' e), t)
      | None \<Rightarrow>
          if externalID \<in> set (map gw_ExternalID t) \<or> de_uuid env \<in> set (map gw_ID t)
          then (Some (SqlError ''Provision gateway'' ''duplicate key value''), t)
          else (None, t @ [new_gateway env externalID projectID plan]))"

text \<open>
  The updates without a lease: an error of \<^verbatim>\<open>RowsAffected\<close> is dropped by these (\<^verbatim>\<open>n, _ :=\<close>), so
  a failing count reads as zero rows.
\<close>

definition exec_unchecked ::
  "db_env \<Rightarrow> string \<Rightarrow> (gateway_row \<Rightarrow> bool) \<Rightarrow> (gateway_row \<Rightarrow> gateway_row) \<Rightarrow> gateways \<Rightarrow> repo_error option \<times> gateways" where
  "exec_unchecked env stmt P f t =
     (case exec_update env stmt ''rows affected'' P f t of
        (Inl e, t') \<Rightarrow> (if de_fault env stmt \<noteq> None then (Some e, t') else (Some ErrGatewayNotFound, t'))
      | (Inr n, t') \<Rightarrow> (if n = 0 then (Some ErrGatewayNotFound, t') else (None, t')))"

definition Gateway_Register :: "db_env \<Rightarrow> string \<Rightarrow> string \<Rightarrow> string \<Rightarrow> string \<Rightarrow> string \<Rightarrow> gateways \<Rightarrow> repo_error option \<times> gateways" where
  "Gateway_Register env externalID ip port publicHost publicPort =
     exec_unchecked env ''Register gateway''
       (\<lambda>r. gw_ExternalID r = externalID \<and> gw_live r)
       (\<lambda>r. r\<lparr>gw_EndpointIP := ip, gw_Port := port, gw_PublicHost := Some publicHost,
              gw_PublicPort := Some publicPort, gw_Status := GwActive, gw_UpdatedAt := de_now env\<rparr>)"

definition UpdateStatus :: "db_env \<Rightarrow> string \<Rightarrow> gateway_status \<Rightarrow> gateways \<Rightarrow> repo_error option \<times> gateways" where
  "UpdateStatus env externalID status =
     exec_unchecked env ''UpdateStatus gateway''
       (\<lambda>r. gw_ExternalID r = externalID \<and> gw_live r)
       (\<lambda>r. r\<lparr>gw_Status := status, gw_UpdatedAt := de_now env\<rparr>)"

definition Decommission :: "db_env \<Rightarrow> string \<Rightarrow> gateways \<Rightarrow> repo_error option \<times> gateways" where
  "Decommission env externalID =
     exec_unchecked env ''Decommission gateway''
       (\<lambda>r. gw_ExternalID r = externalID \<and> gw_live r)
       (\<lambda>r. r\<lparr>gw_Status := GwDecommissioned, gw_DeletedAt := Some (de_now env),
              gw_UpdatedAt := de_now env\<rparr>)"

definition GetGatewayStatusPlatform :: "db_env \<Rightarrow> string \<Rightarrow> gateways \<Rightarrow> repo_error + gateway_status" where
  "GetGatewayStatusPlatform env externalID t =
     (case select_row env ''get gateway status platform'' (\<lambda>r. gw_ExternalID r = externalID) t of
        Inl e \<Rightarrow> Inl e
      | Inr None \<Rightarrow> Inl ErrGatewayNotFound
      | Inr (Some r) \<Rightarrow> Inr (gw_Status r))"

definition GetByExternalID :: "db_env \<Rightarrow> string \<Rightarrow> gateways \<Rightarrow> repo_error + gateway_row" where
  "GetByExternalID env externalID t =
     (case select_row env ''GetByExternalID gateway''
             (\<lambda>r. gw_ExternalID r = externalID \<and> gw_live r) t of
        Inl e \<Rightarrow> Inl e
      | Inr None \<Rightarrow> Inl ErrGatewayNotFound
      | Inr (Some r) \<Rightarrow> Inr r)"

definition ListActive :: "db_env \<Rightarrow> gateways \<Rightarrow> repo_error + gateways" where
  "ListActive env t =
     (case de_fault env ''ListActive gateways'' of
        Some e \<Rightarrow> Inl (SqlError ''ListActive gateways'' e)
      | None \<Rightarrow> Inr (sort_key gw_CreatedAt (filter (\<lambda>r. gw_Status r = GwActive \<and> gw_live r) t)))"

definition CountByStatus :: "db_env \<Rightarrow> gateways \<Rightarrow> repo_error + (gateway_status \<rightharpoonup> nat)" where
  "CountByStatus env t =
     (case de_fault env ''CountByStatus gateways'' of
        Some e \<Rightarrow> Inl (SqlError ''CountByStatus gateways'' e)
      | None \<Rightarrow> Inr (\<lambda>s. let n = length (filter (\<lambda>r. gw_live r \<and> gw_Status r = s) t)
                         in if n = 0 then None else Some n))"

text \<open>\<open>None\<close> stands for the zero \<^verbatim>\<open>time.Time{}\<close> the callers test for.\<close>

definition MarkDraining :: "db_env \<Rightarrow> string \<Rightarrow> gateways \<Rightarrow> (repo_error + go_time option) \<times> gateways" where
  "MarkDraining env externalID t =
     (case update_returning env ''MarkDraining''
             (\<lambda>r. gw_ExternalID r = externalID \<and> gw_live r \<and> gw_Status r \<notin> {GwDraining, GwDecommissioned})
             (\<lambda>r. r\<lparr>gw_Status := GwDraining,
                    gw_DrainStartedAt := Some (case gw_DrainStartedAt r of None \<Rightarrow> de_now env | Some d \<Rightarrow> d),
                    gw_UpdatedAt := de_now env\<rparr>) t of
        (Inl e, t') \<Rightarrow> (Inl e, t')
      | (Inr (Some r), t') \<Rightarrow> (Inr (gw_DrainStartedAt r), t')
      | (Inr None, t') \<Rightarrow>
          (case select_row env ''MarkDraining read fallback'' (\<lambda>r. gw_ExternalID r = externalID) t' of
             Inl e \<Rightarrow> (Inl e, t')
           | Inr None \<Rightarrow> (Inl ErrGatewayNotFound, t')
           | Inr (Some r) \<Rightarrow> (Inr (gw_DrainStartedAt r), t')))"

definition ListStaleDraining :: "db_env \<Rightarrow> go_duration \<Rightarrow> gateways \<Rightarrow> repo_error + (string \<times> go_time) list" where
  "ListStaleDraining env staleAfter t =
     (case de_fault env ''ListStaleDraining'' of
        Some e \<Rightarrow> Inl (SqlError ''ListStaleDraining'' e)
      | None \<Rightarrow>
          Inr (List.map_filter
            (\<lambda>r. if gw_Status r = GwDraining \<and> gw_live r \<and> gw_ProvisioningStatus r \<noteq> GsDeprovisioning
                 then (case gw_DrainStartedAt r of
                         None \<Rightarrow> None
                       | Some d \<Rightarrow> if d < de_now env - staleAfter then Some (gw_ExternalID r, d) else None)
                 else None) t))"

section \<open>Queueing a gateway for its ingress\<close>

text \<open>\<^verbatim>\<open>strconv.Atoi\<close> on a 64-bit platform: an optional sign and decimal digits.\<close>

definition digitsValue :: "string \<Rightarrow> int option" where
  "digitsValue s =
     (if s = [] \<or> \<not> list_all (\<lambda>c. 48 \<le> (of_char c :: int) \<and> (of_char c :: int) \<le> 57) s then None
      else Some (foldl (\<lambda>n c. 10 * n + (of_char c - 48)) 0 s))"

definition Atoi :: "string \<Rightarrow> int option" where
  "Atoi s =
     (case s of
        CHR ''-'' # ds \<Rightarrow>
          (case digitsValue ds of None \<Rightarrow> None
           | Some n \<Rightarrow> if n \<le> 2 ^ 63 then Some (- n) else None)
      | CHR ''+'' # ds \<Rightarrow>
          (case digitsValue ds of None \<Rightarrow> None
           | Some n \<Rightarrow> if n < 2 ^ 63 then Some n else None)
      | _ \<Rightarrow>
          (case digitsValue s of None \<Rightarrow> None
           | Some n \<Rightarrow> if n < 2 ^ 63 then Some n else None))"

definition ContainerReady_set ::
  "db_env \<Rightarrow> string \<Rightarrow> string \<Rightarrow> string \<Rightarrow> string \<Rightarrow> int \<Rightarrow> gateway_row \<Rightarrow> gateway_row" where
  "ContainerReady_set env endpointIP gatewayPort publicHost publicPort hostPort r =
     r\<lparr>gw_EndpointIP := endpointIP, gw_Port := gatewayPort,
       gw_PublicHost := Some publicHost, gw_PublicPort := Some publicPort,
       gw_HostPort := Some hostPort, gw_Status := GwProvisioning,
       gw_ProvisioningStatus := GsContainerReady, gw_ProvisioningError := None,
       gw_RetryCount := 0, gw_NextRetryAt := Some (de_now env),
       gw_UpdatedAt := de_now env\<rparr>"

definition MarkContainerReady ::
  "db_env \<Rightarrow> string \<Rightarrow> string \<Rightarrow> string \<Rightarrow> string \<Rightarrow> string \<Rightarrow> gateways \<Rightarrow> repo_error option \<times> gateways" where
  "MarkContainerReady env externalID endpointIP gatewayPort publicHost publicPort t =
     (case Atoi publicPort of
        None \<Rightarrow> (Some (ErrInvalidDockerHostPort publicPort), t)
      | Some hostPort \<Rightarrow>
          if hostPort < 1 \<or> hostPort > 65535 then (Some (ErrInvalidDockerHostPort publicPort), t)
          else
            (case exec_update env ''mark gateway container ready'' ''read affected gateway rows''
                    (\<lambda>r. gw_ExternalID r = externalID \<and> gw_live r)
                    (ContainerReady_set env endpointIP gatewayPort publicHost publicPort hostPort) t of
               (Inl e, t') \<Rightarrow> (Some e, t')
             | (Inr n, t') \<Rightarrow> (if n = 0 then (Some ErrGatewayNotFound, t') else (None, t'))))"

record gateway_job =
  gj_ExternalID :: string
  gj_ProjectID :: uuid
  gj_HostPort :: int
  gj_TargetGroupARN :: string
  gj_ListenerRuleARN :: string
  gj_ListenerRulePriority :: int
  gj_ProvisioningStatus :: gateway_step
  gj_RetryCount :: int
  gj_LeaseToken :: uuid

definition coalesce :: "'a option \<Rightarrow> 'a \<Rightarrow> 'a" where
  "coalesce x d = (case x of None \<Rightarrow> d | Some v \<Rightarrow> v)"

lemma coalesce_simps [simp]: "coalesce None d = d" "coalesce (Some v) d = v"
  by (simp_all add: coalesce_def)

definition gw_queued :: "gateway_row \<Rightarrow> bool" where
  "gw_queued r \<longleftrightarrow>
     gw_live r \<and>
     gw_ProvisioningStatus r \<in> {GsContainerReady, GsCreatingTargetGroup, GsRegisteringTarget,
       GsWaitingForTargetHealth, GsCreatingListenerRule, GsDeprovisioning}"

definition gw_claim_set :: "db_env \<Rightarrow> string \<Rightarrow> uuid \<Rightarrow> gateway_row \<Rightarrow> gateway_row" where
  "gw_claim_set env workerID leaseToken r =
     r\<lparr>gw_LockedAt := Some (de_now env), gw_LockedBy := Some workerID,
       gw_LeaseToken := Some leaseToken, gw_UpdatedAt := de_now env\<rparr>"

definition gw_next_job :: "db_env \<Rightarrow> go_time \<Rightarrow> gateways \<Rightarrow> gateway_row option" where
  "gw_next_job env lockExpiredBefore =
     first_by (\<lambda>r. (gw_NextRetryAt r, gw_CreatedAt r))
       (job_due gw_ExternalID gw_queued gw_NextRetryAt gw_LockedAt env lockExpiredBefore)"

definition gateway_job_of :: "uuid \<Rightarrow> gateway_row \<Rightarrow> gateway_job" where
  "gateway_job_of leaseToken r =
     \<lparr>gj_ExternalID = gw_ExternalID r, gj_ProjectID = gw_ProjectID r,
      gj_HostPort = coalesce (gw_HostPort r) 0, gj_TargetGroupARN = coalesce (gw_TargetGroupARN r) [],
      gj_ListenerRuleARN = coalesce (gw_ListenerRuleARN r) [],
      gj_ListenerRulePriority = coalesce (gw_ListenerRulePriority r) 0,
      gj_ProvisioningStatus = gw_ProvisioningStatus r, gj_RetryCount = gw_RetryCount r,
      gj_LeaseToken = leaseToken\<rparr>"

definition ClaimNextGatewayIngressJob ::
  "db_env \<Rightarrow> string \<Rightarrow> go_duration \<Rightarrow> gateways \<Rightarrow> (repo_error + gateway_job option) \<times> gateways" where
  "ClaimNextGatewayIngressJob env workerID lockTimeout0 t =
     (let lockTimeout = (if lockTimeout0 \<le> 0 then 5 * minute else lockTimeout0);
          lockExpiredBefore = de_clock env - lockTimeout;
          leaseToken = de_uuid env
      in case de_fault env ''claim next gateway ingress job'' of
           Some e \<Rightarrow> (Inl (SqlError ''claim next gateway ingress job'' e), t)
         | None \<Rightarrow>
             (case gw_next_job env lockExpiredBefore t of
                None \<Rightarrow> (Inr None, t)
              | Some r \<Rightarrow>
                  (Inr (Some (gateway_job_of leaseToken r)),
                   sql_update (\<lambda>g. gw_ExternalID g = gw_ExternalID r)
                     (gw_claim_set env workerID leaseToken) t)))"

section \<open>Updates under the lease\<close>

definition gw_leased :: "string \<Rightarrow> uuid \<Rightarrow> gateway_row \<Rightarrow> bool" where
  "gw_leased externalID leaseToken r \<longleftrightarrow>
     gw_ExternalID r = externalID \<and> gw_LeaseToken r = Some leaseToken \<and> gw_live r"

definition gw_unlock :: "db_env \<Rightarrow> gateway_row \<Rightarrow> gateway_row" where
  "gw_unlock env r =
     r\<lparr>gw_LockedAt := None, gw_LockedBy := None, gw_LeaseToken := None, gw_UpdatedAt := de_now env\<rparr>"

definition ensureGatewayIngressUpdated :: "(repo_error + nat) \<times> gateways \<Rightarrow> repo_error option \<times> gateways" where
  "ensureGatewayIngressUpdated res =
     (case res of
        (Inl e, t) \<Rightarrow> (Some e, t)
      | (Inr n, t) \<Rightarrow> (if n = 0 then (Some ErrStaleGatewayIngressLease, t) else (None, t)))"

definition gw_exec_leased ::
  "db_env \<Rightarrow> string \<Rightarrow> (gateway_row \<Rightarrow> bool) \<Rightarrow> (gateway_row \<Rightarrow> gateway_row) \<Rightarrow> gateways \<Rightarrow> repo_error option \<times> gateways" where
  "gw_exec_leased env stmt P f t =
     ensureGatewayIngressUpdated (exec_update env stmt ''read gateway update result'' P f t)"

definition TargetGroupCreated_set :: "db_env \<Rightarrow> string \<Rightarrow> gateway_row \<Rightarrow> gateway_row" where
  "TargetGroupCreated_set env targetGroupARN r =
     gw_unlock env (r\<lparr>gw_TargetGroupARN := Some targetGroupARN,
       gw_ProvisioningStatus := GsRegisteringTarget, gw_ProvisioningError := None,
       gw_NextRetryAt := Some (de_now env)\<rparr>)"

definition MarkGatewayTargetGroupCreated ::
  "db_env \<Rightarrow> string \<Rightarrow> uuid \<Rightarrow> string \<Rightarrow> gateways \<Rightarrow> repo_error option \<times> gateways" where
  "MarkGatewayTargetGroupCreated env externalID leaseToken targetGroupARN =
     gw_exec_leased env ''save gateway target group'' (gw_leased externalID leaseToken)
       (TargetGroupCreated_set env targetGroupARN)"

definition TargetRegistered_set :: "db_env \<Rightarrow> gateway_row \<Rightarrow> gateway_row" where
  "TargetRegistered_set env r =
     gw_unlock env (r\<lparr>gw_ProvisioningStatus := GsCreatingListenerRule, gw_ProvisioningError := None,
       gw_NextRetryAt := Some (de_now env)\<rparr>)"

definition MarkGatewayTargetRegistered ::
  "db_env \<Rightarrow> string \<Rightarrow> uuid \<Rightarrow> gateways \<Rightarrow> repo_error option \<times> gateways" where
  "MarkGatewayTargetRegistered env externalID leaseToken =
     gw_exec_leased env ''mark gateway target registered'' (gw_leased externalID leaseToken)
       (TargetRegistered_set env)"

definition ListenerRuleCreated_set :: "db_env \<Rightarrow> string \<Rightarrow> go_time \<Rightarrow> gateway_row \<Rightarrow> gateway_row" where
  "ListenerRuleCreated_set env ruleARN nextCheckAt r =
     gw_unlock env (r\<lparr>gw_ListenerRuleARN := Some ruleARN,
       gw_ProvisioningStatus := GsWaitingForTargetHealth, gw_ProvisioningError := None,
       gw_NextRetryAt := Some nextCheckAt\<rparr>)"

definition MarkGatewayListenerRuleCreated ::
  "db_env \<Rightarrow> string \<Rightarrow> uuid \<Rightarrow> string \<Rightarrow> go_time \<Rightarrow> gateways \<Rightarrow> repo_error option \<times> gateways" where
  "MarkGatewayListenerRuleCreated env externalID leaseToken ruleARN nextCheckAt =
     gw_exec_leased env ''save gateway listener rule'' (gw_leased externalID leaseToken)
       (ListenerRuleCreated_set env ruleARN nextCheckAt)"

definition HealthRescheduled_set :: "db_env \<Rightarrow> go_time \<Rightarrow> gateway_row \<Rightarrow> gateway_row" where
  "HealthRescheduled_set env nextCheckAt r = gw_unlock env (r\<lparr>gw_NextRetryAt := Some nextCheckAt\<rparr>)"

definition RescheduleGatewayHealthCheck ::
  "db_env \<Rightarrow> string \<Rightarrow> uuid \<Rightarrow> go_time \<Rightarrow> gateways \<Rightarrow> repo_error option \<times> gateways" where
  "RescheduleGatewayHealthCheck env externalID leaseToken nextCheckAt =
     gw_exec_leased env ''reschedule gateway health check'' (gw_leased externalID leaseToken)
       (HealthRescheduled_set env nextCheckAt)"

definition IngressActive_set :: "db_env \<Rightarrow> string \<Rightarrow> string \<Rightarrow> gateway_row \<Rightarrow> gateway_row" where
  "IngressActive_set env hostname publicEndpoint r =
     gw_unlock env (r\<lparr>gw_PublicHost := Some hostname, gw_PublicPort := Some ''443'',
       gw_PublicEndpoint := Some publicEndpoint, gw_Status := GwActive,
       gw_ProvisioningStatus := GsCompleted, gw_ProvisioningError := None, gw_NextRetryAt := None,
       gw_ProvisionedAt := Some (de_now env)\<rparr>)"

definition MarkGatewayIngressActive ::
  "db_env \<Rightarrow> string \<Rightarrow> uuid \<Rightarrow> string \<Rightarrow> string \<Rightarrow> gateways \<Rightarrow> repo_error option \<times> gateways" where
  "MarkGatewayIngressActive env externalID leaseToken hostname publicEndpoint =
     gw_exec_leased env ''mark gateway ingress active'' (gw_leased externalID leaseToken)
       (IngressActive_set env hostname publicEndpoint)"

definition IngressRetry_set :: "db_env \<Rightarrow> string \<Rightarrow> go_time \<Rightarrow> gateway_row \<Rightarrow> gateway_row" where
  "IngressRetry_set env message nextRetryAt r =
     gw_unlock env (r\<lparr>gw_RetryCount := gw_RetryCount r + 1, gw_ProvisioningError := Some message,
       gw_NextRetryAt := Some nextRetryAt\<rparr>)"

definition ScheduleGatewayIngressRetry ::
  "db_env \<Rightarrow> string \<Rightarrow> uuid \<Rightarrow> string \<Rightarrow> go_time \<Rightarrow> gateways \<Rightarrow> repo_error option \<times> gateways" where
  "ScheduleGatewayIngressRetry env externalID leaseToken message nextRetryAt =
     gw_exec_leased env ''schedule gateway ingress retry'' (gw_leased externalID leaseToken)
       (IngressRetry_set env message nextRetryAt)"

definition IngressFailed_set :: "db_env \<Rightarrow> string \<Rightarrow> gateway_row \<Rightarrow> gateway_row" where
  "IngressFailed_set env message r =
     gw_unlock env (r\<lparr>gw_Status := GwFailed, gw_ProvisioningStatus := GsFailed,
       gw_ProvisioningError := Some message, gw_NextRetryAt := None\<rparr>)"

definition MarkGatewayIngressFailed ::
  "db_env \<Rightarrow> string \<Rightarrow> uuid \<Rightarrow> string \<Rightarrow> gateways \<Rightarrow> repo_error option \<times> gateways" where
  "MarkGatewayIngressFailed env externalID leaseToken message =
     gw_exec_leased env ''mark gateway ingress failed'' (gw_leased externalID leaseToken)
       (IngressFailed_set env message)"

definition Decommissioned_where :: "string \<Rightarrow> uuid \<Rightarrow> gateway_row \<Rightarrow> bool" where
  "Decommissioned_where externalID leaseToken r \<longleftrightarrow>
     gw_ExternalID r = externalID \<and> gw_LeaseToken r = Some leaseToken
     \<and> gw_ProvisioningStatus r = GsDeprovisioning \<and> gw_live r"

definition Decommissioned_set :: "db_env \<Rightarrow> gateway_row \<Rightarrow> gateway_row" where
  "Decommissioned_set env r =
     gw_unlock env (r\<lparr>gw_Status := GwDecommissioned, gw_ProvisioningStatus := GsDeprovisioned,
       gw_ProvisioningError := None, gw_PublicHost := Some [], gw_PublicPort := Some [],
       gw_PublicEndpoint := None, gw_HostPort := None, gw_TargetGroupARN := None,
       gw_ListenerRuleARN := None, gw_ListenerRulePriority := None, gw_NextRetryAt := None,
       gw_DeletedAt := Some (de_now env)\<rparr>)"

definition MarkGatewayDecommissioned ::
  "db_env \<Rightarrow> string \<Rightarrow> uuid \<Rightarrow> gateways \<Rightarrow> repo_error option \<times> gateways" where
  "MarkGatewayDecommissioned env externalID leaseToken =
     gw_exec_leased env ''mark gateway decommissioned'' (Decommissioned_where externalID leaseToken)
       (Decommissioned_set env)"

section \<open>Allocating a listener-rule priority\<close>

text \<open>
  One transaction under an advisory lock; every error rolls it back, which leaves the table as
  it was.
\<close>

definition free_priority :: "int \<Rightarrow> int \<Rightarrow> gateways \<Rightarrow> int option" where
  "free_priority minPriority maxPriority t =
     find (\<lambda>candidate. \<not> list_ex (\<lambda>r. gw_ListenerRulePriority r = Some candidate \<and> gw_live r) t)
       [minPriority..maxPriority]"

definition Reserve_set :: "db_env \<Rightarrow> int \<Rightarrow> gateway_row \<Rightarrow> gateway_row" where
  "Reserve_set env priority r =
     r\<lparr>gw_ListenerRulePriority := Some priority, gw_UpdatedAt := de_now env\<rparr>"

definition reserve_new ::
  "db_env \<Rightarrow> string \<Rightarrow> uuid \<Rightarrow> int \<Rightarrow> int \<Rightarrow> gateways \<Rightarrow> (repo_error + int) \<times> gateways" where
  "reserve_new env externalID leaseToken minPriority maxPriority t =
     (case de_fault env ''allocate listener priority'' of
        Some e \<Rightarrow> (Inl (SqlError ''allocate listener priority'' e), t)
      | None \<Rightarrow>
          (case free_priority minPriority maxPriority t of
             None \<Rightarrow> (Inl ErrNoPriorityAvailable, t)
           | Some priority \<Rightarrow>
               (case gw_exec_leased env ''reserve listener priority'' (gw_leased externalID leaseToken)
                       (Reserve_set env priority) t of
                  (Some e, _) \<Rightarrow> (Inl e, t)
                | (None, t') \<Rightarrow>
                    (case de_fault env ''commit listener priority'' of
                       Some e \<Rightarrow> (Inl (SqlError ''commit listener priority'' e), t)
                     | None \<Rightarrow> (Inr priority, t')))))"

definition ReserveGatewayListenerRulePriority ::
  "db_env \<Rightarrow> string \<Rightarrow> uuid \<Rightarrow> int \<Rightarrow> int \<Rightarrow> gateways \<Rightarrow> (repo_error + int) \<times> gateways" where
  "ReserveGatewayListenerRulePriority env externalID leaseToken minPriority maxPriority t =
     (if minPriority < 1 \<or> maxPriority > 50000 \<or> minPriority > maxPriority
      then (Inl ErrInvalidPriorityRange, t)
      else
        (case de_fault env ''begin listener priority transaction'' of
           Some e \<Rightarrow> (Inl (SqlError ''begin listener priority transaction'' e), t)
         | None \<Rightarrow>
        (case de_fault env ''lock listener priority allocator'' of
           Some e \<Rightarrow> (Inl (SqlError ''lock listener priority allocator'' e), t)
         | None \<Rightarrow>
        (case select_row env ''read existing listener priority'' (gw_leased externalID leaseToken) t of
           Inl e \<Rightarrow> (Inl e, t)
         | Inr None \<Rightarrow> (Inl ErrStaleGatewayIngressLease, t)
         | Inr (Some r) \<Rightarrow>
             (let existingPriority = coalesce (gw_ListenerRulePriority r) 0
              in if existingPriority > 0
                 then (case de_fault env ''commit existing listener priority'' of
                         Some e \<Rightarrow> (Inl (SqlError ''commit existing listener priority'' e), t)
                       | None \<Rightarrow> (Inr existingPriority, t))
                 else reserve_new env externalID leaseToken minPriority maxPriority t)))))"

section \<open>Queueing a deletion\<close>

definition QueueDeprovisioning_where :: "string \<Rightarrow> gateway_row \<Rightarrow> bool" where
  "QueueDeprovisioning_where externalID r \<longleftrightarrow>
     gw_ExternalID r = externalID \<and> gw_live r \<and> gw_Status r \<noteq> GwDecommissioned"

definition QueueDeprovisioning_set :: "db_env \<Rightarrow> go_duration \<Rightarrow> gateway_row \<Rightarrow> gateway_row" where
  "QueueDeprovisioning_set env drainTimeout r =
     gw_unlock env (r\<lparr>gw_Status := GwDraining,
       gw_DrainStartedAt := Some (coalesce (gw_DrainStartedAt r) (de_now env)),
       gw_ProvisioningStatus := GsDeprovisioning, gw_ProvisioningError := None,
       gw_RetryCount := (if gw_ProvisioningStatus r = GsDeprovisioning then gw_RetryCount r else 0),
       gw_NextRetryAt :=
         (if gw_ProvisioningStatus r = GsDeprovisioning \<and> gw_NextRetryAt r \<noteq> None
          then gw_NextRetryAt r
          else Some (coalesce (gw_DrainStartedAt r) (de_now env) + drainTimeout))\<rparr>)"

definition QueueGatewayDeprovisioning ::
  "db_env \<Rightarrow> string \<Rightarrow> go_duration \<Rightarrow> gateways
    \<Rightarrow> (repo_error + (go_time option \<times> go_time option)) \<times> gateways" where
  "QueueGatewayDeprovisioning env externalID drainTimeout0 t =
     (let drainTimeout = (if drainTimeout0 < 0 then 0 else drainTimeout0)
      in case update_returning env ''queue gateway deprovisioning'' (QueueDeprovisioning_where externalID)
                (QueueDeprovisioning_set env drainTimeout) t of
           (Inl e, t') \<Rightarrow> (Inl e, t')
         | (Inr (Some r), t') \<Rightarrow> (Inr (gw_DrainStartedAt r, gw_NextRetryAt r), t')
         | (Inr None, t') \<Rightarrow>
             (case select_row env ''read gateway after deprovision queue failure''
                     (\<lambda>r. gw_ExternalID r = externalID) t' of
                Inl e \<Rightarrow> (Inl e, t')
              | Inr None \<Rightarrow> (Inl ErrGatewayNotFound, t')
              | Inr (Some r) \<Rightarrow>
                  (if gw_Status r = GwDecommissioned then (Inr (None, None), t')
                   else (Inl ErrGatewayNotFound, t'))))"

section \<open>The contracts\<close>

lemmas gw_set_defs = gw_unlock_def TargetGroupCreated_set_def TargetRegistered_set_def
  ListenerRuleCreated_set_def HealthRescheduled_set_def IngressActive_set_def IngressRetry_set_def
  IngressFailed_set_def Decommissioned_set_def

interpretation gwq: job_queue gw_ExternalID gw_LeaseToken gw_queued gw_NextRetryAt gw_LockedAt
  gw_CreatedAt gw_claim_set
  by unfold_locales (simp_all add: gw_claim_set_def)

interpretation gw_tg: leased_update gw_ExternalID gw_LeaseToken "gw_leased i u" "TargetGroupCreated_set env a" i u
  for i u env a
  by unfold_locales (simp_all add: gw_leased_def gw_set_defs)

interpretation gw_reg: leased_update gw_ExternalID gw_LeaseToken "gw_leased i u" "TargetRegistered_set env" i u
  for i u env
  by unfold_locales (simp_all add: gw_leased_def gw_set_defs)

interpretation gw_rule: leased_update gw_ExternalID gw_LeaseToken "gw_leased i u" "ListenerRuleCreated_set env a n" i u
  for i u env a n
  by unfold_locales (simp_all add: gw_leased_def gw_set_defs)

interpretation gw_poll: leased_update gw_ExternalID gw_LeaseToken "gw_leased i u" "HealthRescheduled_set env n" i u
  for i u env n
  by unfold_locales (simp_all add: gw_leased_def gw_set_defs)

interpretation gw_act: leased_update gw_ExternalID gw_LeaseToken "gw_leased i u" "IngressActive_set env h e" i u
  for i u env h e
  by unfold_locales (simp_all add: gw_leased_def gw_set_defs)

interpretation gw_retry: leased_update gw_ExternalID gw_LeaseToken "gw_leased i u" "IngressRetry_set env m n" i u
  for i u env m n
  by unfold_locales (simp_all add: gw_leased_def gw_set_defs)

interpretation gw_fail: leased_update gw_ExternalID gw_LeaseToken "gw_leased i u" "IngressFailed_set env m" i u
  for i u env m
  by unfold_locales (simp_all add: gw_leased_def gw_set_defs)

interpretation gw_dec: leased_update gw_ExternalID gw_LeaseToken "Decommissioned_where i u" "Decommissioned_set env" i u
  for i u env
  by unfold_locales (simp_all add: Decommissioned_where_def gw_set_defs)

section \<open>Runs of the repository\<close>

text \<open>
  Every operation that writes, in any order and with any outcome of the database. A claim that
  returns a job is labelled with the token it hands out.
\<close>

inductive gw_step :: "uuid option \<Rightarrow> gateways \<Rightarrow> gateways \<Rightarrow> bool" where
  "gw_step None t (snd (Provision env i p pl t))"
| "gw_step None t (snd (Gateway_Register env i ip po h hp t))"
| "gw_step None t (snd (UpdateStatus env i st t))"
| "gw_step None t (snd (Decommission env i t))"
| "gw_step None t (snd (MarkDraining env i t))"
| "gw_step None t (snd (MarkContainerReady env i ip po h hp t))"
| "ClaimNextGatewayIngressJob env w d t = (Inr (Some job), t') \<Longrightarrow> gw_step (Some (gj_LeaseToken job)) t t'"
| "gw_step None t (snd (MarkGatewayTargetGroupCreated env i u a t))"
| "gw_step None t (snd (MarkGatewayTargetRegistered env i u t))"
| "gw_step None t (snd (ReserveGatewayListenerRulePriority env i u lo hi t))"
| "gw_step None t (snd (MarkGatewayListenerRuleCreated env i u a n t))"
| "gw_step None t (snd (RescheduleGatewayHealthCheck env i u n t))"
| "gw_step None t (snd (MarkGatewayIngressActive env i u h e t))"
| "gw_step None t (snd (ScheduleGatewayIngressRetry env i u m n t))"
| "gw_step None t (snd (MarkGatewayIngressFailed env i u m t))"
| "gw_step None t (snd (QueueGatewayDeprovisioning env i dt t))"
| "gw_step None t (snd (MarkGatewayDecommissioned env i u t))"

text \<open>
  Almost every step is one of three kinds: nothing, a new row, or an update of some rows that keeps
  key and priority, revives nothing and hands out no lease.
\<close>

definition gw_tame :: "(gateway_row \<Rightarrow> gateway_row) \<Rightarrow> bool" where
  "gw_tame f \<longleftrightarrow> (\<forall>r. gw_ExternalID (f r) = gw_ExternalID r
     \<and> (gw_live (f r) \<longrightarrow> gw_live r \<and> gw_ListenerRulePriority (f r) = gw_ListenerRulePriority r)
     \<and> (gw_LeaseToken (f r) = None \<or> gw_LeaseToken (f r) = gw_LeaseToken r))"

definition gw_quiet_step :: "gateways \<Rightarrow> gateways \<Rightarrow> bool" where
  "gw_quiet_step t t' \<longleftrightarrow> t' = t \<or> (\<exists>P f. t' = sql_update P f t \<and> gw_tame f)"

lemma quiet_same [simp]: "gw_quiet_step t t"
  by (simp add: gw_quiet_step_def)

lemma quiet_update [simp]: "gw_tame f \<Longrightarrow> gw_quiet_step t (sql_update P f t)"
  by (auto simp: gw_quiet_step_def)

lemma exec_update_snd: "snd (exec_update env s s' P f t) \<in> {t, sql_update P f t}"
  by (simp add: exec_update_def split: option.splits)

lemma update_returning_snd: "snd (update_returning env s P f t) \<in> {t, sql_update P f t}"
  by (simp add: update_returning_def split: option.splits)

lemma quiet_exec: "gw_tame f \<Longrightarrow> gw_quiet_step t (snd (exec_update env s s' P f t))"
  using exec_update_snd [of env s s' P f t] by auto

lemma quiet_unchecked: "gw_tame f \<Longrightarrow> gw_quiet_step t (snd (exec_unchecked env s P f t))"
  using quiet_exec [of f t env s "''rows affected''" P]
  by (auto simp: exec_unchecked_def split: prod.splits sum.splits if_splits)

lemma quiet_leased: "gw_tame f \<Longrightarrow> gw_quiet_step t (snd (gw_exec_leased env s P f t))"
  using quiet_exec [of f t env s "''read gateway update result''" P]
  by (auto simp: gw_exec_leased_def ensureGatewayIngressUpdated_def split: prod.splits sum.splits if_splits)

lemma quiet_returning:
  "gw_tame f \<Longrightarrow> update_returning env s P f t = (r, t') \<Longrightarrow> gw_quiet_step t t'"
  using update_returning_snd [of env s P f t] by auto

lemmas gw_quiet = quiet_unchecked quiet_leased

lemma MarkDraining_quiet: "gw_quiet_step t (snd (MarkDraining env i t))"
  unfolding MarkDraining_def
  by (auto split: prod.splits sum.splits option.splits elim!: quiet_returning [rotated] simp: gw_tame_def)

lemma QueueDeprovisioning_tame: "gw_tame (QueueDeprovisioning_set env d)"
  unfolding gw_tame_def QueueDeprovisioning_set_def gw_unlock_def by simp

lemma QueueGatewayDeprovisioning_quiet: "gw_quiet_step t (snd (QueueGatewayDeprovisioning env i d t))"
proof -
  let ?u = "update_returning env ''queue gateway deprovisioning'' (QueueDeprovisioning_where i)
    (QueueDeprovisioning_set env (if d < 0 then 0 else d)) t"
  obtain res t' where u: "?u = (res, t')" by (cases ?u)
  then have "snd (QueueGatewayDeprovisioning env i d t) = t'"
    unfolding QueueGatewayDeprovisioning_def Let_def by (simp split: sum.split option.split)
  then show ?thesis using quiet_returning [OF QueueDeprovisioning_tame u] by simp
qed

lemma MarkContainerReady_quiet: "gw_quiet_step t (snd (MarkContainerReady env i ip po h hp t))"
proof (cases "Atoi hp")
  case (Some n)
  have "gw_tame (ContainerReady_set env ip po h hp n)"
    by (simp add: gw_tame_def ContainerReady_set_def)
  from quiet_exec [OF this, of t env "''mark gateway container ready''" "''read affected gateway rows''"]
  have "gw_quiet_step t t'" if "exec_update env ''mark gateway container ready''
      ''read affected gateway rows'' P (ContainerReady_set env ip po h hp n) t = (res, t')" for P res t'
    using that by (metis snd_conv)
  then show ?thesis
    unfolding MarkContainerReady_def Some by (auto split: prod.splits sum.splits)
qed (simp add: MarkContainerReady_def)

text \<open>What a step does to the table: it claims a job, adds a row, reserves a priority, or is quiet.\<close>

lemma gw_leased_sets_tame:
  "gw_tame (TargetGroupCreated_set env a)" "gw_tame (TargetRegistered_set env)"
  "gw_tame (ListenerRuleCreated_set env a n)" "gw_tame (HealthRescheduled_set env n)"
  "gw_tame (IngressActive_set env h e)" "gw_tame (IngressRetry_set env m n)"
  "gw_tame (IngressFailed_set env m)" "gw_tame (Decommissioned_set env)"
  by (simp_all add: gw_tame_def gw_set_defs)

lemma gw_quiet_ops:
  "gw_quiet_step t (snd (Gateway_Register env i ip po h hp t))"
  "gw_quiet_step t (snd (UpdateStatus env i st t))"
  "gw_quiet_step t (snd (Decommission env i t))"
  "gw_quiet_step t (snd (MarkGatewayTargetGroupCreated env i u a t))"
  "gw_quiet_step t (snd (MarkGatewayTargetRegistered env i u t))"
  "gw_quiet_step t (snd (MarkGatewayListenerRuleCreated env i u a n t))"
  "gw_quiet_step t (snd (RescheduleGatewayHealthCheck env i u n t))"
  "gw_quiet_step t (snd (MarkGatewayIngressActive env i u h e t))"
  "gw_quiet_step t (snd (ScheduleGatewayIngressRetry env i u m n t))"
  "gw_quiet_step t (snd (MarkGatewayIngressFailed env i u m t))"
  "gw_quiet_step t (snd (MarkGatewayDecommissioned env i u t))"
  unfolding Gateway_Register_def UpdateStatus_def Decommission_def MarkGatewayTargetGroupCreated_def
    MarkGatewayTargetRegistered_def MarkGatewayListenerRuleCreated_def RescheduleGatewayHealthCheck_def
    MarkGatewayIngressActive_def ScheduleGatewayIngressRetry_def MarkGatewayIngressFailed_def
    MarkGatewayDecommissioned_def
  by (intro quiet_unchecked quiet_leased gw_leased_sets_tame; simp add: gw_tame_def)+

lemma reserve_new_table:
  "reserve_new env i u lo hi t = (res, t') \<Longrightarrow>
     t' = t \<or> (\<exists>p. res = Inr p \<and> free_priority lo hi t = Some p \<and> t' = sql_update (gw_leased i u) (Reserve_set env p) t
                 \<and> (\<exists>r \<in> set t. gw_leased i u r))"
  unfolding reserve_new_def gw_exec_leased_def ensureGatewayIngressUpdated_def exec_update_def
  by (auto split: option.splits if_splits simp: filter_Nil_iff)

lemma Reserve_table:
  assumes "ReserveGatewayListenerRulePriority env i u lo hi t = (res, t')"
  shows "t' = t \<or> (\<exists>p. res = Inr p \<and> 1 \<le> lo \<and> hi \<le> 50000 \<and> free_priority lo hi t = Some p
           \<and> t' = sql_update (gw_leased i u) (Reserve_set env p) t \<and> (\<exists>r \<in> set t. gw_leased i u r))"
  using assms reserve_new_table [of env i u lo hi t res t']
  unfolding ReserveGatewayListenerRulePriority_def Let_def
  by (auto split: option.splits sum.splits if_splits)

lemma Reserve_holder:
  assumes "ReserveGatewayListenerRulePriority env i u lo hi t = (Inr p, t')"
  shows "\<exists>r \<in> set t'. gw_leased i u r \<and> gw_ListenerRulePriority r = Some p"
proof -
  obtain r where r: "find (gw_leased i u) t = Some r"
    and res: "t' = t \<and> coalesce (gw_ListenerRulePriority r) 0 = p \<and> p > 0
      \<or> reserve_new env i u lo hi t = (Inr p, t')"
    using assms unfolding ReserveGatewayListenerRulePriority_def Let_def select_row_def
    by (auto split: option.splits if_splits)
  have mem: "r \<in> set t" "gw_leased i u r" using find_SomeD [OF r] by blast+
  from res show ?thesis
  proof
    assume "reserve_new env i u lo hi t = (Inr p, t')"
    then have "t' = sql_update (gw_leased i u) (Reserve_set env p) t"
      unfolding reserve_new_def gw_exec_leased_def ensureGatewayIngressUpdated_def exec_update_def
      by (auto split: option.splits if_splits)
    then have "Reserve_set env p r \<in> set t'" using mem by (auto simp: in_sql_update)
    moreover have "gw_leased i u (Reserve_set env p r) \<and> gw_ListenerRulePriority (Reserve_set env p r) = Some p"
      using mem by (simp add: Reserve_set_def gw_leased_def)
    ultimately show ?thesis by blast
  qed (use mem in \<open>cases "gw_ListenerRulePriority r"; auto\<close>)
qed

lemma Claim_table:
  assumes "ClaimNextGatewayIngressJob env w d t = (Inr (Some job), t')"
  obtains r where "r \<in> set t" "gw_queued r" "gj_LeaseToken job = de_uuid env"
    "gj_ExternalID job = gw_ExternalID r"
    "t' = sql_update (\<lambda>g. gw_ExternalID g = gw_ExternalID r) (gw_claim_set env w (de_uuid env)) t"
proof -
  let ?l = "de_clock env - (if d \<le> 0 then 5 * minute else d)"
  obtain r where pick: "gw_next_job env ?l t = Some r" and job: "job = gateway_job_of (de_uuid env) r"
    and t': "t' = sql_update (\<lambda>g. gw_ExternalID g = gw_ExternalID r) (gw_claim_set env w (de_uuid env)) t"
    using assms unfolding ClaimNextGatewayIngressJob_def Let_def by (auto split: option.splits)
  have "r \<in> set t" "gw_queued r"
    using gwq.earliest_due_first(1,2) [OF pick [unfolded gw_next_job_def]] by (auto simp: job_due_def)
  then show ?thesis using that job t' by (auto simp: gateway_job_of_def)
qed

lemma gw_step_cases:
  assumes "gw_step l t t'"
  obtains (quiet) "l = None" "gw_quiet_step t t'"
  | (insert) env i p pl where "l = None" "t' = t @ [new_gateway env i p pl]" "i \<notin> set (map gw_ExternalID t)"
  | (reserve) env i u lo hi p where "l = None" "free_priority lo hi t = Some p"
      "t' = sql_update (gw_leased i u) (Reserve_set env p) t"
  | (claim) env w d job where "l = Some (gj_LeaseToken job)"
      "ClaimNextGatewayIngressJob env w d t = (Inr (Some job), t')"
  using assms
proof (cases rule: gw_step.cases)
  case (1 env i p pl)
  then show ?thesis using insert quiet(1) quiet_same
    by (auto simp: Provision_def split: option.splits if_splits)
next
  case (10 env i u lo hi)
  then show ?thesis
    using Reserve_table [of env i u lo hi t] reserve quiet(1) quiet_same by (metis prod.collapse)
qed (auto simp: gw_quiet_ops MarkDraining_quiet MarkContainerReady_quiet QueueGatewayDeprovisioning_quiet
       intro: quiet claim)

subsection \<open>Leases come from claims\<close>

lemma gw_quiet_lease:
  assumes "gw_quiet_step t t'" "r' \<in> set t'" "gw_LeaseToken r' = Some u"
  shows "\<exists>r \<in> set t. gw_ExternalID r = gw_ExternalID r' \<and> gw_LeaseToken r = Some u"
proof (cases "t' = t")
  case False
  then obtain P f where t': "t' = sql_update P f t" and f: "gw_tame f"
    using assms(1) by (auto simp: gw_quiet_step_def)
  obtain r where r: "r \<in> set t" "r' = (if P r then f r else r)"
    using assms(2) t' by (auto simp: in_sql_update)
  have "gw_ExternalID r = gw_ExternalID r' \<and> gw_LeaseToken r = Some u"
    using f [unfolded gw_tame_def, rule_format, of r] r(2) assms(3) by (cases "P r") auto
  with r(1) show ?thesis by blast
qed (use assms in auto)

lemma gw_update_lease:
  assumes "r' \<in> set (sql_update P f t)" "gw_LeaseToken r' = Some u"
    and "\<And>r. gw_ExternalID (f r) = gw_ExternalID r \<and> gw_LeaseToken (f r) = gw_LeaseToken r"
  shows "\<exists>r \<in> set t. gw_ExternalID r = gw_ExternalID r' \<and> gw_LeaseToken r = Some u"
  using assms by (auto simp: in_sql_update split: if_splits)

interpretation gwh: lease_history gw_ExternalID gw_LeaseToken gw_step
proof unfold_locales
  fix l t t' r' u
  assume step: "gw_step l t t'" and r': "r' \<in> set t'" "gw_LeaseToken r' = Some u"
  show "l = Some u \<or> (\<exists>r \<in> set t. gw_ExternalID r = gw_ExternalID r' \<and> gw_LeaseToken r = Some u)"
    using step
  proof (cases rule: gw_step_cases)
    case quiet
    then show ?thesis using gw_quiet_lease r' by blast
  next
    case insert
    then show ?thesis using r' by (auto simp: new_gateway_def)
  next
    case (reserve env i u lo hi p)
    then show ?thesis using r' gw_update_lease [of r' _ "Reserve_set env p" t] by (auto simp: Reserve_set_def)
  next
    case (claim env w d job)
    then show ?thesis using r'
      by (elim Claim_table) (auto simp: in_sql_update gw_claim_set_def split: if_splits)
  qed
qed

subsection \<open>Keys and priorities stay unique\<close>

definition gw_ok :: "gateways \<Rightarrow> bool" where
  "gw_ok t \<longleftrightarrow> distinct (map gw_ExternalID t) \<and> unique_live gw_live gw_ListenerRulePriority t"

lemma gw_ok_Nil [simp]: "gw_ok []"
  by (simp add: gw_ok_def unique_live_def)

lemma gw_ok_tame: "gw_ok t \<Longrightarrow> gw_tame f \<Longrightarrow> gw_ok (sql_update P f t)"
  unfolding gw_ok_def gw_tame_def
  by (simp add: sql_update_column unique_live_update)

lemma free_priority_Some:
  assumes "free_priority lo hi t = Some p"
  shows "lo \<le> p \<and> p \<le> hi" and "r \<in> set t \<Longrightarrow> gw_live r \<Longrightarrow> gw_ListenerRulePriority r \<noteq> Some p"
    and "lo \<le> q \<Longrightarrow> q < p \<Longrightarrow> \<exists>r \<in> set t. gw_live r \<and> gw_ListenerRulePriority r = Some q"
proof -
  obtain k where k: "k < length [lo..hi]" "[lo..hi] ! k = p"
      "\<not> list_ex (\<lambda>r. gw_ListenerRulePriority r = Some p \<and> gw_live r) t"
      "\<forall>j < k. list_ex (\<lambda>r. gw_ListenerRulePriority r = Some ([lo..hi] ! j) \<and> gw_live r) t"
    using assms unfolding free_priority_def find_Some_iff by auto
  have p: "p = lo + int k" using k(1,2) by (simp add: nth_upto)
  then show "lo \<le> p \<and> p \<le> hi" using k(1) by simp
  show "gw_ListenerRulePriority r \<noteq> Some p" if "r \<in> set t" "gw_live r"
    using k(3) that by (auto simp: list_ex_iff)
  show "\<exists>r \<in> set t. gw_live r \<and> gw_ListenerRulePriority r = Some q" if q: "lo \<le> q" "q < p"
  proof -
    have j: "nat (q - lo) < k" using q p by linarith
    have "[lo..hi] ! nat (q - lo) = q"
      using q j k(1) p by (simp add: nth_upto)
    with k(4) [rule_format, OF j] show ?thesis by (auto simp: list_ex_iff)
  qed
qed

lemma gw_ok_reserve:
  assumes ok: "gw_ok t" and free: "free_priority lo hi t = Some p"
  shows "gw_ok (sql_update (gw_leased i u) (Reserve_set env p) t)"
proof -
  have "unique_live gw_live gw_ListenerRulePriority (sql_update (gw_leased i u) (Reserve_set env p) t)"
    using ok free_priority_Some(2) [OF free]
    by (intro unique_live_assign [where ident = gw_ExternalID and i = i and v = p])
       (auto simp: gw_ok_def gw_leased_def Reserve_set_def)
  then show ?thesis
    using ok by (simp add: gw_ok_def sql_update_column Reserve_set_def)
qed

lemma gw_ok_step: "gw_step l t t' \<Longrightarrow> gw_ok t \<Longrightarrow> gw_ok t'"
proof (erule gw_step_cases)
  assume "gw_ok t" "gw_quiet_step t t'"
  then show ?thesis using gw_ok_tame by (auto simp: gw_quiet_step_def)
next
  fix env i p pl
  assume "gw_ok t" "t' = t @ [new_gateway env i p pl]" "i \<notin> set (map gw_ExternalID t)"
  then show ?thesis by (auto simp: gw_ok_def new_gateway_def intro!: unique_live_append)
next
  fix env i u lo hi p
  assume "gw_ok t" "free_priority lo hi t = Some p" "t' = sql_update (gw_leased i u) (Reserve_set env p) t"
  then show ?thesis using gw_ok_reserve by simp
next
  fix env w d job
  assume "gw_ok t" "ClaimNextGatewayIngressJob env w d t = (Inr (Some job), t')"
  then show ?thesis
    by (elim Claim_table)
       (auto simp: gw_ok_def gw_claim_set_def sql_update_column intro!: unique_live_update)
qed

lemma gw_ok_run: "lease_run gw_step us t t' \<Longrightarrow> gw_ok t \<Longrightarrow> gw_ok t'"
  by (induction rule: lease_run.induct) (auto intro: gw_ok_step)

section \<open>Properties\<close>

text \<open>
  C14. Listener-rule priorities of dedicated gateways never collide. After any run of the repository
  from an empty table, a successful reservation leaves the worker's gateway with the returned
  priority and no other live gateway has it; the priority is the one the gateway already had, or
  the smallest one of the range that no live gateway uses.
\<close>

theorem reserved_priority_is_exclusive:
  assumes run: "lease_run gw_step us [] t"
    and res: "ReserveGatewayListenerRulePriority env i u lo hi t = (Inr p, t')"
  shows "(\<exists>r \<in> set t'. gw_leased i u r \<and> gw_ListenerRulePriority r = Some p
           \<and> (\<forall>r' \<in> set t'. gw_live r' \<longrightarrow> gw_ListenerRulePriority r' = Some p \<longrightarrow> r' = r))
    \<and> (t' = t \<or> (lo \<le> p \<and> p \<le> hi \<and>
           (\<forall>q. lo \<le> q \<and> q < p \<longrightarrow> (\<exists>r \<in> set t. gw_live r \<and> gw_ListenerRulePriority r = Some q))))"
proof
  have ok: "gw_ok t" using gw_ok_run [OF run] by simp
  have "gw_step None t (snd (ReserveGatewayListenerRulePriority env i u lo hi t))"
    by (rule gw_step.intros)
  then have ok': "gw_ok t'" using gw_ok_step ok res by simp
  obtain r where r: "r \<in> set t'" "gw_leased i u r" "gw_ListenerRulePriority r = Some p"
    using Reserve_holder [OF res] by blast
  have "r' = r" if "r' \<in> set t'" "gw_live r'" "gw_ListenerRulePriority r' = Some p" for r'
  proof (rule unique_liveD [where ident = gw_ExternalID and live = gw_live and col = gw_ListenerRulePriority])
    show "unique_live gw_live gw_ListenerRulePriority t'" "distinct (map gw_ExternalID t')"
      using ok' by (simp_all add: gw_ok_def)
  qed (use that r in \<open>simp_all add: gw_leased_def\<close>)
  with r show "\<exists>r \<in> set t'. gw_leased i u r \<and> gw_ListenerRulePriority r = Some p
           \<and> (\<forall>r' \<in> set t'. gw_live r' \<longrightarrow> gw_ListenerRulePriority r' = Some p \<longrightarrow> r' = r)"
    by blast
  show "t' = t \<or> (lo \<le> p \<and> p \<le> hi \<and>
           (\<forall>q. lo \<le> q \<and> q < p \<longrightarrow> (\<exists>r \<in> set t. gw_live r \<and> gw_ListenerRulePriority r = Some q)))"
  proof (cases "t' = t")
    case False
    then have "free_priority lo hi t = Some p" using Reserve_table [OF res] by auto
    from free_priority_Some [OF this] show ?thesis by blast
  qed blast
qed

definition demo_gateway :: gateway_row where
  "demo_gateway = ContainerReady_set (quiet 1 ''u2'') ''10.0.0.1'' ''8080'' ''host'' ''31000'' 31000
     (new_gateway (quiet 0 ''u1'') ''gw_a'' ''p1'' PlanDedicated)"

definition demo_gateways :: gateways where
  "demo_gateways = [gw_claim_set (quiet 2 ''lease1'') ''w1'' ''lease1'' demo_gateway]"

lemma demo_gateways_run: "lease_run gw_step [''lease1''] [] demo_gateways"
proof -
  let ?t1 = "[new_gateway (quiet 0 ''u1'') ''gw_a'' ''p1'' PlanDedicated]"
  have "snd (Provision (quiet 0 ''u1'') ''gw_a'' ''p1'' PlanDedicated []) = ?t1"
    by (simp add: Provision_def)
  then have 1: "lease_run gw_step [] [] ?t1"
    using run_quiet [where step = gw_step, OF run_refl gw_step.intros(1)] by metis
  have port: "Atoi ''31000'' = Some 31000" by (simp add: Atoi_def digitsValue_def)
  have "snd (MarkContainerReady (quiet 1 ''u2'') ''gw_a'' ''10.0.0.1'' ''8080'' ''host'' ''31000'' ?t1) = [demo_gateway]"
    by (simp add: MarkContainerReady_def port exec_update_def sql_update_def demo_gateway_def
        ContainerReady_set_def new_gateway_def)
  then have 2: "lease_run gw_step [] [] [demo_gateway]"
    using run_quiet [where step = gw_step, OF 1 gw_step.intros(6)] by metis
  have "ClaimNextGatewayIngressJob (quiet 2 ''lease1'') ''w1'' 0 [demo_gateway]
      = (Inr (Some (gateway_job_of ''lease1'' demo_gateway)), demo_gateways)"
    by (simp add: ClaimNextGatewayIngressJob_def Let_def gw_next_job_def first_by_def job_due_def gw_queued_def
        demo_gateway_def ContainerReady_set_def new_gateway_def demo_gateways_def sql_update_def)
  from gw_step.intros(7) [OF this] have "gw_step (Some ''lease1'') [demo_gateway] demo_gateways"
    by (simp add: gateway_job_of_def)
  from run_claim [OF 2 this] show ?thesis by simp
qed

theorem reserved_priority_is_exclusive_witness:
  "\<exists>r \<in> set (snd (ReserveGatewayListenerRulePriority (quiet 3 ''u4'') ''gw_a'' ''lease1'' 100 102 demo_gateways)).
     gw_ExternalID r = ''gw_a'' \<and> gw_ListenerRulePriority r = Some 100"
proof -
  let ?res = "ReserveGatewayListenerRulePriority (quiet 3 ''u4'') ''gw_a'' ''lease1'' 100 102 demo_gateways"
  have "[100..102] = [100, 101, 102 :: int]" by (simp add: upto.simps)
  then have "?res = (Inr 100, snd ?res)"
    by (simp add: ReserveGatewayListenerRulePriority_def reserve_new_def select_row_def gw_leased_def
        free_priority_def gw_exec_leased_def ensureGatewayIngressUpdated_def exec_update_def
        demo_gateways_def gw_claim_set_def demo_gateway_def ContainerReady_set_def new_gateway_def)
  from reserved_priority_is_exclusive [OF demo_gateways_run this] show ?thesis
    by (auto simp: gw_leased_def)
qed

text \<open>The writes a worker makes under its lease, each the last one of a step of the provisioner.\<close>

definition gw_worker_writes ::
  "db_env \<Rightarrow> string \<Rightarrow> uuid \<Rightarrow> string \<Rightarrow> string \<Rightarrow> string \<Rightarrow> go_time \<Rightarrow> (gateways \<Rightarrow> repo_error option \<times> gateways) list" where
  "gw_worker_writes env i u arn hostname msg next =
     [MarkGatewayTargetGroupCreated env i u arn, MarkGatewayTargetRegistered env i u,
      MarkGatewayListenerRuleCreated env i u arn next, RescheduleGatewayHealthCheck env i u next,
      MarkGatewayIngressActive env i u hostname (''https://'' @ hostname),
      ScheduleGatewayIngressRetry env i u msg next, MarkGatewayIngressFailed env i u msg,
      MarkGatewayDecommissioned env i u]"

lemma gw_exec_leased_stale:
  "sql_update P f t = t \<Longrightarrow> filter P t = [] \<Longrightarrow>
     rejected (gw_exec_leased env s P f) t"
  by (simp add: rejected_def gw_exec_leased_def ensureGatewayIngressUpdated_def exec_update_def split: option.split)

lemma gw_worker_write_stale:
  assumes no: "\<And>r. r \<in> set t \<Longrightarrow> gw_ExternalID r = i \<Longrightarrow> gw_LeaseToken r \<noteq> Some u"
    and op: "write \<in> set (gw_worker_writes env i u arn h m n)"
  shows "rejected write t"
proof -
  note stale = gw_exec_leased_stale [OF gw_tg.no_lease_no_effect [OF no]]
    gw_exec_leased_stale [OF gw_reg.no_lease_no_effect [OF no]]
    gw_exec_leased_stale [OF gw_rule.no_lease_no_effect [OF no]]
    gw_exec_leased_stale [OF gw_poll.no_lease_no_effect [OF no]]
    gw_exec_leased_stale [OF gw_act.no_lease_no_effect [OF no]]
    gw_exec_leased_stale [OF gw_retry.no_lease_no_effect [OF no]]
    gw_exec_leased_stale [OF gw_fail.no_lease_no_effect [OF no]]
    gw_exec_leased_stale [OF gw_dec.no_lease_no_effect [OF no]]
  show ?thesis
    using op unfolding gw_worker_writes_def MarkGatewayTargetGroupCreated_def
      MarkGatewayTargetRegistered_def MarkGatewayListenerRuleCreated_def RescheduleGatewayHealthCheck_def
      MarkGatewayIngressActive_def ScheduleGatewayIngressRetry_def MarkGatewayIngressFailed_def
      MarkGatewayDecommissioned_def
    by (auto simp: stale)
qed

text \<open>
  A worker whose gateway job was claimed again by another worker can no longer write to it.
  Once a claim has handed the gateway out under a different token, whatever the repository does
  afterwards (as long as no claim draws the old token again), every write the first worker makes
  under its old lease returns an error and leaves the table unchanged.
\<close>

theorem reclaimed_gateway_rejects_old_worker:
  assumes claim: "ClaimNextGatewayIngressJob env w d t0 = (Inr (Some job), t)"
    and other: "gj_LeaseToken job \<noteq> u"
    and run: "lease_run gw_step us t t'" and fresh: "u \<notin> set us"
    and op: "write \<in> set (gw_worker_writes env' (gj_ExternalID job) u arn h m n)"
  shows "rejected write t'"
proof -
  obtain r0 where "r0 \<in> set t0" "gw_queued r0"
    and i: "gj_LeaseToken job = de_uuid env" "gj_ExternalID job = gw_ExternalID r0"
    and t: "t = sql_update (\<lambda>g. gw_ExternalID g = gw_ExternalID r0) (gw_claim_set env w (de_uuid env)) t0"
    by (rule Claim_table [OF claim])
  have "gw_LeaseToken r \<noteq> Some u" if "r \<in> set t" "gw_ExternalID r = gj_ExternalID job" for r
    using gwq.claimed_rows_hold_token [OF that(1) [unfolded t]] that(2) i other by auto
  then have "gw_LeaseToken r \<noteq> Some u" if "r \<in> set t'" "gw_ExternalID r = gj_ExternalID job" for r
    using gwh.lost_lease_stays_lost [OF run fresh _ that] by blast
  from gw_worker_write_stale [OF this op] show ?thesis .
qed

theorem reclaimed_gateway_rejects_old_worker_witness:
  "fst (MarkGatewayTargetRegistered (quiet (20 * minute) ''x'') ''gw_a'' ''lease1''
     [gw_claim_set (quiet (10 * minute) ''lease2'') ''w2'' ''lease2'' (hd demo_gateways)]) \<noteq> None"
proof -
  let ?env = "quiet (10 * minute) ''lease2''"
  let ?t = "[gw_claim_set ?env ''w2'' ''lease2'' (hd demo_gateways)]"
  have "ClaimNextGatewayIngressJob ?env ''w2'' 0 demo_gateways
      = (Inr (Some (gateway_job_of ''lease2'' (hd demo_gateways))), ?t)"
    by (simp add: ClaimNextGatewayIngressJob_def Let_def gw_next_job_def first_by_def job_due_def gw_queued_def
        demo_gateway_def ContainerReady_set_def new_gateway_def demo_gateways_def sql_update_def gw_claim_set_def)
  then have "rejected (MarkGatewayTargetRegistered (quiet (20 * minute) ''x'') ''gw_a'' ''lease1'') ?t"
  proof (rule reclaimed_gateway_rejects_old_worker [OF _ _ run_refl])
    have "gj_ExternalID (gateway_job_of ''lease2'' (hd demo_gateways)) = ''gw_a''"
      by (simp add: gateway_job_of_def demo_gateways_def gw_claim_set_def demo_gateway_def
          ContainerReady_set_def new_gateway_def)
    then show "MarkGatewayTargetRegistered (quiet (20 * minute) ''x'') ''gw_a'' ''lease1''
        \<in> set (gw_worker_writes (quiet (20 * minute) ''x'')
            (gj_ExternalID (gateway_job_of ''lease2'' (hd demo_gateways))) ''lease1'' [] [] [] 0)"
      by (simp only: gw_worker_writes_def list.set insert_iff simp_thms)
  qed (simp_all add: gateway_job_of_def)
  then show ?thesis by (simp add: rejected_def)
qed

end
