(* ===== verification/Host_Names.thy ===== *)
theory Host_Names
  imports Runtime_Loader
begin

text \<open>
  Customer host names (\<^verbatim>\<open>internal/helper/domain.go\<close>): what the control plane accepts as a custom
  domain, and how it fits the form in which a gateway looks domains up
  (\<^const>\<open>NormalizeHost\<close> of the runtime loader).
\<close>

section \<open>The validator\<close>

datatype hostname_error = ErrInvalidHostname

definition maxHostnameLength :: nat where "maxHostnameLength = 253"

definition hostnameChar :: "char \<Rightarrow> bool" where
  "hostnameChar char =
     (let n = of_char char :: nat;
          isLowercaseLetter = 97 \<le> n \<and> n \<le> 122;
          isDigit = 48 \<le> n \<and> n \<le> 57;
          isHyphen = (char = CHR ''-'')
      in \<not> (\<not> isLowercaseLetter \<and> \<not> isDigit \<and> \<not> isHyphen))"

definition validHostnameLabel :: "string \<Rightarrow> bool" where
  "validHostnameLabel label =
     (if label = [] \<or> length label > 63 then False
      else if hd label = CHR ''-'' \<or> label ! (length label - 1) = CHR ''-'' then False
      else list_all hostnameChar label)"

definition ContainsAny :: "string \<Rightarrow> string \<Rightarrow> bool" where
  "ContainsAny s chars = list_ex (\<lambda>c. c \<in> set chars) s"

definition NormalizeHostname :: "string \<Rightarrow> hostname_error + string" where
  "NormalizeHostname input =
     (let hostname = TrimSuffix (ToLower (TrimSpace input)) ''.''
      in if hostname = [] then Inl ErrInvalidHostname
         else if length hostname > maxHostnameLength then Inl ErrInvalidHostname
         else if Contains hostname ''://'' then Inl ErrInvalidHostname
         else if ContainsAny hostname ''/?#'' then Inl ErrInvalidHostname
         else if Contains hostname '':'' then Inl ErrInvalidHostname
         else if Contains hostname ''*'' then Inl ErrInvalidHostname
         else if hostname = ''localhost'' then Inl ErrInvalidHostname
         else if ParseIP hostname \<noteq> None then Inl ErrInvalidHostname
         else let labels = splitByte (CHR ''.'') hostname
              in if length labels < 3 then Inl ErrInvalidHostname
                 else if \<not> list_all validHostnameLabel labels then Inl ErrInvalidHostname
                 else Inr hostname)"

section \<open>The shape of an accepted name\<close>

lemma set_splitByte: "set s \<subseteq> insert c (\<Union> (set ` set (splitByte c s)))"
proof (induction s)
  case (Cons x xs)
  then show ?case by (cases "splitByte c xs") auto
qed simp

lemma last_splitByte: "s \<noteq> [] \<Longrightarrow> last s = c \<Longrightarrow> [] \<in> set (splitByte c s)"
  by (cases s rule: rev_cases) (simp_all add: splitByte_append_sep)

lemma hostnameChar_lower: "hostnameChar c \<Longrightarrow> lowerByte c = c"
  by (auto simp: hostnameChar_def lowerByte_def Let_def)

lemma hostnameChar_not_space: "hostnameChar c \<Longrightarrow> \<not> isSpace c"
  by (auto simp: hostnameChar_def isSpace_def Let_def)

lemma hostnameChar_special: "\<not> hostnameChar CHR '':''" "\<not> hostnameChar CHR ''[''" "\<not> hostnameChar CHR '']''"
  "\<not> hostnameChar CHR ''.''"
  by (simp_all add: hostnameChar_def)

definition canonical_host :: "string \<Rightarrow> bool" where
  "canonical_host h \<longleftrightarrow>
     h \<noteq> [] \<and> last h \<noteq> CHR ''.'' \<and> (\<forall>c \<in> set h. hostnameChar c \<or> c = CHR ''.'')"

lemma NormalizeHostname_canonical:
  assumes "NormalizeHostname s = Inr h"
  shows "canonical_host h"
proof -
  have ne: "h \<noteq> []" and labels: "\<forall>l \<in> set (splitByte (CHR ''.'') h). validHostnameLabel l"
    using assms by (auto simp: NormalizeHostname_def Let_def list_all_iff split: if_splits)
  have "l \<noteq> []" "set l \<subseteq> Collect hostnameChar" if "l \<in> set (splitByte (CHR ''.'') h)" for l
    using labels that by (auto simp: validHostnameLabel_def list_all_iff split: if_splits)
  then have "last h \<noteq> CHR ''.''" "set h \<subseteq> insert (CHR ''.'') (Collect hostnameChar)"
    using last_splitByte [OF ne] set_splitByte [of h "CHR ''.''"] by blast+
  with ne show ?thesis by (auto simp: canonical_host_def)
qed

lemma canonical_not_space: "canonical_host h \<Longrightarrow> c \<in> set h \<Longrightarrow> \<not> isSpace c"
proof -
  assume "canonical_host h" "c \<in> set h"
  moreover have "\<not> isSpace CHR ''.''" by (simp add: isSpace_def)
  ultimately show ?thesis
    unfolding canonical_host_def using hostnameChar_not_space by metis
qed

lemma canonical_ToLower: "canonical_host h \<Longrightarrow> ToLower h = h"
proof -
  assume "canonical_host h"
  moreover have "lowerByte CHR ''.'' = CHR ''.''" by (simp add: lowerByte_def)
  ultimately show ?thesis
    unfolding canonical_host_def ToLower_def using hostnameChar_lower by (intro map_idI) metis
qed

lemma canonical_no_special:
  "canonical_host h \<Longrightarrow> set h \<inter> {CHR '':'', CHR ''['', CHR '']''} = {}"
  unfolding canonical_host_def using hostnameChar_special by auto

lemma TrimSpace_no_space: "\<forall>c \<in> set s. \<not> isSpace c \<Longrightarrow> TrimSpace s = s"
  unfolding TrimSpace_def by (rule trimBy_id) (use list.set_sel(1) last_in_set in blast)

lemma canonical_TrimSuffix: "canonical_host h \<Longrightarrow> TrimSuffix h ''.'' = h"
  by (simp add: TrimSuffix_last canonical_host_def)

lemmas canonical_simps =
  canonical_ToLower canonical_TrimSuffix canonical_no_special

lemma NormalizeHost_canonical: "canonical_host h \<Longrightarrow> NormalizeHost h = h"
  using canonical_no_special [of h] canonical_not_space [of h] canonical_ToLower [of h]
  by (auto simp: NormalizeHost_def TrimSpace_no_space canonical_TrimSuffix SplitHostPort_no_colon Let_def)

lemma NormalizeHost_trailing_dot: "canonical_host h \<Longrightarrow> NormalizeHost (h @ ''.'') = h"
proof -
  assume h: "canonical_host h"
  have dot: "\<not> isSpace CHR ''.''" "lowerByte CHR ''.'' = CHR ''.''"
    by (simp_all add: isSpace_def lowerByte_def)
  have "TrimSpace (h @ ''.'') = h @ ''.''"
    using canonical_not_space [OF h] dot by (intro TrimSpace_no_space) auto
  moreover have "ToLower (h @ ''.'') = h @ ''.''"
    using canonical_ToLower [OF h] dot by (simp add: ToLower_def)
  moreover have "TrimSuffix (h @ ''.'') ''.'' = h" by (simp add: TrimSuffix_last)
  moreover have "CHR '':'' \<notin> set h" using canonical_no_special [OF h] by auto
  ultimately show ?thesis
    using h by (simp add: NormalizeHost_def SplitHostPort_no_colon canonical_TrimSuffix)
qed

definition portText :: "string \<Rightarrow> bool" where
  "portText p = list_all (\<lambda>c. 48 \<le> (of_char c :: nat) \<and> (of_char c :: nat) \<le> 57) p"

lemma NormalizeHost_with_port:
  assumes h: "canonical_host h" and p: "portText p"
  shows "NormalizeHost (h @ '':'' @ p) = h"
proof -
  have pc: "hostnameChar c" if "c \<in> set p" for c
    using p that by (auto simp: portText_def list_all_iff hostnameChar_def)
  have colon: "\<not> isSpace CHR '':''" "lowerByte CHR '':'' = CHR '':''"
    by (simp_all add: isSpace_def lowerByte_def)
  have "TrimSpace (h @ '':'' @ p) = h @ '':'' @ p"
    using canonical_not_space [OF h] hostnameChar_not_space pc colon by (intro TrimSpace_no_space) auto
  moreover have "ToLower (h @ '':'' @ p) = h @ '':'' @ p"
  proof -
    have "map lowerByte p = p" using hostnameChar_lower pc by (intro map_idI) blast
    with canonical_ToLower [OF h] colon show ?thesis by (simp add: ToLower_def)
  qed
  moreover have "TrimSuffix (h @ '':'' @ p) ''.'' = h @ '':'' @ p"
  proof -
    have "last (h @ '':'' @ p) \<noteq> CHR ''.''"
      using pc hostnameChar_special(4) by (cases p rule: rev_cases) auto
    then show ?thesis by (simp add: TrimSuffix_last)
  qed
  moreover have "SplitHostPort (h @ '':'' @ p) = Some (h, p)"
    using canonical_no_special [OF h] pc hostnameChar_special
    by (intro SplitHostPort_plain) auto
  ultimately show ?thesis
    using h by (simp add: NormalizeHost_def Let_def canonical_TrimSuffix)
qed

section \<open>Properties\<close>

text \<open>
  C13. A host name the control plane accepts is in the form the gateway looks up: normalising it
  again changes nothing, and a request for it reaches the same key of the gateway's domain map
  whether the Host header carries the bare name, the name with a trailing dot, or the name with a
  port. The accepted name has at least three labels and no upper-case letters.
\<close>

theorem accepted_hostname_is_the_lookup_key:
  assumes acc: "NormalizeHostname input = Inr h"
  shows "NormalizeHostname h = Inr h \<and> NormalizeHost h = h \<and> NormalizeHost (h @ ''.'') = h
    \<and> (portText p \<longrightarrow> NormalizeHost (h @ '':'' @ p) = h)
    \<and> ToLower h = h \<and> length (splitByte (CHR ''.'') h) \<ge> 3"
proof -
  have h: "canonical_host h" using NormalizeHostname_canonical [OF acc] .
  have "TrimSuffix (ToLower (TrimSpace h)) ''.'' = h"
    using h canonical_not_space [OF h] by (simp add: TrimSpace_no_space canonical_simps)
  then have "NormalizeHostname h = Inr h" "length (splitByte (CHR ''.'') h) \<ge> 3"
    using acc by (auto simp: NormalizeHostname_def Let_def split: if_splits)
  then show ?thesis
    using h NormalizeHost_canonical NormalizeHost_trailing_dot NormalizeHost_with_port
      canonical_ToLower by blast
qed

theorem accepted_hostname_is_the_lookup_key_witness:
  "NormalizeHostname '' API.AcmeCorp.COM. '' = Inr ''api.acmecorp.com''
   \<and> NormalizeHost ''api.acmecorp.com:8443'' = ''api.acmecorp.com''"
proof -
  have acc: "NormalizeHostname '' API.AcmeCorp.COM. '' = Inr ''api.acmecorp.com''" by code_simp
  have "portText ''8443''" by code_simp
  then have "NormalizeHost (''api.acmecorp.com'' @ '':'' @ ''8443'') = ''api.acmecorp.com''"
    using accepted_hostname_is_the_lookup_key [OF acc, of "''8443''"] by blast
  with acc show ?thesis by simp
qed

end
