(* ===== verification/Custom_Domain_Store.thy ===== *)
theory Custom_Domain_Store
  imports Gateway_Store Host_Names
begin

text \<open>
  The table of custom domains and its repository (\<^verbatim>\<open>internal/storage/custom_domain_repo.go\<close>,
  \<^verbatim>\<open>internal/domain/custom_domain.go\<close>): registration under a unique host name, verification,
  the provisioning queue with its leases, and deprovisioning.
  The three status columns are datatypes with the constants of \<^verbatim>\<open>internal/domain\<close>;
  \<open>PsEmpty\<close> is Go's zero value, which \<open>Create\<close> replaces.
\<close>

datatype domain_status =
    DsPendingVerification | DsVerified | DsPendingDNS | DsPendingCertificate | DsActive
  | DsVerificationFailed | DsCertificateFailed | DsDisabled | DsDeleting

datatype routing_status = RsPending | RsReady | RsFailed

datatype provisioning_status =
    PsEmpty | PsNotStarted | PsRequestingCertificate | PsWaitingForValidationRecord
  | PsWaitingForDNS | PsWaitingForCertificate | PsAttachingCertificate | PsCompleted | PsFailed
  | PsDeprovisioning | PsDeprovisioned | PsDeprovisionFailed

record custom_domain =
  cd_ID :: uuid
  cd_ProjectID :: uuid
  cd_Hostname :: string
  cd_Status :: domain_status
  cd_VerificationTokenHash :: string
  cd_VerificationRecordName :: string
  cd_CertificateARN :: "string option"
  cd_CertificateStatus :: "string option"
  cd_FailureReason :: "string option"
  cd_VerifiedAt :: "go_time option"
  cd_ActivatedAt :: "go_time option"
  cd_LastCheckedAt :: "go_time option"
  cd_CreatedAt :: go_time
  cd_UpdatedAt :: go_time
  cd_DeletedAt :: "go_time option"
  cd_RoutingTarget :: "string option"
  cd_RoutingStatus :: routing_status
  cd_RoutingCheckedAt :: "go_time option"
  cd_RoutingError :: "string option"
  cd_Managed :: bool
  cd_ProvisioningStatus :: provisioning_status
  cd_ValidationName :: "string option"
  cd_ValidationValue :: "string option"
  cd_CertificateRequestedAt :: "go_time option"
  cd_CertificateIssuedAt :: "go_time option"
  cd_CertificateAttachedAt :: "go_time option"
  cd_ProvisioningStartedAt :: "go_time option"
  cd_ProvisioningCompletedAt :: "go_time option"
  cd_DeprovisioningStartedAt :: "go_time option"
  cd_ProvisioningError :: "string option"
  cd_ProvisioningAttempts :: int
  cd_NextRetryAt :: "go_time option"
  cd_ListenerRuleARN :: "string option"
  cd_ListenerRulePriority :: "int option"
  cd_LockedAt :: "go_time option"
  cd_LockedBy :: "string option"
  cd_LeaseToken :: "uuid option"

type_synonym domains = "custom_domain list"

abbreviation cd_live :: "custom_domain \<Rightarrow> bool" where "cd_live r \<equiv> cd_DeletedAt r = None"

section \<open>Registration and verification\<close>

definition HostnameExists :: "db_env \<Rightarrow> string \<Rightarrow> domains \<Rightarrow> repo_error + bool" where
  "HostnameExists env hostname t =
     (case de_fault env ''check custom domain hostname'' of
        Some e \<Rightarrow> Inl (SqlError ''check custom domain hostname'' e)
      | None \<Rightarrow> Inr (list_ex (\<lambda>r. ToLower (cd_Hostname r) = ToLower hostname \<and> cd_live r) t))"

text \<open>
  The row an \<^verbatim>\<open>INSERT\<close> stores: the columns the statement does not name take their defaults.
  \<open>Create\<close> also returns the caller's struct with the defaults and times filled in.
\<close>

definition inserted_row :: "db_env \<Rightarrow> custom_domain \<Rightarrow> custom_domain" where
  "inserted_row env c =
     c\<lparr>cd_CreatedAt := de_now env, cd_UpdatedAt := de_now env, cd_DeletedAt := None,
       cd_RoutingCheckedAt := None, cd_RoutingError := None, cd_ValidationName := None,
       cd_ValidationValue := None, cd_CertificateRequestedAt := None, cd_CertificateIssuedAt := None,
       cd_CertificateAttachedAt := None, cd_ProvisioningStartedAt := None,
       cd_ProvisioningCompletedAt := None, cd_DeprovisioningStartedAt := None,
       cd_ProvisioningError := None, cd_ProvisioningAttempts := 0, cd_NextRetryAt := None,
       cd_ListenerRuleARN := None, cd_ListenerRulePriority := None, cd_LockedAt := None,
       cd_LockedBy := None, cd_LeaseToken := None\<rparr>"

definition with_defaults :: "custom_domain \<Rightarrow> custom_domain" where
  "with_defaults c =
     (let c1 = (if cd_ProvisioningStatus c = PsEmpty then c\<lparr>cd_ProvisioningStatus := PsNotStarted\<rparr> else c)
      in if cd_CertificateStatus c1 = None then c1\<lparr>cd_CertificateStatus := Some ''not_requested''\<rparr> else c1)"

definition Create :: "db_env \<Rightarrow> custom_domain \<Rightarrow> domains \<Rightarrow> (repo_error + custom_domain) \<times> domains" where
  "Create env c0 t =
     (let c = with_defaults c0
      in case de_fault env ''insert custom domain'' of
           Some e \<Rightarrow> (Inl (SqlError ''insert custom domain'' e), t)
         | None \<Rightarrow>
             if cd_RoutingTarget c = None
             then (Inl (SqlError ''insert custom domain'' ''null value in column routing_target''), t)
             else if list_ex (\<lambda>r. cd_ID r = cd_ID c) t
                \<or> list_ex (\<lambda>r. ToLower (cd_Hostname r) = ToLower (cd_Hostname c) \<and> cd_live r) t
             then (Inl ErrHostnameConflict, t)
             else (Inr (c\<lparr>cd_CreatedAt := de_now env, cd_UpdatedAt := de_now env\<rparr>),
                   t @ [inserted_row env c]))"

definition row_or :: "repo_error \<Rightarrow> repo_error + custom_domain option \<Rightarrow> repo_error + custom_domain" where
  "row_or missing res =
     (case res of Inl e \<Rightarrow> Inl e | Inr None \<Rightarrow> Inl missing | Inr (Some r) \<Rightarrow> Inr r)"

definition GetByID :: "db_env \<Rightarrow> uuid \<Rightarrow> domains \<Rightarrow> repo_error + custom_domain" where
  "GetByID env i t =
     row_or ErrCustomDomainNotFound
       (select_row env ''get custom domain by id'' (\<lambda>r. cd_ID r = i \<and> cd_live r) t)"

definition ListByProject :: "db_env \<Rightarrow> uuid \<Rightarrow> domains \<Rightarrow> repo_error + domains" where
  "ListByProject env projectID t =
     (case de_fault env ''list custom domains by project'' of
        Some e \<Rightarrow> Inl (SqlError ''list custom domains by project'' e)
      | None \<Rightarrow> Inr (sort_key (\<lambda>r. - cd_CreatedAt r) (filter (\<lambda>r. cd_ProjectID r = projectID \<and> cd_live r) t)))"

definition GetByIDForProject :: "db_env \<Rightarrow> uuid \<Rightarrow> uuid \<Rightarrow> domains \<Rightarrow> repo_error + custom_domain" where
  "GetByIDForProject env i projectID t =
     row_or ErrCustomDomainNotFound
       (select_row env ''get custom domain by id and project''
          (\<lambda>r. cd_ID r = i \<and> cd_ProjectID r = projectID \<and> cd_live r) t)"

definition cd_owned :: "uuid \<Rightarrow> uuid \<Rightarrow> custom_domain \<Rightarrow> bool" where
  "cd_owned i projectID r \<longleftrightarrow> cd_ID r = i \<and> cd_ProjectID r = projectID \<and> cd_live r"

definition MarkVerified_set :: "db_env \<Rightarrow> custom_domain \<Rightarrow> custom_domain" where
  "MarkVerified_set env r =
     r\<lparr>cd_Status := DsVerified, cd_VerifiedAt := Some (de_now env),
       cd_LastCheckedAt := Some (de_now env), cd_FailureReason := None, cd_UpdatedAt := de_now env\<rparr>"

definition MarkVerified :: "db_env \<Rightarrow> uuid \<Rightarrow> uuid \<Rightarrow> domains \<Rightarrow> (repo_error + custom_domain) \<times> domains" where
  "MarkVerified env i projectID t =
     apfst (row_or ErrCustomDomainNotFound)
       (update_returning env ''mark custom domain verified'' (cd_owned i projectID) (MarkVerified_set env) t)"

definition cd_counted ::
  "repo_error \<Rightarrow> (repo_error + nat) \<times> domains \<Rightarrow> repo_error option \<times> domains" where
  "cd_counted missing res =
     (case res of
        (Inl e, t) \<Rightarrow> (Some e, t)
      | (Inr n, t) \<Rightarrow> (if n = 0 then (Some missing, t) else (None, t)))"

definition VerificationFailure_set :: "db_env \<Rightarrow> string \<Rightarrow> custom_domain \<Rightarrow> custom_domain" where
  "VerificationFailure_set env reason r =
     r\<lparr>cd_LastCheckedAt := Some (de_now env), cd_FailureReason := Some reason, cd_UpdatedAt := de_now env\<rparr>"

definition RecordVerificationFailure ::
  "db_env \<Rightarrow> uuid \<Rightarrow> uuid \<Rightarrow> string \<Rightarrow> domains \<Rightarrow> repo_error option \<times> domains" where
  "RecordVerificationFailure env i projectID reason t =
     cd_counted ErrCustomDomainNotFound
       (exec_update env ''record custom-domain verification failure''
          ''read verification failure update count'' (cd_owned i projectID)
          (VerificationFailure_set env reason) t)"

definition SoftDelete_set :: "db_env \<Rightarrow> custom_domain \<Rightarrow> custom_domain" where
  "SoftDelete_set env r = r\<lparr>cd_DeletedAt := Some (de_now env), cd_UpdatedAt := de_now env\<rparr>"

definition SoftDelete :: "db_env \<Rightarrow> uuid \<Rightarrow> uuid \<Rightarrow> domains \<Rightarrow> repo_error option \<times> domains" where
  "SoftDelete env i projectID t =
     cd_counted ErrCustomDomainNotFound
       (exec_update env ''soft delete custom domain'' ''read soft delete rows affected''
          (cd_owned i projectID) (SoftDelete_set env) t)"

definition UpdateRoutingStatus_set ::
  "db_env \<Rightarrow> routing_status \<Rightarrow> string \<Rightarrow> string option \<Rightarrow> custom_domain \<Rightarrow> custom_domain" where
  "UpdateRoutingStatus_set env status target routingError r =
     r\<lparr>cd_RoutingStatus := status, cd_RoutingTarget := Some target,
       cd_RoutingCheckedAt := Some (de_now env), cd_RoutingError := routingError,
       cd_UpdatedAt := de_now env\<rparr>"

definition UpdateRoutingStatus ::
  "db_env \<Rightarrow> uuid \<Rightarrow> uuid \<Rightarrow> routing_status \<Rightarrow> string \<Rightarrow> string option \<Rightarrow> domains
    \<Rightarrow> (repo_error + custom_domain) \<times> domains" where
  "UpdateRoutingStatus env i projectID status target routingError t =
     apfst (row_or ErrCustomDomainNotFound)
       (update_returning env ''update custom domain routing status'' (cd_owned i projectID)
          (UpdateRoutingStatus_set env status target routingError) t)"

definition MarkActive_set :: "db_env \<Rightarrow> custom_domain \<Rightarrow> custom_domain" where
  "MarkActive_set env r =
     r\<lparr>cd_Status := DsActive, cd_ActivatedAt := Some (de_now env), cd_UpdatedAt := de_now env\<rparr>"

definition MarkActive :: "db_env \<Rightarrow> uuid \<Rightarrow> uuid \<Rightarrow> domains \<Rightarrow> (repo_error + custom_domain) \<times> domains" where
  "MarkActive env i projectID t =
     apfst (row_or ErrCustomDomainNotFound)
       (update_returning env ''mark custom domain active''
          (\<lambda>r. cd_owned i projectID r \<and> cd_Status r = DsVerified \<and> cd_RoutingStatus r = RsReady)
          (MarkActive_set env) t)"

fun domain_status_text :: "domain_status \<Rightarrow> string" where
  "domain_status_text DsPendingVerification = ''pending_verification''"
| "domain_status_text DsVerified = ''verified''"
| "domain_status_text DsPendingDNS = ''pending_dns''"
| "domain_status_text DsPendingCertificate = ''pending_certificate''"
| "domain_status_text DsActive = ''active''"
| "domain_status_text DsVerificationFailed = ''verification_failed''"
| "domain_status_text DsCertificateFailed = ''certificate_failed''"
| "domain_status_text DsDisabled = ''disabled''"
| "domain_status_text DsDeleting = ''deleting''"

fun routing_status_text :: "routing_status \<Rightarrow> string" where
  "routing_status_text RsPending = ''pending''"
| "routing_status_text RsReady = ''ready''"
| "routing_status_text RsFailed = ''failed''"

definition ListEligibleSyncDomains :: "db_env \<Rightarrow> uuid \<Rightarrow> domains \<Rightarrow> repo_error + custom_domain_sync list" where
  "ListEligibleSyncDomains env projectID t =
     (case de_fault env ''list eligible custom domains for sync'' of
        Some e \<Rightarrow> Inl (SqlError ''list eligible custom domains for sync'' e)
      | None \<Rightarrow>
          Inr (map (\<lambda>r. \<lparr>cds_Hostname = cd_Hostname r, cds_Status = domain_status_text (cd_Status r),
                         cds_RoutingStatus = routing_status_text (cd_RoutingStatus r)\<rparr>)
            (sort_key cd_CreatedAt
              (filter (\<lambda>r. cd_ProjectID r = projectID \<and> cd_live r \<and> cd_Status r = DsActive
                         \<and> cd_RoutingStatus r = RsReady) t))))"

section \<open>The provisioning queue\<close>

record advance_params =
  ap_ID :: uuid
  ap_LeaseToken :: uuid
  ap_ExpectedStatus :: provisioning_status
  ap_NewStatus :: provisioning_status
  ap_CertificateARN :: "string option"
  ap_CertificateStatus :: "string option"
  ap_Managed :: "bool option"
  ap_ValidationName :: "string option"
  ap_ValidationValue :: "string option"
  ap_CertificateRequestedAt :: "go_time option"
  ap_CertificateIssuedAt :: "go_time option"
  ap_CertificateAttachedAt :: "go_time option"
  ap_NextRetryAt :: "go_time option"

record provisioning_job =
  pj_ID :: uuid
  pj_ProjectID :: uuid
  pj_Hostname :: string
  pj_Status :: domain_status
  pj_RoutingStatus :: routing_status
  pj_ProvisioningStatus :: provisioning_status
  pj_CertificateARN :: "string option"
  pj_CertificateStatus :: "string option"
  pj_Managed :: bool
  pj_ValidationName :: "string option"
  pj_ValidationValue :: "string option"
  pj_ListenerRuleARN :: "string option"
  pj_ListenerRulePriority :: "int option"
  pj_ProvisioningAttempts :: int
  pj_NextRetryAt :: "go_time option"
  pj_ProvisioningStartedAt :: "go_time option"
  pj_LockedAt :: "go_time option"
  pj_LockedBy :: "string option"
  pj_LeaseToken :: "uuid option"
  pj_DeletedAt :: "go_time option"

definition scanProvisioningJobRow :: "custom_domain \<Rightarrow> provisioning_job" where
  "scanProvisioningJobRow r =
     \<lparr>pj_ID = cd_ID r, pj_ProjectID = cd_ProjectID r, pj_Hostname = cd_Hostname r,
      pj_Status = cd_Status r, pj_RoutingStatus = cd_RoutingStatus r,
      pj_ProvisioningStatus = cd_ProvisioningStatus r, pj_CertificateARN = cd_CertificateARN r,
      pj_CertificateStatus = cd_CertificateStatus r, pj_Managed = cd_Managed r,
      pj_ValidationName = cd_ValidationName r, pj_ValidationValue = cd_ValidationValue r,
      pj_ListenerRuleARN = cd_ListenerRuleARN r, pj_ListenerRulePriority = cd_ListenerRulePriority r,
      pj_ProvisioningAttempts = cd_ProvisioningAttempts r, pj_NextRetryAt = cd_NextRetryAt r,
      pj_ProvisioningStartedAt = cd_ProvisioningStartedAt r, pj_LockedAt = cd_LockedAt r,
      pj_LockedBy = cd_LockedBy r, pj_LeaseToken = cd_LeaseToken r, pj_DeletedAt = cd_DeletedAt r\<rparr>"

definition checkStaleOrTransitionError :: "db_env \<Rightarrow> uuid \<Rightarrow> uuid \<Rightarrow> provisioning_status \<Rightarrow> domains \<Rightarrow> repo_error" where
  "checkStaleOrTransitionError env i leaseToken expectedStatus t =
     (case select_row env ''check domain transition status'' (\<lambda>r. cd_ID r = i) t of
        Inl e \<Rightarrow> e
      | Inr None \<Rightarrow> ErrCustomDomainNotFound
      | Inr (Some r) \<Rightarrow>
          if cd_DeletedAt r \<noteq> None then ErrStaleLease
          else if cd_LeaseToken r \<noteq> Some leaseToken then ErrStaleLease
          else if cd_ProvisioningStatus r \<noteq> expectedStatus then ErrInvalidStateTransition
          else ErrStaleLease)"

definition cd_queued :: "custom_domain \<Rightarrow> bool" where
  "cd_queued r \<longleftrightarrow>
     cd_live r \<and>
     cd_ProvisioningStatus r \<in> {PsRequestingCertificate, PsWaitingForValidationRecord, PsWaitingForDNS,
       PsWaitingForCertificate, PsAttachingCertificate, PsDeprovisioning}"

definition cd_claim_set :: "db_env \<Rightarrow> string \<Rightarrow> uuid \<Rightarrow> custom_domain \<Rightarrow> custom_domain" where
  "cd_claim_set env workerID leaseToken r =
     r\<lparr>cd_LockedAt := Some (de_now env), cd_LockedBy := Some workerID,
       cd_LeaseToken := Some leaseToken, cd_UpdatedAt := de_now env\<rparr>"

definition cd_next_job :: "db_env \<Rightarrow> go_time \<Rightarrow> domains \<Rightarrow> custom_domain option" where
  "cd_next_job env lockExpiry =
     first_by (\<lambda>r. (cd_NextRetryAt r, cd_CreatedAt r))
       (job_due cd_ID cd_queued cd_NextRetryAt cd_LockedAt env lockExpiry)"

definition ClaimNextProvisioningJob ::
  "db_env \<Rightarrow> string \<Rightarrow> go_duration \<Rightarrow> domains \<Rightarrow> (repo_error + provisioning_job option) \<times> domains" where
  "ClaimNextProvisioningJob env workerID lockTimeout0 t =
     (let lockTimeout = (if lockTimeout0 \<le> 0 then 5 * minute else lockTimeout0);
          lockExpiry = de_clock env - lockTimeout;
          leaseToken = de_uuid env
      in case de_fault env ''claim next provisioning job'' of
           Some e \<Rightarrow> (Inl (SqlError ''claim next provisioning job'' e), t)
         | None \<Rightarrow>
             (case cd_next_job env lockExpiry t of
                None \<Rightarrow> (Inr None, t)
              | Some r \<Rightarrow>
                  (Inr (Some (scanProvisioningJobRow (cd_claim_set env workerID leaseToken r))),
                   sql_update (\<lambda>cd. cd_ID cd = cd_ID r) (cd_claim_set env workerID leaseToken) t)))"

definition cd_unlock :: "db_env \<Rightarrow> custom_domain \<Rightarrow> custom_domain" where
  "cd_unlock env r =
     r\<lparr>cd_LockedAt := None, cd_LockedBy := None, cd_LeaseToken := None, cd_UpdatedAt := de_now env\<rparr>"

definition cd_leased :: "uuid \<Rightarrow> uuid \<Rightarrow> provisioning_status \<Rightarrow> custom_domain \<Rightarrow> bool" where
  "cd_leased i leaseToken expectedStatus r \<longleftrightarrow>
     cd_ID r = i \<and> cd_LeaseToken r = Some leaseToken \<and> cd_ProvisioningStatus r = expectedStatus \<and> cd_live r"

text \<open>
  An update under a lease: when it touches no row, a second query finds out why.
\<close>

definition cd_exec_leased ::
  "db_env \<Rightarrow> string \<Rightarrow> string \<Rightarrow> (custom_domain \<Rightarrow> bool) \<Rightarrow> (custom_domain \<Rightarrow> custom_domain)
    \<Rightarrow> (domains \<Rightarrow> repo_error) \<Rightarrow> domains \<Rightarrow> repo_error option \<times> domains" where
  "cd_exec_leased env stmt rows P f why t =
     (case exec_update env stmt rows P f t of
        (Inl e, t') \<Rightarrow> (Some e, t')
      | (Inr n, t') \<Rightarrow> (if n = 0 then (Some (why t'), t') else (None, t')))"

definition Advance_set :: "db_env \<Rightarrow> advance_params \<Rightarrow> custom_domain \<Rightarrow> custom_domain" where
  "Advance_set env p r =
     cd_unlock env (r\<lparr>cd_ProvisioningStatus := ap_NewStatus p,
       cd_CertificateARN := (case ap_CertificateARN p of None \<Rightarrow> cd_CertificateARN r | x \<Rightarrow> x),
       cd_CertificateStatus := (case ap_CertificateStatus p of None \<Rightarrow> cd_CertificateStatus r | x \<Rightarrow> x),
       cd_Managed := coalesce (ap_Managed p) (cd_Managed r),
       cd_ValidationName := (case ap_ValidationName p of None \<Rightarrow> cd_ValidationName r | x \<Rightarrow> x),
       cd_ValidationValue := (case ap_ValidationValue p of None \<Rightarrow> cd_ValidationValue r | x \<Rightarrow> x),
       cd_CertificateRequestedAt := (case ap_CertificateRequestedAt p of None \<Rightarrow> cd_CertificateRequestedAt r | x \<Rightarrow> x),
       cd_CertificateIssuedAt := (case ap_CertificateIssuedAt p of None \<Rightarrow> cd_CertificateIssuedAt r | x \<Rightarrow> x),
       cd_CertificateAttachedAt := (case ap_CertificateAttachedAt p of None \<Rightarrow> cd_CertificateAttachedAt r | x \<Rightarrow> x),
       cd_NextRetryAt := ap_NextRetryAt p, cd_ProvisioningError := None\<rparr>)"

definition AdvanceProvisioningState :: "db_env \<Rightarrow> advance_params \<Rightarrow> domains \<Rightarrow> repo_error option \<times> domains" where
  "AdvanceProvisioningState env p =
     cd_exec_leased env ''advance provisioning state'' ''check advance provisioning state rows affected''
       (cd_leased (ap_ID p) (ap_LeaseToken p) (ap_ExpectedStatus p)) (Advance_set env p)
       (checkStaleOrTransitionError env (ap_ID p) (ap_LeaseToken p) (ap_ExpectedStatus p))"

definition Poll_set :: "db_env \<Rightarrow> go_time \<Rightarrow> custom_domain \<Rightarrow> custom_domain" where
  "Poll_set env nextPollAt r = cd_unlock env (r\<lparr>cd_NextRetryAt := Some nextPollAt\<rparr>)"

definition ScheduleProvisioningPoll ::
  "db_env \<Rightarrow> uuid \<Rightarrow> uuid \<Rightarrow> provisioning_status \<Rightarrow> go_time \<Rightarrow> domains \<Rightarrow> repo_error option \<times> domains" where
  "ScheduleProvisioningPoll env i leaseToken expectedStatus nextPollAt =
     cd_exec_leased env ''schedule provisioning poll'' ''check schedule provisioning poll rows affected''
       (cd_leased i leaseToken expectedStatus) (Poll_set env nextPollAt)
       (checkStaleOrTransitionError env i leaseToken expectedStatus)"

definition Retry_set :: "db_env \<Rightarrow> go_time \<Rightarrow> string \<Rightarrow> custom_domain \<Rightarrow> custom_domain" where
  "Retry_set env nextRetryAt provisioningError r =
     cd_unlock env (r\<lparr>cd_ProvisioningAttempts := cd_ProvisioningAttempts r + 1,
       cd_ProvisioningError := Some provisioningError, cd_NextRetryAt := Some nextRetryAt\<rparr>)"

definition ScheduleProvisioningRetry ::
  "db_env \<Rightarrow> uuid \<Rightarrow> uuid \<Rightarrow> provisioning_status \<Rightarrow> go_time \<Rightarrow> string \<Rightarrow> domains \<Rightarrow> repo_error option \<times> domains" where
  "ScheduleProvisioningRetry env i leaseToken expectedStatus nextRetryAt provisioningError =
     cd_exec_leased env ''schedule provisioning retry'' ''check schedule provisioning retry rows affected''
       (cd_leased i leaseToken expectedStatus) (Retry_set env nextRetryAt provisioningError)
       (checkStaleOrTransitionError env i leaseToken expectedStatus)"

definition Failed_set :: "db_env \<Rightarrow> string \<Rightarrow> custom_domain \<Rightarrow> custom_domain" where
  "Failed_set env provisioningError r =
     cd_unlock env (r\<lparr>cd_ProvisioningStatus := PsFailed, cd_ProvisioningError := Some provisioningError,
       cd_ProvisioningAttempts := cd_ProvisioningAttempts r + 1, cd_NextRetryAt := None\<rparr>)"

definition MarkProvisioningFailed ::
  "db_env \<Rightarrow> uuid \<Rightarrow> uuid \<Rightarrow> provisioning_status \<Rightarrow> string \<Rightarrow> domains \<Rightarrow> repo_error option \<times> domains" where
  "MarkProvisioningFailed env i leaseToken expectedStatus provisioningError =
     cd_exec_leased env ''mark provisioning failed'' ''check mark provisioning failed rows affected''
       (cd_leased i leaseToken expectedStatus) (Failed_set env provisioningError)
       (checkStaleOrTransitionError env i leaseToken expectedStatus)"

record project_gateway_ingress =
  pgi_ExternalID :: string
  pgi_TargetGroupARN :: string

text \<open>
  \<^verbatim>\<open>ORDER BY provisioned_at DESC NULLS LAST, created_at DESC\<close>: negated times, a missing one last.
\<close>

definition GetActiveProjectGatewayIngress ::
  "db_env \<Rightarrow> uuid \<Rightarrow> gateways \<Rightarrow> repo_error + project_gateway_ingress" where
  "GetActiveProjectGatewayIngress env projectID g =
     (case de_fault env ''get active project gateway ingress'' of
        Some e \<Rightarrow> Inl (SqlError ''get active project gateway ingress'' e)
      | None \<Rightarrow>
          (case first_by (\<lambda>r. (case gw_ProvisionedAt r of None \<Rightarrow> (1::int, 0) | Some p \<Rightarrow> (0, - p), - gw_CreatedAt r))
                  (\<lambda>r. gw_ProjectID r = projectID \<and> gw_live r \<and> gw_Plan r = PlanDedicated
                     \<and> gw_Status r = GwActive \<and> gw_ProvisioningStatus r = GsCompleted
                     \<and> (case gw_TargetGroupARN r of None \<Rightarrow> False | Some a \<Rightarrow> TrimByte a (CHR '' '') \<noteq> [])) g of
             None \<Rightarrow> Inl ErrProjectGatewayIngressNotReady
           | Some r \<Rightarrow> Inr \<lparr>pgi_ExternalID = gw_ExternalID r,
                             pgi_TargetGroupARN = coalesce (gw_TargetGroupARN r) []\<rparr>))"

definition Completed_set :: "db_env \<Rightarrow> string \<Rightarrow> int \<Rightarrow> custom_domain \<Rightarrow> custom_domain" where
  "Completed_set env listenerRuleARN listenerRulePriority r =
     cd_unlock env (r\<lparr>cd_Status := DsActive, cd_ProvisioningStatus := PsCompleted,
       cd_CertificateStatus := Some ''issued'',
       cd_CertificateAttachedAt := Some (coalesce (cd_CertificateAttachedAt r) (de_now env)),
       cd_ProvisioningCompletedAt := Some (de_now env),
       cd_ActivatedAt := Some (coalesce (cd_ActivatedAt r) (de_now env)),
       cd_ListenerRuleARN := Some listenerRuleARN, cd_ListenerRulePriority := Some listenerRulePriority,
       cd_ProvisioningError := None, cd_NextRetryAt := None\<rparr>)"

text \<open>
  The schema checks this update: the priority column has a range check and is unique among the
  live rows. A violation is an error of the statement.
\<close>

definition priority_violation :: "(custom_domain \<Rightarrow> bool) \<Rightarrow> int \<Rightarrow> domains \<Rightarrow> bool" where
  "priority_violation P priority t \<longleftrightarrow>
     list_ex P t \<and>
     (priority < 40001 \<or> priority > 50000
      \<or> list_ex (\<lambda>r. \<not> P r \<and> cd_live r \<and> cd_ListenerRulePriority r = Some priority) t)"

definition MarkProvisioningCompleted ::
  "db_env \<Rightarrow> uuid \<Rightarrow> uuid \<Rightarrow> string \<Rightarrow> int \<Rightarrow> domains \<Rightarrow> repo_error option \<times> domains" where
  "MarkProvisioningCompleted env i leaseToken listenerRuleARN listenerRulePriority t =
     (if de_fault env ''mark provisioning completed'' = None
         \<and> priority_violation (cd_leased i leaseToken PsAttachingCertificate) listenerRulePriority t
      then (Some (SqlError ''mark provisioning completed'' ''constraint on listener_rule_priority''), t)
      else cd_exec_leased env ''mark provisioning completed''
             ''check mark provisioning completed rows affected''
             (cd_leased i leaseToken PsAttachingCertificate)
             (Completed_set env listenerRuleARN listenerRulePriority)
             (checkStaleOrTransitionError env i leaseToken PsAttachingCertificate) t)"

text \<open>The two deprovisioning updates do not ask for a live row.\<close>

definition cd_deprovisioning :: "uuid \<Rightarrow> uuid \<Rightarrow> custom_domain \<Rightarrow> bool" where
  "cd_deprovisioning i leaseToken r \<longleftrightarrow>
     cd_ID r = i \<and> cd_LeaseToken r = Some leaseToken \<and> cd_ProvisioningStatus r = PsDeprovisioning"

definition Deprovisioned_set :: "db_env \<Rightarrow> custom_domain \<Rightarrow> custom_domain" where
  "Deprovisioned_set env r =
     cd_unlock env (r\<lparr>cd_DeletedAt := Some (de_now env), cd_ProvisioningStatus := PsDeprovisioned,
       cd_NextRetryAt := None\<rparr>)"

definition MarkDeprovisioned :: "db_env \<Rightarrow> uuid \<Rightarrow> uuid \<Rightarrow> domains \<Rightarrow> repo_error option \<times> domains" where
  "MarkDeprovisioned env i leaseToken =
     cd_exec_leased env ''mark deprovisioned'' ''check mark deprovisioned rows affected''
       (cd_deprovisioning i leaseToken) (Deprovisioned_set env)
       (checkStaleOrTransitionError env i leaseToken PsDeprovisioning)"

definition ReleaseProvisioningLease :: "db_env \<Rightarrow> uuid \<Rightarrow> uuid \<Rightarrow> domains \<Rightarrow> repo_error option \<times> domains" where
  "ReleaseProvisioningLease env i leaseToken =
     cd_exec_leased env ''release provisioning lease'' ''check release provisioning lease rows affected''
       (\<lambda>r. cd_ID r = i \<and> cd_LeaseToken r = Some leaseToken \<and> cd_live r) (cd_unlock env)
       (\<lambda>_. ErrStaleLease)"

definition Enqueue_where :: "uuid \<Rightarrow> uuid \<Rightarrow> custom_domain \<Rightarrow> bool" where
  "Enqueue_where i projectID r \<longleftrightarrow>
     cd_owned i projectID r \<and> cd_Status r = DsVerified \<and> cd_RoutingStatus r = RsReady
     \<and> cd_ProvisioningStatus r \<in> {PsNotStarted, PsFailed}"

definition restart_set :: "db_env \<Rightarrow> provisioning_status \<Rightarrow> custom_domain \<Rightarrow> custom_domain" where
  "restart_set env targetStatus r =
     cd_unlock env (r\<lparr>cd_ProvisioningStatus := targetStatus, cd_ProvisioningStartedAt := Some (de_now env),
       cd_ProvisioningAttempts := 0, cd_NextRetryAt := Some (de_now env), cd_ProvisioningError := None\<rparr>)"

definition EnqueueProvisioning :: "db_env \<Rightarrow> uuid \<Rightarrow> uuid \<Rightarrow> domains \<Rightarrow> (repo_error + custom_domain) \<times> domains" where
  "EnqueueProvisioning env i projectID t =
     (case update_returning env ''enqueue provisioning update'' (Enqueue_where i projectID)
             (restart_set env PsRequestingCertificate) t of
        (Inl e, t') \<Rightarrow> (Inl e, t')
      | (Inr (Some cd), t') \<Rightarrow> (Inr cd, t')
      | (Inr None, t') \<Rightarrow>
          (case GetByIDForProject env i projectID t' of
             Inl e \<Rightarrow> (Inl e, t')
           | Inr existing \<Rightarrow>
               if cd_Status existing \<noteq> DsVerified \<or> cd_RoutingStatus existing \<noteq> RsReady
               then (Inl ErrDomainNotEligible, t')
               else if cd_ProvisioningStatus existing \<in>
                   {PsRequestingCertificate, PsWaitingForValidationRecord, PsWaitingForDNS,
                    PsWaitingForCertificate, PsAttachingCertificate, PsCompleted}
               then (Inr existing, t')
               else (Inl ErrDomainNotEligible, t')))"

definition ResetProvisioningForRetry ::
  "db_env \<Rightarrow> uuid \<Rightarrow> uuid \<Rightarrow> provisioning_status \<Rightarrow> domains \<Rightarrow> (repo_error + custom_domain) \<times> domains" where
  "ResetProvisioningForRetry env i projectID targetStatus t =
     apfst (row_or ErrDomainNotEligibleForRetry)
       (update_returning env ''reset provisioning for retry update''
          (\<lambda>r. cd_owned i projectID r \<and> cd_ProvisioningStatus r = PsFailed)
          (restart_set env targetStatus) t)"

definition EnqueueDeprovisioning_where :: "uuid \<Rightarrow> uuid \<Rightarrow> custom_domain \<Rightarrow> bool" where
  "EnqueueDeprovisioning_where i projectID r \<longleftrightarrow>
     cd_owned i projectID r \<and> cd_ProvisioningStatus r \<notin> {PsDeprovisioning, PsDeprovisioned}"

definition EnqueueDeprovisioning_set :: "db_env \<Rightarrow> custom_domain \<Rightarrow> custom_domain" where
  "EnqueueDeprovisioning_set env r =
     cd_unlock env (r\<lparr>cd_ProvisioningStatus := PsDeprovisioning,
       cd_DeprovisioningStartedAt := Some (de_now env), cd_NextRetryAt := Some (de_now env),
       cd_ProvisioningError := None\<rparr>)"

definition EnqueueDeprovisioning :: "db_env \<Rightarrow> uuid \<Rightarrow> uuid \<Rightarrow> domains \<Rightarrow> (repo_error + custom_domain) \<times> domains" where
  "EnqueueDeprovisioning env i projectID t =
     (case update_returning env ''enqueue deprovisioning update'' (EnqueueDeprovisioning_where i projectID)
             (EnqueueDeprovisioning_set env) t of
        (Inl e, t') \<Rightarrow> (Inl e, t')
      | (Inr (Some cd), t') \<Rightarrow> (Inr cd, t')
      | (Inr None, t') \<Rightarrow>
          (case GetByIDForProject env i projectID t' of
             Inl e \<Rightarrow> (Inl e, t')
           | Inr existing \<Rightarrow>
               if cd_ProvisioningStatus existing = PsDeprovisioning
                  \<or> cd_ProvisioningStatus existing = PsDeprovisioned \<or> cd_DeletedAt existing \<noteq> None
               then (Inr existing, t')
               else (Inl ErrDomainAlreadyDeprovisioned, t')))"

definition DeprovisionFailed_set :: "db_env \<Rightarrow> string \<Rightarrow> custom_domain \<Rightarrow> custom_domain" where
  "DeprovisionFailed_set env errStr r =
     cd_unlock env (r\<lparr>cd_ProvisioningStatus := PsDeprovisionFailed, cd_ProvisioningError := Some errStr\<rparr>)"

definition MarkDeprovisionFailed :: "db_env \<Rightarrow> uuid \<Rightarrow> uuid \<Rightarrow> string \<Rightarrow> domains \<Rightarrow> repo_error option \<times> domains" where
  "MarkDeprovisionFailed env i leaseToken errStr =
     cd_exec_leased env ''mark deprovision failed'' ''check mark deprovision failed rows affected''
       (cd_deprovisioning i leaseToken) (DeprovisionFailed_set env errStr)
       (checkStaleOrTransitionError env i leaseToken PsDeprovisioning)"

definition ResetDeprovisioning_set :: "db_env \<Rightarrow> custom_domain \<Rightarrow> custom_domain" where
  "ResetDeprovisioning_set env r =
     cd_unlock env (r\<lparr>cd_ProvisioningStatus := PsDeprovisioning,
       cd_DeprovisioningStartedAt := Some (de_now env), cd_ProvisioningAttempts := 0,
       cd_NextRetryAt := Some (de_now env), cd_ProvisioningError := None\<rparr>)"

definition ResetDeprovisioningForRetry ::
  "db_env \<Rightarrow> uuid \<Rightarrow> uuid \<Rightarrow> domains \<Rightarrow> (repo_error + custom_domain) \<times> domains" where
  "ResetDeprovisioningForRetry env i projectID t =
     apfst (row_or ErrDomainNotEligibleForRetry)
       (update_returning env ''reset deprovisioning for retry update''
          (\<lambda>r. cd_owned i projectID r \<and> cd_ProvisioningStatus r = PsDeprovisionFailed)
          (ResetDeprovisioning_set env) t)"

definition GetProvisioningQueueDepth :: "db_env \<Rightarrow> domains \<Rightarrow> repo_error + (provisioning_status \<rightharpoonup> nat)" where
  "GetProvisioningQueueDepth env t =
     (case de_fault env ''query queue depth'' of
        Some e \<Rightarrow> Inl (SqlError ''query queue depth'' e)
      | None \<Rightarrow> Inr (\<lambda>s. let n = length (filter (\<lambda>r. cd_queued r \<and> cd_ProvisioningStatus r = s) t)
                         in if n = 0 then None else Some n))"

section \<open>The contracts\<close>

lemmas cd_set_defs = cd_unlock_def Advance_set_def Poll_set_def Retry_set_def Failed_set_def
  Completed_set_def Deprovisioned_set_def DeprovisionFailed_set_def

interpretation cdq: job_queue cd_ID cd_LeaseToken cd_queued cd_NextRetryAt cd_LockedAt cd_CreatedAt cd_claim_set
  by unfold_locales (simp_all add: cd_claim_set_def)

interpretation cd_adv: leased_update cd_ID cd_LeaseToken "cd_leased i u s" "Advance_set env p" i u
  for i u s env p
  by unfold_locales (simp_all add: cd_leased_def cd_set_defs)

interpretation cd_poll: leased_update cd_ID cd_LeaseToken "cd_leased i u s" "Poll_set env n" i u
  for i u s env n
  by unfold_locales (simp_all add: cd_leased_def cd_set_defs)

interpretation cd_retry: leased_update cd_ID cd_LeaseToken "cd_leased i u s" "Retry_set env n m" i u
  for i u s env n m
  by unfold_locales (simp_all add: cd_leased_def cd_set_defs)

interpretation cd_fail: leased_update cd_ID cd_LeaseToken "cd_leased i u s" "Failed_set env m" i u
  for i u s env m
  by unfold_locales (simp_all add: cd_leased_def cd_set_defs)

interpretation cd_done: leased_update cd_ID cd_LeaseToken "cd_leased i u s" "Completed_set env a p" i u
  for i u s env a p
  by unfold_locales (simp_all add: cd_leased_def cd_set_defs)

interpretation cd_dep: leased_update cd_ID cd_LeaseToken "cd_deprovisioning i u" "Deprovisioned_set env" i u
  for i u env
  by unfold_locales (simp_all add: cd_deprovisioning_def cd_set_defs)

interpretation cd_depfail: leased_update cd_ID cd_LeaseToken "cd_deprovisioning i u" "DeprovisionFailed_set env m" i u
  for i u env m
  by unfold_locales (simp_all add: cd_deprovisioning_def cd_set_defs)

interpretation cd_rel: leased_update cd_ID cd_LeaseToken
  "\<lambda>r. cd_ID r = i \<and> cd_LeaseToken r = Some u \<and> cd_live r" "cd_unlock env" i u
  for i u env
  by unfold_locales (simp_all add: cd_set_defs)

section \<open>Runs of the repository\<close>

inductive cd_step :: "uuid option \<Rightarrow> domains \<Rightarrow> domains \<Rightarrow> bool" where
  cs_create: "cd_step None t (snd (Create env c t))"
| cs_verified: "cd_step None t (snd (MarkVerified env i pr t))"
| cs_verification_failure: "cd_step None t (snd (RecordVerificationFailure env i pr m t))"
| cs_soft_delete: "cd_step None t (snd (SoftDelete env i pr t))"
| cs_routing: "cd_step None t (snd (UpdateRoutingStatus env i pr rs tg re t))"
| cs_active: "cd_step None t (snd (MarkActive env i pr t))"
| cs_claim: "ClaimNextProvisioningJob env w d t = (Inr (Some job), t') \<Longrightarrow> cd_step (pj_LeaseToken job) t t'"
| cs_advance: "cd_step None t (snd (AdvanceProvisioningState env p t))"
| cs_poll: "cd_step None t (snd (ScheduleProvisioningPoll env i u s n t))"
| cs_retry: "cd_step None t (snd (ScheduleProvisioningRetry env i u s n m t))"
| cs_failed: "cd_step None t (snd (MarkProvisioningFailed env i u s m t))"
| cs_completed: "cd_step None t (snd (MarkProvisioningCompleted env i u a q t))"
| cs_deprovisioned: "cd_step None t (snd (MarkDeprovisioned env i u t))"
| cs_release: "cd_step None t (snd (ReleaseProvisioningLease env i u t))"
| cs_enqueue: "cd_step None t (snd (EnqueueProvisioning env i pr t))"
| cs_reset: "cd_step None t (snd (ResetProvisioningForRetry env i pr s t))"
| cs_enqueue_deprovisioning: "cd_step None t (snd (EnqueueDeprovisioning env i pr t))"
| cs_deprovision_failed: "cd_step None t (snd (MarkDeprovisionFailed env i u m t))"
| cs_reset_deprovisioning: "cd_step None t (snd (ResetDeprovisioningForRetry env i pr t))"

text \<open>
  The updates other than a claim and a completion keep key, host name and priority, revive nothing
  and hand out no lease.
\<close>

definition cd_tame :: "(custom_domain \<Rightarrow> custom_domain) \<Rightarrow> bool" where
  "cd_tame f \<longleftrightarrow> (\<forall>r. cd_ID (f r) = cd_ID r \<and> cd_Hostname (f r) = cd_Hostname r
     \<and> cd_ListenerRulePriority (f r) = cd_ListenerRulePriority r \<and> (cd_live (f r) \<longrightarrow> cd_live r)
     \<and> (cd_LeaseToken (f r) = None \<or> cd_LeaseToken (f r) = cd_LeaseToken r))"

definition cd_quiet_step :: "domains \<Rightarrow> domains \<Rightarrow> bool" where
  "cd_quiet_step t t' \<longleftrightarrow> (\<exists>P f. t' = sql_update P f t \<and> cd_tame f)"

lemma cd_tame_id: "cd_tame (\<lambda>r. r)"
  by (simp add: cd_tame_def)

lemma cd_quiet_same [simp]: "cd_quiet_step t t"
  unfolding cd_quiet_step_def using cd_tame_id sql_update_none [of t "\<lambda>_. False" "\<lambda>r. r"] by metis

lemma cd_quiet_update: "cd_tame f \<Longrightarrow> cd_quiet_step t (sql_update P f t)"
  by (auto simp: cd_quiet_step_def)

lemma cd_quiet_counted: "cd_tame f \<Longrightarrow> cd_quiet_step t (snd (cd_counted m (exec_update env s s' P f t)))"
  using cd_quiet_update [of f t P]
  by (auto simp: cd_counted_def exec_update_def split: option.splits)

lemma cd_exec_leased_snd: "snd (cd_exec_leased env s s' P f why t) \<in> {t, sql_update P f t}"
  by (simp add: cd_exec_leased_def exec_update_def split: option.splits)

lemma cd_quiet_leased: "cd_tame f \<Longrightarrow> cd_quiet_step t (snd (cd_exec_leased env s s' P f why t))"
  using cd_quiet_update [of f t P] cd_exec_leased_snd [of env s s' P f why t] by auto

lemma cd_quiet_returning: "cd_tame f \<Longrightarrow> cd_quiet_step t (snd (update_returning env s P f t))"
  using cd_quiet_update [of f t P] update_returning_snd [of env s P f t] by auto

lemma cd_quiet_returning_apfst:
  "cd_tame f \<Longrightarrow> cd_quiet_step t (snd (apfst g (update_returning env s P f t)))"
  by (simp add: cd_quiet_returning)

lemma cd_sets_tame:
  "cd_tame (MarkVerified_set env)" "cd_tame (VerificationFailure_set env m)" "cd_tame (SoftDelete_set env)"
  "cd_tame (UpdateRoutingStatus_set env rs tg re)" "cd_tame (MarkActive_set env)"
  "cd_tame (Advance_set env p)" "cd_tame (Poll_set env n)" "cd_tame (Retry_set env n m)"
  "cd_tame (Failed_set env m)" "cd_tame (Deprovisioned_set env)" "cd_tame (cd_unlock env)"
  "cd_tame (restart_set env s)" "cd_tame (EnqueueDeprovisioning_set env)"
  "cd_tame (DeprovisionFailed_set env m)" "cd_tame (ResetDeprovisioning_set env)"
  unfolding cd_tame_def
  by (simp_all add: MarkVerified_set_def VerificationFailure_set_def SoftDelete_set_def
      UpdateRoutingStatus_set_def MarkActive_set_def cd_set_defs restart_set_def
      EnqueueDeprovisioning_set_def ResetDeprovisioning_set_def)

lemma enqueue_snd:
  "snd (EnqueueProvisioning env i pr t) =
     snd (update_returning env ''enqueue provisioning update'' (Enqueue_where i pr)
       (restart_set env PsRequestingCertificate) t)"
  "snd (EnqueueDeprovisioning env i pr t) =
     snd (update_returning env ''enqueue deprovisioning update'' (EnqueueDeprovisioning_where i pr)
       (EnqueueDeprovisioning_set env) t)"
  unfolding EnqueueProvisioning_def EnqueueDeprovisioning_def
  by (simp_all split: prod.split sum.split option.split)

lemma cd_quiet_ops:
  "cd_quiet_step t (snd (MarkVerified env i pr t))"
  "cd_quiet_step t (snd (RecordVerificationFailure env i pr m t))"
  "cd_quiet_step t (snd (SoftDelete env i pr t))"
  "cd_quiet_step t (snd (UpdateRoutingStatus env i pr rs tg re t))"
  "cd_quiet_step t (snd (MarkActive env i pr t))"
  "cd_quiet_step t (snd (AdvanceProvisioningState env p t))"
  "cd_quiet_step t (snd (ScheduleProvisioningPoll env i u s n t))"
  "cd_quiet_step t (snd (ScheduleProvisioningRetry env i u s n m t))"
  "cd_quiet_step t (snd (MarkProvisioningFailed env i u s m t))"
  "cd_quiet_step t (snd (MarkDeprovisioned env i u t))"
  "cd_quiet_step t (snd (ReleaseProvisioningLease env i u t))"
  "cd_quiet_step t (snd (EnqueueProvisioning env i pr t))"
  "cd_quiet_step t (snd (ResetProvisioningForRetry env i pr s t))"
  "cd_quiet_step t (snd (EnqueueDeprovisioning env i pr t))"
  "cd_quiet_step t (snd (MarkDeprovisionFailed env i u m t))"
  "cd_quiet_step t (snd (ResetDeprovisioningForRetry env i pr t))"
  unfolding MarkVerified_def RecordVerificationFailure_def SoftDelete_def UpdateRoutingStatus_def
    MarkActive_def AdvanceProvisioningState_def ScheduleProvisioningPoll_def ScheduleProvisioningRetry_def
    MarkProvisioningFailed_def MarkDeprovisioned_def ReleaseProvisioningLease_def enqueue_snd
    ResetProvisioningForRetry_def MarkDeprovisionFailed_def ResetDeprovisioningForRetry_def
  by (intro cd_quiet_counted cd_quiet_leased cd_quiet_returning cd_quiet_returning_apfst cd_sets_tame)+

lemma cd_Claim_table:
  assumes "ClaimNextProvisioningJob env w d t = (Inr (Some job), t')"
  obtains r where "cd_next_job env (de_clock env - (if d \<le> 0 then 5 * minute else d)) t = Some r"
    "job = scanProvisioningJobRow (cd_claim_set env w (de_uuid env) r)"
    "t' = sql_update (\<lambda>cd. cd_ID cd = cd_ID r) (cd_claim_set env w (de_uuid env)) t"
  using assms unfolding ClaimNextProvisioningJob_def Let_def
  by (auto split: option.splits)

lemma cd_Claim_None:
  assumes "ClaimNextProvisioningJob env w d t = (Inr None, t')"
  shows "t' = t \<and> cd_next_job env (de_clock env - (if d \<le> 0 then 5 * minute else d)) t = None"
  using assms unfolding ClaimNextProvisioningJob_def Let_def by (auto split: option.splits)

lemma cd_Claim_error:
  assumes "ClaimNextProvisioningJob env w d t = (Inl e, t')"
  shows "t' = t"
  using assms unfolding ClaimNextProvisioningJob_def Let_def by (auto split: option.splits)

lemma Create_table:
  "snd (Create env c t) = t \<or>
   (snd (Create env c t) = t @ [inserted_row env (with_defaults c)]
    \<and> cd_ID (with_defaults c) \<notin> set (map cd_ID t)
    \<and> (\<forall>r \<in> set t. cd_live r \<longrightarrow> ToLower (cd_Hostname r) \<noteq> ToLower (cd_Hostname (with_defaults c))))"
  unfolding Create_def Let_def
  by (auto simp: list_ex_iff split: option.splits)

lemma Completed_table:
  "snd (MarkProvisioningCompleted env i u a q t) = t \<or>
   (\<not> priority_violation (cd_leased i u PsAttachingCertificate) q t \<and>
    snd (MarkProvisioningCompleted env i u a q t)
      = sql_update (cd_leased i u PsAttachingCertificate) (Completed_set env a q) t)"
  unfolding MarkProvisioningCompleted_def cd_exec_leased_def exec_update_def
  by (auto split: option.splits)

lemma cd_step_cases:
  assumes "cd_step l t t'"
  obtains (quiet) "l = None" "cd_quiet_step t t'"
  | (insert) env c where "l = None" "t' = t @ [inserted_row env c]" "cd_ID c \<notin> set (map cd_ID t)"
      "\<And>r. r \<in> set t \<Longrightarrow> cd_live r \<Longrightarrow> ToLower (cd_Hostname r) \<noteq> ToLower (cd_Hostname c)"
  | (complete) env i u a q where "l = None"
      "\<not> priority_violation (cd_leased i u PsAttachingCertificate) q t"
      "t' = sql_update (cd_leased i u PsAttachingCertificate) (Completed_set env a q) t"
  | (claim) env w d job where "l = pj_LeaseToken job"
      "ClaimNextProvisioningJob env w d t = (Inr (Some job), t')"
  using assms
proof (cases rule: cd_step.cases)
  case (cs_create env c)
  then show ?thesis
    using Create_table [of env c t] quiet insert [of env "with_defaults c"] by (auto simp del: set_map)
next
  case (cs_completed env i u a q)
  then show ?thesis using Completed_table [of env i u a q t] quiet complete by auto
qed ((rule quiet; simp only: cd_quiet_ops; fail) | (rule claim; assumption; fail))+

subsection \<open>Leases come from claims\<close>

lemma cd_quiet_lease:
  assumes "cd_quiet_step t t'" "r' \<in> set t'" "cd_LeaseToken r' = Some u"
  shows "\<exists>r \<in> set t. cd_ID r = cd_ID r' \<and> cd_LeaseToken r = Some u"
proof -
  obtain P f where t': "t' = sql_update P f t" and f: "cd_tame f"
    using assms(1) by (auto simp: cd_quiet_step_def)
  obtain r where r: "r \<in> set t" "r' = (if P r then f r else r)"
    using assms(2) t' by (auto simp: in_sql_update)
  have "cd_ID r = cd_ID r' \<and> cd_LeaseToken r = Some u"
    using f [unfolded cd_tame_def, rule_format, of r] r(2) assms(3) by (cases "P r") auto
  with r(1) show ?thesis by blast
qed

interpretation cdh: lease_history cd_ID cd_LeaseToken cd_step
proof unfold_locales
  fix l t t' r' u
  assume step: "cd_step l t t'" and r': "r' \<in> set t'" "cd_LeaseToken r' = Some u"
  show "l = Some u \<or> (\<exists>r \<in> set t. cd_ID r = cd_ID r' \<and> cd_LeaseToken r = Some u)"
    using step
  proof (cases rule: cd_step_cases)
    case quiet
    then show ?thesis using cd_quiet_lease r' by blast
  next
    case insert
    then show ?thesis using r' by (auto simp: inserted_row_def)
  next
    case (complete env i u a q)
    then show ?thesis using r' cd_done.gives_no_lease by blast
  next
    case (claim env w d job)
    obtain r where job: "job = scanProvisioningJobRow (cd_claim_set env w (de_uuid env) r)"
      and t': "t' = sql_update (\<lambda>cd. cd_ID cd = cd_ID r) (cd_claim_set env w (de_uuid env)) t"
      using cd_Claim_table [OF claim(2)] by blast
    have "pj_LeaseToken job = Some (de_uuid env)"
      by (simp add: job scanProvisioningJobRow_def cd_claim_set_def)
    then show ?thesis using r' claim(1) t'
      by (auto simp: in_sql_update cd_claim_set_def split: if_splits)
  qed
qed

subsection \<open>Keys, host names and priorities stay unique\<close>

definition hostname_key :: "custom_domain \<Rightarrow> string option" where
  "hostname_key r = Some (ToLower (cd_Hostname r))"

definition priority_ok :: "custom_domain \<Rightarrow> bool" where
  "priority_ok r \<longleftrightarrow> (\<forall>q. cd_ListenerRulePriority r = Some q \<longrightarrow> 40001 \<le> q \<and> q \<le> 50000)"

definition cd_ok :: "domains \<Rightarrow> bool" where
  "cd_ok t \<longleftrightarrow> distinct (map cd_ID t) \<and> unique_live cd_live hostname_key t
     \<and> unique_live cd_live cd_ListenerRulePriority t \<and> list_all priority_ok t"

lemma cd_ok_Nil [simp]: "cd_ok []"
  by (simp add: cd_ok_def unique_live_def)

lemma list_all_update: "list_all Q t \<Longrightarrow> (\<And>r. Q r \<Longrightarrow> P r \<Longrightarrow> Q (f r)) \<Longrightarrow> list_all Q (sql_update P f t)"
  by (auto simp: list_all_iff in_sql_update)

lemma cd_ok_keep:
  assumes ok: "cd_ok t"
    and keep: "\<And>r. cd_ID (f r) = cd_ID r \<and> cd_Hostname (f r) = cd_Hostname r
      \<and> cd_ListenerRulePriority (f r) = cd_ListenerRulePriority r \<and> (cd_live (f r) \<longrightarrow> cd_live r)"
  shows "cd_ok (sql_update P f t)"
proof -
  have "list_all priority_ok (sql_update P f t)"
    using ok keep by (intro list_all_update) (simp_all add: cd_ok_def priority_ok_def)
  moreover have "unique_live cd_live hostname_key (sql_update P f t)"
      "unique_live cd_live cd_ListenerRulePriority (sql_update P f t)"
    using ok keep by (auto simp: cd_ok_def hostname_key_def intro!: unique_live_update)
  moreover have "map cd_ID (sql_update P f t) = map cd_ID t"
    using keep by (intro sql_update_column) blast
  ultimately show ?thesis using ok by (simp add: cd_ok_def)
qed

lemma cd_ok_tame: "cd_ok t \<Longrightarrow> cd_tame f \<Longrightarrow> cd_ok (sql_update P f t)"
  by (rule cd_ok_keep) (auto simp: cd_tame_def)

lemma cd_ok_insert:
  assumes "cd_ok t" "cd_ID c \<notin> set (map cd_ID t)"
    and "\<And>r. r \<in> set t \<Longrightarrow> cd_live r \<Longrightarrow> ToLower (cd_Hostname r) \<noteq> ToLower (cd_Hostname c)"
  shows "cd_ok (t @ [inserted_row env c])"
proof -
  have "unique_live cd_live hostname_key (t @ [inserted_row env c])"
    using assms by (intro unique_live_append) (auto simp: cd_ok_def hostname_key_def inserted_row_def)
  moreover have "unique_live cd_live cd_ListenerRulePriority (t @ [inserted_row env c])"
    using assms(1) by (intro unique_live_append) (auto simp: cd_ok_def inserted_row_def)
  ultimately show ?thesis
    using assms(1,2) by (simp add: cd_ok_def inserted_row_def priority_ok_def)
qed

lemma cd_ok_complete:
  assumes ok: "cd_ok t" and free: "\<not> priority_violation (cd_leased i u s) q t"
  shows "cd_ok (sql_update (cd_leased i u s) (Completed_set env a q) t)"
proof (cases "list_ex (cd_leased i u s) t")
  case True
  then have q: "40001 \<le> q" "q \<le> 50000"
    and other: "\<And>r. r \<in> set t \<Longrightarrow> cd_live r \<Longrightarrow> \<not> cd_leased i u s r \<Longrightarrow> cd_ListenerRulePriority r \<noteq> Some q"
    using free by (auto simp: priority_violation_def list_ex_iff)
  have "unique_live cd_live cd_ListenerRulePriority (sql_update (cd_leased i u s) (Completed_set env a q) t)"
    using ok other
    by (intro unique_live_assign [where ident = cd_ID and i = i and v = q])
       (auto simp: cd_ok_def cd_leased_def Completed_set_def cd_unlock_def)
  moreover have "unique_live cd_live hostname_key (sql_update (cd_leased i u s) (Completed_set env a q) t)"
    using ok by (intro unique_live_update) (auto simp: cd_ok_def hostname_key_def Completed_set_def cd_unlock_def)
  moreover have "list_all priority_ok (sql_update (cd_leased i u s) (Completed_set env a q) t)"
    using ok q by (intro list_all_update) (auto simp: cd_ok_def priority_ok_def Completed_set_def cd_unlock_def)
  ultimately show ?thesis
    using ok cd_done.keeps_idents by (simp add: cd_ok_def)
next
  case False
  then show ?thesis using ok by (simp add: sql_update_none list_ex_iff)
qed

lemma cd_ok_claim: "cd_ok t \<Longrightarrow> cd_ok (sql_update P (cd_claim_set env w u) t)"
  by (rule cd_ok_keep) (auto simp: cd_claim_set_def)

lemma cd_ok_step: "cd_step l t t' \<Longrightarrow> cd_ok t \<Longrightarrow> cd_ok t'"
proof (erule cd_step_cases)
  assume "cd_ok t" "cd_quiet_step t t'"
  then show ?thesis using cd_ok_tame by (auto simp: cd_quiet_step_def)
next
  fix env w d job
  assume "cd_ok t" "ClaimNextProvisioningJob env w d t = (Inr (Some job), t')"
  then show ?thesis using cd_ok_claim by (elim cd_Claim_table) simp
qed (use cd_ok_insert cd_ok_complete in blast)+

lemma cd_ok_run: "lease_run cd_step us t t' \<Longrightarrow> cd_ok t \<Longrightarrow> cd_ok t'"
  by (induction rule: lease_run.induct) (auto intro: cd_ok_step)

section \<open>Properties\<close>

text \<open>An example row, as the service registers it.\<close>

definition demo_domain :: "uuid \<Rightarrow> string \<Rightarrow> custom_domain" where
  "demo_domain i h =
     \<lparr>cd_ID = i, cd_ProjectID = ''p1'', cd_Hostname = h, cd_Status = DsPendingVerification,
      cd_VerificationTokenHash = ''hash'', cd_VerificationRecordName = ''_elitegate.'' @ h,
      cd_CertificateARN = None, cd_CertificateStatus = None, cd_FailureReason = None,
      cd_VerifiedAt = None, cd_ActivatedAt = None, cd_LastCheckedAt = None, cd_CreatedAt = 0,
      cd_UpdatedAt = 0, cd_DeletedAt = None, cd_RoutingTarget = Some ''gw.example.com'',
      cd_RoutingStatus = RsPending, cd_RoutingCheckedAt = None, cd_RoutingError = None,
      cd_Managed = False, cd_ProvisioningStatus = PsEmpty, cd_ValidationName = None,
      cd_ValidationValue = None, cd_CertificateRequestedAt = None, cd_CertificateIssuedAt = None,
      cd_CertificateAttachedAt = None, cd_ProvisioningStartedAt = None,
      cd_ProvisioningCompletedAt = None, cd_DeprovisioningStartedAt = None,
      cd_ProvisioningError = None, cd_ProvisioningAttempts = 0, cd_NextRetryAt = None,
      cd_ListenerRuleARN = None, cd_ListenerRulePriority = None, cd_LockedAt = None,
      cd_LockedBy = None, cd_LeaseToken = None\<rparr>"



text \<open>
  Claiming a job. A claim that finds a job returns a row that was due: live, in a state of the
  provisioning queue, past its retry time, not locked by another transaction, and unleased or
  with a lease older than the lock timeout; no other due row comes earlier by retry time (missing
  first), then by creation time. It stamps that row, and only that row, with the worker's fresh
  token. A claim that finds nothing found no due row.
\<close>

definition claim_due :: "db_env \<Rightarrow> go_duration \<Rightarrow> custom_domain \<Rightarrow> bool" where
  "claim_due env lockTimeout r \<longleftrightarrow>
     cd_queued r \<and> (\<forall>n. cd_NextRetryAt r = Some n \<longrightarrow> n \<le> de_now env)
     \<and> (\<forall>l. cd_LockedAt r = Some l \<longrightarrow> l \<le> de_clock env - lockTimeout)
     \<and> cd_ID r \<notin> set (de_skip env)"

lemma claim_due_job_due:
  "claim_due env d r = job_due cd_ID cd_queued cd_NextRetryAt cd_LockedAt env (de_clock env - d) r"
  by (auto simp: claim_due_def job_due_def split: option.splits)

theorem claim_takes_the_earliest_due_job:
  assumes timeout: "d > 0" and ids: "distinct (map cd_ID t)"
  shows "case ClaimNextProvisioningJob env w d t of
     (Inl e, t') \<Rightarrow> t' = t
   | (Inr None, t') \<Rightarrow> t' = t \<and> (\<forall>r \<in> set t. \<not> claim_due env d r)
   | (Inr (Some job), t') \<Rightarrow>
       \<exists>k < length t. claim_due env d (t ! k)
         \<and> (\<forall>r \<in> set t. claim_due env d r \<longrightarrow>
              (cd_NextRetryAt (t ! k), cd_CreatedAt (t ! k)) \<le> (cd_NextRetryAt r, cd_CreatedAt r))
         \<and> t' = t[k := cd_claim_set env w (de_uuid env) (t ! k)]
         \<and> job = scanProvisioningJobRow (t' ! k) \<and> pj_LeaseToken job = Some (de_uuid env)"
proof -
  let ?l = "de_clock env - d"
  note next_defs = cd_next_job_def [of env ?l]
  have claim: "(Inr (Some job), t') = ClaimNextProvisioningJob env w d t \<Longrightarrow>
      \<exists>k < length t. claim_due env d (t ! k)
         \<and> (\<forall>r \<in> set t. claim_due env d r \<longrightarrow>
              (cd_NextRetryAt (t ! k), cd_CreatedAt (t ! k)) \<le> (cd_NextRetryAt r, cd_CreatedAt r))
         \<and> t' = t[k := cd_claim_set env w (de_uuid env) (t ! k)]
         \<and> job = scanProvisioningJobRow (t' ! k) \<and> pj_LeaseToken job = Some (de_uuid env)" for job t'
  proof -
    assume "(Inr (Some job), t') = ClaimNextProvisioningJob env w d t"
    from this [symmetric] obtain r where pick: "cd_next_job env ?l t = Some r"
      and job: "job = scanProvisioningJobRow (cd_claim_set env w (de_uuid env) r)"
      and t': "t' = sql_update (\<lambda>cd. cd_ID cd = cd_ID r) (cd_claim_set env w (de_uuid env)) t"
      by (rule cd_Claim_table) (use timeout in simp)
    note first = cdq.earliest_due_first [OF pick [unfolded next_defs], folded claim_due_job_due]
    obtain k where k: "k < length t" "t ! k = r" using first(1) by (auto simp: in_set_conv_nth)
    have "t' = t[k := cd_claim_set env w (de_uuid env) r]"
      unfolding t' using sql_update_one [OF ids k(1)] k(2) by simp
    moreover have "pj_LeaseToken job = Some (de_uuid env)"
      by (simp add: job scanProvisioningJobRow_def cd_claim_set_def)
    ultimately show ?thesis using k first job by (intro exI [of _ k]) simp
  qed
  obtain res t' where res: "ClaimNextProvisioningJob env w d t = (res, t')" by (cases "ClaimNextProvisioningJob env w d t")
  show ?thesis
  proof (cases res)
    case (Inl e)
    then show ?thesis using res cd_Claim_error by auto
  next
    case (Inr jo)
    show ?thesis
    proof (cases jo)
      case None
      have "t' = t" "cd_next_job env ?l t = None"
        using cd_Claim_None [of env w d t t'] res Inr None timeout by auto
      then show ?thesis using res Inr None by (auto simp: next_defs claim_due_job_due)
    next
      case (Some job)
      then show ?thesis using claim [of job t'] res Inr by simp
    qed
  qed
qed

text \<open>A verified domain with its traffic ready, queued one second after it was created.\<close>

definition queued_domain :: "uuid \<Rightarrow> string \<Rightarrow> go_time \<Rightarrow> custom_domain" where
  "queued_domain i h now =
     restart_set (quiet now []) PsRequestingCertificate
       ((demo_domain i h)\<lparr>cd_Status := DsVerified, cd_RoutingStatus := RsReady\<rparr>)"

theorem claim_takes_the_earliest_due_job_witness:
  "fst (ClaimNextProvisioningJob (quiet 9 ''tok'') ''w1'' minute
      [queued_domain ''d1'' ''a.acme.com'' 7, queued_domain ''d2'' ''b.acme.com'' 3])
    = Inr (Some (scanProvisioningJobRow (cd_claim_set (quiet 9 ''tok'') ''w1'' ''tok'' (queued_domain ''d2'' ''b.acme.com'' 3))))
   \<and> claim_due (quiet 9 ''tok'') minute (queued_domain ''d2'' ''b.acme.com'' 3)"
proof -
  let ?r1 = "queued_domain ''d1'' ''a.acme.com'' 7" and ?r2 = "queued_domain ''d2'' ''b.acme.com'' 3"
  let ?c = "ClaimNextProvisioningJob (quiet 9 ''tok'') ''w1'' minute [?r1, ?r2]"
  note defs = queued_domain_def demo_domain_def restart_set_def cd_unlock_def
  have due: "claim_due (quiet 9 ''tok'') minute ?r1" "claim_due (quiet 9 ''tok'') minute ?r2"
    by (simp_all add: claim_due_def cd_queued_def defs)
  have "distinct (map cd_ID [?r1, ?r2])" by (simp add: defs)
  note spec = claim_takes_the_earliest_due_job [of minute "[?r1, ?r2]" "quiet 9 ''tok''" "''w1''", OF _ this]
  have "fst ?c \<noteq> Inl e" for e
    by (simp add: ClaimNextProvisioningJob_def Let_def split: option.split)
  then obtain job t' where c: "?c = (Inr (Some job), t')"
    using spec due by (cases ?c; cases "fst ?c") (auto split: option.splits)
  from spec [unfolded c] due
  have "job = scanProvisioningJobRow (cd_claim_set (quiet 9 ''tok'') ''w1'' ''tok'' ?r2)"
    by (auto simp: less_Suc_eq nth_Cons split: nat.splits) (auto simp: defs)
  then show ?thesis using c due by simp
qed

text \<open>The writes a worker makes under its lease.\<close>

definition cd_worker_writes ::
  "db_env \<Rightarrow> uuid \<Rightarrow> uuid \<Rightarrow> advance_params \<Rightarrow> provisioning_status \<Rightarrow> string \<Rightarrow> int \<Rightarrow> string \<Rightarrow> go_time
    \<Rightarrow> (domains \<Rightarrow> repo_error option \<times> domains) list" where
  "cd_worker_writes env i u p s arn priority msg next =
     [AdvanceProvisioningState env (p\<lparr>ap_ID := i, ap_LeaseToken := u\<rparr>),
      ScheduleProvisioningPoll env i u s next, ScheduleProvisioningRetry env i u s next msg,
      MarkProvisioningFailed env i u s msg, MarkProvisioningCompleted env i u arn priority,
      MarkDeprovisioned env i u, MarkDeprovisionFailed env i u msg, ReleaseProvisioningLease env i u]"

lemma cd_exec_leased_stale:
  "sql_update P f t = t \<Longrightarrow> filter P t = [] \<Longrightarrow> rejected (cd_exec_leased env s s' P f why) t"
  by (simp add: rejected_def cd_exec_leased_def exec_update_def split: option.split)

lemma cd_worker_write_stale:
  assumes no: "\<And>r. r \<in> set t \<Longrightarrow> cd_ID r = i \<Longrightarrow> cd_LeaseToken r \<noteq> Some u"
    and op: "write \<in> set (cd_worker_writes env i u p s arn q m n)"
  shows "rejected write t"
proof -
  note stale = cd_exec_leased_stale [OF cd_adv.no_lease_no_effect [OF no]]
    cd_exec_leased_stale [OF cd_poll.no_lease_no_effect [OF no]]
    cd_exec_leased_stale [OF cd_retry.no_lease_no_effect [OF no]]
    cd_exec_leased_stale [OF cd_fail.no_lease_no_effect [OF no]]
    cd_exec_leased_stale [OF cd_done.no_lease_no_effect [OF no]]
    cd_exec_leased_stale [OF cd_dep.no_lease_no_effect [OF no]]
    cd_exec_leased_stale [OF cd_depfail.no_lease_no_effect [OF no]]
    cd_exec_leased_stale [OF cd_rel.no_lease_no_effect [OF no]]
  have "rejected (MarkProvisioningCompleted env i u arn q) t"
  proof (cases "de_fault env ''mark provisioning completed'' = None
      \<and> priority_violation (cd_leased i u PsAttachingCertificate) q t")
    case False
    then have "MarkProvisioningCompleted env i u arn q t = cd_exec_leased env ''mark provisioning completed''
        ''check mark provisioning completed rows affected'' (cd_leased i u PsAttachingCertificate)
        (Completed_set env arn q) (checkStaleOrTransitionError env i u PsAttachingCertificate) t"
      unfolding MarkProvisioningCompleted_def by (rule if_not_P)
    moreover have "rejected (cd_exec_leased env s s' (cd_leased i u st) (Completed_set env arn q) why) t" for s s' st why
      by (rule stale(5))
    ultimately show ?thesis unfolding rejected_def by presburger
  qed (simp add: rejected_def MarkProvisioningCompleted_def)
  with op stale show ?thesis
    unfolding cd_worker_writes_def AdvanceProvisioningState_def ScheduleProvisioningPoll_def
      ScheduleProvisioningRetry_def MarkProvisioningFailed_def MarkDeprovisioned_def
      MarkDeprovisionFailed_def ReleaseProvisioningLease_def
    by auto
qed

text \<open>
  C27. A worker whose lease on a custom domain was taken over cannot write any more. Once a claim
  has handed the domain out under another token, then after any further operations (in which no
  claim draws the old token again) every write the first worker attempts under its old token
  returns an error and changes nothing.
\<close>

theorem reclaimed_domain_rejects_old_worker:
  assumes claim: "ClaimNextProvisioningJob env w d t0 = (Inr (Some job), t)"
    and other: "pj_LeaseToken job \<noteq> Some u"
    and run: "lease_run cd_step us t t'" and fresh: "u \<notin> set us"
    and op: "write \<in> set (cd_worker_writes env' (pj_ID job) u p s arn q m n)"
  shows "rejected write t'"
proof -
  obtain r0 where "cd_next_job env (de_clock env - (if d \<le> 0 then 5 * minute else d)) t0 = Some r0"
    and job: "job = scanProvisioningJobRow (cd_claim_set env w (de_uuid env) r0)"
    and t: "t = sql_update (\<lambda>cd. cd_ID cd = cd_ID r0) (cd_claim_set env w (de_uuid env)) t0"
    by (rule cd_Claim_table [OF claim])
  have i: "pj_ID job = cd_ID r0" "pj_LeaseToken job = Some (de_uuid env)"
    by (simp_all add: job scanProvisioningJobRow_def cd_claim_set_def)
  have "cd_LeaseToken r \<noteq> Some u" if "r \<in> set t" "cd_ID r = pj_ID job" for r
    using cdq.claimed_rows_hold_token [OF that(1) [unfolded t]] that(2) i other by auto
  then have "cd_LeaseToken r \<noteq> Some u" if "r \<in> set t'" "cd_ID r = pj_ID job" for r
    using cdh.lost_lease_stays_lost [OF run fresh _ that] by blast
  from cd_worker_write_stale [OF this op] show ?thesis .
qed

theorem reclaimed_domain_rejects_old_worker_witness:
  "fst (MarkProvisioningFailed (quiet 8 []) ''d1'' ''old'' PsRequestingCertificate ''boom''
     [cd_claim_set (quiet 7 ''new'') ''w2'' ''new'' (queued_domain ''d1'' ''a.acme.com'' 3)]) \<noteq> None"
proof -
  let ?r = "queued_domain ''d1'' ''a.acme.com'' 3" and ?env = "quiet 7 ''new''"
  let ?t = "[cd_claim_set ?env ''w2'' ''new'' ?r]"
  let ?w = "MarkProvisioningFailed (quiet 8 []) ''d1'' ''old'' PsRequestingCertificate ''boom''"
  have claim: "ClaimNextProvisioningJob ?env ''w2'' 0 [?r]
      = (Inr (Some (scanProvisioningJobRow (cd_claim_set ?env ''w2'' ''new'' ?r))), ?t)"
    by (simp add: ClaimNextProvisioningJob_def Let_def cd_next_job_def first_by_def job_due_def
        cd_queued_def queued_domain_def demo_domain_def restart_set_def cd_unlock_def sql_update_def)
  have i: "pj_ID (scanProvisioningJobRow (cd_claim_set ?env ''w2'' ''new'' ?r)) = ''d1''"
      "pj_LeaseToken (scanProvisioningJobRow (cd_claim_set ?env ''w2'' ''new'' ?r)) \<noteq> Some ''old''"
    by (simp_all add: scanProvisioningJobRow_def cd_claim_set_def queued_domain_def demo_domain_def
        restart_set_def cd_unlock_def)
  have "?w \<in> set (cd_worker_writes (quiet 8 []) ''d1'' ''old'' p PsRequestingCertificate [] 0 ''boom'' 0)" for p
    by (simp only: cd_worker_writes_def list.set insert_iff simp_thms)
  then have "rejected ?w ?t"
    by (intro reclaimed_domain_rejects_old_worker [OF claim i(2) run_refl]) (simp_all only: i(1), simp)
  then show ?thesis by (simp add: rejected_def)
qed

end
