(* ===== verification/AWS_Client.thy ===== *)
theory AWS_Client
  imports EG_Model
begin

text \<open>
  The AWS client of the workers (\<^verbatim>\<open>internal/aws\<close>): certificates of ACM, listener certificates,
  target groups and host-header rules of the application load balancer.

  The AWS SDK is not part of the repository. It is the record \<open>aws_sdk\<close>, whose functions take the
  history of the calls made so far as their first argument: an answer may depend on everything
  that happened before, so no assumption is made about how AWS behaves over time. Every
  operation returns its result and the calls it made, in order.
  An error is its text together with the SDK error types the code looks for with \<^verbatim>\<open>errors.As\<close>
  or \<^verbatim>\<open>errors.Is\<close>; wrapping an error with \<^verbatim>\<open>%w\<close> extends the text and keeps the types.
\<close>

section \<open>Errors\<close>

datatype aws_kind =
    ResourceNotFoundException | InvalidParameterException | AccessDeniedException
  | ThrottlingException | LimitExceededException | PriorityInUseException | HostRuleTargetConflict

record aws_error =
  ae_msg :: string
  ae_kinds :: "aws_kind list"

definition plain_error :: "string \<Rightarrow> aws_error" where
  "plain_error m = \<lparr>ae_msg = m, ae_kinds = []\<rparr>"

definition wrap_error :: "string \<Rightarrow> aws_error \<Rightarrow> aws_error" where
  "wrap_error prefix e = e\<lparr>ae_msg := prefix @ '': '' @ ae_msg e\<rparr>"

definition errors_As :: "aws_kind \<Rightarrow> aws_error \<Rightarrow> bool" where
  "errors_As k e \<longleftrightarrow> k \<in> set (ae_kinds e)"

lemma errors_As_simps [simp]:
  "errors_As k (wrap_error p e) = errors_As k e" "\<not> errors_As k (plain_error m)"
  by (simp_all add: errors_As_def wrap_error_def plain_error_def)

definition isAlreadyExistsError :: "aws_error \<Rightarrow> bool" where
  "isAlreadyExistsError e =
     (let msg = ToLower (ae_msg e)
      in Contains msg ''alreadyexists'' \<or> Contains msg ''already attached'' \<or> Contains msg ''already exists'')"

definition isNotFoundError :: "aws_error \<Rightarrow> bool" where
  "isNotFoundError e =
     (let msg = ToLower (ae_msg e) in Contains msg ''notfound'' \<or> Contains msg ''does not exist'')"

definition isPriorityInUseError :: "aws_error \<Rightarrow> bool" where
  "isPriorityInUseError e =
     (errors_As PriorityInUseException e
      \<or> (let lowered = ToLower (ae_msg e)
         in Contains lowered ''priorityinuse'' \<or> Contains lowered ''priority in use''))"

definition ErrHostRuleTargetConflict :: aws_error where
  "ErrHostRuleTargetConflict =
     \<lparr>ae_msg = ''hostname is already routed to another target group'', ae_kinds = [HostRuleTargetConflict]\<rparr>"

section \<open>The SDK\<close>

record alb_rule =
  ar_RuleArn :: "string option"
  ar_Priority :: "string option"
  ar_Conditions :: "string list option list"
  ar_Actions :: "(string \<times> string option) list"

record acm_certificate =
  ac_Arn :: "string option"
  ac_Status :: string
  ac_IssuedAt :: "go_time option"
  ac_FailureReason :: string
  ac_ValidationOptions :: "(string option \<times> string option) option list"

datatype sdk_call =
    AcmRequestCertificate string string
  | AcmDescribeCertificate string
  | AcmDeleteCertificate string
  | AddListenerCertificates string string
  | RemoveListenerCertificates string string
  | DescribeTargetGroups string
  | CreateTargetGroup string string
  | RegisterTargets string string int
  | DeregisterTargets string string int
  | DescribeTargetHealth string string int
  | DescribeRules string
  | CreateRule string int string string
  | DeleteRule string
  | DeleteTargetGroup string

text \<open>
  A missing output struct is \<open>None\<close> in the certificate calls. The list of an output that carries
  one is given as it is; \<open>sdk_RulePages\<close> are the pages a \<^verbatim>\<open>DescribeRules\<close> paginator delivers, of
  which each can be an error.
\<close>

record aws_sdk =
  sdk_RequestCertificate :: "sdk_call list \<Rightarrow> string \<Rightarrow> string \<Rightarrow> aws_error + string option"
  sdk_DescribeCertificate :: "sdk_call list \<Rightarrow> string \<Rightarrow> aws_error + acm_certificate option"
  sdk_DeleteCertificate :: "sdk_call list \<Rightarrow> string \<Rightarrow> aws_error option"
  sdk_AddListenerCertificates :: "sdk_call list \<Rightarrow> string \<Rightarrow> string \<Rightarrow> aws_error option"
  sdk_RemoveListenerCertificates :: "sdk_call list \<Rightarrow> string \<Rightarrow> string \<Rightarrow> aws_error option"
  sdk_DescribeTargetGroups :: "sdk_call list \<Rightarrow> string \<Rightarrow> aws_error + string option list"
  sdk_CreateTargetGroup :: "sdk_call list \<Rightarrow> string \<Rightarrow> string \<Rightarrow> aws_error + string option list"
  sdk_RegisterTargets :: "sdk_call list \<Rightarrow> string \<Rightarrow> string \<Rightarrow> int \<Rightarrow> aws_error option"
  sdk_DeregisterTargets :: "sdk_call list \<Rightarrow> string \<Rightarrow> string \<Rightarrow> int \<Rightarrow> aws_error option"
  sdk_DescribeTargetHealth :: "sdk_call list \<Rightarrow> string \<Rightarrow> string \<Rightarrow> int \<Rightarrow> aws_error + string option list"
  sdk_DescribeRules :: "sdk_call list \<Rightarrow> string \<Rightarrow> aws_error + alb_rule list"
  sdk_RulePages :: "sdk_call list \<Rightarrow> string \<Rightarrow> (aws_error + alb_rule list) list"
  sdk_CreateRule :: "sdk_call list \<Rightarrow> string \<Rightarrow> int \<Rightarrow> string \<Rightarrow> string \<Rightarrow> aws_error + string option list"
  sdk_DeleteRule :: "sdk_call list \<Rightarrow> string \<Rightarrow> aws_error option"
  sdk_DeleteTargetGroup :: "sdk_call list \<Rightarrow> string \<Rightarrow> aws_error option"

text \<open>The client: whether automation is on, and the two SDK clients when they are set.\<close>

record aws_client =
  cl_AutomationEnabled :: bool
  cl_acmClient :: "aws_sdk option"
  cl_albClient :: "aws_sdk option"

definition with_client :: "aws_client \<Rightarrow> aws_sdk option \<Rightarrow> string \<Rightarrow> string \<Rightarrow> aws_error + aws_sdk" where
  "with_client c sdk off missing =
     (if \<not> cl_AutomationEnabled c then Inl (plain_error off)
      else case sdk of None \<Rightarrow> Inl (plain_error missing) | Some s \<Rightarrow> Inr s)"

definition acm_of :: "aws_client \<Rightarrow> aws_error + aws_sdk" where
  "acm_of c = with_client c (cl_acmClient c) ''AWS custom domain automation is disabled'' ''ACM client is not initialized''"

definition alb_of :: "aws_client \<Rightarrow> aws_error + aws_sdk" where
  "alb_of c = with_client c (cl_albClient c) ''AWS custom domain automation is disabled'' ''ALB client is not initialized''"

definition gatewayALBClient :: "aws_client \<Rightarrow> aws_error + aws_sdk" where
  "gatewayALBClient c = with_client c (cl_albClient c) ''AWS automation is disabled'' ''ALB client is not initialized''"

type_synonym 'a aws_op = "sdk_call list \<Rightarrow> (aws_error + 'a) \<times> sdk_call list"

section \<open>Certificates\<close>

definition RequestCertificate :: "aws_client \<Rightarrow> string \<Rightarrow> string \<Rightarrow> string aws_op" where
  "RequestCertificate c hostname idempotencyToken h =
     (case acm_of c of
        Inl e \<Rightarrow> (Inl e, h)
      | Inr s \<Rightarrow>
          (case sdk_RequestCertificate s h hostname idempotencyToken of
             Inl e \<Rightarrow> Inl (wrap_error (''acm request certificate for '' @ hostname) e)
           | Inr None \<Rightarrow> Inl (plain_error (''acm request certificate for '' @ hostname @ '' returned empty ARN''))
           | Inr (Some arn) \<Rightarrow> Inr arn,
           h @ [AcmRequestCertificate hostname idempotencyToken]))"

record certificate_details =
  ct_ARN :: string
  ct_Status :: string
  ct_ValidationName :: string
  ct_ValidationValue :: string
  ct_FailureReason :: string
  ct_IssuedAt :: "go_time option"

definition ToString :: "string option \<Rightarrow> string" where
  "ToString s = (case s of None \<Rightarrow> [] | Some v \<Rightarrow> v)"

definition certificate_details_of :: "acm_certificate \<Rightarrow> certificate_details" where
  "certificate_details_of cert =
     (let rec = (case ac_ValidationOptions cert of Some (n, v) # _ \<Rightarrow> (ToString n, ToString v) | _ \<Rightarrow> ([], []))
      in \<lparr>ct_ARN = ToString (ac_Arn cert), ct_Status = ac_Status cert,
          ct_ValidationName = fst rec, ct_ValidationValue = snd rec,
          ct_FailureReason = ac_FailureReason cert, ct_IssuedAt = ac_IssuedAt cert\<rparr>)"

definition DescribeCertificate :: "aws_client \<Rightarrow> string \<Rightarrow> certificate_details aws_op" where
  "DescribeCertificate c certificateARN h =
     (case acm_of c of
        Inl e \<Rightarrow> (Inl e, h)
      | Inr s \<Rightarrow>
          (case sdk_DescribeCertificate s h certificateARN of
             Inl e \<Rightarrow>
               if errors_As ResourceNotFoundException e
               then Inl (wrap_error (''acm certificate '' @ certificateARN @ '' not found'') e)
               else Inl (wrap_error (''acm describe certificate '' @ certificateARN) e)
           | Inr None \<Rightarrow>
               Inl (plain_error (''acm describe certificate '' @ certificateARN @ '' returned empty response''))
           | Inr (Some cert) \<Rightarrow> Inr (certificate_details_of cert),
           h @ [AcmDescribeCertificate certificateARN]))"

definition DeleteCertificate :: "aws_client \<Rightarrow> string \<Rightarrow> unit aws_op" where
  "DeleteCertificate c certificateARN h =
     (case acm_of c of
        Inl e \<Rightarrow> (Inl e, h)
      | Inr s \<Rightarrow>
          (case sdk_DeleteCertificate s h certificateARN of
             None \<Rightarrow> Inr ()
           | Some e \<Rightarrow>
               if errors_As ResourceNotFoundException e then Inr ()
               else Inl (wrap_error (''acm delete certificate '' @ certificateARN) e),
           h @ [AcmDeleteCertificate certificateARN]))"

definition AttachCertificateToListener :: "aws_client \<Rightarrow> string \<Rightarrow> string \<Rightarrow> unit aws_op" where
  "AttachCertificateToListener c listenerARN certificateARN h =
     (case alb_of c of
        Inl e \<Rightarrow> (Inl e, h)
      | Inr s \<Rightarrow>
          (case sdk_AddListenerCertificates s h listenerARN certificateARN of
             None \<Rightarrow> Inr ()
           | Some e \<Rightarrow>
               if isAlreadyExistsError e then Inr ()
               else Inl (wrap_error (''alb attach certificate '' @ certificateARN @ '' to listener '' @ listenerARN) e),
           h @ [AddListenerCertificates listenerARN certificateARN]))"

definition DetachCertificateFromListener :: "aws_client \<Rightarrow> string \<Rightarrow> string \<Rightarrow> unit aws_op" where
  "DetachCertificateFromListener c listenerARN certificateARN h =
     (case alb_of c of
        Inl e \<Rightarrow> (Inl e, h)
      | Inr s \<Rightarrow>
          (case sdk_RemoveListenerCertificates s h listenerARN certificateARN of
             None \<Rightarrow> Inr ()
           | Some e \<Rightarrow>
               if isNotFoundError e \<or> isAlreadyExistsError e then Inr ()
               else Inl (wrap_error (''alb detach certificate '' @ certificateARN @ '' from listener '' @ listenerARN) e),
           h @ [RemoveListenerCertificates listenerARN certificateARN]))"

section \<open>Gateway targets\<close>

definition CreateGatewayTargetGroup :: "aws_client \<Rightarrow> string \<Rightarrow> string \<Rightarrow> string aws_op" where
  "CreateGatewayTargetGroup c name0 vpcID0 h =
     (case gatewayALBClient c of
        Inl e \<Rightarrow> (Inl e, h)
      | Inr s \<Rightarrow>
          (let name = TrimSpace name0; vpcID = TrimSpace vpcID0
           in if name = [] \<or> vpcID = [] then (Inl (plain_error ''target group name and VPC ID are required''), h)
              else
                (let existing = sdk_DescribeTargetGroups s h name;
                     h1 = h @ [DescribeTargetGroups name];
                     found = (case existing of Inr (arn # _) \<Rightarrow> ToString arn | _ \<Rightarrow> [])
                 in if found \<noteq> [] then (Inr found, h1)
                    else if (case existing of Inl e \<Rightarrow> \<not> isNotFoundError e | Inr _ \<Rightarrow> False)
                    then (Inl (case existing of Inl e \<Rightarrow> wrap_error (''find existing gateway target group '' @ name) e), h1)
                    else
                      (case sdk_CreateTargetGroup s h1 name vpcID of
                         Inl e \<Rightarrow> Inl (wrap_error (''create gateway target group '' @ name) e)
                       | Inr (Some arn # _) \<Rightarrow> Inr arn
                       | Inr _ \<Rightarrow> Inl (plain_error ''AWS returned no target group ARN''),
                       h1 @ [CreateTargetGroup name vpcID]))))"

definition RegisterGatewayTarget :: "aws_client \<Rightarrow> string \<Rightarrow> string \<Rightarrow> int \<Rightarrow> unit aws_op" where
  "RegisterGatewayTarget c targetGroupARN instanceID port h =
     (case gatewayALBClient c of
        Inl e \<Rightarrow> (Inl e, h)
      | Inr s \<Rightarrow>
          (case sdk_RegisterTargets s h targetGroupARN instanceID port of
             None \<Rightarrow> Inr ()
           | Some e \<Rightarrow> Inl (wrap_error ''register gateway target'' e),
           h @ [RegisterTargets targetGroupARN instanceID port]))"

definition GetGatewayTargetHealth :: "aws_client \<Rightarrow> string \<Rightarrow> string \<Rightarrow> int \<Rightarrow> string aws_op" where
  "GetGatewayTargetHealth c targetGroupARN instanceID port h =
     (case gatewayALBClient c of
        Inl e \<Rightarrow> (Inl e, h)
      | Inr s \<Rightarrow>
          (case sdk_DescribeTargetHealth s h targetGroupARN instanceID port of
             Inl e \<Rightarrow> Inl (wrap_error ''describe gateway target health'' e)
           | Inr (Some state # _) \<Rightarrow> Inr state
           | Inr _ \<Rightarrow> Inr ''unknown'',
           h @ [DescribeTargetHealth targetGroupARN instanceID port]))"

definition DeregisterGatewayTarget :: "aws_client \<Rightarrow> string \<Rightarrow> string \<Rightarrow> int \<Rightarrow> unit aws_op" where
  "DeregisterGatewayTarget c targetGroupARN instanceID port h =
     (case gatewayALBClient c of
        Inl e \<Rightarrow> (Inl e, h)
      | Inr s \<Rightarrow>
          (case sdk_DeregisterTargets s h targetGroupARN instanceID port of
             Some e \<Rightarrow> if \<not> isNotFoundError e then Inl (wrap_error ''deregister gateway target'' e) else Inr ()
           | None \<Rightarrow> Inr (),
           h @ [DeregisterTargets targetGroupARN instanceID port]))"

definition DeleteGatewayTargetGroup :: "aws_client \<Rightarrow> string \<Rightarrow> unit aws_op" where
  "DeleteGatewayTargetGroup c targetGroupARN h =
     (case gatewayALBClient c of
        Inl e \<Rightarrow> (Inl e, h)
      | Inr s \<Rightarrow>
          (case sdk_DeleteTargetGroup s h targetGroupARN of
             Some e \<Rightarrow> if \<not> isNotFoundError e then Inl (wrap_error ''delete gateway target group'' e) else Inr ()
           | None \<Rightarrow> Inr (),
           h @ [DeleteTargetGroup targetGroupARN]))"

definition DeleteGatewayHostRule :: "aws_client \<Rightarrow> string \<Rightarrow> unit aws_op" where
  "DeleteGatewayHostRule c ruleARN h =
     (case gatewayALBClient c of
        Inl e \<Rightarrow> (Inl e, h)
      | Inr s \<Rightarrow>
          (case sdk_DeleteRule s h ruleARN of
             Some e \<Rightarrow> if \<not> isNotFoundError e then Inl (wrap_error ''delete gateway listener rule'' e) else Inr ()
           | None \<Rightarrow> Inr (),
           h @ [DeleteRule ruleARN]))"

section \<open>Host rules\<close>

definition normalHost :: "string \<Rightarrow> string" where
  "normalHost s = TrimSuffix (ToLower (TrimSpace s)) ''.''"

text \<open>
  \<^verbatim>\<open>fmt.Sscanf\<close> with \<^verbatim>\<open>%d\<close> into an \<^verbatim>\<open>int32\<close>: leading spaces, a sign, then the longest run of
  digits; no digits or a value out of range is an error.
\<close>

definition isDigitChar :: "char \<Rightarrow> bool" where
  "isDigitChar c = (let n = of_char c :: nat in 48 \<le> n \<and> n \<le> 57)"

definition digitsInt :: "string \<Rightarrow> int" where
  "digitsInt ds = foldl (\<lambda>n c. 10 * n + (of_char c - 48)) 0 ds"

definition Sscanf_d :: "string \<Rightarrow> int option" where
  "Sscanf_d s0 =
     (let s1 = dropWhile isSpace s0;
          neg = (case s1 of c # _ \<Rightarrow> c = CHR ''-'' | [] \<Rightarrow> False);
          s2 = (case s1 of c # cs \<Rightarrow> if c = CHR ''-'' \<or> c = CHR ''+'' then cs else s1 | [] \<Rightarrow> []);
          ds = takeWhile isDigitChar s2;
          v = (if neg then - digitsInt ds else digitsInt ds)
      in if ds = [] \<or> v < - (2 ^ 31) \<or> v \<ge> 2 ^ 31 then None else Some v)"

definition rulePriority :: "alb_rule \<Rightarrow> int option" where
  "rulePriority r =
     (case ar_Priority r of
        None \<Rightarrow> None
      | Some p \<Rightarrow> if p = ''default'' then None else Sscanf_d p)"

definition ruleForHost :: "string \<Rightarrow> alb_rule \<Rightarrow> bool" where
  "ruleForHost expectedHost r =
     list_ex (\<lambda>cond. case cond of None \<Rightarrow> False | Some vs \<Rightarrow> list_ex (\<lambda>v. normalHost v = expectedHost) vs)
       (ar_Conditions r)"

definition forwardsTo :: "string \<Rightarrow> alb_rule \<Rightarrow> bool" where
  "forwardsTo targetGroupARN r =
     list_ex (\<lambda>(ty, tg). ty = ''forward'' \<and> ToString tg = targetGroupARN) (ar_Actions r)"

fun findHostRule_loop :: "alb_rule list \<Rightarrow> string \<Rightarrow> string \<Rightarrow> string \<times> int \<times> bool" where
  "findHostRule_loop [] expectedHost targetGroupARN = ([], 0, False)"
| "findHostRule_loop (r # rules) expectedHost targetGroupARN =
     (if \<not> ruleForHost expectedHost r then findHostRule_loop rules expectedHost targetGroupARN
      else if forwardsTo targetGroupARN r
      then (ToString (ar_RuleArn r), (case rulePriority r of None \<Rightarrow> 0 | Some p \<Rightarrow> p), False)
      else ([], 0, True))"

definition findCustomDomainHostRuleDetails :: "alb_rule list \<Rightarrow> string \<Rightarrow> string \<Rightarrow> string \<times> int \<times> bool" where
  "findCustomDomainHostRuleDetails rules hostname targetGroupARN =
     findHostRule_loop rules (normalHost hostname) targetGroupARN"

definition findGatewayHostRule :: "alb_rule list \<Rightarrow> string \<Rightarrow> string \<Rightarrow> string \<times> bool" where
  "findGatewayHostRule rules hostname targetGroupARN =
     (let (arn, _, conflict) = findCustomDomainHostRuleDetails rules hostname targetGroupARN in (arn, conflict))"

fun drainPages :: "(aws_error + alb_rule list) list \<Rightarrow> aws_error + alb_rule list" where
  "drainPages [] = Inr []"
| "drainPages (Inl e # pages) = Inl (wrap_error ''describe listener rules page'' e)"
| "drainPages (Inr rules # pages) =
     (case drainPages pages of Inl e \<Rightarrow> Inl e | Inr rest \<Rightarrow> Inr (rules @ rest))"

function freeRulePriority :: "int \<Rightarrow> int \<Rightarrow> alb_rule list \<Rightarrow> int option" where
  "freeRulePriority p maxPriority rules =
     (if p > maxPriority then None
      else if \<not> list_ex (\<lambda>r. rulePriority r = Some p) rules then Some p
      else freeRulePriority (p + 1) maxPriority rules)"
  by pat_completeness auto
termination by (relation "measure (\<lambda>(p, maxPriority, _). nat (maxPriority + 1 - p))") auto

declare freeRulePriority.simps [simp del]

fun ensureHostRule_loop ::
  "aws_sdk \<Rightarrow> string \<Rightarrow> string \<Rightarrow> string \<Rightarrow> int \<Rightarrow> int \<Rightarrow> nat \<Rightarrow> (string \<times> int) aws_op" where
  "ensureHostRule_loop s listenerARN hostname targetGroupARN minPriority maxPriority 0 h =
     (Inl (plain_error ''failed to acquire listener rule priority after max attempts due to PriorityInUse race''), h)"
| "ensureHostRule_loop s listenerARN hostname targetGroupARN minPriority maxPriority (Suc attempts) h =
     (let h1 = h @ [DescribeRules listenerARN]
      in case drainPages (sdk_RulePages s h listenerARN) of
           Inl e \<Rightarrow> (Inl e, h1)
         | Inr allRules \<Rightarrow>
             (let (ruleARN, priority, conflict) = findCustomDomainHostRuleDetails allRules hostname targetGroupARN
              in if ruleARN \<noteq> [] then (Inr (ruleARN, priority), h1)
                 else if conflict then (Inl ErrHostRuleTargetConflict, h1)
                 else
                   (case freeRulePriority minPriority maxPriority allRules of
                      None \<Rightarrow> (Inl (plain_error ''no available listener rule priority in requested range''), h1)
                    | Some selectedPriority \<Rightarrow>
                        (let h2 = h1 @ [CreateRule listenerARN selectedPriority hostname targetGroupARN]
                         in case sdk_CreateRule s h1 listenerARN selectedPriority hostname targetGroupARN of
                              Inl e \<Rightarrow>
                                if isPriorityInUseError e
                                then ensureHostRule_loop s listenerARN hostname targetGroupARN minPriority maxPriority attempts h2
                                else (Inl (wrap_error ''create listener rule'' e), h2)
                            | Inr (Some arn # _) \<Rightarrow> (Inr (arn, selectedPriority), h2)
                            | Inr _ \<Rightarrow> (Inl (plain_error ''AWS returned no listener rule ARN''), h2)))))"

definition EnsureHostRule ::
  "aws_client \<Rightarrow> string \<Rightarrow> string \<Rightarrow> string \<Rightarrow> int \<Rightarrow> int \<Rightarrow> (string \<times> int) aws_op" where
  "EnsureHostRule c listenerARN0 hostname0 targetGroupARN0 minPriority maxPriority h =
     (let listenerARN = TrimSpace listenerARN0;
          hostname = normalHost hostname0;
          targetGroupARN = TrimSpace targetGroupARN0
      in if listenerARN = [] \<or> hostname = [] \<or> targetGroupARN = []
         then (Inl (plain_error ''listener ARN, hostname, and target group ARN are required''), h)
         else if minPriority < 1 \<or> maxPriority > 50000 \<or> minPriority > maxPriority
         then (Inl (plain_error ''invalid priority range''), h)
         else
           (case gatewayALBClient c of
              Inl e \<Rightarrow> (Inl e, h)
            | Inr s \<Rightarrow> ensureHostRule_loop s listenerARN hostname targetGroupARN minPriority maxPriority 5 h))"

definition CreateGatewayHostRule ::
  "aws_client \<Rightarrow> string \<Rightarrow> string \<Rightarrow> string \<Rightarrow> int \<Rightarrow> string aws_op" where
  "CreateGatewayHostRule c listenerARN hostname targetGroupARN priority h =
     (case gatewayALBClient c of
        Inl e \<Rightarrow> (Inl e, h)
      | Inr s \<Rightarrow>
          (let h1 = h @ [DescribeRules listenerARN]
           in case sdk_DescribeRules s h listenerARN of
                Inl e \<Rightarrow> (Inl (wrap_error ''describe existing listener rules'' e), h1)
              | Inr rules \<Rightarrow>
                  (let (ruleARN, conflict) = findGatewayHostRule rules hostname targetGroupARN
                   in if ruleARN \<noteq> [] then (Inr ruleARN, h1)
                      else if conflict
                      then (Inl (plain_error (''hostname '' @ hostname @ '' is already routed to another target group'')), h1)
                      else
                        (case sdk_CreateRule s h1 listenerARN priority hostname targetGroupARN of
                           Inl e \<Rightarrow> Inl (wrap_error ''create gateway listener rule'' e)
                         | Inr (Some arn # _) \<Rightarrow> Inr arn
                         | Inr _ \<Rightarrow> Inl (plain_error ''AWS returned no listener rule ARN''),
                         h1 @ [CreateRule listenerARN priority hostname targetGroupARN]))))"

section \<open>Host rules: lemmas\<close>

lemma findHostRule_existing:
  assumes "findHostRule_loop rules host tg = (arn, p, conflict)" "arn \<noteq> []"
  shows "\<exists>r \<in> set rules. ruleForHost host r \<and> forwardsTo tg r \<and> ar_RuleArn r = Some arn"
  using assms
  by (induction rules host tg rule: findHostRule_loop.induct)
     (auto simp: ToString_def split: if_splits option.splits)

text \<open>
  The first rule for the host decides: it either forwards to the target group or is a conflict.
\<close>

lemma findHostRule_find:
  "findHostRule_loop rules host tg =
     (case find (ruleForHost host) rules of
        None \<Rightarrow> ([], 0, False)
      | Some r \<Rightarrow>
          if forwardsTo tg r then (ToString (ar_RuleArn r), (case rulePriority r of None \<Rightarrow> 0 | Some p \<Rightarrow> p), False)
          else ([], 0, True))"
  by (induction rules) auto

lemma freeRulePriority_Some:
  assumes "freeRulePriority lo hi rules = Some p"
  shows "lo \<le> p \<and> p \<le> hi \<and> (\<forall>r \<in> set rules. rulePriority r \<noteq> Some p)
    \<and> (\<forall>q. lo \<le> q \<and> q < p \<longrightarrow> (\<exists>r \<in> set rules. rulePriority r = Some q))"
  using assms
proof (induction lo hi rules rule: freeRulePriority.induct)
  case (1 lo hi rules)
  show ?case
  proof (cases "list_ex (\<lambda>r. rulePriority r = Some lo) rules")
    case True
    then have le: "lo \<le> hi" and rec: "freeRulePriority (lo + 1) hi rules = Some p"
      using "1.prems" by (simp_all add: freeRulePriority.simps [of lo] split: if_splits)
    have "\<exists>r \<in> set rules. rulePriority r = Some q" if "lo \<le> q" "q < p" for q
      using "1.IH" [OF _ _ rec] le True that by (cases "q = lo") (auto simp: list_ex_iff)
    then show ?thesis using "1.IH" [OF _ _ rec] le True by auto
  qed (use "1.prems" in \<open>auto simp: freeRulePriority.simps [of lo] list_ex_iff split: if_splits\<close>)
qed

lemma freeRulePriority_None:
  "freeRulePriority lo hi rules = None \<longleftrightarrow> (\<forall>p. lo \<le> p \<and> p \<le> hi \<longrightarrow> (\<exists>r \<in> set rules. rulePriority r = Some p))"
proof (induction lo hi rules rule: freeRulePriority.induct)
  case (1 lo hi rules)
  have "lo \<le> p \<longleftrightarrow> p = lo \<or> lo + 1 \<le> p" for p by auto
  then show ?case using "1.IH" by (subst freeRulePriority.simps) (auto simp: list_ex_iff intro!: exI [of _ lo])
qed

definition creates :: "sdk_call list \<Rightarrow> nat" where
  "creates h = length (filter (\<lambda>x. case x of CreateRule _ _ _ _ \<Rightarrow> True | _ \<Rightarrow> False) h)"

lemma creates_simps [simp]:
  "creates (h @ h') = creates h + creates h'" "creates [] = 0"
  "creates (DescribeRules l # h) = creates h" "creates (CreateRule l p ho tg # h) = Suc (creates h)"
  by (simp_all add: creates_def)

text \<open>What the loop has seen and done when it returns a rule.\<close>

definition rule_obtained ::
  "aws_sdk \<Rightarrow> string \<Rightarrow> string \<Rightarrow> string \<Rightarrow> int \<Rightarrow> int \<Rightarrow> string \<Rightarrow> int \<Rightarrow> sdk_call list \<Rightarrow> bool" where
  "rule_obtained s l host tg lo hi arn p h' \<longleftrightarrow>
     (\<exists>h rules. drainPages (sdk_RulePages s h l) = Inr rules \<and>
        (h' = h @ [DescribeRules l] \<and>
           (\<exists>r \<in> set rules. ruleForHost (normalHost host) r \<and> forwardsTo tg r \<and> ar_RuleArn r = Some arn)
         \<or> h' = h @ [DescribeRules l, CreateRule l p host tg] \<and> lo \<le> p \<and> p \<le> hi
           \<and> (\<forall>r \<in> set rules. rulePriority r \<noteq> Some p)
           \<and> (\<forall>r. find (ruleForHost (normalHost host)) rules = Some r \<longrightarrow> forwardsTo tg r)
           \<and> (\<exists>rest. sdk_CreateRule s (h @ [DescribeRules l]) l p host tg = Inr (Some arn # rest))))"

lemma ensureHostRule_loop_spec:
  assumes "ensureHostRule_loop s l host tg lo hi n h = (res, h')"
  shows "creates h' \<le> creates h + n \<and> (\<forall>arn p. res = Inr (arn, p) \<longrightarrow> rule_obtained s l host tg lo hi arn p h')"
  using assms
proof (induction n arbitrary: h)
  case (Suc n)
  let ?h1 = "h @ [DescribeRules l]"
  show ?case
  proof (cases "drainPages (sdk_RulePages s h l)")
    case (Inl e)
    then show ?thesis using Suc.prems by auto
  next
    case (Inr rules)
    obtain arn p conflict where found: "findHostRule_loop rules (normalHost host) tg = (arn, p, conflict)" by (metis prod_cases3)
    consider (existing) "arn \<noteq> []" | (conflict) "arn = []" conflict
      | (full) "arn = []" "\<not> conflict" "freeRulePriority lo hi rules = None"
      | (create) q where "arn = []" "\<not> conflict" "freeRulePriority lo hi rules = Some q"
      by fastforce
    then show ?thesis
    proof cases
      case existing
      then have "res = Inr (arn, p)" "h' = ?h1"
        using Suc.prems Inr found by (auto simp: findCustomDomainHostRuleDetails_def)
      moreover have "rule_obtained s l host tg lo hi arn p ?h1"
        unfolding rule_obtained_def using Inr findHostRule_existing [OF found existing] by blast
      ultimately show ?thesis by simp
    next
      case (create q)
      have first: "\<forall>r. find (ruleForHost (normalHost host)) rules = Some r \<longrightarrow> forwardsTo tg r"
        using found create(1,2) by (auto simp: findHostRule_find split: option.splits if_splits)
      let ?h2 = "?h1 @ [CreateRule l q host tg]"
      have step: "ensureHostRule_loop s l host tg lo hi (Suc n) h =
          (case sdk_CreateRule s ?h1 l q host tg of
             Inl e \<Rightarrow> if isPriorityInUseError e then ensureHostRule_loop s l host tg lo hi n ?h2
                      else (Inl (wrap_error ''create listener rule'' e), ?h2)
           | Inr (Some arn # _) \<Rightarrow> (Inr (arn, q), ?h2)
           | Inr _ \<Rightarrow> (Inl (plain_error ''AWS returned no listener rule ARN''), ?h2))"
        using Inr found create by (simp add: findCustomDomainHostRuleDetails_def Let_def)
      show ?thesis
      proof (cases "\<exists>e. sdk_CreateRule s ?h1 l q host tg = Inl e \<and> isPriorityInUseError e")
        case True
        then have "ensureHostRule_loop s l host tg lo hi n ?h2 = (res, h')"
          using step Suc.prems by auto
        from Suc.IH [OF this] show ?thesis by simp
      next
        case False
        then have "h' = ?h2" and res: "res = Inr (a, b) \<Longrightarrow>
            b = q \<and> (\<exists>rest. sdk_CreateRule s ?h1 l q host tg = Inr (Some a # rest))" for a b
          using step Suc.prems by (auto split: sum.splits list.splits option.splits)
        moreover have "rule_obtained s l host tg lo hi a q ?h2"
          if "\<exists>rest. sdk_CreateRule s ?h1 l q host tg = Inr (Some a # rest)" for a
          unfolding rule_obtained_def using Inr that first freeRulePriority_Some [OF create(3)]
          by (intro exI [of _ h] exI [of _ rules]) auto
        ultimately show ?thesis by auto
      qed
    qed (use Suc.prems Inr found in \<open>auto simp: findCustomDomainHostRuleDetails_def\<close>)
  qed
qed auto

section \<open>Properties\<close>

text \<open>
  Creating the host rule of a custom domain. Whatever AWS answers, at most five rules are asked
  for. A rule that is returned either was in the complete listing made last, for this host name and
  forwarding to this target group; or it was created with a priority of the requested range that no
  rule of that listing had, and the listing did not route the host name to another target group
  first.
\<close>

theorem EnsureHostRule_spec:
  assumes "EnsureHostRule c listener hostname tg lo hi h = (res, h')"
  shows "creates h' \<le> creates h + 5
    \<and> (\<forall>arn p. res = Inr (arn, p) \<longrightarrow>
         1 \<le> lo \<and> hi \<le> 50000 \<and>
         (\<exists>s. cl_albClient c = Some s \<and>
            rule_obtained s (TrimSpace listener) (normalHost hostname) (TrimSpace tg) lo hi arn p h'))"
proof (cases "TrimSpace listener = [] \<or> normalHost hostname = [] \<or> TrimSpace tg = []
    \<or> lo < 1 \<or> hi > 50000 \<or> lo > hi \<or> (\<exists>e. gatewayALBClient c = Inl e)")
  case True
  then show ?thesis using assms unfolding EnsureHostRule_def Let_def by (auto split: if_splits)
next
  case False
  then obtain s where s: "gatewayALBClient c = Inr s" by (cases "gatewayALBClient c") auto
  then have "cl_albClient c = Some s"
    by (auto simp: gatewayALBClient_def with_client_def split: if_splits option.splits)
  moreover have "ensureHostRule_loop s (TrimSpace listener) (normalHost hostname) (TrimSpace tg) lo hi 5 h = (res, h')"
    using assms False s unfolding EnsureHostRule_def Let_def by simp
  from ensureHostRule_loop_spec [OF this] have "creates h' \<le> creates h + 5"
    "\<And>arn p. res = Inr (arn, p) \<Longrightarrow>
       rule_obtained s (TrimSpace listener) (normalHost hostname) (TrimSpace tg) lo hi arn p h'"
    by auto
  ultimately show ?thesis using False by auto
qed

text \<open>A load balancer with two rules, one of which another deployment holds at priority 40001.\<close>

definition demo_rules :: "alb_rule list" where
  "demo_rules =
     [\<lparr>ar_RuleArn = Some ''r1'', ar_Priority = Some ''40001'', ar_Conditions = [Some [''shop.acme.com'']],
       ar_Actions = [(''forward'', Some ''tg1'')]\<rparr>,
      \<lparr>ar_RuleArn = Some ''r0'', ar_Priority = Some ''default'', ar_Conditions = [],
       ar_Actions = [(''forward'', Some ''tg0'')]\<rparr>]"

definition demo_sdk :: aws_sdk where
  "demo_sdk =
     \<lparr>sdk_RequestCertificate = (\<lambda>_ _ _. Inr (Some ''arn:cert'')),
      sdk_DescribeCertificate = (\<lambda>_ _. Inr None), sdk_DeleteCertificate = (\<lambda>_ _. None),
      sdk_AddListenerCertificates = (\<lambda>_ _ _. None), sdk_RemoveListenerCertificates = (\<lambda>_ _ _. None),
      sdk_DescribeTargetGroups = (\<lambda>_ _. Inr []), sdk_CreateTargetGroup = (\<lambda>_ _ _. Inr [Some ''tg'']),
      sdk_RegisterTargets = (\<lambda>_ _ _ _. None), sdk_DeregisterTargets = (\<lambda>_ _ _ _. None),
      sdk_DescribeTargetHealth = (\<lambda>_ _ _ _. Inr [Some ''healthy'']),
      sdk_DescribeRules = (\<lambda>_ _. Inr demo_rules), sdk_RulePages = (\<lambda>_ _. [Inr demo_rules]),
      sdk_CreateRule = (\<lambda>_ _ _ _ _. Inr [Some ''r9'']), sdk_DeleteRule = (\<lambda>_ _. None),
      sdk_DeleteTargetGroup = (\<lambda>_ _. None)\<rparr>"

definition demo_client :: aws_client where
  "demo_client = \<lparr>cl_AutomationEnabled = True, cl_acmClient = Some demo_sdk, cl_albClient = Some demo_sdk\<rparr>"

theorem EnsureHostRule_spec_witness:
  "EnsureHostRule demo_client ''l'' ''api.acme.com'' ''tg2'' 40001 40003 [] =
     (Inr (''r9'', 40002), [DescribeRules ''l'', CreateRule ''l'' 40002 ''api.acme.com'' ''tg2''])
   \<and> rule_obtained demo_sdk ''l'' ''api.acme.com'' ''tg2'' 40001 40003 ''r9'' 40002
        [DescribeRules ''l'', CreateRule ''l'' 40002 ''api.acme.com'' ''tg2'']"
proof -
  have run: "EnsureHostRule demo_client ''l'' ''api.acme.com'' ''tg2'' 40001 40003 [] =
     (Inr (''r9'', 40002), [DescribeRules ''l'', CreateRule ''l'' 40002 ''api.acme.com'' ''tg2''])"
    by code_simp
  have norm: "TrimSpace ''l'' = ''l''" "normalHost ''api.acme.com'' = ''api.acme.com''" "TrimSpace ''tg2'' = ''tg2''"
    by code_simp+
  show ?thesis
    using EnsureHostRule_spec [OF run] run by (simp add: norm demo_client_def)
qed

end
