(* ===== verification/Domain_Provisioner.thy ===== *)
theory Domain_Provisioner
  imports Custom_Domain_Store AWS_Client
begin

text \<open>
  The worker that provisions custom domains (\<^verbatim>\<open>cmd/worker/provisioner.go\<close>): one run of
  \<open>ProcessNextJob\<close> claims a job and takes it one step through requesting a certificate, waiting for
  its validation record, waiting for DNS, and attaching certificate and host rule; or it takes a
  deleted domain apart again.

  A run reads one value of each clock. The repository and the AWS client are the models of
  \<^verbatim>\<open>internal/storage\<close> and \<^verbatim>\<open>internal/aws\<close>; a handler threads the table of domains and the history
  of SDK calls. Logging and metrics are left out.
\<close>

section \<open>Retry policy and error classes\<close>

definition CalculateRetryDelay :: "int \<Rightarrow> go_duration" where
  "CalculateRetryDelay attempts =
     (if attempts \<le> 1 then 15 * second
      else if attempts = 2 then 30 * second
      else if attempts = 3 then 1 * minute
      else if attempts = 4 then 2 * minute
      else 5 * minute)"

datatype error_category = ErrorCategoryTransient | ErrorCategoryTerminal

definition ClassifyAWSError :: "aws_error option \<Rightarrow> error_category \<times> string" where
  "ClassifyAWSError err =
     (case err of
        None \<Rightarrow> (ErrorCategoryTransient, [])
      | Some e \<Rightarrow>
          (let errMsg = ae_msg e; lowered = ToLower errMsg
           in if errors_As ResourceNotFoundException e \<or> Contains lowered ''resourcenotfoundexception''
              then (ErrorCategoryTerminal, ''ACM certificate resource not found'')
              else if errors_As InvalidParameterException e \<or> Contains lowered ''invalidparameterexception''
                 \<or> Contains lowered ''invalid domain''
              then (ErrorCategoryTerminal, ''Invalid parameters for ACM certificate request'')
              else if errors_As AccessDeniedException e \<or> Contains lowered ''accessdeniedexception''
                 \<or> Contains lowered ''access denied''
              then (ErrorCategoryTerminal, ''AWS IAM access denied for ACM operation'')
              else if errors_As ThrottlingException e \<or> errors_As LimitExceededException e
                 \<or> Contains lowered ''throttling'' \<or> Contains lowered ''toomanyrequests''
                 \<or> Contains lowered ''limitexceeded'' \<or> Contains lowered ''timeout''
                 \<or> Contains lowered ''connection refused'' \<or> Contains lowered ''503''
                 \<or> Contains lowered ''500''
              then (ErrorCategoryTransient, ''AWS ACM service transient error / throttling'')
              else (ErrorCategoryTransient, ''AWS ACM operation failed transiently: '' @ errMsg)))"

definition isResourceNotFoundErr :: "aws_error option \<Rightarrow> bool" where
  "isResourceNotFoundErr err =
     (case err of
        None \<Rightarrow> False
      | Some e \<Rightarrow>
          errors_As ResourceNotFoundException e
          \<or> (let lowered = ToLower (ae_msg e)
             in Contains lowered ''resourcenotfoundexception'' \<or> Contains lowered ''not found''
                \<or> Contains lowered ''does not exist''))"

definition SanitizeACMFailureReason :: "string \<Rightarrow> string" where
  "SanitizeACMFailureReason reason =
     (let r = ToUpper (TrimSpace reason)
      in if r = ''DOMAIN_VALIDATION_TIMED_OUT'' \<or> r = ''VALIDATION_TIMED_OUT'' then ''ACM domain validation timed out''
         else if r = ''FAILURE_REASON_NO_AVAILABLE_CONTACTS'' then ''ACM validation failed: no available contacts''
         else if r = ''FAILURE_REASON_ADDITIONAL_VERIFICATION_REQUIRED''
         then ''ACM validation failed: additional verification required''
         else if r = ''REVOKED'' then ''ACM certificate was revoked''
         else if r = ''EXPIRED'' then ''ACM certificate expired''
         else if r = ''INACTIVE'' then ''ACM certificate is inactive''
         else if reason \<noteq> [] then ''ACM certificate failed: '' @ reason
         else ''ACM certificate issuance failed'')"

section \<open>The provisioner\<close>

text \<open>\<open>pv_sha256hex\<close> is the hexadecimal SHA-256 digest of a text, a function of Go's library.\<close>

record provisioner =
  pv_certificates :: "aws_client option"
  pv_loadBalancer :: "aws_client option"
  pv_workerID :: string
  pv_listenerARN :: string
  pv_pollInterval :: go_duration
  pv_sha256hex :: "string \<Rightarrow> string"

definition GenerateACMIdempotencyToken :: "(string \<Rightarrow> string) \<Rightarrow> uuid \<Rightarrow> string" where
  "GenerateACMIdempotencyToken sha256hex domainID = ''eg'' @ take 30 (sha256hex domainID)"

text \<open>A nil interface that is called panics.\<close>

datatype worker_error = LeaseTokenMissing | RepoFailed repo_error | NilDereference

type_synonym step_result = "worker_error option \<times> domains \<times> sdk_call list"

definition repo_step :: "repo_error option \<times> domains \<Rightarrow> sdk_call list \<Rightarrow> step_result" where
  "repo_step res h = (map_option RepoFailed (fst res), snd res, h)"

definition failJob :: "db_env \<Rightarrow> provisioning_job \<Rightarrow> uuid \<Rightarrow> provisioning_status \<Rightarrow> string \<Rightarrow> domains \<Rightarrow> repo_error option \<times> domains" where
  "failJob env job leaseToken st reason t = MarkProvisioningFailed env (pj_ID job) leaseToken st reason t"

definition retryJob :: "db_env \<Rightarrow> provisioning_job \<Rightarrow> uuid \<Rightarrow> provisioning_status \<Rightarrow> string \<Rightarrow> domains \<Rightarrow> repo_error option \<times> domains" where
  "retryJob env job leaseToken st reason t =
     ScheduleProvisioningRetry env (pj_ID job) leaseToken st
       (de_clock env + CalculateRetryDelay (pj_ProvisioningAttempts job + 1)) reason t"

definition pollJob :: "provisioner \<Rightarrow> db_env \<Rightarrow> provisioning_job \<Rightarrow> uuid \<Rightarrow> provisioning_status \<Rightarrow> domains \<Rightarrow> repo_error option \<times> domains" where
  "pollJob p env job leaseToken st t =
     ScheduleProvisioningPoll env (pj_ID job) leaseToken st (de_clock env + pv_pollInterval p) t"

text \<open>What a handler does with an error of AWS: terminal errors fail the job, others retry it.\<close>

definition awsFailure :: "db_env \<Rightarrow> provisioning_job \<Rightarrow> uuid \<Rightarrow> provisioning_status \<Rightarrow> aws_error \<Rightarrow> domains \<Rightarrow> repo_error option \<times> domains" where
  "awsFailure env job leaseToken st e t =
     (let (cat, reason) = ClassifyAWSError (Some e)
      in if cat = ErrorCategoryTerminal then failJob env job leaseToken st reason t
         else retryJob env job leaseToken st reason t)"

definition no_params :: "provisioning_job \<Rightarrow> uuid \<Rightarrow> provisioning_status \<Rightarrow> provisioning_status \<Rightarrow> go_time \<Rightarrow> advance_params" where
  "no_params job leaseToken expected new next =
     \<lparr>ap_ID = pj_ID job, ap_LeaseToken = leaseToken, ap_ExpectedStatus = expected, ap_NewStatus = new,
      ap_CertificateARN = None, ap_CertificateStatus = None, ap_Managed = None, ap_ValidationName = None,
      ap_ValidationValue = None, ap_CertificateRequestedAt = None, ap_CertificateIssuedAt = None,
      ap_CertificateAttachedAt = None, ap_NextRetryAt = Some next\<rparr>"

definition certificateRequested :: "db_env \<Rightarrow> provisioning_job \<Rightarrow> uuid \<Rightarrow> string \<Rightarrow> advance_params" where
  "certificateRequested env job leaseToken arn =
     (no_params job leaseToken PsRequestingCertificate PsWaitingForValidationRecord (de_clock env))
       \<lparr>ap_CertificateARN := Some arn, ap_CertificateStatus := Some ''pending_validation'',
        ap_Managed := Some True, ap_CertificateRequestedAt := Some (de_clock env)\<rparr>"

definition handleRequestingCertificate ::
  "provisioner \<Rightarrow> db_env \<Rightarrow> provisioning_job \<Rightarrow> domains \<Rightarrow> sdk_call list \<Rightarrow> step_result" where
  "handleRequestingCertificate p env job t h =
     (case pj_LeaseToken job of
        None \<Rightarrow> (Some LeaseTokenMissing, t, h)
      | Some leaseToken \<Rightarrow>
          if ToString (pj_CertificateARN job) \<noteq> []
          then repo_step (AdvanceProvisioningState env
                 (certificateRequested env job leaseToken (ToString (pj_CertificateARN job))) t) h
          else
            (case pv_certificates p of
               None \<Rightarrow> (Some NilDereference, t, h)
             | Some c \<Rightarrow>
                 (case RequestCertificate c (pj_Hostname job)
                         (GenerateACMIdempotencyToken (pv_sha256hex p) (pj_ID job)) h of
                    (Inl e, h1) \<Rightarrow> repo_step (awsFailure env job leaseToken PsRequestingCertificate e t) h1
                  | (Inr certARN, h1) \<Rightarrow>
                      repo_step (AdvanceProvisioningState env (certificateRequested env job leaseToken certARN) t) h1)))"

text \<open>The three later states share their start: the lease, the certificate ARN and its description.\<close>

definition withCertificate ::
  "provisioner \<Rightarrow> db_env \<Rightarrow> provisioning_job \<Rightarrow> provisioning_status \<Rightarrow> string \<Rightarrow> domains \<Rightarrow> sdk_call list
    \<Rightarrow> (uuid \<Rightarrow> string \<Rightarrow> certificate_details \<Rightarrow> sdk_call list \<Rightarrow> step_result) \<Rightarrow> step_result" where
  "withCertificate p env job st missing t h continue =
     (case pj_LeaseToken job of
        None \<Rightarrow> (Some LeaseTokenMissing, t, h)
      | Some leaseToken \<Rightarrow>
          if ToString (pj_CertificateARN job) = [] then repo_step (failJob env job leaseToken st missing t) h
          else if st = PsAttachingCertificate \<and> \<not> pj_Managed job
          then repo_step (failJob env job leaseToken st ''Certificate not managed by EliteGate'' t) h
          else
            (case pv_certificates p of
               None \<Rightarrow> (Some NilDereference, t, h)
             | Some c \<Rightarrow>
                 (case DescribeCertificate c (ToString (pj_CertificateARN job)) h of
                    (Inl e, h1) \<Rightarrow> repo_step (awsFailure env job leaseToken st e t) h1
                  | (Inr details, h1) \<Rightarrow> continue leaseToken (ToString (pj_CertificateARN job)) details h1)))"

definition handleWaitingForValidationRecord ::
  "provisioner \<Rightarrow> db_env \<Rightarrow> provisioning_job \<Rightarrow> domains \<Rightarrow> sdk_call list \<Rightarrow> step_result" where
  "handleWaitingForValidationRecord p env job t h =
     withCertificate p env job PsWaitingForValidationRecord
       ''Missing ACM certificate ARN in waiting_for_validation_record state'' t h
       (\<lambda>leaseToken arn details h1.
          if ct_Status details = ''FAILED'' \<or> ct_FailureReason details \<noteq> []
          then repo_step (failJob env job leaseToken PsWaitingForValidationRecord
                 (''ACM certificate failed validation: '' @ ct_FailureReason details) t) h1
          else if ct_ValidationName details = [] \<or> ct_ValidationValue details = []
          then repo_step (pollJob p env job leaseToken PsWaitingForValidationRecord t) h1
          else repo_step (AdvanceProvisioningState env
                 ((no_params job leaseToken PsWaitingForValidationRecord PsWaitingForDNS (de_clock env + pv_pollInterval p))
                    \<lparr>ap_ValidationName := Some (ct_ValidationName details),
                     ap_ValidationValue := Some (ct_ValidationValue details),
                     ap_CertificateStatus := Some (ct_Status details)\<rparr>) t) h1)"

definition acmFailedStatus :: "string \<Rightarrow> bool" where
  "acmFailedStatus s = (s = ''FAILED'' \<or> s = ''VALIDATION_TIMED_OUT'' \<or> s = ''REVOKED'' \<or> s = ''EXPIRED'' \<or> s = ''INACTIVE'')"

definition acmFailMsg :: "certificate_details \<Rightarrow> string \<Rightarrow> string" where
  "acmFailMsg details statusUpper =
     (if ct_FailureReason details = [] then SanitizeACMFailureReason statusUpper
      else SanitizeACMFailureReason (ct_FailureReason details))"

definition handleWaitingForDNS ::
  "provisioner \<Rightarrow> db_env \<Rightarrow> provisioning_job \<Rightarrow> domains \<Rightarrow> sdk_call list \<Rightarrow> step_result" where
  "handleWaitingForDNS p env job t h =
     withCertificate p env job PsWaitingForDNS ''Missing ACM certificate ARN in waiting_for_dns state'' t h
       (\<lambda>leaseToken arn details h1.
          let statusUpper = ToUpper (TrimSpace (ct_Status details))
          in if statusUpper = ''ISSUED''
             then repo_step (AdvanceProvisioningState env
                    ((no_params job leaseToken PsWaitingForDNS PsAttachingCertificate (de_clock env))
                       \<lparr>ap_CertificateStatus := Some ''issued'',
                        ap_CertificateIssuedAt := (case ct_IssuedAt details of None \<Rightarrow> Some (de_clock env) | x \<Rightarrow> x)\<rparr>) t) h1
             else if statusUpper = ''PENDING_VALIDATION'' then repo_step (pollJob p env job leaseToken PsWaitingForDNS t) h1
             else if acmFailedStatus statusUpper
             then repo_step (failJob env job leaseToken PsWaitingForDNS (acmFailMsg details statusUpper) t) h1
             else if pj_ProvisioningAttempts job \<ge> 5
             then repo_step (failJob env job leaseToken PsWaitingForDNS (''Unknown ACM certificate status: '' @ statusUpper) t) h1
             else repo_step (retryJob env job leaseToken PsWaitingForDNS (''Unrecognized ACM status: '' @ statusUpper) t) h1)"

fun repo_error_text :: "repo_error \<Rightarrow> string" where
  "repo_error_text ErrCustomDomainNotFound = ''custom domain not found''"
| "repo_error_text ErrHostnameConflict = ''hostname already registered''"
| "repo_error_text ErrStaleLease = ''stale lease token or lock expired''"
| "repo_error_text ErrInvalidStateTransition = ''invalid provisioning state transition''"
| "repo_error_text ErrDomainNotEligible = ''custom domain not eligible for provisioning''"
| "repo_error_text ErrDomainNotEligibleForRetry = ''custom domain not eligible for retry''"
| "repo_error_text ErrDomainAlreadyDeprovisioned = ''custom domain already deprovisioned''"
| "repo_error_text ErrProjectGatewayIngressNotReady = ''project dedicated gateway ingress is not ready''"
| "repo_error_text ErrGatewayNotFound = ''gateway not found''"
| "repo_error_text ErrStaleGatewayIngressLease = ''gateway ingress job lease is stale''"
| "repo_error_text (ErrInvalidDockerHostPort p) = ''invalid Docker host port '' @ p"
| "repo_error_text ErrInvalidPriorityRange = ''invalid ALB listener priority range''"
| "repo_error_text ErrNoPriorityAvailable = ''no ALB listener-rule priority is available''"
| "repo_error_text (SqlError stmt e) = stmt @ '': '' @ e"

text \<open>Steps 2 to 5 of the attachment, once the certificate is known to be issued.\<close>

definition attachIssued ::
  "provisioner \<Rightarrow> db_env \<Rightarrow> gateways \<Rightarrow> provisioning_job \<Rightarrow> uuid \<Rightarrow> string \<Rightarrow> domains \<Rightarrow> sdk_call list \<Rightarrow> step_result" where
  "attachIssued p env g job leaseToken arn t h1 =
     (case pv_loadBalancer p of
        None \<Rightarrow> (Some NilDereference, t, h1)
      | Some lb \<Rightarrow>
          (case AttachCertificateToListener lb (pv_listenerARN p) arn h1 of
             (Inl e, h2) \<Rightarrow> repo_step (awsFailure env job leaseToken PsAttachingCertificate e t) h2
           | (Inr _, h2) \<Rightarrow>
               (case GetActiveProjectGatewayIngress env (pj_ProjectID job) g of
                  Inl e \<Rightarrow>
                    repo_step (retryJob env job leaseToken PsAttachingCertificate
                      (if e = ErrProjectGatewayIngressNotReady then ''Project dedicated gateway ingress is not ready''
                       else ''Failed to query active project gateway ingress: '' @ repo_error_text e) t) h2
                | Inr gatewayIngress \<Rightarrow>
                    (case EnsureHostRule lb (pv_listenerARN p) (pj_Hostname job)
                            (pgi_TargetGroupARN gatewayIngress) 40001 50000 h2 of
                       (Inl e, h3) \<Rightarrow>
                         if errors_As HostRuleTargetConflict e
                         then repo_step (failJob env job leaseToken PsAttachingCertificate
                                ''Custom domain hostname is already routed to another target group'' t) h3
                         else repo_step (awsFailure env job leaseToken PsAttachingCertificate e t) h3
                     | (Inr (ruleARN, priority), h3) \<Rightarrow>
                         repo_step (MarkProvisioningCompleted env (pj_ID job) leaseToken ruleARN priority t) h3))))"

definition handleAttachingCertificate ::
  "provisioner \<Rightarrow> db_env \<Rightarrow> gateways \<Rightarrow> provisioning_job \<Rightarrow> domains \<Rightarrow> sdk_call list \<Rightarrow> step_result" where
  "handleAttachingCertificate p env g job t h =
     withCertificate p env job PsAttachingCertificate ''Missing ACM certificate ARN in attaching_certificate state'' t h
       (\<lambda>leaseToken arn details h1.
          let statusUpper = ToUpper (TrimSpace (ct_Status details))
          in if statusUpper = ''ISSUED'' then attachIssued p env g job leaseToken arn t h1
             else if statusUpper = ''PENDING_VALIDATION'' then repo_step (pollJob p env job leaseToken PsAttachingCertificate t) h1
             else if acmFailedStatus statusUpper
             then repo_step (failJob env job leaseToken PsAttachingCertificate (acmFailMsg details statusUpper) t) h1
             else repo_step (retryJob env job leaseToken PsAttachingCertificate
                    (''Unrecognized ACM status during attachment: '' @ statusUpper) t) h1)"

section \<open>Taking a domain apart\<close>

definition deprovisionFailure ::
  "db_env \<Rightarrow> provisioning_job \<Rightarrow> uuid \<Rightarrow> aws_error \<Rightarrow> domains \<Rightarrow> repo_error option \<times> domains" where
  "deprovisionFailure env job leaseToken e t =
     (let (cat, reason) = ClassifyAWSError (Some e)
      in if cat = ErrorCategoryTransient then retryJob env job leaseToken PsDeprovisioning reason t
         else MarkDeprovisionFailed env (pj_ID job) leaseToken reason t)"

text \<open>
  One AWS call of the clean-up: a missing resource counts as done, any other error ends the run.
\<close>

definition cleanup ::
  "db_env \<Rightarrow> provisioning_job \<Rightarrow> uuid \<Rightarrow> (aws_error + unit) \<times> sdk_call list \<Rightarrow> domains
    \<Rightarrow> (sdk_call list \<Rightarrow> step_result) \<Rightarrow> step_result" where
  "cleanup env job leaseToken res t continue =
     (case res of
        (Inr _, h) \<Rightarrow> continue h
      | (Inl e, h) \<Rightarrow>
          if \<not> isResourceNotFoundErr (Some e) then repo_step (deprovisionFailure env job leaseToken e t) h
          else continue h)"

definition deleteCertificateStep ::
  "provisioner \<Rightarrow> db_env \<Rightarrow> provisioning_job \<Rightarrow> uuid \<Rightarrow> domains \<Rightarrow> sdk_call list \<Rightarrow> step_result" where
  "deleteCertificateStep p env job leaseToken t h =
     (let finish = repo_step (MarkDeprovisioned env (pj_ID job) leaseToken t)
      in case pv_certificates p of
           None \<Rightarrow> finish h
         | Some c \<Rightarrow> cleanup env job leaseToken (DeleteCertificate c (ToString (pj_CertificateARN job)) h) t finish)"

definition deprovisionCertificate ::
  "provisioner \<Rightarrow> db_env \<Rightarrow> provisioning_job \<Rightarrow> uuid \<Rightarrow> domains \<Rightarrow> sdk_call list \<Rightarrow> step_result" where
  "deprovisionCertificate p env job leaseToken t h =
     (let certARN = ToString (pj_CertificateARN job)
      in if certARN \<noteq> [] \<and> pj_Managed job
         then (case (pv_listenerARN p \<noteq> [], pv_loadBalancer p) of
                 (True, Some lb) \<Rightarrow>
                   cleanup env job leaseToken (DetachCertificateFromListener lb (pv_listenerARN p) certARN h) t
                     (deleteCertificateStep p env job leaseToken t)
               | _ \<Rightarrow> deleteCertificateStep p env job leaseToken t h)
         else repo_step (MarkDeprovisioned env (pj_ID job) leaseToken t) h)"

definition handleDeprovisioning ::
  "provisioner \<Rightarrow> db_env \<Rightarrow> provisioning_job \<Rightarrow> domains \<Rightarrow> sdk_call list \<Rightarrow> step_result" where
  "handleDeprovisioning p env job t h =
     (case pj_LeaseToken job of
        None \<Rightarrow> (Some LeaseTokenMissing, t, h)
      | Some leaseToken \<Rightarrow>
          (case (TrimSpace (ToString (pj_ListenerRuleARN job)) \<noteq> [], pv_loadBalancer p) of
             (True, Some lb) \<Rightarrow>
               cleanup env job leaseToken (DeleteGatewayHostRule lb (ToString (pj_ListenerRuleARN job)) h) t
                 (deprovisionCertificate p env job leaseToken t)
           | _ \<Rightarrow> deprovisionCertificate p env job leaseToken t h))"

section \<open>One run of the worker\<close>

definition handleJob ::
  "provisioner \<Rightarrow> db_env \<Rightarrow> gateways \<Rightarrow> provisioning_job \<Rightarrow> domains \<Rightarrow> sdk_call list \<Rightarrow> step_result" where
  "handleJob p env g job t h =
     (case pj_ProvisioningStatus job of
        PsRequestingCertificate \<Rightarrow> handleRequestingCertificate p env job t h
      | PsWaitingForValidationRecord \<Rightarrow> handleWaitingForValidationRecord p env job t h
      | PsWaitingForDNS \<Rightarrow> handleWaitingForDNS p env job t h
      | PsAttachingCertificate \<Rightarrow> handleAttachingCertificate p env g job t h
      | PsDeprovisioning \<Rightarrow> handleDeprovisioning p env job t h
      | _ \<Rightarrow>
          (case pj_LeaseToken job of
             None \<Rightarrow> (None, t, h)
           | Some leaseToken \<Rightarrow> (None, snd (ReleaseProvisioningLease env (pj_ID job) leaseToken t), h)))"

definition ProcessNextJob ::
  "provisioner \<Rightarrow> db_env \<Rightarrow> gateways \<Rightarrow> domains \<Rightarrow> sdk_call list \<Rightarrow> (bool \<times> worker_error option) \<times> domains \<times> sdk_call list" where
  "ProcessNextJob p env g t h =
     (case ClaimNextProvisioningJob env (pv_workerID p) (5 * minute) t of
        (Inl e, t1) \<Rightarrow> ((False, Some (RepoFailed e)), t1, h)
      | (Inr None, t1) \<Rightarrow> ((False, None), t1, h)
      | (Inr (Some job), t1) \<Rightarrow>
          (case handleJob p env g job t1 h of (err, t2, h2) \<Rightarrow> ((True, err), t2, h2)))"

section \<open>How rows move\<close>

definition provisioning_edges :: "provisioning_status \<Rightarrow> provisioning_status list" where
  "provisioning_edges s =
     (case s of
        PsRequestingCertificate \<Rightarrow> [PsWaitingForValidationRecord, PsFailed]
      | PsWaitingForValidationRecord \<Rightarrow> [PsWaitingForDNS, PsFailed]
      | PsWaitingForDNS \<Rightarrow> [PsAttachingCertificate, PsFailed]
      | PsAttachingCertificate \<Rightarrow> [PsCompleted, PsFailed]
      | PsDeprovisioning \<Rightarrow> [PsDeprovisioned, PsDeprovisionFailed]
      | _ \<Rightarrow> [])"

definition row_moved :: "custom_domain \<Rightarrow> custom_domain \<Rightarrow> bool" where
  "row_moved r r' \<longleftrightarrow>
     cd_ID r' = cd_ID r \<and> cd_ProjectID r' = cd_ProjectID r \<and> cd_Hostname r' = cd_Hostname r
     \<and> cd_VerificationTokenHash r' = cd_VerificationTokenHash r \<and> cd_VerificationRecordName r' = cd_VerificationRecordName r
     \<and> cd_RoutingStatus r' = cd_RoutingStatus r \<and> cd_VerifiedAt r' = cd_VerifiedAt r
     \<and> (cd_ProvisioningStatus r' = cd_ProvisioningStatus r
        \<or> cd_ProvisioningStatus r' \<in> set (provisioning_edges (cd_ProvisioningStatus r)))
     \<and> (cd_Status r' = cd_Status r \<or> cd_Status r' = DsActive \<and> cd_ProvisioningStatus r' = PsCompleted)
     \<and> (cd_DeletedAt r' = cd_DeletedAt r \<or> cd_ProvisioningStatus r' = PsDeprovisioned)"

text \<open>
  A step that only updates rows of one domain, along the edges; \<open>quiet_rows\<close> in addition neither
  completes nor deprovisions it.
\<close>

definition moves_rows :: "uuid \<Rightarrow> domains \<Rightarrow> domains \<Rightarrow> bool" where
  "moves_rows i t t' \<longleftrightarrow>
     t' = t \<or> (\<exists>P f. t' = sql_update P f t \<and> (\<forall>r. P r \<longrightarrow> cd_ID r = i \<and> row_moved r (f r)))"

definition quiet_rows :: "uuid \<Rightarrow> domains \<Rightarrow> domains \<Rightarrow> bool" where
  "quiet_rows i t t' \<longleftrightarrow>
     t' = t \<or> (\<exists>P f. t' = sql_update P f t \<and> (\<forall>r. P r \<longrightarrow> cd_ID r = i \<and> row_moved r (f r)
        \<and> cd_ProvisioningStatus (f r) \<notin> {PsCompleted, PsDeprovisioned}))"

lemma quiet_moves: "quiet_rows i t t' \<Longrightarrow> moves_rows i t t'"
  unfolding quiet_rows_def moves_rows_def by blast

lemma quiet_rows_same [simp]: "quiet_rows i t t"
  by (simp add: quiet_rows_def)

lemma quiet_rows_exec:
  assumes "\<And>r. P r \<Longrightarrow> cd_ID r = i \<and> row_moved r (f r) \<and> cd_ProvisioningStatus (f r) \<notin> {PsCompleted, PsDeprovisioned}"
  shows "quiet_rows i t (snd (cd_exec_leased env s s' P f why t))"
  using cd_exec_leased_snd [of env s s' P f why t] assms unfolding quiet_rows_def by blast

lemma moves_rows_exec:
  assumes "\<And>r. P r \<Longrightarrow> cd_ID r = i \<and> row_moved r (f r)"
  shows "moves_rows i t (snd (cd_exec_leased env s s' P f why t))"
  using cd_exec_leased_snd [of env s s' P f why t] assms unfolding moves_rows_def by blast

lemma worker_set_simps:
  "row_moved r (Poll_set env n r)" "row_moved r (Retry_set env n m r)" "row_moved r (cd_unlock env r)"
  "cd_ProvisioningStatus (Poll_set env n r) = cd_ProvisioningStatus r"
  "cd_ProvisioningStatus (Retry_set env n m r) = cd_ProvisioningStatus r"
  "cd_ProvisioningStatus (Failed_set env m r) = PsFailed"
  "cd_ProvisioningStatus (Advance_set env p r) = ap_NewStatus p"
  "PsFailed \<in> set (provisioning_edges (cd_ProvisioningStatus r)) \<Longrightarrow> row_moved r (Failed_set env m r)"
  "ap_NewStatus p \<in> set (provisioning_edges (cd_ProvisioningStatus r)) \<Longrightarrow> row_moved r (Advance_set env p r)"
  by (simp_all add: row_moved_def Poll_set_def Retry_set_def Failed_set_def Advance_set_def cd_unlock_def)

definition working :: "provisioning_status \<Rightarrow> bool" where
  "working st \<longleftrightarrow> st \<in> {PsRequestingCertificate, PsWaitingForValidationRecord, PsWaitingForDNS, PsAttachingCertificate}"

lemma working_edges: "working st \<Longrightarrow> PsFailed \<in> set (provisioning_edges st) \<and> st \<notin> {PsCompleted, PsDeprovisioned}"
  by (auto simp: working_def provisioning_edges_def)

lemma failJob_quiet: "working st \<Longrightarrow> quiet_rows (pj_ID job) t (snd (failJob env job u st m t))"
  unfolding failJob_def MarkProvisioningFailed_def
  by (rule quiet_rows_exec) (auto simp: cd_leased_def worker_set_simps dest: working_edges)

lemma retryJob_quiet: "st \<notin> {PsCompleted, PsDeprovisioned} \<Longrightarrow> quiet_rows (pj_ID job) t (snd (retryJob env job u st m t))"
  unfolding retryJob_def ScheduleProvisioningRetry_def
  by (rule quiet_rows_exec) (auto simp: cd_leased_def worker_set_simps)

lemma pollJob_quiet: "working st \<Longrightarrow> quiet_rows (pj_ID job) t (snd (pollJob p env job u st t))"
  unfolding pollJob_def ScheduleProvisioningPoll_def
  by (rule quiet_rows_exec) (auto simp: cd_leased_def worker_set_simps dest: working_edges)

lemma awsFailure_quiet: "working st \<Longrightarrow> quiet_rows (pj_ID job) t (snd (awsFailure env job u st e t))"
  using failJob_quiet [of st job t env u] retryJob_quiet [of st job t env u] working_edges [of st]
  by (auto simp: awsFailure_def split: prod.split)

lemma advance_quiet:
  assumes "ap_NewStatus p \<in> set (provisioning_edges (ap_ExpectedStatus p))"
    and "ap_NewStatus p \<notin> {PsCompleted, PsDeprovisioned}"
  shows "quiet_rows (ap_ID p) t (snd (AdvanceProvisioningState env p t))"
  unfolding AdvanceProvisioningState_def
  by (rule quiet_rows_exec) (use assms in \<open>auto simp: cd_leased_def worker_set_simps\<close>)

lemma repo_step_simps [simp]:
  "fst (repo_step res h) = map_option RepoFailed (fst res)" "fst (snd (repo_step res h)) = snd res"
  "snd (snd (repo_step res h)) = h"
  by (simp_all add: repo_step_def)

lemmas handler_quiet = failJob_quiet retryJob_quiet pollJob_quiet awsFailure_quiet

lemma withCertificate_rows:
  assumes st: "working st"
    and cont: "\<And>u arn d h'. R (fst (snd (continue u arn d h')))"
    and quiet: "\<And>t'. quiet_rows (pj_ID job) t t' \<Longrightarrow> R t'"
  shows "R (fst (snd (withCertificate p env job st m t h continue)))"
  unfolding withCertificate_def
  using cont quiet [OF failJob_quiet [OF st]] quiet [OF awsFailure_quiet [OF st]] quiet [OF quiet_rows_same]
  by (auto split: option.split prod.split sum.split)

lemma handleRequesting_quiet: "quiet_rows (pj_ID job) t (fst (snd (handleRequestingCertificate p env job t h)))"
proof -
  have "quiet_rows (pj_ID job) t (snd (AdvanceProvisioningState env (certificateRequested env job u arn) t))" for u arn
    using advance_quiet [of "certificateRequested env job u arn" t env]
    by (simp add: certificateRequested_def no_params_def provisioning_edges_def)
  then show ?thesis
    unfolding handleRequestingCertificate_def
    by (simp add: awsFailure_quiet working_def split: option.split prod.split sum.split)
qed

lemma handleValidation_quiet: "quiet_rows (pj_ID job) t (fst (snd (handleWaitingForValidationRecord p env job t h)))"
  unfolding handleWaitingForValidationRecord_def
proof (rule withCertificate_rows [where R = "quiet_rows (pj_ID job) t"])
  fix u arn d h'
  let ?p = "(no_params job u PsWaitingForValidationRecord PsWaitingForDNS (de_clock env + pv_pollInterval p))
    \<lparr>ap_ValidationName := Some (ct_ValidationName d), ap_ValidationValue := Some (ct_ValidationValue d),
     ap_CertificateStatus := Some (ct_Status d)\<rparr>"
  have "quiet_rows (pj_ID job) t (snd (AdvanceProvisioningState env ?p t))"
    using advance_quiet [of ?p t env] by (simp add: no_params_def provisioning_edges_def)
  then show "quiet_rows (pj_ID job) t (fst (snd
      (if ct_Status d = ''FAILED'' \<or> ct_FailureReason d \<noteq> []
       then repo_step (failJob env job u PsWaitingForValidationRecord (''ACM certificate failed validation: '' @ ct_FailureReason d) t) h'
       else if ct_ValidationName d = [] \<or> ct_ValidationValue d = []
       then repo_step (pollJob p env job u PsWaitingForValidationRecord t) h'
       else repo_step (AdvanceProvisioningState env ?p t) h')))"
    using handler_quiet [where st = PsWaitingForValidationRecord] by (simp add: working_def)
qed (simp_all add: working_def)

lemma handleDNS_quiet: "quiet_rows (pj_ID job) t (fst (snd (handleWaitingForDNS p env job t h)))"
  unfolding handleWaitingForDNS_def
proof (rule withCertificate_rows [where R = "quiet_rows (pj_ID job) t"])
  fix u arn d h'
  have adv: "quiet_rows (pj_ID job) t (snd (AdvanceProvisioningState env
      ((no_params job u PsWaitingForDNS PsAttachingCertificate n)\<lparr>ap_CertificateStatus := cs, ap_CertificateIssuedAt := ci\<rparr>) t))"
    for n cs ci
    using advance_quiet [of "(no_params job u PsWaitingForDNS PsAttachingCertificate n)
        \<lparr>ap_CertificateStatus := cs, ap_CertificateIssuedAt := ci\<rparr>" t env]
    by (simp add: no_params_def provisioning_edges_def)
  have w: "working PsWaitingForDNS" "PsWaitingForDNS \<notin> {PsCompleted, PsDeprovisioned}"
    by (simp_all add: working_def)
  show "quiet_rows (pj_ID job) t (fst (snd
      (let statusUpper = ToUpper (TrimSpace (ct_Status d))
       in if statusUpper = ''ISSUED''
          then repo_step (AdvanceProvisioningState env
                 ((no_params job u PsWaitingForDNS PsAttachingCertificate (de_clock env))
                    \<lparr>ap_CertificateStatus := Some ''issued'',
                     ap_CertificateIssuedAt := (case ct_IssuedAt d of None \<Rightarrow> Some (de_clock env) | x \<Rightarrow> x)\<rparr>) t) h'
          else if statusUpper = ''PENDING_VALIDATION'' then repo_step (pollJob p env job u PsWaitingForDNS t) h'
          else if acmFailedStatus statusUpper
          then repo_step (failJob env job u PsWaitingForDNS (acmFailMsg d statusUpper) t) h'
          else if pj_ProvisioningAttempts job \<ge> 5
          then repo_step (failJob env job u PsWaitingForDNS (''Unknown ACM certificate status: '' @ statusUpper) t) h'
          else repo_step (retryJob env job u PsWaitingForDNS (''Unrecognized ACM status: '' @ statusUpper) t) h')))"
    unfolding Let_def using adv failJob_quiet [OF w(1)] pollJob_quiet [OF w(1)] retryJob_quiet [OF w(2)] by simp
qed (simp_all add: working_def)

subsection \<open>Attaching\<close>

text \<open>The steps that have succeeded when a domain is completed.\<close>

definition attached ::
  "provisioner \<Rightarrow> db_env \<Rightarrow> gateways \<Rightarrow> provisioning_job \<Rightarrow> sdk_call list \<Rightarrow> string \<Rightarrow> string \<Rightarrow> int \<Rightarrow> sdk_call list \<Rightarrow> bool" where
  "attached p env g job h arn rule prio h' \<longleftrightarrow>
     arn \<noteq> [] \<and> pj_CertificateARN job = Some arn \<and> pj_Managed job \<and>
     (\<exists>c lb details h1 h2 ingress.
        pv_certificates p = Some c \<and> pv_loadBalancer p = Some lb
        \<and> DescribeCertificate c arn h = (Inr details, h1) \<and> ToUpper (TrimSpace (ct_Status details)) = ''ISSUED''
        \<and> AttachCertificateToListener lb (pv_listenerARN p) arn h1 = (Inr (), h2)
        \<and> GetActiveProjectGatewayIngress env (pj_ProjectID job) g = Inr ingress
        \<and> EnsureHostRule lb (pv_listenerARN p) (pj_Hostname job) (pgi_TargetGroupARN ingress) 40001 50000 h2
            = (Inr (rule, prio), h'))"

lemma handleAttaching_rows:
  assumes "handleAttachingCertificate p env g job t h = (err, t', h')"
  shows "quiet_rows (pj_ID job) t t' \<or>
    (\<exists>u arn rule prio. pj_LeaseToken job = Some u \<and> attached p env g job h arn rule prio h'
       \<and> t' = snd (MarkProvisioningCompleted env (pj_ID job) u rule prio t))"
proof (cases "\<exists>u c details h1. pj_LeaseToken job = Some u \<and> ToString (pj_CertificateARN job) \<noteq> [] \<and> pj_Managed job
    \<and> pv_certificates p = Some c \<and> DescribeCertificate c (ToString (pj_CertificateARN job)) h = (Inr details, h1)
    \<and> ToUpper (TrimSpace (ct_Status details)) = ''ISSUED''")
  case True
  then obtain u c details h1 where u: "pj_LeaseToken job = Some u" and arn: "ToString (pj_CertificateARN job) \<noteq> []"
    and m: "pj_Managed job" and c: "pv_certificates p = Some c"
    and d: "DescribeCertificate c (ToString (pj_CertificateARN job)) h = (Inr details, h1)"
    and iss: "ToUpper (TrimSpace (ct_Status details)) = ''ISSUED''" by blast
  let ?arn = "ToString (pj_CertificateARN job)"
  have arn': "pj_CertificateARN job = Some ?arn" using arn by (auto simp: ToString_def split: option.splits)
  have run: "attachIssued p env g job u ?arn t h1 = (err, t', h')"
    using assms u arn m c d iss by (simp add: handleAttachingCertificate_def withCertificate_def)
  show ?thesis
  proof (cases "\<exists>lb h2 ingress rule prio. pv_loadBalancer p = Some lb
      \<and> AttachCertificateToListener lb (pv_listenerARN p) ?arn h1 = (Inr (), h2)
      \<and> GetActiveProjectGatewayIngress env (pj_ProjectID job) g = Inr ingress
      \<and> EnsureHostRule lb (pv_listenerARN p) (pj_Hostname job) (pgi_TargetGroupARN ingress) 40001 50000 h2
          = (Inr (rule, prio), h')")
    case True
    then obtain rule prio where "attached p env g job h ?arn rule prio h'"
        "t' = snd (MarkProvisioningCompleted env (pj_ID job) u rule prio t)"
      using run arn arn' m c d iss unfolding attached_def attachIssued_def by (auto simp: repo_step_def)
    then show ?thesis using u by blast
  next
    case False
    then have "quiet_rows (pj_ID job) t (fst (snd (attachIssued p env g job u ?arn t h1)))"
      using run awsFailure_quiet [of PsAttachingCertificate job t env u] retryJob_quiet [of PsAttachingCertificate job t env u]
        failJob_quiet [of PsAttachingCertificate job t env u]
      unfolding attachIssued_def
      by (auto simp: working_def repo_step_def split: option.splits prod.splits sum.splits if_splits)
    then show ?thesis using run by simp
  qed
next
  case False
  then have "quiet_rows (pj_ID job) t (fst (snd (handleAttachingCertificate p env g job t h)))"
    using awsFailure_quiet [of PsAttachingCertificate job t env] retryJob_quiet [of PsAttachingCertificate job t env]
        failJob_quiet [of PsAttachingCertificate job t env] pollJob_quiet [of PsAttachingCertificate job t p env]
    unfolding handleAttachingCertificate_def withCertificate_def Let_def
    by (auto simp: working_def split: option.splits prod.splits sum.splits)
  then show ?thesis using assms by simp
qed

lemma completed_moves: "moves_rows i t (snd (MarkProvisioningCompleted env i u rule prio t))"
proof -
  have "row_moved r (Completed_set env rule prio r)" if "cd_leased i u PsAttachingCertificate r" for r
    using that by (simp add: cd_leased_def row_moved_def Completed_set_def cd_unlock_def provisioning_edges_def)
  then show ?thesis
    using Completed_table [of env i u rule prio t] unfolding moves_rows_def cd_leased_def by blast
qed

subsection \<open>Taking apart\<close>

definition cleanup_calls :: "provisioner \<Rightarrow> provisioning_job \<Rightarrow> sdk_call list" where
  "cleanup_calls p job =
     (let rule = ToString (pj_ListenerRuleARN job); cert = ToString (pj_CertificateARN job); lb = pv_loadBalancer p \<noteq> None
      in (if TrimSpace rule \<noteq> [] \<and> lb then [DeleteRule rule] else [])
         @ (if cert \<noteq> [] \<and> pj_Managed job
            then (if pv_listenerARN p \<noteq> [] \<and> lb then [RemoveListenerCertificates (pv_listenerARN p) cert] else [])
                 @ (if pv_certificates p \<noteq> None then [AcmDeleteCertificate cert] else [])
            else []))"

lemma deprovisionFailure_quiet: "quiet_rows (pj_ID job) t (snd (deprovisionFailure env job u e t))"
proof -
  have "quiet_rows (pj_ID job) t (snd (MarkDeprovisionFailed env (pj_ID job) u m t))" for m
    unfolding MarkDeprovisionFailed_def
    by (rule quiet_rows_exec)
       (auto simp: cd_deprovisioning_def row_moved_def DeprovisionFailed_set_def cd_unlock_def provisioning_edges_def)
  then show ?thesis
    using retryJob_quiet [of PsDeprovisioning job t env u] by (auto simp: deprovisionFailure_def split: prod.split)
qed

lemma client_errors:
  "with_client c sdk off missing = Inl e \<Longrightarrow> e = plain_error off \<or> e = plain_error missing"
  by (auto simp: with_client_def split: if_splits option.splits)

lemma not_found_texts:
  "\<not> isResourceNotFoundErr (Some (plain_error ''AWS automation is disabled''))"
  "\<not> isResourceNotFoundErr (Some (plain_error ''AWS custom domain automation is disabled''))"
  "\<not> isResourceNotFoundErr (Some (plain_error ''ALB client is not initialized''))"
  "\<not> isResourceNotFoundErr (Some (plain_error ''ACM client is not initialized''))"
  by code_simp+

text \<open>A clean-up call is made, or the client refuses it with an error that is not a missing resource.\<close>

definition made_or_refused :: "(aws_error + unit) \<times> sdk_call list \<Rightarrow> sdk_call list \<Rightarrow> sdk_call \<Rightarrow> bool" where
  "made_or_refused res h call \<longleftrightarrow>
     snd res = h @ [call] \<or> snd res = h \<and> (\<exists>e. fst res = Inl e \<and> \<not> isResourceNotFoundErr (Some e))"

lemma cleanup_calls_made:
  "made_or_refused (DeleteGatewayHostRule c rule h) h (DeleteRule rule)"
  "made_or_refused (DetachCertificateFromListener c l cert h) h (RemoveListenerCertificates l cert)"
  "made_or_refused (DeleteCertificate c cert h) h (AcmDeleteCertificate cert)"
  unfolding DeleteGatewayHostRule_def DetachCertificateFromListener_def DeleteCertificate_def
    gatewayALBClient_def alb_of_def acm_of_def made_or_refused_def
  using not_found_texts by (auto split: sum.split dest!: client_errors)

lemma cleanup_cases:
  assumes "cleanup env job u res t continue = (err, t', h')" "made_or_refused res h call"
  shows "quiet_rows (pj_ID job) t t' \<and> h' \<in> {h, h @ [call]} \<or> continue (h @ [call]) = (err, t', h')"
proof (cases "fst res")
  case (Inl e)
  then show ?thesis
    using assms deprovisionFailure_quiet [of job t env u e]
    unfolding cleanup_def made_or_refused_def repo_step_def
    by (auto split: prod.splits if_splits)
next
  case (Inr x)
  then show ?thesis
    using assms unfolding cleanup_def made_or_refused_def by (auto split: prod.splits)
qed

lemma deprovisionCertificate_rows:
  assumes "deprovisionCertificate p env job u t h = (err, t', h')"
    and cs: "cs = (if ToString (pj_CertificateARN job) \<noteq> [] \<and> pj_Managed job
            then (if pv_listenerARN p \<noteq> [] \<and> pv_loadBalancer p \<noteq> None
                  then [RemoveListenerCertificates (pv_listenerARN p) (ToString (pj_CertificateARN job))] else [])
                 @ (if pv_certificates p \<noteq> None then [AcmDeleteCertificate (ToString (pj_CertificateARN job))] else [])
            else [])"
  shows "(\<exists>n. h' = h @ take n cs) \<and>
    (quiet_rows (pj_ID job) t t' \<or> h' = h @ cs \<and> t' = snd (MarkDeprovisioned env (pj_ID job) u t))"
proof -
  let ?cert = "ToString (pj_CertificateARN job)"
  let ?fin = "\<lambda>h'. repo_step (MarkDeprovisioned env (pj_ID job) u t) h'"
  let ?ds = "if pv_certificates p \<noteq> None then [AcmDeleteCertificate ?cert] else []"
  let ?del = "deleteCertificateStep p env job u t"
  have fin: "?fin k = (err, t', h') \<Longrightarrow> h' = k \<and> t' = snd (MarkDeprovisioned env (pj_ID job) u t)" for k
    by (auto simp: repo_step_def)
  have del: "(\<exists>n. h' = k @ take n ?ds) \<and>
      (quiet_rows (pj_ID job) t t' \<or> h' = k @ ?ds \<and> t' = snd (MarkDeprovisioned env (pj_ID job) u t))"
    if run: "?del k = (err, t', h')" for k
  proof (cases "pv_certificates p")
    case None
    then show ?thesis using run fin by (simp add: deleteCertificateStep_def)
  next
    case (Some c)
    then have "cleanup env job u (DeleteCertificate c ?cert k) t ?fin = (err, t', h')"
      using run by (simp add: deleteCertificateStep_def)
    from cleanup_cases [OF this cleanup_calls_made(3)]
    have "quiet_rows (pj_ID job) t t' \<and> (h' = k \<or> h' = k @ ?ds)
        \<or> h' = k @ ?ds \<and> t' = snd (MarkDeprovisioned env (pj_ID job) u t)"
      using fin Some by auto
    moreover have "k = k @ take 0 ?ds" "k @ ?ds = k @ take 1 ?ds" by simp_all
    ultimately show ?thesis by metis
  qed
  consider (none) "\<not> (?cert \<noteq> [] \<and> pj_Managed job)" "?fin h = (err, t', h')"
    | (direct) "?cert \<noteq> []" "pj_Managed job" "pv_listenerARN p = [] \<or> pv_loadBalancer p = None" "?del h = (err, t', h')"
    | (detach) lb where "?cert \<noteq> []" "pj_Managed job" "pv_listenerARN p \<noteq> []" "pv_loadBalancer p = Some lb"
        "cleanup env job u (DetachCertificateFromListener lb (pv_listenerARN p) ?cert h) t ?del = (err, t', h')"
    using assms(1) unfolding deprovisionCertificate_def Let_def
    by (auto split: if_splits option.splits bool.splits)
  then show ?thesis
  proof cases
    case none
    then show ?thesis using fin [of h] cs by auto
  next
    case direct
    then have "cs = ?ds" using cs by auto
    then show ?thesis using del [OF direct(4)] by simp
  next
    case (detach lb)
    let ?rm = "RemoveListenerCertificates (pv_listenerARN p) ?cert"
    have cs': "cs = ?rm # ?ds" using cs detach by simp
    from cleanup_cases [OF detach(5) cleanup_calls_made(2)] show ?thesis
    proof
      assume "quiet_rows (pj_ID job) t t' \<and> h' \<in> {h, h @ [?rm]}"
      moreover have "h = h @ take 0 cs" "h @ [?rm] = h @ take 1 cs" by (simp_all add: cs')
      ultimately show ?thesis by (metis insertE singletonD)
    next
      assume "?del (h @ [?rm]) = (err, t', h')"
      note rest = del [OF this]
      then obtain n where "h' = (h @ [?rm]) @ take n ?ds" by blast
      then have "h' = h @ take (Suc n) cs" by (simp add: cs')
      moreover have "quiet_rows (pj_ID job) t t' \<or> h' = h @ cs \<and> t' = snd (MarkDeprovisioned env (pj_ID job) u t)"
        using rest by (simp add: cs')
      ultimately show ?thesis by blast
    qed
  qed
qed

lemma handleDeprovisioning_rows:
  assumes "handleDeprovisioning p env job t h = (err, t', h')"
  shows "(\<exists>n. h' = h @ take n (cleanup_calls p job)) \<and>
    (quiet_rows (pj_ID job) t t' \<or>
     h' = h @ cleanup_calls p job \<and> (\<exists>u. t' = snd (MarkDeprovisioned env (pj_ID job) u t)))"
proof (cases "pj_LeaseToken job")
  case None
  then show ?thesis using assms by (auto simp: handleDeprovisioning_def intro: exI [of _ 0])
next
  case (Some u)
  let ?rule = "ToString (pj_ListenerRuleARN job)"
  define cs where "cs = (if ToString (pj_CertificateARN job) \<noteq> [] \<and> pj_Managed job
            then (if pv_listenerARN p \<noteq> [] \<and> pv_loadBalancer p \<noteq> None
                  then [RemoveListenerCertificates (pv_listenerARN p) (ToString (pj_CertificateARN job))] else [])
                 @ (if pv_certificates p \<noteq> None then [AcmDeleteCertificate (ToString (pj_CertificateARN job))] else [])
            else [])"
  have calls: "cleanup_calls p job = (if TrimSpace ?rule \<noteq> [] \<and> pv_loadBalancer p \<noteq> None then [DeleteRule ?rule] else []) @ cs"
    unfolding cleanup_calls_def cs_def Let_def by simp
  show ?thesis
  proof (cases "TrimSpace ?rule \<noteq> [] \<and> pv_loadBalancer p \<noteq> None")
    case True
    then obtain lb where lb: "pv_loadBalancer p = Some lb" by blast
    have cs': "cleanup_calls p job = DeleteRule ?rule # cs" using calls True by simp
    have "cleanup env job u (DeleteGatewayHostRule lb ?rule h) t (deprovisionCertificate p env job u t) = (err, t', h')"
      using assms Some True lb by (simp add: handleDeprovisioning_def)
    from cleanup_cases [OF this cleanup_calls_made(1)] show ?thesis
    proof
      assume "quiet_rows (pj_ID job) t t' \<and> h' \<in> {h, h @ [DeleteRule ?rule]}"
      moreover have "h = h @ take 0 (cleanup_calls p job)" "h @ [DeleteRule ?rule] = h @ take 1 (cleanup_calls p job)"
        by (simp_all add: cs')
      ultimately show ?thesis by (metis insertE singletonD)
    next
      assume "deprovisionCertificate p env job u t (h @ [DeleteRule ?rule]) = (err, t', h')"
      note rest = deprovisionCertificate_rows [OF this cs_def]
      then obtain n where "h' = (h @ [DeleteRule ?rule]) @ take n cs" by blast
      then have "h' = h @ take (Suc n) (cleanup_calls p job)" by (simp add: cs')
      moreover have "quiet_rows (pj_ID job) t t' \<or>
          h' = h @ cleanup_calls p job \<and> t' = snd (MarkDeprovisioned env (pj_ID job) u t)"
        using rest by (simp add: cs')
      ultimately show ?thesis by blast
    qed
  next
    case False
    then have "deprovisionCertificate p env job u t h = (err, t', h')"
      using assms Some by (auto simp: handleDeprovisioning_def split: option.splits bool.splits)
    from deprovisionCertificate_rows [OF this cs_def] show ?thesis using calls False by auto
  qed
qed

lemma deprovisioned_moves: "moves_rows i t (snd (MarkDeprovisioned env i u t))"
  unfolding MarkDeprovisioned_def
  by (rule moves_rows_exec)
     (auto simp: cd_deprovisioning_def row_moved_def Deprovisioned_set_def cd_unlock_def provisioning_edges_def)

subsection \<open>One run\<close>

lemma release_moves: "moves_rows i t (snd (ReleaseProvisioningLease env i u t))"
  unfolding ReleaseProvisioningLease_def by (rule moves_rows_exec) (simp add: worker_set_simps)

lemma handleJob_moves: "moves_rows (pj_ID job) t (fst (snd (handleJob p env g job t h)))"
proof -
  obtain e2 t2 k2 where a: "handleAttachingCertificate p env g job t h = (e2, t2, k2)" by (metis prod_cases3)
  obtain e3 t3 k3 where d: "handleDeprovisioning p env job t h = (e3, t3, k3)" by (metis prod_cases3)
  have "moves_rows (pj_ID job) t t2"
    using handleAttaching_rows [OF a] quiet_moves completed_moves by blast
  moreover have "moves_rows (pj_ID job) t t3"
    using handleDeprovisioning_rows [OF d] quiet_moves deprovisioned_moves by blast
  ultimately show ?thesis
    using handleRequesting_quiet handleValidation_quiet handleDNS_quiet a d release_moves [of "pj_ID job" t env]
    unfolding handleJob_def
    by (auto simp: quiet_moves split: provisioning_status.split option.split)
qed

lemma moves_rows_nth:
  assumes "moves_rows i t t'" "k < length t"
  shows "row_moved (t ! k) (t' ! k) \<and> (cd_ID (t ! k) \<noteq> i \<longrightarrow> t' ! k = t ! k)"
proof -
  have refl: "row_moved r r" for r by (simp add: row_moved_def)
  from assms refl show ?thesis by (auto simp: moves_rows_def sql_update_def)
qed

lemma moves_rows_length: "moves_rows i t t' \<Longrightarrow> length t' = length t"
  by (auto simp: moves_rows_def)

text \<open>The rows a run sees after its claim are the rows before it, up to the lock.\<close>

lemma claim_nth:
  assumes "t1 = sql_update (\<lambda>cd. cd_ID cd = cd_ID r) (cd_claim_set env w u) t" "k < length t"
  shows "t1 ! k = (if cd_ID (t ! k) = cd_ID r then cd_claim_set env w u (t ! k) else t ! k)"
  using assms by (simp add: sql_update_def)

lemma row_moved_claim: "row_moved (cd_claim_set env w u r) r' = row_moved r r'"
  by (simp add: row_moved_def cd_claim_set_def)

text \<open>
  The shape of a run that had a job: the claimed row, and the handler on the table after the claim.
\<close>

lemma ProcessNextJob_job:
  assumes "ProcessNextJob p env g t h = ((b, err), t', h')" "distinct (map cd_ID t)"
  obtains (idle) "t' = t" "h' = h" "\<not> b"
  | (job) k job t1 where "k < length t" "claim_due env (5 * minute) (t ! k)"
      "t1 = t[k := cd_claim_set env (pv_workerID p) (de_uuid env) (t ! k)]"
      "job = scanProvisioningJobRow (t1 ! k)" "pj_LeaseToken job = Some (de_uuid env)"
      "handleJob p env g job t1 h = (err, t', h')"
proof -
  obtain res t1 where c: "ClaimNextProvisioningJob env (pv_workerID p) (5 * minute) t = (res, t1)" by fastforce
  show ?thesis
  proof (cases res)
    case (Inl e)
    then show ?thesis using assms(1) c cd_Claim_error idle by (auto simp: ProcessNextJob_def)
  next
    case (Inr jo)
    show ?thesis
    proof (cases jo)
      case None
      then show ?thesis using assms(1) c Inr cd_Claim_None idle by (auto simp: ProcessNextJob_def)
    next
      case (Some j)
      obtain r where pick: "cd_next_job env (de_clock env - (if 5 * minute \<le> (0::int) then 5 * minute else 5 * minute)) t = Some r"
        and j: "j = scanProvisioningJobRow (cd_claim_set env (pv_workerID p) (de_uuid env) r)"
        and t1: "t1 = sql_update (\<lambda>cd. cd_ID cd = cd_ID r) (cd_claim_set env (pv_workerID p) (de_uuid env)) t"
        by (rule cd_Claim_table [OF c [unfolded Inr Some]])
      have due: "r \<in> set t" "claim_due env (5 * minute) r"
        using cdq.earliest_due_first(1,2) [OF pick [unfolded cd_next_job_def]] by (simp_all add: claim_due_job_due)
      then obtain k where k: "k < length t" "t ! k = r" by (auto simp: in_set_conv_nth)
      have t1': "t1 = t[k := cd_claim_set env (pv_workerID p) (de_uuid env) (t ! k)]"
        unfolding t1 using sql_update_one [OF assms(2) k(1)] k(2) by simp
      show ?thesis
      proof (rule job [OF k(1)])
        show "claim_due env (5 * minute) (t ! k)" using due k by simp
        show "t1 = t[k := cd_claim_set env (pv_workerID p) (de_uuid env) (t ! k)]" by (rule t1')
        show "j = scanProvisioningJobRow (t1 ! k)" using t1' k j by simp
        show "pj_LeaseToken j = Some (de_uuid env)" by (simp add: j scanProvisioningJobRow_def cd_claim_set_def)
        show "handleJob p env g j t1 h = (err, t', h')"
          using assms(1) c Inr Some by (auto simp: ProcessNextJob_def split: prod.splits)
      qed
    qed
  qed
qed

lemma scan_simps [simp]:
  "pj_ID (scanProvisioningJobRow r) = cd_ID r" "pj_ProvisioningStatus (scanProvisioningJobRow r) = cd_ProvisioningStatus r"
  "pj_CertificateARN (scanProvisioningJobRow r) = cd_CertificateARN r" "pj_Managed (scanProvisioningJobRow r) = cd_Managed r"
  "pj_Hostname (scanProvisioningJobRow r) = cd_Hostname r" "pj_ProjectID (scanProvisioningJobRow r) = cd_ProjectID r"
  "pj_ListenerRuleARN (scanProvisioningJobRow r) = cd_ListenerRuleARN r"
  "pj_LeaseToken (scanProvisioningJobRow r) = cd_LeaseToken r"
  "pj_ProvisioningAttempts (scanProvisioningJobRow r) = cd_ProvisioningAttempts r"
  by (simp_all add: scanProvisioningJobRow_def)

lemma claim_set_simps [simp]:
  "cd_ID (cd_claim_set env w u r) = cd_ID r" "cd_ProvisioningStatus (cd_claim_set env w u r) = cd_ProvisioningStatus r"
  "cd_CertificateARN (cd_claim_set env w u r) = cd_CertificateARN r" "cd_Managed (cd_claim_set env w u r) = cd_Managed r"
  "cd_Hostname (cd_claim_set env w u r) = cd_Hostname r" "cd_ProjectID (cd_claim_set env w u r) = cd_ProjectID r"
  "cd_ListenerRuleARN (cd_claim_set env w u r) = cd_ListenerRuleARN r"
  "cd_LeaseToken (cd_claim_set env w u r) = Some u" "cd_DeletedAt (cd_claim_set env w u r) = cd_DeletedAt r"
  "cd_ProvisioningAttempts (cd_claim_set env w u r) = cd_ProvisioningAttempts r"
  by (simp_all add: cd_claim_set_def)

lemma ProcessNextJob_rows:
  assumes ids: "distinct (map cd_ID t)" and run: "ProcessNextJob p env g t h = ((b, err), t', h')"
  shows "length t' = length t \<and> (\<forall>k < length t. row_moved (t ! k) (t' ! k))
    \<and> (\<exists>k. \<forall>j < length t. j \<noteq> k \<longrightarrow> t' ! j = t ! j)"
  using run ids
proof (cases rule: ProcessNextJob_job)
  case idle
  have "row_moved r r" for r by (simp add: row_moved_def)
  then show ?thesis using idle by blast
next
  case (job k jb t1)
  have mv: "moves_rows (cd_ID (t ! k)) t1 t'"
    using handleJob_moves [of jb t1 p env g h] job by simp
  have len: "length t' = length t" using moves_rows_length [OF mv] job(3) by simp
  have moved: "row_moved (t ! j) (t' ! j)" if j: "j < length t" for j
  proof -
    have "row_moved (t1 ! j) (t' ! j)" using moves_rows_nth [OF mv] j job(3) by simp
    then show ?thesis using j job(3) by (cases "j = k") (simp_all add: row_moved_claim)
  qed
  have "t' ! j = t ! j" if j: "j < length t" "j \<noteq> k" for j
  proof -
    have "cd_ID (t ! j) \<noteq> cd_ID (t ! k)"
      using nth_eq_iff_index_eq [OF ids, of j k] j job(1) by simp
    then show ?thesis using moves_rows_nth [OF mv, of j] j job(3) by simp
  qed
  then show ?thesis using len moved by blast
qed

section \<open>Properties\<close>

text \<open>
  C28. One run of the custom-domain worker touches at most one row, and that row only moves along the
  edges of the provisioning state machine: requesting a certificate, waiting for the validation
  record, waiting for DNS, attaching, completed, each with a way to failed; and deprovisioning to
  deprovisioned or failed. The run never changes host, project or verification of a domain, makes a domain active
  only by completing it, and deletes one only by deprovisioning it.
\<close>

theorem worker_follows_state_machine:
  assumes "distinct (map cd_ID t)" "ProcessNextJob p env g t h = ((b, err), t', h')"
  shows "length t' = length t \<and> (\<forall>k < length t. row_moved (t ! k) (t' ! k))
    \<and> (\<exists>k. \<forall>j < length t. j \<noteq> k \<longrightarrow> t' ! j = t ! j)"
  using ProcessNextJob_rows [OF assms] .

lemma quiet_rows_nth:
  assumes "quiet_rows i t t'" "k < length t"
  shows "t' ! k = t ! k \<or> cd_ProvisioningStatus (t' ! k) \<notin> {PsCompleted, PsDeprovisioned}"
  using assms by (auto simp: quiet_rows_def sql_update_def split: if_splits)

lemma exec_nth:
  assumes "k < length t"
  shows "snd (cd_exec_leased env s s' P f why t) ! k \<in> {t ! k, f (t ! k)}"
  using cd_exec_leased_snd [of env s s' P f why t] assms by (auto simp: sql_update_def)

lemma deprovisioned_nth:
  "k < length t \<Longrightarrow> snd (MarkDeprovisioned env i u t) ! k \<in> {t ! k, Deprovisioned_set env (t ! k)}"
  unfolding MarkDeprovisioned_def by (rule exec_nth)

lemma released_nth:
  "k < length t \<Longrightarrow> snd (ReleaseProvisioningLease env i u t) ! k \<in> {t ! k, cd_unlock env (t ! k)}"
  unfolding ReleaseProvisioningLease_def by (rule exec_nth)

lemma completed_nth:
  assumes "k < length t"
  shows "snd (MarkProvisioningCompleted env i u rule prio t) ! k \<in> {t ! k, Completed_set env rule prio (t ! k)}"
  using Completed_table [of env i u rule prio t] assms by (auto simp: sql_update_def)

text \<open>What a handler can have done to the table.\<close>

lemma handleJob_outcome:
  assumes "handleJob p env g job t h = (err, t', h')"
  obtains (quiet) "quiet_rows (pj_ID job) t t'"
  | (completed) u arn rule prio where "pj_ProvisioningStatus job = PsAttachingCertificate"
      "attached p env g job h arn rule prio h'" "t' = snd (MarkProvisioningCompleted env (pj_ID job) u rule prio t)"
  | (deprovisioned) u where "pj_ProvisioningStatus job = PsDeprovisioning" "h' = h @ cleanup_calls p job"
      "t' = snd (MarkDeprovisioned env (pj_ID job) u t)"
  | (released) u where "h' = h" "t' = snd (ReleaseProvisioningLease env (pj_ID job) u t)"
proof (cases "pj_ProvisioningStatus job")
  case PsAttachingCertificate
  then have "handleAttachingCertificate p env g job t h = (err, t', h')" using assms by (simp add: handleJob_def)
  from handleAttaching_rows [OF this] show ?thesis using quiet completed PsAttachingCertificate by blast
next
  case PsDeprovisioning
  then have "handleDeprovisioning p env job t h = (err, t', h')" using assms by (simp add: handleJob_def)
  from handleDeprovisioning_rows [OF this] show ?thesis using quiet deprovisioned PsDeprovisioning by blast
next
  case PsRequestingCertificate
  then show ?thesis using quiet handleRequesting_quiet [of job t p env h] assms by (simp add: handleJob_def)
next
  case PsWaitingForValidationRecord
  then show ?thesis using quiet handleValidation_quiet [of job t p env h] assms by (simp add: handleJob_def)
next
  case PsWaitingForDNS
  then show ?thesis using quiet handleDNS_quiet [of job t p env h] assms by (simp add: handleJob_def)
qed (use assms quiet released in \<open>auto simp: handleJob_def split: option.splits\<close>)

lemma attached_scan: "attached p env g (scanProvisioningJobRow (cd_claim_set e w u r)) h arn rule prio h'
    = attached p env g (scanProvisioningJobRow r) h arn rule prio h'"
  by (simp add: attached_def)

lemma cleanup_scan: "cleanup_calls p (scanProvisioningJobRow (cd_claim_set e w u r)) = cleanup_calls p (scanProvisioningJobRow r)"
  by (simp add: cleanup_calls_def)

text \<open>
  A row whose status changed to completed or deprovisioned in a run is the claimed one, and its
  handler ended in that way.
\<close>

lemma run_final_row:
  assumes ids: "distinct (map cd_ID t)" and run: "ProcessNextJob p env g t h = ((b, err), t', h')"
    and k: "k < length t" and new: "cd_ProvisioningStatus (t' ! k) \<noteq> cd_ProvisioningStatus (t ! k)"
      "cd_ProvisioningStatus (t' ! k) \<in> {PsCompleted, PsDeprovisioned}"
  shows "(\<exists>arn rule prio u w. attached p env g (scanProvisioningJobRow (t ! k)) h arn rule prio h'
           \<and> t' ! k = Completed_set env rule prio (cd_claim_set env w u (t ! k)))
       \<or> (h' = h @ cleanup_calls p (scanProvisioningJobRow (t ! k))
           \<and> (\<exists>u w. t' ! k = Deprovisioned_set env (cd_claim_set env w u (t ! k))))"
  using run ids
proof (cases rule: ProcessNextJob_job)
  case idle
  then show ?thesis using new by simp
next
  case (job k0 jb t1)
  let ?r = "cd_claim_set env (pv_workerID p) (de_uuid env) (t ! k)"
  have mv: "moves_rows (cd_ID (t ! k0)) t1 t'"
    using handleJob_moves [of jb t1 p env g h] job by simp
  have kk: "k = k0"
  proof (rule ccontr)
    assume "k \<noteq> k0"
    moreover from this have "cd_ID (t ! k) \<noteq> cd_ID (t ! k0)"
      using nth_eq_iff_index_eq [OF ids, of k k0] k job(1) by simp
    ultimately show False using moves_rows_nth [OF mv, of k] k job(3) new by simp
  qed
  have t1: "t1 ! k = ?r" "k < length t1" using kk job(3) k by simp_all
  have jb: "jb = scanProvisioningJobRow ?r" using job(4) t1 kk by simp
  from job(6) show ?thesis
  proof (cases rule: handleJob_outcome)
    case quiet
    from quiet_rows_nth [OF quiet t1(2)] show ?thesis using t1(1) new by auto
  next
    case (completed u arn rule prio)
    have "t' ! k = Completed_set env rule prio ?r"
      using completed_nth [OF t1(2), of env "pj_ID jb" u rule prio] completed(3) t1(1) new by auto
    then show ?thesis using completed(2) unfolding jb attached_scan by blast
  next
    case (deprovisioned u)
    have "t' ! k \<in> {?r, Deprovisioned_set env ?r}"
      using deprovisioned_nth [OF t1(2), of env "pj_ID jb" u] deprovisioned(3) t1(1) by simp
    then have "t' ! k = Deprovisioned_set env ?r" using new by auto
    then show ?thesis using deprovisioned(2) unfolding jb cleanup_scan by blast
  next
    case (released u)
    have "t' ! k \<in> {?r, cd_unlock env ?r}"
      using released_nth [OF t1(2), of env "pj_ID jb" u] released(2) t1(1) by simp
    then show ?thesis using new by (auto simp: cd_unlock_def)
  qed
qed

text \<open>
  C29. A custom domain is made active only after its certificate and route are in place. When a run of
  the worker completes a domain, then in that run AWS reported the domain's own managed certificate
  as issued, attaching it to the listener succeeded, the project had an active dedicated gateway,
  and the load balancer had or got a host rule for the domain's name to that gateway's target
  group; that rule and its priority are what the row records.
\<close>

theorem active_domain_is_attached:
  assumes ids: "distinct (map cd_ID t)" and run: "ProcessNextJob p env g t h = ((b, err), t', h')"
    and k: "k < length t" "cd_ProvisioningStatus (t ! k) \<noteq> PsCompleted" "cd_ProvisioningStatus (t' ! k) = PsCompleted"
  shows "\<exists>arn rule prio. attached p env g (scanProvisioningJobRow (t ! k)) h arn rule prio h'
    \<and> cd_Status (t' ! k) = DsActive \<and> cd_CertificateARN (t' ! k) = Some arn
    \<and> cd_ListenerRuleARN (t' ! k) = Some rule \<and> cd_ListenerRulePriority (t' ! k) = Some prio"
proof -
  have "(\<exists>arn rule prio u w. attached p env g (scanProvisioningJobRow (t ! k)) h arn rule prio h'
           \<and> t' ! k = Completed_set env rule prio (cd_claim_set env w u (t ! k)))"
    using run_final_row [OF ids run k(1)] k(2,3) by (auto simp: Deprovisioned_set_def cd_unlock_def)
  then obtain arn rule prio u w where a: "attached p env g (scanProvisioningJobRow (t ! k)) h arn rule prio h'"
    and r: "t' ! k = Completed_set env rule prio (cd_claim_set env w u (t ! k))" by blast
  moreover have "cd_CertificateARN (t ! k) = Some arn" using a by (simp add: attached_def)
  ultimately show ?thesis by (auto simp: Completed_set_def cd_unlock_def)
qed


section \<open>A concrete run\<close>

text \<open>
  An AWS account with no listener rule that issues every certificate at once, and the gateway of
  the project, taken into service.
\<close>

definition fresh_sdk :: aws_sdk where
  "fresh_sdk = demo_sdk\<lparr>sdk_RulePages := (\<lambda>_ _. [Inr []]),
     sdk_DescribeCertificate := (\<lambda>_ arn. Inr (Some
       \<lparr>ac_Arn = Some arn, ac_Status = ''ISSUED'', ac_IssuedAt = Some 1, ac_FailureReason = [],
        ac_ValidationOptions = [Some (Some ''_x.acme.com'', Some ''_y.acm.aws'')]\<rparr>))\<rparr>"

definition fresh_client :: aws_client where
  "fresh_client = demo_client\<lparr>cl_acmClient := Some fresh_sdk, cl_albClient := Some fresh_sdk\<rparr>"

definition demo_provisioner :: provisioner where
  "demo_provisioner = \<lparr>pv_certificates = Some fresh_client, pv_loadBalancer = Some fresh_client,
     pv_workerID = ''w1'', pv_listenerARN = ''l'', pv_pollInterval = 30 * second, pv_sha256hex = (\<lambda>s. s)\<rparr>"

definition live_gateway :: gateway_row where
  "live_gateway = demo_gateway\<lparr>gw_Status := GwActive, gw_ProvisioningStatus := GsCompleted,
     gw_TargetGroupARN := Some ''tg2'', gw_ProvisionedAt := Some 3\<rparr>"

definition attaching_domain :: custom_domain where
  "attaching_domain = (queued_domain ''d1'' ''a.acme.com'' 3)
     \<lparr>cd_ProvisioningStatus := PsAttachingCertificate, cd_CertificateARN := Some ''arn:cert'', cd_Managed := True\<rparr>"

definition leaving_domain :: custom_domain where
  "leaving_domain = attaching_domain\<lparr>cd_ProvisioningStatus := PsDeprovisioning, cd_ListenerRuleARN := Some ''r9''\<rparr>"

definition demo_run :: "go_time \<Rightarrow> domains \<Rightarrow> (bool \<times> worker_error option) \<times> domains \<times> sdk_call list" where
  "demo_run now t = ProcessNextJob demo_provisioner (quiet now ''u'') [live_gateway] t []"

lemma demo_run_cases:
  obtains b err t' h' where
    "ProcessNextJob demo_provisioner (quiet now ''u'') [live_gateway] t [] = ((b, err), t', h')"
    "fst (snd (demo_run now t)) = t'" "snd (snd (demo_run now t)) = h'"
  by (cases "ProcessNextJob demo_provisioner (quiet now ''u'') [live_gateway] t []") (auto simp: demo_run_def)

lemma demo_ids: "distinct (map cd_ID [queued_domain ''d1'' ''a.acme.com'' 3])" "distinct (map cd_ID [attaching_domain])"
    "distinct (map cd_ID [leaving_domain])"
  by simp_all

theorem worker_follows_state_machine_witness:
  "let t = [queued_domain ''d1'' ''a.acme.com'' 3]; t' = fst (snd (demo_run 10 t))
   in row_moved (t ! 0) (t' ! 0) \<and> cd_ProvisioningStatus (t' ! 0) = PsWaitingForValidationRecord"
proof -
  let ?t = "[queued_domain ''d1'' ''a.acme.com'' 3]"
  obtain b err t' h' where run: "ProcessNextJob demo_provisioner (quiet 10 ''u'') [live_gateway] ?t [] = ((b, err), t', h')"
    and t': "fst (snd (demo_run 10 ?t)) = t'" by (rule demo_run_cases)
  have "cd_ProvisioningStatus (fst (snd (demo_run 10 ?t)) ! 0) = PsWaitingForValidationRecord" by code_simp
  then show ?thesis
    using worker_follows_state_machine [OF demo_ids(1) run] unfolding Let_def t' by simp
qed

theorem active_domain_is_attached_witness:
  "let t' = fst (snd (demo_run 10 [attaching_domain])) ! 0
   in cd_Status t' = DsActive \<and> cd_CertificateARN t' = Some ''arn:cert''
     \<and> cd_ListenerRuleARN t' = Some ''r9'' \<and> cd_ListenerRulePriority t' = Some 40001"
proof -
  let ?t = "[attaching_domain]"
  obtain b err t' h' where run: "ProcessNextJob demo_provisioner (quiet 10 ''u'') [live_gateway] ?t [] = ((b, err), t', h')"
    and t': "fst (snd (demo_run 10 ?t)) = t'" by (rule demo_run_cases)
  have "cd_ProvisioningStatus (?t ! 0) \<noteq> PsCompleted" "cd_ProvisioningStatus (fst (snd (demo_run 10 ?t)) ! 0) = PsCompleted"
    by code_simp+
  then have "cd_Status (t' ! 0) = DsActive"
    using active_domain_is_attached [OF demo_ids(2) run, of 0] unfolding t' by auto
  moreover have "cd_CertificateARN (fst (snd (demo_run 10 ?t)) ! 0) = Some ''arn:cert''
     \<and> cd_ListenerRuleARN (fst (snd (demo_run 10 ?t)) ! 0) = Some ''r9''" by code_simp
  moreover have "cd_ListenerRulePriority (fst (snd (demo_run 10 ?t)) ! 0) = Some 40001" by code_simp
  ultimately show ?thesis unfolding Let_def t' by simp
qed


end
