(* ===== verification/Domain_Queue.thy ===== *)
theory Domain_Queue
  imports Domain_Provisioner
begin

text \<open>
  Progress of the custom-domain worker (\<^verbatim>\<open>cmd/worker/provisioner.go\<close>): when AWS grants what it is asked
  for, every run that takes a job and reports no error leaves less work in the queue.
\<close>

section \<open>The queue drains\<close>

text \<open>
  The steps a domain still has before it. \<open>PsWaitingForCertificate\<close> is in the claim query but has no
  handler: a domain in that state would be claimed and released for ever, so \<open>job_ready\<close> excludes it.
\<close>

definition status_rank :: "provisioning_status \<Rightarrow> nat" where
  "status_rank s =
     (case s of
        PsRequestingCertificate \<Rightarrow> 4 | PsWaitingForValidationRecord \<Rightarrow> 3 | PsWaitingForDNS \<Rightarrow> 2
      | PsAttachingCertificate \<Rightarrow> 1 | PsDeprovisioning \<Rightarrow> 1 | _ \<Rightarrow> 0)"

definition row_rank :: "custom_domain \<Rightarrow> nat" where
  "row_rank r = (if cd_live r then status_rank (cd_ProvisioningStatus r) else 0)"

definition work :: "domains \<Rightarrow> nat" where
  "work t = sum_list (map row_rank t)"

definition job_ready :: "provisioner \<Rightarrow> db_env \<Rightarrow> gateways \<Rightarrow> custom_domain \<Rightarrow> bool" where
  "job_ready p env g r \<longleftrightarrow>
     cd_ProvisioningStatus r \<noteq> PsWaitingForCertificate \<and> normalHost (cd_Hostname r) \<noteq> []
     \<and> (cd_ProvisioningStatus r \<in> {PsWaitingForValidationRecord, PsWaitingForDNS, PsAttachingCertificate} \<longrightarrow>
          ToString (cd_CertificateARN r) \<noteq> [] \<and> cd_Managed r)
     \<and> (\<exists>ingress. GetActiveProjectGatewayIngress env (cd_ProjectID r) g = Inr ingress
          \<and> TrimSpace (pgi_TargetGroupARN ingress) \<noteq> [])"

text \<open>AWS does what it is asked: requests succeed and certificates are issued at once.\<close>

definition aws_cooperates :: "provisioner \<Rightarrow> bool" where
  "aws_cooperates p \<longleftrightarrow>
     (\<exists>c lb. pv_certificates p = Some c \<and> pv_loadBalancer p = Some lb
      \<and> (\<forall>host token h. \<exists>arn h'. arn \<noteq> [] \<and> RequestCertificate c host token h = (Inr arn, h'))
      \<and> (\<forall>arn h. \<exists>d h'. DescribeCertificate c arn h = (Inr d, h') \<and> ct_Status d = ''ISSUED''
            \<and> ct_FailureReason d = [] \<and> ct_ValidationName d \<noteq> [] \<and> ct_ValidationValue d \<noteq> [])
      \<and> (\<forall>arn h. \<exists>h'. AttachCertificateToListener lb (pv_listenerARN p) arn h = (Inr (), h'))
      \<and> (\<forall>host tg h. normalHost host \<noteq> [] \<longrightarrow> TrimSpace tg \<noteq> [] \<longrightarrow>
            (\<exists>rule prio h'. EnsureHostRule lb (pv_listenerARN p) host tg 40001 50000 h = (Inr (rule, prio), h')))
      \<and> (\<forall>rule h. \<exists>h'. DeleteGatewayHostRule lb rule h = (Inr (), h'))
      \<and> (\<forall>arn h. \<exists>h'. DetachCertificateFromListener lb (pv_listenerARN p) arn h = (Inr (), h'))
      \<and> (\<forall>arn h. \<exists>h'. DeleteCertificate c arn h = (Inr (), h')))"

lemma exec_leased_hit:
  assumes "cd_exec_leased env s s' P f why t = (None, t')"
    and "distinct (map cd_ID t)" "k < length t" "P (t ! k)" "\<And>r. P r \<Longrightarrow> cd_ID r = cd_ID (t ! k)"
  shows "t' = t[k := f (t ! k)]"
proof -
  have "t' = sql_update P f t"
    using assms(1) by (auto simp: cd_exec_leased_def exec_update_def split: option.splits if_splits)
  then show ?thesis using sql_update_hit [where ident = cd_ID and P = P, OF assms(2-5)] by simp
qed

lemma repo_step_None: "repo_step res h = (None, t', h') \<longleftrightarrow> res = (None, t') \<and> h' = h"
  by (cases res) (auto simp: repo_step_def)

lemma advance_hit:
  assumes "AdvanceProvisioningState env ap t = (None, t')" "distinct (map cd_ID t)" "k < length t"
    and "cd_leased (ap_ID ap) (ap_LeaseToken ap) (ap_ExpectedStatus ap) (t ! k)"
  shows "t' = t[k := Advance_set env ap (t ! k)]"
  using assms(1) unfolding AdvanceProvisioningState_def
  by (rule exec_leased_hit) (use assms in \<open>auto simp: cd_leased_def\<close>)

lemma completed_hit:
  assumes "MarkProvisioningCompleted env i u rule prio t = (None, t')" "distinct (map cd_ID t)" "k < length t"
    and "cd_leased i u PsAttachingCertificate (t ! k)"
  shows "t' = t[k := Completed_set env rule prio (t ! k)]"
proof -
  have "cd_exec_leased env ''mark provisioning completed'' ''check mark provisioning completed rows affected''
       (cd_leased i u PsAttachingCertificate) (Completed_set env rule prio)
       (checkStaleOrTransitionError env i u PsAttachingCertificate) t = (None, t')"
    using assms(1) unfolding MarkProvisioningCompleted_def by (simp split: if_splits)
  then show ?thesis
    by (rule exec_leased_hit) (use assms in \<open>auto simp: cd_leased_def\<close>)
qed

lemma deprovisioned_hit:
  assumes "MarkDeprovisioned env i u t = (None, t')" "distinct (map cd_ID t)" "k < length t"
    and "cd_deprovisioning i u (t ! k)"
  shows "t' = t[k := Deprovisioned_set env (t ! k)]"
  using assms(1) unfolding MarkDeprovisioned_def
  by (rule exec_leased_hit) (use assms in \<open>auto simp: cd_deprovisioning_def\<close>)

text \<open>With AWS cooperating, a handler that returns no error takes its row one step further.\<close>

lemma handler_progress:
  assumes coop: "aws_cooperates p" and ids: "distinct (map cd_ID t)" and k: "k < length t"
    and job: "job = scanProvisioningJobRow (t ! k)" and lease: "cd_LeaseToken (t ! k) = Some u"
    and q: "cd_queued (t ! k)" and ready: "job_ready p env g (t ! k)"
    and run: "handleJob p env g job t h = (None, t', h')"
  shows "\<exists>r'. t' = t[k := r'] \<and> row_rank r' < row_rank (t ! k) \<and> job_ready p env g r' \<and> cd_ID r' = cd_ID (t ! k)"
proof -
  obtain c lb where c: "pv_certificates p = Some c" and lb: "pv_loadBalancer p = Some lb"
    and req: "\<forall>host token h. \<exists>arn h'. arn \<noteq> [] \<and> RequestCertificate c host token h = (Inr arn, h')"
    and desc: "\<forall>arn h. \<exists>d h'. DescribeCertificate c arn h = (Inr d, h') \<and> ct_Status d = ''ISSUED''
            \<and> ct_FailureReason d = [] \<and> ct_ValidationName d \<noteq> [] \<and> ct_ValidationValue d \<noteq> []"
    and att: "\<forall>arn h. \<exists>h'. AttachCertificateToListener lb (pv_listenerARN p) arn h = (Inr (), h')"
    and ens: "\<forall>host tg h. normalHost host \<noteq> [] \<longrightarrow> TrimSpace tg \<noteq> [] \<longrightarrow>
       (\<exists>rule prio h'. EnsureHostRule lb (pv_listenerARN p) host tg 40001 50000 h = (Inr (rule, prio), h'))"
    and delr: "\<forall>rule h. \<exists>h'. DeleteGatewayHostRule lb rule h = (Inr (), h')"
    and det: "\<forall>arn h. \<exists>h'. DetachCertificateFromListener lb (pv_listenerARN p) arn h = (Inr (), h')"
    and delc: "\<forall>arn h. \<exists>h'. DeleteCertificate c arn h = (Inr (), h')"
    using coop unfolding aws_cooperates_def by (elim exE conjE)
  let ?r = "t ! k"
  note sets = Advance_set_def Completed_set_def Deprovisioned_set_def cd_unlock_def no_params_def certificateRequested_def
  have live: "cd_live ?r" using q by (simp add: cd_queued_def)
  have iss: "ToUpper (TrimSpace ''ISSUED'') = ''ISSUED''" by code_simp
  consider (request) "cd_ProvisioningStatus ?r = PsRequestingCertificate"
    | (validation) "cd_ProvisioningStatus ?r = PsWaitingForValidationRecord"
    | (dns) "cd_ProvisioningStatus ?r = PsWaitingForDNS"
    | (attach) "cd_ProvisioningStatus ?r = PsAttachingCertificate"
    | (deprovision) "cd_ProvisioningStatus ?r = PsDeprovisioning"
    using q ready by (auto simp: cd_queued_def job_ready_def)
  then show ?thesis
  proof cases
    case request
    have "\<exists>arn. arn \<noteq> [] \<and> AdvanceProvisioningState env (certificateRequested env job u arn) t = (None, t')"
    proof (cases "ToString (cd_CertificateARN ?r) = []")
      case True
      obtain arn h1 where "arn \<noteq> []"
          "RequestCertificate c (cd_Hostname ?r) (GenerateACMIdempotencyToken (pv_sha256hex p) (cd_ID ?r)) h = (Inr arn, h1)"
        using req by blast
      then show ?thesis using run True lease c request
        by (auto simp: handleJob_def handleRequestingCertificate_def job repo_step_None)
    next
      case False
      then show ?thesis using run lease request
        by (auto simp: handleJob_def handleRequestingCertificate_def job repo_step_None)
    qed
    then obtain arn where arn: "arn \<noteq> []"
      and adv: "AdvanceProvisioningState env (certificateRequested env job u arn) t = (None, t')" by blast
    from advance_hit [OF adv ids k] have "t' = t[k := Advance_set env (certificateRequested env job u arn) ?r]"
      using lease live request by (simp add: cd_leased_def sets job)
    then show ?thesis using arn ready live request
      by (auto simp: sets row_rank_def status_rank_def job_ready_def ToString_def)
  next
    case validation
    have arn: "ToString (cd_CertificateARN ?r) \<noteq> []" using ready validation by (simp add: job_ready_def)
    obtain d h1 where d: "DescribeCertificate c (ToString (cd_CertificateARN ?r)) h = (Inr d, h1)" "ct_Status d = ''ISSUED''"
        "ct_FailureReason d = []" "ct_ValidationName d \<noteq> []" "ct_ValidationValue d \<noteq> []" using desc by blast
    obtain ap where ap: "AdvanceProvisioningState env ap t = (None, t')"
      "ap_ID ap = cd_ID ?r" "ap_LeaseToken ap = u" "ap_ExpectedStatus ap = PsWaitingForValidationRecord"
      "ap_NewStatus ap = PsWaitingForDNS" "ap_CertificateARN ap = None" "ap_Managed ap = None"
      using run validation arn d lease c
      by (auto simp: handleJob_def handleWaitingForValidationRecord_def withCertificate_def job repo_step_None no_params_def)
    from advance_hit [OF ap(1) ids k] have "t' = t[k := Advance_set env ap ?r]"
      using lease live validation ap by (simp add: cd_leased_def)
    then show ?thesis using ap ready live validation
      by (auto simp: sets row_rank_def status_rank_def job_ready_def)
  next
    case dns
    have arn: "ToString (cd_CertificateARN ?r) \<noteq> []" using ready dns by (simp add: job_ready_def)
    obtain d h1 where d: "DescribeCertificate c (ToString (cd_CertificateARN ?r)) h = (Inr d, h1)" "ct_Status d = ''ISSUED''"
      using desc by blast
    obtain ap where ap: "AdvanceProvisioningState env ap t = (None, t')"
      "ap_ID ap = cd_ID ?r" "ap_LeaseToken ap = u" "ap_ExpectedStatus ap = PsWaitingForDNS"
      "ap_NewStatus ap = PsAttachingCertificate" "ap_CertificateARN ap = None" "ap_Managed ap = None"
      using run dns arn d lease c
      by (auto simp: handleJob_def handleWaitingForDNS_def withCertificate_def job repo_step_None no_params_def iss)
    from advance_hit [OF ap(1) ids k] have "t' = t[k := Advance_set env ap ?r]"
      using lease live dns ap by (simp add: cd_leased_def)
    then show ?thesis using ap ready live dns
      by (auto simp: sets row_rank_def status_rank_def job_ready_def)
  next
    case attach
    have arn: "ToString (cd_CertificateARN ?r) \<noteq> []" "cd_Managed ?r" using ready attach by (simp_all add: job_ready_def)
    obtain d h1 where d: "DescribeCertificate c (ToString (cd_CertificateARN ?r)) h = (Inr d, h1)" "ct_Status d = ''ISSUED''"
      using desc by blast
    obtain h2 where h2: "AttachCertificateToListener lb (pv_listenerARN p) (ToString (cd_CertificateARN ?r)) h1 = (Inr (), h2)"
      using att by blast
    obtain ingress where ing: "GetActiveProjectGatewayIngress env (cd_ProjectID ?r) g = Inr ingress"
        "TrimSpace (pgi_TargetGroupARN ingress) \<noteq> []" "normalHost (cd_Hostname ?r) \<noteq> []"
      using ready by (auto simp: job_ready_def)
    obtain rule prio h3 where h3: "EnsureHostRule lb (pv_listenerARN p) (cd_Hostname ?r) (pgi_TargetGroupARN ingress) 40001 50000 h2
        = (Inr (rule, prio), h3)" using ens ing(2,3) by blast
    have "MarkProvisioningCompleted env (cd_ID ?r) u rule prio t = (None, t')"
      using run attach arn d h2 ing(1) h3 lease c lb
      by (auto simp: handleJob_def handleAttachingCertificate_def attachIssued_def withCertificate_def job repo_step_None iss)
    from completed_hit [OF this ids k] have "t' = t[k := Completed_set env rule prio ?r]"
      using lease live attach by (simp add: cd_leased_def)
    then show ?thesis using ready live attach
      by (auto simp: sets row_rank_def status_rank_def job_ready_def)
  next
    case deprovision
    have "MarkDeprovisioned env (cd_ID ?r) u t = (None, t')"
    proof -
      have fin: "MarkDeprovisioned env (cd_ID ?r) u t = (None, t')"
        if run1: "deprovisionCertificate p env job u t h1 = (None, t', h')" for h1
      proof -
        let ?cert = "ToString (cd_CertificateARN ?r)"
        obtain h2 where h2: "DetachCertificateFromListener lb (pv_listenerARN p) ?cert h1 = (Inr (), h2)" using det by blast
        obtain h3 where h3: "DeleteCertificate c ?cert h2 = (Inr (), h3)" using delc by blast
        obtain h4 where h4: "DeleteCertificate c ?cert h1 = (Inr (), h4)" using delc by blast
        show ?thesis
          using run1 c lb h2 h3 h4
          by (auto simp: deprovisionCertificate_def deleteCertificateStep_def cleanup_def job repo_step_None Let_def
              split: if_splits bool.splits)
      qed
      obtain h1 where "DeleteGatewayHostRule lb (ToString (cd_ListenerRuleARN ?r)) h = (Inr (), h1)" using delr by blast
      then show ?thesis using run deprovision lease lb fin [of h1] fin [of h]
        by (auto simp: handleJob_def handleDeprovisioning_def cleanup_def job split: if_splits bool.splits)
    qed
    from deprovisioned_hit [OF this ids k] have "t' = t[k := Deprovisioned_set env ?r]"
      using lease deprovision by (simp add: cd_deprovisioning_def)
    then show ?thesis using ready live deprovision
      by (auto simp: sets row_rank_def status_rank_def job_ready_def)
  qed
qed

text \<open>A run with a job and no error takes one unit of work off the queue.\<close>

lemma work_update:
  "k < length t \<Longrightarrow> row_rank r' < row_rank (t ! k) \<Longrightarrow> work (t[k := r']) < work t"
  unfolding work_def by (rule update_lowers_sum)

lemma ready_elsewhere:
  assumes "job_ready p env g r'" "cd_ProjectID r' = cd_ProjectID r" "job_ready p env' g r"
  shows "job_ready p env' g r'"
  using assms by (auto simp: job_ready_def)

lemma ProcessNextJob_progress:
  assumes coop: "aws_cooperates p" and ids: "distinct (map cd_ID t)"
    and ready: "\<forall>r \<in> set t. job_ready p env g r"
    and run: "ProcessNextJob p env g t h = ((True, None), t', h')"
  obtains k r' where "k < length t" "t' = t[k := r']" "row_rank r' < row_rank (t ! k)" "job_ready p env g r'"
    "cd_ID r' = cd_ID (t ! k)" "cd_ProjectID r' = cd_ProjectID (t ! k)"
proof -
  from run ids show ?thesis
  proof (cases rule: ProcessNextJob_job)
    case idle
    then show ?thesis by simp
  next
    case (job k jb t1)
    let ?r = "cd_claim_set env (pv_workerID p) (de_uuid env) (t ! k)"
    have t1: "t1 ! k = ?r" "k < length t1" "distinct (map cd_ID t1)"
      using job(1,3) ids by (simp_all add: update_same_ident)
    have "cd_queued ?r" using job(2) by (simp add: claim_due_def cd_queued_def)
    moreover have "job_ready p env g ?r" using ready job(1) by (simp add: job_ready_def)
    ultimately obtain r' where r': "t' = t1[k := r']" "row_rank r' < row_rank ?r" "job_ready p env g r'" "cd_ID r' = cd_ID ?r"
      using handler_progress [OF coop t1(3,2) job(4) _ _ _ job(6), of "de_uuid env"] t1(1) by auto
    have "row_moved (t1 ! k) (t' ! k)"
      using handleJob_moves [of jb t1 p env g h] job(6) moves_rows_nth t1(2) by simp
    then have "cd_ProjectID r' = cd_ProjectID ?r" using r'(1) t1 by (simp add: row_moved_def)
    moreover have "row_rank ?r = row_rank (t ! k)" by (simp add: row_rank_def cd_claim_set_def)
    ultimately show ?thesis using that [of k r'] r' job(1,3) by simp
  qed
qed

fun busy_runs :: "provisioner \<Rightarrow> gateways \<Rightarrow> db_env list \<Rightarrow> domains \<Rightarrow> sdk_call list \<Rightarrow> bool" where
  "busy_runs p g [] t h = True"
| "busy_runs p g (env # envs) t h =
     (case ProcessNextJob p env g t h of
        ((True, None), t', h') \<Rightarrow> busy_runs p g envs t' h'
      | _ \<Rightarrow> False)"

text \<open>
  The queue drains. Suppose AWS grants what it is asked for, every domain in the queue has the
  data its step needs and its project has an active gateway. Then each run that takes a job and
  reports no error brings that domain one step nearer its final state, so there can be no more such runs in a row
  than the steps the domains in the table have left, at most four a domain: no domain is
  processed for ever and none is sent back.
\<close>

theorem queue_drains:
  assumes "aws_cooperates p" "distinct (map cd_ID t)"
    and "\<forall>env \<in> set envs. \<forall>r \<in> set t. job_ready p env g r"
    and "busy_runs p g envs t h"
  shows "length envs \<le> work t \<and> work t \<le> 4 * length t"
proof -
  have "length envs \<le> work t"
    using assms(2-4)
  proof (induction envs arbitrary: t h)
    case (Cons env envs)
    obtain t' h' where run: "ProcessNextJob p env g t h = ((True, None), t', h')" and rest: "busy_runs p g envs t' h'"
      using Cons.prems(3) by (auto split: prod.splits bool.splits option.splits)
    obtain k r' where r': "k < length t" "t' = t[k := r']" "row_rank r' < row_rank (t ! k)" "job_ready p env g r'"
        "cd_ID r' = cd_ID (t ! k)" "cd_ProjectID r' = cd_ProjectID (t ! k)"
      using ProcessNextJob_progress [OF assms(1) Cons.prems(1) _ run] Cons.prems(2) by auto
    have "\<forall>e \<in> set envs. \<forall>r \<in> set t'. job_ready p e g r"
    proof (intro ballI)
      fix e r assume e: "e \<in> set envs" and "r \<in> set t'"
      then consider "r \<in> set t" | "r = r'" using r'(2) set_update_subset_insert by fastforce
      then show "job_ready p e g r"
        using Cons.prems(2) e r'(1) ready_elsewhere [OF r'(4,6)] by cases auto
    qed
    moreover have "distinct (map cd_ID t')" using Cons.prems(1) r'(1,2,5) by (simp add: update_same_ident)
    ultimately have "length envs \<le> work t'" using Cons.IH rest by blast
    then show ?case using work_update [OF r'(1,3)] r'(2) by simp
  qed simp
  moreover have "work t \<le> 4 * length t"
    by (induction t) (auto simp: work_def row_rank_def status_rank_def split: provisioning_status.split)
  ultimately show ?thesis by simp
qed

section \<open>A queue that drains\<close>

lemma fresh_clients: "acm_of fresh_client = Inr fresh_sdk" "alb_of fresh_client = Inr fresh_sdk" "gatewayALBClient fresh_client = Inr fresh_sdk"
  by (simp_all add: acm_of_def alb_of_def gatewayALBClient_def with_client_def fresh_client_def demo_client_def)

lemma fresh_rules:
  assumes "normalHost host \<noteq> []" "TrimSpace tg \<noteq> []"
  shows "\<exists>rule prio h'. EnsureHostRule fresh_client ''l'' host tg 40001 50000 h = (Inr (rule, prio), h')"
proof -
  have "freeRulePriority 40001 50000 [] = Some 40001"
    by (simp add: freeRulePriority.simps)
  moreover have "TrimSpace ''l'' = ''l''" by code_simp
  ultimately show ?thesis
    using assms by (simp add: EnsureHostRule_def Let_def fresh_clients numeral_eq_Suc fresh_sdk_def demo_sdk_def findCustomDomainHostRuleDetails_def)
qed

lemma fresh_answers:
  "\<exists>arn h'. arn \<noteq> [] \<and> RequestCertificate fresh_client host token h = (Inr arn, h')"
  "\<exists>d h'. DescribeCertificate fresh_client arn h = (Inr d, h') \<and> ct_Status d = ''ISSUED''
     \<and> ct_FailureReason d = [] \<and> ct_ValidationName d \<noteq> [] \<and> ct_ValidationValue d \<noteq> []"
  "\<exists>h'. AttachCertificateToListener fresh_client l arn h = (Inr (), h')"
  "\<exists>h'. DetachCertificateFromListener fresh_client l arn h = (Inr (), h')"
  "\<exists>h'. DeleteGatewayHostRule fresh_client rule h = (Inr (), h')"
  "\<exists>h'. DeleteCertificate fresh_client arn h = (Inr (), h')"
  by (simp_all add: RequestCertificate_def DescribeCertificate_def AttachCertificateToListener_def
      DetachCertificateFromListener_def DeleteGatewayHostRule_def DeleteCertificate_def fresh_clients
      fresh_sdk_def demo_sdk_def certificate_details_of_def ToString_def)

lemma demo_cooperates: "aws_cooperates demo_provisioner"
  unfolding aws_cooperates_def
proof (intro exI conjI)
  show "pv_certificates demo_provisioner = Some fresh_client" "pv_loadBalancer demo_provisioner = Some fresh_client"
    by (simp_all add: demo_provisioner_def)
qed (use fresh_rules fresh_answers in \<open>auto simp: demo_provisioner_def\<close>)

lemma demo_ready: "job_ready demo_provisioner (quiet now u) [live_gateway] (queued_domain ''d1'' ''a.acme.com'' 3)"
proof -
  have "GetActiveProjectGatewayIngress (quiet now u) ''p1'' [live_gateway] = Inr \<lparr>pgi_ExternalID = ''gw_a'', pgi_TargetGroupARN = ''tg2''\<rparr>"
    by code_simp
  moreover have "TrimSpace ''tg2'' \<noteq> []" "normalHost ''a.acme.com'' \<noteq> []" by code_simp+
  ultimately show ?thesis
    by (simp add: job_ready_def queued_domain_def demo_domain_def restart_set_def cd_unlock_def)
qed

text \<open>A domain is taken from its request to completion by four runs, an hour apart, and no fifth one is possible.\<close>

theorem queue_drains_witness:
  "let t = [queued_domain ''d1'' ''a.acme.com'' 3];
       envs = map (\<lambda>n. quiet (n * 60 * minute) ''u'') [1, 2, 3, 4]
   in busy_runs demo_provisioner [live_gateway] envs t [] \<and> length envs = work t \<and> work t \<le> 4"
proof -
  let ?t = "[queued_domain ''d1'' ''a.acme.com'' 3]" and ?envs = "map (\<lambda>n. quiet (n * 60 * minute) ''u'') [1, 2, 3, 4]"
  have busy: "busy_runs demo_provisioner [live_gateway] ?envs ?t []" by code_simp
  have ready: "\<forall>env \<in> set ?envs. \<forall>r \<in> set ?t. job_ready demo_provisioner env [live_gateway] r"
    using demo_ready by auto
  have "work ?t \<ge> 4" using queue_drains [OF demo_cooperates demo_ids(1) ready busy] by simp
  moreover have "work ?t \<le> 4" using queue_drains [OF demo_cooperates demo_ids(1) ready busy] by simp
  ultimately show ?thesis using busy by (simp add: Let_def)
qed

end
