(* ===== verification/Custom_Domain_Service.thy ===== *)
theory Custom_Domain_Service
  imports Domain_Queue Admin_Access
begin

text \<open>
  The custom-domain API of the control plane: the service
  (\<^verbatim>\<open>internal/admin/service/custom_domain_service.go\<close>) with its proof of ownership by a DNS record, its
  check of the routing record and the activation that feeds the worker's queue, and the handlers on top of
  it (\<^verbatim>\<open>internal/admin/handler/custom_domain_handler.go\<close>) behind the guards of their routes.
  The resolver, SHA-256 and the random bytes are fields of the service's record.
\<close>

section \<open>Tokens\<close>

text \<open>\<^verbatim>\<open>base64.RawURLEncoding\<close>: six bits a letter, no padding.\<close>

definition base64URLChar :: "nat \<Rightarrow> char" where
  "base64URLChar n = ''ABCDEFGHIJKLMNOPQRSTUVWXYZabcdefghijklmnopqrstuvwxyz0123456789-_'' ! (n mod 64)"

fun RawURLEncoding :: "string \<Rightarrow> string" where
  "RawURLEncoding [] = []"
| "RawURLEncoding [a] = [base64URLChar (of_char a div 4), base64URLChar (of_char a mod 4 * 16)]"
| "RawURLEncoding [a, b] =
     [base64URLChar (of_char a div 4), base64URLChar (of_char a mod 4 * 16 + of_char b div 16), base64URLChar (of_char b mod 16 * 4)]"
| "RawURLEncoding (a # b # c # xs) =
     [base64URLChar (of_char a div 4), base64URLChar (of_char a mod 4 * 16 + of_char b div 16),
      base64URLChar (of_char b mod 16 * 4 + of_char c div 64), base64URLChar (of_char c)]
     @ RawURLEncoding xs"

text \<open>A lookup error: whether it is a \<^verbatim>\<open>net.DNSError\<close> that says "not found", and its text.\<close>

record dns_error =
  dns_IsNotFound :: bool
  dns_Text :: string

record domain_service =
  ds_env :: db_env
  ds_LookupTXT :: "string \<Rightarrow> dns_error + string list"
  ds_LookupCNAME :: "string \<Rightarrow> dns_error + string"
  ds_gatewayPublicHost :: string
  ds_automationEnabled :: bool
  ds_random :: "string option"
  ds_newID :: uuid
  ds_sha256hex :: "string \<Rightarrow> string"

definition customDomainVerificationPrefix :: string where
  "customDomainVerificationPrefix = ''elitegate-verification=''"

definition customDomainVerificationRecord :: string where
  "customDomainVerificationRecord = ''_elitegate-verification''"

definition generateCustomDomainVerificationToken :: "domain_service \<Rightarrow> string option" where
  "generateCustomDomainVerificationToken s = map_option RawURLEncoding (ds_random s)"

definition secureHashEqual :: "string \<Rightarrow> string \<Rightarrow> bool" where
  "secureHashEqual a b = (if length a \<noteq> length b then False else a = b)"

fun containsMatchingVerificationToken :: "(string \<Rightarrow> string) \<Rightarrow> string list \<Rightarrow> string \<Rightarrow> bool" where
  "containsMatchingVerificationToken sha256hex [] expectedTokenHash = False"
| "containsMatchingVerificationToken sha256hex (rcd # rcds) expectedTokenHash =
     (let txtRecord = TrimSpace rcd;
          token = TrimSpace (TrimPrefix txtRecord customDomainVerificationPrefix)
      in if \<not> HasPrefix txtRecord customDomainVerificationPrefix then containsMatchingVerificationToken sha256hex rcds expectedTokenHash
         else if token = [] then containsMatchingVerificationToken sha256hex rcds expectedTokenHash
         else if secureHashEqual (sha256hex token) expectedTokenHash then True
         else containsMatchingVerificationToken sha256hex rcds expectedTokenHash)"

definition normalizeCNAME :: "string \<Rightarrow> string" where
  "normalizeCNAME cname = TrimSuffix (ToLower (TrimSpace cname)) ''.''"

section \<open>The service\<close>

text \<open>
  The errors of the service. \<open>ErrServiceDomainNotFound\<close> and \<open>ErrServiceNotEligibleForRetry\<close> are its own
  \<^verbatim>\<open>ErrCustomDomainNotFound\<close> and \<^verbatim>\<open>ErrDomainNotEligibleForRetry\<close>, distinct from the repository's errors of
  the same names; \<open>Wrapped\<close> is a repository error passed on.
\<close>

datatype service_error =
    ErrInvalidCustomDomainHostname | ErrCustomDomainAlreadyExists | ErrServiceDomainNotFound
  | ErrVerificationRecordNotFound | ErrVerificationTokenMismatch | ErrCustomDomainNotVerified
  | ErrCNAMERecordNotFound | ErrCNAMERoutingMismatch | ErrCustomDomainRoutingNotReady
  | ErrAutomationDisabled | ErrServiceNotEligibleForRetry
  | Wrapped repo_error | LookupFailed string | RandomFailed

type_synonym 'a service_result = "(service_error + 'a) \<times> domains"

definition from_repo :: "repo_error \<Rightarrow> service_error" where
  "from_repo e = (if e = ErrCustomDomainNotFound then ErrServiceDomainNotFound else Wrapped e)"

record create_response =
  cr_ID :: uuid
  cr_ProjectID :: uuid
  cr_Hostname :: string
  cr_Status :: domain_status
  cr_RecordName :: string
  cr_RecordValue :: string
  cr_CreatedAt :: go_time

text \<open>The struct literal of \<open>CreateCustomDomain\<close>; the fields it leaves out have Go's zero values.\<close>

definition new_domain :: "domain_service \<Rightarrow> uuid \<Rightarrow> string \<Rightarrow> string \<Rightarrow> custom_domain" where
  "new_domain s projectID hostname tokenHash =
     \<lparr>cd_ID = ds_newID s, cd_ProjectID = projectID, cd_Hostname = hostname, cd_Status = DsPendingVerification,
      cd_VerificationTokenHash = tokenHash,
      cd_VerificationRecordName = customDomainVerificationRecord @ ''.'' @ hostname,
      cd_CertificateARN = None, cd_CertificateStatus = None, cd_FailureReason = None,
      cd_VerifiedAt = None, cd_ActivatedAt = None, cd_LastCheckedAt = None, cd_CreatedAt = 0,
      cd_UpdatedAt = 0, cd_DeletedAt = None, cd_RoutingTarget = Some (ds_gatewayPublicHost s),
      cd_RoutingStatus = RsPending, cd_RoutingCheckedAt = None, cd_RoutingError = None,
      cd_Managed = False, cd_ProvisioningStatus = PsEmpty, cd_ValidationName = None,
      cd_ValidationValue = None, cd_CertificateRequestedAt = None, cd_CertificateIssuedAt = None,
      cd_CertificateAttachedAt = None, cd_ProvisioningStartedAt = None,
      cd_ProvisioningCompletedAt = None, cd_DeprovisioningStartedAt = None,
      cd_ProvisioningError = None, cd_ProvisioningAttempts = 0, cd_NextRetryAt = None,
      cd_ListenerRuleARN = None, cd_ListenerRulePriority = None, cd_LockedAt = None,
      cd_LockedBy = None, cd_LeaseToken = None\<rparr>"

definition CreateCustomDomain :: "domain_service \<Rightarrow> uuid \<Rightarrow> string \<Rightarrow> domains \<Rightarrow> create_response service_result" where
  "CreateCustomDomain s projectID rawHostname t =
     (case NormalizeHostname rawHostname of
        Inl _ \<Rightarrow> (Inl ErrInvalidCustomDomainHostname, t)
      | Inr hostname \<Rightarrow>
          (case HostnameExists (ds_env s) hostname t of
             Inl e \<Rightarrow> (Inl (Wrapped e), t)
           | Inr exists \<Rightarrow>
               if exists then (Inl ErrCustomDomainAlreadyExists, t)
               else
                 (case generateCustomDomainVerificationToken s of
                    None \<Rightarrow> (Inl RandomFailed, t)
                  | Some verificationToken \<Rightarrow>
                      (case Create (ds_env s) (new_domain s projectID hostname (ds_sha256hex s verificationToken)) t of
                         (Inl e, t') \<Rightarrow> (Inl (if e = ErrHostnameConflict then ErrCustomDomainAlreadyExists else Wrapped e), t')
                       | (Inr cd, t') \<Rightarrow>
                           (Inr \<lparr>cr_ID = cd_ID cd, cr_ProjectID = cd_ProjectID cd, cr_Hostname = cd_Hostname cd,
                                 cr_Status = cd_Status cd, cr_RecordName = cd_VerificationRecordName cd,
                                 cr_RecordValue = customDomainVerificationPrefix @ verificationToken,
                                 cr_CreatedAt = cd_CreatedAt cd\<rparr>, t')))))"

text \<open>A failure to record the failed check is only logged.\<close>

definition verification_failed :: "domain_service \<Rightarrow> custom_domain \<Rightarrow> string \<Rightarrow> service_error \<Rightarrow> domains \<Rightarrow> custom_domain service_result" where
  "verification_failed s cd reason err t =
     (Inl err, snd (RecordVerificationFailure (ds_env s) (cd_ID cd) (cd_ProjectID cd) reason t))"

definition VerifyCustomDomain :: "domain_service \<Rightarrow> uuid \<Rightarrow> uuid \<Rightarrow> domains \<Rightarrow> custom_domain service_result" where
  "VerifyCustomDomain s projectID customDomainID t =
     (case GetByIDForProject (ds_env s) customDomainID projectID t of
        Inl e \<Rightarrow> (Inl (from_repo e), t)
      | Inr cd \<Rightarrow>
          if cd_Status cd = DsVerified \<or> cd_Status cd = DsActive then (Inr cd, t)
          else
            (case ds_LookupTXT s (cd_VerificationRecordName cd) of
               Inl e \<Rightarrow>
                 if dns_IsNotFound e
                 then verification_failed s cd ''DNS verification TXT record missing'' ErrVerificationRecordNotFound t
                 else (Inl (LookupFailed (dns_Text e)), t)
             | Inr txtRecords \<Rightarrow>
                 if \<not> containsMatchingVerificationToken (ds_sha256hex s) txtRecords (cd_VerificationTokenHash cd)
                 then verification_failed s cd ''DNS verification token does not match'' ErrVerificationTokenMismatch t
                 else
                   (case MarkVerified (ds_env s) (cd_ID cd) (cd_ProjectID cd) t of
                      (Inl e, t') \<Rightarrow> (Inl (from_repo e), t')
                    | (Inr verified, t') \<Rightarrow> (Inr verified, t'))))"

definition ListCustomDomains :: "domain_service \<Rightarrow> uuid \<Rightarrow> domains \<Rightarrow> domains service_result" where
  "ListCustomDomains s projectID t =
     (case ListByProject (ds_env s) projectID t of Inl e \<Rightarrow> (Inl (Wrapped e), t) | Inr ds \<Rightarrow> (Inr ds, t))"

definition GetCustomDomain :: "domain_service \<Rightarrow> uuid \<Rightarrow> uuid \<Rightarrow> domains \<Rightarrow> custom_domain service_result" where
  "GetCustomDomain s projectID customDomainID t =
     (case GetByIDForProject (ds_env s) customDomainID projectID t of
        Inl e \<Rightarrow> (Inl (from_repo e), t)
      | Inr cd \<Rightarrow> (Inr cd, t))"

definition DeleteCustomDomain :: "domain_service \<Rightarrow> uuid \<Rightarrow> uuid \<Rightarrow> domains \<Rightarrow> custom_domain service_result" where
  "DeleteCustomDomain s projectID customDomainID t =
     (if \<not> ds_automationEnabled s then (Inl ErrAutomationDisabled, t)
      else
        (case EnqueueDeprovisioning (ds_env s) customDomainID projectID t of
           (Inl e, t') \<Rightarrow> (Inl (from_repo e), t')
         | (Inr cd, t') \<Rightarrow> (Inr cd, t')))"

definition RetryDeprovisioning :: "domain_service \<Rightarrow> uuid \<Rightarrow> uuid \<Rightarrow> domains \<Rightarrow> custom_domain service_result" where
  "RetryDeprovisioning s projectID customDomainID t =
     (if \<not> ds_automationEnabled s then (Inl ErrAutomationDisabled, t)
      else
        (case GetByIDForProject (ds_env s) customDomainID projectID t of
           Inl e \<Rightarrow> (Inl (from_repo e), t)
         | Inr cd \<Rightarrow>
             if cd_ProvisioningStatus cd \<noteq> PsDeprovisionFailed then (Inl ErrServiceNotEligibleForRetry, t)
             else
               (case ResetDeprovisioningForRetry (ds_env s) customDomainID projectID t of
                  (Inl e, t') \<Rightarrow> (Inl (Wrapped e), t')
                | (Inr retried, t') \<Rightarrow> (Inr retried, t'))))"

definition CheckCustomDomainRouting :: "domain_service \<Rightarrow> uuid \<Rightarrow> uuid \<Rightarrow> domains \<Rightarrow> custom_domain service_result" where
  "CheckCustomDomainRouting s projectID customDomainID t =
     (case GetByIDForProject (ds_env s) customDomainID projectID t of
        Inl e \<Rightarrow> (Inl (from_repo e), t)
      | Inr cd \<Rightarrow>
          if cd_Status cd \<noteq> DsVerified \<and> cd_Status cd \<noteq> DsActive then (Inl ErrCustomDomainNotVerified, t)
          else
            let expectedTarget = normalizeCNAME (ds_gatewayPublicHost s);
                update = (\<lambda>status err. UpdateRoutingStatus (ds_env s) (cd_ID cd) (cd_ProjectID cd) status expectedTarget err t)
            in case ds_LookupCNAME s (cd_Hostname cd) of
                 Inl e \<Rightarrow> (Inl ErrCNAMERecordNotFound, snd (update RsFailed (Some (''DNS CNAME lookup failed: '' @ dns_Text e))))
               | Inr resolvedCNAME \<Rightarrow>
                   let actualTarget = normalizeCNAME resolvedCNAME
                   in if actualTarget \<noteq> expectedTarget
                      then (Inl ErrCNAMERoutingMismatch,
                            snd (update RsFailed (Some (''expected '' @ expectedTarget @ '', got '' @ actualTarget))))
                      else (case update RsReady None of
                              (Inl e, t') \<Rightarrow> (Inl (Wrapped e), t')
                            | (Inr updated, t') \<Rightarrow> (Inr updated, t')))"

text \<open>\<open>performRetry\<close> compares the stored certificate status with the constant in lower case.\<close>

definition performRetry :: "domain_service \<Rightarrow> custom_domain \<Rightarrow> domains \<Rightarrow> custom_domain service_result" where
  "performRetry s cd t =
     (let targetState =
        (if ToString (cd_CertificateARN cd) \<noteq> [] then
           (if ToString (cd_ValidationName cd) = [] then PsWaitingForValidationRecord
            else if cd_CertificateStatus cd = Some ''issued'' then PsAttachingCertificate
            else PsWaitingForDNS)
         else PsRequestingCertificate)
      in case ResetProvisioningForRetry (ds_env s) (cd_ID cd) (cd_ProjectID cd) targetState t of
           (Inl e, t') \<Rightarrow> (Inl (Wrapped e), t')
         | (Inr retried, t') \<Rightarrow> (Inr retried, t'))"

datatype activation_state = ActivationQueued | ActivationInProgress | ActivationAlreadyActive

definition ActivateCustomDomain ::
  "domain_service \<Rightarrow> uuid \<Rightarrow> uuid \<Rightarrow> domains \<Rightarrow> (custom_domain \<times> activation_state) service_result" where
  "ActivateCustomDomain s projectID customDomainID t =
     (if \<not> ds_automationEnabled s then (Inl ErrAutomationDisabled, t)
      else
        (case GetByIDForProject (ds_env s) customDomainID projectID t of
           Inl e \<Rightarrow> (Inl (from_repo e), t)
         | Inr cd \<Rightarrow>
             if cd_Status cd = DsActive \<or> cd_ProvisioningStatus cd = PsCompleted then (Inr (cd, ActivationAlreadyActive), t)
             else if cd_ProvisioningStatus cd \<in> {PsRequestingCertificate, PsWaitingForValidationRecord, PsWaitingForDNS,
                 PsWaitingForCertificate, PsAttachingCertificate} then (Inr (cd, ActivationInProgress), t)
             else if cd_Status cd \<noteq> DsVerified then (Inl ErrCustomDomainNotVerified, t)
             else if cd_RoutingStatus cd \<noteq> RsReady then (Inl ErrCustomDomainRoutingNotReady, t)
             else if cd_ProvisioningStatus cd = PsFailed then
               (case performRetry s cd t of
                  (Inl e, t') \<Rightarrow> (Inl e, t')
                | (Inr retried, t') \<Rightarrow> (Inr (retried, ActivationQueued), t'))
             else
               (case EnqueueProvisioning (ds_env s) customDomainID projectID t of
                  (Inl e, t') \<Rightarrow> (Inl (Wrapped e), t')
                | (Inr enqueued, t') \<Rightarrow> (Inr (enqueued, ActivationQueued), t'))))"

definition sanitizeProvisioningError :: "string \<Rightarrow> string" where
  "sanitizeProvisioningError errStr =
     (let code = ToUpper (TrimSpace errStr)
      in if code = ''DOMAIN_VALIDATION_TIMED_OUT'' \<or> code = ''VALIDATION_TIMED_OUT'' then ''ACM domain validation timed out''
         else if code = ''FAILURE_REASON_NO_AVAILABLE_CONTACTS'' then ''ACM validation failed: no available contacts''
         else if code = ''FAILURE_REASON_ADDITIONAL_VERIFICATION_REQUIRED''
         then ''ACM validation failed: additional verification required''
         else if code = ''REVOKED'' then ''ACM certificate was revoked''
         else if code = ''EXPIRED'' then ''ACM certificate expired''
         else if code = ''INACTIVE'' then ''ACM certificate is inactive''
         else ''An error occurred during certificate provisioning. Please retry or contact support.'')"

record provisioning_status_response =
  psr_ID :: uuid
  psr_Hostname :: string
  psr_Status :: domain_status
  psr_RoutingStatus :: routing_status
  psr_ProvisioningStatus :: provisioning_status
  psr_CertificateStatus :: "string option"
  psr_ValidationName :: "string option"
  psr_ValidationValue :: "string option"
  psr_LastError :: "string option"
  psr_Attempts :: int
  psr_NextRetryAt :: "go_time option"
  psr_CertificateIssuedAt :: "go_time option"
  psr_CertificateAttachedAt :: "go_time option"
  psr_ActivatedAt :: "go_time option"
  psr_GatewayExternalID :: "string option"
  psr_GatewayType :: "string option"
  psr_HostRoutingActive :: bool

definition GetProvisioningStatus ::
  "domain_service \<Rightarrow> gateways \<Rightarrow> uuid \<Rightarrow> uuid \<Rightarrow> domains \<Rightarrow> provisioning_status_response service_result" where
  "GetProvisioningStatus s g projectID customDomainID t =
     (case GetByIDForProject (ds_env s) customDomainID projectID t of
        Inl e \<Rightarrow> (Inl (from_repo e), t)
      | Inr cd \<Rightarrow>
          let sanitizedErr = (case cd_ProvisioningError cd of
                                None \<Rightarrow> None
                              | Some e \<Rightarrow> if e \<noteq> [] then Some (sanitizeProvisioningError e) else None);
              waiting = (cd_ProvisioningStatus cd = PsWaitingForValidationRecord \<or> cd_ProvisioningStatus cd = PsWaitingForDNS);
              hostRoutingActive = (case cd_ListenerRuleARN cd of None \<Rightarrow> False | Some a \<Rightarrow> TrimSpace a \<noteq> []);
              gatewayExternalID =
                (if hostRoutingActive then
                   (case GetActiveProjectGatewayIngress (ds_env s) projectID g of
                      Inl _ \<Rightarrow> None
                    | Inr gw \<Rightarrow> if TrimSpace (pgi_ExternalID gw) \<noteq> [] then Some (TrimSpace (pgi_ExternalID gw)) else None)
                 else None)
          in (Inr \<lparr>psr_ID = cd_ID cd, psr_Hostname = cd_Hostname cd, psr_Status = cd_Status cd,
                   psr_RoutingStatus = cd_RoutingStatus cd, psr_ProvisioningStatus = cd_ProvisioningStatus cd,
                   psr_CertificateStatus = cd_CertificateStatus cd,
                   psr_ValidationName = (if waiting then cd_ValidationName cd else None),
                   psr_ValidationValue = (if waiting then cd_ValidationValue cd else None),
                   psr_LastError = sanitizedErr, psr_Attempts = cd_ProvisioningAttempts cd,
                   psr_NextRetryAt = cd_NextRetryAt cd, psr_CertificateIssuedAt = cd_CertificateIssuedAt cd,
                   psr_CertificateAttachedAt = cd_CertificateAttachedAt cd, psr_ActivatedAt = cd_ActivatedAt cd,
                   psr_GatewayExternalID = gatewayExternalID,
                   psr_GatewayType = (if hostRoutingActive then Some ''dedicated'' else None),
                   psr_HostRoutingActive = hostRoutingActive\<rparr>, t))"

definition RetryProvisioning :: "domain_service \<Rightarrow> uuid \<Rightarrow> uuid \<Rightarrow> domains \<Rightarrow> custom_domain service_result" where
  "RetryProvisioning s projectID customDomainID t =
     (if \<not> ds_automationEnabled s then (Inl ErrAutomationDisabled, t)
      else
        (case GetByIDForProject (ds_env s) customDomainID projectID t of
           Inl e \<Rightarrow> (Inl (from_repo e), t)
         | Inr cd \<Rightarrow>
             if cd_ProvisioningStatus cd \<noteq> PsFailed then (Inl ErrServiceNotEligibleForRetry, t)
             else if cd_Status cd \<noteq> DsVerified then (Inl ErrCustomDomainNotVerified, t)
             else if cd_RoutingStatus cd \<noteq> RsReady then (Inl ErrCustomDomainRoutingNotReady, t)
             else performRetry s cd t))"

section \<open>Handlers\<close>

datatype domain_body =
    NoBody | CreatedBody create_response | DomainBody custom_domain | DomainsBody domains
  | ActivationBody custom_domain activation_state | StatusBody provisioning_status_response

text \<open>
  What a handler answers: status, body, and the entry it hands to the audit service (action, entity id
  and label), whose failure the handler ignores.
\<close>

record domain_answer =
  da_status :: nat
  da_body :: domain_body
  da_audit :: "(string \<times> uuid \<times> string) option"

definition refused :: "nat \<Rightarrow> domain_answer" where
  "refused n = \<lparr>da_status = n, da_body = NoBody, da_audit = None\<rparr>"

definition answered :: "nat \<Rightarrow> string \<Rightarrow> custom_domain \<Rightarrow> domain_body \<Rightarrow> domain_answer" where
  "answered n action cd b = \<lparr>da_status = n, da_body = b, da_audit = Some (action, cd_ID cd, cd_Hostname cd)\<rparr>"

definition getTenantContext :: "admin_context \<Rightarrow> nat + tenant_context" where
  "getTenantContext c = (case cx_tenant c of None \<Rightarrow> Inl 500 | Some tc \<Rightarrow> Inr tc)"

text \<open>The common frame of the handlers with a domain id: tenant, id, service call, status of its error.\<close>

definition for_domain ::
  "(string \<Rightarrow> uuid option) \<Rightarrow> admin_context \<Rightarrow> string \<Rightarrow> (uuid \<Rightarrow> uuid \<Rightarrow> domains \<Rightarrow> 'a service_result)
    \<Rightarrow> (service_error \<Rightarrow> nat) \<Rightarrow> ('a \<Rightarrow> domain_answer) \<Rightarrow> domains \<Rightarrow> domain_answer \<times> domains" where
  "for_domain parse c domainId call status ok t =
     (case getTenantContext c of
        Inl n \<Rightarrow> (refused n, t)
      | Inr tc \<Rightarrow>
          (case parse domainId of
             None \<Rightarrow> (refused 400, t)
           | Some customDomainID \<Rightarrow>
               (case call (tc_ProjectID tc) customDomainID t of
                  (Inl e, t') \<Rightarrow> (refused (status e), t')
                | (Inr x, t') \<Rightarrow> (ok x, t'))))"

definition CustomDomainHandler_Create :: "domain_service \<Rightarrow> admin_context \<Rightarrow> string option \<Rightarrow> domains \<Rightarrow> domain_answer \<times> domains" where
  "CustomDomainHandler_Create s c body t =
     (case body of
        None \<Rightarrow> (refused 400, t)
      | Some hostname \<Rightarrow>
          (case cx_tenant c of
             None \<Rightarrow> (refused 403, t)
           | Some tc \<Rightarrow>
               (case CreateCustomDomain s (tc_ProjectID tc) hostname t of
                  (Inl e, t') \<Rightarrow>
                    (refused (case e of ErrInvalidCustomDomainHostname \<Rightarrow> 400 | ErrCustomDomainAlreadyExists \<Rightarrow> 409 | _ \<Rightarrow> 500), t')
                | (Inr result, t') \<Rightarrow>
                    (\<lparr>da_status = 201, da_body = CreatedBody result,
                      da_audit = Some (''custom_domain.create'', cr_ID result, cr_Hostname result)\<rparr>, t'))))"

definition CustomDomainHandler_Verify ::
  "domain_service \<Rightarrow> (string \<Rightarrow> uuid option) \<Rightarrow> admin_context \<Rightarrow> string \<Rightarrow> domains \<Rightarrow> domain_answer \<times> domains" where
  "CustomDomainHandler_Verify s parse c domainId =
     for_domain parse c domainId (VerifyCustomDomain s)
       (\<lambda>e. case e of ErrServiceDomainNotFound \<Rightarrow> 404 | ErrVerificationRecordNotFound \<Rightarrow> 422
              | ErrVerificationTokenMismatch \<Rightarrow> 422 | _ \<Rightarrow> 500)
       (\<lambda>cd. answered 200 ''custom_domain.verify'' cd (DomainBody cd))"

definition CustomDomainHandler_List :: "domain_service \<Rightarrow> admin_context \<Rightarrow> domains \<Rightarrow> domain_answer \<times> domains" where
  "CustomDomainHandler_List s c t =
     (case getTenantContext c of
        Inl n \<Rightarrow> (refused n, t)
      | Inr tc \<Rightarrow>
          (case ListCustomDomains s (tc_ProjectID tc) t of
             (Inl e, t') \<Rightarrow> (refused 500, t')
           | (Inr ds, t') \<Rightarrow> (\<lparr>da_status = 200, da_body = DomainsBody ds, da_audit = None\<rparr>, t')))"

definition CustomDomainHandler_Get ::
  "domain_service \<Rightarrow> (string \<Rightarrow> uuid option) \<Rightarrow> admin_context \<Rightarrow> string \<Rightarrow> domains \<Rightarrow> domain_answer \<times> domains" where
  "CustomDomainHandler_Get s parse c domainId =
     for_domain parse c domainId (GetCustomDomain s)
       (\<lambda>e. case e of ErrServiceDomainNotFound \<Rightarrow> 404 | _ \<Rightarrow> 500)
       (\<lambda>cd. \<lparr>da_status = 200, da_body = DomainBody cd, da_audit = None\<rparr>)"

definition CustomDomainHandler_Delete ::
  "domain_service \<Rightarrow> (string \<Rightarrow> uuid option) \<Rightarrow> admin_context \<Rightarrow> string \<Rightarrow> domains \<Rightarrow> domain_answer \<times> domains" where
  "CustomDomainHandler_Delete s parse c domainId =
     for_domain parse c domainId (DeleteCustomDomain s)
       (\<lambda>e. case e of ErrAutomationDisabled \<Rightarrow> 503 | ErrServiceDomainNotFound \<Rightarrow> 404 | _ \<Rightarrow> 500)
       (\<lambda>cd. answered (if cd_ProvisioningStatus cd = PsDeprovisioned \<or> cd_DeletedAt cd \<noteq> None then 200 else 202)
                ''custom_domain.delete'' cd (DomainBody cd))"

definition CustomDomainHandler_RetryDeprovisioning ::
  "domain_service \<Rightarrow> (string \<Rightarrow> uuid option) \<Rightarrow> admin_context \<Rightarrow> string \<Rightarrow> domains \<Rightarrow> domain_answer \<times> domains" where
  "CustomDomainHandler_RetryDeprovisioning s parse c domainId =
     for_domain parse c domainId (RetryDeprovisioning s)
       (\<lambda>e. case e of ErrAutomationDisabled \<Rightarrow> 503 | ErrServiceDomainNotFound \<Rightarrow> 404
              | ErrServiceNotEligibleForRetry \<Rightarrow> 422 | _ \<Rightarrow> 500)
       (\<lambda>cd. answered 202 ''custom_domain.retry_deprovisioning'' cd (DomainBody cd))"

definition CustomDomainHandler_CheckRouting ::
  "domain_service \<Rightarrow> (string \<Rightarrow> uuid option) \<Rightarrow> admin_context \<Rightarrow> string \<Rightarrow> domains \<Rightarrow> domain_answer \<times> domains" where
  "CustomDomainHandler_CheckRouting s parse c domainId =
     for_domain parse c domainId (CheckCustomDomainRouting s)
       (\<lambda>e. case e of ErrServiceDomainNotFound \<Rightarrow> 404 | ErrCustomDomainNotVerified \<Rightarrow> 409
              | ErrCNAMERecordNotFound \<Rightarrow> 422 | ErrCNAMERoutingMismatch \<Rightarrow> 422 | _ \<Rightarrow> 500)
       (\<lambda>cd. answered 200 ''custom_domain.check_routing'' cd (DomainBody cd))"

definition CustomDomainHandler_Activate ::
  "domain_service \<Rightarrow> (string \<Rightarrow> uuid option) \<Rightarrow> admin_context \<Rightarrow> string \<Rightarrow> domains \<Rightarrow> domain_answer \<times> domains" where
  "CustomDomainHandler_Activate s parse c domainId =
     for_domain parse c domainId (ActivateCustomDomain s)
       (\<lambda>e. case e of ErrAutomationDisabled \<Rightarrow> 503 | ErrServiceDomainNotFound \<Rightarrow> 404
              | ErrCustomDomainNotVerified \<Rightarrow> 422 | ErrCustomDomainRoutingNotReady \<Rightarrow> 422 | _ \<Rightarrow> 500)
       (\<lambda>(cd, state). answered (case state of ActivationAlreadyActive \<Rightarrow> 200 | _ \<Rightarrow> 202)
                         ''custom_domain.activate'' cd (ActivationBody cd state))"

definition CustomDomainHandler_GetProvisioningStatus ::
  "domain_service \<Rightarrow> gateways \<Rightarrow> (string \<Rightarrow> uuid option) \<Rightarrow> admin_context \<Rightarrow> string \<Rightarrow> domains \<Rightarrow> domain_answer \<times> domains" where
  "CustomDomainHandler_GetProvisioningStatus s g parse c domainId =
     for_domain parse c domainId (GetProvisioningStatus s g)
       (\<lambda>e. case e of ErrServiceDomainNotFound \<Rightarrow> 404 | _ \<Rightarrow> 500)
       (\<lambda>resp. \<lparr>da_status = 200, da_body = StatusBody resp, da_audit = None\<rparr>)"

definition CustomDomainHandler_RetryProvisioning ::
  "domain_service \<Rightarrow> (string \<Rightarrow> uuid option) \<Rightarrow> admin_context \<Rightarrow> string \<Rightarrow> domains \<Rightarrow> domain_answer \<times> domains" where
  "CustomDomainHandler_RetryProvisioning s parse c domainId =
     for_domain parse c domainId (RetryProvisioning s)
       (\<lambda>e. case e of ErrAutomationDisabled \<Rightarrow> 503 | ErrServiceDomainNotFound \<Rightarrow> 404
              | ErrServiceNotEligibleForRetry \<Rightarrow> 422 | ErrCustomDomainNotVerified \<Rightarrow> 422
              | ErrCustomDomainRoutingNotReady \<Rightarrow> 422 | _ \<Rightarrow> 500)
       (\<lambda>cd. answered 202 ''custom_domain.retry_provisioning'' cd (DomainBody cd))"

text \<open>The calls of the API, each with its route and its handler.\<close>

datatype domain_call =
    DomainCreate "string option" | DomainVerify string | DomainList | DomainGet string | DomainDelete string
  | DomainRetryDeprovisioning string | DomainCheckRouting string | DomainActivate string
  | DomainProvisioningStatus string | DomainRetryProvisioning string

fun domain_route :: "domain_call \<Rightarrow> string \<times> string" where
  "domain_route (DomainCreate _) = (''POST'', ''/admin/v1/projects/:projectId/custom-domains'')"
| "domain_route (DomainVerify _) = (''POST'', ''/admin/v1/projects/:projectId/custom-domains/:domainId/verify'')"
| "domain_route DomainList = (''GET'', ''/admin/v1/projects/:projectId/custom-domains'')"
| "domain_route (DomainGet _) = (''GET'', ''/admin/v1/projects/:projectId/custom-domains/:domainId'')"
| "domain_route (DomainDelete _) = (''DELETE'', ''/admin/v1/projects/:projectId/custom-domains/:domainId'')"
| "domain_route (DomainRetryDeprovisioning _) =
     (''POST'', ''/admin/v1/projects/:projectId/custom-domains/:domainId/retry-deprovisioning'')"
| "domain_route (DomainCheckRouting _) = (''POST'', ''/admin/v1/projects/:projectId/custom-domains/:domainId/check-routing'')"
| "domain_route (DomainActivate _) = (''POST'', ''/admin/v1/projects/:projectId/custom-domains/:domainId/activate'')"
| "domain_route (DomainProvisioningStatus _) =
     (''GET'', ''/admin/v1/projects/:projectId/custom-domains/:domainId/provisioning-status'')"
| "domain_route (DomainRetryProvisioning _) =
     (''POST'', ''/admin/v1/projects/:projectId/custom-domains/:domainId/retry-provisioning'')"

fun domain_handle ::
  "domain_service \<Rightarrow> gateways \<Rightarrow> (string \<Rightarrow> uuid option) \<Rightarrow> admin_context \<Rightarrow> domain_call \<Rightarrow> domains \<Rightarrow> domain_answer \<times> domains" where
  "domain_handle s g parse c (DomainCreate body) t = CustomDomainHandler_Create s c body t"
| "domain_handle s g parse c (DomainVerify i) t = CustomDomainHandler_Verify s parse c i t"
| "domain_handle s g parse c DomainList t = CustomDomainHandler_List s c t"
| "domain_handle s g parse c (DomainGet i) t = CustomDomainHandler_Get s parse c i t"
| "domain_handle s g parse c (DomainDelete i) t = CustomDomainHandler_Delete s parse c i t"
| "domain_handle s g parse c (DomainRetryDeprovisioning i) t = CustomDomainHandler_RetryDeprovisioning s parse c i t"
| "domain_handle s g parse c (DomainCheckRouting i) t = CustomDomainHandler_CheckRouting s parse c i t"
| "domain_handle s g parse c (DomainActivate i) t = CustomDomainHandler_Activate s parse c i t"
| "domain_handle s g parse c (DomainProvisioningStatus i) t = CustomDomainHandler_GetProvisioningStatus s g parse c i t"
| "domain_handle s g parse c (DomainRetryProvisioning i) t = CustomDomainHandler_RetryProvisioning s parse c i t"

definition domain_serve ::
  "domain_service \<Rightarrow> admin_env \<Rightarrow> tenancy \<Rightarrow> gateways \<Rightarrow> string \<Rightarrow> (string \<Rightarrow> string) \<Rightarrow> string \<Rightarrow> domain_call \<Rightarrow> domains
    \<Rightarrow> domain_answer \<times> domains" where
  "domain_serve s ae db g remoteAddr headers projectId call t =
     (case List.find (\<lambda>(m, p, _). (m, p) = domain_route call) admin_routes of
        None \<Rightarrow> (refused 404, t)
      | Some (_, _, guard) \<Rightarrow>
          (case chain (guards_of ae guard) db
                  \<lparr>cx_RemoteAddr = remoteAddr, cx_Header = headers, cx_projectId = projectId, cx_userID = None, cx_tenant = None\<rparr> of
             Inl status \<Rightarrow> (refused status, t)
           | Inr c \<Rightarrow> domain_handle s g (ae_uuid ae) c call t))"

end
