(* ===== verification/Domain_Ownership.thy ===== *)
theory Domain_Ownership
  imports Custom_Domain_Service
begin

text \<open>
  What the custom-domain API and the provisioning worker guarantee together: over any sequence of API
  calls and worker runs a domain is verified only after its DNS record was seen, becomes active only
  after it points at the gateway, and no call reaches into another project.
\<close>

section \<open>What a call does to the table\<close>

text \<open>
  The changes a call can make: a row appended by a registration, or an update of the caller's rows
  that keeps the identity of the row and the secret behind it.
\<close>

definition same_domain :: "custom_domain \<Rightarrow> custom_domain \<Rightarrow> bool" where
  "same_domain r r' \<longleftrightarrow>
     cd_ID r' = cd_ID r \<and> cd_ProjectID r' = cd_ProjectID r \<and> cd_Hostname r' = cd_Hostname r
     \<and> cd_VerificationTokenHash r' = cd_VerificationTokenHash r
     \<and> cd_VerificationRecordName r' = cd_VerificationRecordName r"

lemma same_domain_refl [simp]: "same_domain r r"
  by (simp add: same_domain_def)

definition updates_rows :: "(custom_domain \<Rightarrow> bool) \<Rightarrow> (custom_domain \<Rightarrow> custom_domain \<Rightarrow> bool) \<Rightarrow> domains \<Rightarrow> domains \<Rightarrow> bool" where
  "updates_rows P R t t' \<longleftrightarrow> t' = t \<or> (\<exists>Q f. t' = sql_update Q f t \<and> (\<forall>r. Q r \<longrightarrow> P r \<and> R r (f r)))"

lemma updates_rows_same [simp]: "updates_rows P R t t"
  by (simp add: updates_rows_def)

lemma updates_rowsI: "(\<And>r. Q r \<Longrightarrow> P r \<and> R r (f r)) \<Longrightarrow> updates_rows P R t (sql_update Q f t)"
  by (auto simp: updates_rows_def)

lemma updates_returning:
  "(\<And>r. Q r \<Longrightarrow> P r \<and> R r (f r)) \<Longrightarrow> updates_rows P R t (snd (update_returning env s Q f t))"
  by (auto simp: update_returning_def updates_rowsI split: option.split)

lemma updates_counted:
  "(\<And>r. Q r \<Longrightarrow> P r \<and> R r (f r)) \<Longrightarrow> updates_rows P R t (snd (cd_counted m (exec_update env s s' Q f t)))"
  by (auto simp: cd_counted_def exec_update_def updates_rowsI split: option.split)

lemma updates_rows_back:
  assumes "updates_rows P R t t'" "r' \<in> set t'"
  obtains (kept) "r' \<in> set t" | (changed) r where "r \<in> set t" "P r" "R r r'"
  using assms by (auto simp: updates_rows_def in_sql_update split: if_splits)

lemma updates_rows_idents:
  assumes "updates_rows P R t t'" "\<And>r r'. R r r' \<Longrightarrow> same_domain r r'"
  shows "map cd_ID t' = map cd_ID t"
  using assms by (auto simp: updates_rows_def sql_update_def same_domain_def)

text \<open>The stages of the pipeline a domain enters by activation only.\<close>

definition in_pipeline :: "provisioning_status \<Rightarrow> bool" where
  "in_pipeline s \<longleftrightarrow>
     s \<in> {PsRequestingCertificate, PsWaitingForValidationRecord, PsWaitingForDNS, PsWaitingForCertificate,
          PsAttachingCertificate, PsCompleted, PsFailed}"

text \<open>How a call that is neither a registration nor a successful check changes a row.\<close>

definition row_administered :: "custom_domain \<Rightarrow> custom_domain \<Rightarrow> bool" where
  "row_administered r r' \<longleftrightarrow>
     same_domain r r' \<and> cd_Status r' = cd_Status r \<and> (cd_RoutingStatus r' = RsReady \<longrightarrow> cd_RoutingStatus r = RsReady)
     \<and> (in_pipeline (cd_ProvisioningStatus r') \<longrightarrow>
          in_pipeline (cd_ProvisioningStatus r) \<or> cd_Status r = DsVerified \<and> cd_RoutingStatus r = RsReady)"

definition row_verified :: "custom_domain \<Rightarrow> custom_domain \<Rightarrow> bool" where
  "row_verified r r' \<longleftrightarrow>
     same_domain r r' \<and> cd_Status r' = DsVerified \<and> cd_RoutingStatus r' = cd_RoutingStatus r
     \<and> cd_ProvisioningStatus r' = cd_ProvisioningStatus r"

definition row_routed :: "custom_domain \<Rightarrow> custom_domain \<Rightarrow> bool" where
  "row_routed r r' \<longleftrightarrow>
     same_domain r r' \<and> cd_Status r' = cd_Status r \<and> cd_RoutingStatus r' = RsReady
     \<and> cd_ProvisioningStatus r' = cd_ProvisioningStatus r"

lemma GetByIDForProject_Inr:
  "GetByIDForProject env i p t = Inr cd \<Longrightarrow> cd \<in> set t \<and> cd_owned i p cd"
  by (auto simp: GetByIDForProject_def row_or_def select_row_def cd_owned_def split: option.splits dest: find_SomeD)

lemma in_pipeline_simps [simp]:
  "in_pipeline PsRequestingCertificate" "in_pipeline PsWaitingForValidationRecord" "in_pipeline PsWaitingForDNS"
  "in_pipeline PsAttachingCertificate" "in_pipeline PsCompleted" "in_pipeline PsFailed" "\<not> in_pipeline PsDeprovisioning"
  "\<not> in_pipeline PsNotStarted" "\<not> in_pipeline PsEmpty" "\<not> in_pipeline PsDeprovisioned" "\<not> in_pipeline PsDeprovisionFailed"
  by (simp_all add: in_pipeline_def)

lemma set_administered:
  "row_administered r (VerificationFailure_set env m r)" "row_administered r (EnqueueDeprovisioning_set env r)"
  "row_administered r (ResetDeprovisioning_set env r)" "row_administered r (UpdateRoutingStatus_set env RsFailed tg re r)"
  "Enqueue_where i p r \<Longrightarrow> row_administered r (restart_set env s r)"
  "cd_ProvisioningStatus r = PsFailed \<Longrightarrow> row_administered r (restart_set env s r)"
  by (simp_all add: row_administered_def same_domain_def VerificationFailure_set_def EnqueueDeprovisioning_set_def
      ResetDeprovisioning_set_def UpdateRoutingStatus_set_def restart_set_def cd_unlock_def Enqueue_where_def)

lemma set_checked:
  "row_verified r (MarkVerified_set env r)" "row_routed r (UpdateRoutingStatus_set env RsReady tg re r)"
  by (simp_all add: row_verified_def row_routed_def same_domain_def MarkVerified_set_def UpdateRoutingStatus_set_def)

lemma repo_administers:
  "updates_rows (cd_owned i p) row_administered t (snd (RecordVerificationFailure env i p m t))"
  "updates_rows (cd_owned i p) row_administered t (snd (EnqueueDeprovisioning env i p t))"
  "updates_rows (cd_owned i p) row_administered t (snd (ResetDeprovisioningForRetry env i p t))"
  "updates_rows (cd_owned i p) row_administered t (snd (UpdateRoutingStatus env i p RsFailed tg re t))"
  "updates_rows (cd_owned i p) row_administered t (snd (EnqueueProvisioning env i p t))"
  "updates_rows (cd_owned i p) row_administered t (snd (ResetProvisioningForRetry env i p s t))"
proof -
  have snd_enq: "snd (EnqueueDeprovisioning env i p t)
      = snd (update_returning env ''enqueue deprovisioning update'' (EnqueueDeprovisioning_where i p) (EnqueueDeprovisioning_set env) t)"
    by (auto simp: EnqueueDeprovisioning_def split: prod.splits sum.splits option.splits)
  have snd_enp: "snd (EnqueueProvisioning env i p t)
      = snd (update_returning env ''enqueue provisioning update'' (Enqueue_where i p) (restart_set env PsRequestingCertificate) t)"
    by (auto simp: EnqueueProvisioning_def split: prod.splits sum.splits option.splits)
  show "updates_rows (cd_owned i p) row_administered t (snd (RecordVerificationFailure env i p m t))"
    unfolding RecordVerificationFailure_def by (rule updates_counted) (simp add: set_administered)
  show "updates_rows (cd_owned i p) row_administered t (snd (EnqueueDeprovisioning env i p t))"
    unfolding snd_enq by (rule updates_returning) (simp add: set_administered EnqueueDeprovisioning_where_def)
  show "updates_rows (cd_owned i p) row_administered t (snd (ResetDeprovisioningForRetry env i p t))"
    unfolding ResetDeprovisioningForRetry_def snd_apfst by (rule updates_returning) (simp add: set_administered)
  show "updates_rows (cd_owned i p) row_administered t (snd (UpdateRoutingStatus env i p RsFailed tg re t))"
    unfolding UpdateRoutingStatus_def snd_apfst by (rule updates_returning) (simp add: set_administered)
  show "updates_rows (cd_owned i p) row_administered t (snd (EnqueueProvisioning env i p t))"
    unfolding snd_enp by (rule updates_returning) (use set_administered(5) in \<open>auto simp: Enqueue_where_def\<close>)
  show "updates_rows (cd_owned i p) row_administered t (snd (ResetProvisioningForRetry env i p s t))"
    unfolding ResetProvisioningForRetry_def snd_apfst by (rule updates_returning) (simp add: set_administered)
qed

lemma repo_checks:
  "updates_rows (cd_owned i p) row_verified t (snd (MarkVerified env i p t))"
  "updates_rows (cd_owned i p) row_routed t (snd (UpdateRoutingStatus env i p RsReady tg re t))"
  unfolding MarkVerified_def UpdateRoutingStatus_def snd_apfst
  by (rule updates_returning; simp add: set_checked)+

section \<open>What a call observed\<close>

record domain_event =
  ev_service :: domain_service
  ev_parse :: "string \<Rightarrow> uuid option"
  ev_ctx :: admin_context
  ev_call :: domain_call
  ev_answer :: domain_answer

text \<open>The registration that answered with this token for the row.\<close>

definition issued_token :: "domain_event \<Rightarrow> custom_domain \<Rightarrow> string \<Rightarrow> bool" where
  "issued_token e r token \<longleftrightarrow> (\<exists>resp. tenant_is (ev_ctx e) (cd_ProjectID r) \<and> da_body (ev_answer e) = CreatedBody resp
     \<and> cr_ID resp = cd_ID r \<and> cr_ProjectID resp = cd_ProjectID r \<and> cr_Hostname resp = cd_Hostname r
     \<and> cr_RecordName resp = customDomainVerificationRecord @ ''.'' @ cd_Hostname r
     \<and> cr_RecordValue resp = customDomainVerificationPrefix @ token)"

text \<open>A TXT record that carries a token, and a verification that found one under the name of the row.\<close>

definition carries_token :: "string \<Rightarrow> string \<Rightarrow> bool" where
  "carries_token rcd token \<longleftrightarrow>
     token \<noteq> [] \<and> (\<exists>rest. TrimSpace rcd = customDomainVerificationPrefix @ rest \<and> TrimSpace rest = token)"

definition found_token :: "domain_event \<Rightarrow> custom_domain \<Rightarrow> string \<Rightarrow> bool" where
  "found_token e r token \<longleftrightarrow> (\<exists>raw rcds. tenant_is (ev_ctx e) (cd_ProjectID r) \<and> ev_call e = DomainVerify raw
     \<and> ev_parse e raw = Some (cd_ID r)
     \<and> ds_LookupTXT (ev_service e) (customDomainVerificationRecord @ ''.'' @ cd_Hostname r) = Inr rcds
     \<and> list_ex (\<lambda>rcd. carries_token rcd token) rcds)"

text \<open>A routing check that found the name of the row pointing at the gateway.\<close>

definition found_route :: "domain_event \<Rightarrow> custom_domain \<Rightarrow> bool" where
  "found_route e r \<longleftrightarrow> (\<exists>raw cname. tenant_is (ev_ctx e) (cd_ProjectID r) \<and> ev_call e = DomainCheckRouting raw
     \<and> ev_parse e raw = Some (cd_ID r) \<and> ds_LookupCNAME (ev_service e) (cd_Hostname r) = Inr cname
     \<and> normalizeCNAME cname = normalizeCNAME (ds_gatewayPublicHost (ev_service e)))"

lemma same_domain_evidence:
  assumes "same_domain r r'"
  shows "issued_token e r' = issued_token e r" "found_token e r' = found_token e r" "found_route e r' = found_route e r"
  using assms by (simp_all add: fun_eq_iff same_domain_def issued_token_def found_token_def found_route_def)

lemma carries_token_iff:
  "carries_token rcd token \<longleftrightarrow> HasPrefix (TrimSpace rcd) customDomainVerificationPrefix
     \<and> TrimSpace (TrimPrefix (TrimSpace rcd) customDomainVerificationPrefix) \<noteq> []
     \<and> token = TrimSpace (TrimPrefix (TrimSpace rcd) customDomainVerificationPrefix)"
  by (auto simp: carries_token_def HasPrefix_iff TrimPrefix_append)

lemma contains_token:
  "containsMatchingVerificationToken sha rcds h \<longleftrightarrow> (\<exists>rcd \<in> set rcds. \<exists>token. carries_token rcd token \<and> sha token = h)"
  by (induction sha rcds h rule: containsMatchingVerificationToken.induct)
     (simp_all add: carries_token_iff secureHashEqual_def Let_def, blast)

text \<open>The registration, the two checks, and everything else a call can do.\<close>

lemma Create_Inr:
  assumes "Create env c t = (Inr cd, t')"
  shows "t' = t @ [inserted_row env (with_defaults c)] \<and> cd_ID c \<notin> set (map cd_ID t)
    \<and> cd = (with_defaults c)\<lparr>cd_CreatedAt := de_now env, cd_UpdatedAt := de_now env\<rparr>"
  using assms by (auto simp: Create_def with_defaults_def Let_def list_ex_iff split: option.splits if_splits)

lemma Create_Inl: "Create env c t = (Inl e, t') \<Longrightarrow> t' = t"
  by (auto simp: Create_def Let_def split: option.splits if_splits)

definition registered :: "domain_event \<Rightarrow> custom_domain \<Rightarrow> bool" where
  "registered e r \<longleftrightarrow>
     (\<exists>token. issued_token e r token \<and> cd_VerificationTokenHash r = ds_sha256hex (ev_service e) token)
     \<and> cd_VerificationRecordName r = customDomainVerificationRecord @ ''.'' @ cd_Hostname r
     \<and> cd_Status r = DsPendingVerification \<and> cd_RoutingStatus r = RsPending \<and> cd_ProvisioningStatus r = PsNotStarted"

lemma handler_create:
  assumes "CustomDomainHandler_Create s c body t = (ans, t')"
  obtains (same) "t' = t"
  | (registered) r where "t' = t @ [r]" "cd_ID r \<notin> set (map cd_ID t)"
      "\<And>e. ev_service e = s \<Longrightarrow> ev_ctx e = c \<Longrightarrow> ev_answer e = ans \<Longrightarrow> registered e r"
proof (cases "t' = t")
  case False
  obtain raw tc host token cd where c: "cx_tenant c = Some tc"
    and cr: "Create (ds_env s) (new_domain s (tc_ProjectID tc) host (ds_sha256hex s token)) t = (Inr cd, t')"
    and ans: "da_body ans = CreatedBody \<lparr>cr_ID = cd_ID cd, cr_ProjectID = cd_ProjectID cd, cr_Hostname = cd_Hostname cd,
        cr_Status = cd_Status cd, cr_RecordName = cd_VerificationRecordName cd,
        cr_RecordValue = customDomainVerificationPrefix @ token, cr_CreatedAt = cd_CreatedAt cd\<rparr>"
    using assms False
    by (auto simp: CustomDomainHandler_Create_def CreateCustomDomain_def
        split: option.splits sum.splits prod.splits if_splits dest: Create_Inl)
  let ?r = "inserted_row (ds_env s) (with_defaults (new_domain s (tc_ProjectID tc) host (ds_sha256hex s token)))"
  from Create_Inr [OF cr] have t': "t' = t @ [?r]" "cd_ID ?r \<notin> set (map cd_ID t)"
    and cd: "cd = (with_defaults (new_domain s (tc_ProjectID tc) host (ds_sha256hex s token)))
        \<lparr>cd_CreatedAt := de_now (ds_env s), cd_UpdatedAt := de_now (ds_env s)\<rparr>"
    by (auto simp: inserted_row_def with_defaults_def new_domain_def)
  have "registered e ?r" if "ev_service e = s" "ev_ctx e = c" "ev_answer e = ans" for e
    using that c ans
    by (auto simp: registered_def issued_token_def tenant_is_def cd inserted_row_def with_defaults_def new_domain_def)
  then show ?thesis using registered [OF t'] by blast
qed (rule same)

lemma for_domain_cases:
  assumes "for_domain parse c raw call status ok t = (ans, t')"
  obtains (same) "t' = t" | (called) tc i where "cx_tenant c = Some tc" "parse raw = Some i" "t' = snd (call (tc_ProjectID tc) i t)"
  using assms
  by (auto simp: for_domain_def getTenantContext_def split: option.splits sum.splits prod.splits)

text \<open>Passing a repository result on leaves its table alone.\<close>

lemma snd_passed_on [simp]:
  "snd (case x of (Inl e, t') \<Rightarrow> (Inl (f e), t') | (Inr v, t') \<Rightarrow> (Inr (h v), t')) = snd x"
  by (simp split: prod.split sum.split)

lemma Verify_effect:
  obtains (administered) "updates_rows (cd_owned i p) row_administered t (snd (VerifyCustomDomain s p i t))"
  | (verified) cd rcds where "cd \<in> set t" "cd_owned i p cd" "ds_LookupTXT s (cd_VerificationRecordName cd) = Inr rcds"
      "containsMatchingVerificationToken (ds_sha256hex s) rcds (cd_VerificationTokenHash cd)"
      "updates_rows (cd_owned i p) row_verified t (snd (VerifyCustomDomain s p i t))"
proof (cases "GetByIDForProject (ds_env s) i p t")
  case Inl
  then show ?thesis using administered by (simp add: VerifyCustomDomain_def)
next
  case (Inr cd)
  then have cd: "cd \<in> set t" "cd_owned i p cd" using GetByIDForProject_Inr by blast+
  then have key: "cd_ID cd = i" "cd_ProjectID cd = p" by (simp_all add: cd_owned_def)
  show ?thesis
  proof (cases "cd_Status cd = DsVerified \<or> cd_Status cd = DsActive")
    case True
    then show ?thesis using administered Inr by (simp add: VerifyCustomDomain_def)
  next
    case False
    show ?thesis
    proof (cases "ds_LookupTXT s (cd_VerificationRecordName cd)")
      case (Inl e)
      then show ?thesis using administered Inr False repo_administers(1)
        by (simp add: VerifyCustomDomain_def verification_failed_def key)
    next
      case rcds: (Inr rcds)
      show ?thesis
      proof (cases "containsMatchingVerificationToken (ds_sha256hex s) rcds (cd_VerificationTokenHash cd)")
        case True
        then show ?thesis using verified [OF cd rcds] Inr False rcds repo_checks(1)
          by (simp add: VerifyCustomDomain_def key)
      next
        case unmatched: False
        then show ?thesis using administered Inr False rcds repo_administers(1)
          by (simp add: VerifyCustomDomain_def verification_failed_def key)
      qed
    qed
  qed
qed

lemma CheckRouting_effect:
  obtains (administered) "updates_rows (cd_owned i p) row_administered t (snd (CheckCustomDomainRouting s p i t))"
  | (routed) cd cname where "cd \<in> set t" "cd_owned i p cd" "ds_LookupCNAME s (cd_Hostname cd) = Inr cname"
      "normalizeCNAME cname = normalizeCNAME (ds_gatewayPublicHost s)"
      "updates_rows (cd_owned i p) row_routed t (snd (CheckCustomDomainRouting s p i t))"
proof (cases "GetByIDForProject (ds_env s) i p t")
  case Inl
  then show ?thesis using administered by (simp add: CheckCustomDomainRouting_def)
next
  case (Inr cd)
  then have cd: "cd \<in> set t" "cd_owned i p cd" using GetByIDForProject_Inr by blast+
  then have key: "cd_ID cd = i" "cd_ProjectID cd = p" by (simp_all add: cd_owned_def)
  show ?thesis
  proof (cases "\<exists>cname. (cd_Status cd = DsVerified \<or> cd_Status cd = DsActive) \<and> ds_LookupCNAME s (cd_Hostname cd) = Inr cname
      \<and> normalizeCNAME cname = normalizeCNAME (ds_gatewayPublicHost s)")
    case True
    then obtain cname where cname: "cd_Status cd = DsVerified \<or> cd_Status cd = DsActive"
      "ds_LookupCNAME s (cd_Hostname cd) = Inr cname" "normalizeCNAME cname = normalizeCNAME (ds_gatewayPublicHost s)" by blast
    then have "updates_rows (cd_owned i p) row_routed t (snd (CheckCustomDomainRouting s p i t))"
      using repo_checks(2) by (auto simp: CheckCustomDomainRouting_def Let_def Inr key)
    then show ?thesis using routed [OF cd cname(2,3)] by blast
  next
    case False
    then have "updates_rows (cd_owned i p) row_administered t (snd (CheckCustomDomainRouting s p i t))"
      using repo_administers(4) by (auto simp: CheckCustomDomainRouting_def Let_def Inr key split: sum.split)
    then show ?thesis by (rule administered)
  qed
qed

lemma performRetry_effect:
  "cd_owned i p cd \<Longrightarrow> updates_rows (cd_owned i p) row_administered t (snd (performRetry s cd t))"
proof -
  assume "cd_owned i p cd"
  then have key: "cd_ID cd = i" "cd_ProjectID cd = p" by (simp_all add: cd_owned_def)
  have "updates_rows (cd_owned i p) row_administered t (snd (ResetProvisioningForRetry (ds_env s) (cd_ID cd) (cd_ProjectID cd) ts t))" for ts
    using repo_administers(6) by (simp add: key)
  then show ?thesis by (simp only: performRetry_def Let_def snd_passed_on)
qed

lemma service_administers:
  "updates_rows (cd_owned i p) row_administered t (snd (GetCustomDomain s p i t))"
  "updates_rows (cd_owned i p) row_administered t (snd (DeleteCustomDomain s p i t))"
  "updates_rows (cd_owned i p) row_administered t (snd (RetryDeprovisioning s p i t))"
  "updates_rows (cd_owned i p) row_administered t (snd (GetProvisioningStatus s g p i t))"
  "updates_rows (cd_owned i p) row_administered t (snd (RetryProvisioning s p i t))"
  "updates_rows (cd_owned i p) row_administered t (snd (ActivateCustomDomain s p i t))"
proof -
  show "updates_rows (cd_owned i p) row_administered t (snd (GetCustomDomain s p i t))"
    by (simp add: GetCustomDomain_def split: sum.split)
  show "updates_rows (cd_owned i p) row_administered t (snd (GetProvisioningStatus s g p i t))"
    by (simp add: GetProvisioningStatus_def Let_def split: sum.split)
  have "snd (DeleteCustomDomain s p i t) \<in> {t, snd (EnqueueDeprovisioning (ds_env s) i p t)}"
    by (auto simp: DeleteCustomDomain_def split: prod.splits sum.splits)
  then show "updates_rows (cd_owned i p) row_administered t (snd (DeleteCustomDomain s p i t))"
    using repo_administers(2) by auto
  have "snd (RetryDeprovisioning s p i t) \<in> {t, snd (ResetDeprovisioningForRetry (ds_env s) i p t)}"
    by (auto simp: RetryDeprovisioning_def split: prod.splits sum.splits)
  then show "updates_rows (cd_owned i p) row_administered t (snd (RetryDeprovisioning s p i t))"
    using repo_administers(3) by auto
  show "updates_rows (cd_owned i p) row_administered t (snd (RetryProvisioning s p i t))"
    using performRetry_effect by (auto simp: RetryProvisioning_def split: sum.split dest!: GetByIDForProject_Inr)
  show "updates_rows (cd_owned i p) row_administered t (snd (ActivateCustomDomain s p i t))"
    using performRetry_effect repo_administers(5)
    by (auto simp: ActivateCustomDomain_def split: sum.split dest!: GetByIDForProject_Inr)
qed

lemma for_domain_administers:
  assumes "for_domain parse c raw f status ok t = (ans, t')"
    "\<And>p i. updates_rows (cd_owned i p) row_administered t (snd (f p i t))"
    "t' = t \<Longrightarrow> thesis"
    "\<And>tc i. cx_tenant c = Some tc \<Longrightarrow> updates_rows (cd_owned i (tc_ProjectID tc)) row_administered t t' \<Longrightarrow> thesis"
  shows thesis
  using assms(1)
proof (cases rule: for_domain_cases)
  case (called tc i)
  then show ?thesis using assms(2) assms(4) [OF called(1), of i] by simp
qed (rule assms(3))

lemmas administering_handlers = CustomDomainHandler_Get_def CustomDomainHandler_Delete_def
  CustomDomainHandler_RetryDeprovisioning_def CustomDomainHandler_Activate_def
  CustomDomainHandler_RetryProvisioning_def CustomDomainHandler_GetProvisioningStatus_def

lemma domain_handle_effect:
  assumes "domain_handle s g parse c call t = (ans, t')"
  obtains (same) "t' = t"
  | (administered) tc i where "cx_tenant c = Some tc" "updates_rows (cd_owned i (tc_ProjectID tc)) row_administered t t'"
  | (registered) body r where "call = DomainCreate body" "t' = t @ [r]" "cd_ID r \<notin> set (map cd_ID t)"
      "\<And>e. ev_service e = s \<Longrightarrow> ev_ctx e = c \<Longrightarrow> ev_answer e = ans \<Longrightarrow> registered e r"
  | (verified) tc raw i cd rcds where "call = DomainVerify raw" "cx_tenant c = Some tc" "parse raw = Some i"
      "cd \<in> set t" "cd_owned i (tc_ProjectID tc) cd" "ds_LookupTXT s (cd_VerificationRecordName cd) = Inr rcds"
      "containsMatchingVerificationToken (ds_sha256hex s) rcds (cd_VerificationTokenHash cd)"
      "updates_rows (cd_owned i (tc_ProjectID tc)) row_verified t t'"
  | (routed) tc raw i cd cname where "call = DomainCheckRouting raw" "cx_tenant c = Some tc" "parse raw = Some i"
      "cd \<in> set t" "cd_owned i (tc_ProjectID tc) cd" "ds_LookupCNAME s (cd_Hostname cd) = Inr cname"
      "normalizeCNAME cname = normalizeCNAME (ds_gatewayPublicHost s)"
      "updates_rows (cd_owned i (tc_ProjectID tc)) row_routed t t'"
proof -
  show thesis
  proof (cases call)
    case (DomainCreate body)
    with assms have "CustomDomainHandler_Create s c body t = (ans, t')" by simp
    then show ?thesis by (cases rule: handler_create) (use same registered DomainCreate in blast)+
  next
    case (DomainVerify raw)
    with assms have h: "CustomDomainHandler_Verify s parse c raw t = (ans, t')" by simp
    from h [unfolded CustomDomainHandler_Verify_def] show ?thesis
    proof (cases rule: for_domain_cases)
      case (called tc i)
      show ?thesis
        by (rule Verify_effect [of i "tc_ProjectID tc" t s])
           (use called DomainVerify administered verified in blast)+
    qed (rule same)
  next
    case DomainList
    with assms show ?thesis
      by (intro same) (auto simp: CustomDomainHandler_List_def ListCustomDomains_def getTenantContext_def split: option.splits sum.splits)
  next
    case (DomainCheckRouting raw)
    with assms have h: "CustomDomainHandler_CheckRouting s parse c raw t = (ans, t')" by simp
    from h [unfolded CustomDomainHandler_CheckRouting_def] show ?thesis
    proof (cases rule: for_domain_cases)
      case (called tc i)
      show ?thesis
        by (rule CheckRouting_effect [of i "tc_ProjectID tc" t s])
           (use called DomainCheckRouting administered routed in blast)+
    qed (rule same)
  qed (insert assms, simp only: domain_handle.simps administering_handlers,
      erule for_domain_administers, rule service_administers, erule same, erule administered, assumption)+
qed

section \<open>Runs\<close>

text \<open>
  API calls, each with the resolver, tenant and database of its moment, and runs of the worker, in any
  order. The hash function is the same throughout.
\<close>

inductive domain_run :: "(string \<Rightarrow> string) \<Rightarrow> domain_event list \<Rightarrow> domains \<Rightarrow> bool" for sha where
  dr_start: "domain_run sha [] []"
| dr_call: "domain_run sha evs t \<Longrightarrow> ds_sha256hex s = sha \<Longrightarrow> domain_handle s g parse c call t = (ans, t')
    \<Longrightarrow> domain_run sha (evs @ [\<lparr>ev_service = s, ev_parse = parse, ev_ctx = c, ev_call = call, ev_answer = ans\<rparr>]) t'"
| dr_work: "domain_run sha evs t \<Longrightarrow> ProcessNextJob p env g t h = (res, t', h') \<Longrightarrow> domain_run sha evs t'"

definition proved_ownership :: "(string \<Rightarrow> string) \<Rightarrow> domain_event list \<Rightarrow> custom_domain \<Rightarrow> bool" where
  "proved_ownership sha evs r \<longleftrightarrow>
     (\<exists>before e between e' after token token'. evs = before @ e # between @ e' # after
        \<and> issued_token e r token \<and> found_token e' r token' \<and> sha token' = sha token)"

definition seen_route :: "domain_event list \<Rightarrow> custom_domain \<Rightarrow> bool" where
  "seen_route evs r \<longleftrightarrow> (\<exists>e \<in> set evs. found_route e r)"

definition row_justified :: "(string \<Rightarrow> string) \<Rightarrow> domain_event list \<Rightarrow> custom_domain \<Rightarrow> bool" where
  "row_justified sha evs r \<longleftrightarrow>
     cd_VerificationRecordName r = customDomainVerificationRecord @ ''.'' @ cd_Hostname r
     \<and> (\<exists>e \<in> set evs. \<exists>token. issued_token e r token \<and> cd_VerificationTokenHash r = sha token)
     \<and> (cd_Status r = DsPendingVerification \<or> cd_Status r \<in> {DsVerified, DsActive} \<and> proved_ownership sha evs r)
     \<and> (cd_RoutingStatus r = RsReady \<or> cd_Status r = DsActive \<longrightarrow> seen_route evs r)
     \<and> (in_pipeline (cd_ProvisioningStatus r) \<longrightarrow> cd_Status r \<noteq> DsPendingVerification \<and> seen_route evs r)"

lemma proved_later: "proved_ownership sha evs r \<Longrightarrow> proved_ownership sha (evs @ es) r"
proof -
  assume "proved_ownership sha evs r"
  then obtain before e between e' after token token' where "evs = before @ e # between @ e' # after"
    and ev: "issued_token e r token" "found_token e' r token'" "sha token' = sha token"
    unfolding proved_ownership_def by blast
  then have "evs @ es = before @ e # between @ e' # (after @ es)" by simp
  then show ?thesis using ev unfolding proved_ownership_def by blast
qed

lemma justified_later: "row_justified sha evs r \<Longrightarrow> row_justified sha (evs @ es) r"
  unfolding row_justified_def seen_route_def using proved_later by auto

lemma same_domain_justified:
  assumes "same_domain r r'"
  shows "proved_ownership sha evs r' = proved_ownership sha evs r" "seen_route evs r' = seen_route evs r"
  using same_domain_evidence [OF assms] by (simp_all add: proved_ownership_def seen_route_def)

lemma justified_moved:
  assumes just: "row_justified sha evs r" and same: "same_domain r r'"
    and status: "cd_Status r' = cd_Status r \<or> cd_Status r' = DsVerified \<and> proved_ownership sha evs r
      \<or> cd_Status r' = DsActive \<and> in_pipeline (cd_ProvisioningStatus r)"
    and routing: "cd_RoutingStatus r' = RsReady \<Longrightarrow> cd_RoutingStatus r = RsReady \<or> seen_route evs r"
    and pipe: "in_pipeline (cd_ProvisioningStatus r') \<Longrightarrow>
      in_pipeline (cd_ProvisioningStatus r) \<or> cd_Status r = DsVerified \<and> cd_RoutingStatus r = RsReady"
  shows "row_justified sha evs r'"
proof -
  have id: "cd_VerificationRecordName r' = cd_VerificationRecordName r" "cd_Hostname r' = cd_Hostname r"
    "cd_VerificationTokenHash r' = cd_VerificationTokenHash r"
    using same by (simp_all add: same_domain_def)
  show ?thesis
    using just status routing pipe
    unfolding row_justified_def same_domain_evidence [OF same] same_domain_justified [OF same] id
    by auto
qed

lemma justified_administered: "row_justified sha evs r \<Longrightarrow> row_administered r r' \<Longrightarrow> row_justified sha evs r'"
  by (erule justified_moved) (auto simp: row_administered_def)

lemma justified_verified: "row_justified sha evs r \<Longrightarrow> proved_ownership sha evs r \<Longrightarrow> row_verified r r' \<Longrightarrow> row_justified sha evs r'"
  by (erule justified_moved) (auto simp: row_verified_def)

lemma justified_routed: "row_justified sha evs r \<Longrightarrow> seen_route evs r \<Longrightarrow> row_routed r r' \<Longrightarrow> row_justified sha evs r'"
  by (erule justified_moved) (auto simp: row_routed_def)

lemma justified_worked:
  assumes "row_justified sha evs r" "row_moved r r'"
  shows "row_justified sha evs r'"
proof -
  have "in_pipeline (cd_ProvisioningStatus r)" if "in_pipeline (cd_ProvisioningStatus r')"
    using assms(2) that
    by (auto simp: row_moved_def provisioning_edges_def in_pipeline_def split: provisioning_status.splits)
  then show ?thesis
    using assms by (auto intro!: justified_moved [OF assms(1)] simp: row_moved_def same_domain_def)
qed

lemma justified_update:
  assumes "updates_rows P R t t'" "\<forall>r \<in> set t. row_justified sha evs r"
    and "\<And>r r'. r \<in> set t \<Longrightarrow> P r \<Longrightarrow> R r r' \<Longrightarrow> row_justified sha (evs @ es) r \<Longrightarrow> row_justified sha (evs @ es) r'"
  shows "\<forall>r' \<in> set t'. row_justified sha (evs @ es) r'"
proof
  fix r' assume "r' \<in> set t'"
  with assms(1) show "row_justified sha (evs @ es) r'"
    by (cases rule: updates_rows_back) (use assms(2,3) justified_later in blast)+
qed

lemma proved_now:
  assumes just: "row_justified sha evs r" and e: "ev_service e = s" "ev_parse e = parse" "ev_ctx e = c" "ev_call e = DomainVerify raw"
    and "cx_tenant c = Some tc" "parse raw = Some i" "cd_owned i (tc_ProjectID tc) r"
    and rcds: "ds_LookupTXT s (cd_VerificationRecordName r) = Inr rcds"
    and match: "containsMatchingVerificationToken sha rcds (cd_VerificationTokenHash r)"
  shows "proved_ownership sha (evs @ [e]) r"
proof -
  obtain e1 token where e1: "e1 \<in> set evs" "issued_token e1 r token" "cd_VerificationTokenHash r = sha token"
    and name: "cd_VerificationRecordName r = customDomainVerificationRecord @ ''.'' @ cd_Hostname r"
    using just unfolding row_justified_def by blast
  obtain token' where token': "list_ex (\<lambda>rcd. carries_token rcd token') rcds" "sha token' = sha token"
    using match e1(3) by (auto simp: contains_token list_ex_iff)
  have "found_token e r token'"
    using assms name token'(1) unfolding found_token_def tenant_is_def cd_owned_def by metis
  moreover obtain before between where "evs @ [e] = before @ e1 # between @ e # []"
    using split_list [OF e1(1)] by auto
  ultimately show ?thesis using e1(2) token'(2) unfolding proved_ownership_def by blast
qed

lemma call_justified:
  assumes handle: "domain_handle s g parse c call t = (ans, t')" and sha: "ds_sha256hex s = sha"
    and e: "e = \<lparr>ev_service = s, ev_parse = parse, ev_ctx = c, ev_call = call, ev_answer = ans\<rparr>"
    and ids: "distinct (map cd_ID t)" and just: "\<forall>r \<in> set t. row_justified sha evs r"
  shows "distinct (map cd_ID t') \<and> (\<forall>r \<in> set t'. row_justified sha (evs @ [e]) r)"
  using handle
proof (cases rule: domain_handle_effect)
  case same
  then show ?thesis using ids just justified_later by blast
next
  case (administered tc i)
  have "map cd_ID t' = map cd_ID t"
    by (rule updates_rows_idents [OF administered(2)]) (simp add: row_administered_def)
  then show ?thesis using ids justified_update [OF administered(2) just] justified_administered by auto
next
  case (registered body r)
  have "registered e r" by (rule registered(4)) (simp_all add: e)
  then have "row_justified sha (evs @ [e]) r"
    using sha by (auto simp: row_justified_def registered_def e)
  then show ?thesis using registered(2,3) ids just justified_later by auto
next
  case (verified tc raw i cd rcds)
  have "proved_ownership sha (evs @ [e]) r" if "r \<in> set t" "cd_owned i (tc_ProjectID tc) r" for r
  proof -
    have "r = cd" using unique_row [OF ids that(1) verified(4)] that(2) verified(5) by (simp add: cd_owned_def)
    then show ?thesis
      using proved_now [of sha evs cd e s parse c raw tc i rcds] just verified sha by (simp add: e)
  qed
  then have "\<forall>r \<in> set t'. row_justified sha (evs @ [e]) r"
    by (intro justified_update [OF verified(8) just]) (use justified_verified in blast)
  moreover have "map cd_ID t' = map cd_ID t"
    by (rule updates_rows_idents [OF verified(8)]) (simp add: row_verified_def)
  ultimately show ?thesis using ids by simp
next
  case (routed tc raw i cd cname)
  have "seen_route (evs @ [e]) r" if "r \<in> set t" "cd_owned i (tc_ProjectID tc) r" for r
  proof -
    have "r = cd" using unique_row [OF ids that(1) routed(4)] that(2) routed(5) by (simp add: cd_owned_def)
    then have "found_route e r"
      using routed by (auto simp: found_route_def e tenant_is_def cd_owned_def)
    then show ?thesis by (simp add: seen_route_def)
  qed
  then have "\<forall>r \<in> set t'. row_justified sha (evs @ [e]) r"
    by (intro justified_update [OF routed(8) just]) (use justified_routed in blast)
  moreover have "map cd_ID t' = map cd_ID t"
    by (rule updates_rows_idents [OF routed(8)]) (simp add: row_routed_def)
  ultimately show ?thesis using ids by simp
qed

lemma work_justified:
  assumes run: "ProcessNextJob p env g t h = (res, t', h')"
    and ids: "distinct (map cd_ID t)" and just: "\<forall>r \<in> set t. row_justified sha evs r"
  shows "distinct (map cd_ID t') \<and> (\<forall>r \<in> set t'. row_justified sha evs r)"
proof -
  obtain b err where "ProcessNextJob p env g t h = ((b, err), t', h')" using run by (cases res) simp
  from this ids have len: "length t' = length t" and mv: "\<forall>k < length t. row_moved (t ! k) (t' ! k)"
    using ProcessNextJob_rows by blast+
  have "map cd_ID t' = map cd_ID t"
    using len mv by (intro nth_equalityI) (auto simp: row_moved_def)
  moreover have "row_justified sha evs r'" if r': "r' \<in> set t'" for r'
  proof -
    obtain k where "k < length t" "r' = t' ! k" using r' len by (auto simp: in_set_conv_nth)
    then show ?thesis using justified_worked [of sha evs "t ! k" r'] just mv by simp
  qed
  ultimately show ?thesis using ids by simp
qed

lemma run_justified:
  "domain_run sha evs t \<Longrightarrow> distinct (map cd_ID t) \<and> (\<forall>r \<in> set t. row_justified sha evs r)"
proof (induction rule: domain_run.induct)
  case (dr_call evs t s g parse c call ans t')
  then show ?case using call_justified by blast
next
  case (dr_work evs t p env g h res t' h')
  then show ?case using work_justified by blast
qed simp

section \<open>Properties\<close>

text \<open>
  C2. Over any sequence of API calls and worker runs, whatever the database, DNS and AWS answer: a custom
  domain is verified or active only if a project registered it and was given a token, and afterwards a
  verification by the same project found a TXT record under \<^verbatim>\<open>_elitegate-verification.<host>\<close> carrying a token
  with the same SHA-256 digest. And it is in the hands of the provisioning worker, or active, only if a
  routing check of the project also found the host's CNAME to be the gateway's public host.
\<close>

theorem domains_prove_ownership:
  assumes "domain_run sha evs t" "r \<in> set t"
  shows "(cd_Status r \<noteq> DsPendingVerification \<longrightarrow> cd_Status r \<in> {DsVerified, DsActive} \<and> proved_ownership sha evs r)
    \<and> (cd_Status r = DsActive \<or> in_pipeline (cd_ProvisioningStatus r) \<longrightarrow> proved_ownership sha evs r \<and> seen_route evs r)"
  using run_justified [OF assms(1)] assms(2) unfolding row_justified_def by auto

section \<open>Projects are kept apart\<close>

fun shown_ids :: "domain_body \<Rightarrow> uuid set" where
  "shown_ids NoBody = {}"
| "shown_ids (CreatedBody resp) = {cr_ID resp}"
| "shown_ids (DomainBody cd) = {cd_ID cd}"
| "shown_ids (DomainsBody ds) = cd_ID ` set ds"
| "shown_ids (ActivationBody cd _) = {cd_ID cd}"
| "shown_ids (StatusBody resp) = {psr_ID resp}"

fun reads_only :: "domain_call \<Rightarrow> bool" where
  "reads_only DomainList = True"
| "reads_only (DomainGet _) = True"
| "reads_only (DomainProvisioningStatus _) = True"
| "reads_only _ = False"

definition ids_of :: "uuid \<Rightarrow> domains \<Rightarrow> uuid set" where
  "ids_of p t = cd_ID ` {r \<in> set t. cd_ProjectID r = p}"

lemma domain_guard:
  "List.find (\<lambda>(m, p, _). (m, p) = domain_route call) admin_routes
     = Some (fst (domain_route call), snd (domain_route call), Scoped (if reads_only call then RoleViewer else RoleOwner))"
  by (cases call) (simp_all only: domain_route.simps reads_only.simps if_True if_False fst_conv snd_conv, code_simp+)

lemma updates_keep_others:
  assumes "updates_rows (cd_owned i p) R t t'" "\<And>r r'. R r r' \<Longrightarrow> same_domain r r'"
  shows "filter (\<lambda>r. cd_ProjectID r \<noteq> p) t' = filter (\<lambda>r. cd_ProjectID r \<noteq> p) t"
  using assms(1) unfolding updates_rows_def
proof (elim disjE exE conjE)
  fix Q f assume t': "t' = sql_update Q f t" and Q: "\<forall>r. Q r \<longrightarrow> cd_owned i p r \<and> R r (f r)"
  have "\<not> cd_ProjectID r \<noteq> p \<and> \<not> cd_ProjectID (f r) \<noteq> p" if "Q r" for r
    using Q assms(2) that by (auto simp: cd_owned_def same_domain_def)
  then show ?thesis unfolding t' by (rule filter_sql_update)
qed simp

lemma handle_keeps_others:
  assumes "domain_handle s g parse c call t = (ans, t')" "tenant_is c p"
  shows "filter (\<lambda>r. cd_ProjectID r \<noteq> p) t' = filter (\<lambda>r. cd_ProjectID r \<noteq> p) t"
  using assms(1)
proof (cases rule: domain_handle_effect)
  case (registered body r)
  have "registered \<lparr>ev_service = s, ev_parse = parse, ev_ctx = c, ev_call = call, ev_answer = ans\<rparr> r"
    by (rule registered(4)) simp_all
  then have "cd_ProjectID r = p" using assms(2) by (auto simp: registered_def issued_token_def tenant_is_def)
  then show ?thesis using registered(2) by simp
qed (use assms(2) in \<open>auto simp: tenant_is_def row_administered_def row_verified_def row_routed_def intro: updates_keep_others\<close>)

lemma read_calls_change_nothing:
  assumes "domain_handle s g parse c call t = (ans, t')" "reads_only call"
  shows "t' = t"
  using assms
  by (cases call)
     (auto simp: CustomDomainHandler_List_def ListCustomDomains_def CustomDomainHandler_Get_def GetCustomDomain_def
        CustomDomainHandler_GetProvisioningStatus_def GetProvisioningStatus_def Let_def getTenantContext_def for_domain_def
        split: option.splits sum.splits prod.splits)

text \<open>A row that an operation returns is a row of the caller's project in the table it leaves.\<close>

lemma returned_row:
  assumes "update_returning env s Q f t = (Inr (Some cd), t')" "\<And>r. Q r \<Longrightarrow> cd_owned i p r \<and> same_domain r (f r)"
  shows "cd_ID cd \<in> ids_of p t'"
proof -
  obtain r where r: "find Q t = Some r" "cd = f r" and t': "t' = sql_update Q f t"
    using assms(1) by (auto simp: update_returning_def split: option.splits)
  have "r \<in> set t" "Q r" using find_SomeD [OF r(1)] by simp_all
  then have "f r \<in> set t'" "cd_ProjectID (f r) = p"
    using t' assms(2) by (auto simp: in_sql_update cd_owned_def same_domain_def)
  then show ?thesis using r(2) by (auto simp: ids_of_def)
qed

lemma read_row: "GetByIDForProject env i p t = Inr cd \<Longrightarrow> cd_ID cd \<in> ids_of p t"
  by (drule GetByIDForProject_Inr) (auto simp: ids_of_def cd_owned_def)

lemma row_or_Inr: "apfst (row_or m) x = (Inr cd, t') \<longleftrightarrow> x = (Inr (Some cd), t')"
  by (cases x) (auto simp: row_or_def split: sum.splits option.splits)

lemma same_after_set:
  "same_domain r (MarkVerified_set env r)" "same_domain r (UpdateRoutingStatus_set env st tg re r)"
  "same_domain r (EnqueueDeprovisioning_set env r)" "same_domain r (ResetDeprovisioning_set env r)"
  "same_domain r (restart_set env ps r)"
  by (simp_all add: same_domain_def MarkVerified_set_def UpdateRoutingStatus_set_def EnqueueDeprovisioning_set_def
      ResetDeprovisioning_set_def restart_set_def cd_unlock_def)

lemma repo_returns:
  "MarkVerified env i p t = (Inr cd, t') \<Longrightarrow> cd_ID cd \<in> ids_of p t'"
  "UpdateRoutingStatus env i p st tg re t = (Inr cd, t') \<Longrightarrow> cd_ID cd \<in> ids_of p t'"
  "ResetProvisioningForRetry env i p ps t = (Inr cd, t') \<Longrightarrow> cd_ID cd \<in> ids_of p t'"
  "ResetDeprovisioningForRetry env i p t = (Inr cd, t') \<Longrightarrow> cd_ID cd \<in> ids_of p t'"
  unfolding MarkVerified_def UpdateRoutingStatus_def ResetProvisioningForRetry_def ResetDeprovisioningForRetry_def row_or_Inr
  by (erule returned_row [where i = i]; simp add: same_after_set)+

lemma enqueue_returns:
  assumes "EnqueueProvisioning env i p t = (Inr cd, t')"
  shows "cd_ID cd \<in> ids_of p t'"
proof -
  from assms consider "update_returning env ''enqueue provisioning update'' (Enqueue_where i p) (restart_set env PsRequestingCertificate) t = (Inr (Some cd), t')"
    | "GetByIDForProject env i p t' = Inr cd"
    by (auto simp: EnqueueProvisioning_def split: prod.splits sum.splits option.splits if_splits)
  then show ?thesis
  proof cases
    case 1
    then show ?thesis by (rule returned_row [where i = i]) (simp add: Enqueue_where_def same_after_set)
  qed (rule read_row)
qed

lemma deprovision_returns:
  assumes "EnqueueDeprovisioning env i p t = (Inr cd, t')"
  shows "cd_ID cd \<in> ids_of p t'"
proof -
  from assms consider "update_returning env ''enqueue deprovisioning update'' (EnqueueDeprovisioning_where i p) (EnqueueDeprovisioning_set env) t = (Inr (Some cd), t')"
    | "GetByIDForProject env i p t' = Inr cd"
    by (auto simp: EnqueueDeprovisioning_def split: prod.splits sum.splits option.splits if_splits)
  then show ?thesis
  proof cases
    case 1
    then show ?thesis by (rule returned_row [where i = i]) (simp add: EnqueueDeprovisioning_where_def same_after_set)
  qed (rule read_row)
qed

lemma passed_on_Inr:
  "(case x of (Inl e, t') \<Rightarrow> (Inl (f e), t') | (Inr v, t') \<Rightarrow> (Inr (h v), t')) = (Inr w, u) \<longleftrightarrow> (\<exists>v. x = (Inr v, u) \<and> w = h v)"
  by (auto split: prod.split sum.split)

lemma retry_returns:
  assumes "performRetry s cd0 t = (Inr cd, t')" "cd_owned i p cd0"
  shows "cd_ID cd \<in> ids_of p t'"
  using assms repo_returns(3) unfolding performRetry_def Let_def passed_on_Inr cd_owned_def by blast

lemma service_returns:
  "VerifyCustomDomain s p i t = (Inr cd, t') \<Longrightarrow> cd_ID cd \<in> ids_of p t'"
  "GetCustomDomain s p i t = (Inr cd, t') \<Longrightarrow> cd_ID cd \<in> ids_of p t'"
  "DeleteCustomDomain s p i t = (Inr cd, t') \<Longrightarrow> cd_ID cd \<in> ids_of p t'"
  "RetryDeprovisioning s p i t = (Inr cd, t') \<Longrightarrow> cd_ID cd \<in> ids_of p t'"
  "CheckCustomDomainRouting s p i t = (Inr cd, t') \<Longrightarrow> cd_ID cd \<in> ids_of p t'"
  "ActivateCustomDomain s p i t = (Inr (cd, st), t') \<Longrightarrow> cd_ID cd \<in> ids_of p t'"
  "RetryProvisioning s p i t = (Inr cd, t') \<Longrightarrow> cd_ID cd \<in> ids_of p t'"
  "GetProvisioningStatus s g p i t = (Inr resp, t') \<Longrightarrow> psr_ID resp \<in> ids_of p t'"
proof -
  note own = GetByIDForProject_Inr [unfolded cd_owned_def]
  show "VerifyCustomDomain s p i t = (Inr cd, t') \<Longrightarrow> cd_ID cd \<in> ids_of p t'"
    by (auto simp: VerifyCustomDomain_def verification_failed_def passed_on_Inr
        split: sum.splits if_splits dest: own repo_returns read_row)
  show "GetCustomDomain s p i t = (Inr cd, t') \<Longrightarrow> cd_ID cd \<in> ids_of p t'"
    by (auto simp: GetCustomDomain_def split: sum.splits dest: read_row)
  show "DeleteCustomDomain s p i t = (Inr cd, t') \<Longrightarrow> cd_ID cd \<in> ids_of p t'"
    by (auto simp: DeleteCustomDomain_def passed_on_Inr split: if_splits dest: deprovision_returns)
  show "RetryDeprovisioning s p i t = (Inr cd, t') \<Longrightarrow> cd_ID cd \<in> ids_of p t'"
    by (auto simp: RetryDeprovisioning_def passed_on_Inr split: sum.splits if_splits dest: repo_returns)
  show "CheckCustomDomainRouting s p i t = (Inr cd, t') \<Longrightarrow> cd_ID cd \<in> ids_of p t'"
    by (auto simp: CheckCustomDomainRouting_def Let_def passed_on_Inr split: sum.splits if_splits dest: own repo_returns)
  show "ActivateCustomDomain s p i t = (Inr (cd, st), t') \<Longrightarrow> cd_ID cd \<in> ids_of p t'"
    by (auto simp: ActivateCustomDomain_def passed_on_Inr split: sum.splits if_splits
        dest: read_row enqueue_returns retry_returns GetByIDForProject_Inr)
  show "RetryProvisioning s p i t = (Inr cd, t') \<Longrightarrow> cd_ID cd \<in> ids_of p t'"
    by (auto simp: RetryProvisioning_def split: sum.splits if_splits dest: retry_returns GetByIDForProject_Inr)
  show "GetProvisioningStatus s g p i t = (Inr resp, t') \<Longrightarrow> psr_ID resp \<in> ids_of p t'"
    by (auto simp: GetProvisioningStatus_def Let_def split: sum.splits dest: read_row)
qed

lemma for_domain_shows:
  assumes "for_domain parse c raw f status ok t = (ans, t')" "tenant_is c p"
    and "\<And>i x. f p i t = (Inr x, t') \<Longrightarrow> shown_ids (da_body (ok x)) \<subseteq> ids_of p t'"
  shows "shown_ids (da_body ans) \<subseteq> ids_of p t'"
  using assms(1,2) assms(3)
  by (auto simp: for_domain_def getTenantContext_def tenant_is_def refused_def split: option.splits sum.splits prod.splits)

lemma handle_shows:
  assumes h: "domain_handle s g parse c call t = (ans, t')" and p: "tenant_is c p"
  shows "shown_ids (da_body ans) \<subseteq> ids_of p t'"
proof (cases call)
  case (DomainCreate body)
  with h have "CustomDomainHandler_Create s c body t = (ans, t')" by simp
  then show ?thesis
  proof (cases rule: handler_create)
    case same
    then show ?thesis using h DomainCreate p
      by (auto simp: CustomDomainHandler_Create_def CreateCustomDomain_def refused_def tenant_is_def
          split: option.splits sum.splits prod.splits if_splits dest: Create_Inr)
  next
    case (registered r)
    have "registered \<lparr>ev_service = s, ev_parse = parse, ev_ctx = c, ev_call = call, ev_answer = ans\<rparr> r"
      by (rule registered(3)) simp_all
    then show ?thesis using registered(1) p by (auto simp: registered_def issued_token_def tenant_is_def ids_of_def)
  qed
next
  case DomainList
  then show ?thesis using h p
    by (auto simp: CustomDomainHandler_List_def ListCustomDomains_def ListByProject_def getTenantContext_def refused_def
        tenant_is_def ids_of_def split: option.splits sum.splits prod.splits)
qed (insert h, simp only: domain_handle.simps administering_handlers CustomDomainHandler_Verify_def CustomDomainHandler_CheckRouting_def,
     erule for_domain_shows [OF _ p], fastforce simp: answered_def split: prod.splits dest: service_returns)+

text \<open>
  C24. The custom-domain API keeps projects apart. Whatever request arrives, if it changes the table then its sender
  proved by a valid access token to be an owner of the project named in the path, and every row of another project
  stays as it was; and if the answer shows a domain, its sender is at least a viewer of that project and the domain is one of
  its rows.
\<close>

theorem domain_calls_stay_in_project:
  assumes sound: "admin_jwt_sound (ae_parse ae) verifies"
    and serve: "domain_serve s ae db g remoteAddr headers projectId call t = (ans, t')"
  shows "(t' \<noteq> t \<longrightarrow> (\<exists>subject p. authenticated ae verifies headers subject \<and> ae_uuid ae projectId = Some p
       \<and> entitled ae db (Scoped RoleOwner) subject p
       \<and> filter (\<lambda>r. cd_ProjectID r \<noteq> p) t' = filter (\<lambda>r. cd_ProjectID r \<noteq> p) t))
    \<and> (i \<in> shown_ids (da_body ans) \<longrightarrow> (\<exists>subject p role. authenticated ae verifies headers subject \<and> ae_uuid ae projectId = Some p
       \<and> entitled ae db (Scoped role) subject p \<and> i \<in> ids_of p t'))"
proof -
  let ?role = "if reads_only call then RoleViewer else RoleOwner"
  let ?c = "\<lparr>cx_RemoteAddr = remoteAddr, cx_Header = headers, cx_projectId = projectId, cx_userID = None, cx_tenant = None\<rparr>"
  show ?thesis
  proof (cases "chain (guards_of ae (Scoped ?role)) db ?c")
    case (Inl status)
    then have "t' = t" "da_body ans = NoBody" using serve by (auto simp: domain_serve_def domain_guard refused_def)
    then show ?thesis by simp
  next
    case (Inr c)
    then have h: "domain_handle s g (ae_uuid ae) c call t = (ans, t')" using serve by (simp add: domain_serve_def domain_guard)
    obtain subject p where sp: "authenticated ae verifies headers subject" "ae_uuid ae projectId = Some p"
      "entitled ae db (Scoped ?role) subject p" "tenant_is c p"
      using scoped_admits [OF sound Inr] by auto
    have "t' = t" if "reads_only call" using read_calls_change_nothing [OF h that] .
    then have "t' \<noteq> t \<Longrightarrow> entitled ae db (Scoped RoleOwner) subject p" using sp(3) by (cases "reads_only call") simp_all
    then show ?thesis using sp handle_keeps_others [OF h sp(4)] handle_shows [OF h sp(4)] by blast
  qed
qed

section \<open>Example: a domain goes live\<close>

fun serve_all ::
  "domain_service \<Rightarrow> gateways \<Rightarrow> (string \<Rightarrow> uuid option) \<Rightarrow> admin_context \<Rightarrow> domain_call list \<Rightarrow> domains \<Rightarrow> domain_event list \<times> domains" where
  "serve_all s g parse c [] t = ([], t)"
| "serve_all s g parse c (call # calls) t =
     (case domain_handle s g parse c call t of
        (ans, t1) \<Rightarrow>
          (case serve_all s g parse c calls t1 of
             (evs, t2) \<Rightarrow> (\<lparr>ev_service = s, ev_parse = parse, ev_ctx = c, ev_call = call, ev_answer = ans\<rparr> # evs, t2)))"

fun work_all :: "provisioner \<Rightarrow> gateways \<Rightarrow> db_env list \<Rightarrow> domains \<Rightarrow> sdk_call list \<Rightarrow> domains" where
  "work_all p g [] t h = t"
| "work_all p g (env # envs) t h = (case ProcessNextJob p env g t h of (_, t', h') \<Rightarrow> work_all p g envs t' h')"

lemma serve_all_run:
  "domain_run sha evs t \<Longrightarrow> ds_sha256hex s = sha \<Longrightarrow> serve_all s g parse c calls t = (evs', t') \<Longrightarrow> domain_run sha (evs @ evs') t'"
proof (induction calls arbitrary: evs t evs')
  case (Cons call calls)
  obtain ans t1 evs2 where h: "domain_handle s g parse c call t = (ans, t1)" "serve_all s g parse c calls t1 = (evs2, t')"
    and evs': "evs' = \<lparr>ev_service = s, ev_parse = parse, ev_ctx = c, ev_call = call, ev_answer = ans\<rparr> # evs2"
    using Cons.prems(3) by (auto split: prod.splits)
  show ?case using Cons.IH [OF dr_call [OF Cons.prems(1,2) h(1)] Cons.prems(2) h(2)] by (simp add: evs')
qed simp

lemma work_all_run: "domain_run sha evs t \<Longrightarrow> domain_run sha evs (work_all p g envs t h)"
proof (induction envs arbitrary: t h)
  case (Cons env envs)
  obtain res t' h' where "ProcessNextJob p env g t h = (res, t', h')" by (cases "ProcessNextJob p env g t h")
  with Cons show ?case by (auto intro: dr_work)
qed simp

definition demo_service :: domain_service where
  "demo_service =
     \<lparr>ds_env = quiet 3 ''x'',
      ds_LookupTXT = (\<lambda>name. if name = ''_elitegate-verification.api.acme.com''
                             then Inr [''v=spf1 -all'', ''elitegate-verification=YWJj '']
                             else Inl \<lparr>dns_IsNotFound = True, dns_Text = ''no such host''\<rparr>),
      ds_LookupCNAME = (\<lambda>_. Inr ''GW.example.com.''), ds_gatewayPublicHost = ''gw.example.com'',
      ds_automationEnabled = True, ds_random = Some ''abc'', ds_newID = ''d1'', ds_sha256hex = (\<lambda>s. s)\<rparr>"

definition owner_context :: admin_context where
  "owner_context =
     \<lparr>cx_RemoteAddr = ''10.0.0.1:5'', cx_Header = (\<lambda>_. []), cx_projectId = ''p1'', cx_userID = Some ''ann'',
      cx_tenant = Some \<lparr>tc_ProjectID = ''p1'', tc_UserID = ''ann'', tc_UserRole = RoleOwner\<rparr>\<rparr>"

definition demo_calls :: "domain_call list" where
  "demo_calls = [DomainCreate (Some '' API.acme.com.''), DomainVerify ''d1'', DomainCheckRouting ''d1'', DomainActivate ''d1'']"

definition demo_world :: "domain_event list \<times> domains" where
  "demo_world = serve_all demo_service [live_gateway] Some owner_context demo_calls []"

definition demo_live :: domains where
  "demo_live = work_all demo_provisioner [live_gateway] (map (\<lambda>n. quiet (n * 60 * minute) ''u'') [1, 2, 3, 4]) (snd demo_world) []"

lemma demo_live_run: "domain_run (\<lambda>s. s) (fst demo_world) demo_live"
proof -
  have "domain_run (\<lambda>s. s) ([] @ fst demo_world) (snd demo_world)"
    by (rule serve_all_run [OF dr_start, where s = demo_service])
       (simp_all add: demo_world_def demo_service_def)
  then show ?thesis unfolding demo_live_def by (intro work_all_run) simp
qed

lemma demo_live_rows: "map cd_Status demo_live = [DsActive]" "map cd_Status (snd demo_world) = [DsVerified]"
  "map da_status (map ev_answer (fst demo_world)) = [201, 200, 200, 202]"
  by code_simp+

text \<open>Registered, verified, checked, activated and provisioned by four runs of the worker, the example domain is live.\<close>

theorem domains_prove_ownership_witness:
  "\<exists>r \<in> set demo_live. cd_Status r = DsActive \<and> proved_ownership (\<lambda>s. s) (fst demo_world) r \<and> seen_route (fst demo_world) r"
proof -
  obtain r where r: "demo_live = [r]" "cd_Status r = DsActive" using demo_live_rows(1) by (cases demo_live) auto
  then have "r \<in> set demo_live" unfolding r(1) by simp
  with domains_prove_ownership [OF demo_live_run this] r(2) show ?thesis by (intro bexI [of _ r]) simp_all
qed

text \<open>A foreign member's request is refused, the owner's changes the row of the project only.\<close>

theorem domain_calls_stay_in_project_witness:
  "\<exists>subject. authenticated demo_admin_env demo_verifies ann_headers subject
     \<and> entitled demo_admin_env demo_shop (Scoped RoleOwner) subject ''shop''
     \<and> filter (\<lambda>r. cd_ProjectID r \<noteq> ''shop'')
         (snd (domain_serve demo_service demo_admin_env demo_shop [] ''10.0.0.1:5'' ann_headers ''shop'' (DomainCreate (Some ''api.acme.com'')) []))
       = []"
proof -
  let ?serve = "domain_serve demo_service demo_admin_env demo_shop [] ''10.0.0.1:5'' ann_headers ''shop'' (DomainCreate (Some ''api.acme.com'')) []"
  have "map cd_Hostname (snd ?serve) = [''api.acme.com'']" by code_simp
  then have new: "snd ?serve \<noteq> []" by auto
  have sound: "admin_jwt_sound (ae_parse demo_admin_env) demo_verifies" by (simp add: demo_admin_env_def demo_sound)
  from domain_calls_stay_in_project [OF sound prod.collapse [symmetric]] new
  show ?thesis by (fastforce simp: demo_admin_env_def)
qed

section \<open>The published token verifies\<close>

lemma base64URLChar_plain: "\<not> isSpace (base64URLChar n)"
proof -
  let ?s = "''ABCDEFGHIJKLMNOPQRSTUVWXYZabcdefghijklmnopqrstuvwxyz0123456789-_''"
  have "list_all (\<lambda>c. \<not> isSpace c) ?s" by code_simp
  moreover have "base64URLChar n \<in> set ?s" unfolding base64URLChar_def by (rule nth_mem) simp
  ultimately show ?thesis unfolding list_all_iff by blast
qed

lemma RawURLEncoding_plain: "c \<in> set (RawURLEncoding s) \<Longrightarrow> \<not> isSpace c"
  by (induction s rule: RawURLEncoding.induct) (auto simp: base64URLChar_plain)

lemma RawURLEncoding_not_Nil: "s \<noteq> [] \<Longrightarrow> RawURLEncoding s \<noteq> []"
  by (cases s rule: RawURLEncoding.cases) auto

lemma find_snoc: "(\<And>x. x \<in> set t \<Longrightarrow> \<not> P x) \<Longrightarrow> P r \<Longrightarrow> find P (t @ [r]) = Some r"
  by (induction t) auto

lemma issued_value_carries:
  assumes "bytes \<noteq> []"
  shows "carries_token (customDomainVerificationPrefix @ RawURLEncoding bytes) (RawURLEncoding bytes)"
proof -
  let ?t = "RawURLEncoding bytes"
  have ne: "?t \<noteq> []" using RawURLEncoding_not_Nil [OF assms] .
  then have plain: "\<not> isSpace (hd ?t)" "\<not> isSpace (last ?t)" using RawURLEncoding_plain hd_in_set last_in_set by blast+
  have "hd customDomainVerificationPrefix = CHR ''e''" "customDomainVerificationPrefix \<noteq> []"
    by (simp_all add: customDomainVerificationPrefix_def)
  moreover have "\<not> isSpace CHR ''e''" by code_simp
  ultimately have "TrimSpace (customDomainVerificationPrefix @ ?t) = customDomainVerificationPrefix @ ?t"
    using ne plain unfolding TrimSpace_def by (intro trimBy_id) simp
  moreover have "TrimSpace ?t = ?t" using plain unfolding TrimSpace_def by (intro trimBy_id) simp
  ultimately show ?thesis using ne by (auto simp: carries_token_def)
qed

text \<open>
  C25. Registration and verification fit together. Whatever a project registers, once the record it was given is published
  among the TXT records of the name it was given, however many other records stand there, the next verification by the
  project succeeds and the domain is verified, if the database answers and the random bytes are not empty; and no other row changes.
\<close>

theorem registration_verifies:
  assumes created: "CreateCustomDomain s p rawHostname t = (Inr resp, t1)" and bytes: "ds_random s = Some bytes" "bytes \<noteq> []"
    and dns: "ds_LookupTXT s' (cr_RecordName resp) = Inr rcds" "cr_RecordValue resp \<in> set rcds"
    and s': "ds_sha256hex s' = ds_sha256hex s" "\<forall>stmt. de_fault (ds_env s') stmt = None"
  shows "\<exists>r cd. t1 = t @ [r] \<and> cd_Status r = DsPendingVerification \<and> VerifyCustomDomain s' p (cr_ID resp) t1 = (Inr cd, t @ [cd])
    \<and> cd_Status cd = DsVerified \<and> same_domain r cd"
proof -
  let ?token = "RawURLEncoding bytes"
  obtain host c where c: "Create (ds_env s) (new_domain s p host (ds_sha256hex s ?token)) t = (Inr c, t1)"
    and resp: "cr_ID resp = cd_ID c" "cr_RecordName resp = cd_VerificationRecordName c"
      "cr_RecordValue resp = customDomainVerificationPrefix @ ?token"
    using created bytes(1)
    by (auto simp: CreateCustomDomain_def generateCustomDomainVerificationToken_def split: sum.splits if_splits prod.splits)
  let ?r = "inserted_row (ds_env s) (with_defaults (new_domain s p host (ds_sha256hex s ?token)))"
  have t1: "t1 = t @ [?r]" and new: "cd_ID ?r \<notin> set (map cd_ID t)" and id: "cr_ID resp = cd_ID ?r" "cr_RecordName resp = cd_VerificationRecordName ?r"
    using Create_Inr [OF c] resp by (auto simp: inserted_row_def with_defaults_def new_domain_def)
  have r: "cd_owned (cr_ID resp) p ?r" "cd_Status ?r = DsPendingVerification" "cd_VerificationTokenHash ?r = ds_sha256hex s ?token"
    "cd_ProjectID ?r = p"
    using id by (simp_all add: cd_owned_def inserted_row_def with_defaults_def new_domain_def)
  have only: "\<not> cd_owned (cr_ID resp) p x" if "x \<in> set t" for x
  proof -
    have "cr_ID resp \<notin> cd_ID ` set t" using new id(1) by simp
    then show ?thesis using that by (auto simp: cd_owned_def image_iff)
  qed
  then have find: "find (cd_owned (cr_ID resp) p) t1 = Some ?r" and upd: "sql_update (cd_owned (cr_ID resp) p) f t1 = t @ [f ?r]" for f
    using r(1) unfolding t1 by (simp_all add: find_snoc sql_update_def map_idI)
  have get: "GetByIDForProject (ds_env s') (cr_ID resp) p t1 = Inr ?r"
    using find s'(2) by (simp add: GetByIDForProject_def select_row_def row_or_def cd_owned_def [abs_def])
  have "containsMatchingVerificationToken (ds_sha256hex s') rcds (cd_VerificationTokenHash ?r)"
    using dns(2) issued_value_carries [OF bytes(2)] resp(3) r(3) s'(1) by (auto simp: contains_token)
  moreover have "MarkVerified (ds_env s') (cr_ID resp) p t1 = (Inr (MarkVerified_set (ds_env s') ?r), t @ [MarkVerified_set (ds_env s') ?r])"
    using find upd s'(2) by (simp add: MarkVerified_def update_returning_def row_or_def)
  ultimately have "VerifyCustomDomain s' p (cr_ID resp) t1 = (Inr (MarkVerified_set (ds_env s') ?r), t @ [MarkVerified_set (ds_env s') ?r])"
    using get r(2) dns(1) id(2) by (simp add: VerifyCustomDomain_def id(1) r(4))
  then show ?thesis using t1 r(2) same_after_set(1) by (intro exI conjI) (auto simp: MarkVerified_set_def)
qed

theorem registration_verifies_witness:
  "fst (VerifyCustomDomain (demo_service\<lparr>ds_LookupTXT := (\<lambda>_. Inr [''elitegate-verification=YWJj''])\<rparr>) ''p1'' ''d1'' (snd (CreateCustomDomain demo_service ''p1'' ''api.acme.com'' []))) \<noteq> Inl ErrVerificationTokenMismatch
   \<and> map cd_Status (snd (VerifyCustomDomain (demo_service\<lparr>ds_LookupTXT := (\<lambda>_. Inr [''elitegate-verification=YWJj''])\<rparr>) ''p1'' ''d1'' (snd (CreateCustomDomain demo_service ''p1'' ''api.acme.com'' [])))) = [DsVerified]"
proof -
  let ?c = "CreateCustomDomain demo_service ''p1'' ''api.acme.com'' []"
  have c: "map_sum id (\<lambda>r. (cr_ID r, cr_RecordName r, cr_RecordValue r)) (fst ?c) =
      Inr (''d1'', ''_elitegate-verification.api.acme.com'', ''elitegate-verification=YWJj'')" by code_simp
  then obtain resp where resp: "fst ?c = Inr resp" "cr_ID resp = ''d1''" "cr_RecordName resp = ''_elitegate-verification.api.acme.com''"
    "cr_RecordValue resp = ''elitegate-verification=YWJj''"
    by (cases "fst ?c") auto
  let ?s = "demo_service\<lparr>ds_LookupTXT := (\<lambda>_. Inr [''elitegate-verification=YWJj''])\<rparr>"
  have "\<exists>r cd. snd ?c = [] @ [r] \<and> cd_Status r = DsPendingVerification
      \<and> VerifyCustomDomain ?s ''p1'' (cr_ID resp) (snd ?c) = (Inr cd, [] @ [cd]) \<and> cd_Status cd = DsVerified \<and> same_domain r cd"
    by (rule registration_verifies [where s = demo_service and bytes = "''abc''" and rawHostname = "''api.acme.com''" and rcds = "[''elitegate-verification=YWJj'']"])
       (use resp in \<open>simp_all add: prod_eq_iff demo_service_def\<close>)
  then show ?thesis using resp(2) by auto
qed

end
