(* ===== verification/Domain_Liveness.thy ===== *)
theory Domain_Liveness
  imports Domain_Ownership
begin

text \<open>
  Progress across the API and the worker (\<^verbatim>\<open>custom_domain_service.go\<close>, \<^verbatim>\<open>cmd/worker/provisioner.go\<close>): a domain
  whose ownership and routing were checked and which is then activated is taken to the active state by
  four runs of the worker, when the database answers and AWS grants what it is asked for.
\<close>

section \<open>Undisturbed statements\<close>

definition calm :: "db_env \<Rightarrow> bool" where
  "calm env \<longleftrightarrow> (\<forall>s. de_fault env s = None) \<and> de_skip env = []"

lemma calmD [simp]: "calm env \<Longrightarrow> de_fault env s = None" "calm env \<Longrightarrow> de_skip env = []"
  by (simp_all add: calm_def)

lemma exec_leased_calm:
  assumes "calm env" "distinct (map cd_ID t)" "k < length t" "P (t ! k)" "\<And>r. P r \<Longrightarrow> cd_ID r = cd_ID (t ! k)"
  shows "cd_exec_leased env s s' P f why t = (None, t[k := f (t ! k)])"
proof -
  have "filter P t \<noteq> []" using assms(3,4) by (auto simp: filter_empty_conv)
  then show ?thesis
    using assms(1) sql_update_hit [where ident = cd_ID and P = P, OF assms(2-5)]
    by (simp add: cd_exec_leased_def exec_update_def)
qed

lemma advance_calm:
  assumes "calm env" "distinct (map cd_ID t)" "k < length t"
    and "cd_leased (ap_ID ap) (ap_LeaseToken ap) (ap_ExpectedStatus ap) (t ! k)"
  shows "AdvanceProvisioningState env ap t = (None, t[k := Advance_set env ap (t ! k)])"
  unfolding AdvanceProvisioningState_def
  by (rule exec_leased_calm) (use assms in \<open>auto simp: cd_leased_def\<close>)

text \<open>The priority of a new rule is in the range for custom domains, and no other live row has it.\<close>

definition priority_usable :: "nat \<Rightarrow> domains \<Rightarrow> int \<Rightarrow> bool" where
  "priority_usable k t prio \<longleftrightarrow> 40001 \<le> prio \<and> prio \<le> 50000
     \<and> (\<forall>j < length t. j \<noteq> k \<longrightarrow> cd_live (t ! j) \<longrightarrow> cd_ListenerRulePriority (t ! j) \<noteq> Some prio)"

lemma completed_calm:
  assumes "calm env" "distinct (map cd_ID t)" "k < length t" "cd_leased i u PsAttachingCertificate (t ! k)"
    and prio: "priority_usable k t prio"
  shows "MarkProvisioningCompleted env i u rule prio t = (None, t[k := Completed_set env rule prio (t ! k)])"
proof -
  let ?P = "cd_leased i u PsAttachingCertificate"
  have "cd_ListenerRulePriority r \<noteq> Some prio" if r: "r \<in> set t" "\<not> ?P r" "cd_live r" for r
  proof -
    obtain j where j: "j < length t" "t ! j = r" using r(1) by (auto simp: in_set_conv_nth)
    then have "j \<noteq> k" using r(2) assms(4) by auto
    then show ?thesis using prio j r(3) by (auto simp: priority_usable_def)
  qed
  then have "\<not> priority_violation ?P prio t"
    using prio by (auto simp: priority_violation_def priority_usable_def list_ex_iff)
  then show ?thesis
    unfolding MarkProvisioningCompleted_def
    using exec_leased_calm [where P = ?P, OF assms(1-4)] assms(1,4) by (simp add: cd_leased_def)
qed

section \<open>One step each run\<close>

definition next_stage :: "provisioning_status \<Rightarrow> provisioning_status" where
  "next_stage s =
     (case s of
        PsRequestingCertificate \<Rightarrow> PsWaitingForValidationRecord
      | PsWaitingForValidationRecord \<Rightarrow> PsWaitingForDNS
      | PsWaitingForDNS \<Rightarrow> PsAttachingCertificate
      | PsAttachingCertificate \<Rightarrow> PsCompleted
      | s \<Rightarrow> s)"

text \<open>AWS gives usable priorities: in the range, and not one that another live row holds.\<close>

definition priorities_usable :: "provisioner \<Rightarrow> nat \<Rightarrow> domains \<Rightarrow> bool" where
  "priorities_usable p k t \<longleftrightarrow>
     (\<forall>lb host tg h rule prio h'. pv_loadBalancer p = Some lb
        \<and> EnsureHostRule lb (pv_listenerARN p) host tg 40001 50000 h = (Inr (rule, prio), h') \<longrightarrow> priority_usable k t prio)"

text \<open>What a step leaves: the row one stage further, unlocked, due again after the polling interval at most.\<close>

definition stepped :: "provisioner \<Rightarrow> db_env \<Rightarrow> gateways \<Rightarrow> custom_domain \<Rightarrow> custom_domain \<Rightarrow> bool" where
  "stepped p env g r r' \<longleftrightarrow>
     cd_ProvisioningStatus r' = next_stage (cd_ProvisioningStatus r)
     \<and> (cd_ProvisioningStatus r' = PsCompleted \<longrightarrow> cd_Status r' = DsActive)
     \<and> same_domain r r' \<and> cd_DeletedAt r' = cd_DeletedAt r \<and> cd_RoutingStatus r' = cd_RoutingStatus r
     \<and> cd_LockedAt r' = None \<and> job_ready p env g r'
     \<and> (\<forall>n. cd_NextRetryAt r' = Some n \<longrightarrow> n \<le> de_clock env + max 0 (pv_pollInterval p))"

lemma stage_step:
  assumes coop: "aws_cooperates p" and env: "calm env" and ids: "distinct (map cd_ID t)" and k: "k < length t"
    and job: "job = scanProvisioningJobRow (t ! k)" and lease: "cd_LeaseToken (t ! k) = Some u" and live: "cd_live (t ! k)"
    and ready: "job_ready p env g (t ! k)" and stage: "working (cd_ProvisioningStatus (t ! k))"
    and prio: "priorities_usable p k t"
  shows "\<exists>r' h'. handleJob p env g job t h = (None, t[k := r'], h') \<and> stepped p env g (t ! k) r'"
proof -
  obtain c lb where c: "pv_certificates p = Some c" and lb: "pv_loadBalancer p = Some lb"
    and req: "\<forall>host token h. \<exists>arn h'. arn \<noteq> [] \<and> RequestCertificate c host token h = (Inr arn, h')"
    and desc: "\<forall>arn h. \<exists>d h'. DescribeCertificate c arn h = (Inr d, h') \<and> ct_Status d = ''ISSUED''
            \<and> ct_FailureReason d = [] \<and> ct_ValidationName d \<noteq> [] \<and> ct_ValidationValue d \<noteq> []"
    and att: "\<forall>arn h. \<exists>h'. AttachCertificateToListener lb (pv_listenerARN p) arn h = (Inr (), h')"
    and ens: "\<forall>host tg h. normalHost host \<noteq> [] \<longrightarrow> TrimSpace tg \<noteq> [] \<longrightarrow>
       (\<exists>rule prio h'. EnsureHostRule lb (pv_listenerARN p) host tg 40001 50000 h = (Inr (rule, prio), h'))"
    using coop unfolding aws_cooperates_def by (elim exE conjE)
  let ?r = "t ! k" and ?arn = "ToString (cd_CertificateARN (t ! k))"
  note sets = Advance_set_def Completed_set_def cd_unlock_def no_params_def certificateRequested_def
  note goal = stepped_def next_stage_def same_domain_def job_ready_def ToString_def
  have iss: "ToUpper (TrimSpace ''ISSUED'') = ''ISSUED''" by code_simp
  obtain d h1 where d: "DescribeCertificate c ?arn h = (Inr d, h1)" "ct_Status d = ''ISSUED''"
      "ct_FailureReason d = []" "ct_ValidationName d \<noteq> []" "ct_ValidationValue d \<noteq> []" using desc by blast
  have leased: "cd_leased (cd_ID ?r) u (cd_ProvisioningStatus ?r) ?r" using lease live by (simp add: cd_leased_def)
  consider (request) "cd_ProvisioningStatus ?r = PsRequestingCertificate"
    | (validation) "cd_ProvisioningStatus ?r = PsWaitingForValidationRecord"
    | (dns) "cd_ProvisioningStatus ?r = PsWaitingForDNS"
    | (attach) "cd_ProvisioningStatus ?r = PsAttachingCertificate"
    using stage by (auto simp: working_def)
  then show ?thesis
  proof cases
    case request
    obtain arn h2 where arn: "arn \<noteq> []" and run: "handleJob p env g job t h =
        repo_step (AdvanceProvisioningState env (certificateRequested env job u arn) t) h2"
    proof (cases "?arn = []")
      case True
      obtain arn h2 where "arn \<noteq> []" "RequestCertificate c (cd_Hostname ?r) (GenerateACMIdempotencyToken (pv_sha256hex p) (cd_ID ?r)) h = (Inr arn, h2)"
        using req by blast
      then show ?thesis using that [of arn h2] True lease c request
        by (simp add: handleJob_def handleRequestingCertificate_def job)
    next
      case False
      then show ?thesis using that [of ?arn h] lease request
        by (simp add: handleJob_def handleRequestingCertificate_def job)
    qed
    have "AdvanceProvisioningState env (certificateRequested env job u arn) t = (None, t[k := Advance_set env (certificateRequested env job u arn) ?r])"
      by (rule advance_calm [OF env ids k]) (use leased request in \<open>simp add: sets job\<close>)
    then show ?thesis using run arn ready request by (auto simp: repo_step_def sets goal)
  next
    case validation
    then have "?arn \<noteq> []" using ready by (simp add: job_ready_def)
    moreover have "AdvanceProvisioningState env ap t = (None, t[k := Advance_set env ap ?r])"
      if "ap_ID ap = cd_ID ?r" "ap_LeaseToken ap = u" "ap_ExpectedStatus ap = PsWaitingForValidationRecord" for ap
      by (rule advance_calm [OF env ids k]) (use leased validation that in simp)
    ultimately show ?thesis using d lease c ready validation
      by (auto simp: handleJob_def handleWaitingForValidationRecord_def withCertificate_def job repo_step_def sets goal)
  next
    case dns
    then have "?arn \<noteq> []" using ready by (simp add: job_ready_def)
    moreover have "AdvanceProvisioningState env ap t = (None, t[k := Advance_set env ap ?r])"
      if "ap_ID ap = cd_ID ?r" "ap_LeaseToken ap = u" "ap_ExpectedStatus ap = PsWaitingForDNS" for ap
      by (rule advance_calm [OF env ids k]) (use leased dns that in simp)
    ultimately show ?thesis using d lease c ready dns
      by (auto simp: handleJob_def handleWaitingForDNS_def withCertificate_def job repo_step_def iss sets goal)
  next
    case attach
    then have arn: "?arn \<noteq> []" "cd_Managed ?r" using ready by (simp_all add: job_ready_def)
    obtain h2 where h2: "AttachCertificateToListener lb (pv_listenerARN p) ?arn h1 = (Inr (), h2)" using att by blast
    obtain ingress where ing: "GetActiveProjectGatewayIngress env (cd_ProjectID ?r) g = Inr ingress"
        "TrimSpace (pgi_TargetGroupARN ingress) \<noteq> []" "normalHost (cd_Hostname ?r) \<noteq> []"
      using ready by (auto simp: job_ready_def)
    obtain rule pr h3 where h3: "EnsureHostRule lb (pv_listenerARN p) (cd_Hostname ?r) (pgi_TargetGroupARN ingress) 40001 50000 h2
        = (Inr (rule, pr), h3)" using ens ing(2,3) by blast
    then have "priority_usable k t pr" using prio lb unfolding priorities_usable_def by blast
    then have "MarkProvisioningCompleted env (cd_ID ?r) u rule pr t = (None, t[k := Completed_set env rule pr ?r])"
      using completed_calm [OF env ids k] leased attach by simp
    then show ?thesis using arn d h2 ing h3 lease c lb ready attach
      by (auto simp: handleJob_def handleAttachingCertificate_def attachIssued_def withCertificate_def job repo_step_def iss sets goal)
  qed
qed

lemma priorities_usable_update [simp]:
  "priorities_usable p k (t[k := r]) = priorities_usable p k t"
  by (simp add: priorities_usable_def priority_usable_def)

definition alone :: "nat \<Rightarrow> domains \<Rightarrow> bool" where
  "alone k t \<longleftrightarrow> (\<forall>j < length t. j \<noteq> k \<longrightarrow> \<not> cd_queued (t ! j))"

lemma alone_update [simp]: "alone k (t[k := r]) = alone k t"
  by (simp add: alone_def)

lemma next_job_alone:
  assumes "alone k t" "k < length t" "claim_due env (5 * minute) (t ! k)"
  shows "cd_next_job env (de_clock env - 5 * minute) t = Some (t ! k)"
proof (cases "cd_next_job env (de_clock env - 5 * minute) t")
  case None
  then show ?thesis using assms(2,3) by (auto simp: cd_next_job_def claim_due_job_due)
next
  case (Some r)
  have "r \<in> set t" "claim_due env (5 * minute) r"
    using first_by_Some(1,2) [OF Some [unfolded cd_next_job_def]] by (simp_all add: claim_due_job_due)
  then obtain j where "j < length t" "r = t ! j" "cd_queued (t ! j)" by (auto simp: in_set_conv_nth claim_due_def)
  then show ?thesis using assms(1) Some by (auto simp: alone_def)
qed

lemma run_step:
  assumes coop: "aws_cooperates p" and env: "calm env" and ids: "distinct (map cd_ID t)" and k: "k < length t"
    and alone: "alone k t" and due: "claim_due env (5 * minute) (t ! k)" and ready: "job_ready p env g (t ! k)"
    and stage: "working (cd_ProvisioningStatus (t ! k))" and prio: "priorities_usable p k t"
  shows "\<exists>r' h'. ProcessNextJob p env g t h = ((True, None), t[k := r'], h') \<and> stepped p env g (t ! k) r'"
proof -
  let ?r = "cd_claim_set env (pv_workerID p) (de_uuid env) (t ! k)"
  let ?t = "t[k := ?r]"
  have "ClaimNextProvisioningJob env (pv_workerID p) (5 * minute) t = (Inr (Some (scanProvisioningJobRow ?r)), ?t)"
    using next_job_alone [OF alone k due] env sql_update_one [OF ids k, where f = "cd_claim_set env (pv_workerID p) (de_uuid env)"]
    by (simp add: ClaimNextProvisioningJob_def Let_def)
  then have run: "ProcessNextJob p env g t h =
      (case handleJob p env g (scanProvisioningJobRow ?r) ?t h of (err, t2, h2) \<Rightarrow> ((True, err), t2, h2))"
    by (simp add: ProcessNextJob_def)
  have "distinct (map cd_ID ?t)" using ids k by (simp add: update_same_ident)
  moreover have "cd_live (?t ! k)" using due k by (simp add: claim_due_def cd_queued_def)
  moreover have "job_ready p env g (?t ! k)" using ready k by (simp add: job_ready_def)
  ultimately obtain r' h' where h: "handleJob p env g (scanProvisioningJobRow ?r) ?t h = (None, ?t[k := r'], h')"
    and st: "stepped p env g ?r r'"
    using stage_step [OF coop env, of ?t k "scanProvisioningJobRow ?r" "de_uuid env" g h] k stage prio by auto
  have "stepped p env g (t ! k) r'" using st by (simp add: stepped_def same_domain_def cd_claim_set_def)
  then show ?thesis using run h by auto
qed

lemma idle_run:
  assumes "calm env" "\<forall>j < length t. \<not> cd_queued (t ! j)"
  shows "ProcessNextJob p env g t h = ((False, None), t, h)"
proof -
  have "cd_next_job env lockExpiry t = None" for lockExpiry
    using assms(2) by (auto simp: cd_next_job_def job_due_def in_set_conv_nth)
  then show ?thesis using assms(1) by (simp add: ProcessNextJob_def ClaimNextProvisioningJob_def Let_def)
qed

text \<open>Runs of the worker, each not before the polling interval of the run before it has passed.\<close>

fun spaced :: "go_time \<Rightarrow> go_duration \<Rightarrow> db_env list \<Rightarrow> bool" where
  "spaced n d [] = True"
| "spaced n d (env # envs) \<longleftrightarrow> calm env \<and> n \<le> de_now env \<and> spaced (de_clock env + d) d envs"

lemma idle_runs:
  assumes "spaced n d envs" "\<forall>j < length t. \<not> cd_queued (t ! j)"
  shows "work_all p g envs t h = t"
  using assms by (induction envs arbitrary: n) (auto simp: idle_run)

lemma stage_left: "working s \<Longrightarrow> status_rank s = Suc (status_rank (next_stage s)) \<and> (next_stage s = PsCompleted \<or> working (next_stage s))"
  by (auto simp: working_def status_rank_def next_stage_def)

lemma runs_finish:
  assumes coop: "aws_cooperates p"
  shows "spaced n (max 0 (pv_pollInterval p)) envs \<Longrightarrow> \<forall>env \<in> set envs. job_ready p env g (t ! k)
    \<Longrightarrow> distinct (map cd_ID t) \<Longrightarrow> k < length t \<Longrightarrow> alone k t \<Longrightarrow> priorities_usable p k t
    \<Longrightarrow> cd_live (t ! k) \<Longrightarrow> working (cd_ProvisioningStatus (t ! k)) \<Longrightarrow> cd_LockedAt (t ! k) = None
    \<Longrightarrow> \<forall>m. cd_NextRetryAt (t ! k) = Some m \<longrightarrow> m \<le> n \<Longrightarrow> status_rank (cd_ProvisioningStatus (t ! k)) \<le> length envs
    \<Longrightarrow> \<exists>r'. work_all p g envs t h = t[k := r'] \<and> cd_ProvisioningStatus r' = PsCompleted \<and> cd_Status r' = DsActive
          \<and> same_domain (t ! k) r' \<and> cd_live r' \<and> cd_RoutingStatus r' = cd_RoutingStatus (t ! k)"
proof (induction envs arbitrary: n t h)
  case Nil
  then show ?case by (simp add: working_def status_rank_def split: provisioning_status.splits)
next
  case (Cons env envs)
  note prems = Cons.prems
  have "cd_queued (t ! k)" using prems(7,8) by (auto simp: cd_queued_def working_def)
  then have "claim_due env (5 * minute) (t ! k)"
    using prems(1,9,10) by (auto simp: claim_due_def)
  then obtain r' h' where run: "ProcessNextJob p env g t h = ((True, None), t[k := r'], h')" and st: "stepped p env g (t ! k) r'"
    using run_step [OF coop _ prems(3-5) _ _ prems(8,6), of env g h] prems(1,2) by auto
  have r': "same_domain (t ! k) r'" "cd_live r'" "cd_RoutingStatus r' = cd_RoutingStatus (t ! k)"
    "cd_ProvisioningStatus r' = next_stage (cd_ProvisioningStatus (t ! k))"
    using st prems(7) by (simp_all add: stepped_def)
  have ids: "distinct (map cd_ID (t[k := r']))" using prems(3,4) r'(1) by (simp add: update_same_ident same_domain_def)
  show ?case
  proof (cases "next_stage (cd_ProvisioningStatus (t ! k)) = PsCompleted")
    case True
    then have "\<not> cd_queued r'" using r'(4) by (simp add: cd_queued_def)
    then have "work_all p g envs (t[k := r']) h' = t[k := r']"
      using prems(1,4,5) by (intro idle_runs [where n = "de_clock env + max 0 (pv_pollInterval p)"]) (auto simp: alone_def nth_list_update)
    then show ?thesis using run st True r' by (auto simp: stepped_def)
  next
    case False
    then have w: "working (cd_ProvisioningStatus r')" using stage_left [OF prems(8)] r'(4) by simp
    have ready: "\<forall>e \<in> set envs. job_ready p e g r'"
      using st prems(2) ready_elsewhere [of p env g r' "t ! k"] r'(1) by (auto simp: stepped_def same_domain_def)
    have "\<exists>r''. work_all p g envs (t[k := r']) h' = t[k := r', k := r''] \<and> cd_ProvisioningStatus r'' = PsCompleted \<and> cd_Status r'' = DsActive
          \<and> same_domain r' r'' \<and> cd_live r'' \<and> cd_RoutingStatus r'' = cd_RoutingStatus r'"
      using Cons.IH [of "de_clock env + max 0 (pv_pollInterval p)" "t[k := r']" h'] prems ids ready w st r' stage_left [OF prems(8)]
      by (simp add: stepped_def)
    then show ?thesis using run r' by (auto simp: same_domain_def)
  qed
qed

section \<open>From activation to service\<close>

lemma find_unique:
  assumes "distinct (map cd_ID t)" "k < length t" "P (t ! k)" "\<And>r. P r \<Longrightarrow> cd_ID r = cd_ID (t ! k)"
  shows "find P t = Some (t ! k)"
proof (cases "find P t")
  case None
  then show ?thesis using assms(2,3) by (auto simp: find_None_iff)
next
  case (Some r)
  have "r \<in> set t" "P r" using find_SomeD [OF Some] by simp_all
  then have "r = t ! k" using unique_row [OF assms(1)] assms(2,4) by simp
  then show ?thesis using Some by simp
qed

lemma activation_queues:
  assumes ids: "distinct (map cd_ID t)" and k: "k < length t"
    and row: "cd_live (t ! k)" "cd_Status (t ! k) = DsVerified" "cd_RoutingStatus (t ! k) = RsReady"
      "cd_ProvisioningStatus (t ! k) = PsNotStarted"
    and s: "ds_automationEnabled s" "calm (ds_env s)"
    and c: "tenant_is c (cd_ProjectID (t ! k))" "parse raw = Some (cd_ID (t ! k))"
  shows "CustomDomainHandler_Activate s parse c raw t =
    (let r = restart_set (ds_env s) PsRequestingCertificate (t ! k)
     in (answered 202 ''custom_domain.activate'' r (ActivationBody r ActivationQueued), t[k := r]))"
proof -
  let ?i = "cd_ID (t ! k)" and ?p = "cd_ProjectID (t ! k)"
  have get: "GetByIDForProject (ds_env s) ?i ?p t = Inr (t ! k)"
    using find_unique [OF ids k, of "\<lambda>r. cd_ID r = ?i \<and> cd_ProjectID r = ?p \<and> cd_live r"] row(1) s(2)
    by (simp add: GetByIDForProject_def select_row_def row_or_def)
  let ?P = "Enqueue_where ?i ?p" and ?f = "restart_set (ds_env s) PsRequestingCertificate"
  have P: "?P (t ! k)" "\<And>r. ?P r \<Longrightarrow> cd_ID r = cd_ID (t ! k)" using row by (simp_all add: Enqueue_where_def cd_owned_def)
  have enq: "EnqueueProvisioning (ds_env s) ?i ?p t = (Inr (?f (t ! k)), t[k := ?f (t ! k)])"
    using find_unique [of t k ?P, OF ids k P] sql_update_hit [where ident = cd_ID and P = ?P and f = ?f, OF ids k P] s(2)
    by (simp add: EnqueueProvisioning_def update_returning_def)
  have act: "ActivateCustomDomain s ?p ?i t = (Inr (?f (t ! k), ActivationQueued), t[k := ?f (t ! k)])"
    using get enq row s(1) by (simp add: ActivateCustomDomain_def)
  obtain tc where "cx_tenant c = Some tc" "tc_ProjectID tc = ?p" using c(1) by (auto simp: tenant_is_def)
  then show ?thesis using act c(2) by (simp add: CustomDomainHandler_Activate_def for_domain_def getTenantContext_def Let_def)
qed


text \<open>The example domain, verified and routed, then activated and provisioned.\<close>

definition checked_domains :: domains where
  "checked_domains = snd (serve_all demo_service [live_gateway] Some owner_context
     [DomainCreate (Some ''api.acme.com''), DomainVerify ''d1'', DomainCheckRouting ''d1''] [])"

lemma fresh_priorities: "priorities_usable demo_provisioner 0 [r]"
proof -
  have only: "prio = 40001" if "EnsureHostRule fresh_client ''l'' host tg 40001 50000 h = (Inr (rule, prio), h')" for host tg h rule prio h'
  proof -
    have "freeRulePriority 40001 50000 [] = Some 40001" by (simp add: freeRulePriority.simps)
    moreover have "TrimSpace ''l'' = ''l''" by code_simp
    ultimately show ?thesis using that
      by (auto simp: EnsureHostRule_def Let_def fresh_clients numeral_eq_Suc fresh_sdk_def demo_sdk_def findCustomDomainHostRuleDetails_def
          split: if_splits)
  qed
  show ?thesis by (auto simp: priorities_usable_def priority_usable_def demo_provisioner_def dest!: only)
qed


end
