(* ===== verification/Project_JWT_Config.thy ===== *)
theory Project_JWT_Config
  imports Admin_Access AWS_Client
begin

text \<open>
  How a project configures the verification of its customers' tokens: the Secrets Manager adapter
  (\<^verbatim>\<open>internal/aws/secret_manager.go\<close>), the repository (\<^verbatim>\<open>internal/storage/project_jwt_config_repo.go\<close>), the service
  that keeps the two in step (\<^verbatim>\<open>internal/admin/service/project_jwt_config_service.go\<close>), its handlers
  (\<^verbatim>\<open>internal/admin/handler/project_jwt_config_handler.go\<close>) and the form that is sent to the gateways
  (\<^verbatim>\<open>projectJWTConfigToSync\<close> in \<^verbatim>\<open>tenant_sync.go\<close>).

  The AWS SDK is a parameter whose answers may depend on all calls made so far; the calls are recorded
  with their answers.
\<close>

section \<open>Secrets Manager\<close>

datatype secret_error = ResourceExists string | InvalidRequest string | ResourceNotFound string | OtherSecretError string

type_synonym secret_answer = "secret_error + string option \<times> string option"

datatype secret_call =
    CreateSecretCall string string secret_answer
  | PutSecretValueCall string string secret_answer
  | DeleteSecretCall string "secret_error option"
  | RestoreSecretCall string "secret_error option"

record secret_sdk =
  sk_CreateSecret :: "secret_call list \<Rightarrow> string \<Rightarrow> string \<Rightarrow> secret_answer"
  sk_PutSecretValue :: "secret_call list \<Rightarrow> string \<Rightarrow> string \<Rightarrow> secret_answer"
  sk_GetSecretValue :: "secret_call list \<Rightarrow> string \<Rightarrow> string option \<Rightarrow> secret_error + string option"
  sk_DeleteSecret :: "secret_call list \<Rightarrow> string \<Rightarrow> secret_error option"
  sk_RestoreSecret :: "secret_call list \<Rightarrow> string \<Rightarrow> secret_error option"

record secret_reference =
  sr_ARN :: string
  sr_VersionID :: string

datatype manager_error = ErrSecretAlreadyExists | ManagerError string

definition secretReference :: "string option \<Rightarrow> string option \<Rightarrow> manager_error + secret_reference" where
  "secretReference arn versionID =
     (let ref = \<lparr>sr_ARN = TrimSpace (ToString arn), sr_VersionID = TrimSpace (ToString versionID)\<rparr>
      in if sr_ARN ref = [] then Inl (ManagerError ''AWS returned an empty secret ARN'')
         else if sr_VersionID ref = [] then Inl (ManagerError ''AWS returned an empty secret version ID'')
         else Inr ref)"

text \<open>A manager without a client is \<^const>\<open>None\<close>; every operation checks for it first.\<close>

type_synonym secret_manager = "secret_sdk option"

definition CreateSecret ::
  "secret_manager \<Rightarrow> string \<Rightarrow> string \<Rightarrow> secret_call list \<Rightarrow> (manager_error + secret_reference) \<times> secret_call list" where
  "CreateSecret m name0 secretValue h =
     (case m of
        None \<Rightarrow> (Inl (ManagerError ''Secrets Manager client is not initialized''), h)
      | Some sdk \<Rightarrow>
          let name = TrimSpace name0
          in if name = [] then (Inl (ManagerError ''secret name is required''), h)
             else if secretValue = [] then (Inl (ManagerError ''secret value is required''), h)
             else
               let ans = sk_CreateSecret sdk h name secretValue;
                   h' = h @ [CreateSecretCall name secretValue ans]
               in (case ans of
                     Inl (ResourceExists _) \<Rightarrow> (Inl ErrSecretAlreadyExists, h')
                   | Inl (InvalidRequest e) \<Rightarrow>
                       (if Contains (ToLower e) ''scheduled for deletion'' then Inl ErrSecretAlreadyExists
                        else Inl (ManagerError ''create secret''), h')
                   | Inl _ \<Rightarrow> (Inl (ManagerError ''create secret''), h')
                   | Inr (arn, v) \<Rightarrow> (secretReference arn v, h')))"

definition UpdateSecret ::
  "secret_manager \<Rightarrow> string \<Rightarrow> string \<Rightarrow> secret_call list \<Rightarrow> (manager_error + secret_reference) \<times> secret_call list" where
  "UpdateSecret m secretID0 secretValue h =
     (case m of
        None \<Rightarrow> (Inl (ManagerError ''Secrets Manager client is not initialized''), h)
      | Some sdk \<Rightarrow>
          let secretID = TrimSpace secretID0
          in if secretID = [] then (Inl (ManagerError ''secret ID is required''), h)
             else if secretValue = [] then (Inl (ManagerError ''secret value is required''), h)
             else
               let ans = sk_PutSecretValue sdk h secretID secretValue;
                   h' = h @ [PutSecretValueCall secretID secretValue ans]
               in (case ans of
                     Inl (ResourceNotFound _) \<Rightarrow> (Inl (ManagerError ''secret not found''), h')
                   | Inl _ \<Rightarrow> (Inl (ManagerError ''update secret''), h')
                   | Inr (arn, v) \<Rightarrow> (secretReference arn v, h')))"

definition GetSecret :: "secret_manager \<Rightarrow> secret_call list \<Rightarrow> string \<Rightarrow> string \<Rightarrow> string + string" where
  "GetSecret m h secretID0 versionID0 =
     (case m of
        None \<Rightarrow> Inl ''Secrets Manager client is not initialized''
      | Some sdk \<Rightarrow>
          let secretID = TrimSpace secretID0; versionID = TrimSpace versionID0
          in if secretID = [] then Inl ''secret ID is required''
             else
               (case sk_GetSecretValue sdk h secretID (if versionID \<noteq> [] then Some versionID else None) of
                  Inl (ResourceNotFound _) \<Rightarrow> Inl ''secret not found''
                | Inl _ \<Rightarrow> Inl ''get secret''
                | Inr None \<Rightarrow> Inl ''secret contains no string value''
                | Inr (Some s) \<Rightarrow> if s = [] then Inl ''secret contains no string value'' else Inr s))"

definition DeleteSecret :: "secret_manager \<Rightarrow> string \<Rightarrow> secret_call list \<Rightarrow> manager_error option \<times> secret_call list" where
  "DeleteSecret m secretID0 h =
     (case m of
        None \<Rightarrow> (Some (ManagerError ''Secrets Manager client is not initialized''), h)
      | Some sdk \<Rightarrow>
          let secretID = TrimSpace secretID0
          in if secretID = [] then (Some (ManagerError ''secret ID is required''), h)
             else
               let ans = sk_DeleteSecret sdk h secretID;
                   h' = h @ [DeleteSecretCall secretID ans]
               in (case ans of
                     None \<Rightarrow> (None, h')
                   | Some (ResourceNotFound _) \<Rightarrow> (None, h')
                   | Some _ \<Rightarrow> (Some (ManagerError ''delete secret''), h')))"

definition RestoreSecret :: "secret_manager \<Rightarrow> string \<Rightarrow> secret_call list \<Rightarrow> manager_error option \<times> secret_call list" where
  "RestoreSecret m secretID0 h =
     (case m of
        None \<Rightarrow> (Some (ManagerError ''Secrets Manager client is not initialized''), h)
      | Some sdk \<Rightarrow>
          let secretID = TrimSpace secretID0
          in if secretID = [] then (Some (ManagerError ''secret ID is required''), h)
             else
               let ans = sk_RestoreSecret sdk h secretID
               in (map_option (\<lambda>_. ManagerError ''restore secret'') ans, h @ [RestoreSecretCall secretID ans]))"

section \<open>The repository\<close>

record jwt_config =
  jc_ProjectID :: uuid
  jc_Enabled :: bool
  jc_Algorithm :: string
  jc_SecretARN :: string
  jc_SecretVersionID :: string
  jc_ConfigVersion :: int
  jc_Issuer :: "string option"
  jc_Audiences :: "string list"
  jc_SubjectClaim :: string
  jc_RoleClaim :: string
  jc_ScopesClaim :: string
  jc_ClockSkewSeconds :: int
  jc_CreatedBy :: "uuid option"
  jc_UpdatedBy :: "uuid option"
  jc_CreatedAt :: go_time
  jc_UpdatedAt :: go_time

type_synonym jwt_configs = "jwt_config list"

datatype jwt_repo_error = ErrProjectJWTConfigNotFound | JWTSql string string

text \<open>The checks of the table's migration.\<close>

definition BTrim :: "string \<Rightarrow> string" where "BTrim s = TrimByte s (CHR '' '')"

definition jc_checked :: "jwt_config \<Rightarrow> bool" where
  "jc_checked c \<longleftrightarrow>
     jc_Algorithm c = ''HS256'' \<and> BTrim (jc_SecretARN c) \<noteq> [] \<and> BTrim (jc_SecretVersionID c) \<noteq> []
     \<and> 0 \<le> jc_ClockSkewSeconds c \<and> jc_ClockSkewSeconds c \<le> 300
     \<and> (case jc_Issuer c of None \<Rightarrow> True | Some i \<Rightarrow> BTrim i \<noteq> [])
     \<and> BTrim (jc_SubjectClaim c) \<noteq> [] \<and> BTrim (jc_RoleClaim c) \<noteq> [] \<and> BTrim (jc_ScopesClaim c) \<noteq> []"

text \<open>
  Every statement runs in a transaction of the tenant; an error anywhere, the commit included, leaves the
  table as it was.
\<close>

definition JWTConfig_Get :: "db_env \<Rightarrow> uuid \<Rightarrow> jwt_configs \<Rightarrow> jwt_repo_error + jwt_config" where
  "JWTConfig_Get env p t =
     (case de_fault env ''query project JWT config'' of
        Some e \<Rightarrow> Inl (JWTSql ''query project JWT config'' e)
      | None \<Rightarrow> (case find (\<lambda>c. jc_ProjectID c = p) t of None \<Rightarrow> Inl ErrProjectJWTConfigNotFound | Some c \<Rightarrow> Inr c))"

definition upsert_insert :: "db_env \<Rightarrow> tenant_context \<Rightarrow> jwt_config \<Rightarrow> jwt_config" where
  "upsert_insert env tc cfg =
     cfg\<lparr>jc_ProjectID := tc_ProjectID tc, jc_ConfigVersion := 1, jc_CreatedBy := Some (tc_UserID tc),
         jc_UpdatedBy := Some (tc_UserID tc), jc_CreatedAt := de_now env, jc_UpdatedAt := de_now env\<rparr>"

definition upsert_update :: "db_env \<Rightarrow> tenant_context \<Rightarrow> jwt_config \<Rightarrow> jwt_config \<Rightarrow> jwt_config" where
  "upsert_update env tc cfg row =
     row\<lparr>jc_Enabled := jc_Enabled cfg, jc_Algorithm := jc_Algorithm cfg, jc_SecretARN := jc_SecretARN cfg,
         jc_SecretVersionID := jc_SecretVersionID cfg, jc_Issuer := jc_Issuer cfg, jc_Audiences := jc_Audiences cfg,
         jc_SubjectClaim := jc_SubjectClaim cfg, jc_RoleClaim := jc_RoleClaim cfg, jc_ScopesClaim := jc_ScopesClaim cfg,
         jc_ClockSkewSeconds := jc_ClockSkewSeconds cfg, jc_UpdatedBy := Some (tc_UserID tc),
         jc_ConfigVersion := jc_ConfigVersion row + 1, jc_UpdatedAt := de_now env\<rparr>"

definition JWTConfig_Upsert ::
  "db_env \<Rightarrow> tenant_context \<Rightarrow> jwt_config \<Rightarrow> jwt_configs \<Rightarrow> (jwt_repo_error + jwt_config) \<times> jwt_configs" where
  "JWTConfig_Upsert env tc cfg t =
     (case de_fault env ''upsert project JWT config'' of
        Some e \<Rightarrow> (Inl (JWTSql ''upsert project JWT config'' e), t)
      | None \<Rightarrow>
          if \<not> jc_checked cfg then (Inl (JWTSql ''upsert project JWT config'' ''violates check constraint''), t)
          else
            (case find (\<lambda>c. jc_ProjectID c = tc_ProjectID tc) t of
               None \<Rightarrow> (Inr (upsert_insert env tc cfg), t @ [upsert_insert env tc cfg])
             | Some row \<Rightarrow>
                 (Inr (upsert_update env tc cfg row),
                  sql_update (\<lambda>c. jc_ProjectID c = tc_ProjectID tc) (upsert_update env tc cfg) t)))"

definition JWTConfig_Delete :: "db_env \<Rightarrow> uuid \<Rightarrow> jwt_configs \<Rightarrow> jwt_repo_error option \<times> jwt_configs" where
  "JWTConfig_Delete env p t =
     (case de_fault env ''delete project JWT config'' of
        Some e \<Rightarrow> (Some (JWTSql ''delete project JWT config'' e), t)
      | None \<Rightarrow>
          if \<not> list_ex (\<lambda>c. jc_ProjectID c = p) t then (Some ErrProjectJWTConfigNotFound, t)
          else (None, filter (\<lambda>c. jc_ProjectID c \<noteq> p) t))"

section \<open>The service\<close>

record jwt_input =
  ji_Enabled :: bool
  ji_Algorithm :: string
  ji_Secret :: string
  ji_Issuer :: "string option"
  ji_Audiences :: "string list"
  ji_SubjectClaim :: string
  ji_RoleClaim :: string
  ji_ScopesClaim :: string
  ji_ClockSkewSeconds :: "int option"

datatype jwt_config_error =
    ErrJWTSecretRequired | ErrJWTSecretTooShort | ErrJWTSecretTooLarge | ErrUnsupportedJWTAlgorithm
  | ErrInvalidJWTConfig string | JWTNotInitialized | JWTRepoFailed jwt_repo_error | JWTSecretFailed manager_error

definition defaultClaimName :: "string \<Rightarrow> string \<Rightarrow> string" where
  "defaultClaimName value0 fallback = (let value = TrimSpace value0 in if value = [] then fallback else value)"

definition validateClaimName :: "string \<Rightarrow> jwt_config_error option" where
  "validateClaimName value =
     (if value = [] then Some (ErrInvalidJWTConfig ''claim name cannot be empty'')
      else if length value > 128 then Some (ErrInvalidJWTConfig ''claim name is too long'')
      else if list_ex (\<lambda>c. (of_char c :: nat) < 32 \<or> (of_char c :: nat) = 127) value
      then Some (ErrInvalidJWTConfig ''claim name contains control characters'')
      else None)"

fun normalizeAudiences_loop :: "string list \<Rightarrow> string list \<Rightarrow> jwt_config_error + string list" where
  "normalizeAudiences_loop result [] = Inr result"
| "normalizeAudiences_loop result (v # vs) =
     (let value = TrimSpace v
      in if value = [] then normalizeAudiences_loop result vs
         else if length value > 512 then Inl (ErrInvalidJWTConfig ''audience is too long'')
         else if value \<in> set result then normalizeAudiences_loop result vs
         else normalizeAudiences_loop (result @ [value]) vs)"

definition normalizeAudiences :: "string list \<Rightarrow> jwt_config_error + string list" where
  "normalizeAudiences values =
     (if length values > 20 then Inl (ErrInvalidJWTConfig ''too many audiences'')
      else case normalizeAudiences_loop [] values of Inl e \<Rightarrow> Inl e | Inr result \<Rightarrow> Inr (sort result))"

definition normalizeIssuer :: "string option \<Rightarrow> jwt_config_error + string option" where
  "normalizeIssuer issuer0 =
     (case issuer0 of
        None \<Rightarrow> Inr None
      | Some s \<Rightarrow>
          let issuer = TrimSpace s
          in if issuer = [] then Inr None
             else if length issuer > 512 then Inl (ErrInvalidJWTConfig ''issuer is too long'')
             else Inr (Some issuer))"

definition validateSecret :: "string \<Rightarrow> jwt_config_error option" where
  "validateSecret secret =
     (if secret = [] then None
      else if TrimSpace secret = [] then Some ErrJWTSecretRequired
      else if length secret < 32 then Some ErrJWTSecretTooShort
      else if length secret > 4096 then Some ErrJWTSecretTooLarge
      else None)"

definition normalizeJWTConfigInput :: "jwt_input \<Rightarrow> jwt_config_error + jwt_input" where
  "normalizeJWTConfigInput input =
     (let a0 = ToUpper (TrimSpace (ji_Algorithm input));
          algorithm = (if a0 = [] then ''HS256'' else a0)
      in if algorithm \<noteq> ''HS256'' then Inl ErrUnsupportedJWTAlgorithm
         else
           (case validateSecret (ji_Secret input) of
              Some e \<Rightarrow> Inl e
            | None \<Rightarrow>
                let subject = defaultClaimName (ji_SubjectClaim input) ''sub'';
                    role = defaultClaimName (ji_RoleClaim input) ''role'';
                    scopes = defaultClaimName (ji_ScopesClaim input) ''scope''
                in (case validateClaimName subject of
                      Some e \<Rightarrow> Inl e
                    | None \<Rightarrow>
                   (case validateClaimName role of
                      Some e \<Rightarrow> Inl e
                    | None \<Rightarrow>
                   (case validateClaimName scopes of
                      Some e \<Rightarrow> Inl e
                    | None \<Rightarrow>
                   (case normalizeIssuer (ji_Issuer input) of
                      Inl e \<Rightarrow> Inl e
                    | Inr issuer \<Rightarrow>
                   (case normalizeAudiences (ji_Audiences input) of
                      Inl e \<Rightarrow> Inl e
                    | Inr audiences \<Rightarrow>
                        (case ji_ClockSkewSeconds input of
                           Some n \<Rightarrow>
                             if n < 0 \<or> n > 300 then Inl (ErrInvalidJWTConfig ''clock skew must be between 0 and 300 seconds'')
                             else Inr (input\<lparr>ji_Algorithm := algorithm, ji_SubjectClaim := subject, ji_RoleClaim := role,
                                    ji_ScopesClaim := scopes, ji_Issuer := issuer, ji_Audiences := audiences\<rparr>)
                         | None \<Rightarrow> Inr (input\<lparr>ji_Algorithm := algorithm, ji_SubjectClaim := subject, ji_RoleClaim := role,
                                    ji_ScopesClaim := scopes, ji_Issuer := issuer, ji_Audiences := audiences\<rparr>)))))))))"

text \<open>The fields the literal leaves out have Go's zero values.\<close>

definition configFromInput :: "jwt_input \<Rightarrow> jwt_config" where
  "configFromInput input =
     \<lparr>jc_ProjectID = [], jc_Enabled = ji_Enabled input, jc_Algorithm = ji_Algorithm input, jc_SecretARN = [], jc_SecretVersionID = [],
      jc_ConfigVersion = 0, jc_Issuer = ji_Issuer input, jc_Audiences = ji_Audiences input,
      jc_SubjectClaim = ji_SubjectClaim input, jc_RoleClaim = ji_RoleClaim input, jc_ScopesClaim = ji_ScopesClaim input,
      jc_ClockSkewSeconds = (case ji_ClockSkewSeconds input of None \<Rightarrow> 30 | Some n \<Rightarrow> n),
      jc_CreatedBy = None, jc_UpdatedBy = None, jc_CreatedAt = 0, jc_UpdatedAt = 0\<rparr>"

definition jwtConfigEquivalent :: "jwt_config \<Rightarrow> jwt_config \<Rightarrow> bool" where
  "jwtConfigEquivalent current new \<longleftrightarrow>
     jc_Enabled current = jc_Enabled new \<and> jc_Algorithm current = jc_Algorithm new \<and> jc_Issuer current = jc_Issuer new
     \<and> jc_Audiences current = jc_Audiences new \<and> jc_SubjectClaim current = jc_SubjectClaim new
     \<and> jc_RoleClaim current = jc_RoleClaim new \<and> jc_ScopesClaim current = jc_ScopesClaim new
     \<and> jc_ClockSkewSeconds current = jc_ClockSkewSeconds new"

definition envByte :: "char \<Rightarrow> char" where
  "envByte c =
     (let n = of_char c :: nat
      in if 97 \<le> n \<and> n \<le> 122 \<or> 48 \<le> n \<and> n \<le> 57 \<or> c = CHR ''-'' then c else CHR ''-'')"

definition normalizeEnvironment :: "string \<Rightarrow> string" where
  "normalizeEnvironment value0 =
     (let value = ToLower (TrimSpace value0)
      in if value = [] then ''development''
         else let result = TrimByte (map envByte value) (CHR ''-'')
              in if result = [] then ''development'' else result)"

definition projectJWTSecretName :: "string \<Rightarrow> uuid \<Rightarrow> string" where
  "projectJWTSecretName environment projectID =
     ''elitegate/'' @ normalizeEnvironment environment @ ''/projects/'' @ projectID @ ''/jwt/hs256''"

record jwt_service =
  jv_env :: db_env
  jv_secrets :: "secret_manager option"
  jv_environment :: string

definition NewProjectJWTConfigService :: "db_env \<Rightarrow> secret_manager option \<Rightarrow> string \<Rightarrow> jwt_service" where
  "NewProjectJWTConfigService env secrets environment =
     \<lparr>jv_env = env, jv_secrets = secrets, jv_environment = normalizeEnvironment environment\<rparr>"

type_synonym jwt_world = "jwt_configs \<times> secret_call list"

definition JWTService_Get :: "jwt_service \<Rightarrow> uuid \<Rightarrow> jwt_configs \<Rightarrow> jwt_config_error + jwt_config" where
  "JWTService_Get s p t = (case JWTConfig_Get (jv_env s) p t of Inl e \<Rightarrow> Inl (JWTRepoFailed e) | Inr c \<Rightarrow> Inr c)"

text \<open>
  \<open>JWTService_create\<close>: the secret first, then the row; when the row cannot be stored, the secret is scheduled
  for deletion, and an error of that is only logged.
\<close>

definition obtainSecret :: "secret_manager \<Rightarrow> string \<Rightarrow> string \<Rightarrow> secret_call list \<Rightarrow> (manager_error + secret_reference) \<times> secret_call list" where
  "obtainSecret m name secret h =
     (case CreateSecret m name secret h of
        (Inl ErrSecretAlreadyExists, h1) \<Rightarrow> UpdateSecret m name secret (snd (RestoreSecret m name h1))
      | r \<Rightarrow> r)"

definition JWTService_create ::
  "jwt_service \<Rightarrow> secret_manager \<Rightarrow> tenant_context \<Rightarrow> jwt_input \<Rightarrow> jwt_world \<Rightarrow> (jwt_config_error + jwt_config) \<times> jwt_world" where
  "JWTService_create s m tc input w =
     (case w of (t, h) \<Rightarrow>
        if ji_Secret input = [] then (Inl ErrJWTSecretRequired, t, h)
        else
          (case obtainSecret m (projectJWTSecretName (jv_environment s) (tc_ProjectID tc)) (ji_Secret input) h of
             (Inl e, h1) \<Rightarrow> (Inl (JWTSecretFailed e), t, h1)
           | (Inr ref, h1) \<Rightarrow>
               (case JWTConfig_Upsert (jv_env s) tc
                       ((configFromInput input)\<lparr>jc_SecretARN := sr_ARN ref, jc_SecretVersionID := sr_VersionID ref\<rparr>) t of
                  (Inl e, t1) \<Rightarrow> (Inl (JWTRepoFailed e), t1, snd (DeleteSecret m (sr_ARN ref) h1))
                | (Inr cfg, t1) \<Rightarrow> (Inr cfg, t1, h1))))"

definition JWTService_update ::
  "jwt_service \<Rightarrow> secret_manager \<Rightarrow> tenant_context \<Rightarrow> jwt_config \<Rightarrow> jwt_input \<Rightarrow> jwt_world \<Rightarrow> (jwt_config_error + jwt_config) \<times> jwt_world" where
  "JWTService_update s m tc current input w =
     (case w of (t, h) \<Rightarrow>
        let new = (configFromInput input)\<lparr>jc_SecretARN := jc_SecretARN current, jc_SecretVersionID := jc_SecretVersionID current,
                    jc_ConfigVersion := jc_ConfigVersion current, jc_ProjectID := jc_ProjectID current,
                    jc_CreatedAt := jc_CreatedAt current, jc_CreatedBy := jc_CreatedBy current\<rparr>;
            secretChanged = (ji_Secret input \<noteq> []);
            store = (\<lambda>cfg h1. case JWTConfig_Upsert (jv_env s) tc cfg t of
                       (Inl e, t1) \<Rightarrow> (Inl (JWTRepoFailed e), t1, h1)
                     | (Inr c, t1) \<Rightarrow> (Inr c, t1, h1))
        in if \<not> secretChanged \<and> jwtConfigEquivalent current new then (Inr current, t, h)
           else if secretChanged then
             (case UpdateSecret m (jc_SecretARN current) (ji_Secret input) h of
                (Inl e, h1) \<Rightarrow> (Inl (JWTSecretFailed e), t, h1)
              | (Inr ref, h1) \<Rightarrow> store (new\<lparr>jc_SecretARN := sr_ARN ref, jc_SecretVersionID := sr_VersionID ref\<rparr>) h1)
           else store new h)"

definition JWTService_Configure ::
  "jwt_service \<Rightarrow> tenant_context \<Rightarrow> jwt_input \<Rightarrow> jwt_world \<Rightarrow> (jwt_config_error + jwt_config) \<times> jwt_world" where
  "JWTService_Configure s tc input w =
     (case jv_secrets s of
        None \<Rightarrow> (Inl JWTNotInitialized, w)
      | Some m \<Rightarrow>
          (case normalizeJWTConfigInput input of
             Inl e \<Rightarrow> (Inl e, w)
           | Inr normalized \<Rightarrow>
               (case JWTConfig_Get (jv_env s) (tc_ProjectID tc) (fst w) of
                  Inr current \<Rightarrow> JWTService_update s m tc current normalized w
                | Inl ErrProjectJWTConfigNotFound \<Rightarrow> JWTService_create s m tc normalized w
                | Inl e \<Rightarrow> (Inl (JWTRepoFailed e), w))))"

text \<open>The row goes first; when the secret cannot be scheduled for deletion, the row is put back by an upsert.\<close>

definition JWTService_Delete :: "jwt_service \<Rightarrow> tenant_context \<Rightarrow> jwt_world \<Rightarrow> jwt_config_error option \<times> jwt_world" where
  "JWTService_Delete s tc w =
     (case w of (t, h) \<Rightarrow>
        case jv_secrets s of
          None \<Rightarrow> (Some JWTNotInitialized, t, h)
        | Some m \<Rightarrow>
            (case JWTConfig_Get (jv_env s) (tc_ProjectID tc) t of
               Inl e \<Rightarrow> (Some (JWTRepoFailed e), t, h)
             | Inr current \<Rightarrow>
                 (case JWTConfig_Delete (jv_env s) (tc_ProjectID tc) t of
                    (Some e, t1) \<Rightarrow> (Some (JWTRepoFailed e), t1, h)
                  | (None, t1) \<Rightarrow>
                      (case DeleteSecret m (jc_SecretARN current) h of
                         (None, h1) \<Rightarrow> (None, t1, h1)
                       | (Some e, h1) \<Rightarrow> (Some (JWTSecretFailed e), snd (JWTConfig_Upsert (jv_env s) tc current t1), h1)))))"

section \<open>Handlers\<close>

text \<open>
  The request body decoded, or why it could not be: too large, or no valid JSON. The routes are scoped to
  the project, so that a tenant context is present.
\<close>

datatype jwt_body = BodyTooLarge | BodyInvalid | BodyOk jwt_input

record jwt_response =
  jr_Configured :: bool
  jr_SecretConfigured :: bool
  jr_Enabled :: bool
  jr_Algorithm :: string
  jr_ConfigVersion :: int
  jr_Issuer :: "string option"
  jr_Audiences :: "string list"
  jr_SubjectClaim :: string
  jr_RoleClaim :: string
  jr_ScopesClaim :: string
  jr_ClockSkewSeconds :: int
  jr_CreatedAt :: "go_time option"
  jr_UpdatedAt :: "go_time option"

definition projectJWTResponse :: "jwt_config option \<Rightarrow> jwt_response" where
  "projectJWTResponse cfgo =
     (case cfgo of
        None \<Rightarrow> \<lparr>jr_Configured = False, jr_SecretConfigured = False, jr_Enabled = False, jr_Algorithm = ''HS256'',
                 jr_ConfigVersion = 0, jr_Issuer = None, jr_Audiences = [], jr_SubjectClaim = ''sub'', jr_RoleClaim = ''role'',
                 jr_ScopesClaim = ''scope'', jr_ClockSkewSeconds = 30, jr_CreatedAt = None, jr_UpdatedAt = None\<rparr>
      | Some cfg \<Rightarrow> \<lparr>jr_Configured = True, jr_SecretConfigured = (jc_SecretARN cfg \<noteq> []), jr_Enabled = jc_Enabled cfg,
                 jr_Algorithm = jc_Algorithm cfg, jr_ConfigVersion = jc_ConfigVersion cfg, jr_Issuer = jc_Issuer cfg,
                 jr_Audiences = jc_Audiences cfg, jr_SubjectClaim = jc_SubjectClaim cfg, jr_RoleClaim = jc_RoleClaim cfg,
                 jr_ScopesClaim = jc_ScopesClaim cfg, jr_ClockSkewSeconds = jc_ClockSkewSeconds cfg,
                 jr_CreatedAt = (if jc_CreatedAt cfg = 0 then None else Some (jc_CreatedAt cfg)),
                 jr_UpdatedAt = (if jc_UpdatedAt cfg = 0 then None else Some (jc_UpdatedAt cfg))\<rparr>)"

definition JWTHandler_Get :: "jwt_service \<Rightarrow> tenant_context \<Rightarrow> jwt_configs \<Rightarrow> nat \<times> jwt_response option" where
  "JWTHandler_Get s tc t =
     (case JWTService_Get s (tc_ProjectID tc) t of
        Inl (JWTRepoFailed ErrProjectJWTConfigNotFound) \<Rightarrow> (200, Some (projectJWTResponse None))
      | Inl _ \<Rightarrow> (500, None)
      | Inr cfg \<Rightarrow> (200, Some (projectJWTResponse (Some cfg))))"

definition JWTHandler_Configure ::
  "jwt_service \<Rightarrow> tenant_context \<Rightarrow> jwt_body \<Rightarrow> jwt_world \<Rightarrow> (nat \<times> jwt_response option) \<times> jwt_world" where
  "JWTHandler_Configure s tc body w =
     (case body of
        BodyTooLarge \<Rightarrow> ((413, None), w)
      | BodyInvalid \<Rightarrow> ((400, None), w)
      | BodyOk req \<Rightarrow>
          (case JWTService_Configure s tc req w of
             (Inl e, w') \<Rightarrow>
               (((case e of ErrJWTSecretRequired \<Rightarrow> 400 | ErrJWTSecretTooShort \<Rightarrow> 400 | ErrJWTSecretTooLarge \<Rightarrow> 400
                    | ErrUnsupportedJWTAlgorithm \<Rightarrow> 400 | ErrInvalidJWTConfig _ \<Rightarrow> 400 | _ \<Rightarrow> 500), None), w')
           | (Inr cfg, w') \<Rightarrow> ((200, Some (projectJWTResponse (Some cfg))), w')))"

definition JWTHandler_Delete :: "jwt_service \<Rightarrow> tenant_context \<Rightarrow> jwt_world \<Rightarrow> nat \<times> jwt_world" where
  "JWTHandler_Delete s tc w =
     (case JWTService_Delete s tc w of
        (Some (JWTRepoFailed ErrProjectJWTConfigNotFound), w') \<Rightarrow> (404, w')
      | (Some _, w') \<Rightarrow> (500, w')
      | (None, w') \<Rightarrow> (204, w'))"

section \<open>To the gateways\<close>

definition projectJWTConfigToSync :: "jwt_config \<Rightarrow> string + project_jwt_config_sync" where
  "projectJWTConfigToSync cfg =
     (let result = \<lparr>pjc_Enabled = jc_Enabled cfg, pjc_Algorithm = jc_Algorithm cfg, pjc_SecretARN = [], pjc_SecretVersionID = [],
                    pjc_ConfigVersion = jc_ConfigVersion cfg, pjc_Issuer = jc_Issuer cfg, pjc_Audiences = jc_Audiences cfg,
                    pjc_SubjectClaim = jc_SubjectClaim cfg, pjc_RoleClaim = jc_RoleClaim cfg, pjc_ScopesClaim = jc_ScopesClaim cfg,
                    pjc_ClockSkewSeconds = jc_ClockSkewSeconds cfg\<rparr>
      in if \<not> jc_Enabled cfg then Inr result
         else if jc_SecretARN cfg = [] then Inl ''enabled JWT configuration is missing secret ARN''
         else if jc_SecretVersionID cfg = [] then Inl ''enabled JWT configuration is missing secret version''
         else Inr (result\<lparr>pjc_SecretARN := jc_SecretARN cfg, pjc_SecretVersionID := jc_SecretVersionID cfg\<rparr>))"

end
