(* ===== verification/JWT_Config_Runs.thy ===== *)
theory JWT_Config_Runs
  imports Project_JWT_Config
begin

text \<open>
  What runs of the project-JWT endpoints give: normalised settings, rows whose secrets can be read, and
  configurations the gateways can load. The theory holds the lemmas on \<open>Project_JWT_Config\<close> and its properties.
\<close>

section \<open>What normalisation gives\<close>

lemma normalizeAudiences_loop_Inr:
  assumes "normalizeAudiences_loop result vs = Inr r" "distinct result"
  shows "distinct r \<and> set r = set result \<union> (TrimSpace ` set vs - {[]})"
  using assms by (induction result vs rule: normalizeAudiences_loop.induct) (auto simp: Let_def split: if_splits)

lemma normalizeAudiences_loop_total:
  "(\<exists>r. normalizeAudiences_loop result vs = Inr r) \<longleftrightarrow> (\<forall>v \<in> set vs. length (TrimSpace v) \<le> 512)"
  by (induction result vs rule: normalizeAudiences_loop.induct) (auto simp: Let_def not_le)

lemma normalizeAudiences_Inr:
  assumes "normalizeAudiences vs = Inr r"
  shows "sorted r \<and> distinct r \<and> set r = TrimSpace ` set vs - {[]} \<and> length vs \<le> 20 \<and> (\<forall>v \<in> set vs. length (TrimSpace v) \<le> 512)"
proof -
  obtain l where l: "length vs \<le> 20" "normalizeAudiences_loop [] vs = Inr l" "r = sort l"
    using assms by (auto simp: normalizeAudiences_def split: if_splits sum.splits)
  have "distinct l \<and> set l = TrimSpace ` set vs - {[]}" using normalizeAudiences_loop_Inr [OF l(2)] by simp
  moreover have "\<forall>v \<in> set vs. length (TrimSpace v) \<le> 512" using normalizeAudiences_loop_total l(2) by blast
  ultimately show ?thesis using l(1,3) by simp
qed

text \<open>The result depends on the set of audiences only.\<close>

lemma normalizeAudiences_set:
  assumes "normalizeAudiences vs = Inr r" "set vs' = set vs" "length vs' \<le> 20"
  shows "normalizeAudiences vs' = Inr r"
proof -
  note r = normalizeAudiences_Inr [OF assms(1)]
  obtain l where l: "normalizeAudiences_loop [] vs' = Inr l"
    using normalizeAudiences_loop_total [of "[]" vs'] r assms(2) by auto
  then have "distinct l" "set l = set r" using normalizeAudiences_loop_Inr [OF l] r assms(2) by simp_all
  then have "sort l = r" using r by (intro sorted_distinct_set_unique) simp_all
  then show ?thesis using l assms(3) by (simp add: normalizeAudiences_def)
qed

definition good_input :: "jwt_input \<Rightarrow> bool" where
  "good_input i \<longleftrightarrow>
     ji_Algorithm i = ''HS256'' \<and> (ji_Secret i = [] \<or> 32 \<le> length (ji_Secret i) \<and> length (ji_Secret i) \<le> 4096)
     \<and> ji_SubjectClaim i \<noteq> [] \<and> ji_RoleClaim i \<noteq> [] \<and> ji_ScopesClaim i \<noteq> []
     \<and> sorted (ji_Audiences i) \<and> distinct (ji_Audiences i)
     \<and> (\<forall>n. ji_ClockSkewSeconds i = Some n \<longrightarrow> 0 \<le> n \<and> n \<le> 300)"

lemma validateClaimName_None: "validateClaimName v = None \<Longrightarrow> v \<noteq> []"
  by (auto simp: validateClaimName_def)

lemma validateSecret_None: "validateSecret s = None \<Longrightarrow> s = [] \<or> 32 \<le> length s \<and> length s \<le> 4096"
  by (auto simp: validateSecret_def split: if_splits)

lemma normalize_Inr:
  assumes "normalizeJWTConfigInput input = Inr i"
  shows "good_input i \<and> ji_Secret i = ji_Secret input \<and> ji_Enabled i = ji_Enabled input"
proof -
  obtain issuer audiences where n: "validateSecret (ji_Secret input) = None"
      "validateClaimName (defaultClaimName (ji_SubjectClaim input) ''sub'') = None"
      "validateClaimName (defaultClaimName (ji_RoleClaim input) ''role'') = None"
      "validateClaimName (defaultClaimName (ji_ScopesClaim input) ''scope'') = None"
      "normalizeAudiences (ji_Audiences input) = Inr audiences"
      "\<forall>n. ji_ClockSkewSeconds input = Some n \<longrightarrow> 0 \<le> n \<and> n \<le> 300"
    and i: "i = input\<lparr>ji_Algorithm := ''HS256'', ji_SubjectClaim := defaultClaimName (ji_SubjectClaim input) ''sub'',
      ji_RoleClaim := defaultClaimName (ji_RoleClaim input) ''role'', ji_ScopesClaim := defaultClaimName (ji_ScopesClaim input) ''scope'',
      ji_Issuer := issuer, ji_Audiences := audiences\<rparr>"
    using assms by (auto simp: normalizeJWTConfigInput_def Let_def not_less split: if_splits option.splits sum.splits)
  show ?thesis
    using validateSecret_None [OF n(1)] validateClaimName_None [OF n(2)] validateClaimName_None [OF n(3)]
      validateClaimName_None [OF n(4)] normalizeAudiences_Inr [OF n(5)] n(6)
    by (simp add: i good_input_def)
qed

section \<open>Rows and secrets stay in step\<close>

text \<open>
  What the calls made so far leave readable: a version of a secret that AWS said it stored, and whose secret
  has not been deleted since.
\<close>

fun stores :: "string \<Rightarrow> string \<Rightarrow> string \<Rightarrow> secret_call \<Rightarrow> bool" where
  "stores arn version secret (CreateSecretCall _ x (Inr (a, v))) \<longleftrightarrow>
     x = secret \<and> TrimSpace (ToString a) = arn \<and> TrimSpace (ToString v) = version"
| "stores arn version secret (PutSecretValueCall _ x (Inr (a, v))) \<longleftrightarrow>
     x = secret \<and> TrimSpace (ToString a) = arn \<and> TrimSpace (ToString v) = version"
| "stores arn version secret _ \<longleftrightarrow> False"

fun deletes :: "string \<Rightarrow> secret_call \<Rightarrow> bool" where
  "deletes arn (DeleteSecretCall d None) \<longleftrightarrow> d = arn"
| "deletes arn (DeleteSecretCall d (Some (ResourceNotFound _))) \<longleftrightarrow> d = arn"
| "deletes arn _ \<longleftrightarrow> False"

definition secret_live :: "secret_call list \<Rightarrow> string \<Rightarrow> string \<Rightarrow> string \<Rightarrow> bool" where
  "secret_live h arn version secret =
     foldl (\<lambda>live call. stores arn version secret call \<or> live \<and> \<not> deletes arn call) False h"

lemma secret_live_snoc [simp]:
  "secret_live (h @ [call]) arn version secret \<longleftrightarrow>
     stores arn version secret call \<or> secret_live h arn version secret \<and> \<not> deletes arn call"
  by (simp add: secret_live_def)

definition keeps_live :: "(string \<Rightarrow> bool) \<Rightarrow> secret_call list \<Rightarrow> secret_call list \<Rightarrow> bool" where
  "keeps_live P h h' \<longleftrightarrow> (\<forall>arn v s. P arn \<longrightarrow> secret_live h arn v s \<longrightarrow> secret_live h' arn v s)"

abbreviation "all_live \<equiv> keeps_live (\<lambda>_. True)"

lemma keeps_live_refl [simp]: "keeps_live P h h"
  by (simp add: keeps_live_def)

lemma keeps_live_trans: "keeps_live P h h1 \<Longrightarrow> keeps_live P h1 h2 \<Longrightarrow> keeps_live P h h2"
  by (simp add: keeps_live_def)

lemma keeps_live_mono: "keeps_live P h h' \<Longrightarrow> (\<And>arn. Q arn \<Longrightarrow> P arn) \<Longrightarrow> keeps_live Q h h'"
  by (simp add: keeps_live_def)

text \<open>
  AWS gives a secret one ARN for its life: \<open>owner\<close> says which secret a name or an ARN designates, a call
  answers with the ARN of the secret it was asked for, and different names designate different secrets.
\<close>

definition arn_names :: "(string \<Rightarrow> string) \<Rightarrow> secret_sdk \<Rightarrow> bool" where
  "arn_names owner sdk \<longleftrightarrow>
     (\<forall>h n x a v. sk_CreateSecret sdk h n x = Inr (Some a, v) \<longrightarrow> owner (TrimSpace a) = owner n) \<and>
     (\<forall>h n x a v. sk_PutSecretValue sdk h n x = Inr (Some a, v) \<longrightarrow> owner (TrimSpace a) = owner n) \<and>
     (\<forall>n n'. HasPrefix n ''elitegate/'' \<longrightarrow> HasPrefix n' ''elitegate/'' \<longrightarrow> owner n = owner n' \<longrightarrow> n = n')"

text \<open>
  After the calls \<open>h\<close>, every version that was stored can be read as long as its secret is not deleted: AWS
  gives each value that is put a version identifier of its own.
\<close>

definition versions_readable :: "secret_sdk \<Rightarrow> secret_call list \<Rightarrow> bool" where
  "versions_readable sdk h \<longleftrightarrow>
     (\<forall>arn v s. secret_live h arn v s \<longrightarrow> sk_GetSecretValue sdk h arn (Some v) = Inr (Some s))"

definition good_ref :: "(string \<Rightarrow> string) \<Rightarrow> string \<Rightarrow> secret_call list \<Rightarrow> string \<Rightarrow> string \<Rightarrow> bool" where
  "good_ref owner name h arn version \<longleftrightarrow>
     arn \<noteq> [] \<and> version \<noteq> [] \<and> TrimSpace arn = arn \<and> TrimSpace version = version \<and> owner arn = owner name
     \<and> (\<exists>secret. secret_live h arn version secret \<and> 32 \<le> length secret)"

lemma good_ref_live: "good_ref owner name h arn v \<Longrightarrow> keeps_live P h h' \<Longrightarrow> P arn \<Longrightarrow> good_ref owner name h' arn v"
  by (auto simp: good_ref_def keeps_live_def)

lemma secretReference_Inr:
  "secretReference a v = Inr ref \<longleftrightarrow> sr_ARN ref \<noteq> [] \<and> sr_VersionID ref \<noteq> []
     \<and> sr_ARN ref = TrimSpace (ToString a) \<and> sr_VersionID ref = TrimSpace (ToString v)"
  by (cases ref) (auto simp: secretReference_def Let_def)

lemma good_refI:
  assumes "secretReference a v = Inr ref" "stores (TrimSpace (ToString a)) (TrimSpace (ToString v)) secret call"
    and "32 \<le> length secret" "owner (TrimSpace (ToString a)) = owner name"
  shows "good_ref owner name (h @ [call]) (sr_ARN ref) (sr_VersionID ref)"
  using assms by (auto simp: good_ref_def secretReference_Inr)

text \<open>
  What storing a secret gives: nothing is deleted, and on success a reference to it that belongs to the
  name it was stored for.
\<close>

definition stored_for :: "(string \<Rightarrow> string) \<Rightarrow> string \<Rightarrow> string \<Rightarrow> secret_call list \<Rightarrow> (manager_error + secret_reference) \<times> secret_call list \<Rightarrow> bool" where
  "stored_for owner name secret h res \<longleftrightarrow>
     all_live h (snd res) \<and>
     (\<forall>ref. fst res = Inr ref \<longrightarrow> 32 \<le> length secret \<longrightarrow> good_ref owner name (snd res) (sr_ARN ref) (sr_VersionID ref))"

lemma stored_for_call:
  assumes "\<And>arn. \<not> deletes arn call"
    and "\<And>ref. r = Inr ref \<Longrightarrow> \<exists>a v. secretReference a v = Inr ref
           \<and> stores (TrimSpace (ToString a)) (TrimSpace (ToString v)) secret call \<and> owner (TrimSpace (ToString a)) = owner name"
  shows "stored_for owner name secret h (r, h @ [call])"
  using assms(1) by (auto simp: stored_for_def keeps_live_def dest!: assms(2) intro: good_refI)

lemma stored_for_none: "stored_for owner name secret h (Inl e, h)"
  by (simp add: stored_for_def)

lemma arn_of_reference:
  assumes "secretReference a v = Inr ref" obtains x where "a = Some x"
  using assms by (cases a) (auto simp: secretReference_def ToString_def Let_def)

lemma CreateSecret_stored:
  assumes "arn_names owner sdk" "TrimSpace name = name"
  shows "stored_for owner name secret h (CreateSecret (Some sdk) name secret h)"
proof -
  have *: "owner (TrimSpace (ToString a)) = owner name"
    if "sk_CreateSecret sdk h name secret = Inr (a, v)" "secretReference a v = Inr ref" for a v ref
    using that assms(1) by (elim arn_of_reference) (simp add: arn_names_def ToString_def, blast)
  show ?thesis
    by (auto simp: CreateSecret_def Let_def assms(2) intro!: stored_for_none stored_for_call
        split: sum.splits secret_error.splits) (use * in \<open>auto intro!: exI\<close>)
qed

lemma UpdateSecret_stored:
  assumes "arn_names owner sdk" "TrimSpace ident = ident" "owner ident = owner name"
  shows "stored_for owner name secret h (UpdateSecret (Some sdk) ident secret h)"
proof -
  have *: "owner (TrimSpace (ToString a)) = owner name"
    if "sk_PutSecretValue sdk h ident secret = Inr (a, v)" "secretReference a v = Inr ref" for a v ref
  proof -
    note put = that
    obtain x where "a = Some x" using put(2) by (rule arn_of_reference)
    moreover have "owner (TrimSpace x) = owner ident" using put(1) assms(1) calculation unfolding arn_names_def by blast
    ultimately show ?thesis using assms(3) by (simp add: ToString_def)
  qed
  show ?thesis
    by (auto simp: UpdateSecret_def Let_def assms(2) intro!: stored_for_none stored_for_call
        split: sum.splits secret_error.splits) (use * in \<open>auto intro!: exI\<close>)
qed

lemma RestoreSecret_live: "all_live h (snd (RestoreSecret m ident h))"
  by (auto simp: RestoreSecret_def Let_def keeps_live_def split: option.splits)

lemma DeleteSecret_live: "keeps_live (\<lambda>arn. arn \<noteq> TrimSpace ident) h (snd (DeleteSecret m ident h))"
  by (auto simp: DeleteSecret_def Let_def keeps_live_def split: option.splits secret_error.splits)

lemma DeleteSecret_failed: "fst (DeleteSecret m ident h) \<noteq> None \<Longrightarrow> all_live h (snd (DeleteSecret m ident h))"
  by (auto simp: DeleteSecret_def Let_def keeps_live_def split: option.splits secret_error.splits if_splits)

lemma stored_for_trans: "all_live h h1 \<Longrightarrow> stored_for owner name secret h1 res \<Longrightarrow> stored_for owner name secret h res"
  by (auto simp: stored_for_def intro: keeps_live_trans)

lemma obtainSecret_stored:
  assumes "arn_names owner sdk" "TrimSpace name = name"
  shows "stored_for owner name secret h (obtainSecret (Some sdk) name secret h)"
proof -
  obtain r1 h1 where c: "CreateSecret (Some sdk) name secret h = (r1, h1)" by fastforce
  have c': "stored_for owner name secret h (r1, h1)" using CreateSecret_stored [OF assms] c by metis
  show ?thesis
  proof (cases "r1 = Inl ErrSecretAlreadyExists")
    case True
    then have "all_live h (snd (RestoreSecret (Some sdk) name h1))"
      using c' RestoreSecret_live by (auto simp: stored_for_def intro: keeps_live_trans)
    then show ?thesis
      using stored_for_trans [OF _ UpdateSecret_stored [OF assms refl]] True c by (simp add: obtainSecret_def)
  next
    case False
    then have "obtainSecret (Some sdk) name secret h = (r1, h1)"
      using c by (auto simp: obtainSecret_def split: sum.splits manager_error.splits)
    then show ?thesis using c' by simp
  qed
qed

text \<open>The name of a project's secret has no blanks around it, and tells the projects apart.\<close>

lemma projectJWTSecretName_trim [simp]: "TrimSpace (projectJWTSecretName e p) = projectJWTSecretName e p"
  unfolding TrimSpace_def by (rule trimBy_id) (simp add: projectJWTSecretName_def isSpace_def)

lemma projectJWTSecretName_inj:
  assumes "arn_names owner sdk"
  shows "owner (projectJWTSecretName e p) = owner (projectJWTSecretName e q) \<longleftrightarrow> p = q"
proof -
  have "HasPrefix (projectJWTSecretName e r) ''elitegate/''" for r by (simp add: projectJWTSecretName_def)
  then have "owner (projectJWTSecretName e p) = owner (projectJWTSecretName e q) \<longleftrightarrow>
      projectJWTSecretName e p = projectJWTSecretName e q"
    using assms unfolding arn_names_def by metis
  then show ?thesis by (simp add: projectJWTSecretName_def)
qed

section \<open>The invariant\<close>

definition good_row :: "(string \<Rightarrow> string) \<Rightarrow> string \<Rightarrow> secret_call list \<Rightarrow> jwt_config \<Rightarrow> bool" where
  "good_row owner e h c \<longleftrightarrow>
     jc_Algorithm c = ''HS256'' \<and> jc_SubjectClaim c \<noteq> [] \<and> jc_RoleClaim c \<noteq> [] \<and> jc_ScopesClaim c \<noteq> []
     \<and> good_ref owner (projectJWTSecretName e (jc_ProjectID c)) h (jc_SecretARN c) (jc_SecretVersionID c)"

definition jwt_ok :: "(string \<Rightarrow> string) \<Rightarrow> string \<Rightarrow> jwt_world \<Rightarrow> bool" where
  "jwt_ok owner e w \<longleftrightarrow> (\<forall>c \<in> set (fst w). good_row owner e (snd w) c)"

lemma good_row_live: "good_row owner e h c \<Longrightarrow> keeps_live P h h' \<Longrightarrow> P (jc_SecretARN c) \<Longrightarrow> good_row owner e h' c"
  by (auto simp: good_row_def intro: good_ref_live)

lemma jwt_ok_live: "jwt_ok owner e (t, h) \<Longrightarrow> all_live h h' \<Longrightarrow> jwt_ok owner e (t, h')"
  by (auto simp: jwt_ok_def intro: good_row_live)

lemma good_row_project: "good_row owner e h c \<Longrightarrow> owner (jc_SecretARN c) = owner (projectJWTSecretName e (jc_ProjectID c))"
  by (simp add: good_row_def good_ref_def)

lemma JWTConfig_Upsert_ok:
  assumes "jwt_ok owner e (t, h)" "good_row owner e h (cfg\<lparr>jc_ProjectID := tc_ProjectID tc\<rparr>)"
  shows "jwt_ok owner e (snd (JWTConfig_Upsert env tc cfg t), h)"
proof -
  have "good_row owner e h (upsert_insert env tc cfg)" using assms(2) by (simp add: good_row_def upsert_insert_def)
  moreover have "good_row owner e h (upsert_update env tc cfg r)" if "jc_ProjectID r = tc_ProjectID tc" for r
    using assms(2) that by (simp add: good_row_def upsert_update_def)
  ultimately show ?thesis
    using assms(1) by (auto simp: JWTConfig_Upsert_def jwt_ok_def in_sql_update split: option.splits)
qed

text \<open>One service: its secrets, the name of its environment, and the law of the secrets' ARNs.\<close>

lemma good_row_of_input:
  assumes "good_input i" "good_ref owner (projectJWTSecretName e (jc_ProjectID c)) h (jc_SecretARN c) (jc_SecretVersionID c)"
    and "jc_Algorithm c = ji_Algorithm i" "jc_SubjectClaim c = ji_SubjectClaim i" "jc_RoleClaim c = ji_RoleClaim i"
      "jc_ScopesClaim c = ji_ScopesClaim i"
  shows "good_row owner e h c"
  using assms by (simp add: good_row_def good_input_def)

lemma configFromInput_simps [simp]:
  "jc_Algorithm (configFromInput i) = ji_Algorithm i" "jc_SubjectClaim (configFromInput i) = ji_SubjectClaim i"
  "jc_RoleClaim (configFromInput i) = ji_RoleClaim i" "jc_ScopesClaim (configFromInput i) = ji_ScopesClaim i"
  by (simp_all add: configFromInput_def)

lemma JWTConfig_Get_Inr:
  "JWTConfig_Get env p t = Inr c \<Longrightarrow> c \<in> set t \<and> jc_ProjectID c = p"
  by (auto simp: JWTConfig_Get_def find_Some_iff split: option.splits)

lemma JWTConfig_Get_NotFound:
  "JWTConfig_Get env p t = Inl ErrProjectJWTConfigNotFound \<Longrightarrow> c \<in> set t \<Longrightarrow> jc_ProjectID c \<noteq> p"
  by (auto simp: JWTConfig_Get_def find_None_iff split: option.splits)

lemma JWTConfig_Upsert_failed: "fst (JWTConfig_Upsert env tc cfg t) = Inl e \<Longrightarrow> snd (JWTConfig_Upsert env tc cfg t) = t"
  by (auto simp: JWTConfig_Upsert_def split: option.splits if_splits)

text \<open>Deleting the secret of one project leaves the rows of the others intact.\<close>

lemma jwt_ok_DeleteSecret:
  assumes "arn_names owner sdk" "jwt_ok owner e (t, h)" "\<And>c. c \<in> set t \<Longrightarrow> jc_ProjectID c \<noteq> p"
    and "TrimSpace arn = arn" "owner arn = owner (projectJWTSecretName e p)"
  shows "jwt_ok owner e (t, snd (DeleteSecret m arn h))"
proof -
  have "jc_SecretARN c \<noteq> arn" if "c \<in> set t" for c
    using good_row_project [of owner e h c] assms(2,5) assms(3) [OF that] that projectJWTSecretName_inj [OF assms(1)]
    by (auto simp: jwt_ok_def)
  then show ?thesis
    using assms(2) good_row_live [OF _ DeleteSecret_live] by (auto simp: jwt_ok_def assms(4))
qed

lemma JWTService_create_ok:
  assumes "arn_names owner sdk" "jwt_ok owner (jv_environment s) (t, h)" "good_input i"
    and "\<And>c. c \<in> set t \<Longrightarrow> jc_ProjectID c \<noteq> tc_ProjectID tc"
  shows "jwt_ok owner (jv_environment s) (snd (JWTService_create s (Some sdk) tc i (t, h)))"
proof (cases "ji_Secret i = []")
  case True
  then show ?thesis using assms(2) by (simp add: JWTService_create_def)
next
  case False
  then have len: "32 \<le> length (ji_Secret i)" using assms(3) by (simp add: good_input_def)
  define name where "name = projectJWTSecretName (jv_environment s) (tc_ProjectID tc)"
  obtain r h1 where o: "obtainSecret (Some sdk) name (ji_Secret i) h = (r, h1)" by fastforce
  have st: "stored_for owner name (ji_Secret i) h (r, h1)"
    using obtainSecret_stored [OF assms(1), of name "ji_Secret i" h] by (simp add: o name_def [symmetric]) (simp add: name_def)
  then have ok1: "jwt_ok owner (jv_environment s) (t, h1)" using assms(2) jwt_ok_live by (auto simp: stored_for_def)
  show ?thesis
  proof (cases r)
    case (Inl e)
    then show ?thesis using ok1 o False by (simp add: JWTService_create_def name_def [symmetric])
  next
    case (Inr ref)
    define cfg where "cfg = (configFromInput i)\<lparr>jc_SecretARN := sr_ARN ref, jc_SecretVersionID := sr_VersionID ref\<rparr>"
    have ref: "good_ref owner name h1 (sr_ARN ref) (sr_VersionID ref)" using st len Inr by (simp add: stored_for_def)
    then have up: "jwt_ok owner (jv_environment s) (snd (JWTConfig_Upsert (jv_env s) tc cfg t), h1)"
      by (intro JWTConfig_Upsert_ok ok1 good_row_of_input [OF assms(3)]) (simp_all add: cfg_def name_def)
    obtain res t1 where u: "JWTConfig_Upsert (jv_env s) tc cfg t = (res, t1)" by fastforce
    have "jwt_ok owner (jv_environment s) (t, snd (DeleteSecret (Some sdk) (sr_ARN ref) h1))"
      using ref by (intro jwt_ok_DeleteSecret [OF assms(1) ok1 assms(4)]) (simp_all add: good_ref_def name_def)
    then show ?thesis
      using up False o Inr u JWTConfig_Upsert_failed [of "jv_env s" tc cfg t]
      by (cases res) (simp_all add: JWTService_create_def name_def [symmetric] cfg_def [symmetric])
  qed
qed

lemma JWTService_update_ok:
  assumes "arn_names owner sdk" "jwt_ok owner (jv_environment s) (t, h)" "good_input i"
    and "current \<in> set t" "jc_ProjectID current = tc_ProjectID tc"
  shows "jwt_ok owner (jv_environment s) (snd (JWTService_update s (Some sdk) tc current i (t, h)))"
proof -
  define name where "name = projectJWTSecretName (jv_environment s) (tc_ProjectID tc)"
  define new where "new = (configFromInput i)\<lparr>jc_SecretARN := jc_SecretARN current, jc_SecretVersionID := jc_SecretVersionID current,
    jc_ConfigVersion := jc_ConfigVersion current, jc_ProjectID := jc_ProjectID current,
    jc_CreatedAt := jc_CreatedAt current, jc_CreatedBy := jc_CreatedBy current\<rparr>"
  have ref: "good_ref owner name h (jc_SecretARN current) (jc_SecretVersionID current)"
    using assms(2,4,5) by (auto simp: jwt_ok_def good_row_def name_def)
  obtain r h1 where o: "UpdateSecret (Some sdk) (jc_SecretARN current) (ji_Secret i) h = (r, h1)" by fastforce
  have st: "stored_for owner name (ji_Secret i) h (r, h1)"
    using UpdateSecret_stored [OF assms(1), of "jc_SecretARN current" name "ji_Secret i" h] ref o by (simp add: good_ref_def)
  then have ok1: "jwt_ok owner (jv_environment s) (t, h1)" using assms(2) jwt_ok_live by (auto simp: stored_for_def)
  have rotated: "jwt_ok owner (jv_environment s)
      (snd (JWTConfig_Upsert (jv_env s) tc (new\<lparr>jc_SecretARN := sr_ARN ref', jc_SecretVersionID := sr_VersionID ref'\<rparr>) t), h1)"
    if "r = Inr ref'" "ji_Secret i \<noteq> []" for ref'
    using st that assms(3)
    by (intro JWTConfig_Upsert_ok ok1 good_row_of_input [OF assms(3)])
      (simp_all add: new_def name_def stored_for_def good_input_def)
  have same: "jwt_ok owner (jv_environment s) (snd (JWTConfig_Upsert (jv_env s) tc new t), h)"
    using ref by (intro JWTConfig_Upsert_ok assms(2) good_row_of_input [OF assms(3)]) (simp_all add: new_def name_def)
  show ?thesis
    using rotated same ok1 assms(2)
    by (cases r) (auto simp: JWTService_update_def new_def [symmetric] o Let_def split: prod.splits sum.splits)
qed

lemma JWTService_Delete_ok:
  assumes "arn_names owner sdk" "jwt_ok owner (jv_environment s) (t, h)" "jv_secrets s = Some (Some sdk)"
  shows "jwt_ok owner (jv_environment s) (snd (JWTService_Delete s tc (t, h)))"
proof (cases "JWTConfig_Get (jv_env s) (tc_ProjectID tc) t")
  case (Inl e)
  then show ?thesis using assms by (simp add: JWTService_Delete_def)
next
  case (Inr current)
  note cur = JWTConfig_Get_Inr [OF Inr]
  have row: "good_row owner (jv_environment s) h current" using cur assms(2) by (auto simp: jwt_ok_def)
  obtain x t1 where d: "JWTConfig_Delete (jv_env s) (tc_ProjectID tc) t = (x, t1)" by fastforce
  obtain y h1 where a: "DeleteSecret (Some sdk) (jc_SecretARN current) h = (y, h1)" by fastforce
  have t1: "jwt_ok owner (jv_environment s) (t1, h)" "x = None \<Longrightarrow> c \<in> set t1 \<Longrightarrow> jc_ProjectID c \<noteq> tc_ProjectID tc" for c
    using d assms(2) by (auto simp: JWTConfig_Delete_def jwt_ok_def split: option.splits if_splits)
  have gone: "jwt_ok owner (jv_environment s) (t1, h1)" if "x = None"
    using jwt_ok_DeleteSecret [OF assms(1) t1(1) t1(2) [OF that], of "jc_SecretARN current" "Some sdk"] row cur a
    by (simp add: good_row_def good_ref_def)
  have undone: "jwt_ok owner (jv_environment s) (snd (JWTConfig_Upsert (jv_env s) tc current t1), h1)" if "y \<noteq> None"
  proof -
    have live: "all_live h h1" using DeleteSecret_failed [of "Some sdk" "jc_SecretARN current" h] a that by simp
    then have "good_row owner (jv_environment s) h1 (current\<lparr>jc_ProjectID := tc_ProjectID tc\<rparr>)"
      using good_row_live [OF row live] cur by (cases current) simp
    then show ?thesis using jwt_ok_live [OF t1(1) live] by (intro JWTConfig_Upsert_ok)
  qed
  show ?thesis
    using assms(3) Inr d a t1(1) gone undone
    by (cases x; cases y) (simp_all add: JWTService_Delete_def)
qed

section \<open>Runs of the API\<close>

text \<open>Requests of any projects, each with the database's behaviour at its time.\<close>

datatype jwt_request = JWTConfigure tenant_context jwt_body | JWTDelete tenant_context

definition jwt_serve :: "jwt_service \<Rightarrow> db_env \<times> jwt_request \<Rightarrow> jwt_world \<Rightarrow> jwt_world" where
  "jwt_serve s req w =
     (case req of
        (env, JWTConfigure tc body) \<Rightarrow> snd (JWTHandler_Configure (s\<lparr>jv_env := env\<rparr>) tc body w)
      | (env, JWTDelete tc) \<Rightarrow> snd (JWTHandler_Delete (s\<lparr>jv_env := env\<rparr>) tc w))"

definition jwt_run :: "jwt_service \<Rightarrow> (db_env \<times> jwt_request) list \<Rightarrow> jwt_world" where
  "jwt_run s reqs = fold (jwt_serve s) reqs ([], [])"

lemma JWTHandler_Configure_snd:
  "snd (JWTHandler_Configure s tc body w) = (case body of BodyOk req \<Rightarrow> snd (JWTService_Configure s tc req w) | _ \<Rightarrow> w)"
  by (auto simp: JWTHandler_Configure_def split: jwt_body.splits sum.splits prod.splits)

lemma JWTHandler_Delete_snd: "snd (JWTHandler_Delete s tc w) = snd (JWTService_Delete s tc w)"
  by (auto simp: JWTHandler_Delete_def split: prod.splits option.splits jwt_config_error.splits jwt_repo_error.splits)

lemma JWTService_Configure_ok:
  assumes "arn_names owner sdk" "jwt_ok owner (jv_environment s) w" "jv_secrets s = Some (Some sdk)"
  shows "jwt_ok owner (jv_environment s) (snd (JWTService_Configure s tc i w))"
proof -
  obtain t h where w: "w = (t, h)" by fastforce
  show ?thesis
  proof (cases "normalizeJWTConfigInput i")
    case (Inl e)
    then show ?thesis using assms by (simp add: JWTService_Configure_def)
  next
    case (Inr n)
    then have n: "good_input n" using normalize_Inr by blast
    show ?thesis
    proof (cases "JWTConfig_Get (jv_env s) (tc_ProjectID tc) t")
      case g: (Inr c)
      then show ?thesis
        using JWTService_update_ok [OF assms(1) _ n, of s t h c tc] JWTConfig_Get_Inr [OF g] assms(2,3) w Inr
        by (simp add: JWTService_Configure_def)
    next
      case g: (Inl e)
      then show ?thesis
        using JWTService_create_ok [OF assms(1) _ n, of s t h tc] JWTConfig_Get_NotFound [of "jv_env s" "tc_ProjectID tc" t]
          assms(2,3) w Inr
        by (cases e) (simp_all add: JWTService_Configure_def)
    qed
  qed
qed

lemma jwt_serve_ok:
  assumes "arn_names owner sdk" "jv_secrets s = Some (Some sdk)" "jwt_ok owner (jv_environment s) w"
  shows "jwt_ok owner (jv_environment s) (jwt_serve s req w)"
  using JWTService_Configure_ok [OF assms(1), of "s\<lparr>jv_env := fst req\<rparr>"] JWTService_Delete_ok [OF assms(1), of "s\<lparr>jv_env := fst req\<rparr>"] assms(2,3)
  by (cases w) (auto simp: jwt_serve_def JWTHandler_Configure_snd JWTHandler_Delete_snd split: prod.splits jwt_request.splits jwt_body.splits)

lemma jwt_run_ok:
  assumes "arn_names owner sdk" "jv_secrets s = Some (Some sdk)"
  shows "jwt_ok owner (jv_environment s) (jwt_run s reqs)"
proof -
  have "jwt_ok owner (jv_environment s) (fold (jwt_serve s) reqs w)" if "jwt_ok owner (jv_environment s) w" for w
    using that by (induction reqs arbitrary: w) (simp_all add: jwt_serve_ok [OF assms])
  then show ?thesis by (simp add: jwt_run_def jwt_ok_def)
qed

lemma good_row_loads:
  assumes "good_row owner e h c" "jc_Enabled c" "versions_readable sdk h"
  obtains cfg secret where "projectJWTConfigToSync c = Inr cfg" "secret_live h (jc_SecretARN c) (jc_SecretVersionID c) secret"
    "32 \<le> length secret"
    "Apply (Some (GetSecret (Some sdk) h)) (Some cfg) None =
       \<lparr>ap_error = None, ap_state = Some (activeState cfg \<lparr>ve_secret = secret, ve_config = projectJWTVerifierConfig cfg\<rparr>),
        ap_calls = [(jc_SecretARN c, jc_SecretVersionID c)]\<rparr>"
proof -
  obtain secret where r: "jc_SecretARN c \<noteq> []" "jc_SecretVersionID c \<noteq> []" "TrimSpace (jc_SecretARN c) = jc_SecretARN c"
      "TrimSpace (jc_SecretVersionID c) = jc_SecretVersionID c" "32 \<le> length secret"
      "secret_live h (jc_SecretARN c) (jc_SecretVersionID c) secret"
    using assms(1) by (auto simp: good_row_def good_ref_def)
  then have "GetSecret (Some sdk) h (jc_SecretARN c) (jc_SecretVersionID c) = Inr secret"
    using assms(3) by (auto simp: GetSecret_def versions_readable_def Let_def)
  then have "\<exists>cfg. projectJWTConfigToSync c = Inr cfg \<and>
    Apply (Some (GetSecret (Some sdk) h)) (Some cfg) None =
       \<lparr>ap_error = None, ap_state = Some (activeState cfg \<lparr>ve_secret = secret, ve_config = projectJWTVerifierConfig cfg\<rparr>),
        ap_calls = [(jc_SecretARN c, jc_SecretVersionID c)]\<rparr>"
    using r assms(1,2)
    by (simp add: projectJWTConfigToSync_def Let_def Apply_def reusable_def NewProjectJWTVerifier_def
        projectJWTVerifierConfig_def good_row_def)
  then show thesis using that r(5,6) by blast
qed

section \<open>Configurations reach the gateways\<close>

text \<open>
  A service that keeps every value it is given, under the name itself and a version that counts the calls.
\<close>

fun recorded :: "secret_call list \<Rightarrow> string \<Rightarrow> string option \<Rightarrow> string option" where
  "recorded [] arn v = None"
| "recorded (CreateSecretCall _ x (Inr (a, w)) # h) arn v = (if a = Some arn \<and> w = v then Some x else recorded h arn v)"
| "recorded (PutSecretValueCall _ x (Inr (a, w)) # h) arn v = (if a = Some arn \<and> w = v then Some x else recorded h arn v)"
| "recorded (_ # h) arn v = recorded h arn v"

definition keeping_sdk :: "secret_error option \<Rightarrow> secret_sdk" where
  "keeping_sdk on_delete =
     (let answer = (\<lambda>h n x. if TrimSpace n = n then Inr (Some n, Some (CHR ''v'' # showNat (length h))) else Inl (OtherSecretError ''name''))
      in \<lparr>sk_CreateSecret = answer, sk_PutSecretValue = answer,
          sk_GetSecretValue = (\<lambda>h n v. Inr (recorded h n v)), sk_DeleteSecret = (\<lambda>h n. on_delete), sk_RestoreSecret = (\<lambda>h n. None)\<rparr>)"

lemma keeping_sdk_names: "arn_names (\<lambda>n. n) (keeping_sdk d)"
  by (auto simp: arn_names_def keeping_sdk_def Let_def split: if_splits)

definition example_input :: jwt_input where
  "example_input = \<lparr>ji_Enabled = True, ji_Algorithm = ''hs256'', ji_Secret = replicate 32 (CHR ''k''), ji_Issuer = Some ''auth'',
     ji_Audiences = [''b'', '' a'', ''b''], ji_SubjectClaim = [], ji_RoleClaim = [], ji_ScopesClaim = [], ji_ClockSkewSeconds = None\<rparr>"

definition example_tenant :: tenant_context where
  "example_tenant = \<lparr>tc_ProjectID = ''p1'', tc_UserID = ''u1'', tc_UserRole = RoleOwner\<rparr>"

definition example_service :: "secret_error option \<Rightarrow> jwt_service" where
  "example_service d = NewProjectJWTConfigService (quiet 1 ''x'') (Some (Some (keeping_sdk d))) []"

definition example_row :: jwt_config where
  "example_row = \<lparr>jc_ProjectID = ''p1'', jc_Enabled = True, jc_Algorithm = ''HS256'',
     jc_SecretARN = ''elitegate/development/projects/p1/jwt/hs256'', jc_SecretVersionID = ''v0'', jc_ConfigVersion = 1,
     jc_Issuer = Some ''auth'', jc_Audiences = [''a'', ''b''], jc_SubjectClaim = ''sub'', jc_RoleClaim = ''role'',
     jc_ScopesClaim = ''scope'', jc_ClockSkewSeconds = 30, jc_CreatedBy = Some ''u1'', jc_UpdatedBy = Some ''u1'',
     jc_CreatedAt = 1, jc_UpdatedAt = 1\<rparr>"

lemma example_run:
  "jwt_run (example_service d) [(quiet 1 ''x'', JWTConfigure example_tenant (BodyOk example_input))] =
     ([example_row], [CreateSecretCall ''elitegate/development/projects/p1/jwt/hs256'' (replicate 32 (CHR ''k''))
                        (Inr (Some ''elitegate/development/projects/p1/jwt/hs256'', Some ''v0''))])"
  by code_simp

text \<open>
  C20. Whatever requests to configure and delete project JWT settings have been served, with any faults of the
  database and of AWS: a gateway that starts with an enabled configuration of the table builds its verifier
  without error, from a secret of at least 32 bytes that was stored for that project and is still alive, with
  exactly the settings of the row, and with a single request to the secrets service.
\<close>

theorem stored_jwt_configs_load:
  assumes "jv_secrets s = Some (Some sdk)" "arn_names owner sdk" "jwt_run s reqs = (t, h)" "versions_readable sdk h"
    and "c \<in> set t" "jc_Enabled c"
  shows "\<exists>cfg secret. projectJWTConfigToSync c = Inr cfg
     \<and> secret_live h (jc_SecretARN c) (jc_SecretVersionID c) secret \<and> 32 \<le> length secret
     \<and> owner (jc_SecretARN c) = owner (projectJWTSecretName (jv_environment s) (jc_ProjectID c))
     \<and> Apply (Some (GetSecret (Some sdk) h)) (Some cfg) None =
         \<lparr>ap_error = None, ap_state = Some (activeState cfg \<lparr>ve_secret = secret, ve_config = projectJWTVerifierConfig cfg\<rparr>),
          ap_calls = [(jc_SecretARN c, jc_SecretVersionID c)]\<rparr>"
proof -
  have row: "good_row owner (jv_environment s) h c"
    using jwt_run_ok [OF assms(2,1), of reqs] assms(3,5) by (simp add: jwt_ok_def)
  show ?thesis
    by (rule good_row_loads [OF row assms(6,4)]) (intro exI conjI good_row_project [OF row]; assumption)
qed

theorem stored_jwt_configs_load_witness:
  "\<exists>cfg secret. projectJWTConfigToSync example_row = Inr cfg \<and> 32 \<le> length secret
     \<and> ap_state (Apply (Some (GetSecret (Some (keeping_sdk None))
           [CreateSecretCall ''elitegate/development/projects/p1/jwt/hs256'' (replicate 32 (CHR ''k''))
              (Inr (Some ''elitegate/development/projects/p1/jwt/hs256'', Some ''v0''))])) (Some cfg) None) =
         Some (activeState cfg \<lparr>ve_secret = secret, ve_config = projectJWTVerifierConfig cfg\<rparr>)"
proof -
  have "versions_readable (keeping_sdk None)
      [CreateSecretCall ''elitegate/development/projects/p1/jwt/hs256'' (replicate 32 (CHR ''k''))
         (Inr (Some ''elitegate/development/projects/p1/jwt/hs256'', Some ''v0''))]"
    by (simp add: versions_readable_def secret_live_def keeping_sdk_def Let_def ToString_def TrimSpace_def trimBy_def isSpace_def)
  from stored_jwt_configs_load [OF _ keeping_sdk_names example_run this, of None example_row]
  show ?thesis by (fastforce simp: example_service_def NewProjectJWTConfigService_def example_row_def)
qed

section \<open>What a configuration request does\<close>

text \<open>The settings of a row, without who made them and when.\<close>

definition settings :: "jwt_config \<Rightarrow> bool \<times> string \<times> string option \<times> string list \<times> string \<times> string \<times> string \<times> int" where
  "settings c = (jc_Enabled c, jc_Algorithm c, jc_Issuer c, jc_Audiences c, jc_SubjectClaim c, jc_RoleClaim c,
     jc_ScopesClaim c, jc_ClockSkewSeconds c)"

lemma jwtConfigEquivalent_settings: "jwtConfigEquivalent c d \<longleftrightarrow> settings c = settings d"
  by (auto simp: jwtConfigEquivalent_def settings_def)

lemma settings_simps [simp]:
  "settings (c\<lparr>jc_ProjectID := p\<rparr>) = settings c" "settings (c\<lparr>jc_SecretARN := a\<rparr>) = settings c"
  "settings (c\<lparr>jc_SecretVersionID := v\<rparr>) = settings c" "settings (c\<lparr>jc_ConfigVersion := n\<rparr>) = settings c"
  "settings (c\<lparr>jc_CreatedAt := x\<rparr>) = settings c" "settings (c\<lparr>jc_CreatedBy := u\<rparr>) = settings c"
  "settings (upsert_insert env tc c) = settings c" "settings (upsert_update env tc c r) = settings c"
  by (simp_all add: settings_def upsert_insert_def upsert_update_def)

definition row_for :: "uuid \<Rightarrow> jwt_configs \<Rightarrow> jwt_config option" where
  "row_for p t = find (\<lambda>c. jc_ProjectID c = p) t"

text \<open>A step that stores the row \<open>c\<close> for project \<open>p\<close> and leaves the other projects alone.\<close>

definition stores_row :: "uuid \<Rightarrow> jwt_config \<Rightarrow> jwt_configs \<Rightarrow> jwt_configs \<Rightarrow> bool" where
  "stores_row p c t t' \<longleftrightarrow> row_for p t' = Some c \<and> filter (\<lambda>d. jc_ProjectID d \<noteq> p) t' = filter (\<lambda>d. jc_ProjectID d \<noteq> p) t"

lemma find_append_None: "find P xs = None \<Longrightarrow> find P (xs @ ys) = find P ys"
  by (induction xs) (auto split: if_splits)

definition effect :: "uuid \<Rightarrow> jwt_config \<Rightarrow> jwt_configs \<Rightarrow> ('e + jwt_config) \<Rightarrow> jwt_configs \<Rightarrow> bool" where
  "effect p cfg t r t' \<longleftrightarrow> (case r of Inl _ \<Rightarrow> t' = t | Inr c \<Rightarrow> stores_row p c t t' \<and> settings c = settings cfg)"

lemma effect_simps [simp]:
  "effect p cfg t (Inl e) t' \<longleftrightarrow> t' = t"
  "effect p cfg t (Inr c) t' \<longleftrightarrow> stores_row p c t t' \<and> settings c = settings cfg"
  by (simp_all add: effect_def)

lemma JWTConfig_Upsert_effect:
  "effect (tc_ProjectID tc) cfg t (fst (JWTConfig_Upsert env tc cfg t)) (snd (JWTConfig_Upsert env tc cfg t))"
proof -
  have u: "jc_ProjectID (upsert_update env tc cfg r) = jc_ProjectID r" for r by (simp add: upsert_update_def)
  have i: "jc_ProjectID (upsert_insert env tc cfg) = tc_ProjectID tc" by (simp add: upsert_insert_def)
  have f: "filter (\<lambda>d. jc_ProjectID d \<noteq> tc_ProjectID tc) (sql_update (\<lambda>c. jc_ProjectID c = tc_ProjectID tc) (upsert_update env tc cfg) t)
      = filter (\<lambda>d. jc_ProjectID d \<noteq> tc_ProjectID tc) t"
    by (rule filter_sql_update) (simp add: u)
  show ?thesis
    by (auto simp: JWTConfig_Upsert_def stores_row_def row_for_def find_append_None find_sql_update u i f
        dest: find_SomeD split: option.splits)
qed

lemma JWTService_create_effect:
  "effect (tc_ProjectID tc) (configFromInput i) t (fst (JWTService_create s m tc i (t, h))) (fst (snd (JWTService_create s m tc i (t, h))))"
proof (cases "ji_Secret i = []")
  case False
  obtain r h1 where o: "obtainSecret m (projectJWTSecretName (jv_environment s) (tc_ProjectID tc)) (ji_Secret i) h = (r, h1)" by fastforce
  show ?thesis
  proof (cases r)
    case (Inr ref)
    obtain u t1 where u: "JWTConfig_Upsert (jv_env s) tc
        ((configFromInput i)\<lparr>jc_SecretARN := sr_ARN ref, jc_SecretVersionID := sr_VersionID ref\<rparr>) t = (u, t1)" by fastforce
    show ?thesis
      using JWTConfig_Upsert_effect [of tc "(configFromInput i)\<lparr>jc_SecretARN := sr_ARN ref, jc_SecretVersionID := sr_VersionID ref\<rparr>" t "jv_env s"]
      by (cases u) (simp_all add: JWTService_create_def False o Inr u)
  qed (simp add: JWTService_create_def False o)
qed (simp add: JWTService_create_def)

lemma JWTService_update_effect:
  assumes "row_for (tc_ProjectID tc) t = Some current"
  shows "effect (tc_ProjectID tc) (configFromInput i) t (fst (JWTService_update s m tc current i (t, h)))
    (fst (snd (JWTService_update s m tc current i (t, h))))"
proof -
  define new where "new = (configFromInput i)\<lparr>jc_SecretARN := jc_SecretARN current, jc_SecretVersionID := jc_SecretVersionID current,
    jc_ConfigVersion := jc_ConfigVersion current, jc_ProjectID := jc_ProjectID current,
    jc_CreatedAt := jc_CreatedAt current, jc_CreatedBy := jc_CreatedBy current\<rparr>"
  have new: "settings new = settings (configFromInput i)" by (simp add: new_def)
  define store where "store = (\<lambda>cfg h1. case JWTConfig_Upsert (jv_env s) tc cfg t of
     (Inl e, t1) \<Rightarrow> (Inl (JWTRepoFailed e), t1, h1) | (Inr c, t1) \<Rightarrow> (Inr c, t1, h1 :: secret_call list))"
  have store: "effect (tc_ProjectID tc) (configFromInput i) t (fst (store cfg h1)) (fst (snd (store cfg h1)))"
    if "settings cfg = settings (configFromInput i)" for cfg h1
    using JWTConfig_Upsert_effect [of tc cfg t "jv_env s"] that
    by (auto simp: store_def split: prod.splits sum.splits)
  have same: "stores_row (tc_ProjectID tc) current t t" using assms by (simp add: stores_row_def)
  have step: "JWTService_update s m tc current i (t, h) =
      (if ji_Secret i = [] \<and> jwtConfigEquivalent current new then (Inr current, t, h)
       else if ji_Secret i \<noteq> [] then
         (case UpdateSecret m (jc_SecretARN current) (ji_Secret i) h of
            (Inl e, h1) \<Rightarrow> (Inl (JWTSecretFailed e), t, h1)
          | (Inr ref, h1) \<Rightarrow> store (new\<lparr>jc_SecretARN := sr_ARN ref, jc_SecretVersionID := sr_VersionID ref\<rparr>) h1)
       else store new h)"
    unfolding JWTService_update_def Let_def new_def store_def by simp
  obtain r h1 where u: "UpdateSecret m (jc_SecretARN current) (ji_Secret i) h = (r, h1)" by fastforce
  show ?thesis unfolding step u by (cases r) (simp_all add: store new same jwtConfigEquivalent_settings)
qed

lemma JWTService_Configure_effect:
  assumes "normalizeJWTConfigInput input = Inr i"
  shows "effect (tc_ProjectID tc) (configFromInput i) t (fst (JWTService_Configure s tc input (t, h)))
    (fst (snd (JWTService_Configure s tc input (t, h))))"
proof (cases "JWTConfig_Get (jv_env s) (tc_ProjectID tc) t")
  case (Inr c)
  then have "row_for (tc_ProjectID tc) t = Some c"
    by (auto simp: JWTConfig_Get_def row_for_def split: option.splits)
  with Inr show ?thesis by (simp add: JWTService_Configure_def assms JWTService_update_effect split: option.split)
next
  case (Inl e)
  then show ?thesis
    by (cases e) (simp_all add: JWTService_Configure_def assms JWTService_create_effect split: option.split)
qed

text \<open>
  C21. A request to configure project JWT settings is all or nothing and stays in its project. Whatever the
  database and AWS answer: any status but 200 carries no configuration and leaves the table as it was; status
  200 means that the body was valid, that the project's row now holds exactly the normalised settings, that the
  answer shows that row, and that the rows of all other projects are untouched.
\<close>

theorem configure_is_all_or_nothing:
  assumes "JWTHandler_Configure s tc body (t, h) = ((status, resp), (t', h'))"
  shows "status \<noteq> 200 \<and> resp = None \<and> t' = t \<or>
    status = 200 \<and> (\<exists>input i c. body = BodyOk input \<and> normalizeJWTConfigInput input = Inr i
      \<and> row_for (tc_ProjectID tc) t' = Some c \<and> settings c = settings (configFromInput i)
      \<and> resp = Some (projectJWTResponse (Some c))
      \<and> filter (\<lambda>d. jc_ProjectID d \<noteq> tc_ProjectID tc) t' = filter (\<lambda>d. jc_ProjectID d \<noteq> tc_ProjectID tc) t)"
proof (cases body)
  case (BodyOk input)
  obtain r t1 h1 where c: "JWTService_Configure s tc input (t, h) = (r, t1, h1)" by (metis prod.exhaust)
  show ?thesis
  proof (cases "normalizeJWTConfigInput input")
    case (Inl e)
    then have "\<exists>e'. r = Inl e'" "t1 = t" using c by (auto simp: JWTService_Configure_def split: option.splits)
    then show ?thesis using assms BodyOk c by (auto simp: JWTHandler_Configure_def split: jwt_config_error.splits)
  next
    case (Inr i)
    have "effect (tc_ProjectID tc) (configFromInput i) t r t1"
      using JWTService_Configure_effect [OF Inr, of tc t s h] by (simp add: c)
    then show ?thesis
      using assms BodyOk c Inr
      by (cases r) (auto simp: JWTHandler_Configure_def stores_row_def split: jwt_config_error.splits)
  qed
qed (use assms in \<open>simp_all add: JWTHandler_Configure_def\<close>)

lemma example_handler:
  "JWTHandler_Configure (example_service d) example_tenant (BodyOk example_input) ([], []) =
     ((200, Some (projectJWTResponse (Some example_row))), [example_row],
      [CreateSecretCall ''elitegate/development/projects/p1/jwt/hs256'' (replicate 32 (CHR ''k''))
         (Inr (Some ''elitegate/development/projects/p1/jwt/hs256'', Some ''v0''))])"
  by code_simp

theorem configure_is_all_or_nothing_witness:
  "\<exists>i. normalizeJWTConfigInput example_input = Inr i \<and> settings example_row = settings (configFromInput i)"
  using configure_is_all_or_nothing [OF example_handler] by (auto simp: row_for_def example_row_def example_tenant_def)

text \<open>Only the set of the audiences counts, and the secret is not part of the settings.\<close>

lemma normalize_same:
  assumes "normalizeJWTConfigInput input = Inr i" "set as = set (ji_Audiences input)" "length as \<le> 20"
  shows "normalizeJWTConfigInput (input\<lparr>ji_Secret := [], ji_Audiences := as\<rparr>) = Inr (i\<lparr>ji_Secret := []\<rparr>)"
proof -
  obtain auds where a: "normalizeAudiences (ji_Audiences input) = Inr auds"
    using assms(1) by (auto simp: normalizeJWTConfigInput_def Let_def split: if_splits option.splits sum.splits)
  have "normalizeAudiences as = Inr auds" by (rule normalizeAudiences_set [OF a assms(2,3)])
  then show ?thesis
    using assms(1) a
    by (auto simp: normalizeJWTConfigInput_def Let_def validateSecret_def split: if_splits option.splits sum.splits)
qed

lemma configFromInput_Secret [simp]: "configFromInput (i\<lparr>ji_Secret := x\<rparr>) = configFromInput i"
  by (simp add: configFromInput_def)

lemma update_same:
  assumes "settings current = settings (configFromInput i)" "ji_Secret i = []"
  shows "JWTService_update s m tc current i (t, h) = (Inr current, t, h)"
  using assms by (simp add: JWTService_update_def Let_def jwtConfigEquivalent_settings)

text \<open>
  Sending the same settings again changes nothing: after a successful request, a request without a secret
  that lists the same audiences in any order, with repetitions, is answered with the stored row; nothing is
  written, the configuration version stays, and AWS is not called.
\<close>

theorem reconfigure_changes_nothing:
  assumes "JWTService_Configure s tc input (t, h) = (Inr c, w)"
    and "set as = set (ji_Audiences input)" "length as \<le> 20" "de_fault env ''query project JWT config'' = None"
  shows "JWTService_Configure (s\<lparr>jv_env := env\<rparr>) tc (input\<lparr>ji_Secret := [], ji_Audiences := as\<rparr>) w = (Inr c, w)"
proof -
  obtain t1 h1 where w: "w = (t1, h1)" by fastforce
  obtain i where i: "normalizeJWTConfigInput input = Inr i"
    using assms(1) by (auto simp: JWTService_Configure_def split: option.splits sum.splits)
  have e: "stores_row (tc_ProjectID tc) c t t1" "settings c = settings (configFromInput i)"
    using JWTService_Configure_effect [OF i, of tc t s h] by (simp_all add: assms(1) w)
  then have "JWTConfig_Get env (tc_ProjectID tc) t1 = Inr c"
    using assms(4) by (simp add: JWTConfig_Get_def stores_row_def row_for_def)
  moreover obtain m where "jv_secrets s = Some m"
    using assms(1) by (auto simp: JWTService_Configure_def split: option.splits)
  ultimately show ?thesis
    using e(2) by (simp add: JWTService_Configure_def normalize_same [OF i assms(2,3)] w update_same)
qed

theorem reconfigure_changes_nothing_witness:
  "snd (JWTService_Configure ((example_service None)\<lparr>jv_env := quiet 2 ''y''\<rparr>) example_tenant
      (example_input\<lparr>ji_Secret := [], ji_Audiences := ['' a'', '' a'', ''b'']\<rparr>)
      (jwt_run (example_service None) [(quiet 1 ''x'', JWTConfigure example_tenant (BodyOk example_input))])) =
   jwt_run (example_service None) [(quiet 1 ''x'', JWTConfigure example_tenant (BodyOk example_input))]"
proof -
  have a: "JWTService_Configure (example_service None) example_tenant example_input ([], []) =
      (Inr example_row, jwt_run (example_service None) [(quiet 1 ''x'', JWTConfigure example_tenant (BodyOk example_input))])"
    by code_simp
  have b: "set ['' a'', '' a'', ''b''] = set (ji_Audiences example_input)" by (auto simp: example_input_def)
  show ?thesis by (simp add: reconfigure_changes_nothing [OF a b])
qed

section \<open>A failed deletion and the version of the configuration\<close>

lemma JWTService_Delete_failed:
  assumes "jv_secrets s = Some (Some sdk)" "\<And>q. de_fault (jv_env s) q = None" "jc_checked c" "jc_ProjectID c = tc_ProjectID tc"
    and "TrimSpace (jc_SecretARN c) = jc_SecretARN c" "jc_SecretARN c \<noteq> []"
    and "sk_DeleteSecret sdk h (jc_SecretARN c) = Some (OtherSecretError e)"
  shows "JWTService_Delete s tc ([c], h) =
    (Some (JWTSecretFailed (ManagerError ''delete secret'')), [upsert_insert (jv_env s) tc c],
     h @ [DeleteSecretCall (jc_SecretARN c) (Some (OtherSecretError e))])"
  using assms
  by (simp add: JWTService_Delete_def JWTConfig_Get_def JWTConfig_Delete_def DeleteSecret_def JWTConfig_Upsert_def Let_def)

lemma Configure_one_row:
  assumes "JWTService_Configure s tc input ([c], h) = (Inr c', w)" "jc_ProjectID c = tc_ProjectID tc"
    and "normalizeJWTConfigInput input = Inr i" "ji_Secret i = []" "settings c \<noteq> settings (configFromInput i)"
  shows "settings c' = settings (configFromInput i) \<and> jc_ConfigVersion c' = jc_ConfigVersion c + 1
    \<and> jc_SecretARN c' = jc_SecretARN c \<and> jc_SecretVersionID c' = jc_SecretVersionID c"
  using assms
  by (auto simp: JWTService_Configure_def JWTConfig_Get_def JWTService_update_def Let_def jwtConfigEquivalent_settings
      JWTConfig_Upsert_def split: option.splits if_splits) (simp_all add: upsert_update_def)

text \<open>
  A deletion that AWS refuses can hide a later change from the gateways. The row is deleted and put back, and
  comes back with configuration version 1. When it had version 2, the next change of the settings gives it
  version 2 again, with the same secret: a gateway that holds the old version 2 takes the new configuration for
  the one it has, reports success and goes on verifying with the old settings.
\<close>

theorem restored_config_hides_update:
  assumes "jv_secrets s = Some (Some sdk)" "\<And>q. de_fault (jv_env s) q = None" "jc_checked c" "jc_ProjectID c = tc_ProjectID tc"
    and "TrimSpace (jc_SecretARN c) = jc_SecretARN c" "jc_SecretARN c \<noteq> []"
    and "sk_DeleteSecret sdk h (jc_SecretARN c) = Some (OtherSecretError e)"
    and "jc_ConfigVersion c = 2" "projectJWTConfigToSync c = Inr cfg" "jc_Enabled c"
    and "normalizeJWTConfigInput input = Inr i" "ji_Secret i = []" "ji_Enabled i" "settings c \<noteq> settings (configFromInput i)"
    and "JWTService_Configure s tc input (snd (JWTService_Delete s tc ([c], h))) = (Inr c', w)"
    and "projectJWTConfigToSync c' = Inr cfg'"
  shows "settings c' = settings (configFromInput i)
    \<and> Apply secrets (Some cfg') (Some (activeState cfg v)) = \<lparr>ap_error = None, ap_state = Some (activeState cfg v), ap_calls = []\<rparr>"
proof -
  define r where "r = upsert_insert (jv_env s) tc c"
  have r: "jc_ProjectID r = tc_ProjectID tc" "jc_ConfigVersion r = 1" "jc_SecretARN r = jc_SecretARN c"
      "jc_SecretVersionID r = jc_SecretVersionID c" "settings r = settings c"
    by (simp add: r_def upsert_insert_def, simp add: r_def upsert_insert_def, simp add: r_def upsert_insert_def,
        simp add: r_def upsert_insert_def, simp add: r_def)
  have "snd (JWTService_Delete s tc ([c], h)) = ([r], h @ [DeleteSecretCall (jc_SecretARN c) (Some (OtherSecretError e))])"
    using JWTService_Delete_failed [OF assms(1-7)] by (simp add: r_def)
  then have c': "settings c' = settings (configFromInput i)" "jc_ConfigVersion c' = 2" "jc_SecretARN c' = jc_SecretARN c"
      "jc_SecretVersionID c' = jc_SecretVersionID c"
    using Configure_one_row [of s tc input r _ c' w i] assms(11,12,14,15) r by simp_all
  then have "jc_Enabled c'" using assms(13) by (simp add: settings_def configFromInput_def)
  then show ?thesis
    using assms(6,8-10,16) c'
    by (auto simp: projectJWTConfigToSync_def Let_def Apply_def reusable_def sameSecret_def activeState_def split: if_splits)
qed

theorem restored_config_hides_update_witness:
  "let s = example_service (Some (OtherSecretError ''throttled''));
       c = example_row\<lparr>jc_ConfigVersion := 2\<rparr>;
       new = example_input\<lparr>ji_Secret := [], ji_Issuer := Some ''other''\<rparr>
   in \<exists>c' cfg cfg'. projectJWTConfigToSync c = Inr cfg \<and> projectJWTConfigToSync c' = Inr cfg'
     \<and> fst (JWTService_Configure s example_tenant new (snd (JWTService_Delete s example_tenant ([c], [])))) = Inr c'
     \<and> jc_Issuer c' = Some ''other''
     \<and> ap_state (Apply None (Some cfg') (Some (activeState cfg \<lparr>ve_secret = [], ve_config = projectJWTVerifierConfig cfg\<rparr>)))
       = Some (activeState cfg \<lparr>ve_secret = [], ve_config = projectJWTVerifierConfig cfg\<rparr>)"
proof -
  define s where "s = example_service (Some (OtherSecretError ''throttled''))"
  define c where "c = example_row\<lparr>jc_ConfigVersion := 2\<rparr>"
  define new where "new = example_input\<lparr>ji_Secret := [], ji_Issuer := Some ''other''\<rparr>"
  define i where "i = projr (normalizeJWTConfigInput new)"
  define cfg where "cfg = projr (projectJWTConfigToSync c)"
  define c' where "c' = projr (fst (JWTService_Configure s example_tenant new (snd (JWTService_Delete s example_tenant ([c], [])))))"
  define cfg' where "cfg' = projr (projectJWTConfigToSync c')"
  have upd: "fst (JWTService_Configure s example_tenant new (snd (JWTService_Delete s example_tenant ([c], [])))) = Inr c'"
    unfolding c'_def s_def c_def new_def by code_simp
  have sync: "projectJWTConfigToSync c' = Inr cfg'"
    unfolding cfg'_def c'_def s_def c_def new_def by code_simp
  have iss: "jc_Issuer c' = Some ''other''" unfolding c'_def s_def c_def new_def by code_simp
  have n: "normalizeJWTConfigInput new = Inr i" "ji_Secret i = []" "ji_Enabled i" "settings c \<noteq> settings (configFromInput i)"
    unfolding i_def c_def new_def by code_simp+
  have c: "jc_checked c" "jc_ProjectID c = tc_ProjectID example_tenant" "TrimSpace (jc_SecretARN c) = jc_SecretARN c"
      "jc_SecretARN c \<noteq> []" "jc_ConfigVersion c = 2" "projectJWTConfigToSync c = Inr cfg" "jc_Enabled c"
    unfolding cfg_def c_def by code_simp+
  obtain w where w: "JWTService_Configure s example_tenant new (snd (JWTService_Delete s example_tenant ([c], []))) = (Inr c', w)"
    using upd by (metis prod.collapse)
  have "Apply None (Some cfg') (Some (activeState cfg v)) = \<lparr>ap_error = None, ap_state = Some (activeState cfg v), ap_calls = []\<rparr>" for v
    using restored_config_hides_update [OF _ _ c(1-4) _ c(5-7) n w sync, of "keeping_sdk (Some (OtherSecretError ''throttled''))" "''throttled''" None v]
    by (simp add: s_def example_service_def NewProjectJWTConfigService_def keeping_sdk_def Let_def)
  then show ?thesis
    using c(6) sync upd iss unfolding Let_def s_def [symmetric] c_def [symmetric] new_def [symmetric] by auto
qed

end
