(* ===== verification/Config_Store.thy ===== *)
theory Config_Store
  imports Admin_Access
begin

text \<open>
  What a tenant configures its gateways with: routes, upstreams with their targets, policies and API keys. The
  theory holds the repositories (\<^verbatim>\<open>route_repo.go\<close>, \<^verbatim>\<open>upstream_repo.go\<close>, \<^verbatim>\<open>upstream_target_repo.go\<close>,
  \<^verbatim>\<open>policy_repo.go\<close> and \<^verbatim>\<open>api_key_repo.go\<close> under \<^verbatim>\<open>internal/storage\<close>) and the services over them
  (\<^verbatim>\<open>internal/admin/service\<close>).

  A table is the list of its rows, as in \<open>Leased_Rows\<close>. The row-level security of the database hides the rows
  of other projects of every table but \<^verbatim>\<open>upstream_targets\<close>, which has no such rule; a foreign-key check
  sees all rows. An identifier that is no UUID is an error of the statement. Where SQL leaves the order of
  equal keys open, the order of the table is taken; text is ordered byte by byte.
\<close>

section \<open>Tables\<close>

record route_row =
  rr_ID :: uuid
  rr_ProjectID :: uuid
  rr_Name :: string
  rr_Path :: string
  rr_UpstreamID :: "uuid option"
  rr_PolicyID :: "uuid option"
  rr_MatchType :: string
  rr_Enabled :: bool
  rr_Methods :: "string list"
  rr_CreatedAt :: go_time
  rr_UpdatedAt :: go_time
  rr_DeletedAt :: "go_time option"

record upstream_row =
  ur_ID :: uuid
  ur_ProjectID :: uuid
  ur_Name :: string
  ur_TargetURL :: string
  ur_Protocol :: string
  ur_HealthPath :: string
  ur_LBStrategy :: string
  ur_Enabled :: bool
  ur_CreatedAt :: go_time
  ur_UpdatedAt :: go_time
  ur_DeletedAt :: "go_time option"

record target_row =
  tr_ID :: uuid
  tr_UpstreamID :: uuid
  tr_TargetURL :: string
  tr_Weight :: int
  tr_Enabled :: bool
  tr_CreatedAt :: go_time
  tr_UpdatedAt :: go_time
  tr_DeletedAt :: "go_time option"

record policy_row =
  po_ID :: uuid
  po_ProjectID :: uuid
  po_Name :: string
  po_AuthRequired :: bool
  po_RateLimitRPM :: int
  po_AllowedOrigins :: "string list"
  po_AllowedRoles :: "string list"
  po_AllowedScopes :: "string list"
  po_IPAllowlist :: "string list"
  po_IPBlocklist :: "string list"
  po_CreatedAt :: go_time
  po_UpdatedAt :: go_time
  po_DeletedAt :: "go_time option"

record key_row =
  kr_ID :: uuid
  kr_ProjectID :: uuid
  kr_Name :: string
  kr_KeyHash :: string
  kr_Status :: string
  kr_Roles :: "string list"
  kr_Scopes :: "string list"
  kr_ExpiresAt :: "go_time option"
  kr_CreatedAt :: go_time
  kr_UpdatedAt :: go_time
  kr_DeletedAt :: "go_time option"

record config_db =
  cf_routes :: "route_row list"
  cf_upstreams :: "upstream_row list"
  cf_targets :: "target_row list"
  cf_policies :: "policy_row list"
  cf_keys :: "key_row list"

datatype config_error =
    ErrRouteNotFound | ErrRouteNameConflict | ErrUpstreamNotFound | ErrUpstreamNameConflict
  | ErrUpstreamTargetNotFound | ErrPolicyNotFound | ErrPolicyNameConflict | ErrAPIKeyNotFound
  | ErrInvalidMatchType | ErrInvalidProtocol | ErrInvalidLBStrategy | InvalidRateLimit
  | InvalidIPRule string ip_error | RandomFailed string | ConfigSql string string

type_synonym 'a config_op = "config_db \<Rightarrow> (config_error + 'a) \<times> config_db"

abbreviation of_tenant :: "uuid \<Rightarrow> uuid \<Rightarrow> go_time option \<Rightarrow> bool" where
  "of_tenant p q deleted \<equiv> q = p \<and> deleted = None"

section \<open>Transactions of a tenant\<close>

definition fails :: "db_env \<Rightarrow> string \<Rightarrow> config_error option" where
  "fails env stmt = map_option (ConfigSql stmt) (de_fault env stmt)"

text \<open>An error of the callback, of the session settings or of the commit leaves the tables as they were.\<close>

definition withTenantTx :: "db_env \<Rightarrow> 'a config_op \<Rightarrow> 'a config_op" where
  "withTenantTx env fn db =
     (case fails env ''begin tx'' of
        Some e \<Rightarrow> (Inl e, db)
      | None \<Rightarrow>
          (case fails env ''setTenantSession'' of
             Some e \<Rightarrow> (Inl e, db)
           | None \<Rightarrow>
               (case fn db of
                  (Inl e, _) \<Rightarrow> (Inl e, db)
                | (Inr a, db') \<Rightarrow>
                    (case fails env ''commit tx'' of Some e \<Rightarrow> (Inl e, db) | None \<Rightarrow> (Inr a, db')))))"

text \<open>One statement: its error, or what it does.\<close>

definition stmt :: "db_env \<Rightarrow> string \<Rightarrow> 'a config_op \<Rightarrow> 'a config_op" where
  "stmt env name op db = (case fails env name of Some e \<Rightarrow> (Inl e, db) | None \<Rightarrow> op db)"

definition seq :: "'a config_op \<Rightarrow> ('a \<Rightarrow> 'b config_op) \<Rightarrow> 'b config_op" where
  "seq m f db = (case m db of (Inl e, db') \<Rightarrow> (Inl e, db') | (Inr a, db') \<Rightarrow> f a db')"

definition return :: "'a \<Rightarrow> 'a config_op" where "return a db = (Inr a, db)"

definition throw :: "config_error \<Rightarrow> 'a config_op" where "throw e db = (Inl e, db)"

text \<open>An identifier that came from a request as text goes to the database as it is.\<close>

definition with_id :: "(string \<Rightarrow> uuid option) \<Rightarrow> string \<Rightarrow> (uuid \<Rightarrow> 'a config_op) \<Rightarrow> 'a config_op" where
  "with_id pg raw op =
     (case pg raw of None \<Rightarrow> throw (ConfigSql raw ''invalid input syntax for type uuid'') | Some i \<Rightarrow> op i)"

text \<open>
  An update of one table whose clause has to hit a row; it gives the first row that was hit, as it was.
\<close>

definition update_rows ::
  "(config_db \<Rightarrow> 'r list) \<Rightarrow> ('r list \<Rightarrow> config_db \<Rightarrow> config_db) \<Rightarrow> config_error \<Rightarrow> ('r \<Rightarrow> bool) \<Rightarrow> ('r \<Rightarrow> 'r) \<Rightarrow> 'r config_op" where
  "update_rows get put none P f db =
     (case find P (get db) of
        None \<Rightarrow> (Inl none, db)
      | Some r \<Rightarrow> (Inr r, put (sql_update P f (get db)) db))"

abbreviation "put_routes t db \<equiv> db\<lparr>cf_routes := t\<rparr>"
abbreviation "put_upstreams t db \<equiv> db\<lparr>cf_upstreams := t\<rparr>"
abbreviation "put_targets t db \<equiv> db\<lparr>cf_targets := t\<rparr>"
abbreviation "put_policies t db \<equiv> db\<lparr>cf_policies := t\<rparr>"
abbreviation "put_keys t db \<equiv> db\<lparr>cf_keys := t\<rparr>"

text \<open>A column of type \<^verbatim>\<open>INT\<close> has 32 bits.\<close>

definition int4 :: "int \<Rightarrow> bool" where "int4 n \<longleftrightarrow> - (2 ^ 31) \<le> n \<and> n < 2 ^ 31"

section \<open>Routes\<close>

abbreviation tenant_route :: "uuid \<Rightarrow> uuid \<Rightarrow> route_row \<Rightarrow> bool" where
  "tenant_route i p r \<equiv> rr_ID r = i \<and> of_tenant p (rr_ProjectID r) (rr_DeletedAt r)"

definition http_methods :: "string list" where
  "http_methods = [''GET'', ''POST'', ''PUT'', ''PATCH'', ''DELETE'', ''HEAD'', ''OPTIONS'', ''ANY'']"

text \<open>
  The constraints of the table: the methods are an enumeration, the upstream and the policy exist, in any
  project and deleted or not, and the match type is one of two.
\<close>

definition route_refs_ok :: "config_db \<Rightarrow> route_row \<Rightarrow> bool" where
  "route_refs_ok db r \<longleftrightarrow>
     set (rr_Methods r) \<subseteq> set http_methods \<and> rr_MatchType r \<in> {''exact'', ''prefix''}
     \<and> (case rr_UpstreamID r of None \<Rightarrow> True | Some u \<Rightarrow> list_ex (\<lambda>x. ur_ID x = u) (cf_upstreams db))
     \<and> (case rr_PolicyID r of None \<Rightarrow> True | Some p \<Rightarrow> list_ex (\<lambda>x. po_ID x = p) (cf_policies db))"

text \<open>The identifiers of a route that is to be stored, read as the database reads them.\<close>

definition route_ids :: "(string \<Rightarrow> uuid option) \<Rightarrow> route_row \<Rightarrow> route_row option" where
  "route_ids pg rt =
     (case (map_option pg (rr_UpstreamID rt), map_option pg (rr_PolicyID rt)) of
        (Some None, _) \<Rightarrow> None
      | (_, Some None) \<Rightarrow> None
      | (u, po) \<Rightarrow> Some (rt\<lparr>rr_UpstreamID := Option.bind u (\<lambda>x. x), rr_PolicyID := Option.bind po (\<lambda>x. x)\<rparr>))"

text \<open>
  \<open>listQuery\<close>: a route with the columns of its upstream and of its policy, where these are live and of the
  tenant; else no upstream address, protocol HTTP, and no restriction at all.
\<close>

definition joined_route :: "uuid \<Rightarrow> config_db \<Rightarrow> route_row \<Rightarrow> route" where
  "joined_route p db r =
     (let u = Option.bind (rr_UpstreamID r) (\<lambda>i. find (\<lambda>x. ur_ID x = i \<and> of_tenant p (ur_ProjectID x) (ur_DeletedAt x)) (cf_upstreams db));
          po = Option.bind (rr_PolicyID r) (\<lambda>i. find (\<lambda>x. po_ID x = i \<and> of_tenant p (po_ProjectID x) (po_DeletedAt x)) (cf_policies db))
      in \<lparr>rt_ID = rr_ID r, rt_ProjectID = rr_ProjectID r, rt_Name = rr_Name r, rt_Path = rr_Path r,
          rt_UpstreamID = rr_UpstreamID r,
          rt_UpstreamURL = (case u of None \<Rightarrow> [] | Some x \<Rightarrow> ur_TargetURL x), rt_Methods = rr_Methods r,
          rt_Protocol = (case u of None \<Rightarrow> ''http'' | Some x \<Rightarrow> ur_Protocol x),
          rt_MatchType = rr_MatchType r, rt_Enabled = rr_Enabled r, rt_PolicyID = rr_PolicyID r,
          rt_AuthRequired = (case po of None \<Rightarrow> False | Some x \<Rightarrow> po_AuthRequired x),
          rt_RateLimitRPM = (case po of None \<Rightarrow> 0 | Some x \<Rightarrow> po_RateLimitRPM x),
          rt_AllowedOrigins = (case po of None \<Rightarrow> [] | Some x \<Rightarrow> po_AllowedOrigins x),
          rt_AllowedRoles = (case po of None \<Rightarrow> [] | Some x \<Rightarrow> po_AllowedRoles x),
          rt_AllowedScopes = (case po of None \<Rightarrow> [] | Some x \<Rightarrow> po_AllowedScopes x),
          rt_IPAllowlist = (case po of None \<Rightarrow> [] | Some x \<Rightarrow> po_IPAllowlist x),
          rt_IPBlocklist = (case po of None \<Rightarrow> [] | Some x \<Rightarrow> po_IPBlocklist x)\<rparr>)"

text \<open>The longest paths first.\<close>

definition ListEnabled :: "db_env \<Rightarrow> uuid \<Rightarrow> route list config_op" where
  "ListEnabled env p = withTenantTx env (stmt env ''list enabled routes'' (\<lambda>db.
     (Inr (map (joined_route p db)
        (sort_key (\<lambda>r. - int (length (rr_Path r)))
          (filter (\<lambda>r. of_tenant p (rr_ProjectID r) (rr_DeletedAt r) \<and> rr_Enabled r) (cf_routes db)))), db)))"

text \<open>\<^verbatim>\<open>LIMIT\<close> and \<^verbatim>\<open>OFFSET\<close> are added to a list query when the limit is positive.\<close>

definition page :: "int \<Rightarrow> int \<Rightarrow> 'a list \<Rightarrow> 'a list" where
  "page limit offset xs = (if limit > 0 then take (nat limit) (drop (nat offset) xs) else xs)"

text \<open>A list query after the query for the total, in one transaction.\<close>

definition list_rows :: "db_env \<Rightarrow> string \<Rightarrow> string \<Rightarrow> int \<Rightarrow> int \<Rightarrow> (config_db \<Rightarrow> 'a list) \<Rightarrow> ('a list \<times> nat) config_op" where
  "list_rows env counting query limit offset rows =
     withTenantTx env
       (seq (stmt env counting (\<lambda>db. (Inr (length (rows db)), db)))
          (\<lambda>total. stmt env query (\<lambda>db. (Inr (page limit offset (rows db), total), db))))"

definition Route_ListAll :: "db_env \<Rightarrow> uuid \<Rightarrow> int \<Rightarrow> int \<Rightarrow> (route list \<times> nat) config_op" where
  "Route_ListAll env p limit offset = list_rows env ''count routes'' ''list routes'' limit offset (\<lambda>db.
     map (joined_route p db) (sort_key rr_Path (filter (\<lambda>r. of_tenant p (rr_ProjectID r) (rr_DeletedAt r)) (cf_routes db))))"

definition Route_GetByID :: "db_env \<Rightarrow> uuid \<Rightarrow> uuid \<Rightarrow> route config_op" where
  "Route_GetByID env p i = withTenantTx env (stmt env ''GetByID route'' (\<lambda>db.
     (case find (tenant_route i p) (cf_routes db) of
        None \<Rightarrow> (Inl ErrRouteNotFound, db)
      | Some r \<Rightarrow> (Inr (joined_route p db r), db))))"

text \<open>The id and, for a route without a name, the suffix of the name are random.\<close>

definition Route_Create :: "db_env \<Rightarrow> (string \<Rightarrow> uuid option) \<Rightarrow> uuid \<Rightarrow> uuid \<Rightarrow> route_row \<Rightarrow> route_row config_op" where
  "Route_Create env pg fresh p rt0 = withTenantTx env (stmt env ''create route'' (\<lambda>db.
     case route_ids pg rt0 of
       None \<Rightarrow> (Inl (ConfigSql ''create route'' ''invalid input syntax for type uuid''), db)
     | Some rt \<Rightarrow>
         let r = rt\<lparr>rr_ID := de_uuid env, rr_ProjectID := p,
                  rr_Name := (if rr_Name rt = [] then ''route_'' @ take 8 fresh else rr_Name rt),
                  rr_CreatedAt := de_now env, rr_UpdatedAt := de_now env, rr_DeletedAt := None\<rparr>
         in if \<not> route_refs_ok db r then (Inl (ConfigSql ''create route'' ''constraint''), db)
            else if list_ex (\<lambda>x. rr_ID x = rr_ID r \<or> rr_ProjectID x = p \<and> rr_Name x = rr_Name r) (cf_routes db)
            then (Inl ErrRouteNameConflict, db)
            else (Inr r, db\<lparr>cf_routes := cf_routes db @ [r]\<rparr>)))"

definition set_route :: "db_env \<Rightarrow> route_row \<Rightarrow> route_row \<Rightarrow> route_row" where
  "set_route env rt r =
     r\<lparr>rr_Name := rr_Name rt, rr_Path := rr_Path rt, rr_UpstreamID := rr_UpstreamID rt, rr_PolicyID := rr_PolicyID rt,
       rr_MatchType := rr_MatchType rt, rr_Enabled := rr_Enabled rt, rr_Methods := rr_Methods rt, rr_UpdatedAt := de_now env\<rparr>"

definition Route_Update :: "db_env \<Rightarrow> (string \<Rightarrow> uuid option) \<Rightarrow> uuid \<Rightarrow> uuid \<Rightarrow> route_row \<Rightarrow> route_row config_op" where
  "Route_Update env pg p i rt0 = withTenantTx env (stmt env ''update route'' (\<lambda>db.
     case route_ids pg rt0 of
       None \<Rightarrow> (Inl (ConfigSql ''update route'' ''invalid input syntax for type uuid''), db)
     | Some rt \<Rightarrow>
         if \<not> set (rr_Methods rt) \<subseteq> set http_methods then (Inl (ConfigSql ''update route'' ''invalid input value for enum''), db)
         else
           (case find (tenant_route i p) (cf_routes db) of
              None \<Rightarrow> (Inl ErrRouteNotFound, db)
            | Some r \<Rightarrow>
                if \<not> route_refs_ok db rt
                   \<or> list_ex (\<lambda>x. rr_ID x \<noteq> i \<and> rr_ProjectID x = p \<and> rr_Name x = rr_Name rt) (cf_routes db)
                then (Inl (ConfigSql ''update route'' ''constraint''), db)
                else (Inr (set_route env rt r), put_routes (sql_update (tenant_route i p) (set_route env rt) (cf_routes db)) db))))"

definition update_route :: "db_env \<Rightarrow> string \<Rightarrow> uuid \<Rightarrow> uuid \<Rightarrow> (route_row \<Rightarrow> route_row) \<Rightarrow> route_row config_op" where
  "update_route env name p i f =
     stmt env name (update_rows cf_routes put_routes ErrRouteNotFound (tenant_route i p) f)"

definition Route_Delete :: "db_env \<Rightarrow> uuid \<Rightarrow> uuid \<Rightarrow> route_row config_op" where
  "Route_Delete env p i =
     withTenantTx env (update_route env ''delete route'' p i (\<lambda>r. r\<lparr>rr_DeletedAt := Some (de_now env)\<rparr>))"

definition Route_Disable :: "db_env \<Rightarrow> uuid \<Rightarrow> uuid \<Rightarrow> route_row config_op" where
  "Route_Disable env p i =
     withTenantTx env (update_route env ''disable route'' p i (\<lambda>r. r\<lparr>rr_Enabled := False, rr_UpdatedAt := de_now env\<rparr>))"

definition Route_Enable :: "db_env \<Rightarrow> uuid \<Rightarrow> uuid \<Rightarrow> route_row config_op" where
  "Route_Enable env p i =
     withTenantTx env (update_route env ''enable route'' p i (\<lambda>r. r\<lparr>rr_Enabled := True, rr_UpdatedAt := de_now env\<rparr>))"

definition Route_AssignPolicy :: "db_env \<Rightarrow> (string \<Rightarrow> uuid option) \<Rightarrow> uuid \<Rightarrow> string \<Rightarrow> string \<Rightarrow> route_row config_op" where
  "Route_AssignPolicy env pg p routeID policyID =
     withTenantTx env (with_id pg policyID (\<lambda>pid.
       seq (stmt env ''check policy existence'' (\<lambda>db.
              if list_ex (\<lambda>x. po_ID x = pid \<and> of_tenant p (po_ProjectID x) (po_DeletedAt x)) (cf_policies db)
              then (Inr (), db) else (Inl ErrPolicyNotFound, db)))
         (\<lambda>_. with_id pg routeID (\<lambda>rid.
            update_route env ''assign policy'' p rid (\<lambda>r. r\<lparr>rr_PolicyID := Some pid, rr_UpdatedAt := de_now env\<rparr>)))))"

definition Route_RemovePolicy :: "db_env \<Rightarrow> uuid \<Rightarrow> uuid \<Rightarrow> route_row config_op" where
  "Route_RemovePolicy env p routeID =
     withTenantTx env (update_route env ''remove policy'' p routeID (\<lambda>r. r\<lparr>rr_PolicyID := None, rr_UpdatedAt := de_now env\<rparr>))"

section \<open>Upstreams and their targets\<close>

abbreviation tenant_upstream :: "uuid \<Rightarrow> uuid \<Rightarrow> upstream_row \<Rightarrow> bool" where
  "tenant_upstream i p u \<equiv> ur_ID u = i \<and> of_tenant p (ur_ProjectID u) (ur_DeletedAt u)"

definition upstream_of_row :: "upstream_row \<Rightarrow> upstream" where
  "upstream_of_row u =
     \<lparr>up_ID = ur_ID u, up_ProjectID = ur_ProjectID u, up_Name = ur_Name u, up_TargetURL = ur_TargetURL u, up_Protocol = ur_Protocol u,
      up_HealthPath = ur_HealthPath u, up_Enabled = ur_Enabled u, up_LBStrategy = ur_LBStrategy u\<rparr>"

definition upstream_checked :: "upstream_row \<Rightarrow> bool" where
  "upstream_checked u \<longleftrightarrow> ur_Protocol u \<in> {''http'', ''grpc''} \<and> ur_LBStrategy u \<in> {''round_robin'', ''least_conn''}"

definition Upstream_Create :: "db_env \<Rightarrow> uuid \<Rightarrow> upstream_row \<Rightarrow> upstream_row config_op" where
  "Upstream_Create env p u0 = withTenantTx env (stmt env ''create upstream'' (\<lambda>db.
     let u = u0\<lparr>ur_ID := de_uuid env, ur_ProjectID := p, ur_CreatedAt := de_now env, ur_UpdatedAt := de_now env, ur_DeletedAt := None\<rparr>
     in if \<not> upstream_checked u then (Inl (ConfigSql ''create upstream'' ''constraint''), db)
        else if list_ex (\<lambda>x. ur_ID x = ur_ID u \<or> ur_ProjectID x = p \<and> ur_Name x = ur_Name u) (cf_upstreams db)
        then (Inl ErrUpstreamNameConflict, db)
        else (Inr u, db\<lparr>cf_upstreams := cf_upstreams db @ [u]\<rparr>)))"

definition Upstream_GetByID :: "db_env \<Rightarrow> uuid \<Rightarrow> uuid \<Rightarrow> upstream config_op" where
  "Upstream_GetByID env p i = withTenantTx env (stmt env ''GetByID upstream'' (\<lambda>db.
     (case find (tenant_upstream i p) (cf_upstreams db) of
        None \<Rightarrow> (Inl ErrUpstreamNotFound, db)
      | Some u \<Rightarrow> (Inr (upstream_of_row u), db))))"

definition Upstream_ListAll :: "db_env \<Rightarrow> uuid \<Rightarrow> int \<Rightarrow> int \<Rightarrow> (upstream list \<times> nat) config_op" where
  "Upstream_ListAll env p limit offset = list_rows env ''count upstreams'' ''query upstreams'' limit offset (\<lambda>db.
     map upstream_of_row (sort_key ur_Name (filter (\<lambda>u. of_tenant p (ur_ProjectID u) (ur_DeletedAt u)) (cf_upstreams db))))"

definition Upstream_Update :: "db_env \<Rightarrow> uuid \<Rightarrow> uuid \<Rightarrow> upstream_row \<Rightarrow> upstream_row config_op" where
  "Upstream_Update env p i u0 = withTenantTx env (stmt env ''Update upstream'' (\<lambda>db.
     let set_row = (\<lambda>u. u\<lparr>ur_Name := ur_Name u0, ur_TargetURL := ur_TargetURL u0, ur_Protocol := ur_Protocol u0,
                        ur_HealthPath := ur_HealthPath u0, ur_LBStrategy := ur_LBStrategy u0, ur_Enabled := ur_Enabled u0,
                        ur_UpdatedAt := de_now env\<rparr>)
     in (case find (tenant_upstream i p) (cf_upstreams db) of
           None \<Rightarrow> (Inl ErrUpstreamNotFound, db)
         | Some u \<Rightarrow>
             if \<not> upstream_checked u0
                \<or> list_ex (\<lambda>x. ur_ID x \<noteq> i \<and> ur_ProjectID x = p \<and> ur_Name x = ur_Name u0) (cf_upstreams db)
             then (Inl (ConfigSql ''Update upstream'' ''constraint''), db)
             else (Inr (set_row u), put_upstreams (sql_update (tenant_upstream i p) set_row (cf_upstreams db)) db))))"

definition Upstream_Disable :: "db_env \<Rightarrow> uuid \<Rightarrow> uuid \<Rightarrow> upstream_row config_op" where
  "Upstream_Disable env p i =
     withTenantTx env (stmt env ''Disable upstream''
       (update_rows cf_upstreams put_upstreams ErrUpstreamNotFound (tenant_upstream i p)
          (\<lambda>u. u\<lparr>ur_Enabled := False, ur_UpdatedAt := de_now env\<rparr>)))"

text \<open>The routes of the upstream lose it, and its targets are deleted with it.\<close>

definition Upstream_Delete :: "db_env \<Rightarrow> uuid \<Rightarrow> uuid \<Rightarrow> unit config_op" where
  "Upstream_Delete env p i =
     withTenantTx env
       (seq (stmt env ''Delete upstream''
               (update_rows cf_upstreams put_upstreams ErrUpstreamNotFound (tenant_upstream i p)
                  (\<lambda>u. u\<lparr>ur_DeletedAt := Some (de_now env), ur_UpdatedAt := de_now env\<rparr>))) (\<lambda>_.
        seq (stmt env ''clear route upstream ref'' (\<lambda>db. (Inr (), put_routes
               (sql_update (\<lambda>r. rr_UpstreamID r = Some i \<and> of_tenant p (rr_ProjectID r) (rr_DeletedAt r))
                  (\<lambda>r. r\<lparr>rr_UpstreamID := None, rr_UpdatedAt := de_now env\<rparr>) (cf_routes db)) db))) (\<lambda>_.
        stmt env ''soft-delete upstream targets'' (\<lambda>db. (Inr (), put_targets
               (sql_update (\<lambda>t. tr_UpstreamID t = i \<and> tr_DeletedAt t = None)
                  (\<lambda>t. t\<lparr>tr_DeletedAt := Some (de_now env), tr_UpdatedAt := de_now env\<rparr>) (cf_targets db)) db)))))"

definition target_of_row :: "target_row \<Rightarrow> upstream_target" where
  "target_of_row t =
     \<lparr>ut_ID = tr_ID t, ut_UpstreamID = tr_UpstreamID t, ut_TargetURL = tr_TargetURL t, ut_Weight = tr_Weight t, ut_Enabled = tr_Enabled t\<rparr>"

text \<open>Neither statement names the project, and the table has no row-level security.\<close>

definition Target_Add :: "db_env \<Rightarrow> uuid \<Rightarrow> string \<Rightarrow> int \<Rightarrow> bool \<Rightarrow> target_row config_op" where
  "Target_Add env upstreamID targetURL weight enabled = withTenantTx env (stmt env ''add upstream target'' (\<lambda>db.
     let t = \<lparr>tr_ID = de_uuid env, tr_UpstreamID = upstreamID, tr_TargetURL = targetURL, tr_Weight = weight, tr_Enabled = enabled,
              tr_CreatedAt = de_now env, tr_UpdatedAt = de_now env, tr_DeletedAt = None\<rparr>
     in if weight \<le> 0 \<or> \<not> int4 weight \<or> \<not> list_ex (\<lambda>u. ur_ID u = upstreamID) (cf_upstreams db)
           \<or> list_ex (\<lambda>x. tr_ID x = tr_ID t \<or> tr_UpstreamID x = upstreamID \<and> tr_TargetURL x = targetURL) (cf_targets db)
        then (Inl (ConfigSql ''add upstream target'' ''constraint''), db)
        else (Inr t, db\<lparr>cf_targets := cf_targets db @ [t]\<rparr>)))"

definition ListByUpstream :: "db_env \<Rightarrow> uuid \<Rightarrow> uuid \<Rightarrow> upstream_target list config_op" where
  "ListByUpstream env p upstreamID = withTenantTx env (stmt env ''list upstream targets'' (\<lambda>db.
     (Inr (map target_of_row
        (if list_ex (tenant_upstream upstreamID p) (cf_upstreams db)
         then sort_key tr_CreatedAt (filter (\<lambda>t. tr_UpstreamID t = upstreamID \<and> tr_DeletedAt t = None) (cf_targets db))
         else [])), db)))"

definition Target_Remove :: "db_env \<Rightarrow> uuid \<Rightarrow> target_row config_op" where
  "Target_Remove env i =
     withTenantTx env (stmt env ''remove upstream target''
       (update_rows cf_targets put_targets ErrUpstreamTargetNotFound (\<lambda>t. tr_ID t = i \<and> tr_DeletedAt t = None)
          (\<lambda>t. t\<lparr>tr_DeletedAt := Some (de_now env), tr_UpdatedAt := de_now env\<rparr>)))"

section \<open>Policies\<close>

abbreviation tenant_policy :: "uuid \<Rightarrow> uuid \<Rightarrow> policy_row \<Rightarrow> bool" where
  "tenant_policy i p x \<equiv> po_ID x = i \<and> of_tenant p (po_ProjectID x) (po_DeletedAt x)"

definition Policy_ListAll :: "db_env \<Rightarrow> uuid \<Rightarrow> int \<Rightarrow> int \<Rightarrow> (policy_row list \<times> nat) config_op" where
  "Policy_ListAll env p limit offset = list_rows env ''count policies'' ''query policies'' limit offset (\<lambda>db.
     sort_key po_Name (filter (\<lambda>x. of_tenant p (po_ProjectID x) (po_DeletedAt x)) (cf_policies db)))"

definition Policy_GetByID :: "db_env \<Rightarrow> uuid \<Rightarrow> uuid \<Rightarrow> policy_row config_op" where
  "Policy_GetByID env p i = withTenantTx env (stmt env ''get policy'' (\<lambda>db.
     (case find (tenant_policy i p) (cf_policies db) of None \<Rightarrow> (Inl ErrPolicyNotFound, db) | Some x \<Rightarrow> (Inr x, db))))"

definition Policy_Create :: "db_env \<Rightarrow> uuid \<Rightarrow> policy_row \<Rightarrow> policy_row config_op" where
  "Policy_Create env p x0 = withTenantTx env (stmt env ''create policy'' (\<lambda>db.
     let x = x0\<lparr>po_ID := de_uuid env, po_ProjectID := p, po_CreatedAt := de_now env, po_UpdatedAt := de_now env, po_DeletedAt := None\<rparr>
     in if \<not> int4 (po_RateLimitRPM x) then (Inl (ConfigSql ''create policy'' ''integer out of range''), db)
        else if list_ex (\<lambda>y. po_ID y = po_ID x \<or> po_ProjectID y = p \<and> po_Name y = po_Name x) (cf_policies db)
        then (Inl ErrPolicyNameConflict, db)
        else (Inr x, db\<lparr>cf_policies := cf_policies db @ [x]\<rparr>)))"

definition Policy_Update :: "db_env \<Rightarrow> uuid \<Rightarrow> uuid \<Rightarrow> policy_row \<Rightarrow> policy_row config_op" where
  "Policy_Update env p i x0 = withTenantTx env (stmt env ''update policy'' (\<lambda>db.
     let set_row = (\<lambda>x. x0\<lparr>po_ID := po_ID x, po_ProjectID := po_ProjectID x, po_CreatedAt := po_CreatedAt x,
                        po_UpdatedAt := de_now env, po_DeletedAt := po_DeletedAt x\<rparr>)
     in if \<not> int4 (po_RateLimitRPM x0) then (Inl (ConfigSql ''update policy'' ''integer out of range''), db)
        else
        (case find (tenant_policy i p) (cf_policies db) of
           None \<Rightarrow> (Inl ErrPolicyNotFound, db)
         | Some x \<Rightarrow>
             if list_ex (\<lambda>y. po_ID y \<noteq> i \<and> po_ProjectID y = p \<and> po_Name y = po_Name x0) (cf_policies db)
             then (Inl (ConfigSql ''update policy'' ''constraint''), db)
             else (Inr (set_row x), put_policies (sql_update (tenant_policy i p) set_row (cf_policies db)) db))))"

definition Policy_Delete :: "db_env \<Rightarrow> uuid \<Rightarrow> uuid \<Rightarrow> unit config_op" where
  "Policy_Delete env p i =
     withTenantTx env
       (seq (stmt env ''delete policy''
               (update_rows cf_policies put_policies ErrPolicyNotFound (tenant_policy i p) (\<lambda>x. x\<lparr>po_DeletedAt := Some (de_now env)\<rparr>))) (\<lambda>_.
        stmt env ''clear route policy ref'' (\<lambda>db. (Inr (), put_routes
               (sql_update (\<lambda>r. rr_PolicyID r = Some i \<and> of_tenant p (rr_ProjectID r) (rr_DeletedAt r))
                  (\<lambda>r. r\<lparr>rr_PolicyID := None, rr_UpdatedAt := de_now env\<rparr>) (cf_routes db)) db))))"

section \<open>API keys\<close>

abbreviation tenant_key :: "uuid \<Rightarrow> uuid \<Rightarrow> key_row \<Rightarrow> bool" where
  "tenant_key i p k \<equiv> kr_ID k = i \<and> of_tenant p (kr_ProjectID k) (kr_DeletedAt k)"

text \<open>The hash is SHA-256 in hexadecimal, a parameter.\<close>

definition insert_key :: "db_env \<Rightarrow> uuid \<Rightarrow> string \<Rightarrow> string \<Rightarrow> string \<Rightarrow> go_time option \<Rightarrow> string list \<Rightarrow> string list \<Rightarrow> key_row config_op" where
  "insert_key env p what name keyHash expiresAt roles scopes db =
     (let k = \<lparr>kr_ID = de_uuid env, kr_ProjectID = p, kr_Name = name, kr_KeyHash = keyHash, kr_Status = ''active'', kr_Roles = roles,
               kr_Scopes = scopes, kr_ExpiresAt = expiresAt, kr_CreatedAt = de_now env, kr_UpdatedAt = de_now env, kr_DeletedAt = None\<rparr>
      in if list_ex (\<lambda>x. kr_ID x = kr_ID k) (cf_keys db) then (Inl (ConfigSql what ''primary key''), db)
         else (Inr k, db\<lparr>cf_keys := cf_keys db @ [k]\<rparr>))"

definition Key_Create ::
  "db_env \<Rightarrow> (string \<Rightarrow> string) \<Rightarrow> uuid \<Rightarrow> string \<Rightarrow> string \<Rightarrow> go_time option \<Rightarrow> string list \<Rightarrow> string list \<Rightarrow> key_row config_op" where
  "Key_Create env sha256hex p name rawKey expiresAt roles scopes =
     withTenantTx env (stmt env ''api_key create'' (insert_key env p ''api_key create'' name (sha256hex rawKey) expiresAt roles scopes))"

definition revoke_key :: "db_env \<Rightarrow> string \<Rightarrow> uuid \<Rightarrow> uuid \<Rightarrow> key_row config_op" where
  "revoke_key env what p keyID =
     stmt env what (update_rows cf_keys put_keys ErrAPIKeyNotFound (tenant_key keyID p)
       (\<lambda>k. k\<lparr>kr_Status := ''revoked'', kr_DeletedAt := Some (de_now env), kr_UpdatedAt := de_now env\<rparr>))"

definition Key_Revoke :: "db_env \<Rightarrow> uuid \<Rightarrow> uuid \<Rightarrow> key_row config_op" where
  "Key_Revoke env p keyID = withTenantTx env (revoke_key env ''api_key revoke'' p keyID)"

text \<open>The replacement takes the name and the expiry of the old key; its roles and scopes are left to the table's default.\<close>

definition Key_Rotate :: "db_env \<Rightarrow> (string \<Rightarrow> string) \<Rightarrow> uuid \<Rightarrow> uuid \<Rightarrow> string \<Rightarrow> key_row config_op" where
  "Key_Rotate env sha256hex p oldKeyID rawNewKey =
     withTenantTx env
       (seq (revoke_key env ''revoke old key'' p oldKeyID)
          (\<lambda>old. stmt env ''api_key rotate''
             (insert_key env p ''api_key rotate'' (kr_Name old) (sha256hex rawNewKey) (kr_ExpiresAt old) [] [])))"

definition Key_GetByID :: "db_env \<Rightarrow> uuid \<Rightarrow> uuid \<Rightarrow> key_row config_op" where
  "Key_GetByID env p i = withTenantTx env (stmt env ''api_key get'' (\<lambda>db.
     (case find (tenant_key i p) (cf_keys db) of None \<Rightarrow> (Inl ErrAPIKeyNotFound, db) | Some k \<Rightarrow> (Inr k, db))))"

definition Key_ListAll :: "db_env \<Rightarrow> uuid \<Rightarrow> int \<Rightarrow> int \<Rightarrow> (key_row list \<times> nat) config_op" where
  "Key_ListAll env p limit offset = list_rows env ''count api keys'' ''query api_keys'' limit offset (\<lambda>db.
     sort_key (\<lambda>k. - kr_CreatedAt k) (filter (\<lambda>k. of_tenant p (kr_ProjectID k) (kr_DeletedAt k)) (cf_keys db)))"

text \<open>
  \<open>FindByHash\<close>, in a transaction of the tenant when there is one: a deleted or expired key is given as
  revoked, and a hash nobody has as no record.
\<close>

definition findByHashQuery :: "db_env \<Rightarrow> (uuid \<Rightarrow> bool) \<Rightarrow> string \<Rightarrow> api_key_record option config_op" where
  "findByHashQuery env sees hash = stmt env ''api_key find by hash'' (\<lambda>db.
     (Inr (map_option (\<lambda>k. \<lparr>ak_ClientID = kr_ProjectID k,
          ak_RevokedAt = (if (case kr_ExpiresAt k of None \<Rightarrow> False | Some t \<Rightarrow> t < de_clock env) then Some (de_clock env) else kr_DeletedAt k),
          ak_Roles = kr_Roles k, ak_Scopes = kr_Scopes k\<rparr>)
        (find (\<lambda>k. kr_KeyHash k = hash \<and> sees (kr_ProjectID k)) (cf_keys db))), db))"

definition FindByHash :: "db_env \<Rightarrow> uuid option \<Rightarrow> string \<Rightarrow> api_key_record option config_op" where
  "FindByHash env tenant hash =
     (case tenant of
        None \<Rightarrow> findByHashQuery env (\<lambda>_. True) hash
      | Some p \<Rightarrow> withTenantTx env (findByHashQuery env (\<lambda>q. q = p) hash))"

section \<open>Services\<close>

definition validMatchTypes :: "string list" where "validMatchTypes = [''exact'', ''prefix'']"
definition validProtocols :: "string list" where "validProtocols = [''http'', ''grpc'']"
definition validLBStrategies :: "string list" where "validLBStrategies = [''round_robin'', ''least_conn'']"

record route_request =
  rq_Name :: string
  rq_Path :: string
  rq_UpstreamID :: uuid
  rq_PolicyID :: "uuid option"
  rq_Methods :: "string list"
  rq_MatchType :: string
  rq_Enabled :: bool

text \<open>The route of a request; the fields the database sets are empty.\<close>

definition requested_route :: "route_request \<Rightarrow> config_error + route_row" where
  "requested_route req =
     (let matchType = (if rq_MatchType req = [] then ''prefix'' else rq_MatchType req)
      in if matchType \<notin> set validMatchTypes then Inl ErrInvalidMatchType
         else Inr \<lparr>rr_ID = [], rr_ProjectID = [], rr_Name = rq_Name req, rr_Path = rq_Path req, rr_UpstreamID = Some (rq_UpstreamID req),
                   rr_PolicyID = (case rq_PolicyID req of Some i \<Rightarrow> if i \<noteq> [] then Some i else None | None \<Rightarrow> None),
                   rr_MatchType = matchType, rr_Enabled = rq_Enabled req, rr_Methods = rq_Methods req,
                   rr_CreatedAt = 0, rr_UpdatedAt = 0, rr_DeletedAt = None\<rparr>)"

definition CreateRoute :: "db_env \<Rightarrow> (string \<Rightarrow> uuid option) \<Rightarrow> uuid \<Rightarrow> uuid \<Rightarrow> route_request \<Rightarrow> route_row config_op" where
  "CreateRoute env pg fresh p req = (case requested_route req of Inl e \<Rightarrow> throw e | Inr rt \<Rightarrow> Route_Create env pg fresh p rt)"

definition UpdateRoute :: "db_env \<Rightarrow> (string \<Rightarrow> uuid option) \<Rightarrow> uuid \<Rightarrow> string \<Rightarrow> route_request \<Rightarrow> route_row config_op" where
  "UpdateRoute env pg p i req =
     (case requested_route req of Inl e \<Rightarrow> throw e | Inr rt \<Rightarrow> with_id pg i (\<lambda>i. Route_Update env pg p i rt))"

record upstream_request =
  uq_Name :: string
  uq_TargetURL :: string
  uq_Protocol :: string
  uq_HealthPath :: string
  uq_LBStrategy :: string
  uq_Enabled :: bool

definition requested_upstream :: "upstream_request \<Rightarrow> config_error + upstream_row" where
  "requested_upstream req =
     (let lbStrategy = (if uq_LBStrategy req = [] then ''round_robin'' else uq_LBStrategy req)
      in if uq_Protocol req \<notin> set validProtocols then Inl ErrInvalidProtocol
         else if lbStrategy \<notin> set validLBStrategies then Inl ErrInvalidLBStrategy
         else Inr \<lparr>ur_ID = [], ur_ProjectID = [], ur_Name = uq_Name req, ur_TargetURL = uq_TargetURL req, ur_Protocol = uq_Protocol req,
                   ur_HealthPath = uq_HealthPath req, ur_LBStrategy = lbStrategy, ur_Enabled = uq_Enabled req,
                   ur_CreatedAt = 0, ur_UpdatedAt = 0, ur_DeletedAt = None\<rparr>)"

definition CreateUpstream :: "db_env \<Rightarrow> uuid \<Rightarrow> upstream_request \<Rightarrow> upstream_row config_op" where
  "CreateUpstream env p req = (case requested_upstream req of Inl e \<Rightarrow> throw e | Inr u \<Rightarrow> Upstream_Create env p u)"

definition UpdateUpstream :: "db_env \<Rightarrow> (string \<Rightarrow> uuid option) \<Rightarrow> uuid \<Rightarrow> string \<Rightarrow> upstream_request \<Rightarrow> upstream_row config_op" where
  "UpdateUpstream env pg p i req =
     (case requested_upstream req of Inl e \<Rightarrow> throw e | Inr u \<Rightarrow> with_id pg i (\<lambda>i. Upstream_Update env p i u))"

definition AddTarget :: "db_env \<Rightarrow> uuid \<Rightarrow> string \<Rightarrow> int \<Rightarrow> bool \<Rightarrow> target_row config_op" where
  "AddTarget env upstreamID targetURL weight enabled =
     Target_Add env upstreamID targetURL (if weight \<le> 0 then 1 else weight) enabled"

record policy_request =
  pq_Name :: string
  pq_AuthRequired :: bool
  pq_RateLimitRPM :: int
  pq_AllowedOrigins :: "string list"
  pq_AllowedRoles :: "string list"
  pq_AllowedScopes :: "string list"
  pq_IPAllowlist :: "string list"
  pq_IPBlocklist :: "string list"

definition ValidateIPRules :: "string \<Rightarrow> string list \<Rightarrow> config_error option" where
  "ValidateIPRules field ips =
     (if length ips = 0 then None
      else case NewIPChecker ips of Inl e \<Rightarrow> Some (InvalidIPRule field e) | Inr _ \<Rightarrow> None)"

definition requested_policy :: "policy_request \<Rightarrow> config_error + policy_row" where
  "requested_policy req =
     (if pq_RateLimitRPM req < 0 then Inl InvalidRateLimit
      else case ValidateIPRules ''ip_allowlist'' (pq_IPAllowlist req) of
             Some e \<Rightarrow> Inl e
           | None \<Rightarrow>
               (case ValidateIPRules ''ip_blocklist'' (pq_IPBlocklist req) of
                  Some e \<Rightarrow> Inl e
                | None \<Rightarrow>
                    Inr \<lparr>po_ID = [], po_ProjectID = [], po_Name = pq_Name req, po_AuthRequired = pq_AuthRequired req,
                         po_RateLimitRPM = pq_RateLimitRPM req, po_AllowedOrigins = pq_AllowedOrigins req,
                         po_AllowedRoles = pq_AllowedRoles req, po_AllowedScopes = pq_AllowedScopes req,
                         po_IPAllowlist = pq_IPAllowlist req, po_IPBlocklist = pq_IPBlocklist req,
                         po_CreatedAt = 0, po_UpdatedAt = 0, po_DeletedAt = None\<rparr>))"

definition CreatePolicy :: "db_env \<Rightarrow> uuid \<Rightarrow> policy_request \<Rightarrow> policy_row config_op" where
  "CreatePolicy env p req = (case requested_policy req of Inl e \<Rightarrow> throw e | Inr x \<Rightarrow> Policy_Create env p x)"

definition UpdatePolicy :: "db_env \<Rightarrow> (string \<Rightarrow> uuid option) \<Rightarrow> uuid \<Rightarrow> string \<Rightarrow> policy_request \<Rightarrow> policy_row config_op" where
  "UpdatePolicy env pg p i req =
     (case requested_policy req of Inl e \<Rightarrow> throw e | Inr x \<Rightarrow> with_id pg i (\<lambda>i. Policy_Update env p i x))"

text \<open>The random source gives 16 bytes or fails; the key is printed in hexadecimal behind a prefix.\<close>

definition hexDigit :: "nat \<Rightarrow> char" where
  "hexDigit n = char_of (if n < 10 then 48 + n else 87 + n)"

definition hexEncode :: "string \<Rightarrow> string" where
  "hexEncode bs = concat (map (\<lambda>b. let n = of_char b :: nat in [hexDigit (n div 16), hexDigit (n mod 16)]) bs)"

definition GenerateRawKey :: "string + string \<Rightarrow> config_error + string" where
  "GenerateRawKey random = (case random of Inl e \<Rightarrow> Inl (RandomFailed e) | Inr b \<Rightarrow> Inr (''cg_'' @ hexEncode b))"

definition CreateApiKey ::
  "db_env \<Rightarrow> (string \<Rightarrow> string) \<Rightarrow> string + string \<Rightarrow> uuid \<Rightarrow> string \<Rightarrow> go_time option \<Rightarrow> string list \<Rightarrow> string list \<Rightarrow> (key_row \<times> string) config_op" where
  "CreateApiKey env sha256hex random p name expiresAt roles scopes =
     (case GenerateRawKey random of
        Inl e \<Rightarrow> throw e
      | Inr rawKey \<Rightarrow> seq (Key_Create env sha256hex p name rawKey expiresAt roles scopes) (\<lambda>rec. return (rec, rawKey)))"

definition RotateApiKey :: "db_env \<Rightarrow> (string \<Rightarrow> uuid option) \<Rightarrow> (string \<Rightarrow> string) \<Rightarrow> string + string \<Rightarrow> uuid \<Rightarrow> string \<Rightarrow> string config_op" where
  "RotateApiKey env pg sha256hex random p i =
     (case GenerateRawKey random of
        Inl e \<Rightarrow> throw e
      | Inr rawKey \<Rightarrow> seq (with_id pg i (\<lambda>i. Key_Rotate env sha256hex p i rawKey)) (\<lambda>_. return rawKey))"

end
