(* ===== verification/Config_Handlers.thy ===== *)
theory Config_Handlers
  imports Config_Store
begin

text \<open>
  The handlers that change routes, upstreams, targets, policies and API keys (\<^verbatim>\<open>internal/admin/handler\<close>), behind
  the guards of their routes, and what any request can do to the rows of a project.

  A handler answers with a status and, where it made an API key, the key itself. A body that is no valid JSON or
  lacks a required field is \<^const>\<open>None\<close>. The entry in the audit log is left out.
\<close>

section \<open>Handlers\<close>

record config_env =
  ce_db :: db_env
  ce_pg :: "string \<Rightarrow> uuid option"
  ce_sha256hex :: "string \<Rightarrow> string"
  ce_random :: "string + string"
  ce_fresh :: uuid

type_synonym config_answer = "nat \<times> string option"

definition config_reply :: "(config_error \<Rightarrow> nat) \<Rightarrow> nat \<Rightarrow> ('a \<Rightarrow> string option) \<Rightarrow> (config_error + 'a) \<times> config_db \<Rightarrow> config_answer \<times> config_db" where
  "config_reply status ok key res =
     (case res of (Inl e, db) \<Rightarrow> ((status e, None), db) | (Inr a, db) \<Rightarrow> ((ok, key a), db))"

abbreviation "no_key \<equiv> (\<lambda>_. None)"

definition on_body :: "'b option \<Rightarrow> ('b \<Rightarrow> config_db \<Rightarrow> config_answer \<times> config_db) \<Rightarrow> config_db \<Rightarrow> config_answer \<times> config_db" where
  "on_body body f db = (case body of None \<Rightarrow> ((400, None), db) | Some req \<Rightarrow> f req db)"

definition RouteHandler_Create :: "config_env \<Rightarrow> uuid \<Rightarrow> route_request option \<Rightarrow> config_db \<Rightarrow> config_answer \<times> config_db" where
  "RouteHandler_Create ce p body = on_body body (\<lambda>req db.
     config_reply (\<lambda>e. if e = ErrInvalidMatchType then 400 else if e = ErrRouteNameConflict then 409 else 500) 201 no_key
       (CreateRoute (ce_db ce) (ce_pg ce) (ce_fresh ce) p req db))"

definition RouteHandler_Update :: "config_env \<Rightarrow> uuid \<Rightarrow> string \<Rightarrow> route_request option \<Rightarrow> config_db \<Rightarrow> config_answer \<times> config_db" where
  "RouteHandler_Update ce p i body db =
     (if i = [] then ((400, None), db)
      else on_body body (\<lambda>req db.
        config_reply (\<lambda>e. if e = ErrInvalidMatchType then 400 else if e = ErrRouteNotFound then 404 else 500) 200 no_key
          (UpdateRoute (ce_db ce) (ce_pg ce) p i req db)) db)"

definition on_route :: "config_env \<Rightarrow> string \<Rightarrow> (uuid \<Rightarrow> route_row config_op) \<Rightarrow> config_db \<Rightarrow> config_answer \<times> config_db" where
  "on_route ce i op db =
     (if i = [] then ((400, None), db)
      else config_reply (\<lambda>e. if e = ErrRouteNotFound then 404 else 500) 200 no_key (with_id (ce_pg ce) i op db))"

definition RouteHandler_Delete :: "config_env \<Rightarrow> uuid \<Rightarrow> string \<Rightarrow> config_db \<Rightarrow> config_answer \<times> config_db" where
  "RouteHandler_Delete ce p i = on_route ce i (Route_Delete (ce_db ce) p)"

definition RouteHandler_Disable :: "config_env \<Rightarrow> uuid \<Rightarrow> string \<Rightarrow> config_db \<Rightarrow> config_answer \<times> config_db" where
  "RouteHandler_Disable ce p i = on_route ce i (Route_Disable (ce_db ce) p)"

definition RouteHandler_Enable :: "config_env \<Rightarrow> uuid \<Rightarrow> string \<Rightarrow> config_db \<Rightarrow> config_answer \<times> config_db" where
  "RouteHandler_Enable ce p i = on_route ce i (Route_Enable (ce_db ce) p)"

definition PolicyHandler_AssignPolicy :: "config_env \<Rightarrow> uuid \<Rightarrow> string \<Rightarrow> string option \<Rightarrow> config_db \<Rightarrow> config_answer \<times> config_db" where
  "PolicyHandler_AssignPolicy ce p routeID body = on_body body (\<lambda>policyID db.
     config_reply (\<lambda>e. if e = ErrRouteNotFound \<or> e = ErrPolicyNotFound then 404 else 500) 200 no_key
       (Route_AssignPolicy (ce_db ce) (ce_pg ce) p routeID policyID db))"

definition PolicyHandler_RemovePolicy :: "config_env \<Rightarrow> uuid \<Rightarrow> string \<Rightarrow> config_db \<Rightarrow> config_answer \<times> config_db" where
  "PolicyHandler_RemovePolicy ce p routeID db =
     config_reply (\<lambda>e. if e = ErrRouteNotFound then 404 else 500) 200 no_key
       (with_id (ce_pg ce) routeID (Route_RemovePolicy (ce_db ce) p) db)"

definition UpstreamHandler_Create :: "config_env \<Rightarrow> uuid \<Rightarrow> upstream_request option \<Rightarrow> config_db \<Rightarrow> config_answer \<times> config_db" where
  "UpstreamHandler_Create ce p body = on_body body (\<lambda>req db.
     config_reply (\<lambda>e. if e = ErrInvalidProtocol \<or> e = ErrInvalidLBStrategy then 400 else if e = ErrUpstreamNameConflict then 409 else 500) 201 no_key
       (CreateUpstream (ce_db ce) p req db))"

definition UpstreamHandler_Update :: "config_env \<Rightarrow> uuid \<Rightarrow> string \<Rightarrow> upstream_request option \<Rightarrow> config_db \<Rightarrow> config_answer \<times> config_db" where
  "UpstreamHandler_Update ce p i body = on_body body (\<lambda>req db.
     config_reply (\<lambda>e. if e = ErrInvalidProtocol \<or> e = ErrInvalidLBStrategy then 400 else if e = ErrUpstreamNotFound then 404 else 500) 200 no_key
       (UpdateUpstream (ce_db ce) (ce_pg ce) p i req db))"

definition UpstreamHandler_Disable :: "config_env \<Rightarrow> uuid \<Rightarrow> string \<Rightarrow> config_db \<Rightarrow> config_answer \<times> config_db" where
  "UpstreamHandler_Disable ce p i db =
     config_reply (\<lambda>e. if e = ErrUpstreamNotFound then 404 else 500) 200 no_key (with_id (ce_pg ce) i (Upstream_Disable (ce_db ce) p) db)"

definition UpstreamHandler_Delete :: "config_env \<Rightarrow> uuid \<Rightarrow> string \<Rightarrow> config_db \<Rightarrow> config_answer \<times> config_db" where
  "UpstreamHandler_Delete ce p i db =
     config_reply (\<lambda>e. if e = ErrUpstreamNotFound then 404 else 500) 200 no_key (with_id (ce_pg ce) i (Upstream_Delete (ce_db ce) p) db)"

record target_request =
  tq_TargetURL :: string
  tq_Weight :: int
  tq_Enabled :: "bool option"

definition TargetHandler_Add :: "config_env \<Rightarrow> string \<Rightarrow> target_request option \<Rightarrow> config_db \<Rightarrow> config_answer \<times> config_db" where
  "TargetHandler_Add ce upstreamID body db =
     (if upstreamID = [] then ((400, None), db)
      else on_body body (\<lambda>req db.
        config_reply (\<lambda>_. 500) 201 no_key
          (with_id (ce_pg ce) upstreamID (\<lambda>u. AddTarget (ce_db ce) u (tq_TargetURL req) (tq_Weight req)
             (case tq_Enabled req of None \<Rightarrow> True | Some b \<Rightarrow> b)) db)) db)"

definition TargetHandler_Remove :: "config_env \<Rightarrow> string \<Rightarrow> config_db \<Rightarrow> config_answer \<times> config_db" where
  "TargetHandler_Remove ce targetID db =
     (if targetID = [] then ((400, None), db)
      else config_reply (\<lambda>e. if e = ErrUpstreamTargetNotFound then 404 else 500) 200 no_key
             (with_id (ce_pg ce) targetID (Target_Remove (ce_db ce)) db))"

definition policy_status :: "config_error \<Rightarrow> nat" where
  "policy_status e = (case e of InvalidRateLimit \<Rightarrow> 400 | InvalidIPRule _ _ \<Rightarrow> 400 | _ \<Rightarrow> 500)"

definition PolicyHandler_Create :: "config_env \<Rightarrow> uuid \<Rightarrow> policy_request option \<Rightarrow> config_db \<Rightarrow> config_answer \<times> config_db" where
  "PolicyHandler_Create ce p body = on_body body (\<lambda>req db.
     config_reply (\<lambda>e. if e = ErrPolicyNameConflict then 409 else policy_status e) 201 no_key (CreatePolicy (ce_db ce) p req db))"

definition PolicyHandler_Update :: "config_env \<Rightarrow> uuid \<Rightarrow> string \<Rightarrow> policy_request option \<Rightarrow> config_db \<Rightarrow> config_answer \<times> config_db" where
  "PolicyHandler_Update ce p i body = on_body body (\<lambda>req db.
     config_reply (\<lambda>e. if e = ErrPolicyNotFound then 404 else policy_status e) 200 no_key (UpdatePolicy (ce_db ce) (ce_pg ce) p i req db))"

definition PolicyHandler_Delete :: "config_env \<Rightarrow> uuid \<Rightarrow> string \<Rightarrow> config_db \<Rightarrow> config_answer \<times> config_db" where
  "PolicyHandler_Delete ce p i db =
     config_reply (\<lambda>e. if e = ErrPolicyNotFound then 404 else 500) 200 no_key (with_id (ce_pg ce) i (Policy_Delete (ce_db ce) p) db)"

record key_request =
  kq_Name :: string
  kq_ExpiresAt :: "go_time option"
  kq_Roles :: "string list"
  kq_Scopes :: "string list"

definition ApiKeyHandler_Create :: "config_env \<Rightarrow> uuid \<Rightarrow> key_request option \<Rightarrow> config_db \<Rightarrow> config_answer \<times> config_db" where
  "ApiKeyHandler_Create ce p body = on_body body (\<lambda>req db.
     config_reply (\<lambda>_. 500) 201 (\<lambda>(rec, rawKey). Some rawKey)
       (CreateApiKey (ce_db ce) (ce_sha256hex ce) (ce_random ce) p (kq_Name req) (kq_ExpiresAt req) (kq_Roles req) (kq_Scopes req) db))"

definition ApiKeyHandler_Rotate :: "config_env \<Rightarrow> uuid \<Rightarrow> string \<Rightarrow> config_db \<Rightarrow> config_answer \<times> config_db" where
  "ApiKeyHandler_Rotate ce p i db =
     (if i = [] then ((400, None), db)
      else config_reply (\<lambda>e. if e = ErrAPIKeyNotFound then 404 else 500) 200 Some
             (RotateApiKey (ce_db ce) (ce_pg ce) (ce_sha256hex ce) (ce_random ce) p i db))"

definition ApiKeyHandler_Revoke :: "config_env \<Rightarrow> uuid \<Rightarrow> string \<Rightarrow> config_db \<Rightarrow> config_answer \<times> config_db" where
  "ApiKeyHandler_Revoke ce p i db =
     (if i = [] then ((400, None), db)
      else config_reply (\<lambda>e. if e = ErrAPIKeyNotFound then 404 else 500) 200 no_key (with_id (ce_pg ce) i (Key_Revoke (ce_db ce) p) db))"

section \<open>Behind the guards\<close>

datatype config_call =
    CreateRouteCall "route_request option" | UpdateRouteCall string "route_request option" | DeleteRouteCall string
  | DisableRouteCall string | EnableRouteCall string | AssignPolicyCall string "string option" | RemovePolicyCall string
  | CreateUpstreamCall "upstream_request option" | UpdateUpstreamCall string "upstream_request option"
  | DisableUpstreamCall string | DeleteUpstreamCall string
  | AddTargetCall string "target_request option" | RemoveTargetCall string string
  | CreatePolicyCall "policy_request option" | UpdatePolicyCall string "policy_request option" | DeletePolicyCall string
  | CreateKeyCall "key_request option" | RotateKeyCall string | RevokeKeyCall string

fun config_route :: "config_call \<Rightarrow> string \<times> string" where
  "config_route (CreateRouteCall _) = (''POST'', ''/admin/v1/projects/:projectId/routes'')"
| "config_route (UpdateRouteCall _ _) = (''PUT'', ''/admin/v1/projects/:projectId/routes/:id'')"
| "config_route (DeleteRouteCall _) = (''DELETE'', ''/admin/v1/projects/:projectId/routes/:id'')"
| "config_route (DisableRouteCall _) = (''PATCH'', ''/admin/v1/projects/:projectId/routes/:id/disable'')"
| "config_route (EnableRouteCall _) = (''PATCH'', ''/admin/v1/projects/:projectId/routes/:id/enable'')"
| "config_route (AssignPolicyCall _ _) = (''POST'', ''/admin/v1/projects/:projectId/routes/:id/policy'')"
| "config_route (RemovePolicyCall _) = (''DELETE'', ''/admin/v1/projects/:projectId/routes/:id/policy'')"
| "config_route (CreateUpstreamCall _) = (''POST'', ''/admin/v1/projects/:projectId/upstreams'')"
| "config_route (UpdateUpstreamCall _ _) = (''PUT'', ''/admin/v1/projects/:projectId/upstreams/:id'')"
| "config_route (DisableUpstreamCall _) = (''PATCH'', ''/admin/v1/projects/:projectId/upstreams/:id/disable'')"
| "config_route (DeleteUpstreamCall _) = (''DELETE'', ''/admin/v1/projects/:projectId/upstreams/:id'')"
| "config_route (AddTargetCall _ _) = (''POST'', ''/admin/v1/projects/:projectId/upstreams/:id/targets'')"
| "config_route (RemoveTargetCall _ _) = (''DELETE'', ''/admin/v1/projects/:projectId/upstreams/:id/targets/:targetId'')"
| "config_route (CreatePolicyCall _) = (''POST'', ''/admin/v1/projects/:projectId/policies'')"
| "config_route (UpdatePolicyCall _ _) = (''PUT'', ''/admin/v1/projects/:projectId/policies/:id'')"
| "config_route (DeletePolicyCall _) = (''DELETE'', ''/admin/v1/projects/:projectId/policies/:id'')"
| "config_route (CreateKeyCall _) = (''POST'', ''/admin/v1/projects/:projectId/keys'')"
| "config_route (RotateKeyCall _) = (''POST'', ''/admin/v1/projects/:projectId/keys/:id/rotate'')"
| "config_route (RevokeKeyCall _) = (''DELETE'', ''/admin/v1/projects/:projectId/keys/:id'')"

fun config_handle :: "config_env \<Rightarrow> uuid \<Rightarrow> config_call \<Rightarrow> config_db \<Rightarrow> config_answer \<times> config_db" where
  "config_handle ce p (CreateRouteCall body) = RouteHandler_Create ce p body"
| "config_handle ce p (UpdateRouteCall i body) = RouteHandler_Update ce p i body"
| "config_handle ce p (DeleteRouteCall i) = RouteHandler_Delete ce p i"
| "config_handle ce p (DisableRouteCall i) = RouteHandler_Disable ce p i"
| "config_handle ce p (EnableRouteCall i) = RouteHandler_Enable ce p i"
| "config_handle ce p (AssignPolicyCall i body) = PolicyHandler_AssignPolicy ce p i body"
| "config_handle ce p (RemovePolicyCall i) = PolicyHandler_RemovePolicy ce p i"
| "config_handle ce p (CreateUpstreamCall body) = UpstreamHandler_Create ce p body"
| "config_handle ce p (UpdateUpstreamCall i body) = UpstreamHandler_Update ce p i body"
| "config_handle ce p (DisableUpstreamCall i) = UpstreamHandler_Disable ce p i"
| "config_handle ce p (DeleteUpstreamCall i) = UpstreamHandler_Delete ce p i"
| "config_handle ce p (AddTargetCall i body) = TargetHandler_Add ce i body"
| "config_handle ce p (RemoveTargetCall i t) = TargetHandler_Remove ce t"
| "config_handle ce p (CreatePolicyCall body) = PolicyHandler_Create ce p body"
| "config_handle ce p (UpdatePolicyCall i body) = PolicyHandler_Update ce p i body"
| "config_handle ce p (DeletePolicyCall i) = PolicyHandler_Delete ce p i"
| "config_handle ce p (CreateKeyCall body) = ApiKeyHandler_Create ce p body"
| "config_handle ce p (RotateKeyCall i) = ApiKeyHandler_Rotate ce p i"
| "config_handle ce p (RevokeKeyCall i) = ApiKeyHandler_Revoke ce p i"

text \<open>The guards look at the tenancy tables; the handlers work for the project the guards let through.\<close>

definition config_serve ::
  "config_env \<Rightarrow> admin_env \<Rightarrow> tenancy \<Rightarrow> string \<Rightarrow> (string \<Rightarrow> string) \<Rightarrow> string \<Rightarrow> config_call \<Rightarrow> config_db \<Rightarrow> config_answer \<times> config_db" where
  "config_serve ce ae td remoteAddr headers projectId call db =
     (case List.find (\<lambda>(m, p, _). (m, p) = config_route call) admin_routes of
        None \<Rightarrow> ((404, None), db)
      | Some (_, _, guard) \<Rightarrow>
          (case chain (guards_of ae guard) td
                  \<lparr>cx_RemoteAddr = remoteAddr, cx_Header = headers, cx_projectId = projectId, cx_userID = None, cx_tenant = None\<rparr> of
             Inl status \<Rightarrow> ((status, None), db)
           | Inr c \<Rightarrow>
               (case cx_tenant c of
                  None \<Rightarrow> ((500, None), db)
                | Some tc \<Rightarrow> config_handle ce (tc_ProjectID tc) call db)))"

section \<open>What operations leave alone\<close>

definition keeps :: "(config_db \<Rightarrow> 'v) \<Rightarrow> 'a config_op \<Rightarrow> bool" where
  "keeps F op \<longleftrightarrow> (\<forall>db. F (snd (op db)) = F db)"

lemma keepsD: "keeps F op \<Longrightarrow> F (snd (op db)) = F db"
  by (simp add: keeps_def)

lemma keeps_tx [intro]: "keeps F op \<Longrightarrow> keeps F (withTenantTx env op)"
  unfolding keeps_def withTenantTx_def by (auto split: option.split prod.split sum.split) (metis snd_conv)

lemma keeps_stmt [intro]: "keeps F op \<Longrightarrow> keeps F (stmt env name op)"
  by (simp add: keeps_def stmt_def split: option.split)

lemma keeps_seq [intro]: "keeps F m \<Longrightarrow> (\<And>a. keeps F (f a)) \<Longrightarrow> keeps F (seq m f)"
  unfolding keeps_def seq_def by (auto split: prod.split sum.split) (metis snd_conv)+

lemma keeps_pure [intro, simp]: "keeps F (throw e)" "keeps F (return a)"
  by (simp_all add: keeps_def throw_def return_def)

lemma keeps_with_id [intro]: "(\<And>i. keeps F (op i)) \<Longrightarrow> keeps F (with_id pg raw op)"
  by (simp add: with_id_def split: option.split)

lemma keeps_answer: "keeps F op \<Longrightarrow> F (snd (config_reply status ok key (op db))) = F db"
  using keepsD [of F op db] by (auto simp: config_reply_def split: prod.split sum.split)

lemma keeps_on_body: "(\<And>req db. F (snd (f req db)) = F db) \<Longrightarrow> F (snd (on_body body f db)) = F db"
  by (simp add: on_body_def split: option.split)

text \<open>The rows of all projects but one, in the tables that have a project.\<close>

definition others :: "uuid \<Rightarrow> config_db \<Rightarrow> route_row list \<times> upstream_row list \<times> policy_row list \<times> key_row list" where
  "others p db =
     (filter (\<lambda>r. rr_ProjectID r \<noteq> p) (cf_routes db), filter (\<lambda>r. ur_ProjectID r \<noteq> p) (cf_upstreams db),
      filter (\<lambda>r. po_ProjectID r \<noteq> p) (cf_policies db), filter (\<lambda>r. kr_ProjectID r \<noteq> p) (cf_keys db))"

text \<open>A table with a project column: writes to rows of one project leave the other projects alone.\<close>

locale tenant_table =
  fixes get :: "config_db \<Rightarrow> 'r list" and put :: "'r list \<Rightarrow> config_db \<Rightarrow> config_db" and project :: "'r \<Rightarrow> uuid"
  assumes put_others: "filter (\<lambda>r. project r \<noteq> p) t = filter (\<lambda>r. project r \<noteq> p) (get db) \<Longrightarrow> others p (put t db) = others p db"
begin

lemma put_update:
  assumes "\<And>r. P r \<Longrightarrow> project r = p \<and> project (f r) = p"
  shows "others p (put (sql_update P f (get db)) db) = others p db"
  by (rule put_others, rule filter_sql_update) (use assms in blast)

lemma put_new: "project r = p \<Longrightarrow> others p (put (get db @ [r]) db) = others p db"
  by (rule put_others) simp

lemma update_keeps:
  assumes "\<And>r. P r \<Longrightarrow> project r = p \<and> project (f r) = p"
  shows "keeps (others p) (update_rows get put none P f)"
  using put_update [OF assms] by (simp add: keeps_def update_rows_def split: option.split)

end

interpretation route_table: tenant_table cf_routes put_routes rr_ProjectID
  by unfold_locales (simp add: others_def)

interpretation upstream_table: tenant_table cf_upstreams put_upstreams ur_ProjectID
  by unfold_locales (simp add: others_def)

interpretation policy_table: tenant_table cf_policies put_policies po_ProjectID
  by unfold_locales (simp add: others_def)

interpretation key_table: tenant_table cf_keys put_keys kr_ProjectID
  by unfold_locales (simp add: others_def)

lemma others_targets [simp]: "others p (db\<lparr>cf_targets := t\<rparr>) = others p db"
  by (simp add: others_def)

lemma keeps_id: "(\<And>db. snd (op db) = db) \<Longrightarrow> keeps F op"
  by (simp add: keeps_def)

lemma update_route_keeps:
  assumes "\<And>r. rr_ProjectID (f r) = rr_ProjectID r"
  shows "keeps (others p) (update_route env name p i f)"
  unfolding update_route_def by (intro keeps_stmt route_table.update_keeps) (use assms in simp)

lemma route_ops_keep:
  "keeps (others p) (Route_Delete env p i)" "keeps (others p) (Route_Disable env p i)" "keeps (others p) (Route_Enable env p i)"
  "keeps (others p) (Route_RemovePolicy env p i)" "keeps (others p) (Route_AssignPolicy env pg p a b)"
  unfolding Route_Delete_def Route_Disable_def Route_Enable_def Route_RemovePolicy_def Route_AssignPolicy_def
  by (intro keeps_tx update_route_keeps keeps_with_id keeps_seq keeps_stmt keeps_id; simp)+

lemma CreateRoute_keeps: "keeps (others p) (CreateRoute env pg fresh p req)"
proof -
  have "keeps (others p) (Route_Create env pg fresh p rt)" for rt
    unfolding Route_Create_def
    by (intro keeps_tx keeps_stmt) (auto simp: keeps_def Let_def route_table.put_new split: option.split)
  then show ?thesis by (auto simp: CreateRoute_def split: sum.split)
qed

lemma UpdateRoute_keeps: "keeps (others p) (UpdateRoute env pg p i req)"
proof -
  have "keeps (others p) (Route_Update env pg p j rt)" for j rt
    unfolding Route_Update_def
    by (intro keeps_tx keeps_stmt)
      (auto simp: keeps_def set_route_def intro!: route_table.put_update split: option.split)
  then show ?thesis by (auto simp: UpdateRoute_def split: sum.split)
qed

lemma upstream_ops_keep:
  "keeps (others p) (CreateUpstream env p req)" "keeps (others p) (UpdateUpstream env pg p raw req)"
  "keeps (others p) (Upstream_Disable env p i)" "keeps (others p) (Upstream_Delete env p i)"
proof -
  have "keeps (others p) (Upstream_Create env p u)" for u
    unfolding Upstream_Create_def
    by (intro keeps_tx keeps_stmt) (auto simp: keeps_def Let_def upstream_table.put_new)
  then show "keeps (others p) (CreateUpstream env p req)" by (auto simp: CreateUpstream_def split: sum.split)
  have "keeps (others p) (Upstream_Update env p j u)" for j u
    unfolding Upstream_Update_def
    by (intro keeps_tx keeps_stmt) (auto simp: keeps_def Let_def intro!: upstream_table.put_update split: option.split)
  then show "keeps (others p) (UpdateUpstream env pg p raw req)" by (auto simp: UpdateUpstream_def split: sum.split)
  show "keeps (others p) (Upstream_Disable env p i)"
    unfolding Upstream_Disable_def by (intro keeps_tx keeps_stmt upstream_table.update_keeps) simp
  have "keeps (others p) (\<lambda>db. (Inr (), put_routes
      (sql_update (\<lambda>r. rr_UpstreamID r = Some i \<and> of_tenant p (rr_ProjectID r) (rr_DeletedAt r))
         (\<lambda>r. r\<lparr>rr_UpstreamID := None, rr_UpdatedAt := de_now env\<rparr>) (cf_routes db)) db))"
    unfolding keeps_def snd_conv by (intro allI route_table.put_update) simp
  then show "keeps (others p) (Upstream_Delete env p i)"
    unfolding Upstream_Delete_def by (intro keeps_tx keeps_seq keeps_stmt upstream_table.update_keeps) (simp_all add: keeps_def)
qed

lemma target_ops_keep: "keeps (others p) (AddTarget env u url w b)" "keeps (others p) (Target_Remove env i)"
  unfolding AddTarget_def Target_Add_def Target_Remove_def
  by (intro keeps_tx keeps_stmt; auto simp: keeps_def Let_def update_rows_def split: option.split)+

lemma policy_ops_keep:
  "keeps (others p) (CreatePolicy env p req)" "keeps (others p) (UpdatePolicy env pg p raw req)" "keeps (others p) (Policy_Delete env p i)"
proof -
  have "keeps (others p) (Policy_Create env p x)" for x
    unfolding Policy_Create_def by (intro keeps_tx keeps_stmt) (auto simp: keeps_def Let_def policy_table.put_new)
  then show "keeps (others p) (CreatePolicy env p req)" by (auto simp: CreatePolicy_def split: sum.split)
  have "keeps (others p) (Policy_Update env p j x)" for j x
    unfolding Policy_Update_def
    by (intro keeps_tx keeps_stmt) (auto simp: keeps_def Let_def intro!: policy_table.put_update split: option.split)
  then show "keeps (others p) (UpdatePolicy env pg p raw req)" by (auto simp: UpdatePolicy_def split: sum.split)
  have "keeps (others p) (\<lambda>db. (Inr (), put_routes
      (sql_update (\<lambda>r. rr_PolicyID r = Some i \<and> of_tenant p (rr_ProjectID r) (rr_DeletedAt r))
         (\<lambda>r. r\<lparr>rr_PolicyID := None, rr_UpdatedAt := de_now env\<rparr>) (cf_routes db)) db))"
    unfolding keeps_def snd_conv by (intro allI route_table.put_update) simp
  then show "keeps (others p) (Policy_Delete env p i)"
    unfolding Policy_Delete_def by (intro keeps_tx keeps_seq keeps_stmt policy_table.update_keeps) simp_all
qed

lemma key_ops_keep:
  "keeps (others p) (CreateApiKey env sha r p name ex ro sc)" "keeps (others p) (RotateApiKey env pg sha r p raw)"
  "keeps (others p) (Key_Revoke env p i)"
proof -
  have ins: "keeps (others p) (insert_key env p what name h ex ro sc)" for what name h ex ro sc
    by (auto simp: keeps_def insert_key_def Let_def key_table.put_new)
  have rev: "keeps (others p) (revoke_key env what p j)" for what j
    unfolding revoke_key_def by (intro keeps_stmt key_table.update_keeps) simp
  show "keeps (others p) (CreateApiKey env sha r p name ex ro sc)"
    unfolding CreateApiKey_def Key_Create_def by (auto intro!: ins split: sum.split)
  show "keeps (others p) (RotateApiKey env pg sha r p raw)"
    unfolding RotateApiKey_def Key_Rotate_def
    by (cases "GenerateRawKey r") (simp, simp, intro keeps_seq keeps_with_id keeps_tx keeps_stmt ins rev keeps_pure)
  show "keeps (others p) (Key_Revoke env p i)" unfolding Key_Revoke_def by (intro keeps_tx rev)
qed

lemma config_handle_keeps: "others p (snd (config_handle ce p call db)) = others p db"
proof (cases call)
  case (DeleteRouteCall i)
  then show ?thesis by (simp add: RouteHandler_Delete_def on_route_def keeps_answer keeps_with_id route_ops_keep)
next
  case (DisableRouteCall i)
  then show ?thesis by (simp add: RouteHandler_Disable_def on_route_def keeps_answer keeps_with_id route_ops_keep)
next
  case (EnableRouteCall i)
  then show ?thesis by (simp add: RouteHandler_Enable_def on_route_def keeps_answer keeps_with_id route_ops_keep)
qed (simp_all add: RouteHandler_Create_def RouteHandler_Update_def PolicyHandler_AssignPolicy_def PolicyHandler_RemovePolicy_def
    UpstreamHandler_Create_def UpstreamHandler_Update_def UpstreamHandler_Disable_def UpstreamHandler_Delete_def
    TargetHandler_Add_def TargetHandler_Remove_def PolicyHandler_Create_def PolicyHandler_Update_def PolicyHandler_Delete_def
    ApiKeyHandler_Create_def ApiKeyHandler_Rotate_def ApiKeyHandler_Revoke_def
    keeps_on_body keeps_answer keeps_with_id CreateRoute_keeps UpdateRoute_keeps route_ops_keep upstream_ops_keep
    target_ops_keep policy_ops_keep key_ops_keep)

fun needed_role :: "config_call \<Rightarrow> member_role" where
  "needed_role (DeletePolicyCall _) = RoleOwner"
| "needed_role _ = RoleEditor"

lemma config_guard:
  "List.find (\<lambda>(m, p, _). (m, p) = config_route call) admin_routes =
     Some (fst (config_route call), snd (config_route call), Scoped (needed_role call))"
  by (cases call) (simp_all only: config_route.simps needed_role.simps fst_conv snd_conv, code_simp+)

text \<open>A guard that stops a request answers with an error.\<close>

lemma guard_status:
  "AdminIPAllowlist ae td c = Inl s \<Longrightarrow> 400 \<le> s" "AdminAuth ae td c = Inl s \<Longrightarrow> 400 \<le> s" "ProjectScope ae td c = Inl s \<Longrightarrow> 400 \<le> s"
  "RBAC role td c = Inl s \<Longrightarrow> 400 \<le> s" "SuperAdminOnly ae td c = Inl s \<Longrightarrow> 400 \<le> s"
  by (auto simp: AdminIPAllowlist_def AdminAuth_def ProjectScope_def RBAC_def SuperAdminOnly_def Let_def
      split: option.splits if_splits sum.splits)

lemma chain_status: "chain (guards_of ae g) td c = Inl s \<Longrightarrow> 400 \<le> s"
  by (auto simp: guards_of_def split: guard.splits sum.splits dest: guard_status)

text \<open>A success comes from the handler.\<close>

lemma config_serve_success:
  assumes "config_serve ce ae td remoteAddr headers projectId call db = ((status, x), db1)" "status < 400"
  shows "\<exists>p. config_handle ce p call db = ((status, x), db1)"
proof -
  let ?c = "\<lparr>cx_RemoteAddr = remoteAddr, cx_Header = headers, cx_projectId = projectId, cx_userID = None, cx_tenant = None\<rparr>"
  show ?thesis
  proof (cases "chain (guards_of ae (Scoped (needed_role call))) td ?c")
    case (Inl s)
    then show ?thesis using assms chain_status [OF Inl] by (simp add: config_serve_def config_guard)
  next
    case (Inr c)
    then show ?thesis using assms by (auto simp: config_serve_def config_guard split: option.splits)
  qed
qed

text \<open>
  C17. A request that changes routes, upstreams, policies or API keys came with a valid, signed access token of a member of the
  project in its path who may edit the project, or owns it when the request deletes a policy; and it leaves the
  routes, upstreams, policies and keys of every other project as they were, in the same order.
\<close>

theorem config_changes_stay_in_project:
  assumes sound: "admin_jwt_sound (ae_parse ae) verifies"
    and changed: "snd (config_serve ce ae td remoteAddr headers projectId call db) \<noteq> db"
  shows "\<exists>subject p. authenticated ae verifies headers subject \<and> ae_uuid ae projectId = Some p
    \<and> entitled ae td (Scoped (needed_role call)) subject p
    \<and> others p (snd (config_serve ce ae td remoteAddr headers projectId call db)) = others p db"
proof -
  let ?c = "\<lparr>cx_RemoteAddr = remoteAddr, cx_Header = headers, cx_projectId = projectId, cx_userID = None, cx_tenant = None\<rparr>"
  obtain c where c: "chain (guards_of ae (Scoped (needed_role call))) td ?c = Inr c"
    using changed by (auto simp: config_serve_def config_guard split: sum.splits)
  obtain subject p where s: "authenticated ae verifies headers subject" "ae_uuid ae projectId = Some p"
      "entitled ae td (Scoped (needed_role call)) subject p" "tenant_is c p"
    using scoped_admits [OF sound c] by auto
  then have "config_serve ce ae td remoteAddr headers projectId call db = config_handle ce p call db"
    by (auto simp: config_serve_def config_guard c tenant_is_def)
  then show ?thesis using s config_handle_keeps by metis
qed

definition demo_config :: config_env where
  "demo_config = \<lparr>ce_db = quiet 5 ''id1'', ce_pg = (\<lambda>s. Some s), ce_sha256hex = (\<lambda>s. s), ce_random = Inr ''0'', ce_fresh = ''fresh''\<rparr>"

definition empty_config :: config_db where
  "empty_config = \<lparr>cf_routes = [], cf_upstreams = [], cf_targets = [], cf_policies = [], cf_keys = []\<rparr>"

theorem config_changes_stay_in_project_witness:
  "\<exists>subject. authenticated demo_admin_env demo_verifies ann_headers subject
     \<and> entitled demo_admin_env demo_shop (Scoped RoleEditor) subject ''shop''
     \<and> others ''shop'' (snd (config_serve demo_config demo_admin_env demo_shop ''10.0.0.1:5'' ann_headers ''shop''
          (CreateKeyCall (Some \<lparr>kq_Name = ''k'', kq_ExpiresAt = None, kq_Roles = [], kq_Scopes = [''read'']\<rparr>)) empty_config))
       = others ''shop'' empty_config"
proof -
  let ?serve = "config_serve demo_config demo_admin_env demo_shop ''10.0.0.1:5'' ann_headers ''shop''
     (CreateKeyCall (Some \<lparr>kq_Name = ''k'', kq_ExpiresAt = None, kq_Roles = [], kq_Scopes = [''read'']\<rparr>)) empty_config"
  have "map kr_Name (cf_keys (snd ?serve)) = [''k'']" by code_simp
  then have new: "snd ?serve \<noteq> empty_config" by (auto simp: empty_config_def)
  have sound: "admin_jwt_sound (ae_parse demo_admin_env) demo_verifies" by (simp add: demo_admin_env_def demo_sound)
  from config_changes_stay_in_project [OF sound new] show ?thesis by (auto simp: demo_admin_env_def)
qed

end
