(* ===== verification/Config_Sync.thy ===== *)
theory Config_Sync
  imports Config_Handlers Project_JWT_Config Custom_Domain_Store
begin

text \<open>
  From the control plane to the gateways: the snapshot of a project that its gateways fetch
  (\<^verbatim>\<open>GetTenantSnapshot\<close> in \<^verbatim>\<open>internal/admin/handler/tenant_sync.go\<close>, behind the check of the gateway's token),
  and what a change of the configuration means for
  the gateway that reloads afterwards. The coding of the snapshot as JSON is taken to be faithful.
\<close>

section \<open>The snapshot\<close>

text \<open>The targets of one upstream are left out when they cannot be read; each of these queries has its own environment.\<close>

definition snapshot_targets :: "(uuid \<Rightarrow> db_env) \<Rightarrow> uuid \<Rightarrow> upstream list \<Rightarrow> config_db \<Rightarrow> string \<Rightarrow> upstream_target list" where
  "snapshot_targets tenv p upstreams db uid =
     (if list_ex (\<lambda>u. up_ID u = uid) upstreams
      then (case fst (ListByUpstream (tenv uid) p uid db) of Inl _ \<Rightarrow> [] | Inr ts \<Rightarrow> ts)
      else [])"

definition usable_key :: "go_time \<Rightarrow> key_row \<Rightarrow> bool" where
  "usable_key now k \<longleftrightarrow> kr_Status k = ''active'' \<and> (case kr_ExpiresAt k of None \<Rightarrow> True | Some t \<Rightarrow> \<not> t < now)"

definition key_dto :: "key_row \<Rightarrow> tenant_api_key" where
  "key_dto k = \<lparr>tk_KeyHash = kr_KeyHash k, tk_Roles = kr_Roles k, tk_Scopes = kr_Scopes k\<rparr>"

text \<open>The error is the status of the answer.\<close>

definition GetTenantSnapshot ::
  "db_env \<Rightarrow> (uuid \<Rightarrow> db_env) \<Rightarrow> (string \<Rightarrow> uuid option) \<Rightarrow> string \<Rightarrow> config_db \<Rightarrow> domains \<Rightarrow> jwt_configs \<Rightarrow> nat + tenant_snapshot" where
  "GetTenantSnapshot env tenv parse projectParam db cds jwts =
     (case parse projectParam of
        None \<Rightarrow> Inl 400
      | Some p \<Rightarrow>
     (case fst (ListEnabled env p db) of
        Inl _ \<Rightarrow> Inl 500
      | Inr routes \<Rightarrow>
     (case fst (Upstream_ListAll env p 0 0 db) of
        Inl _ \<Rightarrow> Inl 500
      | Inr (upstreams, _) \<Rightarrow>
     (case fst (Key_ListAll env p 0 0 db) of
        Inl _ \<Rightarrow> Inl 500
      | Inr (allKeys, _) \<Rightarrow>
     (case ListEligibleSyncDomains env p cds of
        Inl _ \<Rightarrow> Inl 500
      | Inr customDomains \<Rightarrow>
     (case (case JWTConfig_Get env p jwts of
              Inr cfg \<Rightarrow> (case projectJWTConfigToSync cfg of Inl _ \<Rightarrow> Inl (500::nat) | Inr s \<Rightarrow> Inr (Some s))
            | Inl ErrProjectJWTConfigNotFound \<Rightarrow> Inr None
            | Inl _ \<Rightarrow> Inl 500) of
        Inl status \<Rightarrow> Inl status
      | Inr jwtAuth \<Rightarrow>
          Inr \<lparr>ts_ProjectID = p, ts_Routes = routes, ts_Upstreams = upstreams,
               ts_Targets = snapshot_targets tenv p upstreams db,
               ts_APIKeys = map key_dto (filter (usable_key (de_clock env)) allKeys),
               ts_CustomDomains = customDomains, ts_JWTAuth = jwtAuth\<rparr>))))))"

text \<open>The route of the endpoint: the token first.\<close>

definition tenant_sync ::
  "(string \<Rightarrow> string \<Rightarrow> string) \<Rightarrow> string \<Rightarrow> db_env \<Rightarrow> (uuid \<Rightarrow> db_env) \<Rightarrow> (string \<Rightarrow> uuid option) \<Rightarrow> string \<Rightarrow> string
     \<Rightarrow> config_db \<Rightarrow> domains \<Rightarrow> jwt_configs \<Rightarrow> nat + tenant_snapshot" where
  "tenant_sync hmacHex masterSecret env tenv parse projectParam token db cds jwts =
     (case RequireGatewayToken hmacHex masterSecret projectParam token of
        Some status \<Rightarrow> Inl status
      | None \<Rightarrow> GetTenantSnapshot env tenv parse projectParam db cds jwts)"

section \<open>What is in it\<close>

lemma tx_Inr: "fst (withTenantTx env fn db) = Inr a \<Longrightarrow> \<exists>db'. fn db = (Inr a, db')"
  by (auto simp: withTenantTx_def split: option.splits prod.splits sum.splits)

lemma stmt_Inr: "stmt env name op db = (Inr a, db') \<Longrightarrow> op db = (Inr a, db')"
  by (auto simp: stmt_def split: option.splits)

lemma list_rows_Inr:
  assumes "fst (list_rows env c q 0 0 rows db) = Inr (xs, n)"
  shows "xs = rows db \<and> n = length (rows db)"
  using tx_Inr [OF assms [unfolded list_rows_def]]
  by (auto simp: seq_def page_def stmt_def split: option.splits)

text \<open>The parts of a snapshot of project \<open>p\<close>.\<close>

definition snapshot_of ::
  "db_env \<Rightarrow> (uuid \<Rightarrow> db_env) \<Rightarrow> uuid \<Rightarrow> config_db \<Rightarrow> domains \<Rightarrow> jwt_configs \<Rightarrow> tenant_snapshot \<Rightarrow> bool" where
  "snapshot_of env tenv p db cds jwts snap \<longleftrightarrow> ts_ProjectID snap = p
    \<and> ts_Routes snap = map (joined_route p db) (sort_key (\<lambda>r. - int (length (rr_Path r)))
        (filter (\<lambda>r. of_tenant p (rr_ProjectID r) (rr_DeletedAt r) \<and> rr_Enabled r) (cf_routes db)))
    \<and> ts_Upstreams snap = map upstream_of_row (sort_key ur_Name (filter (\<lambda>u. of_tenant p (ur_ProjectID u) (ur_DeletedAt u)) (cf_upstreams db)))
    \<and> ts_Targets snap = snapshot_targets tenv p (ts_Upstreams snap) db
    \<and> ts_APIKeys snap = map key_dto (filter (usable_key (de_clock env))
        (sort_key (\<lambda>k. - kr_CreatedAt k) (filter (\<lambda>k. of_tenant p (kr_ProjectID k) (kr_DeletedAt k)) (cf_keys db))))
    \<and> ListEligibleSyncDomains env p cds = Inr (ts_CustomDomains snap)
    \<and> (\<forall>cfg. ts_JWTAuth snap = Some cfg \<longrightarrow> (\<exists>c \<in> set jwts. jc_ProjectID c = p \<and> projectJWTConfigToSync c = Inr cfg))"

lemma snapshot_keys:
  "snapshot_of env tenv p db cds jwts snap \<Longrightarrow>
     set (ts_APIKeys snap) = key_dto ` {k \<in> set (cf_keys db). kr_ProjectID k = p \<and> kr_DeletedAt k = None \<and> usable_key (de_clock env) k}"
  by (auto simp: snapshot_of_def)

lemma snapshot_parts:
  assumes "GetTenantSnapshot env tenv parse projectParam db cds jwts = Inr snap"
  shows "\<exists>p. parse projectParam = Some p \<and> snapshot_of env tenv p db cds jwts snap"
proof -
  obtain p routes us n ks n' ds jwt where p: "parse projectParam = Some p"
      "fst (ListEnabled env p db) = Inr routes" "fst (Upstream_ListAll env p 0 0 db) = Inr (us, n)"
      "fst (Key_ListAll env p 0 0 db) = Inr (ks, n')" "ListEligibleSyncDomains env p cds = Inr ds"
    and jwt: "(case JWTConfig_Get env p jwts of
              Inr cfg \<Rightarrow> (case projectJWTConfigToSync cfg of Inl _ \<Rightarrow> Inl (500::nat) | Inr s \<Rightarrow> Inr (Some s))
            | Inl ErrProjectJWTConfigNotFound \<Rightarrow> Inr None
            | Inl _ \<Rightarrow> Inl 500) = Inr jwt"
    and snap: "snap = \<lparr>ts_ProjectID = p, ts_Routes = routes, ts_Upstreams = us, ts_Targets = snapshot_targets tenv p us db,
      ts_APIKeys = map key_dto (filter (usable_key (de_clock env)) ks), ts_CustomDomains = ds, ts_JWTAuth = jwt\<rparr>"
    using assms unfolding GetTenantSnapshot_def by (auto split: option.splits sum.splits prod.splits)
  have r: "routes = map (joined_route p db) (sort_key (\<lambda>r. - int (length (rr_Path r)))
      (filter (\<lambda>r. of_tenant p (rr_ProjectID r) (rr_DeletedAt r) \<and> rr_Enabled r) (cf_routes db)))"
    using tx_Inr [OF p(2) [unfolded ListEnabled_def]] by (auto dest: stmt_Inr)
  have j: "\<exists>c \<in> set jwts. jc_ProjectID c = p \<and> projectJWTConfigToSync c = Inr cfg" if "jwt = Some cfg" for cfg
    using jwt that by (auto simp: JWTConfig_Get_def find_Some_iff split: sum.splits option.splits jwt_repo_error.splits)
  have "snapshot_of env tenv p db cds jwts snap"
    using p(5) r j list_rows_Inr [OF p(3) [unfolded Upstream_ListAll_def]] list_rows_Inr [OF p(4) [unfolded Key_ListAll_def]]
    by (simp add: snap snapshot_of_def)
  then show ?thesis using p(1) by blast
qed

lemma snapshot_domain:
  assumes "snapshot_of env tenv p db cds jwts snap" "d \<in> set (ts_CustomDomains snap)"
  shows "\<exists>r \<in> set cds. cds_Hostname d = cd_Hostname r \<and> cd_ProjectID r = p \<and> cd_live r \<and> cd_Status r = DsActive \<and> cd_RoutingStatus r = RsReady"
proof -
  have "ListEligibleSyncDomains env p cds = Inr (ts_CustomDomains snap)" using assms(1) by (simp add: snapshot_of_def)
  then show ?thesis
    using assms(2) by (auto simp: ListEligibleSyncDomains_def split: option.splits dest!: sym [of "map _ _"]) blast
qed

lemma snapshot_targets_mem:
  assumes "t \<in> set (snapshot_targets tenv p us db u)"
  shows "\<exists>ts. fst (ListByUpstream (tenv u) p u db) = Inr ts \<and> t \<in> set ts"
proof -
  have "t \<in> set (case fst (ListByUpstream (tenv u) p u db) of Inl _ \<Rightarrow> [] | Inr ts \<Rightarrow> ts)"
    using assms by (cases "list_ex (\<lambda>v. up_ID v = u) us") (simp_all add: snapshot_targets_def)
  then show ?thesis by (cases "fst (ListByUpstream (tenv u) p u db)") simp_all
qed

text \<open>
  C15. A gateway gets the configuration of its project, all of it and nothing else. A snapshot is given only for the
  token derived from the project's identifier; its routes are the enabled, live routes of the project, longest path
  first, each with the restrictions of its live policy; its upstreams are the live ones of the project, and its keys the
  active ones that have not expired; every target hangs off a live upstream of the project, every domain is an active one
  of the project that is ready for routing, and the JWT configuration is the project's.
\<close>

theorem snapshot_is_the_project:
  assumes "tenant_sync hmacHex masterSecret env tenv parse projectParam token db cds jwts = Inr snap"
  shows "\<exists>p. parse projectParam = Some p \<and> token = DeriveTenantJWTSecret hmacHex masterSecret projectParam \<and> ts_ProjectID snap = p
    \<and> set (ts_Routes snap) = joined_route p db ` {r \<in> set (cf_routes db). rr_ProjectID r = p \<and> rr_DeletedAt r = None \<and> rr_Enabled r}
    \<and> sorted_wrt (\<lambda>a b. length (rt_Path b) \<le> length (rt_Path a)) (ts_Routes snap)
    \<and> set (ts_Upstreams snap) = upstream_of_row ` {u \<in> set (cf_upstreams db). ur_ProjectID u = p \<and> ur_DeletedAt u = None}
    \<and> set (ts_APIKeys snap) = key_dto ` {k \<in> set (cf_keys db). kr_ProjectID k = p \<and> kr_DeletedAt k = None \<and> usable_key (de_clock env) k}
    \<and> (\<forall>u. \<forall>t \<in> set (ts_Targets snap u). \<exists>row \<in> set (cf_targets db). t = target_of_row row \<and> tr_UpstreamID row = u \<and> tr_DeletedAt row = None
         \<and> (\<exists>x \<in> set (cf_upstreams db). ur_ID x = u \<and> ur_ProjectID x = p \<and> ur_DeletedAt x = None))
    \<and> (\<forall>d \<in> set (ts_CustomDomains snap). \<exists>r \<in> set cds. cds_Hostname d = cd_Hostname r \<and> cd_ProjectID r = p \<and> cd_live r
         \<and> cd_Status r = DsActive \<and> cd_RoutingStatus r = RsReady)
    \<and> (\<forall>cfg. ts_JWTAuth snap = Some cfg \<longrightarrow> (\<exists>c \<in> set jwts. jc_ProjectID c = p \<and> projectJWTConfigToSync c = Inr cfg))"
proof -
  have g: "GetTenantSnapshot env tenv parse projectParam db cds jwts = Inr snap"
    and tok: "token = DeriveTenantJWTSecret hmacHex masterSecret projectParam"
    using assms by (auto simp: tenant_sync_def RequireGatewayToken_def split: if_splits)
  obtain p where p: "parse projectParam = Some p" and snap: "snapshot_of env tenv p db cds jwts snap"
    using snapshot_parts [OF g] by blast
  note parts = snap [unfolded snapshot_of_def]
  have routes: "ts_Routes snap = map (joined_route p db) (sort_key (\<lambda>r. - int (length (rr_Path r)))
        (filter (\<lambda>r. of_tenant p (rr_ProjectID r) (rr_DeletedAt r) \<and> rr_Enabled r) (cf_routes db)))"
    and ups: "ts_Upstreams snap = map upstream_of_row (sort_key ur_Name (filter (\<lambda>u. of_tenant p (ur_ProjectID u) (ur_DeletedAt u)) (cf_upstreams db)))"
    and tgs: "ts_Targets snap = snapshot_targets tenv p (ts_Upstreams snap) db"
    and keys: "ts_APIKeys snap = map key_dto (filter (usable_key (de_clock env))
        (sort_key (\<lambda>k. - kr_CreatedAt k) (filter (\<lambda>k. of_tenant p (kr_ProjectID k) (kr_DeletedAt k)) (cf_keys db))))"
    and jwt: "\<forall>cfg. ts_JWTAuth snap = Some cfg \<longrightarrow> (\<exists>c \<in> set jwts. jc_ProjectID c = p \<and> projectJWTConfigToSync c = Inr cfg)"
    and pid: "ts_ProjectID snap = p"
    using parts by blast+
  have path: "rt_Path (joined_route p db r) = rr_Path r" for r by (simp add: joined_route_def Let_def)
  have sorted: "sorted_wrt (\<lambda>a b. length (rt_Path b) \<le> length (rt_Path a)) (ts_Routes snap)"
    unfolding routes sorted_wrt_map path
    using sorted_sort_key [of "\<lambda>r. - int (length (rr_Path r))"] by (simp add: sorted_map)
  have tg: "\<exists>row \<in> set (cf_targets db). t = target_of_row row \<and> tr_UpstreamID row = u \<and> tr_DeletedAt row = None
         \<and> (\<exists>x \<in> set (cf_upstreams db). ur_ID x = u \<and> ur_ProjectID x = p \<and> ur_DeletedAt x = None)" if "t \<in> set (ts_Targets snap u)" for t u
  proof -
    have "\<exists>ts. fst (ListByUpstream (tenv u) p u db) = Inr ts \<and> t \<in> set ts"
      using that unfolding tgs by (rule snapshot_targets_mem)
    then show ?thesis
      unfolding ListByUpstream_def by (auto dest!: tx_Inr stmt_Inr simp: list_ex_iff split: if_splits) blast
  qed
  note dom = snapshot_domain [OF snap]
  have sets: "set (ts_Routes snap) = joined_route p db ` {r \<in> set (cf_routes db). rr_ProjectID r = p \<and> rr_DeletedAt r = None \<and> rr_Enabled r}"
      "set (ts_Upstreams snap) = upstream_of_row ` {u \<in> set (cf_upstreams db). ur_ProjectID u = p \<and> ur_DeletedAt u = None}"
      "set (ts_APIKeys snap) = key_dto ` {k \<in> set (cf_keys db). kr_ProjectID k = p \<and> kr_DeletedAt k = None \<and> usable_key (de_clock env) k}"
    by (auto simp: routes ups keys)
  show ?thesis
    by (intro exI [of _ p] conjI allI ballI; (fact | erule tg | erule dom | rule jwt [THEN spec])?)
qed

section \<open>API keys, from creation to the gateway\<close>

lemma hexDigit_plain: "n < 16 \<Longrightarrow> \<not> isSpace (hexDigit n)"
  by (simp add: isSpace_def hexDigit_def Let_def)

lemma hexEncode_plain: "c \<in> set (hexEncode bs) \<Longrightarrow> \<not> isSpace c"
proof -
  have "(of_char b :: nat) < 256" for b :: char by (metis mod_less_divisor of_char_mod_256 zero_less_numeral)
  then have "(of_char b :: nat) div 16 < 16" for b :: char by (simp add: less_mult_imp_div_less)
  then show "c \<in> set (hexEncode bs) \<Longrightarrow> \<not> isSpace c"
    by (auto simp: hexEncode_def Let_def hexDigit_plain)
qed

lemma raw_key_plain:
  assumes "GenerateRawKey random = Inr raw"
  shows "TrimSpace raw = raw" "raw \<noteq> []"
proof -
  obtain b where raw: "raw = ''cg_'' @ hexEncode b" using assms by (auto simp: GenerateRawKey_def split: sum.splits)
  have "\<not> isSpace c" if "c \<in> set raw" for c
    using that hexEncode_plain by (auto simp: raw isSpace_def)
  then show "TrimSpace raw = raw" unfolding TrimSpace_def by (intro trimBy_id) (metis hd_in_set last_in_set)
  show "raw \<noteq> []" by (simp add: raw)
qed

lemma UpdateLocalKeys_at:
  assumes "k \<in> set keys" "\<And>k'. k' \<in> set keys \<Longrightarrow> kd_KeyHash k' = kd_KeyHash k \<Longrightarrow> k' = k"
  shows "ks_local (UpdateLocalKeys c keys s) (kd_KeyHash k) =
    Some \<lparr>ak_ClientID = c, ak_RevokedAt = None, ak_Roles = kd_Roles k, ak_Scopes = kd_Scopes k\<rparr>"
  using assms unfolding UpdateLocalKeys_def
proof (induction keys rule: rev_induct)
  case (snoc x xs)
  then show ?case by (cases "kd_KeyHash x = kd_KeyHash k") auto
qed simp

lemma UpdateLocalKeys_not: "h \<notin> kd_KeyHash ` set keys \<Longrightarrow> ks_local (UpdateLocalKeys c keys s) h = None"
  unfolding UpdateLocalKeys_def by (induction keys rule: rev_induct) auto

text \<open>The key store after a reload, with what it holds of one hash.\<close>

lemma reload_local_keys:
  assumes "reload lenv (Inr snap) l = (None, l')" "ld_keyStore l = Some ks"
  obtains ks' where "ld_keyStore l' = Some ks'" "ks_db ks' = ks_db ks"
    "\<And>k. k \<in> set (ts_APIKeys snap) \<Longrightarrow> (\<And>k'. k' \<in> set (ts_APIKeys snap) \<Longrightarrow> tk_KeyHash k' = tk_KeyHash k \<Longrightarrow> k' = k) \<Longrightarrow>
       ks_local ks' (tk_KeyHash k) =
         Some \<lparr>ak_ClientID = ld_projectID l, ak_RevokedAt = None, ak_Roles = tk_Roles k, ak_Scopes = tk_Scopes k\<rparr>"
    "\<And>h. h \<notin> tk_KeyHash ` set (ts_APIKeys snap) \<Longrightarrow> ks_local ks' h = None"
    "ks_redis ks = None \<Longrightarrow> ks_redis ks' = None"
proof -
  define dto :: "tenant_api_key \<Rightarrow> key_snapshot" where "dto = (\<lambda>k. \<lparr>kd_KeyHash = tk_KeyHash k, kd_Roles = tk_Roles k, kd_Scopes = tk_Scopes k\<rparr>)"
  define ks1 where "ks1 = UpdateLocalKeys (ld_projectID l) (map dto (ts_APIKeys snap)) ks"
  define ks' where "ks' = (case ks_redis ks1 of None \<Rightarrow> ks1
     | Some r \<Rightarrow> ks1\<lparr>ks_redis := Some (warmRedis (le_keys lenv) (ld_projectID l) (ts_APIKeys snap) r)\<rparr>)"
  have "ld_keyStore l' = Some ks'"
    using reload_keyStore [OF assms(1)] assms(2) unfolding ks'_def ks1_def dto_def by (simp add: WarmAPIKeyCache_def Let_def)
  moreover have local: "ks_local ks' = ks_local ks1" "ks_db ks' = ks_db ks1" by (simp_all add: ks'_def split: option.split)
  moreover have "ks_db ks1 = ks_db ks" "ks_redis ks1 = ks_redis ks" by (simp_all add: ks1_def UpdateLocalKeys_def)
  moreover have "ks_local ks1 (tk_KeyHash k) =
      Some \<lparr>ak_ClientID = ld_projectID l, ak_RevokedAt = None, ak_Roles = tk_Roles k, ak_Scopes = tk_Scopes k\<rparr>"
    if mem: "k \<in> set (ts_APIKeys snap)" and uniq: "\<And>k'. k' \<in> set (ts_APIKeys snap) \<Longrightarrow> tk_KeyHash k' = tk_KeyHash k \<Longrightarrow> k' = k" for k
  proof -
    have "x = dto k" if x: "x \<in> set (map dto (ts_APIKeys snap))" "kd_KeyHash x = kd_KeyHash (dto k)" for x
    proof -
      obtain k1 where k1: "k1 \<in> set (ts_APIKeys snap)" "x = dto k1" using x(1) by auto
      then have "k1 = k" using x(2) uniq by (simp add: dto_def)
      then show ?thesis using k1(2) by simp
    qed
    then have "ks_local ks1 (kd_KeyHash (dto k)) =
        Some \<lparr>ak_ClientID = ld_projectID l, ak_RevokedAt = None, ak_Roles = kd_Roles (dto k), ak_Scopes = kd_Scopes (dto k)\<rparr>"
      unfolding ks1_def using mem by (intro UpdateLocalKeys_at) auto
    then show ?thesis by (simp add: dto_def)
  qed
  moreover have "ks_local ks1 h = None" if "h \<notin> tk_KeyHash ` set (ts_APIKeys snap)" for h
    unfolding ks1_def using that by (intro UpdateLocalKeys_not) (auto simp: dto_def)
  ultimately show thesis using that [of ks'] by (simp add: ks'_def)
qed

lemma KeyStore_Validate_local:
  assumes "TrimSpace raw = raw" "raw \<noteq> []" "ks_local s (ke_sha256hex env raw) = Some rec" "ak_RevokedAt rec = None"
  shows "fst (KeyStore_Validate env now s raw) = Some rec"
  using assms by (simp add: KeyStore_Validate_def hashKey_def)

text \<open>The transaction of a tenant, seen from its success.\<close>

lemma tx_success:
  assumes "withTenantTx env fn db = (Inr a, db')"
  shows "fn db = (Inr a, db')"
  using assms by (auto simp: withTenantTx_def split: option.splits prod.splits sum.splits)

lemma seq_success:
  assumes "seq m f db = (Inr b, db')"
  obtains a db1 where "m db = (Inr a, db1)" "f a db1 = (Inr b, db')"
  using assms by (auto simp: seq_def split: prod.splits sum.splits)

lemma with_id_success: "with_id pg raw op db = (Inr a, db') \<Longrightarrow> \<exists>i. pg raw = Some i \<and> op i db = (Inr a, db')"
  by (auto simp: with_id_def throw_def split: option.splits)

lemma config_reply_success:
  assumes "config_reply status ok key res = ((ok, x), db')" "\<And>e. status e \<noteq> ok"
  shows "\<exists>a. res = (Inr a, db') \<and> x = key a"
  using assms by (auto simp: config_reply_def split: prod.splits sum.splits)

lemma update_rows_success:
  assumes "update_rows get put none P f db = (Inr r, db')"
  shows "find P (get db) = Some r \<and> db' = put (sql_update P f (get db)) db"
  using assms by (auto simp: update_rows_def split: option.splits)

lemma insert_key_success:
  assumes "insert_key env p what name h ex ro sc db = (Inr k, db')"
  shows "db' = db\<lparr>cf_keys := cf_keys db @ [k]\<rparr> \<and> kr_ProjectID k = p \<and> kr_KeyHash k = h \<and> kr_Status k = ''active'' \<and> kr_Roles k = ro
    \<and> kr_Scopes k = sc \<and> kr_ExpiresAt k = ex \<and> kr_DeletedAt k = None"
  using assms by (auto simp: insert_key_def Let_def split: if_splits)

text \<open>
  A live, usable key whose hash no other row has is what the gateway finds under its hash after a reload.
\<close>

lemma key_reaches_gateway:
  assumes "GetTenantSnapshot env tenv parse projectParam db cds jwts = Inr snap" "parse projectParam = Some p"
    and "k \<in> set (cf_keys db)" "kr_ProjectID k = p" "kr_DeletedAt k = None" "usable_key (de_clock env) k"
    and "\<And>k'. k' \<in> set (cf_keys db) \<Longrightarrow> kr_KeyHash k' = kr_KeyHash k \<Longrightarrow> k' = k"
    and "reload lenv (Inr snap) l = (None, l')" "ld_keyStore l = Some ks"
  shows "\<exists>ks'. ld_keyStore l' = Some ks' \<and> ks_local ks' (kr_KeyHash k) =
    Some \<lparr>ak_ClientID = ld_projectID l, ak_RevokedAt = None, ak_Roles = kr_Roles k, ak_Scopes = kr_Scopes k\<rparr>"
proof -
  have parts: "snapshot_of env tenv p db cds jwts snap" using snapshot_parts [OF assms(1)] assms(2) by auto
  note keys = snapshot_keys [OF parts]
  have hash: "tk_KeyHash (key_dto x) = kr_KeyHash x" "tk_Roles (key_dto x) = kr_Roles x" "tk_Scopes (key_dto x) = kr_Scopes x" for x
    by (simp_all add: key_dto_def)
  have mem: "key_dto k \<in> set (ts_APIKeys snap)" using assms(3-6) by (auto simp: keys)
  have uniq: "k1 = key_dto k" if k1: "k1 \<in> set (ts_APIKeys snap)" "tk_KeyHash k1 = tk_KeyHash (key_dto k)" for k1
  proof -
    obtain x where x: "x \<in> set (cf_keys db)" "k1 = key_dto x" using k1(1) keys by auto
    then have "x = k" using assms(7) k1(2) by (simp add: hash)
    then show ?thesis using x(2) by simp
  qed
  show ?thesis
    using mem uniq by (rule_tac reload_local_keys [OF assms(8,9)]) (metis hash)
qed

text \<open>
  C18. A created API key opens the gateway. When a project has created a key and got it back, and no other key has the
  same hash, then a gateway of the project that reloads a snapshot taken before the key expires accepts exactly that key, as the
  client of its project, with the roles and the scopes it was created with.
\<close>

theorem created_key_opens_gateway:
  assumes "ApiKeyHandler_Create ce p (Some req) db = ((201, Some raw), db1)"
    and "\<forall>k \<in> set (cf_keys db). kr_KeyHash k \<noteq> ce_sha256hex ce raw"
    and "GetTenantSnapshot env tenv parse projectParam db1 cds jwts = Inr snap" "parse projectParam = Some p"
    and "\<forall>t. kq_ExpiresAt req = Some t \<longrightarrow> de_clock env \<le> t"
    and "reload lenv (Inr snap) l = (None, l')" "ld_keyStore l = Some ks" "ke_sha256hex (le_keys lenv) = ce_sha256hex ce"
  shows "\<exists>ks'. ld_keyStore l' = Some ks' \<and> fst (KeyStore_Validate (le_keys lenv) now ks' raw) =
    Some \<lparr>ak_ClientID = ld_projectID l, ak_RevokedAt = None, ak_Roles = kq_Roles req, ak_Scopes = kq_Scopes req\<rparr>"
proof -
  obtain k where c: "CreateApiKey (ce_db ce) (ce_sha256hex ce) (ce_random ce) p (kq_Name req) (kq_ExpiresAt req) (kq_Roles req) (kq_Scopes req) db
      = (Inr (k, raw), db1)"
    using assms(1) unfolding ApiKeyHandler_Create_def on_body_def by (auto dest!: config_reply_success)
  then have raw: "GenerateRawKey (ce_random ce) = Inr raw"
    and ins: "insert_key (ce_db ce) p ''api_key create'' (kq_Name req) (ce_sha256hex ce raw) (kq_ExpiresAt req) (kq_Roles req) (kq_Scopes req) db = (Inr k, db1)"
    by (auto simp: CreateApiKey_def Key_Create_def throw_def return_def split: sum.splits elim!: seq_success dest!: tx_success stmt_Inr)
  note k = insert_key_success [OF ins]
  have "usable_key (de_clock env) k" using k assms(5) by (auto simp: usable_key_def split: option.split)
  moreover have "k' = k" if "k' \<in> set (cf_keys db1)" "kr_KeyHash k' = kr_KeyHash k" for k'
    using that k assms(2) by auto
  ultimately obtain ks' where "ld_keyStore l' = Some ks'" "ks_local ks' (kr_KeyHash k) =
      Some \<lparr>ak_ClientID = ld_projectID l, ak_RevokedAt = None, ak_Roles = kr_Roles k, ak_Scopes = kr_Scopes k\<rparr>"
    using key_reaches_gateway [OF assms(3,4), of k, OF _ _ _ _ _ assms(6,7)] k by auto
  then show ?thesis
    using k assms(8) by (intro exI [of _ ks'] conjI KeyStore_Validate_local raw_key_plain [OF raw]) simp_all
qed

text \<open>A hash that no live, usable key of the project has is unknown to the gateway after a reload.\<close>

lemma absent_key_refused:
  assumes "GetTenantSnapshot env tenv parse projectParam db cds jwts = Inr snap" "parse projectParam = Some p"
    and "\<And>k. k \<in> set (cf_keys db) \<Longrightarrow> kr_KeyHash k = hashKey (le_keys lenv) raw \<Longrightarrow> kr_ProjectID k = p \<Longrightarrow> kr_DeletedAt k \<noteq> None"
    and "reload lenv (Inr snap) l = (None, l')" "ld_keyStore l = Some ks" "ks_redis ks = None" "ks_db ks = None"
  shows "\<exists>ks'. ld_keyStore l' = Some ks' \<and> fst (KeyStore_Validate (le_keys lenv) now ks' raw) = None"
proof -
  have parts: "snapshot_of env tenv p db cds jwts snap" using snapshot_parts [OF assms(1)] assms(2) by auto
  have "hashKey (le_keys lenv) raw \<notin> tk_KeyHash ` set (ts_APIKeys snap)"
    unfolding snapshot_keys [OF parts] using assms(3) by (force simp: key_dto_def)
  then obtain ks' where ks': "ld_keyStore l' = Some ks'" "ks_local ks' (hashKey (le_keys lenv) raw) = None" "ks_redis ks' = None" "ks_db ks' = None"
    using assms(6,7) by (rule_tac reload_local_keys [OF assms(4,5)]) simp
  moreover have "hashKey (le_keys lenv) (TrimSpace raw) = hashKey (le_keys lenv) raw" by (simp add: hashKey_def)
  ultimately show ?thesis by (auto simp: KeyStore_Validate_def lookupRedis_def Let_def)
qed

text \<open>
  C19. A revoked API key is refused. When a project has revoked a key whose hash no other key has, a gateway without a
  Redis cache and without a database refuses every text with that hash from its next reload on.
\<close>

theorem revoked_key_is_refused:
  assumes "ApiKeyHandler_Revoke ce p i db = ((200, x), db1)" "ce_pg ce i = Some (kr_ID k)"
    and "k \<in> set (cf_keys db)" "\<forall>k' \<in> set (cf_keys db). kr_KeyHash k' = kr_KeyHash k \<longrightarrow> kr_ID k' = kr_ID k"
    and "GetTenantSnapshot env tenv parse projectParam db1 cds jwts = Inr snap" "parse projectParam = Some p"
    and "reload lenv (Inr snap) l = (None, l')" "ld_keyStore l = Some ks" "ks_redis ks = None" "ks_db ks = None"
    and "hashKey (le_keys lenv) raw = kr_KeyHash k"
  shows "\<exists>ks'. ld_keyStore l' = Some ks' \<and> fst (KeyStore_Validate (le_keys lenv) now ks' raw) = None"
proof (rule absent_key_refused [OF assms(5,6) _ assms(7-10)])
  have "config_reply (\<lambda>e. if e = ErrAPIKeyNotFound then 404 else 500) 200 no_key (with_id (ce_pg ce) i (Key_Revoke (ce_db ce) p) db) = ((200, x), db1)"
    using assms(1) by (simp add: ApiKeyHandler_Revoke_def split: if_splits)
  then obtain r where "Key_Revoke (ce_db ce) p (kr_ID k) db = (Inr r, db1)"
    using assms(2) by (auto dest!: config_reply_success with_id_success split: if_splits)
  then have db1: "db1 = put_keys (sql_update (tenant_key (kr_ID k) p)
      (\<lambda>k. k\<lparr>kr_Status := ''revoked'', kr_DeletedAt := Some (de_now (ce_db ce)), kr_UpdatedAt := de_now (ce_db ce)\<rparr>) (cf_keys db)) db"
    unfolding Key_Revoke_def revoke_key_def by (auto dest!: tx_success stmt_Inr update_rows_success)
  fix k1 assume k1: "k1 \<in> set (cf_keys db1)" "kr_KeyHash k1 = hashKey (le_keys lenv) raw" "kr_ProjectID k1 = p"
  then obtain k0 where k0: "k0 \<in> set (cf_keys db)" "k1 = (if tenant_key (kr_ID k) p k0
      then k0\<lparr>kr_Status := ''revoked'', kr_DeletedAt := Some (de_now (ce_db ce)), kr_UpdatedAt := de_now (ce_db ce)\<rparr> else k0)"
    by (auto simp: db1 in_sql_update)
  then have "kr_KeyHash k0 = kr_KeyHash k" "kr_ProjectID k0 = p" using k1(2,3) assms(11) by (auto split: if_splits)
  then show "kr_DeletedAt k1 \<noteq> None" using k0 assms(4) by auto
qed

text \<open>
  Rotating a key replaces it by one that opens the gateway but has lost the roles and the scopes of the old one.
\<close>

theorem rotated_key_has_no_scopes:
  assumes "ApiKeyHandler_Rotate ce p i db = ((200, Some raw), db1)"
    and "\<forall>k \<in> set (cf_keys db). kr_KeyHash k \<noteq> ce_sha256hex ce raw"
    and "GetTenantSnapshot env tenv parse projectParam db1 cds jwts = Inr snap" "parse projectParam = Some p"
    and "\<forall>k \<in> set (cf_keys db). \<forall>t. kr_ExpiresAt k = Some t \<longrightarrow> de_clock env \<le> t"
    and "reload lenv (Inr snap) l = (None, l')" "ld_keyStore l = Some ks" "ke_sha256hex (le_keys lenv) = ce_sha256hex ce"
  shows "\<exists>ks'. ld_keyStore l' = Some ks' \<and> fst (KeyStore_Validate (le_keys lenv) now ks' raw) =
    Some \<lparr>ak_ClientID = ld_projectID l, ak_RevokedAt = None, ak_Roles = [], ak_Scopes = []\<rparr>"
proof -
  have "config_reply (\<lambda>e. if e = ErrAPIKeyNotFound then 404 else 500) 200 Some
      (RotateApiKey (ce_db ce) (ce_pg ce) (ce_sha256hex ce) (ce_random ce) p i db) = ((200, Some raw), db1)"
    using assms(1) by (simp add: ApiKeyHandler_Rotate_def split: if_splits)
  then have "RotateApiKey (ce_db ce) (ce_pg ce) (ce_sha256hex ce) (ce_random ce) p i db = (Inr raw, db1)"
    by (auto dest!: config_reply_success split: if_splits)
  then obtain j r where raw: "GenerateRawKey (ce_random ce) = Inr raw" and rot: "Key_Rotate (ce_db ce) (ce_sha256hex ce) p j raw db = (Inr r, db1)"
    by (auto simp: RotateApiKey_def throw_def return_def split: sum.splits elim!: seq_success dest!: with_id_success)
  obtain old db2 where rev: "revoke_key (ce_db ce) ''revoke old key'' p j db = (Inr old, db2)"
    and ins: "insert_key (ce_db ce) p ''api_key rotate'' (kr_Name old) (ce_sha256hex ce raw) (kr_ExpiresAt old) [] [] db2 = (Inr r, db1)"
    using tx_success [OF rot [unfolded Key_Rotate_def]] by (auto elim!: seq_success dest!: stmt_Inr)
  have old: "find (tenant_key j p) (cf_keys db) = Some old" "db2 = put_keys (sql_update (tenant_key j p)
      (\<lambda>k. k\<lparr>kr_Status := ''revoked'', kr_DeletedAt := Some (de_now (ce_db ce)), kr_UpdatedAt := de_now (ce_db ce)\<rparr>) (cf_keys db)) db"
    using update_rows_success [OF stmt_Inr [OF rev [unfolded revoke_key_def]]] by simp_all
  note k = insert_key_success [OF ins]
  have "usable_key (de_clock env) r"
    using k assms(5) find_SomeD [OF old(1)] by (auto simp: usable_key_def split: option.split)
  moreover have "k' = r" if "k' \<in> set (cf_keys db1)" "kr_KeyHash k' = kr_KeyHash r" for k'
  proof (rule ccontr)
    assume "k' \<noteq> r"
    then have "k' \<in> set (cf_keys db2)" using that(1) k by auto
    then have "\<exists>k0 \<in> set (cf_keys db). kr_KeyHash k0 = kr_KeyHash k'" by (auto simp: old(2) in_sql_update split: if_splits)
    then show False using assms(2) that(2) k by auto
  qed
  ultimately obtain ks' where "ld_keyStore l' = Some ks'" "ks_local ks' (kr_KeyHash r) =
      Some \<lparr>ak_ClientID = ld_projectID l, ak_RevokedAt = None, ak_Roles = kr_Roles r, ak_Scopes = kr_Scopes r\<rparr>"
    using key_reaches_gateway [OF assms(3,4), of r, OF _ _ _ _ _ assms(6,7)] k by auto
  then show ?thesis
    using k assms(8) by (intro exI [of _ ks'] conjI KeyStore_Validate_local raw_key_plain [OF raw]) simp_all
qed

section \<open>Targets have no tenant\<close>


section \<open>Deleting a policy\<close>

text \<open>
  Deleting a policy opens its routes. The deletion of a policy that routes still use succeeds, and in the next snapshot
  every enabled route that had it asks for no authentication, no role and no scope, has no rate limit and no address list.
\<close>

theorem deleted_policy_opens_routes:
  assumes "PolicyHandler_Delete ce p i db = ((200, x), db1)" "ce_pg ce i = Some j"
    and "r \<in> set (cf_routes db)" "rr_ProjectID r = p" "rr_DeletedAt r = None" "rr_Enabled r" "rr_PolicyID r = Some j"
    and "GetTenantSnapshot env tenv parse projectParam db1 cds jwts = Inr snap" "parse projectParam = Some p"
  shows "\<exists>rt \<in> set (ts_Routes snap). rt_ID rt = rr_ID r \<and> rt_Path rt = rr_Path r \<and> \<not> rt_AuthRequired rt \<and> rt_AllowedRoles rt = []
    \<and> rt_AllowedScopes rt = [] \<and> rt_RateLimitRPM rt = 0 \<and> rt_IPAllowlist rt = [] \<and> rt_IPBlocklist rt = []"
proof -
  have "config_reply (\<lambda>e. if e = ErrPolicyNotFound then 404 else 500) 200 no_key (with_id (ce_pg ce) i (Policy_Delete (ce_db ce) p) db) = ((200, x), db1)"
    using assms(1) by (simp add: PolicyHandler_Delete_def)
  then obtain a where "Policy_Delete (ce_db ce) p j db = (Inr a, db1)"
    using assms(2) by (auto dest!: config_reply_success with_id_success split: if_splits)
  from tx_success [OF this [unfolded Policy_Delete_def]]
  obtain po db2 where del: "stmt (ce_db ce) ''delete policy'' (update_rows cf_policies put_policies ErrPolicyNotFound (tenant_policy j p)
        (\<lambda>x. x\<lparr>po_DeletedAt := Some (de_now (ce_db ce))\<rparr>)) db = (Inr po, db2)"
    and clear: "stmt (ce_db ce) ''clear route policy ref'' (\<lambda>db. (Inr (), put_routes
        (sql_update (\<lambda>r. rr_PolicyID r = Some j \<and> of_tenant p (rr_ProjectID r) (rr_DeletedAt r))
           (\<lambda>r. r\<lparr>rr_PolicyID := None, rr_UpdatedAt := de_now (ce_db ce)\<rparr>) (cf_routes db)) db)) db2 = (Inr a, db1)"
    by (rule seq_success)
  have "cf_routes db2 = cf_routes db" using update_rows_success [OF stmt_Inr [OF del]] by simp
  then have routes: "cf_routes db1 = sql_update (\<lambda>r. rr_PolicyID r = Some j \<and> of_tenant p (rr_ProjectID r) (rr_DeletedAt r))
      (\<lambda>r. r\<lparr>rr_PolicyID := None, rr_UpdatedAt := de_now (ce_db ce)\<rparr>) (cf_routes db)"
    using stmt_Inr [OF clear] by auto
  let ?r = "r\<lparr>rr_PolicyID := None, rr_UpdatedAt := de_now (ce_db ce)\<rparr>"
  have "?r \<in> set (cf_routes db1)" using assms(3-5,7) unfolding routes in_sql_update by (intro bexI [of _ r]) simp_all
  moreover have "snapshot_of env tenv p db1 cds jwts snap" using snapshot_parts [OF assms(8)] assms(9) by auto
  ultimately have "joined_route p db1 ?r \<in> set (ts_Routes snap)" using assms(4-6) by (auto simp: snapshot_of_def)
  then show ?thesis by (rule rev_bexI) (simp add: joined_route_def Let_def)
qed

section \<open>Disabling an upstream\<close>

lemma buildPools_loop_map:
  assumes "\<And>u. up_ID (g u) = up_ID u" "\<And>u. up_LBStrategy (g u) = up_LBStrategy u" "\<And>u. up_ProjectID (g u) = up_ProjectID u"
    "\<And>u. up_TargetURL (g u) = up_TargetURL u" "\<And>u. up_HealthPath (g u) = up_HealthPath u"
  shows "buildPools_loop ts (map g us) pools l = buildPools_loop ts us pools l"
  by (induction us arbitrary: pools l) (simp_all add: buildPools_loop.simps assms poolTargets_def Let_def split: prod.split)

lemma sort_key_map_same: "(\<And>x. k (f x) = k x) \<Longrightarrow> sort_key k (map f xs) = map f (sort_key k xs)"
proof (induction xs)
  case (Cons x xs)
  have "insort_key k (f x) (map f ys) = map f (insort_key k x ys)" for ys
    using Cons.prems by (induction ys) simp_all
  then show ?case using Cons by simp
qed simp

text \<open>
  Disabling an upstream has no effect on the gateways. The request succeeds, but the snapshot after it has the same routes, with
  the same addresses, and the same targets, and a gateway builds exactly the same pools from it: the flag alone differs,
  and nobody reads it.
\<close>

theorem disabled_upstream_stays_in_service:
  assumes "UpstreamHandler_Disable ce p i db = ((200, x), db1)"
    and "GetTenantSnapshot env tenv parse projectParam db cds jwts = Inr snap"
    and "GetTenantSnapshot env tenv parse projectParam db1 cds jwts = Inr snap1"
  shows "ts_Routes snap1 = ts_Routes snap \<and> ts_Targets snap1 = ts_Targets snap
    \<and> buildPoolsFromSnapshot snap1 l = buildPoolsFromSnapshot snap l"
proof -
  obtain j r where "ce_pg ce i = Some j" and dis: "Upstream_Disable (ce_db ce) p j db = (Inr r, db1)"
    using assms(1) unfolding UpstreamHandler_Disable_def by (auto dest!: config_reply_success with_id_success split: if_splits)
  define off :: "upstream_row \<Rightarrow> upstream_row" where "off = (\<lambda>u. u\<lparr>ur_Enabled := False, ur_UpdatedAt := de_now (ce_db ce)\<rparr>)"
  define f where "f = (\<lambda>u. if tenant_upstream j p u then off u else u)"
  have db1: "db1 = put_upstreams (map f (cf_upstreams db)) db"
    using update_rows_success [OF stmt_Inr [OF tx_success [OF dis [unfolded Upstream_Disable_def]]]]
    by (simp add: f_def off_def sql_update_def)
  have cols: "ur_ID (f u) = ur_ID u" "ur_ProjectID (f u) = ur_ProjectID u" "ur_DeletedAt (f u) = ur_DeletedAt u" "ur_Name (f u) = ur_Name u"
      "ur_TargetURL (f u) = ur_TargetURL u" "ur_Protocol (f u) = ur_Protocol u" for u
    by (simp_all add: f_def off_def)
  obtain q where q: "parse projectParam = Some q" "snapshot_of env tenv q db cds jwts snap" using snapshot_parts [OF assms(2)] by blast
  then have q1: "snapshot_of env tenv q db1 cds jwts snap1" using snapshot_parts [OF assms(3)] by auto
  have find: "find (\<lambda>x. ur_ID x = k \<and> of_tenant q (ur_ProjectID x) (ur_DeletedAt x)) (map f us) =
      map_option f (find (\<lambda>x. ur_ID x = k \<and> of_tenant q (ur_ProjectID x) (ur_DeletedAt x)) us)" for k us
    by (induction us) (simp_all add: cols)
  have "joined_route q db1 = joined_route q db"
    by (rule ext) (auto simp: joined_route_def db1 find cols Let_def split: option.split bind_split)
  then have routes: "ts_Routes snap1 = ts_Routes snap" using q q1 by (simp add: snapshot_of_def db1)
  define g :: "upstream \<Rightarrow> upstream" where "g = (\<lambda>u. u\<lparr>up_Enabled := (if up_ID u = j \<and> q = p then False else up_Enabled u)\<rparr>)"
  have rowg: "upstream_of_row (f u) = g (upstream_of_row u)" if "of_tenant q (ur_ProjectID u) (ur_DeletedAt u)" for u
    using that by (auto simp: upstream_of_row_def f_def off_def g_def)
  let ?rows = "sort_key ur_Name (filter (\<lambda>u. of_tenant q (ur_ProjectID u) (ur_DeletedAt u)) (cf_upstreams db))"
  have "sort_key ur_Name (filter (\<lambda>u. of_tenant q (ur_ProjectID u) (ur_DeletedAt u)) (map f (cf_upstreams db))) = map f ?rows"
    by (simp add: filter_map o_def cols sort_key_map_same)
  then have "ts_Upstreams snap1 = map (\<lambda>u. upstream_of_row (f u)) ?rows" using q1 by (simp add: snapshot_of_def db1)
  also have "\<dots> = map (\<lambda>u. g (upstream_of_row u)) ?rows" by (rule map_cong [OF refl]) (auto intro: rowg)
  also have "\<dots> = map g (ts_Upstreams snap)" using q by (simp add: snapshot_of_def)
  finally have ups: "ts_Upstreams snap1 = map g (ts_Upstreams snap)" .
  have "list_ex (tenant_upstream k q) (map f (cf_upstreams db)) = list_ex (tenant_upstream k q) (cf_upstreams db)" for k
    by (simp add: list_ex_iff cols)
  then have "fst (ListByUpstream e q k db1) = fst (ListByUpstream e q k db)" for e k
    by (simp add: ListByUpstream_def withTenantTx_def stmt_def db1 split: option.split)
  moreover have "list_ex (\<lambda>u. up_ID u = k) (map g us) = list_ex (\<lambda>u. up_ID u = k) us" for k us
    by (simp add: list_ex_iff g_def)
  ultimately have "snapshot_targets tenv q (map g us) db1 = snapshot_targets tenv q us db" for us
    by (auto simp: snapshot_targets_def fun_eq_iff)
  then have same: "snapshot_targets tenv q (map g (ts_Upstreams snap)) db1 = snapshot_targets tenv q (ts_Upstreams snap) db" .
  have "ts_Targets snap = snapshot_targets tenv q (ts_Upstreams snap) db" "ts_Targets snap1 = snapshot_targets tenv q (ts_Upstreams snap1) db1"
    using q(2) q1 unfolding snapshot_of_def by blast+
  then have tgs: "ts_Targets snap1 = ts_Targets snap" unfolding ups using same by metis
  have "buildPoolsFromSnapshot snap1 l = buildPoolsFromSnapshot snap l"
    unfolding buildPoolsFromSnapshot_def ups tgs by (rule buildPools_loop_map) (simp_all add: g_def)
  then show ?thesis using routes tgs by simp
qed

section \<open>A shop and a bakery\<close>

text \<open>
  Two projects: the bakery has an upstream and a route under a policy, the shop has an administrator. The gateway of the
  examples has neither Redis nor a database.
\<close>

definition bakery :: config_db where
  "bakery =
     \<lparr>cf_routes = [\<lparr>rr_ID = ''r1'', rr_ProjectID = ''bakery'', rr_Name = ''bread'', rr_Path = ''/bread'', rr_UpstreamID = Some ''u1'',
        rr_PolicyID = Some ''po1'', rr_MatchType = ''prefix'', rr_Enabled = True, rr_Methods = [''GET''], rr_CreatedAt = 1,
        rr_UpdatedAt = 1, rr_DeletedAt = None\<rparr>],
      cf_upstreams = [\<lparr>ur_ID = ''u1'', ur_ProjectID = ''bakery'', ur_Name = ''oven'', ur_TargetURL = ''http://oven'', ur_Protocol = ''http'',
        ur_HealthPath = ''/hz'', ur_LBStrategy = ''round_robin'', ur_Enabled = True, ur_CreatedAt = 1, ur_UpdatedAt = 1, ur_DeletedAt = None\<rparr>],
      cf_targets = [],
      cf_policies = [\<lparr>po_ID = ''po1'', po_ProjectID = ''bakery'', po_Name = ''staff'', po_AuthRequired = True, po_RateLimitRPM = 60,
        po_AllowedOrigins = [], po_AllowedRoles = [''baker''], po_AllowedScopes = [], po_IPAllowlist = [''10.0.0.0/8''],
        po_IPBlocklist = [], po_CreatedAt = 1, po_UpdatedAt = 1, po_DeletedAt = None\<rparr>],
      cf_keys = [\<lparr>kr_ID = ''k1'', kr_ProjectID = ''bakery'', kr_Name = ''till'', kr_KeyHash = ''cg_1'', kr_Status = ''active'',
        kr_Roles = [], kr_Scopes = [], kr_ExpiresAt = None, kr_CreatedAt = 1, kr_UpdatedAt = 1, kr_DeletedAt = None\<rparr>]\<rparr>"

definition plain_gateway :: "(string \<rightharpoonup> string) loader" where
  "plain_gateway = start_loader\<lparr>ld_keyStore := Some \<lparr>ks_redis = None, ks_db = None, ks_local = Map.empty\<rparr>\<rparr>"

lemma refs_ok_plain: "refs_ok plain_gateway"
  by (simp add: refs_ok_def plain_gateway_def start_loader_def)

lemma plain_gateway_store: "ld_keyStore plain_gateway = Some \<lparr>ks_redis = None, ks_db = None, ks_local = Map.empty\<rparr>"
  by (simp add: plain_gateway_def)

text \<open>Without faults, domains or JWT configuration a snapshot is given and can be loaded.\<close>

lemma quiet_snapshot:
  "\<exists>snap. GetTenantSnapshot (quiet t i) (\<lambda>_. quiet t i) Some p db [] [] = Inr snap \<and> (\<exists>l'. reload start_env (Inr snap) l = (None, l'))"
proof -
  have "fst (ListEnabled (quiet t i) p db) \<noteq> Inl e" "fst (Upstream_ListAll (quiet t i) p 0 0 db) \<noteq> Inl e"
       "fst (Key_ListAll (quiet t i) p 0 0 db) \<noteq> Inl e" for e
    by (simp_all add: ListEnabled_def Upstream_ListAll_def Key_ListAll_def list_rows_def withTenantTx_def stmt_def seq_def return_def fails_def)
  then obtain rs us n ks m where "fst (ListEnabled (quiet t i) p db) = Inr rs" "fst (Upstream_ListAll (quiet t i) p 0 0 db) = Inr (us, n)"
      "fst (Key_ListAll (quiet t i) p 0 0 db) = Inr (ks, m)"
    by (metis sum.exhaust surj_pair)
  then show ?thesis
    by (simp add: GetTenantSnapshot_def ListEligibleSyncDomains_def JWTConfig_Get_def fails_def reload_def start_env_def Apply_def Let_def split: prod.split)
qed

lemma bakery_rows:
  "{r \<in> set (cf_routes bakery). rr_ProjectID r = ''bakery'' \<and> rr_DeletedAt r = None \<and> rr_Enabled r} = set (cf_routes bakery)"
  "{u \<in> set (cf_upstreams bakery). ur_ProjectID u = ''bakery'' \<and> ur_DeletedAt u = None} = set (cf_upstreams bakery)"
  "{k \<in> set (cf_keys bakery). kr_ProjectID k = ''bakery'' \<and> kr_DeletedAt k = None \<and> usable_key 5 k} = set (cf_keys bakery)"
  by (auto simp: bakery_def usable_key_def)

text \<open>What the bakery's snapshot holds.\<close>

theorem snapshot_is_the_project_witness:
  "\<exists>snap. tenant_sync (\<lambda>k m. k @ m) ''master'' (quiet 5 ''i'') (\<lambda>_. quiet 5 ''i'') Some ''bakery''
       (DeriveTenantJWTSecret (\<lambda>k m. k @ m) ''master'' ''bakery'') bakery [] [] = Inr snap
     \<and> set (ts_APIKeys snap) = {\<lparr>tk_KeyHash = ''cg_1'', tk_Roles = [], tk_Scopes = []\<rparr>}
     \<and> up_ID ` set (ts_Upstreams snap) = {''u1''} \<and> rt_AllowedRoles ` set (ts_Routes snap) = {[''baker'']}"
proof -
  obtain snap where "GetTenantSnapshot (quiet 5 ''i'') (\<lambda>_. quiet 5 ''i'') Some ''bakery'' bakery [] [] = Inr snap"
    using quiet_snapshot by blast
  then have sync: "tenant_sync (\<lambda>k m. k @ m) ''master'' (quiet 5 ''i'') (\<lambda>_. quiet 5 ''i'') Some ''bakery''
       (DeriveTenantJWTSecret (\<lambda>k m. k @ m) ''master'' ''bakery'') bakery [] [] = Inr snap"
    by (simp add: tenant_sync_def RequireGatewayToken_def DeriveTenantJWTSecret_def)
  have "key_dto ` set (cf_keys bakery) = {\<lparr>tk_KeyHash = ''cg_1'', tk_Roles = [], tk_Scopes = []\<rparr>}"
       "up_ID ` upstream_of_row ` set (cf_upstreams bakery) = {''u1''}"
       "rt_AllowedRoles ` joined_route ''bakery'' bakery ` set (cf_routes bakery) = {[''baker'']}"
    by (simp_all add: bakery_def key_dto_def upstream_of_row_def joined_route_def)
  with snapshot_is_the_project [OF sync] sync show ?thesis by (intro exI [of _ snap]) (simp add: bakery_rows)
qed

theorem created_key_opens_gateway_witness:
  "\<exists>raw db1 snap l' ks'. ApiKeyHandler_Create demo_config ''shop'' (Some \<lparr>kq_Name = ''k'', kq_ExpiresAt = None, kq_Roles = [], kq_Scopes = [''read'']\<rparr>)
       bakery = ((201, Some raw), db1)
     \<and> GetTenantSnapshot (quiet 5 ''i'') (\<lambda>_. quiet 5 ''i'') Some ''shop'' db1 [] [] = Inr snap
     \<and> reload start_env (Inr snap) plain_gateway = (None, l') \<and> ld_keyStore l' = Some ks'
     \<and> fst (KeyStore_Validate map_env 7 ks' raw) = Some \<lparr>ak_ClientID = ''p1'', ak_RevokedAt = None, ak_Roles = [], ak_Scopes = [''read'']\<rparr>"
proof -
  let ?req = "\<lparr>kq_Name = ''k'', kq_ExpiresAt = None, kq_Roles = [], kq_Scopes = [''read'']\<rparr> :: key_request"
  have "fst (ApiKeyHandler_Create demo_config ''shop'' (Some ?req) bakery) = (201, Some ''cg_30'')" by code_simp
  then obtain db1 where db1: "ApiKeyHandler_Create demo_config ''shop'' (Some ?req) bakery = ((201, Some ''cg_30''), db1)"
    by (metis prod.collapse)
  obtain snap l' where snap: "GetTenantSnapshot (quiet 5 ''i'') (\<lambda>_. quiet 5 ''i'') Some ''shop'' db1 [] [] = Inr snap"
    and l': "reload start_env (Inr snap) plain_gateway = (None, l')" using quiet_snapshot by blast
  have "ke_sha256hex (le_keys start_env) = ce_sha256hex demo_config" by (simp add: start_env_def map_env_def demo_config_def)
  then have "\<exists>ks'. ld_keyStore l' = Some ks' \<and> fst (KeyStore_Validate (le_keys start_env) 7 ks' ''cg_30'') =
      Some \<lparr>ak_ClientID = ld_projectID plain_gateway, ak_RevokedAt = None, ak_Roles = kq_Roles ?req, ak_Scopes = kq_Scopes ?req\<rparr>"
    by (intro created_key_opens_gateway [OF db1 _ snap refl _ l' plain_gateway_store]) (simp_all add: bakery_def demo_config_def)
  then show ?thesis using db1 snap l' by (auto simp: plain_gateway_def start_loader_def start_env_def)
qed

theorem revoked_key_is_refused_witness:
  "\<exists>x db1 snap l' ks'. ApiKeyHandler_Revoke demo_config ''bakery'' ''k1'' bakery = ((200, x), db1)
     \<and> GetTenantSnapshot (quiet 5 ''i'') (\<lambda>_. quiet 5 ''i'') Some ''bakery'' db1 [] [] = Inr snap
     \<and> reload start_env (Inr snap) plain_gateway = (None, l') \<and> ld_keyStore l' = Some ks'
     \<and> fst (KeyStore_Validate map_env 7 ks' ''cg_1'') = None"
proof -
  have "fst (ApiKeyHandler_Revoke demo_config ''bakery'' ''k1'' bakery) = (200, None)" by code_simp
  then obtain db1 where db1: "ApiKeyHandler_Revoke demo_config ''bakery'' ''k1'' bakery = ((200, None), db1)" by (metis prod.collapse)
  obtain snap l' where snap: "GetTenantSnapshot (quiet 5 ''i'') (\<lambda>_. quiet 5 ''i'') Some ''bakery'' db1 [] [] = Inr snap"
    and l': "reload start_env (Inr snap) plain_gateway = (None, l')" using quiet_snapshot by blast
  have h: "hashKey (le_keys start_env) ''cg_1'' = ''cg_1''" by (simp add: start_env_def map_env_def hashKey_def TrimSpace_def trimBy_def isSpace_def)
  have "\<exists>ks'. ld_keyStore l' = Some ks' \<and> fst (KeyStore_Validate (le_keys start_env) 7 ks' ''cg_1'') = None"
    by (rule revoked_key_is_refused [where k = "hd (cf_keys bakery)", OF db1 _ _ _ snap refl l' plain_gateway_store])
      (simp_all add: bakery_def demo_config_def h)
  then show ?thesis using db1 snap l' by (auto simp: start_env_def)
qed


theorem deleted_policy_opens_routes_witness:
  "\<exists>x db1 snap. PolicyHandler_Delete demo_config ''bakery'' ''po1'' bakery = ((200, x), db1)
     \<and> GetTenantSnapshot (quiet 5 ''i'') (\<lambda>_. quiet 5 ''i'') Some ''bakery'' db1 [] [] = Inr snap
     \<and> (\<exists>rt \<in> set (ts_Routes snap). rt_Path rt = ''/bread'' \<and> \<not> rt_AuthRequired rt \<and> rt_AllowedRoles rt = [])"
proof -
  have "fst (PolicyHandler_Delete demo_config ''bakery'' ''po1'' bakery) = (200, None)" by code_simp
  then obtain db1 where db1: "PolicyHandler_Delete demo_config ''bakery'' ''po1'' bakery = ((200, None), db1)" by (metis prod.collapse)
  obtain snap where snap: "GetTenantSnapshot (quiet 5 ''i'') (\<lambda>_. quiet 5 ''i'') Some ''bakery'' db1 [] [] = Inr snap" using quiet_snapshot by blast
  have "\<exists>rt \<in> set (ts_Routes snap). rt_ID rt = rr_ID (hd (cf_routes bakery)) \<and> rt_Path rt = rr_Path (hd (cf_routes bakery)) \<and> \<not> rt_AuthRequired rt
      \<and> rt_AllowedRoles rt = [] \<and> rt_AllowedScopes rt = [] \<and> rt_RateLimitRPM rt = 0 \<and> rt_IPAllowlist rt = [] \<and> rt_IPBlocklist rt = []"
    by (rule deleted_policy_opens_routes [OF db1 _ _ _ _ _ _ snap refl]) (simp_all add: bakery_def demo_config_def)
  then show ?thesis using db1 snap by (auto simp: bakery_def)
qed

theorem disabled_upstream_stays_in_service_witness:
  "\<exists>x db1 snap snap1. UpstreamHandler_Disable demo_config ''bakery'' ''u1'' bakery = ((200, x), db1)
     \<and> GetTenantSnapshot (quiet 5 ''i'') (\<lambda>_. quiet 5 ''i'') Some ''bakery'' bakery [] [] = Inr snap
     \<and> GetTenantSnapshot (quiet 5 ''i'') (\<lambda>_. quiet 5 ''i'') Some ''bakery'' db1 [] [] = Inr snap1
     \<and> buildPoolsFromSnapshot snap1 plain_gateway = buildPoolsFromSnapshot snap plain_gateway"
proof -
  have "fst (UpstreamHandler_Disable demo_config ''bakery'' ''u1'' bakery) = (200, None)" by code_simp
  then obtain db1 where db1: "UpstreamHandler_Disable demo_config ''bakery'' ''u1'' bakery = ((200, None), db1)" by (metis prod.collapse)
  obtain snap snap1 where snap: "GetTenantSnapshot (quiet 5 ''i'') (\<lambda>_. quiet 5 ''i'') Some ''bakery'' bakery [] [] = Inr snap"
    and snap1: "GetTenantSnapshot (quiet 5 ''i'') (\<lambda>_. quiet 5 ''i'') Some ''bakery'' db1 [] [] = Inr snap1" using quiet_snapshot by meson
  show ?thesis using disabled_upstream_stays_in_service [OF db1 snap snap1] db1 snap snap1 by blast
qed

end
