(* ===== verification/Gateway_Provisioner.thy ===== *)
theory Gateway_Provisioner
  imports Domain_Provisioner Container_Manager
begin

text \<open>
  The worker that puts dedicated gateways behind the load balancer and takes them down again
  (\<^verbatim>\<open>cmd/worker/gateway_provisioner.go\<close>), and the reconciler of stale draining gateways
  (\<^verbatim>\<open>cmd/worker/main.go\<close>).

  A run threads the table of gateways, the history of AWS calls and the history of Docker calls. It
  reads one value of each clock. Logging is left out.
\<close>

section \<open>Resource names\<close>

fun suffixBytes :: "string \<Rightarrow> string \<Rightarrow> string" where
  "suffixBytes cleaned [] = cleaned"
| "suffixBytes cleaned (c # cs) =
     (if byteIn (CHR ''a'') (CHR ''z'') c then suffixBytes (cleaned @ [c]) cs
      else if byteIn (CHR ''0'') (CHR ''9'') c then suffixBytes (cleaned @ [c]) cs
      else if length cleaned > 0 then suffixBytes (cleaned @ ''-'') cs
      else suffixBytes cleaned cs)"

definition gatewayResourceSuffix :: "(string \<Rightarrow> string) \<Rightarrow> string \<Rightarrow> string" where
  "gatewayResourceSuffix sha256hex externalID =
     (let v = TrimPrefix (TrimPrefix (ToLower (TrimSpace externalID)) ''gw_'') ''gw-'';
          result = TrimByte (suffixBytes [] v) (CHR ''-'')
      in if result \<noteq> [] \<and> length result \<le> 20 then result
         else take 12 (sha256hex externalID))"

definition gatewayTargetGroupName :: "(string \<Rightarrow> string) \<Rightarrow> string \<Rightarrow> string" where
  "gatewayTargetGroupName sha256hex externalID = ''eg-gw-'' @ gatewayResourceSuffix sha256hex externalID"

definition gatewayHostname :: "(string \<Rightarrow> string) \<Rightarrow> string \<Rightarrow> string \<Rightarrow> string" where
  "gatewayHostname sha256hex externalID baseDomain =
     ''gw-'' @ gatewayResourceSuffix sha256hex externalID @ ''.'' @ baseDomain"

section \<open>The provisioner\<close>

record gateway_provisioner =
  gp_loadBalancer :: aws_client
  gp_containerMgr :: "container_manager option"
  gp_workerID :: string
  gp_listenerARN :: string
  gp_vpcID :: string
  gp_instanceID :: string
  gp_baseDomain :: string
  gp_priorityMin :: int
  gp_priorityMax :: int
  gp_maxRetries :: int
  gp_healthPollInterval :: go_duration
  gp_sha256hex :: "string \<Rightarrow> string"

definition NewGatewayProvisioner ::
  "aws_client \<Rightarrow> container_manager option \<Rightarrow> string \<Rightarrow> string \<Rightarrow> string \<Rightarrow> string \<Rightarrow> string \<Rightarrow> int \<Rightarrow> int
    \<Rightarrow> (string \<Rightarrow> string) \<Rightarrow> uuid \<Rightarrow> gateway_provisioner" where
  "NewGatewayProvisioner lb cm workerID listenerARN vpcID instanceID baseDomain lo hi sha256hex newUUID =
     \<lparr>gp_loadBalancer = lb, gp_containerMgr = cm,
      gp_workerID = (if workerID = [] then ''gateway-worker-'' @ take 8 newUUID else workerID),
      gp_listenerARN = TrimSpace listenerARN, gp_vpcID = TrimSpace vpcID, gp_instanceID = TrimSpace instanceID,
      gp_baseDomain = TrimSuffix (TrimSpace baseDomain) ''.'', gp_priorityMin = lo, gp_priorityMax = hi,
      gp_maxRetries = 10, gp_healthPollInterval = 15 * second, gp_sha256hex = sha256hex\<rparr>"

datatype gateway_error = GwRepoFailed repo_error | UnsupportedStatus gateway_step

type_synonym gw_result = "gateway_error option \<times> gateways \<times> sdk_call list \<times> docker_call list"

definition gw_repo :: "repo_error option \<times> gateways \<Rightarrow> sdk_call list \<Rightarrow> docker_call list \<Rightarrow> gw_result" where
  "gw_repo res h d = (map_option GwRepoFailed (fst res), snd res, h, d)"

text \<open>\<^verbatim>\<open>int32(n)\<close>.\<close>

definition int32_of :: "int \<Rightarrow> int" where
  "int32_of n = sint (word_of_int n :: 32 word)"

definition gw_failJob :: "db_env \<Rightarrow> gateway_job \<Rightarrow> string \<Rightarrow> gateways \<Rightarrow> repo_error option \<times> gateways" where
  "gw_failJob env job message t =
     MarkGatewayIngressFailed env (gj_ExternalID job) (gj_LeaseToken job) message t"

definition retryOrFail ::
  "gateway_provisioner \<Rightarrow> db_env \<Rightarrow> gateway_job \<Rightarrow> string \<Rightarrow> gateways \<Rightarrow> repo_error option \<times> gateways" where
  "retryOrFail p env job operationErr t =
     (let trimmed = TrimSpace operationErr;
          message = (if length trimmed > 1000 then take 1000 trimmed else trimmed);
          nextAttempt = gj_RetryCount job + 1
      in if nextAttempt \<ge> gp_maxRetries p
         then MarkGatewayIngressFailed env (gj_ExternalID job) (gj_LeaseToken job) message t
         else ScheduleGatewayIngressRetry env (gj_ExternalID job) (gj_LeaseToken job) message
                (de_clock env + CalculateRetryDelay nextAttempt) t)"

section \<open>Bringing a gateway up\<close>

definition handleContainerReady ::
  "gateway_provisioner \<Rightarrow> db_env \<Rightarrow> gateway_job \<Rightarrow> gateways \<Rightarrow> sdk_call list \<Rightarrow> docker_call list \<Rightarrow> gw_result" where
  "handleContainerReady p env job t h d =
     (if gj_HostPort job < 1 \<or> gj_HostPort job > 65535
      then gw_repo (gw_failJob env job (''invalid Docker host port '' @ showInt (gj_HostPort job)) t) h d
      else
        (case CreateGatewayTargetGroup (gp_loadBalancer p)
                (gatewayTargetGroupName (gp_sha256hex p) (gj_ExternalID job)) (gp_vpcID p) h of
           (Inl e, h1) \<Rightarrow> gw_repo (retryOrFail p env job (ae_msg e) t) h1 d
         | (Inr targetGroupARN, h1) \<Rightarrow>
             gw_repo (MarkGatewayTargetGroupCreated env (gj_ExternalID job) (gj_LeaseToken job) targetGroupARN t) h1 d))"

definition handleRegisteringTarget ::
  "gateway_provisioner \<Rightarrow> db_env \<Rightarrow> gateway_job \<Rightarrow> gateways \<Rightarrow> sdk_call list \<Rightarrow> docker_call list \<Rightarrow> gw_result" where
  "handleRegisteringTarget p env job t h d =
     (if gj_TargetGroupARN job = [] then gw_repo (gw_failJob env job ''target group ARN is missing'' t) h d
      else
        (case RegisterGatewayTarget (gp_loadBalancer p) (gj_TargetGroupARN job) (gp_instanceID p)
                (int32_of (gj_HostPort job)) h of
           (Inl e, h1) \<Rightarrow> gw_repo (retryOrFail p env job (ae_msg e) t) h1 d
         | (Inr _, h1) \<Rightarrow>
             gw_repo (MarkGatewayTargetRegistered env (gj_ExternalID job) (gj_LeaseToken job) t) h1 d))"

definition handleCreatingListenerRule ::
  "gateway_provisioner \<Rightarrow> db_env \<Rightarrow> gateway_job \<Rightarrow> gateways \<Rightarrow> sdk_call list \<Rightarrow> docker_call list \<Rightarrow> gw_result" where
  "handleCreatingListenerRule p env job t h d =
     (if gj_TargetGroupARN job = []
      then gw_repo (gw_failJob env job ''target group ARN is missing before listener-rule creation'' t) h d
      else
        (case ReserveGatewayListenerRulePriority env (gj_ExternalID job) (gj_LeaseToken job)
                (gp_priorityMin p) (gp_priorityMax p) t of
           (Inl e, t1) \<Rightarrow> gw_repo (retryOrFail p env job (repo_error_text e) t1) h d
         | (Inr priority, t1) \<Rightarrow>
             (case CreateGatewayHostRule (gp_loadBalancer p) (gp_listenerARN p)
                     (gatewayHostname (gp_sha256hex p) (gj_ExternalID job) (gp_baseDomain p))
                     (gj_TargetGroupARN job) (int32_of priority) h of
                (Inl e, h1) \<Rightarrow> gw_repo (retryOrFail p env job (ae_msg e) t1) h1 d
              | (Inr ruleARN, h1) \<Rightarrow>
                  gw_repo (MarkGatewayListenerRuleCreated env (gj_ExternalID job) (gj_LeaseToken job) ruleARN
                    (de_clock env + gp_healthPollInterval p) t1) h1 d)))"

definition handleWaitingForTargetHealth ::
  "gateway_provisioner \<Rightarrow> db_env \<Rightarrow> gateway_job \<Rightarrow> gateways \<Rightarrow> sdk_call list \<Rightarrow> docker_call list \<Rightarrow> gw_result" where
  "handleWaitingForTargetHealth p env job t h d =
     (if gj_TargetGroupARN job = []
      then gw_repo (gw_failJob env job ''target group ARN is missing during health check'' t) h d
      else
        (case GetGatewayTargetHealth (gp_loadBalancer p) (gj_TargetGroupARN job) (gp_instanceID p)
                (int32_of (gj_HostPort job)) h of
           (Inl e, h1) \<Rightarrow> gw_repo (retryOrFail p env job (ae_msg e) t) h1 d
         | (Inr state, h1) \<Rightarrow>
             (let st = ToLower (TrimSpace state);
                  hostname = gatewayHostname (gp_sha256hex p) (gj_ExternalID job) (gp_baseDomain p)
              in if st = ''healthy''
                 then gw_repo (MarkGatewayIngressActive env (gj_ExternalID job) (gj_LeaseToken job) hostname
                        (''https://'' @ hostname) t) h1 d
                 else if st = ''unhealthy''
                 then gw_repo (retryOrFail p env job ''ALB reports the dedicated gateway target as unhealthy'' t) h1 d
                 else gw_repo (RescheduleGatewayHealthCheck env (gj_ExternalID job) (gj_LeaseToken job)
                        (de_clock env + gp_healthPollInterval p) t) h1 d)))"

section \<open>Taking a gateway down\<close>

text \<open>A step of the clean-up that AWS does: an error ends the run with a retry, success goes on.\<close>

definition gw_cleanup ::
  "gateway_provisioner \<Rightarrow> db_env \<Rightarrow> gateway_job \<Rightarrow> string \<Rightarrow> gateways \<Rightarrow> docker_call list \<Rightarrow> bool
    \<Rightarrow> (sdk_call list \<Rightarrow> (aws_error + unit) \<times> sdk_call list) \<Rightarrow> (sdk_call list \<Rightarrow> gw_result) \<Rightarrow> sdk_call list \<Rightarrow> gw_result" where
  "gw_cleanup p env job what t d needed operation continue h =
     (if needed
      then (case operation h of
              (Inl e, h1) \<Rightarrow> gw_repo (retryOrFail p env job (what @ '': '' @ ae_msg e) t) h1 d
            | (Inr _, h1) \<Rightarrow> continue h1)
      else continue h)"

definition removeContainer ::
  "gateway_provisioner \<Rightarrow> db_env \<Rightarrow> gateway_job \<Rightarrow> gateways \<Rightarrow> docker_call list \<Rightarrow> sdk_call list \<Rightarrow> gw_result" where
  "removeContainer p env job t d h =
     (case gp_containerMgr p of
        None \<Rightarrow> gw_repo (retryOrFail p env job ''Docker container manager is not configured'' t) h d
      | Some m \<Rightarrow>
          (case Container_Decommission m (gj_ExternalID job) d of
             (Some e, d1) \<Rightarrow> gw_repo (retryOrFail p env job (''remove gateway container: '' @ e) t) h d1
           | (None, d1) \<Rightarrow>
               gw_repo (MarkGatewayDecommissioned env (gj_ExternalID job) (gj_LeaseToken job) t) h d1))"

definition gw_handleDeprovisioning ::
  "gateway_provisioner \<Rightarrow> db_env \<Rightarrow> gateway_job \<Rightarrow> gateways \<Rightarrow> sdk_call list \<Rightarrow> docker_call list \<Rightarrow> gw_result" where
  "gw_handleDeprovisioning p env job t h d =
     gw_cleanup p env job ''delete gateway listener rule'' t d (gj_ListenerRuleARN job \<noteq> [])
       (DeleteGatewayHostRule (gp_loadBalancer p) (gj_ListenerRuleARN job))
       (gw_cleanup p env job ''deregister gateway target'' t d (gj_TargetGroupARN job \<noteq> [] \<and> gj_HostPort job > 0)
         (DeregisterGatewayTarget (gp_loadBalancer p) (gj_TargetGroupARN job) (gp_instanceID p)
            (int32_of (gj_HostPort job)))
         (gw_cleanup p env job ''delete gateway target group'' t d (gj_TargetGroupARN job \<noteq> [])
           (DeleteGatewayTargetGroup (gp_loadBalancer p) (gj_TargetGroupARN job))
           (removeContainer p env job t d))) h"

section \<open>One run\<close>

definition gw_handleJob ::
  "gateway_provisioner \<Rightarrow> db_env \<Rightarrow> gateway_job \<Rightarrow> gateways \<Rightarrow> sdk_call list \<Rightarrow> docker_call list \<Rightarrow> gw_result" where
  "gw_handleJob p env job t h d =
     (case gj_ProvisioningStatus job of
        GsContainerReady \<Rightarrow> handleContainerReady p env job t h d
      | GsRegisteringTarget \<Rightarrow> handleRegisteringTarget p env job t h d
      | GsCreatingListenerRule \<Rightarrow> handleCreatingListenerRule p env job t h d
      | GsWaitingForTargetHealth \<Rightarrow> handleWaitingForTargetHealth p env job t h d
      | GsDeprovisioning \<Rightarrow> gw_handleDeprovisioning p env job t h d
      | st \<Rightarrow> (Some (UnsupportedStatus st), t, h, d))"

definition gw_ProcessNextJob ::
  "gateway_provisioner \<Rightarrow> db_env \<Rightarrow> gateways \<Rightarrow> sdk_call list \<Rightarrow> docker_call list
    \<Rightarrow> (bool \<times> gateway_error option) \<times> gateways \<times> sdk_call list \<times> docker_call list" where
  "gw_ProcessNextJob p env t h d =
     (case ClaimNextGatewayIngressJob env (gp_workerID p) (5 * minute) t of
        (Inl e, t1) \<Rightarrow> ((False, Some (GwRepoFailed e)), t1, h, d)
      | (Inr None, t1) \<Rightarrow> ((False, None), t1, h, d)
      | (Inr (Some job), t1) \<Rightarrow>
          (case gw_handleJob p env job t1 h d of (err, rest) \<Rightarrow> ((True, err), rest)))"

section \<open>The reconciler\<close>

text \<open>
  Gateways that a \<^verbatim>\<open>MarkDraining\<close> left draining for longer than the threshold: the container is removed
  and the row is closed, each gateway on its own; an error leaves it for the next round.
\<close>

fun reconcileRows ::
  "container_manager \<Rightarrow> db_env \<Rightarrow> (string \<times> go_time) list \<Rightarrow> gateways \<Rightarrow> docker_call list \<Rightarrow> gateways \<times> docker_call list" where
  "reconcileRows m env [] t d = (t, d)"
| "reconcileRows m env ((externalID, _) # stale) t d =
     (case Container_Decommission m externalID d of
        (Some _, d1) \<Rightarrow> reconcileRows m env stale t d1
      | (None, d1) \<Rightarrow> reconcileRows m env stale (snd (Decommission env externalID t)) d1)"

definition reconcileStaleDraining ::
  "container_manager \<Rightarrow> db_env \<Rightarrow> go_duration \<Rightarrow> gateways \<Rightarrow> docker_call list \<Rightarrow> gateways \<times> docker_call list" where
  "reconcileStaleDraining m env staleAfter t d =
     (case ListStaleDraining env staleAfter t of
        Inl _ \<Rightarrow> (t, d)
      | Inr stale \<Rightarrow> reconcileRows m env stale t d)"

section \<open>How a claimed row moves\<close>

text \<open>The steps of the state machine, as the writes of the repository that a run may end with.\<close>

inductive gw_next :: "gateway_provisioner \<Rightarrow> db_env \<Rightarrow> gateway_row \<Rightarrow> gateway_row \<Rightarrow> bool" for p env r where
  gn_failed: "gw_next p env r (IngressFailed_set env m r)"
| gn_retried: "gw_RetryCount r + 1 < gp_maxRetries p \<Longrightarrow> gw_next p env r (IngressRetry_set env m n r)"
| gn_target_group: "gw_ProvisioningStatus r = GsContainerReady \<Longrightarrow> gw_next p env r (TargetGroupCreated_set env arn r)"
| gn_registered: "gw_ProvisioningStatus r = GsRegisteringTarget \<Longrightarrow> gw_next p env r (TargetRegistered_set env r)"
| gn_rule: "gw_ProvisioningStatus r = GsCreatingListenerRule \<Longrightarrow> gw_next p env r (ListenerRuleCreated_set env arn n r)"
| gn_poll: "gw_ProvisioningStatus r = GsWaitingForTargetHealth \<Longrightarrow> gw_next p env r (HealthRescheduled_set env n r)"
| gn_active: "gw_ProvisioningStatus r = GsWaitingForTargetHealth \<Longrightarrow> gw_next p env r (IngressActive_set env host ep r)"
| gn_decommissioned: "gw_ProvisioningStatus r = GsDeprovisioning \<Longrightarrow> gw_next p env r (Decommissioned_set env r)"

inductive_cases gw_nextE: "gw_next p env r r'"

definition gw_written :: "gateway_provisioner \<Rightarrow> db_env \<Rightarrow> nat \<Rightarrow> gateways \<Rightarrow> bool \<Rightarrow> gateways \<Rightarrow> bool" where
  "gw_written p env k t ok t' \<longleftrightarrow>
     (\<exists>r'. t' = t[k := r'] \<and> (gw_next p env (t ! k) r' \<or> \<not> ok \<and> r' = t ! k))"

text \<open>Before its last write the handler of the listener rule may have stored a priority.\<close>

definition gw_reserved :: "db_env \<Rightarrow> gateway_row \<Rightarrow> gateway_row \<Rightarrow> bool" where
  "gw_reserved env r r0 \<longleftrightarrow>
     r0 = r \<or> gw_ProvisioningStatus r = GsCreatingListenerRule \<and> (\<exists>q. r0 = Reserve_set env q r)"

definition gw_moved :: "gateway_provisioner \<Rightarrow> db_env \<Rightarrow> nat \<Rightarrow> gateways \<Rightarrow> bool \<Rightarrow> gateways \<Rightarrow> bool" where
  "gw_moved p env k t ok t' \<longleftrightarrow>
     (\<exists>r0 r'. t' = t[k := r'] \<and> gw_reserved env (t ! k) r0 \<and> (gw_next p env r0 r' \<or> \<not> ok \<and> r' = r0))"

lemma gw_written_moved: "gw_written p env k t ok t' \<Longrightarrow> gw_moved p env k t ok t'"
  by (auto simp: gw_written_def gw_moved_def gw_reserved_def)

text \<open>The claimed row under its lease, and the job made from it.\<close>

definition claimed_job :: "nat \<Rightarrow> gateways \<Rightarrow> gateway_job \<Rightarrow> bool" where
  "claimed_job k t job \<longleftrightarrow>
     distinct (map gw_ExternalID t) \<and> k < length t \<and> gw_live (t ! k)
     \<and> gw_LeaseToken (t ! k) = Some (gj_LeaseToken job)
     \<and> gj_ExternalID job = gw_ExternalID (t ! k) \<and> gj_RetryCount job = gw_RetryCount (t ! k)
     \<and> gj_ProvisioningStatus job = gw_ProvisioningStatus (t ! k)"

lemma claimed_jobD:
  assumes "claimed_job k t job"
  shows "distinct (map gw_ExternalID t)" "k < length t" "gw_live (t ! k)" "gw_LeaseToken (t ! k) = Some (gj_LeaseToken job)"
    "gj_ExternalID job = gw_ExternalID (t ! k)" "gj_RetryCount job = gw_RetryCount (t ! k)"
    "gj_ProvisioningStatus job = gw_ProvisioningStatus (t ! k)"
  using assms unfolding claimed_job_def by blast+

lemma claimed_job_reserved:
  assumes "claimed_job k t job"
  shows "claimed_job k (t[k := Reserve_set env q (t ! k)]) job"
  using claimed_jobD [OF assms] by (simp add: claimed_job_def update_same_ident Reserve_set_def)

lemma gw_exec_hit:
  assumes "claimed_job k t job" "gw_exec_leased env s P f t = (err, t')"
    and "P (t ! k)" "\<And>r. P r \<Longrightarrow> gw_ExternalID r = gw_ExternalID (t ! k)"
  shows "t' = t[k := f (t ! k)] \<or> err \<noteq> None \<and> t' = t"
proof -
  have "sql_update P f t = t[k := f (t ! k)]"
    using claimed_jobD(1,2) [OF assms(1)] assms(3,4) by (rule sql_update_hit)
  then show ?thesis
    using assms(2) unfolding gw_exec_leased_def ensureGatewayIngressUpdated_def exec_update_def
    by (auto split: option.splits if_splits)
qed

lemma gw_write_ends:
  assumes "claimed_job k t job" "gw_exec_leased env s P f t = (err, t')"
    and "P (t ! k)" "\<And>r. P r \<Longrightarrow> gw_ExternalID r = gw_ExternalID (t ! k)" "gw_next p env (t ! k) (f (t ! k))"
  shows "gw_written p env k t (err = None) t'"
  using gw_exec_hit [OF assms(1-4)] assms(5) unfolding gw_written_def by (metis list_update_id)

lemma gw_leased_claimed:
  assumes "claimed_job k t job"
  shows "gw_leased (gj_ExternalID job) (gj_LeaseToken job) (t ! k)"
    "gw_leased (gj_ExternalID job) (gj_LeaseToken job) r \<Longrightarrow> gw_ExternalID r = gw_ExternalID (t ! k)"
  using claimed_jobD [OF assms] by (auto simp: gw_leased_def)

lemma gw_leased_write:
  assumes "claimed_job k t job"
    and "gw_exec_leased env s (gw_leased (gj_ExternalID job) (gj_LeaseToken job)) f t = (err, t')"
    and "gw_next p env (t ! k) (f (t ! k))"
  shows "gw_written p env k t (err = None) t'"
  using assms(1,2) gw_leased_claimed [OF assms(1)] assms(3) by (rule gw_write_ends)

lemma retryOrFail_ends:
  assumes c: "claimed_job k t job" and run: "retryOrFail p env job m t = (err, t')"
  shows "gw_written p env k t (err = None) t'"
proof -
  have rc: "gj_RetryCount job = gw_RetryCount (t ! k)" using claimed_jobD [OF c] by simp
  show ?thesis
  proof (cases "gj_RetryCount job + 1 \<ge> gp_maxRetries p")
    case True
    then show ?thesis using run unfolding retryOrFail_def MarkGatewayIngressFailed_def Let_def
      by (auto intro!: gw_leased_write [OF c] gn_failed)
  next
    case False
    then show ?thesis using run rc unfolding retryOrFail_def ScheduleGatewayIngressRetry_def Let_def
      by (auto intro!: gw_leased_write [OF c] gn_retried)
  qed
qed

lemma gw_failJob_ends:
  assumes "claimed_job k t job" "gw_failJob env job m t = (err, t')"
  shows "gw_written p env k t (err = None) t'"
  using assms(2) unfolding gw_failJob_def MarkGatewayIngressFailed_def
  by (rule gw_leased_write [OF assms(1)]) (rule gn_failed)

text \<open>Every handler ends with one write, or with an error.\<close>

lemma gw_repo_simps [simp]:
  "fst (gw_repo res h d) = None \<longleftrightarrow> fst res = None" "fst (snd (gw_repo res h d)) = snd res"
  "fst (snd (snd (gw_repo res h d))) = h" "snd (snd (snd (gw_repo res h d))) = d"
  by (simp_all add: gw_repo_def)

definition gw_ends :: "gateway_provisioner \<Rightarrow> db_env \<Rightarrow> nat \<Rightarrow> gateways \<Rightarrow> gw_result \<Rightarrow> bool" where
  "gw_ends p env k t res \<longleftrightarrow> gw_written p env k t (fst res = None) (fst (snd res))"

lemma gw_ends_repo: "gw_ends p env k t (gw_repo res h d) \<longleftrightarrow> gw_written p env k t (fst res = None) (snd res)"
  by (simp add: gw_ends_def)

lemma retryOrFail_gw_ends:
  "claimed_job k t job \<Longrightarrow> gw_ends p env k t (gw_repo (retryOrFail p env job m t) h d)"
  using retryOrFail_ends [of k t job p env m] by (cases "retryOrFail p env job m t") (simp add: gw_ends_repo)

lemma failJob_gw_ends:
  "claimed_job k t job \<Longrightarrow> gw_ends p env k t (gw_repo (gw_failJob env job m t) h d)"
  using gw_failJob_ends [of k t job env m] by (cases "gw_failJob env job m t") (simp add: gw_ends_repo)

lemma leased_gw_ends:
  assumes "claimed_job k t job" "gw_next p env (t ! k) (f (t ! k))"
  shows "gw_ends p env k t (gw_repo (gw_exec_leased env s (gw_leased (gj_ExternalID job) (gj_LeaseToken job)) f t) h d)"
  using gw_leased_write [where f = f, OF assms(1) _ assms(2)]
  by (cases "gw_exec_leased env s (gw_leased (gj_ExternalID job) (gj_LeaseToken job)) f t") (simp add: gw_ends_repo)

lemmas gw_ends_intros = retryOrFail_gw_ends failJob_gw_ends leased_gw_ends

lemma handleContainerReady_ends:
  assumes "claimed_job k t job" "gw_ProvisioningStatus (t ! k) = GsContainerReady"
  shows "gw_ends p env k t (handleContainerReady p env job t h d)"
  unfolding handleContainerReady_def MarkGatewayTargetGroupCreated_def
  using assms by (auto intro!: gw_ends_intros gn_target_group split: prod.split sum.split)

lemma handleRegisteringTarget_ends:
  assumes "claimed_job k t job" "gw_ProvisioningStatus (t ! k) = GsRegisteringTarget"
  shows "gw_ends p env k t (handleRegisteringTarget p env job t h d)"
  unfolding handleRegisteringTarget_def MarkGatewayTargetRegistered_def
  using assms by (auto intro!: gw_ends_intros gn_registered split: prod.split sum.split)

lemma handleWaitingForTargetHealth_ends:
  assumes "claimed_job k t job" "gw_ProvisioningStatus (t ! k) = GsWaitingForTargetHealth"
  shows "gw_ends p env k t (handleWaitingForTargetHealth p env job t h d)"
  unfolding handleWaitingForTargetHealth_def MarkGatewayIngressActive_def RescheduleGatewayHealthCheck_def Let_def
  using assms by (auto intro!: gw_ends_intros gn_active gn_poll split: prod.split sum.split)

lemma removeContainer_ends:
  assumes c: "claimed_job k t job" and st: "gw_ProvisioningStatus (t ! k) = GsDeprovisioning"
  shows "gw_ends p env k t (removeContainer p env job t d h)"
proof -
  have "gw_ends p env k t (gw_repo (MarkGatewayDecommissioned env (gj_ExternalID job) (gj_LeaseToken job) t) h d1)" for d1
  proof -
    obtain err t' where run: "gw_exec_leased env ''mark gateway decommissioned''
        (Decommissioned_where (gj_ExternalID job) (gj_LeaseToken job)) (Decommissioned_set env) t = (err, t')" by fastforce
    have "gw_written p env k t (err = None) t'"
      using c run
    proof (rule gw_write_ends)
      show "Decommissioned_where (gj_ExternalID job) (gj_LeaseToken job) (t ! k)"
        using claimed_jobD [OF c] st by (simp add: Decommissioned_where_def)
      show "gw_ExternalID r = gw_ExternalID (t ! k)" if "Decommissioned_where (gj_ExternalID job) (gj_LeaseToken job) r" for r
        using that claimed_jobD [OF c] by (simp add: Decommissioned_where_def)
      show "gw_next p env (t ! k) (Decommissioned_set env (t ! k))" using st by (rule gn_decommissioned)
    qed
    then show ?thesis using run by (simp add: gw_ends_repo MarkGatewayDecommissioned_def)
  qed
  then show ?thesis
    unfolding removeContainer_def using c by (auto intro!: retryOrFail_gw_ends split: option.split prod.split)
qed

lemma gw_cleanup_ends:
  assumes "claimed_job k t job" "\<And>h1. gw_ends p env k t (continue h1)"
  shows "gw_ends p env k t (gw_cleanup p env job what t d needed operation continue h)"
  unfolding gw_cleanup_def using assms by (auto intro!: retryOrFail_gw_ends split: prod.split sum.split)

lemma gw_handleDeprovisioning_ends:
  assumes "claimed_job k t job" "gw_ProvisioningStatus (t ! k) = GsDeprovisioning"
  shows "gw_ends p env k t (gw_handleDeprovisioning p env job t h d)"
  unfolding gw_handleDeprovisioning_def by (intro gw_cleanup_ends removeContainer_ends assms)

lemma Reserve_hit:
  assumes c: "claimed_job k t job"
    and run: "ReserveGatewayListenerRulePriority env (gj_ExternalID job) (gj_LeaseToken job) lo hi t = (res, t1)"
  obtains (same) "t1 = t" | (reserved) q where "res = Inr q" "t1 = t[k := Reserve_set env q (t ! k)]"
proof -
  have "sql_update (gw_leased (gj_ExternalID job) (gj_LeaseToken job)) (Reserve_set env q) t = t[k := Reserve_set env q (t ! k)]" for q
    using claimed_jobD(1,2) [OF c] gw_leased_claimed [OF c] by (rule sql_update_hit)
  then show ?thesis using Reserve_table [OF run] that by auto
qed

definition gw_ended :: "gateway_provisioner \<Rightarrow> db_env \<Rightarrow> nat \<Rightarrow> gateways \<Rightarrow> gw_result \<Rightarrow> bool" where
  "gw_ended p env k t res \<longleftrightarrow> gw_moved p env k t (fst res = None) (fst (snd res))"

lemma gw_ends_ended: "gw_ends p env k t res \<Longrightarrow> gw_ended p env k t res"
  unfolding gw_ends_def gw_ended_def by (rule gw_written_moved)

lemma gw_ends_after_reserve:
  assumes "gw_ends p env k (t[k := Reserve_set env q (t ! k)]) res" "k < length t"
    and "gw_ProvisioningStatus (t ! k) = GsCreatingListenerRule"
  shows "gw_ended p env k t res"
  using assms unfolding gw_ends_def gw_ended_def gw_written_def gw_moved_def gw_reserved_def by auto

lemma handleCreatingListenerRule_ended:
  assumes c: "claimed_job k t job" and st: "gw_ProvisioningStatus (t ! k) = GsCreatingListenerRule"
  shows "gw_ended p env k t (handleCreatingListenerRule p env job t h d)"
proof -
  obtain res t1 where r: "ReserveGatewayListenerRulePriority env (gj_ExternalID job) (gj_LeaseToken job)
      (gp_priorityMin p) (gp_priorityMax p) t = (res, t1)" by fastforce
  show ?thesis
  proof (cases "gj_TargetGroupARN job = []")
    case True
    then show ?thesis unfolding handleCreatingListenerRule_def using failJob_gw_ends [OF c] gw_ends_ended by simp
  next
    case False
    have ended: "gw_ended p env k t (handleCreatingListenerRule p env job t h d)"
      if c1: "claimed_job k t1 job" "gw_ProvisioningStatus (t1 ! k) = GsCreatingListenerRule"
        and up: "\<And>res'. gw_ends p env k t1 res' \<Longrightarrow> gw_ended p env k t res'"
      unfolding handleCreatingListenerRule_def r MarkGatewayListenerRuleCreated_def
      using False c1 by (auto intro!: up gw_ends_intros gn_rule split: prod.split sum.split)
    from c r show ?thesis
    proof (cases rule: Reserve_hit)
      case same
      then show ?thesis using c st ended gw_ends_ended by simp
    next
      case (reserved q)
      have k: "k < length t" using claimed_jobD(2) [OF c] .
      show ?thesis
        using ended claimed_job_reserved [OF c, of env q] gw_ends_after_reserve [OF _ k st] reserved(2) st k
        by (simp add: Reserve_set_def)
    qed
  qed
qed

lemma gw_handleJob_ended:
  assumes "claimed_job k t job"
  shows "gw_ended p env k t (gw_handleJob p env job t h d)"
proof -
  have st: "gj_ProvisioningStatus job = gw_ProvisioningStatus (t ! k)" and k: "k < length t"
    using claimed_jobD [OF assms] by blast+
  have keep: "gw_ended p env k t (Some e, t, h, d)" for e
    unfolding gw_ended_def gw_moved_def gw_reserved_def using k by (intro exI [of _ "t ! k"]) simp
  note ends = handleContainerReady_ends handleRegisteringTarget_ends handleWaitingForTargetHealth_ends gw_handleDeprovisioning_ends
  show ?thesis
    unfolding gw_handleJob_def using assms st keep handleCreatingListenerRule_ended [OF assms] ends [THEN gw_ends_ended, OF assms]
    by (auto split: gateway_step.split)
qed

text \<open>A run that had a job: the claimed row, and the handler on the table after the claim.\<close>

lemma gw_ProcessNextJob_job:
  assumes "gw_ProcessNextJob p env t h d = ((b, err), t', h', d')" "distinct (map gw_ExternalID t)"
  obtains (idle) "t' = t" "h' = h" "d' = d" "\<not> b"
  | (job) k job t1 where "k < length t" "gw_queued (t ! k)"
      "t1 = t[k := gw_claim_set env (gp_workerID p) (de_uuid env) (t ! k)]" "claimed_job k t1 job"
      "job = gateway_job_of (de_uuid env) (t ! k)" "gw_handleJob p env job t1 h d = (err, t', h', d')"
proof -
  obtain res t1 where c: "ClaimNextGatewayIngressJob env (gp_workerID p) (5 * minute) t = (res, t1)" by fastforce
  note claim = c [unfolded ClaimNextGatewayIngressJob_def Let_def]
  show ?thesis
  proof (cases "\<exists>job. res = Inr (Some job)")
    case False
    have "t1 = t" using claim False by (auto split: option.splits)
    moreover have "t' = t1" "h' = h" "d' = d" "\<not> b"
      using assms(1) False c unfolding gw_ProcessNextJob_def by (auto split: sum.splits option.splits)
    ultimately show ?thesis using idle by simp
  next
    case True
    then obtain job where job: "res = Inr (Some job)" by blast
    then obtain r where pick: "gw_next_job env (de_clock env - (if 5 * minute \<le> (0::int) then 5 * minute else 5 * minute)) t = Some r"
      and j: "job = gateway_job_of (de_uuid env) r"
      and t1: "t1 = sql_update (\<lambda>g. gw_ExternalID g = gw_ExternalID r) (gw_claim_set env (gp_workerID p) (de_uuid env)) t"
      using claim by (auto split: option.splits)
    have r: "r \<in> set t" "gw_queued r"
      using gwq.earliest_due_first(1,2) [OF pick [unfolded gw_next_job_def]] by (auto simp: job_due_def)
    then obtain k where k: "k < length t" "t ! k = r" by (auto simp: in_set_conv_nth)
    have t1': "t1 = t[k := gw_claim_set env (gp_workerID p) (de_uuid env) (t ! k)]"
      unfolding t1 using sql_update_one [OF assms(2) k(1)] k(2) by simp
    have "claimed_job k t1 job"
      using assms(2) r k unfolding claimed_job_def t1' j
      by (simp add: update_same_ident gw_claim_set_def gateway_job_of_def gw_queued_def)
    moreover have "gw_handleJob p env job t1 h d = (err, t', h', d')"
      using assms(1) c job by (auto simp: gw_ProcessNextJob_def split: prod.splits)
    ultimately show ?thesis using that(2) [OF k(1) _ t1'] r j k by simp
  qed
qed

section \<open>Runs are bounded\<close>

definition gw_steps_left :: "gateway_step \<Rightarrow> nat" where
  "gw_steps_left s =
     (case s of
        GsContainerReady \<Rightarrow> 4 | GsRegisteringTarget \<Rightarrow> 3 | GsCreatingListenerRule \<Rightarrow> 2
      | GsWaitingForTargetHealth \<Rightarrow> 1 | GsCreatingTargetGroup \<Rightarrow> 1 | GsDeprovisioning \<Rightarrow> 1 | _ \<Rightarrow> 0)"

definition gw_rank :: "gateway_provisioner \<Rightarrow> gateway_row \<Rightarrow> nat" where
  "gw_rank p r = (if gw_queued r then nat (gp_maxRetries p - gw_RetryCount r) + gw_steps_left (gw_ProvisioningStatus r) else 0)"

definition gw_work :: "gateway_provisioner \<Rightarrow> gateways \<Rightarrow> nat" where
  "gw_work p t = sum_list (map (gw_rank p) t)"

text \<open>What the queue shows of a gateway, apart from its lock and the time of its next check.\<close>

definition gw_progress :: "gateway_row \<Rightarrow> gateway_step \<times> int" where
  "gw_progress r = (gw_ProvisioningStatus r, gw_RetryCount r)"

lemma gw_next_rank:
  assumes "gw_next p env r r'" "gw_queued r"
  shows "gw_rank p r' < gw_rank p r \<or> gw_rank p r' = gw_rank p r \<and> gw_progress r' = gw_progress r"
  using assms
  by (cases rule: gw_next.cases)
     (auto simp: gw_rank_def gw_queued_def gw_steps_left_def gw_progress_def gw_set_defs split: gateway_step.splits)

lemma gw_next_ident: "gw_next p env r r' \<Longrightarrow> gw_ExternalID r' = gw_ExternalID r"
  by (erule gw_next.cases) (simp_all add: gw_set_defs)

lemma gw_reserved_simps:
  assumes "gw_reserved env r r0"
  shows "gw_ExternalID r0 = gw_ExternalID r" "gw_rank p r0 = gw_rank p r" "gw_progress r0 = gw_progress r"
    "gw_queued r0 = gw_queued r" "gw_ProvisioningStatus r0 = gw_ProvisioningStatus r"
  using assms by (auto simp: gw_reserved_def gw_rank_def gw_progress_def gw_queued_def Reserve_set_def)

lemma gw_claim_simps [simp]:
  "gw_ExternalID (gw_claim_set env w u r) = gw_ExternalID r" "gw_rank p (gw_claim_set env w u r) = gw_rank p r"
  "gw_progress (gw_claim_set env w u r) = gw_progress r" "gw_queued (gw_claim_set env w u r) = gw_queued r"
  "gw_ProvisioningStatus (gw_claim_set env w u r) = gw_ProvisioningStatus r"
  by (simp_all add: gw_claim_set_def gw_rank_def gw_progress_def gw_queued_def)

lemma gw_run_row:
  assumes "gw_ProcessNextJob p env t h d = ((True, err), t', h', d')" "distinct (map gw_ExternalID t)"
  obtains k r0 r' where "k < length t" "t' = t[k := r']" "gw_queued (t ! k)"
    "gw_reserved env (gw_claim_set env (gp_workerID p) (de_uuid env) (t ! k)) r0"
    "gw_next p env r0 r' \<or> err \<noteq> None \<and> r' = r0"
  using assms
proof (cases rule: gw_ProcessNextJob_job)
  case (job k jb t1)
  have "gw_ended p env k t1 (err, t', h', d')" using gw_handleJob_ended [OF job(4), of p env h d] job(6) by simp
  then show ?thesis
    using job(1,2,3) unfolding gw_ended_def gw_moved_def by (auto intro: that [OF job(1)])
qed simp

fun gw_busy_runs :: "gateway_provisioner \<Rightarrow> db_env list \<Rightarrow> gateways \<Rightarrow> sdk_call list \<Rightarrow> docker_call list \<Rightarrow> nat option" where
  "gw_busy_runs p [] t h d = Some 0"
| "gw_busy_runs p (env # envs) t h d =
     (case gw_ProcessNextJob p env t h d of
        ((True, None), t', h', d') \<Rightarrow>
          map_option (\<lambda>n. if map gw_progress t' = map gw_progress t then n else Suc n) (gw_busy_runs p envs t' h' d')
      | _ \<Rightarrow> None)"

text \<open>
  C33. Provisioning a gateway ends. Count the runs of the worker that had a job, reported no error and
  did more than look at the health of a target that is neither healthy nor unhealthy yet. Whatever AWS, Docker
  and the database answer, their number is bounded by the retries and steps that the gateways in
  the table have left: a gateway that keeps failing is given up and not retried for ever. With retry counts
  that are not negative this is at most the retry limit and four more for each gateway.
\<close>

theorem gateway_runs_are_bounded:
  assumes "distinct (map gw_ExternalID t)" "gw_busy_runs p envs t h d = Some n"
  shows "n \<le> gw_work p t
    \<and> ((\<forall>r \<in> set t. 0 \<le> gw_RetryCount r) \<longrightarrow> gw_work p t \<le> (nat (gp_maxRetries p) + 4) * length t)"
proof -
  have "n \<le> gw_work p t" using assms
  proof (induction envs arbitrary: t h d n)
    case (Cons env envs)
    obtain t' h' d' n' where run: "gw_ProcessNextJob p env t h d = ((True, None), t', h', d')"
      and rest: "gw_busy_runs p envs t' h' d' = Some n'"
      and n: "n = (if map gw_progress t' = map gw_progress t then n' else Suc n')"
      using Cons.prems(2) by (auto split: prod.splits bool.splits option.splits)
    obtain k r0 r' where k: "k < length t" "t' = t[k := r']" "gw_queued (t ! k)"
      and r0: "gw_reserved env (gw_claim_set env (gp_workerID p) (de_uuid env) (t ! k)) r0"
      and next': "gw_next p env r0 r'"
      using gw_run_row [OF run Cons.prems(1)] by blast
    note same = gw_reserved_simps [OF r0, simplified]
    have "distinct (map gw_ExternalID t')"
      using Cons.prems(1) k update_same_ident [of k t gw_ExternalID r'] gw_next_ident [OF next'] same(1) by simp
    then have IH: "n' \<le> gw_work p t'" using Cons.IH rest by blast
    have rank: "gw_rank p r' < gw_rank p (t ! k) \<or> gw_rank p r' = gw_rank p (t ! k) \<and> gw_progress r' = gw_progress (t ! k)"
      using gw_next_rank [OF next'] same k(3) by simp
    then show ?case
    proof
      assume "gw_rank p r' < gw_rank p (t ! k)"
      then have "gw_work p t' < gw_work p t" unfolding gw_work_def k(2) by (rule update_lowers_sum [OF k(1)])
      then show ?thesis using IH n by (simp split: if_splits)
    next
      assume eq: "gw_rank p r' = gw_rank p (t ! k) \<and> gw_progress r' = gw_progress (t ! k)"
      then have "map gw_progress t' = map gw_progress t" "map (gw_rank p) t' = map (gw_rank p) t"
        using k update_same_ident [of k t gw_progress r'] update_same_ident [of k t "gw_rank p" r'] by simp_all
      then show ?thesis using IH n by (simp add: gw_work_def)
    qed
  qed simp
  moreover have "gw_work p t \<le> (nat (gp_maxRetries p) + 4) * length t" if "\<forall>r \<in> set t. 0 \<le> gw_RetryCount r"
  proof -
    have "gw_rank p r \<le> nat (gp_maxRetries p) + 4" if "0 \<le> gw_RetryCount r" for r
      using that by (auto simp: gw_rank_def gw_steps_left_def split: gateway_step.split)
    then have "sum_list (map (gw_rank p) t) \<le> sum_list (map (\<lambda>_. nat (gp_maxRetries p) + 4) t)"
      using that by (intro sum_list_mono) blast
    then show ?thesis by (simp add: gw_work_def sum_list_triv mult.commute)
  qed
  ultimately show ?thesis by blast
qed

section \<open>What completed and decommissioned mean\<close>

lemma gw_next_status:
  assumes "gw_next p env r r'" "gw_ProvisioningStatus r' \<noteq> gw_ProvisioningStatus r"
  shows "gw_ProvisioningStatus r' = GsCompleted \<Longrightarrow> gw_ProvisioningStatus r = GsWaitingForTargetHealth"
    "gw_ProvisioningStatus r' = GsDeprovisioned \<Longrightarrow> gw_ProvisioningStatus r = GsDeprovisioning"
  using assms by (auto elim!: gw_nextE simp: gw_set_defs)

lemma gw_final_row:
  assumes ids: "distinct (map gw_ExternalID t)" and run: "gw_ProcessNextJob p env t h d = ((b, err), t', h', d')"
    and k: "k < length t" and new: "gw_ProvisioningStatus (t' ! k) \<noteq> gw_ProvisioningStatus (t ! k)"
  obtains job t1 where "t1 = t[k := gw_claim_set env (gp_workerID p) (de_uuid env) (t ! k)]" "claimed_job k t1 job"
    "job = gateway_job_of (de_uuid env) (t ! k)" "gw_handleJob p env job t1 h d = (err, t', h', d')"
    "gw_ProvisioningStatus (t' ! k) = GsCompleted \<Longrightarrow> gw_ProvisioningStatus (t ! k) = GsWaitingForTargetHealth"
    "gw_ProvisioningStatus (t' ! k) = GsDeprovisioned \<Longrightarrow> gw_ProvisioningStatus (t ! k) = GsDeprovisioning"
  using run ids
proof (cases rule: gw_ProcessNextJob_job)
  case idle
  then show ?thesis using new by simp
next
  case (job k0 jb t1)
  have "gw_ended p env k0 t1 (err, t', h', d')" using gw_handleJob_ended [OF job(4), of p env h d] job(6) by simp
  then obtain r0 r' where r': "t' = t1[k0 := r']" "gw_reserved env (t1 ! k0) r0" "gw_next p env r0 r' \<or> r' = r0"
    unfolding gw_ended_def gw_moved_def by auto
  have kk: "k = k0" using new r'(1) job(3) k by (cases "k = k0") auto
  have st: "gw_ProvisioningStatus r0 = gw_ProvisioningStatus (t ! k)" "t' ! k = r'"
    using gw_reserved_simps(5) [OF r'(2)] job(3) r'(1) k kk by simp_all
  then have "gw_next p env r0 r'" "gw_ProvisioningStatus r' \<noteq> gw_ProvisioningStatus r0" using r'(3) new by auto
  from gw_next_status [OF this] st job kk show ?thesis by (intro that [of t1 jb]) auto
qed

text \<open>A handler that gets no further leaves the status of its row, or sets it to failed.\<close>

definition gw_stuck :: "nat \<Rightarrow> gateways \<Rightarrow> gw_result \<Rightarrow> bool" where
  "gw_stuck k t res \<longleftrightarrow> gw_ProvisioningStatus (fst (snd res) ! k) \<in> {gw_ProvisioningStatus (t ! k), GsFailed}"

lemma leased_stuck:
  assumes c: "claimed_job k t job" and f: "gw_ProvisioningStatus (f (t ! k)) \<in> {gw_ProvisioningStatus (t ! k), GsFailed}"
  shows "gw_stuck k t (gw_repo (gw_exec_leased env s (gw_leased (gj_ExternalID job) (gj_LeaseToken job)) f t) h d)"
proof -
  obtain err t' where w: "gw_exec_leased env s (gw_leased (gj_ExternalID job) (gj_LeaseToken job)) f t = (err, t')" by fastforce
  from gw_exec_hit [OF c w gw_leased_claimed [OF c]] f w claimed_jobD(2) [OF c] show ?thesis
    by (auto simp: gw_stuck_def)
qed

lemma retry_stuck: "claimed_job k t job \<Longrightarrow> gw_stuck k t (gw_repo (retryOrFail p env job m t) h d)"
  unfolding retryOrFail_def MarkGatewayIngressFailed_def ScheduleGatewayIngressRetry_def Let_def
  by (auto intro!: leased_stuck simp: gw_set_defs)

lemma fail_stuck: "claimed_job k t job \<Longrightarrow> gw_stuck k t (gw_repo (gw_failJob env job m t) h d)"
  unfolding gw_failJob_def MarkGatewayIngressFailed_def by (auto intro!: leased_stuck simp: gw_set_defs)

lemma handleWaitingForTargetHealth_cases:
  assumes c: "claimed_job k t job"
  obtains (stuck) "gw_stuck k t (handleWaitingForTargetHealth p env job t h d)"
  | (healthy) state h1 where "gj_TargetGroupARN job \<noteq> []"
      "GetGatewayTargetHealth (gp_loadBalancer p) (gj_TargetGroupARN job) (gp_instanceID p) (int32_of (gj_HostPort job)) h = (Inr state, h1)"
      "ToLower (TrimSpace state) = ''healthy''"
      "handleWaitingForTargetHealth p env job t h d =
         gw_repo (MarkGatewayIngressActive env (gj_ExternalID job) (gj_LeaseToken job)
           (gatewayHostname (gp_sha256hex p) (gj_ExternalID job) (gp_baseDomain p))
           (''https://'' @ gatewayHostname (gp_sha256hex p) (gj_ExternalID job) (gp_baseDomain p)) t) h1 d"
proof -
  obtain res h1 where g: "GetGatewayTargetHealth (gp_loadBalancer p) (gj_TargetGroupARN job) (gp_instanceID p)
      (int32_of (gj_HostPort job)) h = (res, h1)" by fastforce
  note unfold = handleWaitingForTargetHealth_def g Let_def
  have poll: "gw_stuck k t (gw_repo (RescheduleGatewayHealthCheck env (gj_ExternalID job) (gj_LeaseToken job) n t) h1 d)" for n
    unfolding RescheduleGatewayHealthCheck_def by (rule leased_stuck [OF c]) (simp add: gw_set_defs)
  show ?thesis
  proof (cases "gj_TargetGroupARN job \<noteq> [] \<and> (\<exists>state. res = Inr state \<and> ToLower (TrimSpace state) = ''healthy'')")
    case True
    then show ?thesis using healthy g unfolding unfold by auto
  next
    case False
    have "gw_stuck k t (handleWaitingForTargetHealth p env job t h d)"
      unfolding unfold using False poll retry_stuck [OF c] fail_stuck [OF c] by (auto split: sum.split)
    then show ?thesis by (rule stuck)
  qed
qed

lemma gw_cleanup_cases:
  assumes c: "claimed_job k t job"
  obtains (stuck) "gw_stuck k t (gw_cleanup p env job what t d needed operation continue h)"
  | (skipped) "\<not> needed" "gw_cleanup p env job what t d needed operation continue h = continue h"
  | (did) h1 where needed "operation h = (Inr (), h1)" "gw_cleanup p env job what t d needed operation continue h = continue h1"
proof -
  obtain res h1 where o: "operation h = (res, h1)" by fastforce
  show ?thesis
    using retry_stuck [OF c] that o by (cases needed; cases res) (auto simp: gw_cleanup_def)
qed

lemma removeContainer_cases:
  assumes c: "claimed_job k t job"
  obtains (stuck) "gw_stuck k t (removeContainer p env job t d h)"
  | (removed) m d1 where "gp_containerMgr p = Some m" "Container_Decommission m (gj_ExternalID job) d = (None, d1)"
      "removeContainer p env job t d h = gw_repo (MarkGatewayDecommissioned env (gj_ExternalID job) (gj_LeaseToken job) t) h d1"
proof (cases "gp_containerMgr p")
  case None
  then show ?thesis using retry_stuck [OF c] stuck by (simp add: removeContainer_def)
next
  case (Some m)
  obtain e d1 where "Container_Decommission m (gj_ExternalID job) d = (e, d1)" by fastforce
  then show ?thesis using Some retry_stuck [OF c] that by (cases e) (auto simp: removeContainer_def)
qed

text \<open>A successful operation of the client is one call to AWS.\<close>

lemma delete_calls:
  "DeleteGatewayHostRule c rule h = (Inr (), h1) \<Longrightarrow> h1 = h @ [DeleteRule rule]"
  "DeregisterGatewayTarget c tg inst port h = (Inr (), h1) \<Longrightarrow> h1 = h @ [DeregisterTargets tg inst port]"
  "DeleteGatewayTargetGroup c tg h = (Inr (), h1) \<Longrightarrow> h1 = h @ [DeleteTargetGroup tg]"
  by (auto simp: DeleteGatewayHostRule_def DeregisterGatewayTarget_def DeleteGatewayTargetGroup_def split: sum.splits)

text \<open>The calls that take the gateway of a job off the load balancer.\<close>

definition gw_cleanup_calls :: "gateway_provisioner \<Rightarrow> gateway_job \<Rightarrow> sdk_call list" where
  "gw_cleanup_calls p job =
     (if gj_ListenerRuleARN job \<noteq> [] then [DeleteRule (gj_ListenerRuleARN job)] else [])
     @ (if gj_TargetGroupARN job \<noteq> [] \<and> gj_HostPort job > 0
        then [DeregisterTargets (gj_TargetGroupARN job) (gp_instanceID p) (int32_of (gj_HostPort job))] else [])
     @ (if gj_TargetGroupARN job \<noteq> [] then [DeleteTargetGroup (gj_TargetGroupARN job)] else [])"

lemma gw_handleDeprovisioning_cases:
  assumes c: "claimed_job k t job"
  obtains (stuck) "gw_stuck k t (gw_handleDeprovisioning p env job t h d)"
  | (removed) m d1 where "gp_containerMgr p = Some m" "Container_Decommission m (gj_ExternalID job) d = (None, d1)"
      "gw_handleDeprovisioning p env job t h d =
         gw_repo (MarkGatewayDecommissioned env (gj_ExternalID job) (gj_LeaseToken job) t) (h @ gw_cleanup_calls p job) d1"
proof -
  let ?lb = "gp_loadBalancer p" and ?tg = "gj_TargetGroupARN job" and ?rule = "gj_ListenerRuleARN job" and ?port = "gj_HostPort job"
  let ?remove = "removeContainer p env job t d"
  let ?group = "gw_cleanup p env job ''delete gateway target group'' t d (?tg \<noteq> []) (DeleteGatewayTargetGroup ?lb ?tg) ?remove"
  let ?target = "gw_cleanup p env job ''deregister gateway target'' t d (?tg \<noteq> [] \<and> ?port > 0)
     (DeregisterGatewayTarget ?lb ?tg (gp_instanceID p) (int32_of ?port)) ?group"
  have group: "gw_stuck k t (?group x) \<or> ?group x = ?remove (x @ (if ?tg \<noteq> [] then [DeleteTargetGroup ?tg] else []))" for x
    by (rule gw_cleanup_cases [OF c, of p env "''delete gateway target group''" d "?tg \<noteq> []" "DeleteGatewayTargetGroup ?lb ?tg" ?remove x])
       (auto dest!: delete_calls)
  have target: "gw_stuck k t (?target x) \<or> ?target x = ?group (x @ (if ?tg \<noteq> [] \<and> ?port > 0
      then [DeregisterTargets ?tg (gp_instanceID p) (int32_of ?port)] else []))" for x
    by (rule gw_cleanup_cases [OF c, of p env "''deregister gateway target''" d "?tg \<noteq> [] \<and> ?port > 0"
        "DeregisterGatewayTarget ?lb ?tg (gp_instanceID p) (int32_of ?port)" ?group x]) (auto dest!: delete_calls)
  have rule: "gw_stuck k t (gw_handleDeprovisioning p env job t h d)
      \<or> gw_handleDeprovisioning p env job t h d = ?target (h @ (if ?rule \<noteq> [] then [DeleteRule ?rule] else []))"
    unfolding gw_handleDeprovisioning_def
    by (rule gw_cleanup_cases [OF c, of p env "''delete gateway listener rule''" d "?rule \<noteq> []" "DeleteGatewayHostRule ?lb ?rule" ?target h])
       (auto dest!: delete_calls)
  let ?x1 = "h @ (if ?rule \<noteq> [] then [DeleteRule ?rule] else [])"
  let ?x2 = "?x1 @ (if ?tg \<noteq> [] \<and> ?port > 0 then [DeregisterTargets ?tg (gp_instanceID p) (int32_of ?port)] else [])"
  let ?x3 = "?x2 @ (if ?tg \<noteq> [] then [DeleteTargetGroup ?tg] else [])"
  show ?thesis
  proof (cases "gw_stuck k t (gw_handleDeprovisioning p env job t h d)")
    case True
    then show ?thesis by (rule stuck)
  next
    case False
    have 1: "gw_handleDeprovisioning p env job t h d = ?target ?x1" by (rule disjE [OF rule]) (use False in blast)+
    have 2: "?target ?x1 = ?group ?x2" by (rule disjE [OF target [of ?x1]]) (use False 1 in \<open>simp only: simp_thms\<close>, assumption)
    have 3: "?group ?x2 = ?remove ?x3" by (rule disjE [OF group [of ?x2]]) (use False 1 2 in \<open>simp only: simp_thms\<close>, assumption)
    have x3: "?x3 = h @ gw_cleanup_calls p job" by (simp add: gw_cleanup_calls_def)
    have eq: "gw_handleDeprovisioning p env job t h d = ?remove (h @ gw_cleanup_calls p job)"
      unfolding 1 2 3 x3 ..
    from c show ?thesis
      by (rule removeContainer_cases [of k t job p env d "h @ gw_cleanup_calls p job"]) (use eq stuck removed in simp_all)
  qed
qed

text \<open>
  C31. A gateway is taken into service only when it is healthy. When a run makes a gateway
  complete, then the gateway was waiting for its target's health, its target group is known, and in this run
  the load balancer reported the target on this instance and port as healthy; the row then is active and carries
  the public name made from the gateway's id, and its https address.
\<close>

theorem gateway_active_only_when_healthy:
  assumes ids: "distinct (map gw_ExternalID t)" and run: "gw_ProcessNextJob p env t h d = ((b, err), t', h', d')"
    and k: "k < length t" "gw_ProvisioningStatus (t ! k) \<noteq> GsCompleted" "gw_ProvisioningStatus (t' ! k) = GsCompleted"
  shows "\<exists>tg state. gw_ProvisioningStatus (t ! k) = GsWaitingForTargetHealth \<and> gw_TargetGroupARN (t ! k) = Some tg \<and> tg \<noteq> []
    \<and> GetGatewayTargetHealth (gp_loadBalancer p) tg (gp_instanceID p) (int32_of (coalesce (gw_HostPort (t ! k)) 0)) h
        = (Inr state, h')
    \<and> ToLower (TrimSpace state) = ''healthy'' \<and> d' = d
    \<and> gw_Status (t' ! k) = GwActive
    \<and> (let host = gatewayHostname (gp_sha256hex p) (gw_ExternalID (t ! k)) (gp_baseDomain p)
       in gw_PublicHost (t' ! k) = Some host \<and> gw_PublicEndpoint (t' ! k) = Some (''https://'' @ host))"
proof -
  have "gw_ProvisioningStatus (t' ! k) \<noteq> gw_ProvisioningStatus (t ! k)" using k by simp
  then obtain jb t1 where t1: "t1 = t[k := gw_claim_set env (gp_workerID p) (de_uuid env) (t ! k)]"
    and c: "claimed_job k t1 jb" and jb: "jb = gateway_job_of (de_uuid env) (t ! k)"
    and hj: "gw_handleJob p env jb t1 h d = (err, t', h', d')" and st: "gw_ProvisioningStatus (t ! k) = GsWaitingForTargetHealth"
    using gw_final_row [OF ids run k(1)] k(3) by metis
  have row: "gw_ProvisioningStatus (t1 ! k) = GsWaitingForTargetHealth" using t1 k(1) st by simp
  have hw: "handleWaitingForTargetHealth p env jb t1 h d = (err, t', h', d')"
    using hj st by (simp add: gw_handleJob_def jb gateway_job_of_def)
  from c show ?thesis
  proof (cases rule: handleWaitingForTargetHealth_cases [of k t1 jb p env h d])
    case stuck
    then show ?thesis using hw k row by (simp add: gw_stuck_def)
  next
    case (healthy state h1)
    let ?host = "gatewayHostname (gp_sha256hex p) (gj_ExternalID jb) (gp_baseDomain p)"
    let ?w = "gw_exec_leased env ''mark gateway ingress active'' (gw_leased (gj_ExternalID jb) (gj_LeaseToken jb))
      (IngressActive_set env ?host (''https://'' @ ?host)) t1"
    have w: "?w = (fst ?w, t')" "h' = h1" "d' = d"
      using healthy(4) hw by (auto simp: gw_repo_def MarkGatewayIngressActive_def)
    have "t' = t1[k := IngressActive_set env ?host (''https://'' @ ?host) (t1 ! k)]"
      using gw_exec_hit [OF c w(1) gw_leased_claimed [OF c]] k(3) row by auto
    then have new: "t' ! k = IngressActive_set env ?host (''https://'' @ ?host) (t1 ! k)"
      using claimed_jobD(2) [OF c] by simp
    have "gw_TargetGroupARN (t ! k) = Some (gj_TargetGroupARN jb)"
      using healthy(1) by (cases "gw_TargetGroupARN (t ! k)") (simp_all add: jb gateway_job_of_def)
    then show ?thesis using st healthy(1-3) w(2,3) new
      by (auto simp: gw_set_defs Let_def jb gateway_job_of_def)
  qed
qed


section \<open>Names are valid and distinct\<close>

definition hexByte :: "char \<Rightarrow> bool" where
  "hexByte c \<longleftrightarrow> c \<in> set ''0123456789abcdef''"

definition hexText :: "string \<Rightarrow> bool" where
  "hexText s \<longleftrightarrow> list_all hexByte s"

lemma hex_byte:
  assumes "hexByte c"
  shows "hostnameChar c" "c \<noteq> CHR ''-''" "lowerByte c = c" "\<not> isSpace c" "c \<noteq> CHR ''g''"
    "byteIn (CHR ''a'') (CHR ''z'') c \<or> byteIn (CHR ''0'') (CHR ''9'') c"
proof -
  have "list_all (\<lambda>c. hostnameChar c \<and> c \<noteq> CHR ''-'' \<and> lowerByte c = c \<and> \<not> isSpace c \<and> c \<noteq> CHR ''g''
      \<and> (byteIn (CHR ''a'') (CHR ''z'') c \<or> byteIn (CHR ''0'') (CHR ''9'') c)) ''0123456789abcdef''" by code_simp
  then show "hostnameChar c" "c \<noteq> CHR ''-''" "lowerByte c = c" "\<not> isSpace c" "c \<noteq> CHR ''g''"
    "byteIn (CHR ''a'') (CHR ''z'') c \<or> byteIn (CHR ''0'') (CHR ''9'') c"
    using assms unfolding list_all_iff hexByte_def by blast+
qed

lemma suffixBytes_chars:
  "list_all hostnameChar acc \<Longrightarrow> list_all hostnameChar (suffixBytes acc s)"
  by (induction acc s rule: suffixBytes.induct) (simp_all add: hostnameChar_def byteIn_def)

lemma suffixBytes_hex: "hexText s \<Longrightarrow> suffixBytes acc s = acc @ s"
  by (induction acc s rule: suffixBytes.induct) (auto simp: hexText_def dest: hex_byte(6))

lemma suffix_valid:
  assumes sha: "12 \<le> length (sha externalID)" "hexText (sha externalID)"
  shows "let s = gatewayResourceSuffix sha externalID
    in s \<noteq> [] \<and> length s \<le> 20 \<and> list_all hostnameChar s \<and> last s \<noteq> CHR ''-''"
proof -
  let ?v = "TrimPrefix (TrimPrefix (ToLower (TrimSpace externalID)) ''gw_'') ''gw-''"
  let ?r = "TrimByte (suffixBytes [] ?v) (CHR ''-'')"
  have chars: "list_all hostnameChar ?r"
    using suffixBytes_chars [of "[]" ?v] set_trimBy [of _ "suffixBytes [] ?v"] by (auto simp: TrimByte_def list_all_iff)
  have last: "?r \<noteq> [] \<Longrightarrow> last ?r \<noteq> CHR ''-''" using last_trimBy [of _ "suffixBytes [] ?v"] by (auto simp: TrimByte_def)
  let ?h = "take 12 (sha externalID)"
  have hash: "?h \<noteq> []" "length ?h \<le> 20" "\<forall>c \<in> set ?h. hexByte c"
    using sha set_take_subset [of 12 "sha externalID"] by (auto simp: hexText_def list_all_iff)
  then have "list_all hostnameChar ?h" "last ?h \<noteq> CHR ''-''"
    using hex_byte(1,2) last_in_set [OF hash(1)] unfolding list_all_iff by blast+
  then show ?thesis using chars last hash(1,2) unfolding gatewayResourceSuffix_def Let_def by simp
qed

lemma suffix_generated:
  assumes "length x = 8" "hexText x"
  shows "gatewayResourceSuffix sha (''gw_'' @ x) = x"
proof -
  have x: "\<forall>c \<in> set x. hexByte c" using assms(2) by (simp add: hexText_def list_all_iff)
  have ne: "x \<noteq> []" using assms(1) by auto
  have "TrimSpace (''gw_'' @ x) = ''gw_'' @ x"
    using hex_byte(4) x last_in_set [OF ne] ne unfolding TrimSpace_def by (intro trimBy_id) (auto simp: isSpace_def)
  moreover have "ToLower (''gw_'' @ x) = ''gw_'' @ x"
  proof -
    have "map lowerByte x = x" by (rule map_idI) (use hex_byte(3) x in blast)
    moreover have "map lowerByte ''gw_'' = ''gw_''" by code_simp
    ultimately show ?thesis unfolding ToLower_def map_append by (simp only:)
  qed
  moreover have "TrimPrefix (''gw_'' @ x) ''gw_'' = x" by (rule TrimPrefix_append)
  moreover have "TrimPrefix x ''gw-'' = x" using x hex_byte(5) ne by (cases x) (auto simp: TrimPrefix_def)
  moreover have "suffixBytes [] x = x" using suffixBytes_hex [OF assms(2), of "[]"] by simp
  moreover have "TrimByte x (CHR ''-'') = x"
    using hex_byte(2) x last_in_set [OF ne] hd_in_set [OF ne] unfolding TrimByte_def by (intro trimBy_id) auto
  ultimately show ?thesis using assms(1) ne by (simp add: gatewayResourceSuffix_def Let_def)
qed

text \<open>
  C34. The names made for a gateway are usable. For any id, the first label of the public host name
  is a valid host name label, and the name of the target group keeps to the limits of AWS: at most 32
  letters, digits and hyphens, the last of them no hyphen (SHA-256 in hexadecimal has 64 digits). Two different ids of the kind the control
  plane makes (\<^verbatim>\<open>gw_\<close> and eight hexadecimal digits) never get the same target group or host name.
\<close>

theorem gateway_names_are_valid:
  assumes "\<forall>s. length (sha s) = 64 \<and> hexText (sha s)"
  shows "gatewayHostname sha externalID base = (''gw-'' @ gatewayResourceSuffix sha externalID) @ ''.'' @ base
    \<and> validHostnameLabel (''gw-'' @ gatewayResourceSuffix sha externalID)
    \<and> length (gatewayTargetGroupName sha externalID) \<le> 32
    \<and> list_all hostnameChar (gatewayTargetGroupName sha externalID)
    \<and> last (gatewayTargetGroupName sha externalID) \<noteq> CHR ''-''
    \<and> (length x = 8 \<and> hexText x \<and> length y = 8 \<and> hexText y \<and> x \<noteq> y \<longrightarrow>
         gatewayTargetGroupName sha (''gw_'' @ x) \<noteq> gatewayTargetGroupName sha (''gw_'' @ y)
         \<and> gatewayHostname sha (''gw_'' @ x) base \<noteq> gatewayHostname sha (''gw_'' @ y) base)"
proof -
  let ?s = "gatewayResourceSuffix sha externalID"
  have s: "?s \<noteq> []" "length ?s \<le> 20" "list_all hostnameChar ?s" "last ?s \<noteq> CHR ''-''"
    using suffix_valid [of sha externalID] assms by (auto simp: Let_def)
  have pre: "list_all hostnameChar ''gw-''" "list_all hostnameChar ''eg-gw-''" by code_simp+
  have "validHostnameLabel (''gw-'' @ ?s)"
    using s pre(1) by (simp add: validHostnameLabel_def nth_append nth_Cons' last_conv_nth)
  moreover have "length (gatewayTargetGroupName sha externalID) \<le> 32" "list_all hostnameChar (gatewayTargetGroupName sha externalID)"
    "last (gatewayTargetGroupName sha externalID) \<noteq> CHR ''-''"
    using s pre(2) unfolding gatewayTargetGroupName_def by simp_all
  ultimately show ?thesis
    using suffix_generated by (auto simp: gatewayHostname_def gatewayTargetGroupName_def)
qed

section \<open>Concrete runs\<close>

definition demo_gp :: gateway_provisioner where
  "demo_gp = NewGatewayProvisioner demo_client (Some demo_manager) ''w1'' ''l'' ''vpc'' ''i-1'' ''apps.example.com.''
     1000 1003 (\<lambda>_. replicate 64 (CHR ''0'')) []"

definition waiting_gateway :: gateway_row where
  "waiting_gateway = demo_gateway\<lparr>gw_ExternalID := ''gw_aaaa0001'', gw_ProvisioningStatus := GsWaitingForTargetHealth,
     gw_TargetGroupARN := Some ''tg2''\<rparr>"

definition leaving_gateway :: gateway_row where
  "leaving_gateway = waiting_gateway\<lparr>gw_ProvisioningStatus := GsDeprovisioning, gw_ListenerRuleARN := Some ''r9''\<rparr>"

definition demo_gw_run ::
  "gateways \<Rightarrow> (bool \<times> gateway_error option) \<times> gateways \<times> sdk_call list \<times> docker_call list" where
  "demo_gw_run t = gw_ProcessNextJob demo_gp (quiet 10 ''u'') t [] []"

lemma demo_gw_run_cases:
  obtains b err t' h' d' where "gw_ProcessNextJob demo_gp (quiet 10 ''u'') t [] [] = ((b, err), t', h', d')"
    "fst (snd (demo_gw_run t)) = t'" "fst (snd (snd (demo_gw_run t))) = h'" "snd (snd (snd (demo_gw_run t))) = d'"
  by (cases "gw_ProcessNextJob demo_gp (quiet 10 ''u'') t [] []") (auto simp: demo_gw_run_def)

text \<open>Four runs take a gateway from its container to its public name; there cannot be more than fourteen.\<close>

theorem gateway_runs_are_bounded_witness:
  "gw_busy_runs demo_gp (map (\<lambda>n. quiet (n * 60 * minute) ''u'') [1, 2, 3, 4]) [demo_gateway] [] [] = Some 4
   \<and> 4 \<le> gw_work demo_gp [demo_gateway] \<and> gw_work demo_gp [demo_gateway] \<le> 14"
proof -
  have ids: "distinct (map gw_ExternalID [demo_gateway])" by simp
  have busy: "gw_busy_runs demo_gp (map (\<lambda>n. quiet (n * 60 * minute) ''u'') [1, 2, 3, 4]) [demo_gateway] [] [] = Some 4"
    by code_simp
  have "gw_RetryCount demo_gateway = 0" by code_simp
  moreover have "gp_maxRetries demo_gp = 10" by (simp add: demo_gp_def NewGatewayProvisioner_def)
  ultimately show ?thesis using gateway_runs_are_bounded [OF ids busy] busy by simp
qed

theorem gateway_active_only_when_healthy_witness:
  "let r = fst (snd (demo_gw_run [waiting_gateway])) ! 0
   in gw_Status r = GwActive \<and> gw_PublicEndpoint r = Some ''https://gw-aaaa0001.apps.example.com''"
proof -
  let ?t = "[waiting_gateway]"
  obtain b err t' h' d' where run: "gw_ProcessNextJob demo_gp (quiet 10 ''u'') ?t [] [] = ((b, err), t', h', d')"
    and t': "fst (snd (demo_gw_run ?t)) = t'" by (rule demo_gw_run_cases)
  have st: "gw_ProvisioningStatus (?t ! 0) \<noteq> GsCompleted" "gw_ProvisioningStatus (fst (snd (demo_gw_run ?t)) ! 0) = GsCompleted"
    by code_simp+
  have host: "gatewayHostname (gp_sha256hex demo_gp) (gw_ExternalID waiting_gateway) (gp_baseDomain demo_gp) = ''gw-aaaa0001.apps.example.com''"
    by code_simp
  show ?thesis
    using gateway_active_only_when_healthy [OF _ run _ st(1) st(2) [unfolded t']] host unfolding t'
    by (auto simp: Let_def)
qed


theorem gateway_names_are_valid_witness:
  "validHostnameLabel ''gw-00000000-0001'' \<and> gatewayHostname (\<lambda>_. replicate 64 (CHR ''0'')) ''gw_00000000.0001'' ''x.io'' = ''gw-00000000-0001.x.io''
   \<and> gatewayHostname (\<lambda>_. replicate 64 (CHR ''0'')) (''gw_'' @ ''00000001'') ''x.io''
      \<noteq> gatewayHostname (\<lambda>_. replicate 64 (CHR ''0'')) (''gw_'' @ ''00000002'') ''x.io''"
proof -
  have sha: "\<forall>s. length ((\<lambda>_. replicate 64 (CHR ''0'')) s) = 64 \<and> hexText ((\<lambda>_. replicate 64 (CHR ''0'')) s)"
    by (simp add: hexText_def list_all_iff hexByte_def)
  have name: "gatewayResourceSuffix (\<lambda>_. replicate 64 (CHR ''0'')) ''gw_00000000.0001'' = ''00000000-0001''" by code_simp
  have hex: "length ''00000001'' = 8 \<and> hexText ''00000001'' \<and> length ''00000002'' = 8 \<and> hexText ''00000002''
      \<and> ''00000001'' \<noteq> ''00000002''" by code_simp
  show ?thesis
    using gateway_names_are_valid [OF sha, of "''gw_00000000.0001''" "''x.io''" "''00000001''" "''00000002''"] name hex
    by auto
qed

end
