(* ===== verification/Gateway_Control.thy ===== *)
theory Gateway_Control
  imports Gateway_Provisioner
begin

text \<open>
  The control plane's requests on gateways: creating and deleting the gateway of a project
  (\<^verbatim>\<open>internal/admin/handler/gateway_handler.go\<close>) and the operator's forced removal
  (\<^verbatim>\<open>PlatformHandler.ForceDecommission\<close> of \<^verbatim>\<open>platform_handler.go\<close>).

  A handler takes the decoded request and returns the HTTP status with the table of gateways and the
  history of Docker calls. The body of a response and logging are left out. A query under
  \<^verbatim>\<open>withTenantTx\<close> sees the rows of the tenant's project: the row policy of the table
  (\<^verbatim>\<open>migrations/0015_rls_global_bypass.up.sql\<close>) compares the project with the session variable
  \<^verbatim>\<open>app.project_id\<close>, and lets everything through where the variable is not set.
\<close>

definition visible :: "uuid option \<Rightarrow> gateway_row \<Rightarrow> bool" where
  "visible tenant r \<longleftrightarrow> (case tenant of None \<Rightarrow> True | Some p \<Rightarrow> gw_ProjectID r = p)"

definition GetGatewayStatus :: "db_env \<Rightarrow> uuid \<Rightarrow> string \<Rightarrow> gateways \<Rightarrow> repo_error + gateway_status" where
  "GetGatewayStatus env tenant externalID t =
     (case de_fault env ''begin tx'' of
        Some e \<Rightarrow> Inl (SqlError ''begin tx'' e)
      | None \<Rightarrow>
     (case de_fault env ''setTenantSession'' of
        Some e \<Rightarrow> Inl (SqlError ''setTenantSession'' e)
      | None \<Rightarrow>
     (case select_row env ''get gateway status'' (\<lambda>r. visible (Some tenant) r \<and> gw_ExternalID r = externalID) t of
        Inl e \<Rightarrow> Inl e
      | Inr None \<Rightarrow> Inl ErrGatewayNotFound
      | Inr (Some r) \<Rightarrow>
          (case de_fault env ''commit tx'' of
             Some e \<Rightarrow> Inl (SqlError ''commit tx'' e)
           | None \<Rightarrow> Inr (gw_Status r)))))"

section \<open>Creating a gateway\<close>

text \<open>The column \<^verbatim>\<open>plan\<close> is an enumeration: any other text is an error of the insert.\<close>

definition gateway_plan_of :: "string \<Rightarrow> gateway_plan option" where
  "gateway_plan_of s = (if s = ''shared'' then Some PlanShared else if s = ''dedicated'' then Some PlanDedicated else None)"

definition Provision_row :: "db_env \<Rightarrow> string \<Rightarrow> uuid \<Rightarrow> string \<Rightarrow> gateways \<Rightarrow> repo_error option \<times> gateways" where
  "Provision_row env externalID projectID plan t =
     (case gateway_plan_of plan of
        None \<Rightarrow> (Some (SqlError ''Provision gateway'' ''invalid input value for enum gateway_plan''), t)
      | Some p \<Rightarrow> Provision env externalID projectID p t)"

record provision_request =
  pr_ProjectID :: string
  pr_Plan :: string

text \<open>
  The decoded body is \<open>None\<close> when it is no JSON or lacks one of the two required fields. The project of the
  path, which the middleware has checked, is an argument that the handler does not use.
\<close>

definition GatewayHandler_Provision ::
  "container_manager \<Rightarrow> db_env \<Rightarrow> uuid \<Rightarrow> uuid \<Rightarrow> provision_request option \<Rightarrow> gateways \<Rightarrow> docker_call list
    \<Rightarrow> nat \<times> gateways \<times> docker_call list" where
  "GatewayHandler_Provision m env newUUID pathProject body t d =
     (case body of
        None \<Rightarrow> (400, t, d)
      | Some req \<Rightarrow>
          if pr_ProjectID req = [] \<or> pr_Plan req = [] then (400, t, d)
          else
            (let externalID = ''gw_'' @ take 8 newUUID
             in case Provision_row env externalID (pr_ProjectID req) (pr_Plan req) t of
                  (Some _, t1) \<Rightarrow> (500, t1, d)
                | (None, t1) \<Rightarrow>
                    (case Container_Provision m externalID (pr_ProjectID req) (pr_Plan req) d of
                       (Inl _, d1) \<Rightarrow> (500, snd (UpdateStatus env externalID GwFailed t1), d1)
                     | (Inr (ip, port, publicHost, publicPort), d1) \<Rightarrow>
                         (case MarkContainerReady env externalID ip port publicHost publicPort t1 of
                            (Some _, t2) \<Rightarrow> (500, t2, d1)
                          | (None, t2) \<Rightarrow> (202, t2, d1)))))"

section \<open>Deleting a gateway\<close>

definition GatewayHandler_Decommission ::
  "db_env \<Rightarrow> go_duration \<Rightarrow> uuid \<Rightarrow> string \<Rightarrow> gateways \<Rightarrow> nat \<times> gateways" where
  "GatewayHandler_Decommission env drainTimeout tenant externalID t =
     (if externalID = [] then (400, t)
      else if \<not> HasPrefix externalID ''gw_'' then (400, t)
      else
        (case GetGatewayStatus env tenant externalID t of
           Inl e \<Rightarrow> (if e = ErrGatewayNotFound then 404 else 500, t)
         | Inr status \<Rightarrow>
             if status = GwDecommissioned then (200, t)
             else
               (case QueueGatewayDeprovisioning env externalID drainTimeout t of
                  (Inl e, t1) \<Rightarrow> (if e = ErrGatewayNotFound then 404 else 500, t1)
                | (Inr _, t1) \<Rightarrow> (202, t1))))"

definition PlatformHandler_ForceDecommission ::
  "container_manager option \<Rightarrow> db_env \<Rightarrow> string \<Rightarrow> gateways \<Rightarrow> docker_call list \<Rightarrow> nat \<times> gateways \<times> docker_call list" where
  "PlatformHandler_ForceDecommission mgr env gatewayID t d =
     (if gatewayID = [] then (400, t, d)
      else
        (let d1 = (case mgr of None \<Rightarrow> d | Some m \<Rightarrow> snd (Container_Decommission m gatewayID d))
         in case UpdateStatus env gatewayID GwDecommissioned t of
              (Some e, t1) \<Rightarrow> (if e = ErrGatewayNotFound then 404 else 500, t1, d1)
            | (None, t1) \<Rightarrow> (200, t1, d1)))"

section \<open>Properties\<close>

lemma find_visible:
  assumes "distinct (map gw_ExternalID t)" "r \<in> set t" "gw_ExternalID r = i" "\<not> visible tenant r"
  shows "find (\<lambda>r. visible tenant r \<and> gw_ExternalID r = i) t = None"
  using assms unique_row [OF assms(1)] by (auto simp: find_None_iff)

lemma foreign_hidden: "gw_ProjectID r \<noteq> tenant \<Longrightarrow> \<not> visible (Some tenant) r"
  by (simp add: visible_def)

text \<open>
  A project can take down only its own gateways. A request of a project for the id of another
  project's gateway is answered as if there was none, and changes nothing; and whatever the request, a row of another project is
  never changed by it.
\<close>

theorem foreign_gateway_is_untouched:
  assumes ids: "distinct (map gw_ExternalID t)" and r: "r \<in> set t" "gw_ProjectID r \<noteq> tenant"
    and run: "GatewayHandler_Decommission env dt tenant i t = (status, t')"
  shows "r \<in> set t' \<and> (i = gw_ExternalID r \<longrightarrow> status \<in> {400, 404, 500} \<and> t' = t)"
proof (cases "i = gw_ExternalID r")
  case True
  have "find (\<lambda>r. visible (Some tenant) r \<and> gw_ExternalID r = i) t = None"
    using find_visible [OF ids r(1) _ foreign_hidden [OF r(2)]] True by simp
  then have "\<exists>e. GetGatewayStatus env tenant i t = Inl e"
    unfolding GetGatewayStatus_def select_row_def by (auto split: option.split)
  then show ?thesis using run r(1) unfolding GatewayHandler_Decommission_def by (auto split: if_splits)
next
  case False
  let ?u = "update_returning env ''queue gateway deprovisioning'' (QueueDeprovisioning_where i)
    (QueueDeprovisioning_set env (if dt < 0 then 0 else dt)) t"
  obtain res t1 where u: "?u = (res, t1)" by fastforce
  have "snd (QueueGatewayDeprovisioning env i dt t) = t1"
    unfolding QueueGatewayDeprovisioning_def Let_def u by (simp split: sum.split option.split)
  moreover have "r \<in> set t1"
  proof -
    let ?f = "QueueDeprovisioning_set env (if dt < 0 then 0 else dt)"
    have "t1 \<in> {t, sql_update (QueueDeprovisioning_where i) ?f t}"
      using update_returning_snd [of env "''queue gateway deprovisioning''" "QueueDeprovisioning_where i" ?f t] u by simp
    moreover have "\<not> QueueDeprovisioning_where i r" using False by (auto simp: QueueDeprovisioning_where_def)
    ultimately show ?thesis using r(1) by (auto simp: in_sql_update)
  qed
  ultimately have "r \<in> set (snd (QueueGatewayDeprovisioning env i dt t))" by simp
  then have "r \<in> set t'"
    using run r(1) unfolding GatewayHandler_Decommission_def by (auto split: if_splits sum.splits prod.splits)
  then show ?thesis using False by simp
qed

lemma MarkContainerReady_None:
  assumes "MarkContainerReady env i ip port host hport t = (None, t')"
  shows "\<exists>n. 1 \<le> n \<and> n \<le> 65535
    \<and> t' = sql_update (\<lambda>r. gw_ExternalID r = i \<and> gw_live r) (ContainerReady_set env ip port host hport n) t"
proof (cases "Atoi hport")
  case (Some n)
  have "1 \<le> n \<and> n \<le> 65535"
    using assms unfolding MarkContainerReady_def Some by (simp split: if_splits)
  moreover have "t' = sql_update (\<lambda>r. gw_ExternalID r = i \<and> gw_live r) (ContainerReady_set env ip port host hport n) t"
    using assms unfolding MarkContainerReady_def Some exec_update_def by (auto split: if_splits option.splits)
  ultimately show ?thesis by blast
qed (use assms in \<open>simp add: MarkContainerReady_def\<close>)

text \<open>
  An accepted gateway is on its way. When a request to create a gateway is accepted (status
  202), its container was reported healthy, no container was removed, and the gateway's row is queued for the
  load balancer with the port Docker bound, and carries the project named in the body of the request,
  whichever project the path of the request names.
\<close>

theorem accepted_gateway_is_queued:
  assumes "GatewayHandler_Provision m env u path (Some req) t d = (202, t', d')"
  shows "let i = ''gw_'' @ take 8 u in
    (\<exists>r \<in> set t'. gw_ExternalID r = i \<and> gw_ProjectID r = pr_ProjectID req \<and> gw_live r
       \<and> gw_ProvisioningStatus r = GsContainerReady \<and> (\<exists>port. gw_HostPort r = Some port \<and> 1 \<le> port \<and> port \<le> 65535))
    \<and> (\<exists>endpoint. Container_Provision m i (pr_ProjectID req) (pr_Plan req) d = (Inr endpoint, d'))"
proof -
  let ?i = "''gw_'' @ take 8 u"
  obtain t1 where ins: "Provision_row env ?i (pr_ProjectID req) (pr_Plan req) t = (None, t1)"
    using assms by (auto simp: GatewayHandler_Provision_def Let_def split: if_splits option.splits prod.splits sum.splits)
  then obtain p where t1: "t1 = t @ [new_gateway env ?i (pr_ProjectID req) p]"
    by (auto simp: Provision_row_def Provision_def split: option.splits if_splits)
  obtain ip port host hport d1 where up: "Container_Provision m ?i (pr_ProjectID req) (pr_Plan req) d = (Inr (ip, port, host, hport), d1)"
    using assms ins by (auto simp: GatewayHandler_Provision_def Let_def split: if_splits prod.splits sum.splits)
  have mark: "MarkContainerReady env ?i ip port host hport t1 = (None, t')" and d1: "d1 = d'"
    using assms ins up by (auto simp: GatewayHandler_Provision_def Let_def split: if_splits option.splits prod.splits)
  then obtain n where n: "1 \<le> n" "n \<le> 65535"
    and t': "t' = sql_update (\<lambda>r. gw_ExternalID r = ?i \<and> gw_live r) (ContainerReady_set env ip port host hport n) t1"
    using MarkContainerReady_None by blast
  let ?new = "new_gateway env ?i (pr_ProjectID req) p"
  have "ContainerReady_set env ip port host hport n ?new \<in> set t'"
    unfolding t' t1 by (auto simp: in_sql_update new_gateway_def intro!: bexI [of _ ?new])
  then show ?thesis using up d1 n unfolding Let_def
    by (intro conjI bexI [of _ "ContainerReady_set env ip port host hport n ?new"])
       (auto simp: ContainerReady_set_def new_gateway_def)
qed

text \<open>
  A forced removal is not checked against the table first. If no live row has the id but Docker
  returns a container for it, as its partial match does for the first letters of any gateway's id,
  the request is answered with 404 although that container was stopped and removed.
\<close>

theorem forced_removal_of_unknown_id:
  assumes "gatewayIDPattern g" "\<forall>r \<in> set t. gw_live r \<longrightarrow> gw_ExternalID r \<noteq> g"
    and "de_fault env = (\<lambda>_. None)"
    and "dk_List (dm_client m) d (containerName g) = Inr ((i, names) # rest)"
  shows "PlatformHandler_ForceDecommission (Some m) env g t d =
    (404, t, d @ [ContainerList (containerName g), ContainerStop i, ContainerRemove i])"
proof -
  have "filter (\<lambda>r. gw_ExternalID r = g \<and> gw_live r) t = []" using assms(2) by (auto simp: filter_empty_conv)
  moreover have "sql_update (\<lambda>r. gw_ExternalID r = g \<and> gw_live r) f t = t" for f
    unfolding sql_update_def by (rule map_idI) (use assms(2) in auto)
  ultimately have "UpdateStatus env g GwDecommissioned t = (Some ErrGatewayNotFound, t)"
    using assms(3) by (simp add: UpdateStatus_def exec_unchecked_def exec_update_def)
  moreover have "g \<noteq> []" using assms(1) by (auto simp: gatewayIDPattern_def)
  ultimately show ?thesis
    using assms(1,4) by (simp add: PlatformHandler_ForceDecommission_def Container_Decommission_def Let_def)
qed

section \<open>Concrete requests\<close>

theorem foreign_gateway_is_untouched_witness:
  "GatewayHandler_Decommission (quiet 9 ''x'') 0 ''p2'' ''gw_aaaa0001'' [waiting_gateway] = (404, [waiting_gateway])
   \<and> waiting_gateway \<in> set (snd (GatewayHandler_Decommission (quiet 9 ''x'') 0 ''p2'' ''gw_aaaa0001'' [waiting_gateway]))"
proof -
  let ?res = "GatewayHandler_Decommission (quiet 9 ''x'') 0 ''p2'' ''gw_aaaa0001'' [waiting_gateway]"
  have run: "?res = (fst ?res, snd ?res)" by simp
  have p: "gw_ProjectID waiting_gateway \<noteq> ''p2''" "''gw_aaaa0001'' = gw_ExternalID waiting_gateway" by code_simp+
  have "fst ?res = 404" by code_simp
  then show ?thesis
    using foreign_gateway_is_untouched [OF _ _ p(1) run] p(2) run by (simp add: prod_eq_iff)
qed

text \<open>A container that comes up, requested for another project than the one of the path.\<close>

definition healthy_docker :: docker_sdk where
  "healthy_docker = demo_docker\<lparr>dk_Events := (\<lambda>_ _. [WeMessage ''health_status: healthy''])\<rparr>"

theorem accepted_gateway_is_queued_witness:
  "\<exists>r \<in> set (fst (snd (GatewayHandler_Provision (demo_manager\<lparr>dm_client := healthy_docker\<rparr>) (quiet 1 ''id'') ''aaaa0003-1111''
      ''p1'' (Some \<lparr>pr_ProjectID = ''p2'', pr_Plan = ''dedicated''\<rparr>) [] []))).
     gw_ExternalID r = ''gw_aaaa0003'' \<and> gw_ProjectID r = ''p2''"
proof -
  let ?req = "\<lparr>pr_ProjectID = ''p2'', pr_Plan = ''dedicated''\<rparr>"
  let ?res = "GatewayHandler_Provision (demo_manager\<lparr>dm_client := healthy_docker\<rparr>) (quiet 1 ''id'') ''aaaa0003-1111'' ''p1'' (Some ?req) [] []"
  have "fst ?res = 202" by code_simp
  then have run: "?res = (202, fst (snd ?res), snd (snd ?res))" by (metis prod.collapse)
  have "take 8 ''aaaa0003-1111'' = ''aaaa0003''" by code_simp
  then show ?thesis using accepted_gateway_is_queued [OF run] unfolding Let_def by fastforce
qed

text \<open>An operator who types only \<^verbatim>\<open>gw_\<close> removes the first gateway on the host.\<close>

theorem forced_removal_of_unknown_id_witness:
  "PlatformHandler_ForceDecommission (Some demo_manager) (quiet 9 ''x'') ''gw_'' [waiting_gateway] [] =
     (404, [waiting_gateway], [ContainerList ''elitegate-gateway-gw_'', ContainerStop ''c1'', ContainerRemove ''c1''])"
proof -
  have g: "gatewayIDPattern ''gw_''" "dk_List (dm_client demo_manager) [] (containerName ''gw_'') =
      Inr ((''c1'', [''/elitegate-gateway-gw_aaaa0001'']) # [(''c2'', [''/elitegate-gateway-gw_aaaa0002''])])" by code_simp+
  have "gw_ExternalID waiting_gateway \<noteq> ''gw_''" by code_simp
  then have r: "\<forall>r \<in> set [waiting_gateway]. gw_live r \<longrightarrow> gw_ExternalID r \<noteq> ''gw_''" by simp
  have "de_fault (quiet 9 ''x'') = (\<lambda>_. None)" by (simp add: quiet_def)
  from forced_removal_of_unknown_id [OF g(1) r this g(2)] show ?thesis by (simp add: containerName_def)
qed

end
