(* ===== verification/Gateway_Reload.thy ===== *)
theory Gateway_Reload
  imports Config_Sync Gateway_Control
begin

text \<open>
  How a change reaches the gateways. A gateway fetches the snapshot of its project with the client of
  \<^verbatim>\<open>internal/gateway/runtime/control_client.go\<close>, at its start, on a timer, and when its endpoint
  \<^verbatim>\<open>/reload\<close> (\<^verbatim>\<open>internal/gateway/router.go\<close>) is called. The control plane calls that endpoint for
  all gateways, for those of a project (\<^verbatim>\<open>Reload\<close>, \<^verbatim>\<open>ReloadProject\<close> in
  \<^verbatim>\<open>internal/admin/handler/sync_handler.go\<close>) or for one (\<^verbatim>\<open>RestartGateway\<close> in
  \<^verbatim>\<open>platform_handler.go\<close>).

  An HTTP client is a function from the call and the state of the world to an error or a status with a body.
  The goroutines of a fan-out finish in any order, which is a parameter. Logging is left out.
\<close>

section \<open>The client side of HTTP\<close>

record http_call =
  hc_Method :: string
  hc_URL :: string
  hc_Header :: "string \<Rightarrow> string"

text \<open>\<open>ht_parse\<close> is the error of \<^verbatim>\<open>http.NewRequest\<close> for a URL it cannot parse.\<close>

record 'w http_env =
  ht_parse :: "string \<Rightarrow> string option"
  ht_do :: "http_call \<Rightarrow> 'w \<Rightarrow> (string + nat \<times> string) \<times> 'w"

section \<open>The gateway's client of the control plane\<close>

record control_client =
  cc_adminURL :: string
  cc_projectID :: string
  cc_gatewayToken :: string

definition sync_call :: "control_client \<Rightarrow> http_call" where
  "sync_call c = \<lparr>hc_Method = ''GET'', hc_URL = cc_adminURL c @ ''/internal/v1/projects/'' @ cc_projectID c @ ''/sync'',
     hc_Header = (\<lambda>_. [])(''X-Gateway-Token'' := cc_gatewayToken c)\<rparr>"

definition FetchSnapshot ::
  "'w http_env \<Rightarrow> (string \<Rightarrow> string + tenant_snapshot) \<Rightarrow> control_client \<Rightarrow> 'w \<Rightarrow> (string + tenant_snapshot) \<times> 'w" where
  "FetchSnapshot he decode c w =
     (case ht_parse he (hc_URL (sync_call c)) of
        Some e \<Rightarrow> (Inl (''create sync request: '' @ e), w)
      | None \<Rightarrow>
          (case ht_do he (sync_call c) w of
             (Inl e, w') \<Rightarrow> (Inl (''execute sync request: '' @ e), w')
           | (Inr (status, body), w') \<Rightarrow>
               if status \<noteq> 200 then (Inl (''control plane returned status '' @ showNat status), w')
               else (case decode body of
                       Inl e \<Rightarrow> (Inl (''decode snapshot response: '' @ e), w')
                     | Inr snap \<Rightarrow> (Inr snap, w'))))"

section \<open>The endpoint of a gateway\<close>

record 'r gateway_process =
  gp_GatewaySyncToken :: string
  gp_JWTSecret :: string
  gp_client :: control_client
  gp_env :: "'r loader_env"
  gp_loader :: "'r loader"

definition expected_token :: "'r gateway_process \<Rightarrow> string" where
  "expected_token gp = (if gp_GatewaySyncToken gp = [] then gp_JWTSecret gp else gp_GatewaySyncToken gp)"

definition client_token :: "(string \<Rightarrow> string) \<Rightarrow> string" where
  "client_token header =
     (if header ''X-Internal-Token'' \<noteq> [] then header ''X-Internal-Token''
      else if HasPrefix (header ''Authorization'') ''Bearer '' then TrimPrefix (header ''Authorization'') ''Bearer ''
      else [])"

text \<open>The snapshot is fetched only when the call is let through; \<open>fetched\<close> is what the fetch gives then.\<close>

definition reload_endpoint ::
  "'r gateway_process \<Rightarrow> string + tenant_snapshot \<Rightarrow> string \<Rightarrow> (string \<Rightarrow> string) \<Rightarrow> nat \<times> 'r loader" where
  "reload_endpoint gp fetched method header =
     (if method \<noteq> ''POST'' then (405, gp_loader gp)
      else if client_token header = [] \<or> client_token header \<noteq> expected_token gp then (401, gp_loader gp)
      else (case reload (gp_env gp) fetched (gp_loader gp) of
              (Some _, l) \<Rightarrow> (500, l)
            | (None, l) \<Rightarrow> (200, l)))"

section \<open>The control plane's calls\<close>

definition reloadURL :: "gateway_row \<Rightarrow> string" where
  "reloadURL g =
     (let orEmpty = (\<lambda>x. case x of None \<Rightarrow> [] | Some s \<Rightarrow> s);
          unset = (\<lambda>h. h = [] \<or> h = ''0.0.0.0'');
          host = orEmpty (gw_PublicHost g);
          host = (if unset host then gw_EndpointIP g else host);
          host = (if unset host then ''localhost'' else host);
          port = orEmpty (gw_PublicPort g);
          port = (if port = [] \<or> port = ''0'' then gw_Port g else port)
      in ''http://'' @ host @ '':'' @ port @ ''/reload'')"

text \<open>The errors carry the identifier of the gateway, as their messages do.\<close>

datatype reload_fault = BuildFailed uuid string | CallFailed uuid string | UnexpectedStatus uuid nat

definition reload_call :: "gateway_row \<Rightarrow> http_call" where
  "reload_call g = \<lparr>hc_Method = ''POST'', hc_URL = reloadURL g, hc_Header = (\<lambda>_. [])\<rparr>"

definition reloadOne :: "'w http_env \<Rightarrow> gateway_row \<Rightarrow> 'w \<Rightarrow> reload_fault option \<times> 'w" where
  "reloadOne he g w =
     (case ht_parse he (reloadURL g) of
        Some e \<Rightarrow> (Some (BuildFailed (gw_ID g) e), w)
      | None \<Rightarrow>
          (case ht_do he (reload_call g) w of
             (Inl e, w') \<Rightarrow> (Some (CallFailed (gw_ID g) e), w')
           | (Inr (status, _), w') \<Rightarrow> (if status \<noteq> 200 then Some (UnexpectedStatus (gw_ID g) status) else None, w')))"

fun reload_all :: "'w http_env \<Rightarrow> gateway_row list \<Rightarrow> 'w \<Rightarrow> reload_fault list \<times> 'w" where
  "reload_all he [] w = ([], w)"
| "reload_all he (g # gs) w =
     (let (e, w1) = reloadOne he g w; (errs, w2) = reload_all he gs w1
      in ((case e of None \<Rightarrow> errs | Some e \<Rightarrow> e # errs), w2))"

text \<open>The status and the errors of the answer; \<open>order\<close> is the order in which the calls are made.\<close>

definition fan_out ::
  "'w http_env \<Rightarrow> (gateway_row list \<Rightarrow> gateway_row list) \<Rightarrow> gateway_row list \<Rightarrow> 'w \<Rightarrow> (nat \<times> reload_fault list) \<times> 'w" where
  "fan_out he order gateways w =
     (if gateways = [] then ((200, []), w)
      else let (errs, w') = reload_all he (order gateways) w
           in ((if errs \<noteq> [] then 207 else 200, errs), w'))"

definition SyncHandler_Reload ::
  "db_env \<Rightarrow> 'w http_env \<Rightarrow> (gateway_row list \<Rightarrow> gateway_row list) \<Rightarrow> gateways \<Rightarrow> 'w \<Rightarrow> (nat \<times> reload_fault list) \<times> 'w" where
  "SyncHandler_Reload env he order t w =
     (case ListActive env t of
        Inl _ \<Rightarrow> ((500, []), w)
      | Inr gateways \<Rightarrow> fan_out he order gateways w)"

text \<open>A list of statements that only read fails with the first of them that does.\<close>

fun first_fault :: "db_env \<Rightarrow> string list \<Rightarrow> repo_error option" where
  "first_fault env [] = None"
| "first_fault env (q # qs) = (case de_fault env q of Some e \<Rightarrow> Some (SqlError q e) | None \<Rightarrow> first_fault env qs)"

definition Gateway_ListByProject :: "db_env \<Rightarrow> uuid \<Rightarrow> int \<Rightarrow> int \<Rightarrow> gateways \<Rightarrow> repo_error + (gateways \<times> nat)" where
  "Gateway_ListByProject env tenant limit offset t =
     (let rows = filter (\<lambda>r. gw_ProjectID r = tenant \<and> gw_live r) t
      in case first_fault env [''begin tx'', ''setTenantSession'', ''count gateways'', ''query gateways'', ''commit tx''] of
           Some e \<Rightarrow> Inl e
         | None \<Rightarrow> Inr (page limit offset (sort_key gw_CreatedAt rows), length rows))"

definition SyncHandler_ReloadProject ::
  "db_env \<Rightarrow> 'w http_env \<Rightarrow> (gateway_row list \<Rightarrow> gateway_row list) \<Rightarrow> uuid option \<Rightarrow> gateways \<Rightarrow> 'w \<Rightarrow> (nat \<times> reload_fault list) \<times> 'w" where
  "SyncHandler_ReloadProject env he order tenant t w =
     (case tenant of
        None \<Rightarrow> ((500, []), w)
      | Some p \<Rightarrow>
          (case Gateway_ListByProject env p 0 0 t of
             Inl _ \<Rightarrow> ((500, []), w)
           | Inr (gateways, _) \<Rightarrow> fan_out he order (filter (\<lambda>g. gw_Status g = GwActive) gateways) w))"

definition RestartGateway :: "db_env \<Rightarrow> 'w http_env option \<Rightarrow> string \<Rightarrow> gateways \<Rightarrow> 'w \<Rightarrow> nat \<times> 'w" where
  "RestartGateway env syncHandler gatewayID t w =
     (if gatewayID = [] then (400, w)
      else (case GetByExternalID env gatewayID t of
              Inl e \<Rightarrow> (if e = ErrGatewayNotFound then 404 else 500, w)
            | Inr gw \<Rightarrow>
                (case syncHandler of
                   None \<Rightarrow> (500, w)
                 | Some he \<Rightarrow>
                     (case reloadOne he gw w of (Some _, w') \<Rightarrow> (502, w') | (None, w') \<Rightarrow> (200, w')))))"


text \<open>The gateway an error is about.\<close>

definition fault_id :: "reload_fault \<Rightarrow> uuid" where
  "fault_id e = (case e of BuildFailed i _ \<Rightarrow> i | CallFailed i _ \<Rightarrow> i | UnexpectedStatus i _ \<Rightarrow> i)"

section \<open>The control plane as the gateway sees it\<close>

text \<open>
  The answer of the snapshot endpoint to the client of a gateway. The body of a snapshot is its coding as JSON; that the
  client decodes what the control plane encoded is a hypothesis of the theorem below.
\<close>

definition control_plane ::
  "(tenant_snapshot \<Rightarrow> string) \<Rightarrow> (string \<Rightarrow> string \<Rightarrow> string) \<Rightarrow> string \<Rightarrow> db_env \<Rightarrow> (uuid \<Rightarrow> db_env) \<Rightarrow> (string \<Rightarrow> uuid option) \<Rightarrow> config_db
     \<Rightarrow> domains \<Rightarrow> jwt_configs \<Rightarrow> control_client \<Rightarrow> nat \<times> string" where
  "control_plane encode hmacHex masterSecret env tenv parse db cds jwts c =
     (case tenant_sync hmacHex masterSecret env tenv parse (cc_projectID c) (hc_Header (sync_call c) ''X-Gateway-Token'') db cds jwts of
        Inl status \<Rightarrow> (status, [])
      | Inr snap \<Rightarrow> (200, encode snap))"

lemma tenant_sync_status: "tenant_sync hmacHex masterSecret env tenv parse projectParam token db cds jwts = Inl status \<Longrightarrow> status \<noteq> 200"
  by (auto simp: tenant_sync_def RequireGatewayToken_def GetTenantSnapshot_def
      split: if_splits option.splits sum.splits jwt_repo_error.splits prod.splits)

lemma fetch_from_control_plane:
  assumes "fst (FetchSnapshot he decode c w) = Inr snap"
    and "\<And>snap. tenant_sync hmacHex masterSecret env tenv parse (cc_projectID c) (cc_gatewayToken c) db cds jwts = Inr snap \<Longrightarrow> decode (encode snap) = Inr snap"
    and "fst (ht_do he (sync_call c) w) = Inr (control_plane encode hmacHex masterSecret env tenv parse db cds jwts c)"
  shows "tenant_sync hmacHex masterSecret env tenv parse (cc_projectID c) (cc_gatewayToken c) db cds jwts = Inr snap"
proof -
  have tok: "hc_Header (sync_call c) ''X-Gateway-Token'' = cc_gatewayToken c" by (simp add: sync_call_def)
  show ?thesis
    using assms tenant_sync_status
    by (auto simp: FetchSnapshot_def control_plane_def tok split: option.splits prod.splits sum.splits if_splits)
qed

text \<open>
  C16. A reload brings the gateway to its project's configuration. When the reload endpoint of a gateway answers 200, the call was a
  POST with the gateway's token, the gateway's own token was the one derived for its project, and from then on the
  gateway routes by exactly the enabled, live routes of that project, with the restrictions of their live policies, and resolves a
  host to a custom domain only when an active domain of the project that is ready for routing has that name.
\<close>

theorem reload_serves_the_project:
  assumes "reload_endpoint gp (fst (FetchSnapshot he decode (gp_client gp) w)) method header = (200, l')"
    and "\<forall>snap. tenant_sync hmacHex masterSecret env tenv parse (cc_projectID (gp_client gp)) (cc_gatewayToken (gp_client gp)) db cds jwts = Inr snap
      \<longrightarrow> decode (encode snap) = Inr snap"
    and "fst (ht_do he (sync_call (gp_client gp)) w) = Inr (control_plane encode hmacHex masterSecret env tenv parse db cds jwts (gp_client gp))"
  shows "method = ''POST'' \<and> client_token header = expected_token gp \<and> client_token header \<noteq> []
    \<and> cc_gatewayToken (gp_client gp) = DeriveTenantJWTSecret hmacHex masterSecret (cc_projectID (gp_client gp))
    \<and> (\<exists>p. parse (cc_projectID (gp_client gp)) = Some p
         \<and> set (sn_Routes (Current l')) = joined_route p db ` {r \<in> set (cf_routes db). rr_ProjectID r = p \<and> rr_DeletedAt r = None \<and> rr_Enabled r}
         \<and> (\<forall>host. LookupDomain (Current l') host \<noteq> None \<longrightarrow> (\<exists>r \<in> set cds. NormalizeHost (cd_Hostname r) = NormalizeHost host
              \<and> cd_ProjectID r = p \<and> cd_live r \<and> cd_Status r = DsActive \<and> cd_RoutingStatus r = RsReady)))"
proof -
  have guard: "method = ''POST''" "client_token header = expected_token gp" "client_token header \<noteq> []"
    and rel: "reload (gp_env gp) (fst (FetchSnapshot he decode (gp_client gp) w)) (gp_loader gp) = (None, l')"
    using assms(1) by (auto simp: reload_endpoint_def split: if_splits prod.splits option.splits)
  obtain snap where snap: "fst (FetchSnapshot he decode (gp_client gp) w) = Inr snap"
    using rel by (auto simp: reload_def split: sum.splits)
  have sync: "tenant_sync hmacHex masterSecret env tenv parse (cc_projectID (gp_client gp)) (cc_gatewayToken (gp_client gp)) db cds jwts = Inr snap"
    using fetch_from_control_plane [OF snap _ assms(3)] assms(2) by blast
  then have tok: "cc_gatewayToken (gp_client gp) = DeriveTenantJWTSecret hmacHex masterSecret (cc_projectID (gp_client gp))"
    and get: "GetTenantSnapshot env tenv parse (cc_projectID (gp_client gp)) db cds jwts = Inr snap"
    by (auto simp: tenant_sync_def RequireGatewayToken_def split: if_splits)
  obtain p where p: "parse (cc_projectID (gp_client gp)) = Some p" and parts: "snapshot_of env tenv p db cds jwts snap"
    using snapshot_parts [OF get] by blast
  have cur: "sn_Routes (Current l') = ts_Routes snap" using reload_parts(1) [OF rel [unfolded snap]] by simp
  have routes: "set (ts_Routes snap) = joined_route p db ` {r \<in> set (cf_routes db). rr_ProjectID r = p \<and> rr_DeletedAt r = None \<and> rr_Enabled r}"
    using parts by (auto simp: snapshot_of_def)
  have dom: "\<exists>r \<in> set cds. NormalizeHost (cd_Hostname r) = NormalizeHost host
              \<and> cd_ProjectID r = p \<and> cd_live r \<and> cd_Status r = DsActive \<and> cd_RoutingStatus r = RsReady"
    if found: "LookupDomain (Current l') host \<noteq> None" for host
  proof -
    obtain cd where cd: "cd \<in> set (ts_CustomDomains snap)" "NormalizeHost (cds_Hostname cd) = NormalizeHost host"
      using LookupDomain_after_reload [OF rel [unfolded snap], of host] found by blast
    obtain r where "r \<in> set cds" "cds_Hostname cd = cd_Hostname r" "cd_ProjectID r = p" "cd_live r" "cd_Status r = DsActive" "cd_RoutingStatus r = RsReady"
      using snapshot_domain [OF parts cd(1)] by blast
    then show ?thesis using cd(2) by (intro bexI [of _ r]) simp_all
  qed
  have "set (sn_Routes (Current l')) = joined_route p db ` {r \<in> set (cf_routes db). rr_ProjectID r = p \<and> rr_DeletedAt r = None \<and> rr_Enabled r}"
    unfolding cur by (rule routes)
  then show ?thesis by (intro conjI exI [of _ p] allI impI guard tok p dom)
qed

section \<open>Triggered reloads\<close>

text \<open>
  The gateways behind the control plane's HTTP client: by the URL of their reload endpoint. \<open>down\<close> is the error of a URL that cannot be
  reached, and \<open>fetch\<close> what a gateway gets from the control plane.
\<close>

definition gateways_answer ::
  "(string \<Rightarrow> string option) \<Rightarrow> (control_client \<Rightarrow> string + tenant_snapshot) \<Rightarrow> http_call
     \<Rightarrow> (string \<rightharpoonup> 'r gateway_process) \<Rightarrow> (string + nat \<times> string) \<times> (string \<rightharpoonup> 'r gateway_process)" where
  "gateways_answer down fetch call ps =
     (case down (hc_URL call) of
        Some e \<Rightarrow> (Inl e, ps)
      | None \<Rightarrow>
          (case ps (hc_URL call) of
             None \<Rightarrow> (Inl ''connection refused'', ps)
           | Some gp \<Rightarrow>
               (let (status, l) = reload_endpoint gp (fetch (gp_client gp)) (hc_Method call) (hc_Header call)
                in (Inr (status, []), ps(hc_URL call \<mapsto> gp\<lparr>gp_loader := l\<rparr>)))))"

lemma unauthenticated_call: "reload_endpoint gp fetched ''POST'' (\<lambda>_. []) = (401, gp_loader gp)"
  by (simp add: reload_endpoint_def client_token_def)

lemma reloadOne_refused:
  fixes he :: "(string \<rightharpoonup> 'r gateway_process) http_env"
  assumes "ht_do he = gateways_answer down fetch"
  shows "\<exists>e. reloadOne he g ps = (Some e, ps) \<and> fault_id e = gw_ID g"
proof -
  have "(gp :: 'r gateway_process)\<lparr>gp_loader := gp_loader gp\<rparr> = gp" for gp by simp
  then show ?thesis
    by (auto simp: reloadOne_def assms reload_call_def gateways_answer_def unauthenticated_call fault_id_def fun_upd_idem
        split: option.split)
qed

lemma reload_all_refused:
  assumes "ht_do he = gateways_answer down fetch"
  shows "\<exists>errs. reload_all he gs ps = (errs, ps) \<and> map fault_id errs = map gw_ID gs"
proof (induction gs)
  case (Cons g gs)
  then show ?case using reloadOne_refused [OF assms, of g ps] by auto
qed simp

lemma fan_out_refused:
  assumes "ht_do he = gateways_answer down fetch" "mset (order gs) = mset gs"
  shows "\<exists>errs. fan_out he order gs ps = ((if gs = [] then 200 else 207, errs), ps) \<and> mset (map fault_id errs) = mset (map gw_ID gs)"
proof (cases "gs = []")
  case True
  then show ?thesis by (simp add: fan_out_def)
next
  case False
  obtain es where es: "reload_all he (order gs) ps = (es, ps)" "map fault_id es = map gw_ID (order gs)"
    using reload_all_refused [OF assms(1)] by blast
  have "order gs \<noteq> []" using False assms(2) by (metis mset_zero_iff)
  then have "es \<noteq> []" using es(2) by auto
  moreover have "mset (map fault_id es) = mset (map gw_ID gs)" unfolding es(2) mset_map assms(2) ..
  ultimately show ?thesis using False es(1) by (simp add: fan_out_def)
qed

text \<open>
  C22. A triggered reload reaches no gateway. The control plane calls the endpoint without a token and the endpoint refuses
  every call without one, whatever the gateway's settings: so the reload of a project with active gateways always
  answers 207, with one error for each of them, in whatever order the calls are made, and no gateway changes.
\<close>

theorem triggered_reload_is_refused:
  assumes "ht_do he = gateways_answer down fetch" "\<forall>gs. mset (order gs) = mset gs"
    and "SyncHandler_ReloadProject env he order (Some p) t ps = ((status, errs), ps')" "status \<noteq> 500"
  shows "ps' = ps \<and> mset (map fault_id errs) = mset (map gw_ID (filter (\<lambda>g. gw_ProjectID g = p \<and> gw_live g \<and> gw_Status g = GwActive) t))
    \<and> status = (if \<exists>g \<in> set t. gw_ProjectID g = p \<and> gw_live g \<and> gw_Status g = GwActive then 207 else 200)"
proof -
  define gs where "gs = filter (\<lambda>g. gw_Status g = GwActive) (sort_key gw_CreatedAt (filter (\<lambda>g. gw_ProjectID g = p \<and> gw_live g) t))"
  have fan: "fan_out he order gs ps = ((status, errs), ps')"
    using assms(3,4) unfolding SyncHandler_ReloadProject_def Gateway_ListByProject_def gs_def
    by (cases "first_fault env [''begin tx'', ''setTenantSession'', ''count gateways'', ''query gateways'', ''commit tx'']")
      (simp_all add: page_def Let_def)
  have rows: "mset gs = mset (filter (\<lambda>g. gw_ProjectID g = p \<and> gw_live g \<and> gw_Status g = GwActive) t)"
    by (simp add: gs_def mset_filter filter_filter_mset conj_ac)
  have none: "gs = [] \<longleftrightarrow> \<not> (\<exists>g \<in> set t. gw_ProjectID g = p \<and> gw_live g \<and> gw_Status g = GwActive)"
    by (auto simp: gs_def filter_empty_conv)
  have "mset (order gs) = mset gs" using assms(2) by blast
  from fan_out_refused [where order = order and gs = gs, OF assms(1) this, of ps] fan
  have "ps' = ps" "mset (map fault_id errs) = mset (map gw_ID gs)" "status = (if gs = [] then 200 else 207)" by simp_all
  then show ?thesis unfolding mset_map rows none by simp
qed

section \<open>The bakery's gateway\<close>

definition bakery_gateway :: "(string \<rightharpoonup> string) gateway_process" where
  "bakery_gateway = \<lparr>gp_GatewaySyncToken = ''sync'', gp_JWTSecret = ''secret'',
     gp_client = \<lparr>cc_adminURL = ''http://admin'', cc_projectID = ''bakery'',
       cc_gatewayToken = DeriveTenantJWTSecret (\<lambda>k m. k @ m) ''master'' ''bakery''\<rparr>,
     gp_env = start_env, gp_loader = plain_gateway\<rparr>"

theorem reload_serves_the_project_witness:
  "\<exists>snap l'. reload_endpoint bakery_gateway (Inr snap) ''POST'' ((\<lambda>_. [])(''Authorization'' := ''Bearer sync'')) = (200, l')
     \<and> rt_Path ` set (sn_Routes (Current l')) = {''/bread''}"
proof -
  let ?tok = "DeriveTenantJWTSecret (\<lambda>k m. k @ m) ''master'' ''bakery''"
  obtain snap l' where get: "GetTenantSnapshot (quiet 5 ''i'') (\<lambda>_. quiet 5 ''i'') Some ''bakery'' bakery [] [] = Inr snap"
    and l': "reload start_env (Inr snap) plain_gateway = (None, l')" using quiet_snapshot by blast
  have sync: "tenant_sync (\<lambda>k m. k @ m) ''master'' (quiet 5 ''i'') (\<lambda>_. quiet 5 ''i'') Some ''bakery'' ?tok bakery [] [] = Inr snap"
    using get by (simp add: tenant_sync_def RequireGatewayToken_def DeriveTenantJWTSecret_def)
  let ?cp = "control_plane (\<lambda>_. ''{}'') (\<lambda>k m. k @ m) ''master'' (quiet 5 ''i'') (\<lambda>_. quiet 5 ''i'') Some bakery [] [] (gp_client bakery_gateway)"
  define he :: "unit http_env" where "he = \<lparr>ht_parse = (\<lambda>_. None), ht_do = (\<lambda>_ w. (Inr ?cp, w))\<rparr>"
  have fetch: "fst (FetchSnapshot he (\<lambda>_. Inr snap) (gp_client bakery_gateway) ()) = Inr snap"
    using sync by (simp add: FetchSnapshot_def he_def control_plane_def sync_call_def bakery_gateway_def)
  have "HasPrefix ''Bearer sync'' ''Bearer ''" "TrimPrefix ''Bearer sync'' ''Bearer '' = ''sync''" by code_simp+
  then have run: "reload_endpoint bakery_gateway (fst (FetchSnapshot he (\<lambda>_. Inr snap) (gp_client bakery_gateway) ())) ''POST''
      ((\<lambda>_. [])(''Authorization'' := ''Bearer sync'')) = (200, l')"
    unfolding fetch using l' by (simp add: reload_endpoint_def client_token_def expected_token_def bakery_gateway_def)
  have "set (sn_Routes (Current l')) = joined_route ''bakery'' bakery ` {r \<in> set (cf_routes bakery). rr_ProjectID r = ''bakery'' \<and> rr_DeletedAt r = None \<and> rr_Enabled r}"
    using reload_serves_the_project [OF run, of "\<lambda>k m. k @ m" "''master''" "quiet 5 ''i''" "\<lambda>_. quiet 5 ''i''" Some bakery "[]" "[]" "\<lambda>_. ''{}''"] sync
    by (simp add: he_def bakery_gateway_def)
  moreover have "rt_Path ` joined_route ''bakery'' bakery ` set (cf_routes bakery) = {''/bread''}"
    by (simp add: bakery_def joined_route_def)
  ultimately have "rt_Path ` set (sn_Routes (Current l')) = {''/bread''}" unfolding bakery_rows by simp
  then show ?thesis using run unfolding fetch by blast
qed

definition live_bakery :: gateway_row where
  "live_bakery = (new_gateway (quiet 1 ''g1'') ''gw_1'' ''bakery'' PlanShared)\<lparr>gw_Status := GwActive, gw_PublicHost := Some ''10.0.0.9'', gw_PublicPort := Some ''8080''\<rparr>"

theorem triggered_reload_is_refused_witness:
  "\<exists>errs. SyncHandler_ReloadProject (quiet 5 ''i'')
       \<lparr>ht_parse = (\<lambda>_. None), ht_do = gateways_answer (\<lambda>_. None) (\<lambda>_. Inl ''down'')\<rparr> rev (Some ''bakery'') [live_bakery]
       [''http://10.0.0.9:8080/reload'' \<mapsto> bakery_gateway]
     = ((207, errs), [''http://10.0.0.9:8080/reload'' \<mapsto> bakery_gateway]) \<and> map fault_id errs = [''g1'']"
proof -
  let ?he = "\<lparr>ht_parse = (\<lambda>_. None), ht_do = gateways_answer (\<lambda>_. None) (\<lambda>_. Inl ''down'')\<rparr> :: (string \<rightharpoonup> (string \<rightharpoonup> string) gateway_process) http_env"
  let ?ps = "[''http://10.0.0.9:8080/reload'' \<mapsto> bakery_gateway]"
  obtain status errs ps' where run: "SyncHandler_ReloadProject (quiet 5 ''i'') ?he rev (Some ''bakery'') [live_bakery] ?ps = ((status, errs), ps')"
    by (metis prod.collapse)
  have "status \<noteq> 500"
    using run by (auto simp: SyncHandler_ReloadProject_def Gateway_ListByProject_def page_def fan_out_def split: prod.splits if_splits)
  from triggered_reload_is_refused [OF _ _ run this, of "\<lambda>_. None" "\<lambda>_. Inl ''down''"]
  have "ps' = ?ps" "mset (map fault_id errs) = {#''g1''#}" "status = 207" by (simp_all add: live_bakery_def new_gateway_def)
  then show ?thesis using run by (auto simp del: mset_map)
qed

end
