(* ===== verification/Admin_Edge.thy ===== *)
theory Admin_Edge
  imports Account_Handlers Admin_Access Config_Store Gateway_Store Rate_Limit
begin

text \<open>
  The outer layer of the control plane: the origins that may call it from a browser and their cache
  (\<^verbatim>\<open>internal/admin/middleware/cors.go\<close>, \<^verbatim>\<open>origin_cache.go\<close>), the limits on public and
  lookup requests (\<^verbatim>\<open>ip_rate_limit.go\<close>, \<^verbatim>\<open>user_lookup_limit.go\<close>), the paging of lists
  (\<^verbatim>\<open>internal/admin/service/pagination.go\<close>), the cache of the project summaries
  (\<^verbatim>\<open>internal/storage/summary_cache.go\<close>), and the settings of the gateway worker
  (\<^verbatim>\<open>cmd/worker/gateway_worker_config.go\<close>).
\<close>

section \<open>Origins\<close>

record origin_entry =
  oe_origins :: "string list"
  oe_expiresAt :: go_time

record origin_cache =
  oc_data :: "string \<rightharpoonup> origin_entry"
  oc_ttl :: go_duration

definition NewOriginCache :: "go_duration \<Rightarrow> origin_cache" where
  "NewOriginCache ttl = \<lparr>oc_data = Map.empty, oc_ttl = ttl\<rparr>"

definition GetDashboardOrigins :: "db_env \<Rightarrow> (string \<Rightarrow> uuid option) \<Rightarrow> string \<Rightarrow> (string list) tenancy_query" where
  "GetDashboardOrigins env pg projectID =
     tx_read env ''get dashboard origins'' (\<lambda>db.
       case pg projectID of
         None \<Rightarrow> Inl (TenancySql ''get dashboard origins'' ''invalid input syntax for type uuid'')
       | Some i \<Rightarrow>
           (case List.find (\<lambda>p. prj_ID p = i \<and> prj_live p) (td_projects db) of
              None \<Rightarrow> Inl ErrNoRows
            | Some p \<Rightarrow> Inr (prj_Origins p)))"

text \<open>The cache is asked before the database; an error of the query is not kept.\<close>

definition OriginCache_Get ::
  "db_env \<Rightarrow> (string \<Rightarrow> uuid option) \<Rightarrow> tenancy \<Rightarrow> string \<Rightarrow> origin_cache \<Rightarrow> (tenancy_error + string list) \<times> origin_cache" where
  "OriginCache_Get env pg db projectID c =
     (case (case oc_data c projectID of
              Some entry \<Rightarrow> if de_clock env < oe_expiresAt entry then Some (oe_origins entry) else None
            | None \<Rightarrow> None) of
        Some origins \<Rightarrow> (Inr origins, c)
      | None \<Rightarrow>
          (case GetDashboardOrigins env pg projectID db of
             Inl e \<Rightarrow> (Inl e, c)
           | Inr origins \<Rightarrow>
               (Inr origins, c\<lparr>oc_data := (oc_data c)(projectID \<mapsto>
                  \<lparr>oe_origins = origins, oe_expiresAt = de_clock env + oc_ttl c\<rparr>)\<rparr>)))"

definition OriginCache_Invalidate :: "string \<Rightarrow> origin_cache \<Rightarrow> origin_cache" where
  "OriginCache_Invalidate projectID c = c\<lparr>oc_data := (oc_data c)(projectID := None)\<rparr>"

text \<open>
  What the middleware decides: whether the headers that let the browser through, with credentials, are set, and the status
  when it ends the request itself. \<open>projectParam\<close> is the parameter of the matched route, empty when
  there is none.
\<close>

record cors_answer =
  co_allowed :: bool
  co_abort :: "nat option"

definition DynamicCORS ::
  "string list \<Rightarrow> db_env \<Rightarrow> (string \<Rightarrow> uuid option) \<Rightarrow> tenancy \<Rightarrow> string \<Rightarrow> string \<Rightarrow> string \<Rightarrow> origin_cache option
     \<Rightarrow> cors_answer \<times> origin_cache option" where
  "DynamicCORS staticOrigins env pg db method origin projectParam cache =
     (if origin = [] then (\<lparr>co_allowed = False, co_abort = None\<rparr>, cache)
      else
        let (allowed, cache') =
              (if origin \<in> set staticOrigins then (True, cache)
               else case cache of
                      None \<Rightarrow> (False, cache)
                    | Some c \<Rightarrow>
                        if projectParam = [] then (False, cache)
                        else (case OriginCache_Get env pg db projectParam c of
                                (Inl _, c') \<Rightarrow> (False, Some c')
                              | (Inr origins, c') \<Rightarrow> (origin \<in> set origins, Some c')))
        in (\<lparr>co_allowed = allowed,
              co_abort = (if method = ''OPTIONS'' then Some (if allowed then 204 else 403) else None)\<rparr>, cache'))"

text \<open>The service behind the endpoint that replaces the origins of a project.\<close>

definition Service_UpdateDashboardOrigins ::
  "db_env \<Rightarrow> (string \<Rightarrow> uuid option) \<Rightarrow> string \<Rightarrow> string list \<Rightarrow> tenancy \<Rightarrow> origin_cache option
     \<Rightarrow> tenancy_error option \<times> tenancy \<times> origin_cache option" where
  "Service_UpdateDashboardOrigins env pg projectID origins db cache =
     (case (case pg projectID of
              None \<Rightarrow> (Some (TenancySql projectID ''invalid input syntax for type uuid''), db)
            | Some i \<Rightarrow> UpdateDashboardOrigins env i origins db) of
        (Some e, db') \<Rightarrow> (Some e, db', cache)
      | (None, db') \<Rightarrow> (None, db', map_option (OriginCache_Invalidate projectID) cache))"

section \<open>Limits\<close>

definition realClientIP :: "bool \<Rightarrow> (string \<Rightarrow> string) \<Rightarrow> string \<Rightarrow> string" where
  "realClientIP trustProxyHeaders header remoteAddr =
     (let first = TrimSpace (hd (splitByte (CHR '','') (header ''X-Forwarded-For'')))
      in if trustProxyHeaders \<and> header ''X-Forwarded-For'' \<noteq> [] \<and> first \<noteq> [] then first
         else if trustProxyHeaders \<and> header ''X-Real-IP'' \<noteq> [] then header ''X-Real-IP''
         else ClientIP remoteAddr)"

text \<open>A middleware that lets a request through gives \<open>None\<close>, else the status it ends the request with.\<close>

definition IPRateLimit ::
  "(string \<Rightarrow> int \<Rightarrow> 's \<Rightarrow> rate_result \<times> 's) \<Rightarrow> int \<Rightarrow> string \<Rightarrow> bool \<Rightarrow> (string \<Rightarrow> string) \<Rightarrow> string \<Rightarrow> 's \<Rightarrow> nat option \<times> 's" where
  "IPRateLimit checkAndConsume limit keyPrefix trustProxyHeaders header remoteAddr s =
     (let (result, s') = checkAndConsume (keyPrefix @ '':'' @ realClientIP trustProxyHeaders header remoteAddr) limit s
      in (if \<not> rr_Allowed result then Some 429 else None, s'))"

definition UserLookupRateLimit :: "(string \<Rightarrow> int \<Rightarrow> 's \<Rightarrow> bool \<times> 's) \<Rightarrow> int \<Rightarrow> string \<Rightarrow> 's \<Rightarrow> nat option \<times> 's" where
  "UserLookupRateLimit allowWithLimit rpm callerID s =
     (let (ok, s') = allowWithLimit (''user-lookup:'' @ callerID) rpm s
      in (if \<not> ok then Some 429 else None, s'))"

section \<open>Pages\<close>

datatype page_error = ErrInvalidPage | ErrInvalidLimit

definition ParsePagination :: "string \<Rightarrow> string \<Rightarrow> page_error + int \<times> int" where
  "ParsePagination pageStr limitStr =
     (case (if pageStr = [] then Some 1 else case Atoi pageStr of Some p \<Rightarrow> if p < 1 then None else Some p | None \<Rightarrow> None) of
        None \<Rightarrow> Inl ErrInvalidPage
      | Some pg \<Rightarrow>
          (case (if limitStr = [] then Some 25
                 else case Atoi limitStr of Some l \<Rightarrow> if l < 1 \<or> l > 100 then None else Some l | None \<Rightarrow> None) of
             None \<Rightarrow> Inl ErrInvalidLimit
           | Some limit \<Rightarrow> Inr (pg, limit)))"

text \<open>Go's \<^verbatim>\<open>int\<close> has 64 bits and wraps around.\<close>

definition int64 :: "int \<Rightarrow> int" where
  "int64 n = (n + 2 ^ 63) mod 2 ^ 64 - 2 ^ 63"

definition ParsePaginationOffset :: "string \<Rightarrow> string \<Rightarrow> page_error + int \<times> int \<times> int" where
  "ParsePaginationOffset pageStr limitStr =
     (case ParsePagination pageStr limitStr of
        Inl e \<Rightarrow> Inl e
      | Inr (pg, limit) \<Rightarrow> Inr (pg, limit, int64 ((pg - 1) * limit)))"

record pagination =
  pn_Page :: int
  pn_Limit :: int
  pn_Total :: int
  pn_TotalPages :: int

definition BuildPagination :: "int \<Rightarrow> int \<Rightarrow> int \<Rightarrow> pagination" where
  "BuildPagination pg limit n =
     \<lparr>pn_Page = pg, pn_Limit = limit, pn_Total = n,
      pn_TotalPages = (if n > 0 \<and> limit > 0 then n div limit + (if n mod limit \<noteq> 0 then 1 else 0) else 0)\<rparr>"

section \<open>Summaries\<close>

record 'a summary_cache =
  sc_ttl :: go_duration
  sc_m :: "string \<rightharpoonup> 'a \<times> go_time"

definition SummaryCache_Get :: "go_time \<Rightarrow> string \<Rightarrow> 'a summary_cache \<Rightarrow> 'a option" where
  "SummaryCache_Get now projectID c =
     (case sc_m c projectID of
        None \<Rightarrow> None
      | Some (summary, expiresAt) \<Rightarrow> if now > expiresAt then None else Some summary)"

definition SummaryCache_Set :: "go_time \<Rightarrow> string \<Rightarrow> 'a \<Rightarrow> 'a summary_cache \<Rightarrow> 'a summary_cache" where
  "SummaryCache_Set now projectID summary c = c\<lparr>sc_m := (sc_m c)(projectID \<mapsto> (summary, now + sc_ttl c))\<rparr>"

section \<open>Settings of the gateway worker\<close>

record automation_config =
  ga_Enabled :: bool
  ga_Region :: string
  ga_ListenerARN :: string
  ga_VPCID :: string
  ga_InstanceID :: string
  ga_BaseDomain :: string
  ga_PriorityMin :: int
  ga_PriorityMax :: int

datatype config_fault = InvalidInteger string | MissingSetting | NotADomainName | InvalidDomainName | InvalidPriorityRange

definition readDedicatedGatewayEnvInt :: "(string \<Rightarrow> string) \<Rightarrow> string \<Rightarrow> int \<Rightarrow> config_fault + int" where
  "readDedicatedGatewayEnvInt getenv name fallback =
     (let v = TrimSpace (getenv name)
      in if v = [] then Inr fallback
         else (case Atoi v of None \<Rightarrow> Inl (InvalidInteger name) | Some n \<Rightarrow> Inr n))"

definition automation_settings :: "(string \<Rightarrow> string) \<Rightarrow> int \<Rightarrow> int \<Rightarrow> automation_config" where
  "automation_settings getenv priorityMin priorityMax =
     \<lparr>ga_Enabled = EqualFold (TrimSpace (getenv ''DEDICATED_GATEWAY_AWS_AUTOMATION_ENABLED'')) ''true'',
      ga_Region = TrimSpace (getenv ''AWS_REGION''), ga_ListenerARN = TrimSpace (getenv ''ALB_HTTPS_LISTENER_ARN''),
      ga_VPCID = TrimSpace (getenv ''AWS_VPC_ID''), ga_InstanceID = TrimSpace (getenv ''AWS_EC2_INSTANCE_ID''),
      ga_BaseDomain = TrimSuffix (TrimSpace (getenv ''DEDICATED_GATEWAY_BASE_DOMAIN'')) ''.'',
      ga_PriorityMin = priorityMin, ga_PriorityMax = priorityMax\<rparr>"

text \<open>Which of several missing settings is reported is left to the order of a Go map; the model reports none of them by name.\<close>

definition settings_fault :: "automation_config \<Rightarrow> config_fault option" where
  "settings_fault cfg =
     (if \<not> ga_Enabled cfg then None
      else if [] \<in> {ga_Region cfg, ga_ListenerARN cfg, ga_VPCID cfg, ga_InstanceID cfg, ga_BaseDomain cfg} then Some MissingSetting
      else if Contains (ga_BaseDomain cfg) ''://'' then Some NotADomainName
      else if list_ex (\<lambda>c. c \<in> {CHR ''/'', CHR '' '', CHR 0x09, CHR 0x0D, CHR 0x0A}) (ga_BaseDomain cfg) then Some InvalidDomainName
      else if ga_PriorityMin cfg < 1 \<or> ga_PriorityMax cfg > 50000 \<or> ga_PriorityMin cfg > ga_PriorityMax cfg then Some InvalidPriorityRange
      else None)"

definition loadDedicatedGatewayAutomationConfig :: "(string \<Rightarrow> string) \<Rightarrow> config_fault + automation_config" where
  "loadDedicatedGatewayAutomationConfig getenv =
     (case readDedicatedGatewayEnvInt getenv ''DEDICATED_GATEWAY_RULE_PRIORITY_MIN'' 1000 of
        Inl e \<Rightarrow> Inl e
      | Inr priorityMin \<Rightarrow>
     (case readDedicatedGatewayEnvInt getenv ''DEDICATED_GATEWAY_RULE_PRIORITY_MAX'' 40000 of
        Inl e \<Rightarrow> Inl e
      | Inr priorityMax \<Rightarrow>
          let cfg = automation_settings getenv priorityMin priorityMax
          in (case settings_fault cfg of Some e \<Rightarrow> Inl e | None \<Rightarrow> Inr cfg)))"

section \<open>A browser is let in by current origins\<close>

lemma GetDashboardOrigins_found:
  "GetDashboardOrigins env pg projectID db = Inr os \<Longrightarrow>
     \<exists>i p. pg projectID = Some i \<and> List.find (\<lambda>p. prj_ID p = i \<and> prj_live p) (td_projects db) = Some p \<and> prj_Origins p = os"
  by (auto simp: GetDashboardOrigins_def tx_read_def split: option.splits)

text \<open>
  The life of a cache: requests fill it, other requests change the tables in any way, and an entry may be dropped at any
  time. The history has every state of the tables with the time it was looked at.
\<close>

inductive cache_run :: "(string \<Rightarrow> uuid option) \<Rightarrow> go_duration \<Rightarrow> (go_time \<times> tenancy) list \<Rightarrow> origin_cache \<Rightarrow> bool"
  for pg ttl where
  cr_new: "cache_run pg ttl [] (NewOriginCache ttl)"
| cr_get: "cache_run pg ttl h c \<Longrightarrow> cache_run pg ttl ((de_clock env, db) # h) (snd (OriginCache_Get env pg db projectID c))"
| cr_drop: "cache_run pg ttl h c \<Longrightarrow> cache_run pg ttl h (OriginCache_Invalidate projectID c)"

text \<open>The origins of a project in a state of the tables.\<close>

definition had_origin :: "(string \<Rightarrow> uuid option) \<Rightarrow> string \<Rightarrow> string \<Rightarrow> tenancy \<Rightarrow> bool" where
  "had_origin pg projectID origin db \<longleftrightarrow> (\<exists>i p. pg projectID = Some i
     \<and> List.find (\<lambda>p. prj_ID p = i \<and> prj_live p) (td_projects db) = Some p \<and> origin \<in> set (prj_Origins p))"

lemma refill_had: "GetDashboardOrigins env pg projectID db = Inr os \<Longrightarrow> origin \<in> set os \<Longrightarrow> had_origin pg projectID origin db"
  by (auto simp: had_origin_def dest!: GetDashboardOrigins_found)

lemma cache_entries:
  assumes "cache_run pg ttl h c"
  shows "oc_ttl c = ttl \<and> (\<forall>projectID entry. oc_data c projectID = Some entry \<longrightarrow>
    (\<exists>(t0, db) \<in> set h. oe_expiresAt entry = t0 + ttl \<and> (\<forall>origin \<in> set (oe_origins entry). had_origin pg projectID origin db)))"
  using assms
proof induction
  case (cr_get h c env db projectID)
  then show ?case
    by (auto simp: OriginCache_Get_def split: option.splits sum.splits if_splits dest: refill_had)
qed (auto simp: NewOriginCache_def OriginCache_Invalidate_def split: if_splits)

text \<open>
  The browser gets in only for an origin of the static list, or for one that the project named in the path has or
  had, in a state of the tables that was read less than the life time of the cache ago.
\<close>

theorem allowed_origins_are_current:
  assumes "cache_run pg ttl h c" "co_allowed (fst (DynamicCORS staticOrigins env pg db method origin projectParam (Some c)))"
  shows "origin \<noteq> [] \<and> (origin \<in> set staticOrigins \<or> projectParam \<noteq> [] \<and> (had_origin pg projectParam origin db
    \<or> (\<exists>(t0, db0) \<in> set h. de_clock env < t0 + ttl \<and> had_origin pg projectParam origin db0)))"
proof (cases "origin \<in> set staticOrigins")
  case True
  then show ?thesis using assms(2) by (auto simp: DynamicCORS_def split: if_splits)
next
  case False
  then have ne: "origin \<noteq> []" "projectParam \<noteq> []"
    and get: "\<exists>os. fst (OriginCache_Get env pg db projectParam c) = Inr os \<and> origin \<in> set os"
    using assms(2) by (auto simp: DynamicCORS_def Let_def split: if_splits prod.splits sum.splits)
  then obtain os where os: "fst (OriginCache_Get env pg db projectParam c) = Inr os" "origin \<in> set os" by blast
  consider (hit) entry where "oc_data c projectParam = Some entry" "de_clock env < oe_expiresAt entry" "os = oe_origins entry"
    | (miss) "GetDashboardOrigins env pg projectParam db = Inr os"
    using os(1) by (auto simp: OriginCache_Get_def split: option.splits sum.splits if_splits)
  then show ?thesis
  proof cases
    case hit
    then show ?thesis using cache_entries [OF assms(1)] os(2) ne by fastforce
  next
    case miss
    then show ?thesis using refill_had [OF miss os(2)] ne by blast
  qed
qed

text \<open>
  Replaced origins apply at once, in the process that replaced them: from then on a browser gets in for the path of the project
  exactly with a static origin or one of the new ones.
\<close>

theorem replaced_origins_apply_at_once:
  assumes "Service_UpdateDashboardOrigins env pg projectID origins db (Some c) = (None, db', Some c')"
    and "projectID \<noteq> []" "origin \<noteq> []" "de_fault env' ''get dashboard origins'' = None"
  shows "co_allowed (fst (DynamicCORS staticOrigins env' pg db' method origin projectID (Some c'))) \<longleftrightarrow>
    origin \<in> set staticOrigins \<or> origin \<in> set origins"
proof -
  obtain i where i: "pg projectID = Some i" and upd: "UpdateDashboardOrigins env i origins db = (None, db')"
    and c': "c' = OriginCache_Invalidate projectID c"
    using assms(1) by (auto simp: Service_UpdateDashboardOrigins_def split: option.splits prod.splits)
  let ?P = "\<lambda>p. prj_ID p = i \<and> prj_live p"
  let ?f = "\<lambda>p. p\<lparr>prj_Origins := origins, prj_UpdatedAt := de_now env\<rparr>"
  have rows: "td_projects db' = sql_update ?P ?f (td_projects db)" and some: "filter ?P (td_projects db) \<noteq> []"
    using upd by (auto simp: UpdateDashboardOrigins_def project_exec_def tx_try_def Let_def split: if_splits option.splits)
  obtain p where p: "List.find ?P (td_projects db) = Some p"
    using some by (auto simp: filter_empty_conv find_None_iff dest: not_None_eq [THEN iffD1] elim: option.exhaust_sel) (metis (mono_tags, lifting) find_None_iff2 option.exhaust)
  have "List.find ?P (td_projects db') = Some (?f p)"
    unfolding rows using p find_SomeD [OF p] by (subst find_sql_update) auto
  then have "GetDashboardOrigins env' pg projectID db' = Inr origins"
    using i assms(4) by (simp add: GetDashboardOrigins_def tx_read_def)
  then have "\<exists>c''. OriginCache_Get env' pg db' projectID c' = (Inr origins, c'')"
    by (simp add: OriginCache_Get_def c' OriginCache_Invalidate_def)
  then show ?thesis using assms(2,3) by (auto simp: DynamicCORS_def)
qed

section \<open>Pages cover the rows\<close>

lemma concat_slices: "concat (map (\<lambda>k. take n (drop (k * n) xs)) [0..<m]) = take (m * n) xs"
proof (induction m)
  case (Suc m)
  have "Suc m * n = m * n + n" by simp
  then show ?case using Suc by (simp only: upt_Suc_append map_append concat_append take_add) simp
qed simp

text \<open>Turning through all the pages of a list gives every row once, in order.\<close>

theorem pages_cover_the_rows:
  assumes "0 < limit"
  shows "concat (map (\<lambda>k. page limit ((k - 1) * limit) rows) [1..pn_TotalPages (BuildPagination pg limit (int (length rows)))]) = rows"
proof -
  let ?n = "nat limit"
  define m where "m = nat (pn_TotalPages (BuildPagination pg limit (int (length rows))))"
  have tp: "pn_TotalPages (BuildPagination pg limit (int (length rows))) = int m"
    using assms by (simp add: m_def BuildPagination_def pos_imp_zdiv_nonneg_iff)
  have enough: "length rows \<le> m * ?n"
  proof (cases "rows = []")
    case False
    have dm: "int (length rows) = int (length rows) div limit * limit + int (length rows) mod limit" "int (length rows) mod limit < limit"
      using assms by simp_all
    have "int (length rows) \<le> pn_TotalPages (BuildPagination pg limit (int (length rows))) * limit"
      using False assms by (simp add: BuildPagination_def distrib_right) (use dm in linarith)
    then have "int (length rows) \<le> int (m * ?n)" using assms by (simp add: tp)
    then show ?thesis by linarith
  qed simp
  have upto: "[1..int m] = map (\<lambda>k. int k + 1) [0..<m]"
    by (rule nth_equalityI) simp_all
  have slice: "page limit (int k * limit) rows = take ?n (drop (k * ?n) rows)" for k
    using assms by (simp add: page_def nat_mult_distrib)
  show ?thesis using enough by (simp add: tp upto slice o_def concat_slices)
qed

text \<open>The offset of a page is exact up to page \<open>2 ^ 56\<close>, and wraps around to a negative one, which the database refuses, for some page behind.\<close>

theorem page_offset_exact:
  assumes "ParsePaginationOffset pageStr limitStr = Inr (pg, limit, offset)"
  shows "1 \<le> pg \<and> 1 \<le> limit \<and> limit \<le> 100 \<and> (pg \<le> 2 ^ 56 \<longrightarrow> offset = (pg - 1) * limit)"
proof -
  have b: "1 \<le> pg" "1 \<le> limit" "limit \<le> 100" and off: "offset = int64 ((pg - 1) * limit)"
    using assms by (auto simp: ParsePaginationOffset_def ParsePagination_def split: option.splits sum.splits if_splits)
  have "offset = (pg - 1) * limit" if "pg \<le> 2 ^ 56"
  proof -
    have "0 \<le> (pg - 1) * limit" using b by simp
    moreover have "(pg - 1) * limit \<le> 2 ^ 56 * 100" using that b by (intro mult_mono) simp_all
    ultimately show ?thesis unfolding off int64_def by (subst mod_pos_pos_trivial) simp_all
  qed
  then show ?thesis using b by blast
qed

lemma page_offset_wraps: "ParsePaginationOffset ''9223372036854775807'' ''100'' = Inr (9223372036854775807, 100, -200)"
  by code_simp

section \<open>Settings that are accepted\<close>

theorem automation_settings_are_usable:
  assumes "loadDedicatedGatewayAutomationConfig getenv = Inr cfg" "ga_Enabled cfg"
  shows "1 \<le> ga_PriorityMin cfg \<and> ga_PriorityMin cfg \<le> ga_PriorityMax cfg \<and> ga_PriorityMax cfg \<le> 50000
    \<and> ga_BaseDomain cfg \<noteq> [] \<and> CHR ''/'' \<notin> set (ga_BaseDomain cfg) \<and> ga_Region cfg \<noteq> [] \<and> ga_ListenerARN cfg \<noteq> []
    \<and> ga_VPCID cfg \<noteq> [] \<and> ga_InstanceID cfg \<noteq> []"
proof -
  have "settings_fault cfg = None"
    using assms(1) by (auto simp: loadDedicatedGatewayAutomationConfig_def Let_def split: sum.splits option.splits)
  then show ?thesis using assms(2) by (auto simp: settings_fault_def list_ex_iff split: if_splits)
qed

end
